(* ===== verification/Prelude.thy ===== *)
theory Prelude
  imports Main "HOL-Library.Word"
begin

text \<open>
  Prelude of the development: the state-and-error programs every component is written in, the
  rules that carry the component proofs, and the few byte-string functions of the Go and SQL
  standard libraries the code calls.

  A Go function that reads and writes the database and returns \<open>(T, error)\<close> is a \<open>prog\<close>: a function
  from the database to a sum (\<open>Inl\<close> the error, \<open>Inr\<close> the value) and the next database.
\<close>

section \<open>Programs\<close>

type_synonym ('s, 'e, 'a) prog = "'s \<Rightarrow> ('e + 'a) \<times> 's"

named_theorems prog_defs "definitions of the program combinators"
named_theorems pres_intros "preservation rules of the program combinators and of the operations"

definition ret :: "'a \<Rightarrow> ('s, 'e, 'a) prog" where
  [prog_defs]: "ret x = (\<lambda>s. (Inr x, s))"

definition throw :: "'e \<Rightarrow> ('s, 'e, 'a) prog" where
  [prog_defs]: "throw e = (\<lambda>s. (Inl e, s))"

definition andThen :: "('s, 'e, 'a) prog \<Rightarrow> ('a \<Rightarrow> ('s, 'e, 'b) prog) \<Rightarrow> ('s, 'e, 'b) prog" where
  [prog_defs]: "andThen m k =
    (\<lambda>s. case m s of (Inl e, t) \<Rightarrow> (Inl e, t) | (Inr x, t) \<Rightarrow> k x t)"

text \<open>\<open>onError\<close> is Go's \<open>if err != nil { return translate(err) }\<close>; the state of the failed call is kept.\<close>

definition onError :: "('e \<Rightarrow> 'e) \<Rightarrow> ('s, 'e, 'a) prog \<Rightarrow> ('s, 'e, 'a) prog" where
  [prog_defs]: "onError f m = (\<lambda>s. case m s of (Inl e, t) \<Rightarrow> (Inl (f e), t) | (Inr x, t) \<Rightarrow> (Inr x, t))"

definition reads :: "('s \<Rightarrow> 'a) \<Rightarrow> ('s, 'e, 'a) prog" where
  [prog_defs]: "reads f = (\<lambda>s. (Inr (f s), s))"

definition liftS :: "'e + 'a \<Rightarrow> ('s, 'e, 'a) prog" where
  [prog_defs]: "liftS r = (\<lambda>s. (r, s))"

definition updates :: "('s \<Rightarrow> 's) \<Rightarrow> ('s, 'e, unit) prog" where
  [prog_defs]: "updates f = (\<lambda>s. (Inr (), f s))"

definition guardE :: "bool \<Rightarrow> 'e \<Rightarrow> ('s, 'e, unit) prog" where
  [prog_defs]: "guardE b e = (\<lambda>s. if b then (Inr (), s) else (Inl e, s))"

subsection \<open>Successful runs\<close>

lemma ret_Inr_iff [simp]: "ret x s = (Inr y, t) \<longleftrightarrow> y = x \<and> t = s"
  by (auto simp: ret_def)

lemma ret_Inl_iff [simp]: "ret x s = (Inl e, t) \<longleftrightarrow> False"
  by (simp add: ret_def)

lemma throw_Inr_iff [simp]: "throw e s = (Inr y, t) \<longleftrightarrow> False"
  by (simp add: throw_def)

lemma throw_Inl_iff [simp]: "throw e s = (Inl d, t) \<longleftrightarrow> d = e \<and> t = s"
  by (auto simp: throw_def)

lemma reads_Inr_iff [simp]: "reads f s = (Inr y, t) \<longleftrightarrow> y = f s \<and> t = s"
  by (auto simp: reads_def)

lemma reads_Inl_iff [simp]: "reads f s = (Inl e, t) \<longleftrightarrow> False"
  by (simp add: reads_def)

lemma liftS_iff [simp]: "liftS r s = (q, t) \<longleftrightarrow> r = q \<and> t = s"
  by (auto simp: liftS_def)

lemma updates_Inr_iff [simp]: "updates f s = (Inr y, t) \<longleftrightarrow> t = f s"
  by (auto simp: updates_def)

lemma updates_Inl_iff [simp]: "updates f s = (Inl e, t) \<longleftrightarrow> False"
  by (simp add: updates_def)

lemma guardE_Inr_iff [simp]: "guardE b e s = (Inr y, t) \<longleftrightarrow> b \<and> t = s"
  by (auto simp: guardE_def)

lemma guardE_Inl_iff [simp]: "guardE b e s = (Inl d, t) \<longleftrightarrow> \<not> b \<and> d = e \<and> t = s"
  by (auto simp: guardE_def)

lemma andThen_Inr_iff:
  "andThen m k s = (Inr y, t) \<longleftrightarrow> (\<exists>x u. m s = (Inr x, u) \<and> k x u = (Inr y, t))"
  by (auto simp: andThen_def split: prod.splits sum.splits)

lemma andThen_Inl_iff:
  "andThen m k s = (Inl e, t) \<longleftrightarrow>
    m s = (Inl e, t) \<or> (\<exists>x u. m s = (Inr x, u) \<and> k x u = (Inl e, t))"
  by (auto simp: andThen_def split: prod.splits sum.splits)

lemma andThen_InrE:
  assumes "andThen m k s = (Inr y, t)"
  obtains x u where "m s = (Inr x, u)" "k x u = (Inr y, t)"
  using assms by (auto simp: andThen_Inr_iff)

lemma onError_Inr_iff [simp]: "onError f m s = (Inr y, t) \<longleftrightarrow> m s = (Inr y, t)"
  by (auto simp: onError_def split: prod.splits sum.splits)

lemma onError_Inl_iff:
  "onError f m s = (Inl e, t) \<longleftrightarrow> (\<exists>d. m s = (Inl d, t) \<and> e = f d)"
  by (auto simp: onError_def split: prod.splits sum.splits)

lemma andThen_assoc: "andThen (andThen m k) h = andThen m (\<lambda>x. andThen (k x) h)"
  by (auto simp: andThen_def fun_eq_iff split: prod.splits sum.splits)

lemma andThen_ret [simp]: "andThen m ret = m" "andThen (ret x) k = k x"
  by (auto simp: andThen_def ret_def fun_eq_iff split: prod.splits sum.splits)

lemma andThen_step: "m s = (Inr x, t) \<Longrightarrow> andThen m k s = k x t"
  by (simp add: andThen_def)

lemma andThen_fail: "m s = (Inl e, t) \<Longrightarrow> andThen m k s = (Inl e, t)"
  by (simp add: andThen_def)

lemmas prog_iffs = andThen_Inr_iff andThen_Inl_iff onError_Inl_iff

subsection \<open>Preservation and triples\<close>

definition preserves :: "('s \<Rightarrow> bool) \<Rightarrow> ('s, 'e, 'a) prog \<Rightarrow> bool" where
  "preserves I m \<longleftrightarrow> (\<forall>s. I s \<longrightarrow> I (snd (m s)))"

definition triple :: "('s \<Rightarrow> bool) \<Rightarrow> ('s, 'e, 'a) prog \<Rightarrow> ('a \<Rightarrow> 's \<Rightarrow> bool) \<Rightarrow> ('s \<Rightarrow> bool) \<Rightarrow> bool" where
  "triple P m Q E \<longleftrightarrow>
    (\<forall>s. P s \<longrightarrow> (case m s of (Inr x, t) \<Rightarrow> Q x t | (Inl e, t) \<Rightarrow> E t))"

lemma preservesI: "(\<And>s. I s \<Longrightarrow> I (snd (m s))) \<Longrightarrow> preserves I m"
  by (simp add: preserves_def)

lemma preservesD: "preserves I m \<Longrightarrow> m s = (r, t) \<Longrightarrow> I s \<Longrightarrow> I t"
  by (metis preserves_def snd_conv)

lemma preserves_triple: "preserves I m \<longleftrightarrow> triple I m (\<lambda>_. I) I"
  unfolding preserves_def triple_def
  by (rule iff_allI) (auto split: prod.splits sum.splits)

lemma tripleD_Inr: "triple P m Q E \<Longrightarrow> P s \<Longrightarrow> m s = (Inr x, t) \<Longrightarrow> Q x t"
  by (auto simp: triple_def split: prod.splits sum.splits)

lemma tripleI:
  assumes "\<And>s x t. P s \<Longrightarrow> m s = (Inr x, t) \<Longrightarrow> Q x t"
    and "\<And>s e t. P s \<Longrightarrow> m s = (Inl e, t) \<Longrightarrow> E t"
  shows "triple P m Q E"
  using assms by (auto simp: triple_def split: prod.splits sum.splits)

lemma triple_andThen:
  assumes "triple P m R E" and "\<And>x. triple (R x) (k x) Q E"
  shows "triple P (andThen m k) Q E"
  using assms by (fastforce simp: triple_def andThen_def split: prod.splits sum.splits)

lemma triple_weaken:
  assumes "triple P' m Q' E'" and "\<And>s. P s \<Longrightarrow> P' s"
    and "\<And>x s. Q' x s \<Longrightarrow> Q x s" and "\<And>s. E' s \<Longrightarrow> E s"
  shows "triple P m Q E"
  using assms by (fastforce simp: triple_def split: prod.splits sum.splits)

lemma preserves_ret [pres_intros]: "preserves I (ret x)"
  by (simp add: preserves_def ret_def)

lemma preserves_throw [pres_intros]: "preserves I (throw e)"
  by (simp add: preserves_def throw_def)

lemma preserves_reads [pres_intros]: "preserves I (reads f)"
  by (simp add: preserves_def reads_def)

lemma preserves_liftS [pres_intros]: "preserves I (liftS r)"
  by (simp add: preserves_def liftS_def)

lemma preserves_guardE [pres_intros]: "preserves I (guardE b e)"
  by (simp add: preserves_def guardE_def)

lemma preserves_andThen [pres_intros]:
  "preserves I m \<Longrightarrow> (\<And>x. preserves I (k x)) \<Longrightarrow> preserves I (andThen m k)"
  by (simp add: preserves_def andThen_def split: prod.splits sum.splits) (metis snd_conv)

lemma preserves_onError [pres_intros]: "preserves I m \<Longrightarrow> preserves I (onError f m)"
  by (simp add: preserves_def onError_def split: prod.splits sum.splits) (metis snd_conv)

lemma preserves_if [pres_intros]:
  "(b \<Longrightarrow> preserves I m) \<Longrightarrow> (\<not> b \<Longrightarrow> preserves I n) \<Longrightarrow> preserves I (if b then m else n)"
  by simp

lemma preserves_case_option [pres_intros]:
  "preserves I m \<Longrightarrow> (\<And>x. preserves I (f x)) \<Longrightarrow>
    preserves I (case p of None \<Rightarrow> m | Some x \<Rightarrow> f x)"
  by (cases p) auto

lemma preserves_case_prod [pres_intros]:
  "(\<And>x y. preserves I (f x y)) \<Longrightarrow> preserves I (case p of (x, y) \<Rightarrow> f x y)"
  by (cases p) auto

section \<open>Lists as tables\<close>

definition sort_by :: "('a \<Rightarrow> 'a \<Rightarrow> bool) \<Rightarrow> 'a list \<Rightarrow> 'a list" where
  "sort_by le xs = foldr (\<lambda>x ys. takeWhile (\<lambda>y. \<not> le x y) ys @ x # dropWhile (\<lambda>y. \<not> le x y) ys) xs []"

lemma set_sort_by [simp]: "set (sort_by le xs) = set xs"
proof -
  have "set (takeWhile P ys) \<union> set (dropWhile P ys) = set ys" for P and ys :: "'a list"
    by (metis set_append takeWhile_dropWhile_id)
  then show ?thesis by (induction xs) (auto simp: sort_by_def)
qed

lemma length_sort_by [simp]: "length (sort_by le xs) = length xs"
proof -
  have "length (takeWhile P ys) + length (dropWhile P ys) = length ys" for P and ys :: "'a list"
    by (metis length_append takeWhile_dropWhile_id)
  then show ?thesis by (induction xs) (simp_all add: sort_by_def)
qed

lemma distinct_sort_by [simp]: "distinct (sort_by le xs) \<longleftrightarrow> distinct xs"
  by (metis card_distinct distinct_card length_sort_by set_sort_by)

definition limit_offset :: "int \<Rightarrow> int \<Rightarrow> 'a list \<Rightarrow> 'a list" where
  "limit_offset lim off xs = take (nat lim) (drop (nat off) xs)"

lemma set_limit_offset: "set (limit_offset l k xs) \<subseteq> set xs"
  by (auto simp: limit_offset_def dest: in_set_takeD in_set_dropD)

lemma length_limit_offset: "int (length (limit_offset l k xs)) \<le> max 0 l"
  by (simp add: limit_offset_def)

lemma distinct_map_filter: "distinct (map f xs) \<Longrightarrow> distinct (map f (filter P xs))"
  by (simp add: distinct_map inj_on_filter_key_eq[symmetric] inj_on_def)

lemma filter_eq_single:
  "distinct (map f xs) \<Longrightarrow> x \<in> set xs \<Longrightarrow> filter (\<lambda>y. f y = f x) xs = [x]"
  by (induction xs) (auto simp: filter_empty_conv, metis imageI)

lemma filter_singleD:
  assumes "filter P xs = [u]"
  shows "u \<in> set xs" "P u" "w \<in> set xs \<Longrightarrow> P w \<Longrightarrow> w = u"
proof -
  have "{w \<in> set xs. P w} = {u}" using assms by (metis empty_set list.simps(15) set_filter)
  then show "u \<in> set xs" "P u" "w \<in> set xs \<Longrightarrow> P w \<Longrightarrow> w = u" by blast+
qed

lemma concat_map_single:
  "distinct xs \<Longrightarrow> x \<in> set xs \<Longrightarrow> (\<And>y. y \<in> set xs \<Longrightarrow> y \<noteq> x \<Longrightarrow> f y = []) \<Longrightarrow>
    concat (map f xs) = f x"
proof (induction xs)
  case (Cons a xs)
  show ?case
  proof (cases "a = x")
    case True
    with Cons.prems have "\<forall>y \<in> set xs. f y = []" by auto
    with True show ?thesis by (simp add: concat_eq_Nil_conv)
  next
    case False
    with Cons show ?thesis by auto
  qed
qed simp

lemma distinct_key_unique:
  "distinct (map f xs) \<Longrightarrow> x \<in> set xs \<Longrightarrow> y \<in> set xs \<Longrightarrow> f x = f y \<Longrightarrow> x = y"
  by (auto simp: distinct_map inj_on_def)

lemma length_filter_le_one:
  "distinct (map f xs) \<Longrightarrow> length (filter (\<lambda>y. f y = k \<and> P y) xs) \<le> 1"
proof (induction xs)
  case (Cons a xs)
  then show ?case
    by (cases "f a = k") (auto simp: filter_empty_conv image_iff)
qed simp

section \<open>Byte strings\<close>

text \<open>
  Go strings are byte strings, and so are the model's. The case and space functions of the Go and SQL
  libraries are modelled on ASCII; bytes above 127 are left as they are.
\<close>

definition byte :: "char \<Rightarrow> nat" where
  "byte c = of_char c"

definition lower_char :: "char \<Rightarrow> char" where
  "lower_char c = (if 65 \<le> byte c \<and> byte c \<le> 90 then char_of (byte c + 32) else c)"

definition toLower :: "string \<Rightarrow> string" where
  "toLower s = map lower_char s"

definition isSpace :: "char \<Rightarrow> bool" where
  "isSpace c \<longleftrightarrow> byte c = 32 \<or> (9 \<le> byte c \<and> byte c \<le> 13)"

definition trimBy :: "(char \<Rightarrow> bool) \<Rightarrow> string \<Rightarrow> string" where
  "trimBy p s = rev (dropWhile p (rev (dropWhile p s)))"

definition trimSpace :: "string \<Rightarrow> string" where
  "trimSpace s = trimBy isSpace s"

definition btrim :: "string \<Rightarrow> string" where
  "btrim s = trimBy (\<lambda>c. byte c = 32) s"

lemma lower_char_idem [simp]: "lower_char (lower_char c) = lower_char c"
  by (auto simp: lower_char_def byte_def)

lemma toLower_idem [simp]: "toLower (toLower s) = toLower s"
  by (simp add: toLower_def)

lemma trimBy_id_iff:
  "trimBy p s = s \<longleftrightarrow> s = [] \<or> (\<not> p (hd s) \<and> \<not> p (last s))"
proof (cases s)
  case (Cons c cs)
  have len: "length (trimBy p s) \<le> length (dropWhile p s)"
    by (metis length_dropWhile_le length_rev trimBy_def)
  show ?thesis
  proof (cases "p c")
    case True
    then have "length (dropWhile p s) < length s"
      using Cons by (simp add: length_dropWhile_le le_imp_less_Suc)
    then have "trimBy p s \<noteq> s" using len by auto
    then show ?thesis using True Cons by simp
  next
    case False
    then have "trimBy p s = rev (dropWhile p (rev s))" using Cons by (simp add: trimBy_def)
    moreover have "dropWhile p (rev s) = rev s \<longleftrightarrow> \<not> p (last s)"
      using Cons by (simp add: dropWhile_eq_self_iff hd_rev del: rev.simps)
    ultimately show ?thesis using False Cons by (metis list.sel(1) list.simps(3) rev_rev_ident)
  qed
qed (simp add: trimBy_def)

lemma trimSpace_imp_btrim: "trimSpace s = s \<Longrightarrow> btrim s = s"
  by (auto simp: trimSpace_def btrim_def trimBy_id_iff isSpace_def)

end
