(* ===== verification/Errors.thy ===== *)
theory Errors
  imports Prelude
begin

text \<open>
  The errors of the backend (\<open>internal/core/mdl/errors.go\<close>, \<open>internal/data/pgdb/errors.go\<close>). Go code
  wraps an error with \<open>%w\<close> and later asks \<open>errors.Is(err, sentinel)\<close>; the only thing that can be
  observed of the wrapped error is the sentinel inside, so a value of \<open>error\<close> is that sentinel. Errors
  without a sentinel are \<open>ErrMsg\<close> (made by \<open>errors.New\<close>) or \<open>PgOther\<close> (a server error passed through by
  \<open>translatePgErr\<close>). A panic unwinding the stack is \<open>GoPanic\<close>.
\<close>

datatype error =
    ErrNotFound
  | ErrAlreadyExists
  | ErrETagMismatch
  | ErrPermissionDenied
  | ErrManagedRole
  | ErrInvalidAssignmentScope
  | ErrLastFullyPrivilegedSystemAdmin
  | ErrTokenInvalid
  | ErrRateLimited
  | ErrValidation
  | ErrControlProjectNameConflict
  | ErrOrgCreatorNotFound
  | SqlErrNoRows
  | PgErrAlreadyExists
  | PgErrETagMismatch
  | PgErrCheckConstraintViolated
  | PgErrTooManyRows
  | PgOther string
  | ErrMsg string
  | GoPanic string

text \<open>SQLSTATE classes of a server error, and \<open>translatePgErr\<close>.\<close>

definition ErrCodeUniqueViolation :: string where
  "ErrCodeUniqueViolation = ''23505''"

definition ErrCodeCheckViolation :: string where
  "ErrCodeCheckViolation = ''23514''"

definition ErrCodeForeignKeyViolation :: string where
  "ErrCodeForeignKeyViolation = ''23503''"

definition translatePgErr :: "error \<Rightarrow> error" where
  "translatePgErr err = (case err of
      PgOther code \<Rightarrow>
        if code = ErrCodeUniqueViolation then PgErrAlreadyExists
        else if code = ErrCodeCheckViolation then PgErrCheckConstraintViolated
        else err
    | _ \<Rightarrow> err)"

lemma translatePgErr_simps [simp]:
  "translatePgErr (PgOther ErrCodeUniqueViolation) = PgErrAlreadyExists"
  "translatePgErr (PgOther ErrCodeCheckViolation) = PgErrCheckConstraintViolated"
  "translatePgErr (PgOther ErrCodeForeignKeyViolation) = PgOther ErrCodeForeignKeyViolation"
  by (simp_all add: translatePgErr_def ErrCodeUniqueViolation_def ErrCodeCheckViolation_def
      ErrCodeForeignKeyViolation_def)

lemma translatePgErr_other [simp]:
  "(\<And>c. err \<noteq> PgOther c) \<Longrightarrow> translatePgErr err = err"
  by (cases err) (auto simp: translatePgErr_def)

definition isPanic :: "error \<Rightarrow> bool" where
  "isPanic e \<longleftrightarrow> (case e of GoPanic _ \<Rightarrow> True | _ \<Rightarrow> False)"

end
