(* ===== verification/Pkg.thy ===== *)
theory Pkg
  imports Errors
begin

text \<open>
  The utility packages under \<open>src/backend/pkg\<close>: the generic set of \<open>pkg/set\<close>, the slice helpers of
  \<open>pkg/x/slicesx\<close> and the checked narrowing of \<open>pkg/mustconv\<close>, with the contract of the set package
  (locale \<open>goset\<close>) that the domain code relies on.

  A Go \<open>map[T]struct{}\<close> is its list of keys without repetition. Go leaves the iteration order
  unspecified; the list order is one such order, and every lemma below speaks of the elements only.
\<close>

section \<open>pkg/set\<close>

type_synonym 'a goset = "'a list"

definition mapPut :: "'a \<Rightarrow> 'a goset \<Rightarrow> 'a goset" where
  "mapPut v s = (if v \<in> set s then s else s @ [v])"

definition mapDelete :: "'a \<Rightarrow> 'a goset \<Rightarrow> 'a goset" where
  "mapDelete v s = filter (\<lambda>w. w \<noteq> v) s"

definition setNew :: "'a goset" where
  "setNew = []"

primrec setAdd :: "'a goset \<Rightarrow> 'a list \<Rightarrow> 'a goset" where
  "setAdd s [] = s"
| "setAdd s (v # vs) = setAdd (mapPut v s) vs"

primrec setRemove :: "'a goset \<Rightarrow> 'a list \<Rightarrow> 'a goset" where
  "setRemove s [] = s"
| "setRemove s (v # vs) = setRemove (mapDelete v s) vs"

primrec setFromSlice_loop :: "'a goset \<Rightarrow> 'a list \<Rightarrow> 'a goset" where
  "setFromSlice_loop s [] = s"
| "setFromSlice_loop s (v # vs) = setFromSlice_loop (setAdd s [v]) vs"

definition setFromSlice :: "'a list \<Rightarrow> 'a goset" where
  "setFromSlice vs = setFromSlice_loop setNew vs"

definition setLen :: "'a goset \<Rightarrow> int" where
  "setLen s = int (length s)"

definition setContains :: "'a goset \<Rightarrow> 'a \<Rightarrow> bool" where
  "setContains s v \<longleftrightarrow> v \<in> set s"

primrec setIsSuperset_loop :: "'a goset \<Rightarrow> 'a list \<Rightarrow> bool" where
  "setIsSuperset_loop s [] = True"
| "setIsSuperset_loop s (v # vs) = (if \<not> setContains s v then False else setIsSuperset_loop s vs)"

definition setIsSuperset :: "'a goset \<Rightarrow> 'a goset \<Rightarrow> bool" where
  "setIsSuperset s other = setIsSuperset_loop s other"

primrec setValues_loop :: "'a list \<Rightarrow> 'a goset \<Rightarrow> 'a list" where
  "setValues_loop result [] = result"
| "setValues_loop result (v # vs) = setValues_loop (result @ [v]) vs"

definition setValues :: "'a goset \<Rightarrow> 'a list" where
  "setValues s = setValues_loop [] s"

primrec setClone_loop :: "'a goset \<Rightarrow> 'a goset \<Rightarrow> 'a goset" where
  "setClone_loop result [] = result"
| "setClone_loop result (v # vs) = setClone_loop (mapPut v result) vs"

definition setClone :: "'a goset \<Rightarrow> 'a goset" where
  "setClone s = setClone_loop [] s"

primrec setUnion_loop :: "'a goset \<Rightarrow> 'a goset \<Rightarrow> 'a goset" where
  "setUnion_loop result [] = result"
| "setUnion_loop result (v # vs) = setUnion_loop (setAdd result [v]) vs"

definition setUnion :: "'a goset \<Rightarrow> 'a goset \<Rightarrow> 'a goset" where
  "setUnion s other = setUnion_loop (setClone s) other"

primrec setDifference_loop :: "'a goset \<Rightarrow> 'a goset \<Rightarrow> 'a goset \<Rightarrow> 'a goset" where
  "setDifference_loop result other [] = result"
| "setDifference_loop result other (v # vs) =
    setDifference_loop (if \<not> setContains other v then setAdd result [v] else result) other vs"

definition setDifference :: "'a goset \<Rightarrow> 'a goset \<Rightarrow> 'a goset" where
  "setDifference s other = setDifference_loop setNew other s"

definition setSymmetricDifference :: "'a goset \<Rightarrow> 'a goset \<Rightarrow> 'a goset" where
  "setSymmetricDifference s other = setUnion (setDifference s other) (setDifference other s)"

primrec setIntersection_loop :: "'a goset \<Rightarrow> 'a goset \<Rightarrow> 'a goset \<Rightarrow> 'a goset" where
  "setIntersection_loop result other [] = result"
| "setIntersection_loop result other (v # vs) =
    setIntersection_loop (if setContains other v then setAdd result [v] else result) other vs"

definition setIntersection :: "'a goset \<Rightarrow> 'a goset \<Rightarrow> 'a goset" where
  "setIntersection s other =
    (let (s, other) = (if length other < length s then (other, s) else (s, other))
     in setIntersection_loop setNew other s)"

subsection \<open>Elements and the no-repetition invariant\<close>

lemma set_mapPut [simp]: "set (mapPut v s) = insert v (set s)"
  by (auto simp: mapPut_def)

lemma distinct_mapPut [simp]: "distinct (mapPut v s) \<longleftrightarrow> distinct s"
  by (auto simp: mapPut_def)

lemma set_mapDelete [simp]: "set (mapDelete v s) = set s - {v}"
  by (auto simp: mapDelete_def)

lemma set_setAdd [simp]: "set (setAdd s vs) = set s \<union> set vs"
  by (induction vs arbitrary: s) auto

lemma distinct_setAdd [simp]: "distinct (setAdd s vs) \<longleftrightarrow> distinct s"
  by (induction vs arbitrary: s) auto

lemma set_setRemove [simp]: "set (setRemove s vs) = set s - set vs"
  by (induction vs arbitrary: s) auto

lemma distinct_setRemove [simp]: "distinct s \<Longrightarrow> distinct (setRemove s vs)"
  by (induction vs arbitrary: s) (auto simp: mapDelete_def)

lemma setFromSlice_loop_add: "setFromSlice_loop s vs = setAdd s vs"
  by (induction vs arbitrary: s) auto

lemma set_setFromSlice [simp]: "set (setFromSlice vs) = set vs"
  by (simp add: setFromSlice_def setFromSlice_loop_add setNew_def)

lemma distinct_setFromSlice [simp]: "distinct (setFromSlice vs)"
  by (simp add: setFromSlice_def setFromSlice_loop_add setNew_def)

lemma setIsSuperset_iff [simp]: "setIsSuperset s t \<longleftrightarrow> set t \<subseteq> set s"
proof -
  have "setIsSuperset_loop s t \<longleftrightarrow> set t \<subseteq> set s"
    by (induction t) (auto simp: setContains_def)
  then show ?thesis by (simp add: setIsSuperset_def)
qed

lemma setValues_id [simp]: "setValues s = s"
proof -
  have "setValues_loop r s = r @ s" for r by (induction s arbitrary: r) auto
  then show ?thesis by (simp add: setValues_def)
qed

lemma setClone_add: "setClone s = setAdd [] s"
proof -
  have "setClone_loop r s = setAdd r s" for r by (induction s arbitrary: r) auto
  then show ?thesis by (simp add: setClone_def)
qed

lemma setUnion_add: "setUnion s t = setAdd (setClone s) t"
proof -
  have "setUnion_loop r t = setAdd r t" for r by (induction t arbitrary: r) auto
  then show ?thesis by (simp add: setUnion_def)
qed

lemma setDifference_add: "setDifference s t = setAdd [] (filter (\<lambda>v. v \<notin> set t) s)"
proof -
  have "setDifference_loop r t s = setAdd r (filter (\<lambda>v. v \<notin> set t) s)" for r
    by (induction s arbitrary: r) (auto simp: setContains_def)
  then show ?thesis by (simp add: setDifference_def setNew_def)
qed

lemma setIntersection_add:
  "setIntersection s t = setAdd []
    (if length t < length s then filter (\<lambda>v. v \<in> set s) t else filter (\<lambda>v. v \<in> set t) s)"
proof -
  have "setIntersection_loop r t s = setAdd r (filter (\<lambda>v. v \<in> set t) s)" for r t and s :: "'a list"
    by (induction s arbitrary: r) (auto simp: setContains_def)
  then show ?thesis by (simp add: setIntersection_def setNew_def)
qed

lemma set_setUnion [simp]: "set (setUnion s t) = set s \<union> set t"
  by (simp add: setUnion_add setClone_add)

lemma set_setDifference [simp]: "set (setDifference s t) = set s - set t"
  by (auto simp: setDifference_add)

lemma set_setIntersection [simp]: "set (setIntersection s t) = set s \<inter> set t"
  by (auto simp: setIntersection_add)

lemma set_setSymmetricDifference [simp]:
  "set (setSymmetricDifference s t) = (set s - set t) \<union> (set t - set s)"
  by (simp add: setSymmetricDifference_def)

lemma distinct_set_ops [simp]:
  "distinct (setUnion s t)" "distinct (setDifference s t)" "distinct (setIntersection s t)"
  "distinct (setSymmetricDifference s t)" "distinct (setClone s)"
  by (simp_all add: setUnion_add setClone_add setDifference_add setIntersection_add
      setSymmetricDifference_def)

lemma setLen_card: "distinct s \<Longrightarrow> setLen s = int (card (set s))"
  by (simp add: setLen_def distinct_card)

section \<open>The contract of pkg/set\<close>

text \<open>
  What the domain code relies on: \<open>elems\<close> abstracts a set value to the mathematical set, \<open>ok\<close> is the
  invariant of values built through the package.
\<close>

locale goset =
  fixes fromSlice :: "'a list \<Rightarrow> 's"
    and addS :: "'s \<Rightarrow> 'a list \<Rightarrow> 's"
    and removeS :: "'s \<Rightarrow> 'a list \<Rightarrow> 's"
    and isSuperset :: "'s \<Rightarrow> 's \<Rightarrow> bool"
    and symDiff :: "'s \<Rightarrow> 's \<Rightarrow> 's"
    and inter :: "'s \<Rightarrow> 's \<Rightarrow> 's"
    and lenS :: "'s \<Rightarrow> int"
    and valuesS :: "'s \<Rightarrow> 'a list"
    and elems :: "'s \<Rightarrow> 'a set"
    and ok :: "'s \<Rightarrow> bool"
  assumes fromSlice: "ok (fromSlice vs)" "elems (fromSlice vs) = set vs"
    and addS: "ok s \<Longrightarrow> ok (addS s vs)" "ok s \<Longrightarrow> elems (addS s vs) = elems s \<union> set vs"
    and removeS: "ok s \<Longrightarrow> ok (removeS s vs)" "ok s \<Longrightarrow> elems (removeS s vs) = elems s - set vs"
    and isSuperset: "ok s \<Longrightarrow> ok t \<Longrightarrow> isSuperset s t \<longleftrightarrow> elems t \<subseteq> elems s"
    and symDiff: "ok s \<Longrightarrow> ok t \<Longrightarrow> ok (symDiff s t)"
      "ok s \<Longrightarrow> ok t \<Longrightarrow> elems (symDiff s t) = (elems s - elems t) \<union> (elems t - elems s)"
    and inter: "ok s \<Longrightarrow> ok t \<Longrightarrow> ok (inter s t)"
      "ok s \<Longrightarrow> ok t \<Longrightarrow> elems (inter s t) = elems s \<inter> elems t"
    and lenS: "ok s \<Longrightarrow> lenS s = int (card (elems s))"
    and valuesS: "ok s \<Longrightarrow> set (valuesS s) = elems s" "ok s \<Longrightarrow> distinct (valuesS s)"
begin

lemma superset_slices: "isSuperset (fromSlice held) (fromSlice req) \<longleftrightarrow> set req \<subseteq> set held"
  by (simp add: isSuperset fromSlice)

lemma changed_slices:
  "set (valuesS (symDiff (fromSlice cur) (fromSlice new))) = (set cur - set new) \<union> (set new - set cur)"
  by (simp add: valuesS symDiff fromSlice)

lemma overlap_slices: "lenS (inter (fromSlice xs) (fromSlice ys)) \<noteq> 0 \<longleftrightarrow> set xs \<inter> set ys \<noteq> {}"
  by (simp add: lenS inter fromSlice card_eq_0_iff)

lemma next_slices:
  "set (valuesS (removeS (addS (fromSlice cur) add) rem)) = (set cur \<union> set add) - set rem"
  by (simp add: valuesS removeS addS fromSlice)

end

interpretation gs: goset setFromSlice setAdd setRemove setIsSuperset setSymmetricDifference
  setIntersection setLen setValues set distinct
  by unfold_locales (simp_all add: setLen_card)

section \<open>pkg/x/slicesx\<close>

primrec sliceMap_loop :: "('a \<Rightarrow> 'b) \<Rightarrow> 'b list \<Rightarrow> 'a list \<Rightarrow> 'b list" where
  "sliceMap_loop f out [] = out"
| "sliceMap_loop f out (e # es) = sliceMap_loop f (out @ [f e]) es"

definition sliceMap :: "'a list \<Rightarrow> ('a \<Rightarrow> 'b) \<Rightarrow> 'b list" where
  "sliceMap s f = sliceMap_loop f [] s"

primrec countFunc_loop :: "('a \<Rightarrow> bool) \<Rightarrow> int \<Rightarrow> 'a list \<Rightarrow> int" where
  "countFunc_loop f count [] = count"
| "countFunc_loop f count (e # es) = countFunc_loop f (if f e then count + 1 else count) es"

definition countFunc :: "'a list \<Rightarrow> ('a \<Rightarrow> bool) \<Rightarrow> int" where
  "countFunc s f = countFunc_loop f 0 s"

lemma sliceMap_map [simp]: "sliceMap s f = map f s"
proof -
  have "sliceMap_loop f out s = out @ map f s" for out by (induction s arbitrary: out) auto
  then show ?thesis by (simp add: sliceMap_def)
qed

lemma countFunc_filter: "countFunc s f = int (length (filter f s))"
proof -
  have "countFunc_loop f n s = n + int (length (filter f s))" for n
    by (induction s arbitrary: n) auto
  then show ?thesis by (simp add: countFunc_def)
qed

section \<open>pkg/mustconv\<close>

definition Int32 :: "int \<Rightarrow> error + 32 word" where
  "Int32 i = (if i < - 2147483648 \<or> i > 2147483647
    then Inl (GoPanic ''cannot convert to int32: out of range'')
    else Inr (word_of_int i))"

lemma sint_word_of_int_32:
  "- 2147483648 \<le> i \<Longrightarrow> i \<le> 2147483647 \<Longrightarrow> sint (word_of_int i :: 32 word) = i"
  by (simp add: sint_sbintrunc' signed_take_bit_int_eq_self)

lemma Int32_Inr_iff:
  "Int32 i = Inr w \<longleftrightarrow> - 2147483648 \<le> i \<and> i \<le> 2147483647 \<and> sint w = i"
proof
  assume "Int32 i = Inr w"
  then show "- 2147483648 \<le> i \<and> i \<le> 2147483647 \<and> sint w = i"
    by (auto simp: Int32_def sint_word_of_int_32 split: if_splits)
next
  assume "- 2147483648 \<le> i \<and> i \<le> 2147483647 \<and> sint w = i"
  then show "Int32 i = Inr w" by (auto simp: Int32_def)
qed

end
