(* ===== verification/Mdl.thy ===== *)
theory Mdl
  imports Pkg
begin

text \<open>
  The domain model of \<open>internal/core/mdl\<close>: the permission registry and its scopes, roles, sessions, the
  request values and their \<open>Validate\<close> methods. \<open>uuid.UUID\<close> is a 16-byte array, here a \<open>128 word\<close> (its
  unsigned order is \<open>bytes.Compare\<close>); times are instants counted as \<open>int\<close>; \<open>Permission\<close> is a string type.
  \<open>net/mail.ParseAddress\<close> is the parameter \<open>parseAddress\<close>: it returns the address it parsed, or None.
\<close>

type_synonym uuid = "128 word"
type_synonym time = int
type_synonym permission = string

definition nilUUID :: uuid where
  "nilUUID = 0"

named_theorems perm_names "the permission constants, unfolded to their strings"

section \<open>permission.go\<close>

definition PermissionUserRead :: permission where [perm_names]: "PermissionUserRead = ''user:read''"
definition PermissionUserCreate :: permission where [perm_names]: "PermissionUserCreate = ''user:create''"
definition PermissionUserUpdate :: permission where [perm_names]: "PermissionUserUpdate = ''user:update''"
definition PermissionSystemRoleRead :: permission where [perm_names]: "PermissionSystemRoleRead = ''system-role:read''"
definition PermissionSystemRoleAssign :: permission where [perm_names]: "PermissionSystemRoleAssign = ''system-role:assign''"
definition PermissionSystemRoleUnassign :: permission where [perm_names]: "PermissionSystemRoleUnassign = ''system-role:unassign''"
definition PermissionProjectDiscoverAll :: permission where [perm_names]: "PermissionProjectDiscoverAll = ''project:discover-all''"
definition PermissionOrgCreate :: permission where [perm_names]: "PermissionOrgCreate = ''org:create''"
definition PermissionProjectCreate :: permission where [perm_names]: "PermissionProjectCreate = ''project:create''"
definition PermissionOrgUserCreate :: permission where [perm_names]: "PermissionOrgUserCreate = ''org:user-create''"
definition PermissionOrgUserRead :: permission where [perm_names]: "PermissionOrgUserRead = ''org:user-read''"
definition PermissionCustomRoleCreate :: permission where [perm_names]: "PermissionCustomRoleCreate = ''custom-role:create''"
definition PermissionCustomRoleRead :: permission where [perm_names]: "PermissionCustomRoleRead = ''custom-role:read''"
definition PermissionCustomRoleUpdate :: permission where [perm_names]: "PermissionCustomRoleUpdate = ''custom-role:update''"
definition PermissionCustomRoleDelete :: permission where [perm_names]: "PermissionCustomRoleDelete = ''custom-role:delete''"
definition PermissionCustomRoleAssignProject :: permission where [perm_names]: "PermissionCustomRoleAssignProject = ''custom-role:assign-project''"
definition PermissionCustomRoleUnassignProject :: permission where [perm_names]: "PermissionCustomRoleUnassignProject = ''custom-role:unassign-project''"
definition PermissionCustomRoleAssignOrg :: permission where [perm_names]: "PermissionCustomRoleAssignOrg = ''custom-role:assign-org''"
definition PermissionCustomRoleUnassignOrg :: permission where [perm_names]: "PermissionCustomRoleUnassignOrg = ''custom-role:unassign-org''"
definition PermissionCustomRoleReadProjectAssignments :: permission where [perm_names]: "PermissionCustomRoleReadProjectAssignments = ''custom-role:read-project-assignments''"
definition PermissionCustomRoleReadOrgAssignments :: permission where [perm_names]: "PermissionCustomRoleReadOrgAssignments = ''custom-role:read-org-assignments''"

definition AllPermissions :: "permission list" where
  "AllPermissions =
    [PermissionUserRead, PermissionUserCreate, PermissionUserUpdate, PermissionSystemRoleRead,
     PermissionSystemRoleAssign, PermissionSystemRoleUnassign, PermissionProjectDiscoverAll,
     PermissionOrgCreate, PermissionProjectCreate, PermissionOrgUserCreate, PermissionOrgUserRead,
     PermissionCustomRoleCreate, PermissionCustomRoleRead, PermissionCustomRoleUpdate,
     PermissionCustomRoleDelete, PermissionCustomRoleAssignProject,
     PermissionCustomRoleUnassignProject, PermissionCustomRoleAssignOrg,
     PermissionCustomRoleUnassignOrg, PermissionCustomRoleReadProjectAssignments,
     PermissionCustomRoleReadOrgAssignments]"

definition SystemOnlyPermissions :: "permission list" where
  "SystemOnlyPermissions =
    [PermissionUserRead, PermissionUserCreate, PermissionUserUpdate, PermissionSystemRoleRead,
     PermissionSystemRoleAssign, PermissionSystemRoleUnassign, PermissionProjectDiscoverAll]"

definition PermissionsAssignableToCustomRoles :: "permission list" where
  "PermissionsAssignableToCustomRoles =
    [PermissionCustomRoleCreate, PermissionCustomRoleRead, PermissionCustomRoleUpdate,
     PermissionCustomRoleDelete, PermissionCustomRoleAssignProject,
     PermissionCustomRoleUnassignProject, PermissionCustomRoleAssignOrg,
     PermissionCustomRoleUnassignOrg, PermissionCustomRoleReadProjectAssignments,
     PermissionCustomRoleReadOrgAssignments, PermissionOrgCreate, PermissionProjectCreate,
     PermissionOrgUserCreate, PermissionOrgUserRead]"

definition OrganizationAdminPermissions :: "permission list" where
  "OrganizationAdminPermissions =
    [PermissionProjectCreate, PermissionOrgUserCreate, PermissionOrgUserRead,
     PermissionCustomRoleCreate, PermissionCustomRoleRead, PermissionCustomRoleUpdate,
     PermissionCustomRoleDelete, PermissionCustomRoleAssignProject,
     PermissionCustomRoleUnassignProject, PermissionCustomRoleAssignOrg,
     PermissionCustomRoleUnassignOrg, PermissionCustomRoleReadProjectAssignments,
     PermissionCustomRoleReadOrgAssignments]"

datatype AssignmentScope =
    AssignmentScopeProject | AssignmentScopeOrganization | AssignmentScopeSystem

primrec scopeRank :: "AssignmentScope \<Rightarrow> nat" where
  "scopeRank AssignmentScopeProject = 1"
| "scopeRank AssignmentScopeOrganization = 2"
| "scopeRank AssignmentScopeSystem = 3"

instantiation AssignmentScope :: linorder
begin

definition less_eq_AssignmentScope :: "AssignmentScope \<Rightarrow> AssignmentScope \<Rightarrow> bool" where
  "less_eq_AssignmentScope a b \<longleftrightarrow> scopeRank a \<le> scopeRank b"

definition less_AssignmentScope :: "AssignmentScope \<Rightarrow> AssignmentScope \<Rightarrow> bool" where
  "less_AssignmentScope a b \<longleftrightarrow> scopeRank a < scopeRank b"

instance
proof
  fix a b :: AssignmentScope
  show "a \<le> b \<Longrightarrow> b \<le> a \<Longrightarrow> a = b"
    by (cases a; cases b) (auto simp: less_eq_AssignmentScope_def)
qed (auto simp: less_eq_AssignmentScope_def less_AssignmentScope_def)

end

definition PermissionAssignmentScope :: "permission \<Rightarrow> error + AssignmentScope" where
  "PermissionAssignmentScope permission =
    (if permission \<in> set SystemOnlyPermissions then Inr AssignmentScopeSystem
     else if permission \<in> set [PermissionCustomRoleCreate, PermissionCustomRoleRead,
        PermissionCustomRoleUpdate, PermissionCustomRoleDelete, PermissionCustomRoleAssignOrg,
        PermissionCustomRoleUnassignOrg, PermissionCustomRoleReadOrgAssignments,
        PermissionProjectCreate, PermissionOrgUserCreate, PermissionOrgUserRead]
       then Inr AssignmentScopeOrganization
     else if permission \<in> set [PermissionCustomRoleAssignProject,
        PermissionCustomRoleUnassignProject, PermissionCustomRoleReadProjectAssignments,
        PermissionOrgCreate]
       then Inr AssignmentScopeProject
     else Inl (GoPanic ''unsupported permission''))"

primrec MinimumAssignmentScope_loop ::
    "AssignmentScope \<Rightarrow> permission list \<Rightarrow> error + AssignmentScope" where
  "MinimumAssignmentScope_loop scope [] = Inr scope"
| "MinimumAssignmentScope_loop scope (p # ps) =
    (case PermissionAssignmentScope p of
      Inl e \<Rightarrow> Inl e
    | Inr sc \<Rightarrow> MinimumAssignmentScope_loop (max scope sc) ps)"

definition MinimumAssignmentScope :: "permission list \<Rightarrow> error + AssignmentScope" where
  "MinimumAssignmentScope permissions = MinimumAssignmentScope_loop AssignmentScopeProject permissions"

definition IsPermissionSuperset :: "permission list \<Rightarrow> permission list \<Rightarrow> bool" where
  "IsPermissionSuperset held required = setIsSuperset (setFromSlice held) (setFromSlice required)"

record PermissionDescriptor =
  pd_Permission :: permission
  pd_MinimumAssignmentScope :: AssignmentScope

primrec CustomRolePermissionDescriptors_loop ::
    "permission list \<Rightarrow> error + PermissionDescriptor list" where
  "CustomRolePermissionDescriptors_loop [] = Inr []"
| "CustomRolePermissionDescriptors_loop (p # ps) =
    (case PermissionAssignmentScope p of
      Inl e \<Rightarrow> Inl e
    | Inr sc \<Rightarrow> (case CustomRolePermissionDescriptors_loop ps of
        Inl e \<Rightarrow> Inl e
      | Inr ds \<Rightarrow> Inr (\<lparr>pd_Permission = p, pd_MinimumAssignmentScope = sc\<rparr> # ds)))"

definition CustomRolePermissionDescriptors :: "error + PermissionDescriptor list" where
  "CustomRolePermissionDescriptors =
    CustomRolePermissionDescriptors_loop PermissionsAssignableToCustomRoles"

subsection \<open>Scopes of permissions\<close>

lemmas perm_lists = AllPermissions_def SystemOnlyPermissions_def PermissionsAssignableToCustomRoles_def
  OrganizationAdminPermissions_def

lemma distinct_AllPermissions [simp]: "distinct AllPermissions"
  by (simp add: perm_lists perm_names)

lemma length_AllPermissions [simp]: "length AllPermissions = 21"
  by (simp add: AllPermissions_def)

lemma assignable_not_system_only:
  "p \<in> set PermissionsAssignableToCustomRoles \<Longrightarrow> p \<notin> set SystemOnlyPermissions"
  by (auto simp: perm_lists perm_names)

lemma all_split:
  "set AllPermissions = set SystemOnlyPermissions \<union> set PermissionsAssignableToCustomRoles"
  by (auto simp: perm_lists)

lemma admin_assignable: "set OrganizationAdminPermissions \<subseteq> set PermissionsAssignableToCustomRoles"
  by (auto simp: perm_lists)

lemma scope_system_iff:
  "PermissionAssignmentScope p = Inr AssignmentScopeSystem \<longleftrightarrow> p \<in> set SystemOnlyPermissions"
  by (simp add: PermissionAssignmentScope_def)

lemma scope_defined_iff:
  "(\<exists>sc. PermissionAssignmentScope p = Inr sc) \<longleftrightarrow> p \<in> set AllPermissions"
  by (auto simp: PermissionAssignmentScope_def perm_lists)

definition isProjectScope :: "permission \<Rightarrow> bool" where
  "isProjectScope p \<longleftrightarrow> PermissionAssignmentScope p = Inr AssignmentScopeProject"

lemma isProjectScope_iff:
  "isProjectScope p \<longleftrightarrow> p \<in> set [PermissionCustomRoleAssignProject,
     PermissionCustomRoleUnassignProject, PermissionCustomRoleReadProjectAssignments,
     PermissionOrgCreate]"
  by (auto simp: isProjectScope_def PermissionAssignmentScope_def SystemOnlyPermissions_def perm_names
      split: if_splits)

lemma scope_ge_project [simp]: "AssignmentScopeProject \<le> sc"
  by (cases sc) (simp_all add: less_eq_AssignmentScope_def)

lemma max_project_iff [simp]:
  "max a b = AssignmentScopeProject \<longleftrightarrow> a = AssignmentScopeProject \<and> b = AssignmentScopeProject"
  by (cases a; cases b) (simp_all add: max_def less_eq_AssignmentScope_def)

lemma MinimumAssignmentScope_loop_project:
  "MinimumAssignmentScope_loop sc ps = Inr AssignmentScopeProject \<longleftrightarrow>
    sc = AssignmentScopeProject \<and> (\<forall>p\<in>set ps. isProjectScope p)"
  by (induction ps arbitrary: sc) (auto simp: isProjectScope_def split: sum.splits)

lemma MinimumAssignmentScope_project:
  "MinimumAssignmentScope ps = Inr AssignmentScopeProject \<longleftrightarrow> (\<forall>p\<in>set ps. isProjectScope p)"
  by (simp add: MinimumAssignmentScope_def MinimumAssignmentScope_loop_project)

lemma MinimumAssignmentScope_loop_total:
  "set ps \<subseteq> set AllPermissions \<Longrightarrow> \<exists>q. MinimumAssignmentScope_loop sc ps = Inr q"
proof (induction ps arbitrary: sc)
  case (Cons p ps)
  from Cons.prems have "p \<in> set AllPermissions" by simp
  then obtain q where "PermissionAssignmentScope p = Inr q" using scope_defined_iff by blast
  then show ?case using Cons by simp
qed simp

lemma IsPermissionSuperset_iff: "IsPermissionSuperset held req \<longleftrightarrow> set req \<subseteq> set held"
  unfolding IsPermissionSuperset_def by (rule gs.superset_slices)

end
