(* ===== verification/MdlRequests.thy ===== *)
theory MdlRequests
  imports Mdl
begin

text \<open>
  Roles, sessions, users, organizations and the request values of \<open>internal/core/mdl\<close> with their
  \<open>Validate\<close> methods (\<open>role.go\<close>, \<open>auth.go\<close>, \<open>user.go\<close>, \<open>org.go\<close>, \<open>email.go\<close>). A Go pointer that may be
  nil is an \<open>option\<close>.
\<close>

section \<open>role.go\<close>

record SystemRole =
  sr_Name :: string
  sr_Permissions :: "permission list"

datatype RoleKind = RoleKindCustom | RoleKindOrganizationAdmin

definition ManagedRoleKeyOrganizationAdmin :: string where
  "ManagedRoleKeyOrganizationAdmin = ''organization_admin''"

record CustomRole =
  cr_ID :: uuid
  cr_Name :: string
  cr_Kind :: RoleKind
  cr_Permissions :: "permission list"
  cr_CreatedAt :: time
  cr_UpdatedAt :: "time option"
  cr_ETag :: uuid

definition CustomRole_MinimumAssignmentScope :: "CustomRole \<Rightarrow> error + AssignmentScope" where
  "CustomRole_MinimumAssignmentScope cr = (case cr_Kind cr of
      RoleKindCustom \<Rightarrow> MinimumAssignmentScope (cr_Permissions cr)
    | RoleKindOrganizationAdmin \<Rightarrow> Inr AssignmentScopeOrganization)"

primrec validateCustomRolePerms :: "permission list \<Rightarrow> error + unit" where
  "validateCustomRolePerms [] = Inr ()"
| "validateCustomRolePerms (perm # perms) =
    (if perm \<in> set SystemOnlyPermissions then Inl ErrValidation
     else validateCustomRolePerms perms)"

record CreateCustomRole =
  ccr_Name :: string
  ccr_Permissions :: "permission list"

definition CreateCustomRole_Validate :: "CreateCustomRole \<Rightarrow> error + unit" where
  "CreateCustomRole_Validate cr =
    (let trimmedName = trimSpace (ccr_Name cr) in
     if trimmedName = [] then Inl ErrValidation
     else if trimmedName \<noteq> ccr_Name cr then Inl ErrValidation
     else validateCustomRolePerms (ccr_Permissions cr))"

record UpdateCustomRole =
  ucr_ID :: uuid
  ucr_ETag :: uuid
  ucr_FieldName :: bool
  ucr_FieldPermissions :: bool
  ucr_Name :: string
  ucr_Permissions :: "permission list"

definition UpdateCustomRole_Validate :: "UpdateCustomRole \<Rightarrow> error + unit" where
  "UpdateCustomRole_Validate ur =
    (if ucr_ETag ur = nilUUID then Inl ErrValidation
     else if ucr_FieldName ur \<and> trimSpace (ucr_Name ur) = [] then Inl ErrValidation
     else if ucr_FieldName ur \<and> trimSpace (ucr_Name ur) \<noteq> ucr_Name ur then Inl ErrValidation
     else if ucr_FieldPermissions ur then validateCustomRolePerms (ucr_Permissions ur)
     else Inr ())"

record ModifyCustomRolePermissions =
  mrp_ID :: uuid
  mrp_ETag :: uuid
  mrp_AddPermissions :: "permission list"
  mrp_RemovePermissions :: "permission list"

definition ModifyCustomRolePermissions_Validate :: "ModifyCustomRolePermissions \<Rightarrow> error + unit" where
  "ModifyCustomRolePermissions_Validate mrp =
    (if mrp_ETag mrp = nilUUID then Inl ErrValidation
     else if setLen (setIntersection (setFromSlice (mrp_AddPermissions mrp))
                                     (setFromSlice (mrp_RemovePermissions mrp))) \<noteq> 0
       then Inl ErrValidation
     else validateCustomRolePerms (mrp_AddPermissions mrp @ mrp_RemovePermissions mrp))"

lemma validateCustomRolePerms_iff [simp]:
  "validateCustomRolePerms ps = Inr () \<longleftrightarrow> set ps \<inter> set SystemOnlyPermissions = {}"
  by (induction ps) auto

lemma CreateCustomRole_Validate_iff:
  "CreateCustomRole_Validate cr = Inr () \<longleftrightarrow>
    ccr_Name cr \<noteq> [] \<and> trimSpace (ccr_Name cr) = ccr_Name cr \<and>
    set (ccr_Permissions cr) \<inter> set SystemOnlyPermissions = {}"
  by (auto simp: CreateCustomRole_Validate_def Let_def)

lemma UpdateCustomRole_Validate_iff:
  "UpdateCustomRole_Validate ur = Inr () \<longleftrightarrow>
    ucr_ETag ur \<noteq> nilUUID \<and>
    (ucr_FieldName ur \<longrightarrow> ucr_Name ur \<noteq> [] \<and> trimSpace (ucr_Name ur) = ucr_Name ur) \<and>
    (ucr_FieldPermissions ur \<longrightarrow> set (ucr_Permissions ur) \<inter> set SystemOnlyPermissions = {})"
  by (auto simp: UpdateCustomRole_Validate_def)

lemma ModifyCustomRolePermissions_Validate_iff:
  "ModifyCustomRolePermissions_Validate mrp = Inr () \<longleftrightarrow>
    mrp_ETag mrp \<noteq> nilUUID \<and>
    set (mrp_AddPermissions mrp) \<inter> set (mrp_RemovePermissions mrp) = {} \<and>
    (set (mrp_AddPermissions mrp) \<union> set (mrp_RemovePermissions mrp)) \<inter> set SystemOnlyPermissions = {}"
  using gs.overlap_slices [of "mrp_AddPermissions mrp" "mrp_RemovePermissions mrp"]
  by (auto simp: ModifyCustomRolePermissions_Validate_def)

section \<open>auth.go\<close>

definition SystemOrgName :: string where
  "SystemOrgName = ''theapp''"

record AuthUser =
  au_UserID :: uuid
  au_Email :: string
  au_Permissions :: "permission list"

record AuthProject =
  ap_ID :: int
  ap_OrgID :: int
  ap_OrgName :: string
  ap_IsControl :: bool
  ap_IsOrgMember :: bool

record AuthSession =
  as_User :: AuthUser
  as_Project :: "AuthProject option"

record AuthContext =
  ac_UserID :: uuid
  ac_Email :: string
  ac_ProjectPermissions :: "permission list"
  ac_OrganizationPermissions :: "permission list"
  ac_SystemPermissions :: "permission list"

record AuthTokenPair =
  tp_AccessToken :: string
  tp_RefreshToken :: string
  tp_ExpiresIn :: time

definition IsSystemControlProject :: "AuthProject \<Rightarrow> bool" where
  "IsSystemControlProject ap \<longleftrightarrow> ap_OrgName ap = SystemOrgName \<and> ap_IsControl ap"

text \<open>\<open>mail.ParseAddress\<close> is a parameter: the bare address it extracted, or None on an error.\<close>

type_synonym address_parser = "string \<Rightarrow> string option"

definition IsValidEmail :: "address_parser \<Rightarrow> string \<Rightarrow> bool" where
  "IsValidEmail parseAddress addr = (case parseAddress addr of None \<Rightarrow> False | Some a \<Rightarrow> a = addr)"

definition RequestMagicLink_Validate :: "address_parser \<Rightarrow> string \<Rightarrow> error + unit" where
  "RequestMagicLink_Validate pa email =
    (if email = [] then Inl ErrValidation
     else if \<not> IsValidEmail pa email then Inl ErrValidation
     else Inr ())"

definition VerifyMagicLink_Validate :: "string \<Rightarrow> error + unit" where
  "VerifyMagicLink_Validate token = (if token = [] then Inl ErrValidation else Inr ())"

definition RefreshToken_Validate :: "string \<Rightarrow> error + unit" where
  "RefreshToken_Validate token = (if token = [] then Inl ErrValidation else Inr ())"

section \<open>user.go\<close>

record User =
  u_ID :: uuid
  u_Email :: string
  u_Name :: string
  u_EmailVerifiedAt :: "time option"
  u_CreatedAt :: time
  u_UpdatedAt :: "time option"
  u_ETag :: uuid

record CreateUser =
  cu_Email :: string
  cu_Name :: string

definition CreateUser_Validate :: "address_parser \<Rightarrow> CreateUser \<Rightarrow> error + unit" where
  "CreateUser_Validate pa cu =
    (if cu_Email cu = [] then Inl ErrValidation
     else if \<not> IsValidEmail pa (cu_Email cu) then Inl ErrValidation
     else if cu_Name cu = [] then Inl ErrValidation
     else Inr ())"

record UpdateUser =
  uu_ID :: uuid
  uu_ETag :: uuid
  uu_FieldName :: bool
  uu_Name :: string

definition UpdateUser_Validate :: "UpdateUser \<Rightarrow> error + unit" where
  "UpdateUser_Validate uu =
    (if uu_ETag uu = nilUUID then Inl ErrValidation
     else if uu_FieldName uu \<and> uu_Name uu = [] then Inl ErrValidation
     else Inr ())"

record UserFilter =
  uf_Email :: string
  uf_Name :: string

text \<open>\<open>UserOrderByField\<close> is a string type with three named values; \<open>pguser.OrderByField\<close> is another.\<close>

definition UserOrderByFieldEmail :: string where "UserOrderByFieldEmail = ''email''"
definition UserOrderByFieldUpdatedAt :: string where "UserOrderByFieldUpdatedAt = ''updated_at''"
definition UserOrderByFieldCreatedAt :: string where "UserOrderByFieldCreatedAt = ''created_at''"

datatype Direction = DirectionAsc | DirectionDesc

record 'f By =
  by_Field :: 'f
  by_Direction :: Direction

section \<open>org.go\<close>

record Organization =
  o_ID :: int
  o_Name :: string
  o_ControlProjectID :: int
  o_CreatedAt :: time
  o_UpdatedAt :: "time option"

record CreateOrganization =
  co_Name :: string
  co_ProjectName :: string

definition CreateOrganization_Validate :: "CreateOrganization \<Rightarrow> error + unit" where
  "CreateOrganization_Validate co =
    (if co_Name co = [] then Inl ErrValidation
     else if co_ProjectName co = [] then Inl ErrValidation
     else Inr ())"

definition CreateOrganizationUser_Validate :: "address_parser \<Rightarrow> string \<Rightarrow> error + unit" where
  "CreateOrganizationUser_Validate pa email =
    (if email = [] then Inl ErrValidation
     else if \<not> IsValidEmail pa email then Inl ErrValidation
     else Inr ())"

record Project =
  p_ID :: int
  p_OrgID :: int
  p_Name :: string
  p_IsControl :: bool
  p_CreatedAt :: time
  p_UpdatedAt :: "time option"
  p_ETag :: uuid

record CreateProject =
  cp_OrgID :: int
  cp_Name :: string

definition CreateProject_Validate :: "CreateProject \<Rightarrow> error + unit" where
  "CreateProject_Validate cp =
    (if cp_OrgID cp \<le> 0 then Inl ErrValidation
     else if cp_Name cp = [] then Inl ErrValidation
     else Inr ())"

record ProjectFilter =
  pf_Name :: string

record OrganizationUserFilter =
  ouf_ProjectID :: "int option"

lemma CreateUser_Validate_iff:
  "CreateUser_Validate pa cu = Inr () \<longleftrightarrow>
    cu_Email cu \<noteq> [] \<and> IsValidEmail pa (cu_Email cu) \<and> cu_Name cu \<noteq> []"
  by (simp add: CreateUser_Validate_def)

lemma UpdateUser_Validate_iff:
  "UpdateUser_Validate uu = Inr () \<longleftrightarrow>
    uu_ETag uu \<noteq> nilUUID \<and> (uu_FieldName uu \<longrightarrow> uu_Name uu \<noteq> [])"
  by (simp add: UpdateUser_Validate_def)

lemma CreateProject_Validate_iff:
  "CreateProject_Validate cp = Inr () \<longleftrightarrow> 0 < cp_OrgID cp \<and> cp_Name cp \<noteq> []"
  by (simp add: CreateProject_Validate_def not_le)

end
