(* ===== verification/Schema.thy ===== *)
theory Schema
  imports MdlRequests
begin

text \<open>
  The database the stores run their SQL on: the tables of \<open>internal/data/pgschema/schema.sql\<close> as lists
  of rows, its constraints, and its SQL functions (permission resolution). The generators (sequences,
  \<open>gen_random_uuid\<close>) are a separate component because a rollback does not undo them; \<open>clock\<close> is
  \<open>NOW()\<close>; \<open>locks\<close> is the sequence of advisory locks the open transaction has taken; \<open>coll\<close> and
  \<open>natural\<close> are the two collations an \<open>ORDER BY\<close> uses. Sequence exhaustion is not modelled.
\<close>

section \<open>Rows\<close>

record user_row =
  usr_id :: int
  usr_external_id :: uuid
  usr_email :: string
  usr_name :: string
  usr_email_verified_at :: "time option"
  usr_created_at :: time
  usr_updated_at :: "time option"
  usr_etag :: uuid

record org_row =
  org_id :: int
  org_name :: string
  org_created_at :: time
  org_updated_at :: "time option"

record project_row =
  prj_id :: int
  prj_org_id :: int
  prj_name :: string
  prj_is_control :: bool
  prj_created_at :: time
  prj_updated_at :: "time option"
  prj_etag :: uuid

record custom_role_row =
  rol_id :: int
  rol_external_id :: uuid
  rol_name :: string
  rol_org_id :: int
  rol_managed_key :: "string option"
  rol_created_at :: time
  rol_updated_at :: "time option"
  rol_etag :: uuid

record org_assignment =
  oa_user_id :: int
  oa_org_id :: int
  oa_role_id :: int

record project_assignment =
  pa_user_id :: int
  pa_project_id :: int
  pa_role_id :: int
  pa_org_id :: int

record system_role_row =
  sys_id :: int
  sys_external_id :: uuid
  sys_name :: string

text \<open>\<open>magic_link_tokens\<close> and \<open>refresh_tokens\<close> have the same columns; \<open>tok_closed_at\<close> is \<open>used_at\<close> of the
  one and \<open>revoked_at\<close> of the other.\<close>

record token_row =
  tok_id :: int
  tok_user_id :: int
  tok_hash :: string
  tok_expires_at :: time
  tok_closed_at :: "time option"
  tok_created_at :: time

record generators =
  g_uuids :: "nat \<Rightarrow> uuid"
  g_uuid_pos :: nat
  g_users :: int
  g_organizations :: int
  g_projects :: int
  g_custom_roles :: int
  g_magic_link_tokens :: int
  g_refresh_tokens :: int

datatype lock = AdvisoryLock string int

record db =
  users :: "user_row list"
  organizations :: "org_row list"
  projects :: "project_row list"
  org_membership :: "(int \<times> int) list"
  permissions :: "(int \<times> string) list"
  custom_roles :: "custom_role_row list"
  custom_role_permissions :: "(int \<times> int) list"
  org_role_assignments :: "org_assignment list"
  project_role_assignments :: "project_assignment list"
  system_roles :: "system_role_row list"
  system_role_permissions :: "(int \<times> int) list"
  system_role_assignments :: "(int \<times> int) list"
  magic_link_tokens :: "token_row list"
  refresh_tokens :: "token_row list"
  clock :: time
  gen :: generators
  locks :: "lock list"
  coll :: "string \<Rightarrow> string \<Rightarrow> bool"
  natural :: "string \<Rightarrow> string \<Rightarrow> bool"

type_synonym 'a op = "(db, error, 'a) prog"

section \<open>Generators\<close>

definition gen_random_uuid :: "uuid op" where
  "gen_random_uuid = (\<lambda>s. (Inr (g_uuids (gen s) (g_uuid_pos (gen s))),
     s\<lparr>gen := (gen s)\<lparr>g_uuid_pos := Suc (g_uuid_pos (gen s))\<rparr>\<rparr>))"

definition nextval :: "(generators \<Rightarrow> int) \<Rightarrow> ((int \<Rightarrow> int) \<Rightarrow> generators \<Rightarrow> generators) \<Rightarrow> int op" where
  "nextval get upd = (\<lambda>s. (Inr (get (gen s)), s\<lparr>gen := upd (\<lambda>n. n + 1) (gen s)\<rparr>))"

section \<open>Statements and transactions\<close>

text \<open>
  A failing statement undoes its own changes, a failing transaction all of them; the generators keep
  what they gave out. \<open>run_tx\<close> is what a caller of \<open>pgdb.RunTx\<close> (outermost) sees; theory Pgdb derives it
  from the code of \<open>RunTx\<close>. Advisory transaction locks are released when the transaction ends.
\<close>

definition atomic :: "'a op \<Rightarrow> 'a op" where
  "atomic m = (\<lambda>s. case m s of
      (Inl e, t) \<Rightarrow> (Inl e, s\<lparr>gen := gen t\<rparr>)
    | (Inr x, t) \<Rightarrow> (Inr x, t))"

definition run_tx :: "'a op \<Rightarrow> 'a op" where
  "run_tx m = (\<lambda>s. case atomic m s of (r, t) \<Rightarrow> (r, t\<lparr>locks := []\<rparr>))"

text \<open>
  \<open>pgx.CollectOneRow\<close> with a scan function, and the \<open>RowsAffected\<close> check of \<open>TypedQuery.Queue\<close>: the
  Go-side outcome of a statement that expects one row. The database keeps what the statement did.
\<close>

definition collectOne :: "('r \<Rightarrow> error + 'a) \<Rightarrow> 'r list \<Rightarrow> error + 'a" where
  "collectOne scan rows = (case rows of
      [] \<Rightarrow> Inl SqlErrNoRows
    | r # rest \<Rightarrow> (case scan r of
        Inl e \<Rightarrow> Inl e
      | Inr x \<Rightarrow> if rest \<noteq> [] then Inl PgErrTooManyRows else Inr x))"

definition queueOne :: "('r \<Rightarrow> error + 'a) \<Rightarrow> 'r list op \<Rightarrow> 'a op" where
  "queueOne scan q = andThen (atomic q) (\<lambda>rows. liftS (collectOne scan rows))"

definition queueMany :: "'r list op \<Rightarrow> 'r list op" where
  "queueMany q = atomic q"

definition unique_violation :: "'a op" where
  "unique_violation = throw (translatePgErr (PgOther ErrCodeUniqueViolation))"

definition check_violation :: "'a op" where
  "check_violation = throw (translatePgErr (PgOther ErrCodeCheckViolation))"

definition fk_violation :: "'a op" where
  "fk_violation = throw (translatePgErr (PgOther ErrCodeForeignKeyViolation))"

lemmas violations = unique_violation_def check_violation_def fk_violation_def

section \<open>Advisory locks\<close>

definition pg_advisory_xact_lock :: "string \<Rightarrow> int \<Rightarrow> unit op" where
  "pg_advisory_xact_lock cls key = updates (\<lambda>s. s\<lparr>locks := locks s @ [AdvisoryLock cls key]\<rparr>)"

section \<open>Lookups\<close>

definition users_by_external_id :: "db \<Rightarrow> uuid \<Rightarrow> user_row list" where
  "users_by_external_id s x = filter (\<lambda>u. usr_external_id u = x) (users s)"

definition roles_by_external_id :: "db \<Rightarrow> uuid \<Rightarrow> custom_role_row list" where
  "roles_by_external_id s x = filter (\<lambda>r. rol_external_id r = x) (custom_roles s)"

definition org_roles_by_external_id :: "db \<Rightarrow> int \<Rightarrow> uuid \<Rightarrow> custom_role_row list" where
  "org_roles_by_external_id s org x =
    filter (\<lambda>r. rol_external_id r = x \<and> rol_org_id r = org) (custom_roles s)"

definition role_permission_ids :: "db \<Rightarrow> int \<Rightarrow> int list" where
  "role_permission_ids s r = [p. (r', p) \<leftarrow> custom_role_permissions s, r' = r]"

definition system_role_permission_ids :: "db \<Rightarrow> int \<Rightarrow> int list" where
  "system_role_permission_ids s r = [p. (r', p) \<leftarrow> system_role_permissions s, r' = r]"

text \<open>\<open>array_agg(p.name ORDER BY p.name)\<close> over a LEFT JOIN of permission ids with the registry.\<close>

definition permission_names_of :: "db \<Rightarrow> int list \<Rightarrow> string list" where
  "permission_names_of s ids = sort_by (coll s) [n. i \<leftarrow> ids, (j, n) \<leftarrow> permissions s, j = i]"

definition role_permission_names :: "db \<Rightarrow> int \<Rightarrow> string list" where
  "role_permission_names s r = permission_names_of s (role_permission_ids s r)"

section \<open>SQL functions\<close>

definition system_permission_ids :: "db \<Rightarrow> int \<Rightarrow> int list" where
  "system_permission_ids s u = remdups
    [p. (u', r) \<leftarrow> system_role_assignments s, u' = u, p \<leftarrow> system_role_permission_ids s r]"

definition org_permission_ids :: "db \<Rightarrow> int \<Rightarrow> int \<Rightarrow> int list" where
  "org_permission_ids s u org = remdups
    ([p. a \<leftarrow> org_role_assignments s, oa_user_id a = u, oa_org_id a = org,
         p \<leftarrow> role_permission_ids s (oa_role_id a)]
     @ system_permission_ids s u)"

definition project_permission_ids :: "db \<Rightarrow> int \<Rightarrow> int \<Rightarrow> int list" where
  "project_permission_ids s u prj = remdups
    ([p. a \<leftarrow> project_role_assignments s, pa_user_id a = u, pa_project_id a = prj,
         p \<leftarrow> role_permission_ids s (pa_role_id a)]
     @ [p. r \<leftarrow> projects s, prj_id r = prj, p \<leftarrow> org_permission_ids s u (prj_org_id r)])"

definition accessible_project_ids :: "db \<Rightarrow> int \<Rightarrow> int list" where
  "accessible_project_ids s u = remdups
    ([pa_project_id a. a \<leftarrow> project_role_assignments s, pa_user_id a = u]
     @ [prj_id r. a \<leftarrow> org_role_assignments s, oa_user_id a = u,
                  r \<leftarrow> projects s, prj_org_id r = oa_org_id a]
     @ (if (\<exists>p \<in> set (system_permission_ids s u).
              (p, PermissionProjectDiscoverAll) \<in> set (permissions s))
        then map prj_id (projects s) else []))"

definition permission_id_of :: "db \<Rightarrow> string \<Rightarrow> int list" where
  "permission_id_of s n = [i. (i, m) \<leftarrow> permissions s, m = n]"

text \<open>\<open>resolve_permissions\<close>: the ids and names of the distinct requested names, or no row when one of
  them is not registered.\<close>

definition resolve_permissions :: "db \<Rightarrow> string list \<Rightarrow> (int list \<times> string list) option" where
  "resolve_permissions s names =
    (let requested = sort_by (coll s) (remdups names) in
     if (\<forall>n \<in> set requested. permission_id_of s n \<noteq> [])
     then Some (concat (map (permission_id_of s) requested), requested)
     else None)"

end
