(* ===== verification/SchemaInv.thy ===== *)
theory SchemaInv
  imports Schema
begin

text \<open>
  The constraints of \<open>schema.sql\<close> as predicates, one per table (\<open>PRIMARY KEY\<close>, \<open>UNIQUE\<close>, \<open>CHECK\<close>,
  foreign keys), their conjunction \<open>db_inv\<close>, and the security invariant \<open>rbac_inv\<close> that the backend
  itself maintains on top of them: custom roles carry no system-only permission, and a role assigned in
  a project carries project-scope permissions only.
\<close>

section \<open>Constraints\<close>

definition users_ok :: "user_row list \<Rightarrow> bool" where
  "users_ok us \<longleftrightarrow> distinct (map usr_id us) \<and> distinct (map usr_external_id us) \<and>
    distinct (map usr_email us) \<and> distinct (map usr_etag us)"

definition orgs_ok :: "org_row list \<Rightarrow> bool" where
  "orgs_ok os \<longleftrightarrow> distinct (map org_id os) \<and> distinct (map org_name os)"

definition projects_ok :: "int set \<Rightarrow> project_row list \<Rightarrow> bool" where
  "projects_ok orgs ps \<longleftrightarrow> distinct (map prj_id ps) \<and> distinct (map prj_etag ps) \<and>
    distinct (map (\<lambda>p. (prj_org_id p, toLower (prj_name p))) ps) \<and>
    distinct (map prj_org_id (filter prj_is_control ps)) \<and>
    (\<forall>p \<in> set ps. prj_org_id p \<in> orgs)"

definition membership_ok :: "int set \<Rightarrow> int set \<Rightarrow> (int \<times> int) list \<Rightarrow> bool" where
  "membership_ok orgs usrs ms \<longleftrightarrow> distinct ms \<and> (\<forall>(o', u) \<in> set ms. o' \<in> orgs \<and> u \<in> usrs)"

definition permissions_ok :: "(int \<times> string) list \<Rightarrow> bool" where
  "permissions_ok ps \<longleftrightarrow> distinct (map fst ps) \<and> distinct (map snd ps)"

definition role_name_check :: "string \<Rightarrow> bool" where
  "role_name_check n \<longleftrightarrow> n \<noteq> [] \<and> n = btrim n"

definition managed_key_check :: "string option \<Rightarrow> bool" where
  "managed_key_check k \<longleftrightarrow> k = None \<or> k = Some ManagedRoleKeyOrganizationAdmin"

definition custom_roles_ok :: "int set \<Rightarrow> custom_role_row list \<Rightarrow> bool" where
  "custom_roles_ok orgs rs \<longleftrightarrow> distinct (map rol_id rs) \<and> distinct (map rol_external_id rs) \<and>
    distinct (map rol_etag rs) \<and>
    distinct (map (\<lambda>r. (rol_org_id r, toLower (rol_name r))) rs) \<and>
    distinct (map (\<lambda>r. (rol_org_id r, rol_managed_key r)) (filter (\<lambda>r. rol_managed_key r \<noteq> None) rs)) \<and>
    (\<forall>r \<in> set rs. role_name_check (rol_name r) \<and> managed_key_check (rol_managed_key r) \<and>
       rol_org_id r \<in> orgs)"

definition role_permissions_ok :: "int set \<Rightarrow> int set \<Rightarrow> (int \<times> int) list \<Rightarrow> bool" where
  "role_permissions_ok roles perms rps \<longleftrightarrow> distinct rps \<and>
    (\<forall>(r, p) \<in> set rps. r \<in> roles \<and> p \<in> perms)"

text \<open>The foreign keys of the assignments: \<open>(org_id, user_id)\<close> to the membership, \<open>(role_id, org_id)\<close> to
  the custom roles, \<open>(project_id, org_id)\<close> to the projects.\<close>

definition org_assignments_ok ::
    "(int \<times> int) set \<Rightarrow> (int \<times> int) set \<Rightarrow> org_assignment list \<Rightarrow> bool" where
  "org_assignments_ok members role_orgs as \<longleftrightarrow> distinct as \<and>
    (\<forall>a \<in> set as. (oa_org_id a, oa_user_id a) \<in> members \<and> (oa_role_id a, oa_org_id a) \<in> role_orgs)"

definition project_assignments_ok ::
    "(int \<times> int) set \<Rightarrow> (int \<times> int) set \<Rightarrow> (int \<times> int) set \<Rightarrow> project_assignment list \<Rightarrow> bool" where
  "project_assignments_ok members role_orgs proj_orgs as \<longleftrightarrow>
    distinct (map (\<lambda>a. (pa_user_id a, pa_project_id a, pa_role_id a)) as) \<and>
    (\<forall>a \<in> set as. (pa_org_id a, pa_user_id a) \<in> members \<and> (pa_role_id a, pa_org_id a) \<in> role_orgs \<and>
       (pa_project_id a, pa_org_id a) \<in> proj_orgs)"

definition system_roles_ok :: "system_role_row list \<Rightarrow> bool" where
  "system_roles_ok rs \<longleftrightarrow> distinct (map sys_id rs) \<and> distinct (map sys_external_id rs) \<and>
    distinct (map sys_name rs)"

definition system_assignments_ok :: "int set \<Rightarrow> int set \<Rightarrow> (int \<times> int) list \<Rightarrow> bool" where
  "system_assignments_ok usrs roles as \<longleftrightarrow> distinct as \<and>
    (\<forall>(u, r) \<in> set as. u \<in> usrs \<and> r \<in> roles)"

definition tokens_ok :: "int set \<Rightarrow> token_row list \<Rightarrow> bool" where
  "tokens_ok usrs ts \<longleftrightarrow> distinct (map tok_id ts) \<and> distinct (map tok_hash ts) \<and>
    (\<forall>t \<in> set ts. tok_user_id t \<in> usrs)"

abbreviation user_ids :: "db \<Rightarrow> int set" where "user_ids s \<equiv> usr_id ` set (users s)"
abbreviation org_ids :: "db \<Rightarrow> int set" where "org_ids s \<equiv> org_id ` set (organizations s)"
abbreviation perm_ids :: "db \<Rightarrow> int set" where "perm_ids s \<equiv> fst ` set (permissions s)"
abbreviation role_ids :: "db \<Rightarrow> int set" where "role_ids s \<equiv> rol_id ` set (custom_roles s)"
abbreviation sys_role_ids :: "db \<Rightarrow> int set" where "sys_role_ids s \<equiv> sys_id ` set (system_roles s)"
abbreviation role_orgs :: "db \<Rightarrow> (int \<times> int) set" where
  "role_orgs s \<equiv> (\<lambda>r. (rol_id r, rol_org_id r)) ` set (custom_roles s)"
abbreviation proj_orgs :: "db \<Rightarrow> (int \<times> int) set" where
  "proj_orgs s \<equiv> (\<lambda>p. (prj_id p, prj_org_id p)) ` set (projects s)"

definition db_inv :: "db \<Rightarrow> bool" where
  "db_inv s \<longleftrightarrow>
    users_ok (users s) \<and> orgs_ok (organizations s) \<and> projects_ok (org_ids s) (projects s) \<and>
    membership_ok (org_ids s) (user_ids s) (org_membership s) \<and> permissions_ok (permissions s) \<and>
    custom_roles_ok (org_ids s) (custom_roles s) \<and>
    role_permissions_ok (role_ids s) (perm_ids s) (custom_role_permissions s) \<and>
    org_assignments_ok (set (org_membership s)) (role_orgs s) (org_role_assignments s) \<and>
    project_assignments_ok (set (org_membership s)) (role_orgs s) (proj_orgs s)
      (project_role_assignments s) \<and>
    system_roles_ok (system_roles s) \<and>
    role_permissions_ok (sys_role_ids s) (perm_ids s) (system_role_permissions s) \<and>
    system_assignments_ok (user_ids s) (sys_role_ids s) (system_role_assignments s) \<and>
    tokens_ok (user_ids s) (magic_link_tokens s) \<and> tokens_ok (user_ids s) (refresh_tokens s)"

lemmas constraint_defs = users_ok_def orgs_ok_def projects_ok_def membership_ok_def permissions_ok_def
  custom_roles_ok_def role_permissions_ok_def org_assignments_ok_def project_assignments_ok_def
  system_roles_ok_def system_assignments_ok_def tokens_ok_def

text \<open>The permission registry of the seed: exactly the permissions of \<open>AllPermissions\<close>.\<close>

definition registry_seeded :: "db \<Rightarrow> bool" where
  "registry_seeded s \<longleftrightarrow> snd ` set (permissions s) = set AllPermissions"

section \<open>Security invariant\<close>

definition perm_name_rel :: "db \<Rightarrow> int \<Rightarrow> string \<Rightarrow> bool" where
  "perm_name_rel s i n \<longleftrightarrow> (i, n) \<in> set (permissions s)"

definition role_has :: "db \<Rightarrow> int \<Rightarrow> string \<Rightarrow> bool" where
  "role_has s r n \<longleftrightarrow> (\<exists>i. (r, i) \<in> set (custom_role_permissions s) \<and> (i, n) \<in> set (permissions s))"

definition system_role_has :: "db \<Rightarrow> int \<Rightarrow> string \<Rightarrow> bool" where
  "system_role_has s r n \<longleftrightarrow>
    (\<exists>i. (r, i) \<in> set (system_role_permissions s) \<and> (i, n) \<in> set (permissions s))"

definition rbac_inv :: "db \<Rightarrow> bool" where
  "rbac_inv s \<longleftrightarrow>
    (\<forall>r n. role_has s r n \<longrightarrow> n \<notin> set SystemOnlyPermissions) \<and>
    (\<forall>a \<in> set (project_role_assignments s). \<forall>n. role_has s (pa_role_id a) n \<longrightarrow> isProjectScope n)"

section \<open>Abstract view of the permissions a user holds\<close>

definition holds_system :: "db \<Rightarrow> int \<Rightarrow> string \<Rightarrow> bool" where
  "holds_system s u n \<longleftrightarrow> (\<exists>r. (u, r) \<in> set (system_role_assignments s) \<and> system_role_has s r n)"

definition holds_org :: "db \<Rightarrow> int \<Rightarrow> int \<Rightarrow> string \<Rightarrow> bool" where
  "holds_org s u org n \<longleftrightarrow> holds_system s u n \<or>
    (\<exists>a \<in> set (org_role_assignments s). oa_user_id a = u \<and> oa_org_id a = org \<and>
       role_has s (oa_role_id a) n)"

definition holds_project :: "db \<Rightarrow> int \<Rightarrow> int \<Rightarrow> string \<Rightarrow> bool" where
  "holds_project s u prj n \<longleftrightarrow>
    (\<exists>a \<in> set (project_role_assignments s). pa_user_id a = u \<and> pa_project_id a = prj \<and>
       role_has s (pa_role_id a) n) \<or>
    (\<exists>p \<in> set (projects s). prj_id p = prj \<and> holds_org s u (prj_org_id p) n)"

lemma set_permission_names_of:
  "n \<in> set (permission_names_of s ids) \<longleftrightarrow> (\<exists>i \<in> set ids. (i, n) \<in> set (permissions s))"
  by (force simp: permission_names_of_def)

lemma set_role_permission_ids [simp]:
  "p \<in> set (role_permission_ids s r) \<longleftrightarrow> (r, p) \<in> set (custom_role_permissions s)"
  by (force simp: role_permission_ids_def)

lemma set_system_role_permission_ids [simp]:
  "p \<in> set (system_role_permission_ids s r) \<longleftrightarrow> (r, p) \<in> set (system_role_permissions s)"
  by (force simp: system_role_permission_ids_def)

lemma set_role_permission_names:
  "n \<in> set (role_permission_names s r) \<longleftrightarrow> role_has s r n"
  by (auto simp: role_permission_names_def set_permission_names_of role_has_def)

lemma set_system_permission_ids:
  "p \<in> set (system_permission_ids s u) \<longleftrightarrow>
    (\<exists>r. (u, r) \<in> set (system_role_assignments s) \<and> (r, p) \<in> set (system_role_permissions s))"
  by (force simp: system_permission_ids_def)

lemma names_system_permission_ids:
  "n \<in> set (permission_names_of s (system_permission_ids s u)) \<longleftrightarrow> holds_system s u n"
  unfolding set_permission_names_of Bex_def set_system_permission_ids holds_system_def
    system_role_has_def by blast

lemma set_org_permission_ids:
  "p \<in> set (org_permission_ids s u org) \<longleftrightarrow> p \<in> set (system_permission_ids s u) \<or>
    (\<exists>a \<in> set (org_role_assignments s). oa_user_id a = u \<and> oa_org_id a = org \<and>
       (oa_role_id a, p) \<in> set (custom_role_permissions s))"
  by (auto simp: org_permission_ids_def)

lemma names_org_permission_ids:
  "n \<in> set (permission_names_of s (org_permission_ids s u org)) \<longleftrightarrow> holds_org s u org n"
proof -
  have "holds_system s u n \<longleftrightarrow> (\<exists>i \<in> set (system_permission_ids s u). (i, n) \<in> set (permissions s))"
    by (simp add: names_system_permission_ids[symmetric] set_permission_names_of)
  then show ?thesis
    unfolding set_permission_names_of holds_org_def role_has_def Bex_def set_org_permission_ids by blast
qed

lemma set_project_permission_ids:
  "p \<in> set (project_permission_ids s u prj) \<longleftrightarrow>
    (\<exists>a \<in> set (project_role_assignments s). pa_user_id a = u \<and> pa_project_id a = prj \<and>
       (pa_role_id a, p) \<in> set (custom_role_permissions s)) \<or>
    (\<exists>r \<in> set (projects s). prj_id r = prj \<and> p \<in> set (org_permission_ids s u (prj_org_id r)))"
  by (auto simp: project_permission_ids_def)

lemma names_project_permission_ids:
  "n \<in> set (permission_names_of s (project_permission_ids s u prj)) \<longleftrightarrow> holds_project s u prj n"
  unfolding set_permission_names_of holds_project_def role_has_def Bex_def set_project_permission_ids
    names_org_permission_ids[symmetric] by blast

lemma registered_permission_id:
  assumes "registry_seeded s" shows "permission_id_of s n \<noteq> [] \<longleftrightarrow> n \<in> set AllPermissions"
proof -
  have "set (permission_id_of s n) = {i. (i, n) \<in> set (permissions s)}"
    by (force simp: permission_id_of_def)
  then have "permission_id_of s n \<noteq> [] \<longleftrightarrow> (\<exists>i. (i, n) \<in> set (permissions s))"
    by (metis (mono_tags, lifting) Collect_empty_eq set_empty)
  then show ?thesis using assms by (force simp: registry_seeded_def)
qed

lemma resolve_permissions_Some:
  assumes "resolve_permissions s names = Some (ids, ns)"
  shows "set ns = set names" "set ids = {i. \<exists>n \<in> set names. (i, n) \<in> set (permissions s)}"
    "n \<in> set names \<Longrightarrow> \<exists>i. (i, n) \<in> set (permissions s)"
  using assms
  by (force simp: resolve_permissions_def Let_def permission_id_of_def split: if_splits)+

lemma resolve_permissions_known:
  assumes "registry_seeded s"
  shows "(\<exists>r. resolve_permissions s names = Some r) \<longleftrightarrow> set names \<subseteq> set AllPermissions"
  using registered_permission_id[OF assms] by (auto simp: resolve_permissions_def Let_def)

text \<open>What the lookups and the permission resolution see does not include the held locks and the generators.\<close>

lemma permission_id_of_frame [simp]:
  "permission_id_of (s\<lparr>locks := l\<rparr>) = permission_id_of s"
  "permission_id_of (s\<lparr>gen := g\<rparr>) = permission_id_of s"
  by (simp_all add: permission_id_of_def fun_eq_iff)

lemma frame_locks [simp]:
  "users_by_external_id (s\<lparr>locks := l\<rparr>) x = users_by_external_id s x"
  "org_roles_by_external_id (s\<lparr>locks := l\<rparr>) o' x = org_roles_by_external_id s o' x"
  "roles_by_external_id (s\<lparr>locks := l\<rparr>) x = roles_by_external_id s x"
  "role_permission_ids (s\<lparr>locks := l\<rparr>) r = role_permission_ids s r"
  "system_role_permission_ids (s\<lparr>locks := l\<rparr>) r = system_role_permission_ids s r"
  "permission_names_of (s\<lparr>locks := l\<rparr>) ids = permission_names_of s ids"
  "role_permission_names (s\<lparr>locks := l\<rparr>) r = role_permission_names s r"
  "system_permission_ids (s\<lparr>locks := l\<rparr>) u = system_permission_ids s u"
  "org_permission_ids (s\<lparr>locks := l\<rparr>) u o' = org_permission_ids s u o'"
  "project_permission_ids (s\<lparr>locks := l\<rparr>) u p = project_permission_ids s u p"
  "resolve_permissions (s\<lparr>locks := l\<rparr>) ns = resolve_permissions s ns"
  "role_has (s\<lparr>locks := l\<rparr>) r = role_has s r"
  "system_role_has (s\<lparr>locks := l\<rparr>) r = system_role_has s r"
  "holds_system (s\<lparr>locks := l\<rparr>) u = holds_system s u"
  "holds_org (s\<lparr>locks := l\<rparr>) u o' = holds_org s u o'"
  "holds_project (s\<lparr>locks := l\<rparr>) u p = holds_project s u p"
  by (simp_all add: users_by_external_id_def org_roles_by_external_id_def roles_by_external_id_def
      role_permission_ids_def system_role_permission_ids_def permission_names_of_def
      role_permission_names_def system_permission_ids_def org_permission_ids_def
      project_permission_ids_def resolve_permissions_def role_has_def
      system_role_has_def holds_system_def holds_org_def holds_project_def fun_eq_iff cong: if_cong)

lemma frame_gen [simp]:
  "users_by_external_id (s\<lparr>gen := g\<rparr>) x = users_by_external_id s x"
  "org_roles_by_external_id (s\<lparr>gen := g\<rparr>) o' x = org_roles_by_external_id s o' x"
  "roles_by_external_id (s\<lparr>gen := g\<rparr>) x = roles_by_external_id s x"
  "role_permission_ids (s\<lparr>gen := g\<rparr>) r = role_permission_ids s r"
  "permission_names_of (s\<lparr>gen := g\<rparr>) ids = permission_names_of s ids"
  "role_permission_names (s\<lparr>gen := g\<rparr>) r = role_permission_names s r"
  "resolve_permissions (s\<lparr>gen := g\<rparr>) ns = resolve_permissions s ns"
  "role_has (s\<lparr>gen := g\<rparr>) r = role_has s r"
  "system_role_has (s\<lparr>gen := g\<rparr>) r = system_role_has s r"
  "holds_system (s\<lparr>gen := g\<rparr>) u = holds_system s u"
  "holds_org (s\<lparr>gen := g\<rparr>) u o' = holds_org s u o'"
  by (simp_all add: users_by_external_id_def org_roles_by_external_id_def roles_by_external_id_def
      role_permission_ids_def permission_names_of_def role_permission_names_def role_has_def resolve_permissions_def
      system_role_has_def holds_system_def holds_org_def fun_eq_iff cong: if_cong)

end
