(* ===== verification/TypedQuery.thy ===== *)
theory TypedQuery
  imports SchemaInv
begin

text \<open>
  \<open>internal/data/pgdb/typed_query.go\<close>: a query is its SQL (here the effect of the statement on the
  database, giving the rows it returns), the scan function and the expected number of rows. \<open>Queue\<close> and
  \<open>QueueMany\<close> are what the query does once its batch is sent; \<open>RunExec\<close> (\<open>exec.go\<close>) discards the rows.
  Every batch that the stores send with \<open>RunBatch\<close> is one statement or reads only, so sending it is
  running its queries in order; how batches and transactions reach the driver is theory Pgdb.
  \<open>limit_offset\<close> is SQL's \<open>LIMIT ... OFFSET ...\<close>; a negative value is a server error.
\<close>

datatype ResultExpectation = ExpectMany | ExpectOne | ExpectExec | ExpectExecOneRow

record ('r, 'a) TypedQuery =
  tq_SQL :: "'r list op"
  tq_Scan :: "'r \<Rightarrow> error + 'a"
  tq_Expect :: ResultExpectation

definition Queue :: "('r, 'a) TypedQuery \<Rightarrow> 'a op" where
  "Queue q = (if tq_Expect q \<noteq> ExpectOne
    then throw (ErrMsg ''TypedQuery.Queue called without ExpectOne'')
    else queueOne (tq_Scan q) (tq_SQL q))"

text \<open>\<open>pgx.CollectRows\<close>: every row is scanned, the first scan error is returned.\<close>

primrec collectRows :: "('r \<Rightarrow> error + 'a) \<Rightarrow> 'r list \<Rightarrow> error + 'a list" where
  "collectRows scan [] = Inr []"
| "collectRows scan (r # rs) = (case scan r of
      Inl e \<Rightarrow> Inl e
    | Inr x \<Rightarrow> (case collectRows scan rs of Inl e \<Rightarrow> Inl e | Inr xs \<Rightarrow> Inr (x # xs)))"

definition QueueMany :: "('r, 'a) TypedQuery \<Rightarrow> 'a list op" where
  "QueueMany q = (if tq_Expect q \<noteq> ExpectMany
    then throw (ErrMsg ''TypedQuery.QueueMany called without ExpectMany'')
    else andThen (atomic (tq_SQL q)) (\<lambda>rows. liftS (collectRows (tq_Scan q) rows)))"

definition RunExec :: "'r list op \<Rightarrow> unit op" where
  "RunExec q = andThen (atomic q) (\<lambda>_. ret ())"

text \<open>
  \<open>RunBatchTx\<close> (\<open>batch.go\<close>) as the stores use it: the queries of the batch, all undone when one of them
  fails. What it does to a transaction it joins is part of theory Pgdb.
\<close>

definition RunBatchTx :: "'a op \<Rightarrow> 'a op" where
  "RunBatchTx m = atomic m"

definition with_page :: "int \<Rightarrow> int \<Rightarrow> 'a list op \<Rightarrow> 'a list op" where
  "with_page lim off q = (if lim < 0 \<or> off < 0 then throw (PgOther ''2201W'')
    else andThen q (\<lambda>rows. ret (limit_offset lim off rows)))"

lemma Queue_simp [simp]:
  "Queue \<lparr>tq_SQL = m, tq_Scan = f, tq_Expect = ExpectOne\<rparr> = queueOne f m"
  by (simp add: Queue_def)

lemma QueueMany_simp [simp]:
  "QueueMany \<lparr>tq_SQL = m, tq_Scan = f, tq_Expect = ExpectMany\<rparr> =
    andThen (atomic m) (\<lambda>rows. liftS (collectRows f rows))"
  by (simp add: QueueMany_def)

lemma collectRows_Inr [simp]: "collectRows Inr rs = Inr rs"
  by (induction rs) auto

lemma collectRows_map: "collectRows (\<lambda>r. Inr (f r)) rs = Inr (map f rs)"
  by (induction rs) auto

lemma collectOne_Inr_iff [simp]:
  "collectOne scan rows = Inr x \<longleftrightarrow> (\<exists>r. rows = [r] \<and> scan r = Inr x)"
  by (cases rows) (auto simp: collectOne_def split: sum.splits)

lemma collectOne_NoRows:
  "(\<And>r. scan r \<noteq> Inl SqlErrNoRows) \<Longrightarrow> collectOne scan rows = Inl SqlErrNoRows \<longleftrightarrow> rows = []"
  by (cases rows) (auto simp: collectOne_def split: sum.splits)

lemma atomic_Inr_iff [simp]: "atomic m s = (Inr x, t) \<longleftrightarrow> m s = (Inr x, t)"
  by (auto simp: atomic_def split: prod.splits sum.splits)

lemma atomic_Inl_iff:
  "atomic m s = (Inl e, t) \<longleftrightarrow> (\<exists>u. m s = (Inl e, u) \<and> t = s\<lparr>gen := gen u\<rparr>)"
  by (auto simp: atomic_def split: prod.splits sum.splits)

lemma atomic_reads [simp]: "atomic (reads f) = reads f"
  by (auto simp: atomic_def reads_def fun_eq_iff)

lemma queueOne_Inr_iff:
  "queueOne scan q s = (Inr x, t) \<longleftrightarrow> (\<exists>r. q s = (Inr [r], t) \<and> scan r = Inr x)"
  by (auto simp: queueOne_def andThen_Inr_iff)

lemma queueOne_reads: "queueOne scan (reads f) = (\<lambda>s. (collectOne scan (f s), s))"
  by (auto simp: queueOne_def andThen_def reads_def liftS_def atomic_def fun_eq_iff)

lemma run_tx_Inr_iff [simp]:
  "run_tx m s = (Inr x, t) \<longleftrightarrow> (\<exists>u. m s = (Inr x, u) \<and> t = u\<lparr>locks := []\<rparr>)"
  by (auto simp: run_tx_def atomic_def split: prod.splits sum.splits)

lemma run_tx_Inl_iff [simp]:
  "run_tx m s = (Inl e, t) \<longleftrightarrow>
    (\<exists>u. m s = (Inl e, u) \<and> t = s\<lparr>gen := gen u, locks := []\<rparr>)"
  by (auto simp: run_tx_def atomic_def split: prod.splits sum.splits)

text \<open>A predicate on the tables ignores the generators and the held locks.\<close>

definition on_tables :: "(db \<Rightarrow> bool) \<Rightarrow> bool" where
  "on_tables I \<longleftrightarrow> (\<forall>s g l. I (s\<lparr>gen := g\<rparr>) = I s \<and> I (s\<lparr>locks := l\<rparr>) = I s)"

lemma on_tablesD [simp]:
  assumes "on_tables I" shows "I (s\<lparr>gen := g\<rparr>) = I s" "I (s\<lparr>locks := l\<rparr>) = I s"
  using assms by (simp_all add: on_tables_def)

lemma preserves_atomic:
  "on_tables I \<Longrightarrow> preserves I m \<Longrightarrow> preserves I (atomic m)"
  by (auto simp: preserves_def atomic_def split: prod.splits sum.splits)

lemma preserves_run_tx:
  "on_tables I \<Longrightarrow> preserves I m \<Longrightarrow> preserves I (run_tx m)"
  unfolding run_tx_def using preserves_atomic[of I m]
  by (auto simp: preserves_def split: prod.splits)

lemma preserves_RunBatchTx:
  "on_tables I \<Longrightarrow> preserves I m \<Longrightarrow> preserves I (RunBatchTx m)"
  by (simp add: RunBatchTx_def preserves_atomic)

lemma RunBatchTx_Inr_iff [simp]: "RunBatchTx m s = (Inr x, t) \<longleftrightarrow> m s = (Inr x, t)"
  by (simp add: RunBatchTx_def)

lemma preserves_queueOne:
  "on_tables I \<Longrightarrow> preserves I q \<Longrightarrow> preserves I (queueOne scan q)"
  unfolding queueOne_def by (intro pres_intros preserves_atomic)

lemma preserves_gen [pres_intros]:
  assumes "on_tables I" shows "preserves I gen_random_uuid" "preserves I (nextval g u)"
  using assms by (simp_all add: preserves_def gen_random_uuid_def nextval_def)

lemma preserves_lock [pres_intros]:
  "on_tables I \<Longrightarrow> preserves I (pg_advisory_xact_lock c k)"
  by (simp add: preserves_def pg_advisory_xact_lock_def updates_def)

lemma preserves_violations [pres_intros]:
  "preserves I unique_violation" "preserves I check_violation" "preserves I fk_violation"
  by (simp_all add: violations preserves_throw)

lemma on_tables_db_inv [simp]: "on_tables db_inv"
  by (simp add: on_tables_def db_inv_def)

lemma on_tables_rbac_inv [simp]: "on_tables rbac_inv"
  by (simp add: on_tables_def rbac_inv_def role_has_def)

end
