(* ===== verification/PgUser.thy ===== *)
theory PgUser
  imports TypedQuery
begin

text \<open>
  The user store \<open>internal/core/pgstores/pguser\<close>: its queries (\<open>query.go\<close>) and store methods
  (\<open>store.go\<close>). \<open>ILIKE\<close> is modelled on ASCII bytes with its wildcards and its escape character; an
  \<open>ORDER BY\<close> sorts nulls last when ascending and first when descending, as PostgreSQL does.
\<close>

section \<open>model.go\<close>

datatype PgOrderByField = OrderByFieldEmail | OrderByFieldCreatedAt | OrderByFieldUpdatedAt

record PgCreateUser =
  pcu_Email :: string
  pcu_Name :: string

record PgUpdateUser =
  puu_ExternalID :: uuid
  puu_ETag :: uuid
  puu_FieldName :: bool
  puu_Name :: string

record PgUserFilter =
  puf_Email :: string
  puf_Name :: string

section \<open>ILIKE, WHERE and ORDER BY\<close>

fun ilike :: "string \<Rightarrow> string \<Rightarrow> bool" where
  "ilike [] s \<longleftrightarrow> s = []"
| "ilike (c # p) s \<longleftrightarrow>
    (if c = CHR 0x25 then ilike p s \<or> (case s of [] \<Rightarrow> False | _ # s' \<Rightarrow> ilike (c # p) s')
     else if c = CHR 0x5C then
       (case p of [] \<Rightarrow> False
        | d # p' \<Rightarrow> (case s of [] \<Rightarrow> False | x # s' \<Rightarrow> lower_char x = lower_char d \<and> ilike p' s'))
     else (case s of [] \<Rightarrow> False
        | x # s' \<Rightarrow> (c = CHR 0x5F \<or> lower_char x = lower_char c) \<and> ilike p s'))"

definition prefix_filter :: "string \<Rightarrow> string \<Rightarrow> bool" where
  "prefix_filter f s \<longleftrightarrow> (let t = trimSpace f in t = [] \<or> ilike (t @ ''%'') s)"

definition whereClause :: "PgUserFilter \<Rightarrow> user_row \<Rightarrow> bool" where
  "whereClause f u \<longleftrightarrow> prefix_filter (puf_Email f) (usr_email u) \<and> prefix_filter (puf_Name f) (usr_name u)"

fun null_le :: "time option \<Rightarrow> time option \<Rightarrow> bool" where
  "null_le _ None = True"
| "null_le None (Some _) = False"
| "null_le (Some a) (Some b) = (a \<le> b)"

definition field_le :: "(string \<Rightarrow> string \<Rightarrow> bool) \<Rightarrow> PgOrderByField \<Rightarrow> user_row \<Rightarrow> user_row \<Rightarrow> bool" where
  "field_le col f a b = (case f of
      OrderByFieldEmail \<Rightarrow> col (usr_email a) (usr_email b)
    | OrderByFieldCreatedAt \<Rightarrow> usr_created_at a \<le> usr_created_at b
    | OrderByFieldUpdatedAt \<Rightarrow> null_le (usr_updated_at a) (usr_updated_at b))"

fun orderByClause ::
    "(string \<Rightarrow> string \<Rightarrow> bool) \<Rightarrow> PgOrderByField By list \<Rightarrow> user_row \<Rightarrow> user_row \<Rightarrow> bool" where
  "orderByClause col [] a b \<longleftrightarrow> usr_id a \<le> usr_id b"
| "orderByClause col (o' # os) a b \<longleftrightarrow>
    (let (x, y) = (if by_Direction o' = DirectionAsc then (a, b) else (b, a)) in
     field_le col (by_Field o') x y \<and> (field_le col (by_Field o') y x \<longrightarrow> orderByClause col os a b))"

section \<open>query.go\<close>

definition userByEmailQuery :: "string \<Rightarrow> (user_row, user_row) TypedQuery" where
  "userByEmailQuery email = \<lparr>
     tq_SQL = reads (\<lambda>s. filter (\<lambda>u. usr_email u = email) (users s)),
     tq_Scan = Inr, tq_Expect = ExpectOne\<rparr>"

definition userByExternalIDQuery :: "uuid \<Rightarrow> (user_row, user_row) TypedQuery" where
  "userByExternalIDQuery x = \<lparr>
     tq_SQL = reads (\<lambda>s. users_by_external_id s x),
     tq_Scan = Inr, tq_Expect = ExpectOne\<rparr>"

definition user_conflict :: "user_row \<Rightarrow> user_row list \<Rightarrow> bool" where
  "user_conflict u us \<longleftrightarrow> (\<exists>v \<in> set us. usr_id v = usr_id u \<or>
     usr_external_id v = usr_external_id u \<or> usr_email v = usr_email u \<or> usr_etag v = usr_etag u)"

definition insert_user :: "user_row \<Rightarrow> user_row list op" where
  "insert_user u = andThen (reads users) (\<lambda>us.
     if user_conflict u us then unique_violation
     else andThen (updates (\<lambda>s. s\<lparr>users := users s @ [u]\<rparr>)) (\<lambda>_. ret [u]))"

definition new_user_row :: "string \<Rightarrow> string \<Rightarrow> user_row op" where
  "new_user_row email name =
    andThen (nextval g_users g_users_update) (\<lambda>i.
    andThen gen_random_uuid (\<lambda>x.
    andThen gen_random_uuid (\<lambda>etag.
    andThen (reads clock) (\<lambda>now.
    ret \<lparr>usr_id = i, usr_external_id = x, usr_email = email, usr_name = name,
         usr_email_verified_at = None, usr_created_at = now, usr_updated_at = None,
         usr_etag = etag\<rparr>))))"

text \<open>\<open>ON CONFLICT (email) DO UPDATE SET email = EXCLUDED.email\<close> returns the existing row as it is.\<close>

definition getOrCreateUserByEmailQuery :: "string \<Rightarrow> (user_row, user_row) TypedQuery" where
  "getOrCreateUserByEmailQuery email = \<lparr>
     tq_SQL = andThen (new_user_row email []) (\<lambda>u.
       andThen (reads (\<lambda>s. filter (\<lambda>v. usr_email v = email) (users s))) (\<lambda>existing.
         if existing \<noteq> [] then ret existing else insert_user u)),
     tq_Scan = Inr, tq_Expect = ExpectOne\<rparr>"

definition createUserQuery :: "PgCreateUser \<Rightarrow> (user_row, user_row) TypedQuery" where
  "createUserQuery cu = \<lparr>
     tq_SQL = andThen (new_user_row (pcu_Email cu) (pcu_Name cu)) insert_user,
     tq_Scan = Inr, tq_Expect = ExpectOne\<rparr>"

text \<open>The row is paired with \<open>is_updated\<close>. \<open>external_id\<close> is unique: at most one row is updated.\<close>

definition updateUserQuery :: "PgUpdateUser \<Rightarrow> (user_row \<times> bool, user_row) TypedQuery" where
  "updateUserQuery uu =
    (let hit = (\<lambda>u. usr_external_id u = puu_ExternalID uu \<and> usr_etag u = puu_ETag uu) in \<lparr>
     tq_SQL = andThen (reads users) (\<lambda>us.
       if filter hit us = [] then ret (map (\<lambda>u. (u, False))
            (filter (\<lambda>u. usr_external_id u = puu_ExternalID uu) us))
       else andThen gen_random_uuid (\<lambda>etag.
            andThen (reads clock) (\<lambda>now.
            let upd = (\<lambda>u. u\<lparr>usr_name := (if puu_FieldName uu then puu_Name uu else usr_name u),
                             usr_updated_at := Some now, usr_etag := etag\<rparr>) in
            if \<exists>u \<in> set us. \<not> hit u \<and> usr_etag u = etag then unique_violation
            else andThen (updates (\<lambda>s. s\<lparr>users := map (\<lambda>u. if hit u then upd u else u) us\<rparr>))
                   (\<lambda>_. ret (map (\<lambda>u. (upd u, True)) (filter hit us)))))),
     tq_Scan = (\<lambda>(u, isUpdated). if \<not> isUpdated then Inl PgErrETagMismatch else Inr u),
     tq_Expect = ExpectOne\<rparr>)"

definition usersQuery ::
    "PgUserFilter \<Rightarrow> PgOrderByField By list \<Rightarrow> int \<Rightarrow> int \<Rightarrow> (user_row, user_row) TypedQuery" where
  "usersQuery filt orderBys pageSize pageOffset = \<lparr>
     tq_SQL = with_page pageSize pageOffset (reads (\<lambda>s.
       sort_by (orderByClause (coll s) orderBys) (filter (whereClause filt) (users s)))),
     tq_Scan = Inr, tq_Expect = ExpectMany\<rparr>"

definition userCountQuery :: "PgUserFilter \<Rightarrow> (int, int) TypedQuery" where
  "userCountQuery filt = \<lparr>
     tq_SQL = reads (\<lambda>s. [int (length (filter (whereClause filt) (users s)))]),
     tq_Scan = Inr, tq_Expect = ExpectOne\<rparr>"

definition markEmailVerifiedQuery :: "uuid \<Rightarrow> (user_row, user_row) TypedQuery" where
  "markEmailVerifiedQuery x =
    (let hit = (\<lambda>u. usr_external_id u = x) in \<lparr>
     tq_SQL = andThen (reads clock) (\<lambda>now.
       let upd = (\<lambda>u. u\<lparr>usr_email_verified_at :=
                      (case usr_email_verified_at u of None \<Rightarrow> Some now | Some t \<Rightarrow> Some t)\<rparr>) in
       andThen (reads users) (\<lambda>us.
       andThen (updates (\<lambda>s. s\<lparr>users := map (\<lambda>u. if hit u then upd u else u) us\<rparr>)) (\<lambda>_.
       ret (map upd (filter hit us))))),
     tq_Scan = Inr, tq_Expect = ExpectOne\<rparr>)"

section \<open>store.go\<close>

definition pguser_GetOrCreateUserByEmail :: "string \<Rightarrow> user_row op" where
  "pguser_GetOrCreateUserByEmail email = Queue (getOrCreateUserByEmailQuery email)"

definition pguser_UserByEmail :: "string \<Rightarrow> user_row op" where
  "pguser_UserByEmail email = Queue (userByEmailQuery email)"

definition pguser_UserByExternalID :: "uuid \<Rightarrow> user_row op" where
  "pguser_UserByExternalID x = Queue (userByExternalIDQuery x)"

definition pguser_Users ::
    "PgUserFilter \<Rightarrow> PgOrderByField By list \<Rightarrow> int \<Rightarrow> int \<Rightarrow> (user_row list \<times> int) op" where
  "pguser_Users filt orderBys pageSize pageOffset =
    andThen (QueueMany (usersQuery filt orderBys pageSize pageOffset)) (\<lambda>us.
    andThen (Queue (userCountQuery filt)) (\<lambda>count.
    ret (us, count)))"

definition pguser_UpdateUser :: "PgUpdateUser \<Rightarrow> user_row op" where
  "pguser_UpdateUser uu = Queue (updateUserQuery uu)"

definition pguser_MarkEmailVerified :: "uuid \<Rightarrow> unit op" where
  "pguser_MarkEmailVerified x = andThen (Queue (markEmailVerifiedQuery x)) (\<lambda>_. ret ())"

definition pguser_CreateUser :: "PgCreateUser \<Rightarrow> user_row op" where
  "pguser_CreateUser cu = Queue (createUserQuery cu)"

end
