(* ===== verification/UserCore.thy ===== *)
theory UserCore
  imports PgUser
begin

text \<open>
  The user domain: \<open>internal/core/user/user.go\<close> and \<open>conv.go\<close>, over the user store. The parameter
  \<open>pa\<close> is \<open>mail.ParseAddress\<close>.
\<close>

section \<open>conv.go\<close>

definition updateUserToPg :: "UpdateUser \<Rightarrow> PgUpdateUser" where
  "updateUserToPg uu = \<lparr>puu_ExternalID = uu_ID uu, puu_ETag = uu_ETag uu,
     puu_FieldName = uu_FieldName uu, puu_Name = uu_Name uu\<rparr>"

definition createUserToPg :: "CreateUser \<Rightarrow> PgCreateUser" where
  "createUserToPg cu = \<lparr>pcu_Email = cu_Email cu, pcu_Name = cu_Name cu\<rparr>"

definition userFromPg :: "user_row \<Rightarrow> User" where
  "userFromPg u = \<lparr>u_ID = usr_external_id u, u_Email = usr_email u, u_Name = usr_name u,
     u_EmailVerifiedAt = usr_email_verified_at u, u_CreatedAt = usr_created_at u,
     u_UpdatedAt = usr_updated_at u, u_ETag = usr_etag u\<rparr>"

definition usersFromPg :: "user_row list \<Rightarrow> User list" where
  "usersFromPg us = sliceMap us userFromPg"

definition orderByToPg :: "string By \<Rightarrow> error + PgOrderByField By" where
  "orderByToPg o' =
    (if by_Field o' = UserOrderByFieldEmail then
       Inr \<lparr>by_Field = OrderByFieldEmail, by_Direction = by_Direction o'\<rparr>
     else if by_Field o' = UserOrderByFieldCreatedAt then
       Inr \<lparr>by_Field = OrderByFieldCreatedAt, by_Direction = by_Direction o'\<rparr>
     else if by_Field o' = UserOrderByFieldUpdatedAt then
       Inr \<lparr>by_Field = OrderByFieldUpdatedAt, by_Direction = by_Direction o'\<rparr>
     else Inl (ErrMsg ''unknown order by field''))"

definition filterToPg :: "UserFilter \<Rightarrow> PgUserFilter" where
  "filterToPg f = \<lparr>puf_Email = uf_Email f, puf_Name = uf_Name f\<rparr>"

primrec orderBysToPg :: "string By list \<Rightarrow> error + PgOrderByField By list" where
  "orderBysToPg [] = Inr []"
| "orderBysToPg (o' # os) = (case orderByToPg o' of
      Inl e \<Rightarrow> Inl e
    | Inr p \<Rightarrow> (case orderBysToPg os of Inl e \<Rightarrow> Inl e | Inr ps \<Rightarrow> Inr (p # ps)))"

section \<open>user.go\<close>

definition notFound :: "error \<Rightarrow> error" where
  "notFound e = (if e = SqlErrNoRows then ErrNotFound else e)"

definition UserByID :: "uuid \<Rightarrow> User op" where
  "UserByID x =
    andThen (onError notFound (pguser_UserByExternalID x)) (\<lambda>pgUser.
    ret (userFromPg pgUser))"

definition UserByEmail :: "string \<Rightarrow> User op" where
  "UserByEmail email =
    andThen (onError notFound (pguser_UserByEmail (toLower (trimSpace email)))) (\<lambda>pgUser.
    ret (userFromPg pgUser))"

definition CreateUser :: "address_parser \<Rightarrow> CreateUser \<Rightarrow> User op" where
  "CreateUser pa cu0 =
    (let cu = cu0\<lparr>cu_Email := toLower (trimSpace (cu_Email cu0))\<rparr> in
     andThen (liftS (CreateUser_Validate pa cu)) (\<lambda>_.
     andThen (onError (\<lambda>e. if e = PgErrAlreadyExists then ErrAlreadyExists else e)
               (pguser_CreateUser (createUserToPg cu))) (\<lambda>pgUser.
     ret (userFromPg pgUser))))"

definition UpdateUser :: "UpdateUser \<Rightarrow> User op" where
  "UpdateUser uu =
    andThen (liftS (UpdateUser_Validate uu)) (\<lambda>_.
    andThen (onError (\<lambda>e. if e = SqlErrNoRows then ErrNotFound
                          else if e = PgErrETagMismatch then ErrETagMismatch else e)
              (pguser_UpdateUser (updateUserToPg uu))) (\<lambda>pgUser.
    ret (userFromPg pgUser)))"

definition Users :: "UserFilter \<Rightarrow> string By list \<Rightarrow> int \<Rightarrow> int \<Rightarrow> (User list \<times> int) op" where
  "Users filt orderBys pageSize pageOffset =
    andThen (liftS (orderBysToPg orderBys)) (\<lambda>pgOrderBys.
    andThen (pguser_Users (filterToPg filt) pgOrderBys pageSize pageOffset) (\<lambda>(pgUsers, count).
    ret (usersFromPg pgUsers, count)))"

section \<open>Lookups\<close>

lemma UserByID_iff:
  "UserByID x s = (Inr v, t) \<longleftrightarrow>
    t = s \<and> (\<exists>u. users_by_external_id s x = [u] \<and> v = userFromPg u)"
  by (auto simp: UserByID_def pguser_UserByExternalID_def userByExternalIDQuery_def queueOne_reads
      andThen_Inr_iff)

lemma UserByEmail_iff:
  "UserByEmail email s = (Inr v, t) \<longleftrightarrow>
    t = s \<and> (\<exists>u. filter (\<lambda>w. usr_email w = toLower (trimSpace email)) (users s) = [u] \<and> v = userFromPg u)"
  by (auto simp: UserByEmail_def pguser_UserByEmail_def userByEmailQuery_def queueOne_reads
      andThen_Inr_iff)

section \<open>Creating\<close>

lemma new_user_row_Inr:
  assumes "new_user_row email name s = (Inr u, t)"
  shows "usr_email u = email" "usr_name u = name" "usr_email_verified_at u = None"
    "usr_updated_at u = None" "usr_created_at u = clock s" "\<exists>g. t = s\<lparr>gen := g\<rparr>"
    "usr_external_id u = g_uuids (gen s) (g_uuid_pos (gen s))"
    "usr_etag u = g_uuids (gen s) (Suc (g_uuid_pos (gen s)))" "usr_id u = g_users (gen s)"
  using assms
  by (auto simp: new_user_row_def andThen_Inr_iff nextval_def gen_random_uuid_def)

lemma new_user_row_Inl [simp]: "new_user_row email name s \<noteq> (Inl e, t)"
  by (simp add: new_user_row_def andThen_Inl_iff nextval_def gen_random_uuid_def)

lemma insert_user_Inr_iff:
  "insert_user u s = (Inr r, t) \<longleftrightarrow>
    r = [u] \<and> \<not> user_conflict u (users s) \<and> t = s\<lparr>users := users s @ [u]\<rparr>"
  by (auto simp: insert_user_def andThen_Inr_iff violations)

lemma insert_user_Inl_iff:
  "insert_user u s = (Inl e, t) \<longleftrightarrow> e = PgErrAlreadyExists \<and> user_conflict u (users s) \<and> t = s"
  by (auto simp: insert_user_def andThen_Inl_iff andThen_Inr_iff violations)

lemma pguser_CreateUser_Inr:
  assumes "pguser_CreateUser cu s = (Inr u, t)"
  shows "usr_email u = pcu_Email cu" "usr_name u = pcu_Name cu" "usr_updated_at u = None"
    "usr_email_verified_at u = None" "users t = users s @ [u]" "\<not> user_conflict u (users s)"
    "\<exists>g. t = s\<lparr>users := users s @ [u], gen := g\<rparr>"
proof -
  from assms obtain w where n: "new_user_row (pcu_Email cu) (pcu_Name cu) s = (Inr u, w)"
    and c: "\<not> user_conflict u (users w)" and t: "t = w\<lparr>users := users w @ [u]\<rparr>"
    by (auto simp: pguser_CreateUser_def createUserQuery_def queueOne_Inr_iff andThen_Inr_iff
        insert_user_Inr_iff)
  obtain g where w: "w = s\<lparr>gen := g\<rparr>" using new_user_row_Inr(6)[OF n] by blast
  show "usr_email u = pcu_Email cu" "usr_name u = pcu_Name cu" "usr_updated_at u = None"
    "usr_email_verified_at u = None" using new_user_row_Inr[OF n] by simp_all
  show "users t = users s @ [u]" "\<not> user_conflict u (users s)" using t c w by simp_all
  show "\<exists>g. t = s\<lparr>users := users s @ [u], gen := g\<rparr>"
    unfolding t w by (rule exI[of _ g]) simp
qed

section \<open>Updating\<close>

lemma pguser_UpdateUser_Inr:
  assumes "pguser_UpdateUser uu s = (Inr v, t)"
  shows "\<exists>u \<in> set (users s). usr_external_id u = puu_ExternalID uu \<and> usr_etag u = puu_ETag uu \<and>
    v = u\<lparr>usr_name := (if puu_FieldName uu then puu_Name uu else usr_name u),
          usr_updated_at := Some (clock s), usr_etag := g_uuids (gen s) (g_uuid_pos (gen s))\<rparr> \<and>
    users t = map (\<lambda>w. if usr_external_id w = puu_ExternalID uu \<and> usr_etag w = puu_ETag uu
                       then v else w) (users s)"
proof -
  let ?hit = "\<lambda>u. usr_external_id u = puu_ExternalID uu \<and> usr_etag u = puu_ETag uu"
  from assms obtain u where f: "filter ?hit (users s) = [u]"
    and v: "v = u\<lparr>usr_name := (if puu_FieldName uu then puu_Name uu else usr_name u),
          usr_updated_at := Some (clock s), usr_etag := g_uuids (gen s) (g_uuid_pos (gen s))\<rparr>"
    and t: "users t = map (\<lambda>w. if ?hit w then w\<lparr>usr_name := (if puu_FieldName uu then puu_Name uu
          else usr_name w), usr_updated_at := Some (clock s),
          usr_etag := g_uuids (gen s) (g_uuid_pos (gen s))\<rparr> else w) (users s)"
    by (auto simp: pguser_UpdateUser_def updateUserQuery_def Let_def queueOne_Inr_iff andThen_Inr_iff
        gen_random_uuid_def violations map_eq_Cons_conv split: if_splits)
  note only = filter_singleD(3)[OF f]
  from filter_singleD(1,2)[OF f] have "u \<in> set (users s)" "?hit u" .
  moreover have "users t = map (\<lambda>w. if ?hit w then v else w) (users s)"
    unfolding t v using only by (intro map_cong) auto
  ultimately show ?thesis using v by blast
qed

lemma pguser_UpdateUser_stale:
  assumes "filter (\<lambda>u. usr_external_id u = puu_ExternalID uu) (users s) = [u]"
    and "usr_etag u \<noteq> puu_ETag uu"
  shows "pguser_UpdateUser uu s = (Inl PgErrETagMismatch, s)"
proof -
  have "filter (\<lambda>w. usr_external_id w = puu_ExternalID uu \<and> usr_etag w = puu_ETag uu) (users s) = []"
    using assms(2) filter_singleD(3)[OF assms(1)] by (auto simp: filter_empty_conv)
  then show ?thesis using assms(1)
    by (simp add: pguser_UpdateUser_def updateUserQuery_def Let_def queueOne_def andThen_def
        atomic_def reads_def ret_def liftS_def collectOne_def)
qed

end
