(* ===== verification/PgRbac.thy ===== *)
theory PgRbac
  imports TypedQuery
begin

text \<open>
  The role and permission store \<open>internal/core/pgstores/pgrbac\<close>: model, queries and store methods for
  system roles and for custom roles. A WITH statement reads one snapshot, so every definition computes
  what it needs from the state it starts in before it writes.
\<close>

section \<open>model.go\<close>

record PgCustomRole =
  pcr_ID :: int
  pcr_ExternalID :: uuid
  pcr_Name :: string
  pcr_ManagedKey :: "string option"
  pcr_PermissionNames :: "string list"
  pcr_CreatedAt :: time
  pcr_UpdatedAt :: "time option"
  pcr_ETag :: uuid

record PgCreateCustomRole =
  pccr_OrgID :: int
  pccr_Name :: string
  pccr_PermissionNames :: "string list"

record PgUpdateCustomRole =
  pur_OrgID :: int
  pur_ExternalID :: uuid
  pur_ETag :: uuid
  pur_FieldName :: bool
  pur_FieldPermissionNames :: bool
  pur_Name :: string
  pur_PermissionNames :: "string list"

record PgModifyCustomRolePermissions =
  pmp_OrgID :: int
  pmp_ExternalID :: uuid
  pmp_ETag :: uuid
  pmp_AddPermissionNames :: "string list"
  pmp_RemovePermissionNames :: "string list"

record PgSystemRole =
  psr_Name :: string
  psr_PermissionNames :: "string list"

text \<open>\<open>ProjectPermissions\<close> and \<open>OrgPermissions\<close> have the same fields.\<close>

record PgPermissions =
  pp_OrgID :: int
  pp_PermissionNames :: "string list"

record PgPermissionsByScope =
  pps_ProjectPermissionNames :: "string list"
  pps_OrgPermissionNames :: "string list"
  pps_SystemPermissionNames :: "string list"

definition custom_role_of :: "db \<Rightarrow> custom_role_row \<Rightarrow> PgCustomRole" where
  "custom_role_of s r = \<lparr>pcr_ID = rol_id r, pcr_ExternalID = rol_external_id r,
     pcr_Name = rol_name r, pcr_ManagedKey = rol_managed_key r,
     pcr_PermissionNames = role_permission_names s (rol_id r), pcr_CreatedAt = rol_created_at r,
     pcr_UpdatedAt = rol_updated_at r, pcr_ETag = rol_etag r\<rparr>"

section \<open>query.go: resolved permissions\<close>

definition projectPermissionsQuery :: "uuid \<Rightarrow> int \<Rightarrow> (PgPermissions, PgPermissions) TypedQuery" where
  "projectPermissionsQuery userID projectID = \<lparr>
     tq_SQL = reads (\<lambda>s. [\<lparr>pp_OrgID = prj_org_id p, pp_PermissionNames =
         permission_names_of s (project_permission_ids s (usr_id u) (prj_id p))\<rparr>.
       p \<leftarrow> projects s, prj_id p = projectID, u \<leftarrow> users_by_external_id s userID]),
     tq_Scan = Inr, tq_Expect = ExpectOne\<rparr>"

definition orgPermissionsByProjectIDQuery :: "uuid \<Rightarrow> int \<Rightarrow> (PgPermissions, PgPermissions) TypedQuery" where
  "orgPermissionsByProjectIDQuery userID projectID = \<lparr>
     tq_SQL = reads (\<lambda>s. [\<lparr>pp_OrgID = prj_org_id p, pp_PermissionNames =
         permission_names_of s (org_permission_ids s (usr_id u) (prj_org_id p))\<rparr>.
       p \<leftarrow> projects s, prj_id p = projectID, u \<leftarrow> users_by_external_id s userID]),
     tq_Scan = Inr, tq_Expect = ExpectOne\<rparr>"

section \<open>query_system_role.go\<close>

definition system_role_of :: "db \<Rightarrow> system_role_row \<Rightarrow> PgSystemRole" where
  "system_role_of s r = \<lparr>psr_Name = sys_name r,
     psr_PermissionNames = permission_names_of s (system_role_permission_ids s (sys_id r))\<rparr>"

definition by_sys_name :: "db \<Rightarrow> system_role_row \<Rightarrow> system_role_row \<Rightarrow> bool" where
  "by_sys_name s a b = coll s (sys_name a) (sys_name b)"

definition systemRolesQuery :: "int \<Rightarrow> int \<Rightarrow> (PgSystemRole, PgSystemRole) TypedQuery" where
  "systemRolesQuery pageSize pageOffset = \<lparr>
     tq_SQL = with_page pageSize pageOffset (reads (\<lambda>s.
       map (system_role_of s) (sort_by (by_sys_name s) (system_roles s)))),
     tq_Scan = Inr, tq_Expect = ExpectMany\<rparr>"

definition systemRoleByNameQuery :: "string \<Rightarrow> (PgSystemRole, PgSystemRole) TypedQuery" where
  "systemRoleByNameQuery name = \<lparr>
     tq_SQL = reads (\<lambda>s. map (system_role_of s) (filter (\<lambda>r. sys_name r = name) (system_roles s))),
     tq_Scan = Inr, tq_Expect = ExpectOne\<rparr>"

definition systemRoleCountQuery :: "(int, int) TypedQuery" where
  "systemRoleCountQuery = \<lparr>
     tq_SQL = reads (\<lambda>s. [int (length (system_roles s))]), tq_Scan = Inr, tq_Expect = ExpectOne\<rparr>"

definition userSystemRolesByExternalIDQuery ::
    "uuid \<Rightarrow> int \<Rightarrow> int \<Rightarrow> (PgSystemRole, PgSystemRole) TypedQuery" where
  "userSystemRolesByExternalIDQuery userID pageSize pageOffset = \<lparr>
     tq_SQL = with_page pageSize pageOffset (reads (\<lambda>s.
       map (system_role_of s) (sort_by (by_sys_name s)
         [r. (u, rid) \<leftarrow> system_role_assignments s, v \<leftarrow> users_by_external_id s userID, usr_id v = u,
             r \<leftarrow> system_roles s, sys_id r = rid]))),
     tq_Scan = Inr, tq_Expect = ExpectMany\<rparr>"

definition userSystemRoleCountByExternalIDQuery :: "uuid \<Rightarrow> (int, int) TypedQuery" where
  "userSystemRoleCountByExternalIDQuery userID = \<lparr>
     tq_SQL = reads (\<lambda>s. [int (length (filter (\<lambda>(u, r). u = usr_id v) (system_role_assignments s))).
       v \<leftarrow> users_by_external_id s userID]),
     tq_Scan = Inr, tq_Expect = ExpectOne\<rparr>"

definition systemPermissionNamesQuery :: "uuid \<Rightarrow> (string list, string list) TypedQuery" where
  "systemPermissionNamesQuery userID = \<lparr>
     tq_SQL = reads (\<lambda>s. [remdups (permission_names_of s (system_permission_ids s (usr_id v))).
       v \<leftarrow> users_by_external_id s userID]),
     tq_Scan = Inr, tq_Expect = ExpectOne\<rparr>"

text \<open>\<open>excluded_assignment\<close> is the CTE of that name: users and roles are joined on their primary keys, so a
  row of the assignments appears once. \<open>remaining_permissions\<close>: the permissions of each user's system roles when the assignment \<open>ex\<close> is left out.\<close>

definition remaining_permissions :: "db \<Rightarrow> int \<times> int \<Rightarrow> (int \<times> int) list" where
  "remaining_permissions s ex =
    [(u, p). (u, r) \<leftarrow> system_role_assignments s, (u, r) \<noteq> ex, p \<leftarrow> system_role_permission_ids s r]"

definition fully_privileged_in :: "db \<Rightarrow> (int \<times> int) list \<Rightarrow> bool" where
  "fully_privileged_in s ups \<longleftrightarrow>
    (\<exists>u \<in> fst ` set ups. length (remdups [p. (v, p) \<leftarrow> ups, v = u]) = length (permissions s))"

definition excluded_assignment :: "db \<Rightarrow> uuid \<Rightarrow> string \<Rightarrow> (int \<times> int) list" where
  "excluded_assignment s userID roleName = filter (\<lambda>(u, rid).
     u \<in> usr_id ` set (users_by_external_id s userID) \<and>
     rid \<in> sys_id ` set (filter (\<lambda>r. sys_name r = roleName) (system_roles s)))
     (system_role_assignments s)"

definition fullyPrivilegedUserRemainsAfterSystemRoleUnassignQuery ::
    "uuid \<Rightarrow> string \<Rightarrow> (bool, bool) TypedQuery" where
  "fullyPrivilegedUserRemainsAfterSystemRoleUnassignQuery userID roleName = \<lparr>
     tq_SQL = reads (\<lambda>s. map (\<lambda>ex. fully_privileged_in s (remaining_permissions s ex))
       (excluded_assignment s userID roleName)),
     tq_Scan = Inr, tq_Expect = ExpectOne\<rparr>"

definition assignSystemRoleQuery :: "uuid \<Rightarrow> string \<Rightarrow> (int, int) TypedQuery" where
  "assignSystemRoleQuery userID roleName = \<lparr>
     tq_SQL = andThen (reads (\<lambda>s. [(usr_id v, sys_id r).
         v \<leftarrow> users_by_external_id s userID, r \<leftarrow> system_roles s, sys_name r = roleName])) (\<lambda>rows.
       andThen (reads system_role_assignments) (\<lambda>sra.
       if (\<exists>a \<in> set rows. a \<in> set sra) \<or> \<not> distinct rows then unique_violation
       else andThen (updates (\<lambda>s. s\<lparr>system_role_assignments := sra @ rows\<rparr>)) (\<lambda>_.
         ret (map snd rows)))),
     tq_Scan = Inr, tq_Expect = ExpectOne\<rparr>"

definition unassignSystemRoleQuery :: "uuid \<Rightarrow> string \<Rightarrow> (int, int) TypedQuery" where
  "unassignSystemRoleQuery userID roleName = \<lparr>
     tq_SQL = andThen (reads (\<lambda>s. (map usr_id (users_by_external_id s userID),
           map sys_id (filter (\<lambda>r. sys_name r = roleName) (system_roles s))))) (\<lambda>(uids, rids).
       andThen (reads system_role_assignments) (\<lambda>sra.
       let hit = (\<lambda>(u, r). u \<in> set uids \<and> r \<in> set rids) in
       andThen (updates (\<lambda>s. s\<lparr>system_role_assignments := filter (\<lambda>a. \<not> hit a) sra\<rparr>)) (\<lambda>_.
       ret (map snd (filter hit sra))))),
     tq_Scan = Inr, tq_Expect = ExpectOne\<rparr>"

section \<open>store.go and store\_system\_role.go\<close>

definition SystemPermissions :: "uuid \<Rightarrow> string list op" where
  "SystemPermissions userID = Queue (systemPermissionNamesQuery userID)"

definition PermissionsByScope :: "uuid \<Rightarrow> int \<Rightarrow> PgPermissionsByScope op" where
  "PermissionsByScope userID projectID =
    andThen (Queue (projectPermissionsQuery userID projectID)) (\<lambda>projectPerms.
    andThen (Queue (orgPermissionsByProjectIDQuery userID projectID)) (\<lambda>orgPerms.
    andThen (Queue (systemPermissionNamesQuery userID)) (\<lambda>systemPermNames.
    ret \<lparr>pps_ProjectPermissionNames = pp_PermissionNames projectPerms,
         pps_OrgPermissionNames = pp_PermissionNames orgPerms,
         pps_SystemPermissionNames = systemPermNames\<rparr>)))"

definition ProjectPermissions :: "uuid \<Rightarrow> int \<Rightarrow> PgPermissions op" where
  "ProjectPermissions userID projectID = Queue (projectPermissionsQuery userID projectID)"

definition OrgPermissionsByProjectID :: "uuid \<Rightarrow> int \<Rightarrow> PgPermissions op" where
  "OrgPermissionsByProjectID userID projectID = Queue (orgPermissionsByProjectIDQuery userID projectID)"

definition LockSystemRoleManagement :: "unit op" where
  "LockSystemRoleManagement = RunExec (andThen
     (pg_advisory_xact_lock ''rbac.system-role-management'' 0) (\<lambda>u. ret [u]))"

primrec lock_each :: "string \<Rightarrow> int list \<Rightarrow> unit list op" where
  "lock_each cls [] = ret []"
| "lock_each cls (k # ks) =
    andThen (pg_advisory_xact_lock cls k) (\<lambda>u. andThen (lock_each cls ks) (\<lambda>us. ret (u # us)))"

definition LockSystemRoleUser :: "uuid \<Rightarrow> unit op" where
  "LockSystemRoleUser userID = RunExec (andThen (reads (\<lambda>s. map usr_id (users_by_external_id s userID)))
     (lock_each ''rbac.system-role-user''))"

definition pg_SystemRoles :: "int \<Rightarrow> int \<Rightarrow> (PgSystemRole list \<times> int) op" where
  "pg_SystemRoles pageSize pageOffset =
    andThen (QueueMany (systemRolesQuery pageSize pageOffset)) (\<lambda>rs.
    andThen (Queue systemRoleCountQuery) (\<lambda>count. ret (rs, count)))"

definition SystemRoleByName :: "string \<Rightarrow> PgSystemRole op" where
  "SystemRoleByName name = Queue (systemRoleByNameQuery name)"

definition UserSystemRolesByExternalID :: "uuid \<Rightarrow> int \<Rightarrow> int \<Rightarrow> (PgSystemRole list \<times> int) op" where
  "UserSystemRolesByExternalID userID pageSize pageOffset =
    andThen (QueueMany (userSystemRolesByExternalIDQuery userID pageSize pageOffset)) (\<lambda>rs.
    andThen (Queue (userSystemRoleCountByExternalIDQuery userID)) (\<lambda>count. ret (rs, count)))"

definition FullyPrivilegedUserRemainsAfterSystemRoleUnassign :: "uuid \<Rightarrow> string \<Rightarrow> bool op" where
  "FullyPrivilegedUserRemainsAfterSystemRoleUnassign userID roleName =
    Queue (fullyPrivilegedUserRemainsAfterSystemRoleUnassignQuery userID roleName)"

definition pg_AssignSystemRole :: "uuid \<Rightarrow> string \<Rightarrow> unit op" where
  "pg_AssignSystemRole userID roleName =
    andThen (Queue (assignSystemRoleQuery userID roleName)) (\<lambda>_. ret ())"

definition pg_UnassignSystemRole :: "uuid \<Rightarrow> string \<Rightarrow> unit op" where
  "pg_UnassignSystemRole userID roleName =
    andThen (Queue (unassignSystemRoleQuery userID roleName)) (\<lambda>_. ret ())"

end
