(* ===== verification/Fixtures.thy ===== *)
theory Fixtures
  imports PgRbac
begin

text \<open>
  A small concrete database the witnesses run the operations on: two organizations with their control
  and default projects, four users, a registry of three permissions, one system role and three custom
  roles (one of them managed). It satisfies every constraint of the schema and the security invariant.
\<close>

definition demo_user :: "int \<Rightarrow> uuid \<Rightarrow> string \<Rightarrow> uuid \<Rightarrow> user_row" where
  "demo_user i x email etag = \<lparr>usr_id = i, usr_external_id = x, usr_email = email, usr_name = ''n'',
     usr_email_verified_at = None, usr_created_at = 5, usr_updated_at = None, usr_etag = etag\<rparr>"

definition demo_project :: "int \<Rightarrow> int \<Rightarrow> string \<Rightarrow> bool \<Rightarrow> uuid \<Rightarrow> project_row" where
  "demo_project i org name ctl etag = \<lparr>prj_id = i, prj_org_id = org, prj_name = name,
     prj_is_control = ctl, prj_created_at = 5, prj_updated_at = None, prj_etag = etag\<rparr>"

definition demo_role :: "int \<Rightarrow> uuid \<Rightarrow> string \<Rightarrow> int \<Rightarrow> string option \<Rightarrow> uuid \<Rightarrow> custom_role_row" where
  "demo_role i x name org key etag = \<lparr>rol_id = i, rol_external_id = x, rol_name = name,
     rol_org_id = org, rol_managed_key = key, rol_created_at = 5, rol_updated_at = None,
     rol_etag = etag\<rparr>"

definition demo_gen :: generators where
  "demo_gen = \<lparr>g_uuids = (\<lambda>n. of_nat (1000 + n)), g_uuid_pos = 0, g_users = 10,
     g_organizations = 10, g_projects = 10, g_custom_roles = 10, g_magic_link_tokens = 10,
     g_refresh_tokens = 10\<rparr>"

definition demo_db :: db where
  "demo_db = \<lparr>
    users = [demo_user 1 101 ''alice@x'' 201, demo_user 2 102 ''bob@x'' 202,
             demo_user 3 103 ''carol@x'' 203, demo_user 4 104 ''dave@x'' 204],
    organizations =
      [\<lparr>org_id = 1, org_name = ''theapp'', org_created_at = 5, org_updated_at = None\<rparr>,
       \<lparr>org_id = 2, org_name = ''acme'', org_created_at = 5, org_updated_at = None\<rparr>],
    projects = [demo_project 1 1 ''control'' True 301, demo_project 2 1 ''main'' False 302,
                demo_project 3 2 ''control'' True 303, demo_project 4 2 ''main'' False 304],
    org_membership = [(1, 1), (2, 2), (2, 3), (2, 4)],
    permissions = [(1, PermissionUserRead), (2, PermissionCustomRoleAssignProject),
                   (3, PermissionCustomRoleCreate)],
    custom_roles = [demo_role 1 401 ''Assigner'' 2 None 501,
                    demo_role 2 402 ''Builder'' 2 None 502,
                    demo_role 3 403 ''Organization Administrator'' 2
                      (Some ManagedRoleKeyOrganizationAdmin) 503],
    custom_role_permissions = [(1, 2), (2, 3), (3, 2), (3, 3)],
    org_role_assignments = [\<lparr>oa_user_id = 2, oa_org_id = 2, oa_role_id = 3\<rparr>],
    project_role_assignments =
      [\<lparr>pa_user_id = 3, pa_project_id = 4, pa_role_id = 1, pa_org_id = 2\<rparr>],
    system_roles = [\<lparr>sys_id = 1, sys_external_id = 601, sys_name = ''superadmin''\<rparr>],
    system_role_permissions = [(1, 1), (1, 2), (1, 3)],
    system_role_assignments = [(1, 1), (2, 1)],
    magic_link_tokens = [\<lparr>tok_id = 1, tok_user_id = 3, tok_hash = ''h1'', tok_expires_at = 900,
      tok_closed_at = None, tok_created_at = 50\<rparr>],
    refresh_tokens = [\<lparr>tok_id = 1, tok_user_id = 3, tok_hash = ''r1'', tok_expires_at = 900,
      tok_closed_at = None, tok_created_at = 50\<rparr>],
    clock = 100, gen = demo_gen, locks = [], coll = (\<lambda>_ _. True), natural = (\<lambda>_ _. True)\<rparr>"

lemmas demo_defs = demo_db_def demo_user_def demo_project_def demo_role_def demo_gen_def

lemma demo_db_inv: "db_inv demo_db"
  by (simp add: db_inv_def constraint_defs demo_defs perm_names role_name_check_def
      managed_key_check_def btrim_def trimBy_def byte_def toLower_def lower_char_def
      ManagedRoleKeyOrganizationAdmin_def)

lemma demo_rbac_inv: "rbac_inv demo_db"
  by (auto simp: rbac_inv_def role_has_def demo_defs isProjectScope_iff SystemOnlyPermissions_def
      perm_names)

definition demo_session :: "uuid \<Rightarrow> int \<Rightarrow> int \<Rightarrow> AuthSession" where
  "demo_session x prj org = \<lparr>as_User = \<lparr>au_UserID = x, au_Email = ''a@x'', au_Permissions = []\<rparr>,
     as_Project = Some \<lparr>ap_ID = prj, ap_OrgID = org, ap_OrgName = ''acme'', ap_IsControl = False,
       ap_IsOrgMember = True\<rparr>\<rparr>"

end
