(* ===== verification/SystemRoleProps.thy ===== *)
theory SystemRoleProps
  imports SystemRoleCore Fixtures
begin

text \<open>
  Correctness of system-role management: a revoke never removes the last fully privileged
  administrator, nobody hands out or takes away authority they do not hold, and the lock order.
\<close>

definition fully_privileged :: "db \<Rightarrow> int \<Rightarrow> bool" where
  "fully_privileged s u \<longleftrightarrow> u \<in> user_ids s \<and> (\<forall>n \<in> snd ` set (permissions s). holds_system s u n)"

definition has_admin :: "db \<Rightarrow> bool" where
  "has_admin s \<longleftrightarrow> (\<exists>u. fully_privileged s u)"

lemma on_tables_has_admin [simp]: "on_tables has_admin"
  by (simp add: on_tables_def has_admin_def fully_privileged_def holds_system_def system_role_has_def)

section \<open>The count in the SQL is the registry covered\<close>

lemma fully_privileged_in_covers:
  assumes ps: "permissions_ok (permissions s)"
    and sub: "\<forall>(u, p) \<in> set ups. p \<in> perm_ids s"
    and full: "fully_privileged_in s ups"
  shows "\<exists>u \<in> fst ` set ups. \<forall>p \<in> perm_ids s. (u, p) \<in> set ups"
proof -
  from full obtain u where u: "u \<in> fst ` set ups"
    and len: "length (remdups [p. (v, p) \<leftarrow> ups, v = u]) = length (permissions s)"
    by (auto simp: fully_privileged_in_def)
  let ?P = "set [p. (v, p) \<leftarrow> ups, v = u]"
  have P: "?P = {p. (u, p) \<in> set ups}" by force
  have "?P \<subseteq> perm_ids s" using sub P by auto
  moreover have "card ?P = card (perm_ids s)"
  proof -
    have "card ?P = length (permissions s)" using len by (metis length_remdups_card_conv)
    also have "\<dots> = card (perm_ids s)"
      using ps by (metis distinct_card length_map permissions_ok_def set_map)
    finally show ?thesis .
  qed
  ultimately have "?P = perm_ids s" by (simp add: card_subset_eq)
  with u P show ?thesis by blast
qed

lemma frame_system [simp]:
  "remaining_permissions (s\<lparr>locks := l\<rparr>) ex = remaining_permissions s ex"
  "fully_privileged_in (s\<lparr>locks := l\<rparr>) ups = fully_privileged_in s ups"
  by (simp_all add: remaining_permissions_def fully_privileged_in_def cong: if_cong)

lemma remaining_permissions_set:
  "(u, p) \<in> set (remaining_permissions s ex) \<longleftrightarrow>
    (\<exists>r. (u, r) \<in> set (system_role_assignments s) \<and> (u, r) \<noteq> ex \<and>
         (r, p) \<in> set (system_role_permissions s))"
  unfolding remaining_permissions_def by force

lemma unassign_hits_one:
  assumes inv: "db_inv s" and r: "filter (\<lambda>r. sys_name r = n) (system_roles s) = [row]"
    and u: "users_by_external_id s x = [v]"
    and un: "pg_UnassignSystemRole x n s = (Inr (), t)"
  shows "t = s\<lparr>system_role_assignments :=
    filter (\<lambda>a. a \<noteq> (usr_id v, sys_id row)) (system_role_assignments s)\<rparr>"
proof -
  have "(\<lambda>(a, b). \<not> (a \<in> usr_id ` set [v] \<and> b \<in> sys_id ` set [row])) = (\<lambda>c. c \<noteq> (usr_id v, sys_id row))"
    by auto
  then show ?thesis using pg_UnassignSystemRole_Inr[OF un] unfolding r u by simp
qed

lemma ensure_Inr:
  assumes "ensureFullyPrivilegedSystemUserRemains x n s = (Inr (), t)"
  shows "t = s \<and> (\<exists>v \<in> set (users_by_external_id s x). \<exists>row \<in> set (system_roles s).
    sys_name row = n \<and> (usr_id v, sys_id row) \<in> set (system_role_assignments s) \<and>
    fully_privileged_in s (remaining_permissions s (usr_id v, sys_id row)))"
proof -
  let ?ex = "excluded_assignment s x n"
  from assms have t: "t = s" and rows: "map (\<lambda>ex. fully_privileged_in s (remaining_permissions s ex)) ?ex = [True]"
    by (auto simp: ensureFullyPrivilegedSystemUserRemains_def andThen_Inr_iff queueOne_reads
        FullyPrivilegedUserRemainsAfterSystemRoleUnassign_def
        fullyPrivilegedUserRemainsAfterSystemRoleUnassignQuery_def split: if_splits)
  then obtain ex where ex: "?ex = [ex]" "fully_privileged_in s (remaining_permissions s ex)" by auto
  obtain u r where ur: "ex = (u, r)" by (cases ex)
  have "(u, r) \<in> set ?ex" using ex(1) ur by simp
  then show ?thesis using t ex(2) unfolding ur by (auto simp: excluded_assignment_def)
qed

lemma users_by_external_id_single:
  assumes "db_inv s" "v \<in> set (users_by_external_id s x)"
  shows "users_by_external_id s x = [v]"
  using assms filter_eq_single[of usr_external_id "users s" v]
  by (auto simp: db_inv_def users_ok_def users_by_external_id_def)

lemma system_role_by_name_single:
  assumes "db_inv s" "row \<in> set (system_roles s)"
  shows "filter (\<lambda>r. sys_name r = sys_name row) (system_roles s) = [row]"
  using assms by (simp add: db_inv_def system_roles_ok_def filter_eq_single)

lemma fully_privileged_query:
  assumes inv: "db_inv s" and v: "users_by_external_id s x = [v]"
    and row: "filter (\<lambda>r. sys_name r = n) (system_roles s) = [row]"
    and asg: "(usr_id v, sys_id row) \<in> set (system_role_assignments s)"
  shows "FullyPrivilegedUserRemainsAfterSystemRoleUnassign x n s =
    (Inr (fully_privileged_in s (remaining_permissions s (usr_id v, sys_id row))), s)"
proof -
  have "(\<lambda>(u, rid). u \<in> usr_id ` set [v] \<and> rid \<in> sys_id ` set [row]) = (\<lambda>a. a = (usr_id v, sys_id row))"
    by auto
  then have "excluded_assignment s x n = filter (\<lambda>a. a = (usr_id v, sys_id row)) (system_role_assignments s)"
    unfolding excluded_assignment_def v row by simp
  also have "\<dots> = [(usr_id v, sys_id row)]"
    using filter_eq_single[of "\<lambda>a. a" "system_role_assignments s"] inv asg
    by (simp add: db_inv_def system_assignments_ok_def)
  finally show ?thesis
    by (simp add: FullyPrivilegedUserRemainsAfterSystemRoleUnassign_def queueOne_reads collectOne_def
        fullyPrivilegedUserRemainsAfterSystemRoleUnassignQuery_def)
qed

text \<open>A user counted by the query is a fully privileged user once the assignment is gone.\<close>

lemma remaining_privileged_admin:
  assumes inv: "db_inv s" and full: "fully_privileged_in s (remaining_permissions s ex)"
  shows "has_admin (s\<lparr>system_role_assignments := filter (\<lambda>a. a \<noteq> ex) (system_role_assignments s)\<rparr>)"
    (is "has_admin ?t")
proof -
  have "permissions_ok (permissions s)" using inv by (simp add: db_inv_def)
  moreover have "\<forall>(u, p) \<in> set (remaining_permissions s ex). p \<in> perm_ids s"
    using inv by (auto simp: remaining_permissions_set db_inv_def role_permissions_ok_def)
  ultimately obtain u where u: "u \<in> fst ` set (remaining_permissions s ex)"
    and cov: "\<forall>p \<in> perm_ids s. (u, p) \<in> set (remaining_permissions s ex)"
    using fully_privileged_in_covers[OF _ _ full] by blast
  have "u \<in> user_ids s"
    using u inv by (auto simp: remaining_permissions_set db_inv_def system_assignments_ok_def)
  moreover have "holds_system ?t u n'" if "(i, n') \<in> set (permissions s)" for i n'
  proof -
    have "(u, i) \<in> set (remaining_permissions s ex)" using cov that by force
    then obtain r where "(u, r) \<in> set (system_role_assignments s)" "(u, r) \<noteq> ex"
      "(r, i) \<in> set (system_role_permissions s)" by (auto simp: remaining_permissions_set)
    then show ?thesis using that by (auto simp: holds_system_def system_role_has_def)
  qed
  ultimately have "fully_privileged ?t u" by (auto simp: fully_privileged_def)
  then show ?thesis by (auto simp: has_admin_def)
qed

lemma revoke_keeps_admin:
  assumes inv: "db_inv s"
    and en: "ensureFullyPrivilegedSystemUserRemains x n s = (Inr (), s)"
    and un: "pg_UnassignSystemRole x n s = (Inr (), t)"
  shows "has_admin t"
proof -
  from ensure_Inr[OF en] obtain v row where v: "v \<in> set (users_by_external_id s x)"
    and row: "row \<in> set (system_roles s)" "sys_name row = n"
    and full: "fully_privileged_in s (remaining_permissions s (usr_id v, sys_id row))" by blast
  have "t = s\<lparr>system_role_assignments :=
      filter (\<lambda>a. a \<noteq> (usr_id v, sys_id row)) (system_role_assignments s)\<rparr>"
    using unassign_hits_one[OF inv _ users_by_external_id_single[OF inv v] un]
      system_role_by_name_single[OF inv row(1)] row(2) by simp
  then show ?thesis using remaining_privileged_admin[OF inv full] by simp
qed

lemma lockSystemRoleUsers_Inr [simp]:
  "lockSystemRoleUsers a b s = (Inr u, t) \<longleftrightarrow>
    t = s\<lparr>locks := locks s @ user_lock_keys s (if a = b then [a] else [min a b, max a b])\<rparr>"
  by (auto simp: lockSystemRoleUsers_eq)

lemma UnassignSystemRole_Inr:
  assumes "UnassignSystemRole ctx x n s = (Inr (), t)"
  shows "\<exists>sess w role w2. ctx = Some sess \<and> (\<exists>l. w = s\<lparr>locks := l\<rparr>) \<and>
    authorizeSystemRoleChange (au_UserID (as_User sess)) n w = (Inr role, w) \<and>
    ensureFullyPrivilegedSystemUserRemains x (psr_Name role) w = (Inr (), w) \<and>
    pg_UnassignSystemRole x n w = (Inr (), w2) \<and> t = w2\<lparr>locks := []\<rparr>"
proof -
  from assms obtain sess l role u v w where ctx: "ctx = Some sess"
    and a: "authorizeSystemRoleChange (au_UserID (as_User sess)) n (s\<lparr>locks := l\<rparr>) = (Inr role, u)"
    and e: "ensureFullyPrivilegedSystemUserRemains x (psr_Name role) u = (Inr (), v)"
    and w: "pg_UnassignSystemRole x n v = (Inr (), w)" "t = w\<lparr>locks := []\<rparr>"
    by (auto simp: UnassignSystemRole_def authSession_def andThen_Inr_iff LockSystemRoleManagement_eq
        split: option.splits)
  have u: "u = s\<lparr>locks := l\<rparr>" using a by (simp add: authorizeSystemRoleChange_iff)
  have "v = u" using ensure_Inr[OF e] by simp
  then show ?thesis using ctx a e w u by blast
qed

lemma AssignSystemRole_Inr:
  assumes "AssignSystemRole ctx x n s = (Inr (), t)"
  shows "\<exists>sess w role w2. ctx = Some sess \<and> (\<exists>l. w = s\<lparr>locks := l\<rparr>) \<and>
    authorizeSystemRoleChange (au_UserID (as_User sess)) n w = (Inr role, w) \<and>
    pg_AssignSystemRole x n w = (Inr (), w2) \<and> t = w2\<lparr>locks := []\<rparr>"
proof -
  from assms obtain sess l role u w where ctx: "ctx = Some sess"
    and a: "authorizeSystemRoleChange (au_UserID (as_User sess)) n (s\<lparr>locks := l\<rparr>) = (Inr role, u)"
    and w: "pg_AssignSystemRole x n u = (Inr (), w)" "t = w\<lparr>locks := []\<rparr>"
    by (auto simp: AssignSystemRole_def authSession_def andThen_Inr_iff split: option.splits)
  have "u = s\<lparr>locks := l\<rparr>" using a by (simp add: authorizeSystemRoleChange_iff)
  then show ?thesis using ctx a w by blast
qed

section \<open>Effects\<close>

text \<open>What an actor's call may do to the system assignments: \<open>within\<close> his authority, and nothing else.\<close>

definition system_change :: "AuthSession \<Rightarrow> db \<Rightarrow> db \<Rightarrow> user_row \<Rightarrow> bool" where
  "system_change sess s t actor \<longleftrightarrow> users_by_external_id s (au_UserID (as_User sess)) = [actor] \<and>
    (\<exists>a l. t = s\<lparr>system_role_assignments := a, locks := l\<rparr>) \<and>
    (\<forall>u p. holds_system t u p \<noteq> holds_system s u p \<longrightarrow> holds_system s (usr_id actor) p)"

lemma assign_effect:
  assumes "AssignSystemRole (Some sess) x n s = (Inr (), t)"
  shows "\<exists>actor. users_by_external_id s (au_UserID (as_User sess)) = [actor] \<and> system_change sess s t actor \<and>
    (\<forall>u p. holds_system t u p \<longrightarrow> holds_system s u p \<or> holds_system s (usr_id actor) p)"
proof -
  from AssignSystemRole_Inr[OF assms] obtain w role w2 l where w: "w = s\<lparr>locks := l\<rparr>"
    and a: "authorizeSystemRoleChange (au_UserID (as_User sess)) n w = (Inr role, w)"
    and g: "pg_AssignSystemRole x n w = (Inr (), w2)" and t: "t = w2\<lparr>locks := []\<rparr>" by auto
  from a obtain row actor where row: "filter (\<lambda>r. sys_name r = n) (system_roles w) = [row]"
    and actor: "users_by_external_id w (au_UserID (as_User sess)) = [actor]"
    and auth: "\<And>p. system_role_has w (sys_id row) p \<Longrightarrow> holds_system w (usr_id actor) p"
    by (auto simp: authorizeSystemRoleChange_iff)
  from g obtain u r where "u \<in> set (users_by_external_id w x)"
    and r: "r \<in> set (system_roles w)" "sys_name r = n"
    and "(usr_id u, sys_id r) \<notin> set (system_role_assignments w)"
    and w2: "w2 = w\<lparr>system_role_assignments := system_role_assignments w @ [(usr_id u, sys_id r)]\<rparr>"
    by (rule pg_AssignSystemRole_InrE)
  have "r = row" using filter_singleD(3)[OF row r(1)] r(2) .
  have up: "holds_system s v p \<or> holds_system s (usr_id actor) p" if "holds_system t v p" for v p
    using that auth[of p] \<open>r = row\<close> by (auto simp: t w2 w holds_system_def system_role_has_def)
  moreover have "holds_system t v p" if "holds_system s v p" for v p
    using that by (auto simp: t w2 w holds_system_def system_role_has_def)
  moreover have one: "users_by_external_id s (au_UserID (as_User sess)) = [actor]"
    using actor by (simp add: w users_by_external_id_def)
  moreover have "\<exists>a l. t = s\<lparr>system_role_assignments := a, locks := l\<rparr>"
    by (intro exI[of _ "system_role_assignments s @ [(usr_id u, sys_id r)]"] exI[of _ "[]"]) (simp add: t w2 w)
  ultimately have "system_change sess s t actor" unfolding system_change_def by blast
  then show ?thesis using one up by blast
qed

lemma unassign_effect:
  assumes "db_inv s" and "UnassignSystemRole (Some sess) x n s = (Inr (), t)"
  shows "\<exists>actor. users_by_external_id s (au_UserID (as_User sess)) = [actor] \<and> system_change sess s t actor \<and>
    (\<forall>u p. holds_system s u p \<longrightarrow> holds_system t u p \<or> holds_system s (usr_id actor) p)"
proof -
  from UnassignSystemRole_Inr[OF assms(2)] obtain w role w2 l where w: "w = s\<lparr>locks := l\<rparr>"
    and a: "authorizeSystemRoleChange (au_UserID (as_User sess)) n w = (Inr role, w)"
    and e: "ensureFullyPrivilegedSystemUserRemains x (psr_Name role) w = (Inr (), w)"
    and g: "pg_UnassignSystemRole x n w = (Inr (), w2)" and t: "t = w2\<lparr>locks := []\<rparr>" by auto
  from a obtain row actor where row: "filter (\<lambda>r. sys_name r = n) (system_roles w) = [row]"
    and actor: "users_by_external_id w (au_UserID (as_User sess)) = [actor]"
    and auth: "\<And>p. system_role_has w (sys_id row) p \<Longrightarrow> holds_system w (usr_id actor) p"
    by (auto simp: authorizeSystemRoleChange_iff)
  have inv: "db_inv w" using assms(1) by (simp add: w)
  from ensure_Inr[OF e] obtain v where v: "v \<in> set (users_by_external_id w x)" by blast
  have w2: "w2 = w\<lparr>system_role_assignments :=
      filter (\<lambda>a. a \<noteq> (usr_id v, sys_id row)) (system_role_assignments w)\<rparr>"
    by (rule unassign_hits_one[OF inv row users_by_external_id_single[OF inv v] g])
  have down: "holds_system t u p \<or> holds_system s (usr_id actor) p" if "holds_system s u p" for u p
  proof (rule disjCI)
    assume no: "\<not> holds_system s (usr_id actor) p"
    from that obtain r where r: "(u, r) \<in> set (system_role_assignments s)" "system_role_has s r p"
      by (auto simp: holds_system_def)
    have "r \<noteq> sys_id row" using auth[of p] no r(2) by (auto simp: w system_role_has_def holds_system_def)
    then show "holds_system t u p" using r
      by (auto simp: t w2 w holds_system_def system_role_has_def)
  qed
  moreover have "holds_system s v p" if "holds_system t v p" for v p
    using that by (auto simp: t w2 w holds_system_def system_role_has_def)
  moreover have one: "users_by_external_id s (au_UserID (as_User sess)) = [actor]"
    using actor by (simp add: w users_by_external_id_def)
  moreover have "\<exists>a l. t = s\<lparr>system_role_assignments := a, locks := l\<rparr>"
    by (rule exI, rule exI[of _ "[]"]) (simp add: t w2 w)
  ultimately have "system_change sess s t actor" unfolding system_change_def by blast
  then show ?thesis using one down by blast
qed

section \<open>Properties\<close>

text \<open>C2: a successful \<open>UnassignSystemRole\<close> leaves at least one user who holds every registered
  permission through system-role assignments.\<close>

theorem unassign_keeps_admin:
  assumes "db_inv s" and "UnassignSystemRole ctx x n s = (Inr (), t)"
  shows "\<exists>u \<in> user_ids t. \<forall>p \<in> snd ` set (permissions t). holds_system t u p"
proof -
  from UnassignSystemRole_Inr[OF assms(2)] obtain w role w2 l where w: "w = s\<lparr>locks := l\<rparr>"
    and a: "\<exists>y. authorizeSystemRoleChange y n w = (Inr role, w)"
    and e: "ensureFullyPrivilegedSystemUserRemains x (psr_Name role) w = (Inr (), w)"
    and un: "pg_UnassignSystemRole x n w = (Inr (), w2)" and t: "t = w2\<lparr>locks := []\<rparr>" by blast
  have "filter (\<lambda>r. sys_name r = n) rs = [row] \<Longrightarrow> sys_name row = n" for rs row
    using filter_singleD(2)[of "\<lambda>r. sys_name r = n"] by blast
  then have "psr_Name role = n" using a by (auto simp: authorizeSystemRoleChange_iff system_role_of_def)
  then have "has_admin w2" using revoke_keeps_admin[of w] assms(1) w e un by simp
  then have "has_admin t" by (simp add: t)
  then show ?thesis by (auto simp: has_admin_def fully_privileged_def)
qed

theorem unassign_keeps_admin_witness:
  "\<exists>u \<in> user_ids (snd (UnassignSystemRole (Some (demo_session 101 1 1)) 102 ''superadmin'' demo_db)).
    \<forall>p \<in> snd ` set (permissions (snd (UnassignSystemRole (Some (demo_session 101 1 1)) 102
      ''superadmin'' demo_db))).
    holds_system (snd (UnassignSystemRole (Some (demo_session 101 1 1)) 102 ''superadmin'' demo_db)) u p"
proof (rule unassign_keeps_admin[OF demo_db_inv])
  have "fst (UnassignSystemRole (Some (demo_session 101 1 1)) 102 ''superadmin'' demo_db) = Inr ()"
    by code_simp
  then show "UnassignSystemRole (Some (demo_session 101 1 1)) 102 ''superadmin'' demo_db =
    (Inr (), snd (UnassignSystemRole (Some (demo_session 101 1 1)) 102 ''superadmin'' demo_db))"
    by (simp add: prod_eq_iff)
qed

text \<open>C10: assigning a system role hands out no permission the actor does not hold at system scope: what any
  user holds afterwards, that user or the actor held before.\<close>

theorem assign_system_role_no_escalation:
  assumes "AssignSystemRole (Some sess) x n s = (Inr (), t)"
  shows "\<exists>actor. users_by_external_id s (au_UserID (as_User sess)) = [actor] \<and>
    (\<forall>u p. holds_system t u p \<longrightarrow> holds_system s u p \<or> holds_system s (usr_id actor) p)"
  using assign_effect[OF assms] by blast

theorem assign_system_role_no_escalation_witness:
  "\<exists>actor. users_by_external_id demo_db 101 = [actor] \<and>
    (\<forall>u p. holds_system (snd (AssignSystemRole (Some (demo_session 101 1 1)) 103 ''superadmin'' demo_db)) u p \<longrightarrow>
       holds_system demo_db u p \<or> holds_system demo_db (usr_id actor) p)"
proof -
  let ?r = "AssignSystemRole (Some (demo_session 101 1 1)) 103 ''superadmin'' demo_db"
  have "fst ?r = Inr ()" by code_simp
  then have "?r = (Inr (), snd ?r)" by (simp add: prod_eq_iff)
  then show ?thesis using assign_system_role_no_escalation[of "demo_session 101 1 1"]
    by (simp add: demo_session_def)
qed

text \<open>C11: revoking a system role takes away no permission the actor does not hold at system scope.\<close>

theorem unassign_system_role_within_authority:
  assumes "db_inv s" and "UnassignSystemRole (Some sess) x n s = (Inr (), t)"
  shows "\<exists>actor. users_by_external_id s (au_UserID (as_User sess)) = [actor] \<and>
    (\<forall>u p. holds_system s u p \<longrightarrow> holds_system t u p \<or> holds_system s (usr_id actor) p)"
  using unassign_effect[OF assms] by blast

theorem unassign_system_role_within_authority_witness:
  "\<exists>actor. users_by_external_id demo_db 101 = [actor] \<and>
    (\<forall>u p. holds_system demo_db u p \<longrightarrow>
       holds_system (snd (UnassignSystemRole (Some (demo_session 101 1 1)) 102 ''superadmin'' demo_db)) u p \<or>
       holds_system demo_db (usr_id actor) p)"
proof -
  let ?r = "UnassignSystemRole (Some (demo_session 101 1 1)) 102 ''superadmin'' demo_db"
  have "fst ?r = Inr ()" by code_simp
  then have "?r = (Inr (), snd ?r)" by (simp add: prod_eq_iff)
  then show ?thesis using unassign_system_role_within_authority[OF demo_db_inv, of "demo_session 101 1 1"]
    by (simp add: demo_session_def)
qed

text \<open>C12: revoking the assignment without which nobody would hold every registered permission fails with
  \<open>ErrLastFullyPrivilegedSystemAdmin\<close> when the actor is authorized, and no table changes.\<close>

theorem unassign_last_admin_rejected:
  assumes inv: "db_inv s"
    and actor: "users_by_external_id s (au_UserID (as_User sess)) = [actor]"
    and target: "users_by_external_id s x = [v]"
    and row: "filter (\<lambda>r. sys_name r = n) (system_roles s) = [row]"
    and asg: "(usr_id v, sys_id row) \<in> set (system_role_assignments s)"
    and auth: "\<And>p. system_role_has s (sys_id row) p \<Longrightarrow> holds_system s (usr_id actor) p"
    and last: "\<not> has_admin (s\<lparr>system_role_assignments :=
      filter (\<lambda>a. a \<noteq> (usr_id v, sys_id row)) (system_role_assignments s)\<rparr>)"
  shows "UnassignSystemRole (Some sess) x n s =
    (Inl ErrLastFullyPrivilegedSystemAdmin, s\<lparr>locks := []\<rparr>)"
proof -
  let ?ex = "(usr_id v, sys_id row)"
  have nm: "sys_name row = n" using filter_singleD(2)[OF row] .
  have not_full: "\<not> fully_privileged_in s (remaining_permissions s ?ex)"
    using remaining_privileged_admin[OF inv] last by blast
  have fp: "FullyPrivilegedUserRemainsAfterSystemRoleUnassign x n w = (Inr False, w)"
    if w: "w = s\<lparr>locks := l\<rparr>" for w l
    using fully_privileged_query[of w x v n row] inv target row asg not_full
    by (simp add: w)
  have au: "authorizeSystemRoleChange (au_UserID (as_User sess)) n w = (Inr (system_role_of s row), w)"
    if w: "w = s\<lparr>locks := l\<rparr>" for w l
    unfolding authorizeSystemRoleChange_iff using actor row auth
    by (simp add: w system_role_of_def)
  show ?thesis
    by (simp add: UnassignSystemRole_def authSession_def LockSystemRoleManagement_eq
        prog_defs lockSystemRoleUsers_eq au[OF refl] fp[OF refl]
        ensureFullyPrivilegedSystemUserRemains_def run_tx_def atomic_def system_role_of_def nm
        rowsNotFound_def)
qed

theorem unassign_last_admin_rejected_witness:
  "let d = demo_db\<lparr>system_role_assignments := [(1, 1)]\<rparr> in
   UnassignSystemRole (Some (demo_session 101 1 1)) 101 ''superadmin'' d =
     (Inl ErrLastFullyPrivilegedSystemAdmin, d\<lparr>locks := []\<rparr>)"
  unfolding Let_def
proof (rule unassign_last_admin_rejected[where actor = "demo_user 1 101 ''alice@x'' 201" and
      v = "demo_user 1 101 ''alice@x'' 201" and
      row = "\<lparr>sys_id = 1, sys_external_id = 601, sys_name = ''superadmin''\<rparr>"])
  let ?d = "demo_db\<lparr>system_role_assignments := [(1, 1)]\<rparr>"
  show "db_inv ?d" using demo_db_inv by (simp add: db_inv_def system_assignments_ok_def demo_defs)
  show "users_by_external_id ?d 101 = [demo_user 1 101 ''alice@x'' 201]"
    by (simp add: users_by_external_id_def demo_defs)
  show "users_by_external_id ?d (au_UserID (as_User (demo_session 101 1 1))) =
    [demo_user 1 101 ''alice@x'' 201]" by (simp add: users_by_external_id_def demo_defs demo_session_def)
  show "\<not> has_admin (?d\<lparr>system_role_assignments := filter (\<lambda>a. a \<noteq>
      (usr_id (demo_user 1 101 ''alice@x'' 201), sys_id \<lparr>sys_id = 1, sys_external_id = 601,
        sys_name = ''superadmin''\<rparr>)) (system_role_assignments ?d)\<rparr>)"
    by (simp add: has_admin_def fully_privileged_def holds_system_def demo_defs) blast
  show "system_role_has ?d (sys_id \<lparr>sys_id = 1, sys_external_id = 601, sys_name = ''superadmin''\<rparr>) p \<Longrightarrow>
    holds_system ?d (usr_id (demo_user 1 101 ''alice@x'' 201)) p" for p
    by (auto simp: holds_system_def demo_user_def)
qed (simp_all add: demo_defs)

text \<open>The actor and the target are locked in ascending UUID order, each once, whichever of them is the
  actor; two concurrent changes therefore request their common user locks in the same order.\<close>

theorem lockSystemRoleUsers_ascending:
  "\<exists>xs. locks (snd (lockSystemRoleUsers actor target s)) = locks s @ user_lock_keys s xs \<and>
    sorted xs \<and> distinct xs \<and> set xs = {actor, target} \<and>
    fst (lockSystemRoleUsers actor target s) = Inr () \<and>
    snd (lockSystemRoleUsers target actor s) = snd (lockSystemRoleUsers actor target s)"
  by (rule exI[of _ "if actor = target then [actor] else [min actor target, max actor target]"])
    (auto simp: lockSystemRoleUsers_eq min_def max_def)

section \<open>Preservation\<close>

lemma run_tx_keeps:
  assumes "on_tables I" "I s" "run_tx m s = (r, t)" "\<And>x u. m s = (Inr x, u) \<Longrightarrow> I u"
  shows "I t"
  using assms by (cases r) auto

lemma assign_system_keeps_inv:
  assumes "db_inv s" "pg_AssignSystemRole x n s = (Inr (), t)" shows "db_inv t"
proof -
  from assms(2) obtain u r where ur: "u \<in> set (users_by_external_id s x)"
    and rr: "r \<in> set (system_roles s)" "sys_name r = n"
    and new: "(usr_id u, sys_id r) \<notin> set (system_role_assignments s)"
    and t: "t = s\<lparr>system_role_assignments := system_role_assignments s @ [(usr_id u, sys_id r)]\<rparr>"
    by (rule pg_AssignSystemRole_InrE)
  have "system_assignments_ok (user_ids s) (sys_role_ids s)
      (system_role_assignments s @ [(usr_id u, sys_id r)])"
    using assms(1) ur rr new by (auto simp: db_inv_def system_assignments_ok_def users_by_external_id_def)
  then show ?thesis using assms(1) by (simp add: t db_inv_def)
qed

lemma unassign_system_keeps_inv:
  assumes "db_inv s" "pg_UnassignSystemRole x n s = (Inr (), t)" shows "db_inv t"
proof -
  obtain P where t: "t = s\<lparr>system_role_assignments := filter P (system_role_assignments s)\<rparr>"
    using pg_UnassignSystemRole_Inr[OF assms(2)] by blast
  have "system_assignments_ok us rs as \<Longrightarrow> system_assignments_ok us rs (filter P as)" for us rs as
    by (auto simp: system_assignments_ok_def)
  then show ?thesis using assms(1) by (simp add: t db_inv_def)
qed

lemma system_ops_frame:
  assumes "pg_AssignSystemRole x n s = (Inr (), t) \<or> pg_UnassignSystemRole x n s = (Inr (), t)"
  shows "\<exists>a. t = s\<lparr>system_role_assignments := a\<rparr>"
  using assms pg_AssignSystemRole_Inr[of x n s t] pg_UnassignSystemRole_Inr[of x n s t] by blast

lemma assign_system_monotone:
  assumes "pg_AssignSystemRole x n s = (Inr (), t)"
  shows "has_admin s \<Longrightarrow> has_admin t"
proof -
  from assms obtain u r where "u \<in> set (users_by_external_id s x)"
    and "r \<in> set (system_roles s)" "sys_name r = n"
    and "(usr_id u, sys_id r) \<notin> set (system_role_assignments s)"
    and t: "t = s\<lparr>system_role_assignments := system_role_assignments s @ [(usr_id u, sys_id r)]\<rparr>"
    by (rule pg_AssignSystemRole_InrE)
  have "holds_system s v p \<Longrightarrow> holds_system t v p" for v p
    by (auto simp: t holds_system_def system_role_has_def)
  then have "fully_privileged s v \<Longrightarrow> fully_privileged t v" for v
    by (simp add: fully_privileged_def t)
  then show "has_admin s \<Longrightarrow> has_admin t" by (auto simp: has_admin_def)
qed

end
