(* ===== verification/PgCustomRole.thy ===== *)
theory PgCustomRole
  imports PgRbac
begin

text \<open>
  The custom-role half of \<open>internal/core/pgstores/pgrbac\<close>: \<open>query_custom_role.go\<close> and
  \<open>store_custom_role.go\<close>. A scalar subquery on a unique key is the list of the (at most one) ids it
  yields. Advisory locks are recorded, not waited for: an operation runs alone here.
\<close>

section \<open>Writes to custom\_roles\<close>

definition role_conflict :: "custom_role_row \<Rightarrow> custom_role_row list \<Rightarrow> bool" where
  "role_conflict r rs \<longleftrightarrow> (\<exists>q \<in> set rs. rol_id q = rol_id r \<or>
     rol_external_id q = rol_external_id r \<or> rol_etag q = rol_etag r \<or>
     (rol_org_id q = rol_org_id r \<and> toLower (rol_name q) = toLower (rol_name r)) \<or>
     (rol_managed_key r \<noteq> None \<and> rol_org_id q = rol_org_id r \<and> rol_managed_key q = rol_managed_key r))"

definition role_checks :: "custom_role_row \<Rightarrow> bool" where
  "role_checks r \<longleftrightarrow> role_name_check (rol_name r) \<and> managed_key_check (rol_managed_key r)"

definition insert_custom_role :: "custom_role_row \<Rightarrow> unit op" where
  "insert_custom_role r = andThen (reads custom_roles) (\<lambda>rs.
     if \<not> role_checks r then check_violation
     else if role_conflict r rs then unique_violation
     else updates (\<lambda>s. s\<lparr>custom_roles := rs @ [r]\<rparr>))"

definition insert_role_permissions :: "(int \<times> int) list \<Rightarrow> unit op" where
  "insert_role_permissions rps = andThen (reads custom_role_permissions) (\<lambda>cur.
     if \<not> distinct rps \<or> (\<exists>a \<in> set rps. a \<in> set cur) then unique_violation
     else updates (\<lambda>s. s\<lparr>custom_role_permissions := cur @ rps\<rparr>))"

text \<open>\<open>UPDATE ... SET ... WHERE hit\<close>: the rows that satisfy \<open>hit\<close> become \<open>upd\<close> of themselves.\<close>

definition update_custom_roles ::
    "(custom_role_row \<Rightarrow> bool) \<Rightarrow> (custom_role_row \<Rightarrow> custom_role_row) \<Rightarrow> unit op" where
  "update_custom_roles hit upd = andThen (reads custom_roles) (\<lambda>rs.
     if (\<exists>r \<in> set rs. hit r \<and> \<not> role_checks (upd r)) then check_violation
     else if (\<exists>r \<in> set rs. hit r \<and> role_conflict (upd r) (filter (\<lambda>q. rol_id q \<noteq> rol_id r) rs))
       then unique_violation
     else updates (\<lambda>s. s\<lparr>custom_roles := map (\<lambda>r. if hit r then upd r else r) rs\<rparr>))"

section \<open>query\_custom\_role.go\<close>

definition createCustomRoleQuery ::
    "PgCreateCustomRole \<Rightarrow> string option \<Rightarrow> (PgCustomRole, PgCustomRole) TypedQuery" where
  "createCustomRoleQuery cr managedKey = \<lparr>
     tq_SQL = andThen (reads (\<lambda>s. (resolve_permissions s (pccr_PermissionNames cr),
           filter (\<lambda>o'. org_id o' = pccr_OrgID cr) (organizations s)))) (\<lambda>(resolved, orgs).
       case resolved of
         None \<Rightarrow> ret []
       | Some (ids, names) \<Rightarrow>
           if orgs = [] then ret []
           else
             andThen (nextval g_custom_roles g_custom_roles_update) (\<lambda>i.
             andThen gen_random_uuid (\<lambda>x.
             andThen gen_random_uuid (\<lambda>etag.
             andThen (reads clock) (\<lambda>now.
             let r = \<lparr>rol_id = i, rol_external_id = x, rol_name = pccr_Name cr,
                      rol_org_id = pccr_OrgID cr, rol_managed_key = managedKey,
                      rol_created_at = now, rol_updated_at = None, rol_etag = etag\<rparr> in
             andThen (insert_custom_role r) (\<lambda>_.
             andThen (insert_role_permissions (map (\<lambda>p. (i, p)) ids)) (\<lambda>_.
             ret [\<lparr>pcr_ID = i, pcr_ExternalID = x, pcr_Name = pccr_Name cr,
                   pcr_ManagedKey = managedKey, pcr_PermissionNames = names,
                   pcr_CreatedAt = now, pcr_UpdatedAt = None, pcr_ETag = etag\<rparr>]))))))),
     tq_Scan = Inr, tq_Expect = ExpectOne\<rparr>"

text \<open>A row is (id, is\_updated, etag\_matches).\<close>

definition updateCustomRoleQuery :: "PgUpdateCustomRole \<Rightarrow> (int \<times> bool \<times> bool, int) TypedQuery" where
  "updateCustomRoleQuery ur =
    (let mine = (\<lambda>r. rol_external_id r = pur_ExternalID ur \<and> rol_org_id r = pur_OrgID ur);
         hit = (\<lambda>r. mine r \<and> rol_etag r = pur_ETag ur) in \<lparr>
     tq_SQL = andThen (reads (\<lambda>s. (custom_roles s,
           \<not> pur_FieldPermissionNames ur \<or> resolve_permissions s (pur_PermissionNames ur) \<noteq> None)))
         (\<lambda>(rs, resolved).
       if resolved \<and> filter hit rs \<noteq> [] then
         andThen gen_random_uuid (\<lambda>etag.
         andThen (reads clock) (\<lambda>now.
         andThen (update_custom_roles hit (\<lambda>r. r\<lparr>
             rol_name := (if pur_FieldName ur then pur_Name ur else rol_name r),
             rol_updated_at := Some now, rol_etag := etag\<rparr>)) (\<lambda>_.
         ret (map (\<lambda>r. (rol_id r, True, True)) (filter hit rs)))))
       else ret (map (\<lambda>r. (rol_id r, False, rol_etag r = pur_ETag ur)) (filter mine rs))),
     tq_Scan = (\<lambda>(i, isUpdated, isETagMatched).
       if \<not> isETagMatched then Inl PgErrETagMismatch
       else if \<not> isUpdated then Inl SqlErrNoRows
       else Inr i),
     tq_Expect = ExpectOne\<rparr>)"

definition insertCustomRolePermissionsQuery :: "uuid \<Rightarrow> string list \<Rightarrow> (int, int) TypedQuery" where
  "insertCustomRolePermissionsQuery roleID permNames = \<lparr>
     tq_SQL = andThen (reads (\<lambda>s. case resolve_permissions s permNames of
           None \<Rightarrow> []
         | Some (ids, _) \<Rightarrow> [(rol_id r, p). r \<leftarrow> roles_by_external_id s roleID, p \<leftarrow> ids])) (\<lambda>rows.
       andThen (insert_role_permissions rows) (\<lambda>_. ret (map snd rows))),
     tq_Scan = Inr, tq_Expect = ExpectMany\<rparr>"

text \<open>A row is (the id of the target role or NULL, role\_exists, permissions\_valid).\<close>

definition modifyCustomRolePermissionsQuery ::
    "PgModifyCustomRolePermissions \<Rightarrow> (int option \<times> bool \<times> bool, int) TypedQuery" where
  "modifyCustomRolePermissionsQuery mp = \<lparr>
     tq_SQL = andThen (reads (\<lambda>s. s)) (\<lambda>s.
       let resolved = resolve_permissions s (pmp_AddPermissionNames mp @ pmp_RemovePermissionNames mp);
           valid = (case resolved of None \<Rightarrow> [] | Some (ids, names) \<Rightarrow> zip ids names);
           target = (if resolved = None then [] else map rol_id (filter (\<lambda>r. rol_etag r = pmp_ETag mp)
                       (org_roles_by_external_id s (pmp_OrgID mp) (pmp_ExternalID mp))));
           removable = [i. (i, n) \<leftarrow> valid, n \<in> set (pmp_RemovePermissionNames mp)];
           addable = [i. (i, n) \<leftarrow> valid, n \<in> set (pmp_AddPermissionNames mp)];
           gone = (\<lambda>(r, p). r \<in> set target \<and> p \<in> set removable);
           removed = filter gone (custom_role_permissions s);
           added = filter (\<lambda>a. a \<notin> set (custom_role_permissions s))
                     [(r, p). r \<leftarrow> target, p \<leftarrow> addable] in
       andThen (updates (\<lambda>s. s\<lparr>custom_role_permissions :=
           filter (\<lambda>a. \<not> gone a) (custom_role_permissions s) @ added\<rparr>)) (\<lambda>_.
       andThen
         (if removed \<noteq> [] \<or> added \<noteq> [] then
            andThen gen_random_uuid (\<lambda>etag.
            update_custom_roles (\<lambda>r. rol_id r \<in> set target)
              (\<lambda>r. r\<lparr>rol_updated_at := Some (clock s), rol_etag := etag\<rparr>))
          else ret ()) (\<lambda>_.
       ret [(case target of [] \<Rightarrow> None | i # _ \<Rightarrow> Some i,
             org_roles_by_external_id s (pmp_OrgID mp) (pmp_ExternalID mp) \<noteq> [],
             resolved \<noteq> None)]))),
     tq_Scan = (\<lambda>(i, isExists, arePermissionsValid). case i of
         None \<Rightarrow> if \<not> arePermissionsValid then Inl SqlErrNoRows
                 else if isExists then Inl PgErrETagMismatch
                 else Inl SqlErrNoRows
       | Some k \<Rightarrow> Inr k),
     tq_Expect = ExpectOne\<rparr>"

definition role_referenced :: "db \<Rightarrow> int \<Rightarrow> bool" where
  "role_referenced s i \<longleftrightarrow> (\<exists>(r, p) \<in> set (custom_role_permissions s). r = i) \<or>
     (\<exists>a \<in> set (org_role_assignments s). oa_role_id a = i) \<or>
     (\<exists>a \<in> set (project_role_assignments s). pa_role_id a = i)"

definition deleteCustomRoleQuery :: "int \<Rightarrow> uuid \<Rightarrow> (int, int) TypedQuery" where
  "deleteCustomRoleQuery orgID roleID = \<lparr>
     tq_SQL = andThen (reads (\<lambda>s. (map rol_id (org_roles_by_external_id s orgID roleID),
           \<exists>r \<in> set (org_roles_by_external_id s orgID roleID). role_referenced s (rol_id r))))
         (\<lambda>(gone, referenced).
       if referenced then fk_violation
       else andThen (updates (\<lambda>s. s\<lparr>custom_roles := filter (\<lambda>r. \<not> (rol_external_id r = roleID \<and>
              rol_org_id r = orgID)) (custom_roles s)\<rparr>)) (\<lambda>_. ret gone)),
     tq_Scan = Inr, tq_Expect = ExpectOne\<rparr>"

definition deleteCustomRolePermissionsQuery :: "int \<Rightarrow> uuid \<Rightarrow> (int, int) TypedQuery" where
  "deleteCustomRolePermissionsQuery orgID roleID = \<lparr>
     tq_SQL = andThen (reads (\<lambda>s. map rol_id (org_roles_by_external_id s orgID roleID))) (\<lambda>ids.
       andThen (reads custom_role_permissions) (\<lambda>rps.
       andThen (updates (\<lambda>s. s\<lparr>custom_role_permissions := filter (\<lambda>(r, p). r \<notin> set ids) rps\<rparr>)) (\<lambda>_.
       ret (map snd (filter (\<lambda>(r, p). r \<in> set ids) rps))))),
     tq_Scan = Inr, tq_Expect = ExpectMany\<rparr>"

definition deleteCustomRoleProjectAssignmentsQuery :: "int \<Rightarrow> uuid \<Rightarrow> (int, int) TypedQuery" where
  "deleteCustomRoleProjectAssignmentsQuery orgID roleID = \<lparr>
     tq_SQL = andThen (reads (\<lambda>s. map rol_id (org_roles_by_external_id s orgID roleID))) (\<lambda>ids.
       andThen (reads project_role_assignments) (\<lambda>as.
       andThen (updates (\<lambda>s. s\<lparr>project_role_assignments := filter (\<lambda>a. pa_role_id a \<notin> set ids) as\<rparr>)) (\<lambda>_.
       ret (map pa_user_id (filter (\<lambda>a. pa_role_id a \<in> set ids) as))))),
     tq_Scan = Inr, tq_Expect = ExpectMany\<rparr>"

definition deleteCustomRoleOrgAssignmentsQuery :: "int \<Rightarrow> uuid \<Rightarrow> (int, int) TypedQuery" where
  "deleteCustomRoleOrgAssignmentsQuery orgID roleID = \<lparr>
     tq_SQL = andThen (reads (\<lambda>s. map rol_id (org_roles_by_external_id s orgID roleID))) (\<lambda>ids.
       andThen (reads org_role_assignments) (\<lambda>as.
       andThen (updates (\<lambda>s. s\<lparr>org_role_assignments := filter (\<lambda>a. oa_role_id a \<notin> set ids) as\<rparr>)) (\<lambda>_.
       ret (map oa_user_id (filter (\<lambda>a. oa_role_id a \<in> set ids) as))))),
     tq_Scan = Inr, tq_Expect = ExpectMany\<rparr>"

definition by_role_name :: "db \<Rightarrow> custom_role_row \<Rightarrow> custom_role_row \<Rightarrow> bool" where
  "by_role_name s a b = coll s (rol_name a) (rol_name b)"

text \<open>\<open>ORDER BY r.name, r.id\<close>.\<close>

definition by_role_name_id :: "db \<Rightarrow> custom_role_row \<Rightarrow> custom_role_row \<Rightarrow> bool" where
  "by_role_name_id s a b \<longleftrightarrow> coll s (rol_name a) (rol_name b) \<and>
     (coll s (rol_name b) (rol_name a) \<longrightarrow> rol_id a \<le> rol_id b)"

definition customRolesQuery :: "int \<Rightarrow> int \<Rightarrow> int \<Rightarrow> (PgCustomRole, PgCustomRole) TypedQuery" where
  "customRolesQuery orgID pageSize pageOffset = \<lparr>
     tq_SQL = with_page pageSize pageOffset (reads (\<lambda>s. map (custom_role_of s)
       (sort_by (by_role_name s) (filter (\<lambda>r. rol_org_id r = orgID) (custom_roles s))))),
     tq_Scan = Inr, tq_Expect = ExpectMany\<rparr>"

definition customRoleByExternalIDQuery :: "int \<Rightarrow> uuid \<Rightarrow> (PgCustomRole, PgCustomRole) TypedQuery" where
  "customRoleByExternalIDQuery orgID roleID = \<lparr>
     tq_SQL = reads (\<lambda>s. map (custom_role_of s) (org_roles_by_external_id s orgID roleID)),
     tq_Scan = Inr, tq_Expect = ExpectOne\<rparr>"

definition customRoleHasProjectAssignmentsQuery :: "uuid \<Rightarrow> (bool, bool) TypedQuery" where
  "customRoleHasProjectAssignmentsQuery roleID = \<lparr>
     tq_SQL = reads (\<lambda>s. map (\<lambda>r. \<exists>a \<in> set (project_role_assignments s). pa_role_id a = rol_id r)
       (roles_by_external_id s roleID)),
     tq_Scan = Inr, tq_Expect = ExpectOne\<rparr>"

definition customRoleCountQuery :: "int \<Rightarrow> (int, int) TypedQuery" where
  "customRoleCountQuery orgID = \<lparr>
     tq_SQL = reads (\<lambda>s. [int (length (filter (\<lambda>r. rol_org_id r = orgID) (custom_roles s)))]),
     tq_Scan = Inr, tq_Expect = ExpectOne\<rparr>"

definition assignCustomRoleToProjectQuery :: "uuid \<Rightarrow> uuid \<Rightarrow> int \<Rightarrow> (int, int) TypedQuery" where
  "assignCustomRoleToProjectQuery userID roleID projectID = \<lparr>
     tq_SQL = andThen (reads (\<lambda>s. [\<lparr>pa_user_id = usr_id u, pa_project_id = prj_id p,
             pa_role_id = rol_id r, pa_org_id = prj_org_id p\<rparr>.
           u \<leftarrow> users_by_external_id s userID, r \<leftarrow> roles_by_external_id s roleID,
           p \<leftarrow> filter (\<lambda>p. prj_id p = projectID) (projects s), rol_org_id r = prj_org_id p,
           (prj_org_id p, usr_id u) \<in> set (org_membership s)])) (\<lambda>rows.
       andThen (reads project_role_assignments) (\<lambda>as.
       if (\<exists>a \<in> set rows. \<exists>b \<in> set as. pa_user_id b = pa_user_id a \<and>
             pa_project_id b = pa_project_id a \<and> pa_role_id b = pa_role_id a) \<or> \<not> distinct rows
       then unique_violation
       else andThen (updates (\<lambda>s. s\<lparr>project_role_assignments := as @ rows\<rparr>)) (\<lambda>_.
         ret (map pa_role_id rows)))),
     tq_Scan = Inr, tq_Expect = ExpectOne\<rparr>"

definition unassignCustomRoleFromProjectQuery :: "uuid \<Rightarrow> uuid \<Rightarrow> int \<Rightarrow> (int, int) TypedQuery" where
  "unassignCustomRoleFromProjectQuery userID roleID projectID = \<lparr>
     tq_SQL = andThen (reads (\<lambda>s. let ps = filter (\<lambda>p. prj_id p = projectID) (projects s) in
           ([usr_id u. u \<leftarrow> users_by_external_id s userID, p \<leftarrow> ps,
              (prj_org_id p, usr_id u) \<in> set (org_membership s)],
            [rol_id r. r \<leftarrow> roles_by_external_id s roleID, p \<leftarrow> ps, prj_org_id p = rol_org_id r])))
         (\<lambda>(uids, rids).
       andThen (reads project_role_assignments) (\<lambda>as.
       let hit = (\<lambda>a. pa_user_id a \<in> set uids \<and> pa_role_id a \<in> set rids \<and> pa_project_id a = projectID) in
       andThen (updates (\<lambda>s. s\<lparr>project_role_assignments := filter (\<lambda>a. \<not> hit a) as\<rparr>)) (\<lambda>_.
       ret (map pa_role_id (filter hit as))))),
     tq_Scan = Inr, tq_Expect = ExpectOne\<rparr>"

definition assignCustomRoleToOrgQuery :: "uuid \<Rightarrow> uuid \<Rightarrow> int \<Rightarrow> (int, int) TypedQuery" where
  "assignCustomRoleToOrgQuery userID roleID orgID = \<lparr>
     tq_SQL = andThen (reads (\<lambda>s. [\<lparr>oa_user_id = usr_id u, oa_org_id = m, oa_role_id = rol_id r\<rparr>.
           u \<leftarrow> users_by_external_id s userID, (m, v) \<leftarrow> org_membership s, v = usr_id u, m = orgID,
           r \<leftarrow> org_roles_by_external_id s m roleID])) (\<lambda>rows.
       andThen (reads org_role_assignments) (\<lambda>as.
       if (\<exists>a \<in> set rows. a \<in> set as) \<or> \<not> distinct rows then unique_violation
       else andThen (updates (\<lambda>s. s\<lparr>org_role_assignments := as @ rows\<rparr>)) (\<lambda>_.
         ret (map oa_role_id rows)))),
     tq_Scan = Inr, tq_Expect = ExpectOne\<rparr>"

definition unassignCustomRoleFromOrgQuery :: "uuid \<Rightarrow> uuid \<Rightarrow> int \<Rightarrow> (int, int) TypedQuery" where
  "unassignCustomRoleFromOrgQuery userID roleID orgID = \<lparr>
     tq_SQL = andThen (reads (\<lambda>s.
           ([usr_id u. u \<leftarrow> users_by_external_id s userID, (orgID, usr_id u) \<in> set (org_membership s)],
            map rol_id (org_roles_by_external_id s orgID roleID)))) (\<lambda>(uids, rids).
       andThen (reads org_role_assignments) (\<lambda>as.
       let hit = (\<lambda>a. oa_user_id a \<in> set uids \<and> oa_role_id a \<in> set rids \<and> oa_org_id a = orgID) in
       andThen (updates (\<lambda>s. s\<lparr>org_role_assignments := filter (\<lambda>a. \<not> hit a) as\<rparr>)) (\<lambda>_.
       ret (map oa_role_id (filter hit as))))),
     tq_Scan = Inr, tq_Expect = ExpectOne\<rparr>"

definition userProjectCustomRolesQuery ::
    "uuid \<Rightarrow> int \<Rightarrow> int \<Rightarrow> int \<Rightarrow> (PgCustomRole, PgCustomRole) TypedQuery" where
  "userProjectCustomRolesQuery userID projectID pageSize pageOffset = \<lparr>
     tq_SQL = with_page pageSize pageOffset (reads (\<lambda>s. map (custom_role_of s)
       (sort_by (by_role_name_id s) [r.
         u \<leftarrow> users_by_external_id s userID, p \<leftarrow> filter (\<lambda>p. prj_id p = projectID) (projects s),
         (prj_org_id p, usr_id u) \<in> set (org_membership s),
         a \<leftarrow> project_role_assignments s, pa_user_id a = usr_id u, pa_project_id a = prj_id p,
         r \<leftarrow> custom_roles s, rol_id r = pa_role_id a, rol_org_id r = prj_org_id p]))),
     tq_Scan = Inr, tq_Expect = ExpectMany\<rparr>"

definition userProjectCustomRoleCountQuery :: "uuid \<Rightarrow> int \<Rightarrow> (int, int) TypedQuery" where
  "userProjectCustomRoleCountQuery userID projectID = \<lparr>
     tq_SQL = reads (\<lambda>s. [int (length (filter (\<lambda>a. pa_user_id a = usr_id u \<and> pa_project_id a = prj_id p)
             (project_role_assignments s))).
         u \<leftarrow> users_by_external_id s userID, p \<leftarrow> filter (\<lambda>p. prj_id p = projectID) (projects s),
         (prj_org_id p, usr_id u) \<in> set (org_membership s)]),
     tq_Scan = Inr, tq_Expect = ExpectOne\<rparr>"

definition userOrgCustomRolesQuery ::
    "uuid \<Rightarrow> int \<Rightarrow> int \<Rightarrow> int \<Rightarrow> (PgCustomRole, PgCustomRole) TypedQuery" where
  "userOrgCustomRolesQuery userID orgID pageSize pageOffset = \<lparr>
     tq_SQL = with_page pageSize pageOffset (reads (\<lambda>s. map (custom_role_of s)
       (sort_by (by_role_name_id s) [r.
         u \<leftarrow> users_by_external_id s userID, (orgID, usr_id u) \<in> set (org_membership s),
         a \<leftarrow> org_role_assignments s, oa_user_id a = usr_id u, oa_org_id a = orgID,
         r \<leftarrow> custom_roles s, rol_id r = oa_role_id a, rol_org_id r = orgID]))),
     tq_Scan = Inr, tq_Expect = ExpectMany\<rparr>"

definition userOrgCustomRoleCountQuery :: "uuid \<Rightarrow> int \<Rightarrow> (int, int) TypedQuery" where
  "userOrgCustomRoleCountQuery userID orgID = \<lparr>
     tq_SQL = reads (\<lambda>s. [int (length (filter (\<lambda>a. oa_user_id a = usr_id u \<and> oa_org_id a = orgID)
             (org_role_assignments s))).
         u \<leftarrow> users_by_external_id s userID, (orgID, usr_id u) \<in> set (org_membership s)]),
     tq_Scan = Inr, tq_Expect = ExpectOne\<rparr>"

section \<open>store\_custom\_role.go\<close>

definition pg_CreateCustomRole :: "PgCreateCustomRole \<Rightarrow> PgCustomRole op" where
  "pg_CreateCustomRole cr = RunBatchTx (Queue (createCustomRoleQuery cr None))"

definition CreateOrganizationAdminRole :: "int \<Rightarrow> string list \<Rightarrow> PgCustomRole op" where
  "CreateOrganizationAdminRole orgID permissionNames = Queue (createCustomRoleQuery
     \<lparr>pccr_OrgID = orgID, pccr_Name = ''Organization Administrator'',
      pccr_PermissionNames = permissionNames\<rparr> (Some ''organization_admin''))"

definition pg_UpdateCustomRole :: "PgUpdateCustomRole \<Rightarrow> PgCustomRole op" where
  "pg_UpdateCustomRole ur = RunBatchTx (
     andThen (Queue (updateCustomRoleQuery ur)) (\<lambda>_.
     andThen
       (if pur_FieldPermissionNames ur then
          andThen (QueueMany (deleteCustomRolePermissionsQuery (pur_OrgID ur) (pur_ExternalID ur))) (\<lambda>_.
          andThen (QueueMany (insertCustomRolePermissionsQuery (pur_ExternalID ur)
            (pur_PermissionNames ur))) (\<lambda>_. ret ()))
        else ret ()) (\<lambda>_.
     Queue (customRoleByExternalIDQuery (pur_OrgID ur) (pur_ExternalID ur)))))"

definition pg_ModifyCustomRolePermissions :: "PgModifyCustomRolePermissions \<Rightarrow> PgCustomRole op" where
  "pg_ModifyCustomRolePermissions mp = RunBatchTx (
     andThen (Queue (modifyCustomRolePermissionsQuery mp)) (\<lambda>_.
     Queue (customRoleByExternalIDQuery (pmp_OrgID mp) (pmp_ExternalID mp))))"

definition pg_DeleteCustomRole :: "int \<Rightarrow> uuid \<Rightarrow> unit op" where
  "pg_DeleteCustomRole orgID roleID = RunBatchTx (
     andThen (QueueMany (deleteCustomRoleProjectAssignmentsQuery orgID roleID)) (\<lambda>_.
     andThen (QueueMany (deleteCustomRoleOrgAssignmentsQuery orgID roleID)) (\<lambda>_.
     andThen (QueueMany (deleteCustomRolePermissionsQuery orgID roleID)) (\<lambda>_.
     andThen (Queue (deleteCustomRoleQuery orgID roleID)) (\<lambda>_. ret ())))))"

definition pg_CustomRoles :: "int \<Rightarrow> int \<Rightarrow> int \<Rightarrow> (PgCustomRole list \<times> int) op" where
  "pg_CustomRoles orgID pageSize pageOffset =
    andThen (QueueMany (customRolesQuery orgID pageSize pageOffset)) (\<lambda>rs.
    andThen (Queue (customRoleCountQuery orgID)) (\<lambda>count. ret (rs, count)))"

definition CustomRoleByExternalID :: "int \<Rightarrow> uuid \<Rightarrow> PgCustomRole op" where
  "CustomRoleByExternalID orgID roleID = Queue (customRoleByExternalIDQuery orgID roleID)"

definition CustomRoleHasProjectAssignments :: "uuid \<Rightarrow> bool op" where
  "CustomRoleHasProjectAssignments roleID = Queue (customRoleHasProjectAssignmentsQuery roleID)"

definition LockCustomRole :: "uuid \<Rightarrow> unit op" where
  "LockCustomRole roleID = RunExec (andThen (reads (\<lambda>s. map rol_id (roles_by_external_id s roleID)))
     (lock_each ''rbac.custom-role''))"

definition pg_AssignCustomRoleToProject :: "uuid \<Rightarrow> uuid \<Rightarrow> int \<Rightarrow> unit op" where
  "pg_AssignCustomRoleToProject userID roleID projectID =
    andThen (Queue (assignCustomRoleToProjectQuery userID roleID projectID)) (\<lambda>_. ret ())"

definition pg_UnassignCustomRoleFromProject :: "uuid \<Rightarrow> uuid \<Rightarrow> int \<Rightarrow> unit op" where
  "pg_UnassignCustomRoleFromProject userID roleID projectID =
    andThen (Queue (unassignCustomRoleFromProjectQuery userID roleID projectID)) (\<lambda>_. ret ())"

definition pg_AssignCustomRoleToOrg :: "uuid \<Rightarrow> uuid \<Rightarrow> int \<Rightarrow> unit op" where
  "pg_AssignCustomRoleToOrg userID roleID orgID =
    andThen (Queue (assignCustomRoleToOrgQuery userID roleID orgID)) (\<lambda>_. ret ())"

definition pg_UnassignCustomRoleFromOrg :: "uuid \<Rightarrow> uuid \<Rightarrow> int \<Rightarrow> unit op" where
  "pg_UnassignCustomRoleFromOrg userID roleID orgID =
    andThen (Queue (unassignCustomRoleFromOrgQuery userID roleID orgID)) (\<lambda>_. ret ())"

definition pg_UserProjectCustomRoles :: "uuid \<Rightarrow> int \<Rightarrow> int \<Rightarrow> int \<Rightarrow> (PgCustomRole list \<times> int) op" where
  "pg_UserProjectCustomRoles userID projectID pageSize pageOffset =
    andThen (QueueMany (userProjectCustomRolesQuery userID projectID pageSize pageOffset)) (\<lambda>rs.
    andThen (Queue (userProjectCustomRoleCountQuery userID projectID)) (\<lambda>count. ret (rs, count)))"

definition pg_UserOrgCustomRoles :: "uuid \<Rightarrow> int \<Rightarrow> int \<Rightarrow> int \<Rightarrow> (PgCustomRole list \<times> int) op" where
  "pg_UserOrgCustomRoles userID orgID pageSize pageOffset =
    andThen (QueueMany (userOrgCustomRolesQuery userID orgID pageSize pageOffset)) (\<lambda>rs.
    andThen (Queue (userOrgCustomRoleCountQuery userID orgID)) (\<lambda>count. ret (rs, count)))"

end
