(* ===== verification/CustomRoleCore.thy ===== *)
theory CustomRoleCore
  imports PgCustomRole SystemRoleCore
begin

text \<open>
  Custom roles in the domain layer: \<open>internal/core/rbac/custom_role.go\<close> and \<open>conv.go\<close>. \<open>ctx\<close> is the auth
  session of the context; every operation works in the organization of the session's project.
\<close>

section \<open>conv.go\<close>

definition customRoleFromPg :: "PgCustomRole \<Rightarrow> error + CustomRole" where
  "customRoleFromPg r =
    (let mk = (\<lambda>kind. \<lparr>cr_ID = pcr_ExternalID r, cr_Name = pcr_Name r, cr_Kind = kind,
       cr_Permissions = permissionsFromPg (pcr_PermissionNames r), cr_CreatedAt = pcr_CreatedAt r,
       cr_UpdatedAt = pcr_UpdatedAt r, cr_ETag = pcr_ETag r\<rparr>) in
     case pcr_ManagedKey r of
       None \<Rightarrow> Inr (mk RoleKindCustom)
     | Some k \<Rightarrow> if k = ManagedRoleKeyOrganizationAdmin then Inr (mk RoleKindOrganizationAdmin)
                 else Inl (GoPanic ''unsupported managed role key''))"

definition customRolesFromPg :: "PgCustomRole list \<Rightarrow> error + CustomRole list" where
  "customRolesFromPg rs = collectRows customRoleFromPg rs"

definition createCustomRoleToPg :: "CreateCustomRole \<Rightarrow> int \<Rightarrow> PgCreateCustomRole" where
  "createCustomRoleToPg cr orgID = \<lparr>pccr_OrgID = orgID, pccr_Name = ccr_Name cr,
     pccr_PermissionNames = permissionsToPg (ccr_Permissions cr)\<rparr>"

definition updateCustomRoleToPg :: "UpdateCustomRole \<Rightarrow> int \<Rightarrow> PgUpdateCustomRole" where
  "updateCustomRoleToPg ur orgID = \<lparr>pur_OrgID = orgID, pur_ExternalID = ucr_ID ur,
     pur_ETag = ucr_ETag ur, pur_FieldName = ucr_FieldName ur,
     pur_FieldPermissionNames = ucr_FieldPermissions ur, pur_Name = ucr_Name ur,
     pur_PermissionNames = permissionsToPg (ucr_Permissions ur)\<rparr>"

definition modifyCustomRolePermissionsToPg ::
    "ModifyCustomRolePermissions \<Rightarrow> int \<Rightarrow> PgModifyCustomRolePermissions" where
  "modifyCustomRolePermissionsToPg mrp orgID = \<lparr>pmp_OrgID = orgID, pmp_ExternalID = mrp_ID mrp,
     pmp_ETag = mrp_ETag mrp, pmp_AddPermissionNames = permissionsToPg (mrp_AddPermissions mrp),
     pmp_RemovePermissionNames = permissionsToPg (mrp_RemovePermissions mrp)\<rparr>"

section \<open>Session and error translation\<close>

definition projectSession :: "AuthSession option \<Rightarrow> (AuthSession \<times> AuthProject) op" where
  "projectSession ctx = (case ctx of
      None \<Rightarrow> throw (ErrMsg ''auth session missing'')
    | Some sess \<Rightarrow> (case as_Project sess of
        None \<Rightarrow> throw (ErrMsg ''project context missing'')
      | Some p \<Rightarrow> ret (sess, p)))"

definition sessUser :: "AuthSession \<Rightarrow> uuid" where
  "sessUser sess = au_UserID (as_User sess)"

definition createRoleErr :: "error \<Rightarrow> error" where
  "createRoleErr e = (if e = PgErrAlreadyExists then ErrAlreadyExists
     else if e = PgErrCheckConstraintViolated then ErrValidation else e)"

definition updateRoleErr :: "error \<Rightarrow> error" where
  "updateRoleErr e = (if e = PgErrAlreadyExists then ErrAlreadyExists
     else if e = PgErrETagMismatch then ErrETagMismatch
     else if e = PgErrCheckConstraintViolated then ErrValidation else e)"

definition updateNameErr :: "error \<Rightarrow> error" where
  "updateNameErr e = (if e = SqlErrNoRows then ErrNotFound else updateRoleErr e)"

definition modifyRoleErr :: "error \<Rightarrow> error" where
  "modifyRoleErr e = (if e = PgErrETagMismatch then ErrETagMismatch else e)"

section \<open>custom\_role.go\<close>

definition changedPerms :: "permission list \<Rightarrow> permission list \<Rightarrow> permission list" where
  "changedPerms current new = setValues (setSymmetricDifference (setFromSlice current) (setFromSlice new))"

definition customRolePermChangeContext :: "uuid \<Rightarrow> int \<Rightarrow> uuid \<Rightarrow> (PgPermissions \<times> PgCustomRole) op" where
  "customRolePermChangeContext actorUserID projectID roleID =
    andThen (OrgPermissionsByProjectID actorUserID projectID) (\<lambda>userOrgPerms.
    andThen (LockCustomRole roleID) (\<lambda>_.
    andThen (CustomRoleByExternalID (pp_OrgID userOrgPerms) roleID) (\<lambda>role.
    ret (userOrgPerms, role))))"

definition validateCustomRoleAssignmentScope :: "uuid \<Rightarrow> permission list \<Rightarrow> unit op" where
  "validateCustomRoleAssignmentScope roleID perms =
    andThen (liftS (MinimumAssignmentScope perms)) (\<lambda>scope.
    if scope = AssignmentScopeProject then ret ()
    else andThen (CustomRoleHasProjectAssignments roleID) (\<lambda>has.
      if has then throw ErrInvalidAssignmentScope else ret ()))"

definition CustomRoles :: "AuthSession option \<Rightarrow> int \<Rightarrow> int \<Rightarrow> (CustomRole list \<times> int) op" where
  "CustomRoles ctx pageSize pageOffset =
    andThen (projectSession ctx) (\<lambda>(sess, project).
    andThen (pg_CustomRoles (ap_OrgID project) pageSize pageOffset) (\<lambda>(rs, count).
    andThen (liftS (customRolesFromPg rs)) (\<lambda>roles. ret (roles, count))))"

definition UserProjectCustomRoles ::
    "AuthSession option \<Rightarrow> uuid \<Rightarrow> int \<Rightarrow> int \<Rightarrow> (CustomRole list \<times> int) op" where
  "UserProjectCustomRoles ctx userID pageSize pageOffset =
    andThen (projectSession ctx) (\<lambda>(sess, project).
    andThen (onError rowsNotFound
      (pg_UserProjectCustomRoles userID (ap_ID project) pageSize pageOffset)) (\<lambda>(rs, count).
    andThen (liftS (customRolesFromPg rs)) (\<lambda>roles. ret (roles, count))))"

definition UserOrgCustomRoles ::
    "AuthSession option \<Rightarrow> uuid \<Rightarrow> int \<Rightarrow> int \<Rightarrow> (CustomRole list \<times> int) op" where
  "UserOrgCustomRoles ctx userID pageSize pageOffset =
    andThen (projectSession ctx) (\<lambda>(sess, project).
    andThen (onError rowsNotFound
      (pg_UserOrgCustomRoles userID (ap_OrgID project) pageSize pageOffset)) (\<lambda>(rs, count).
    andThen (liftS (customRolesFromPg rs)) (\<lambda>roles. ret (roles, count))))"

definition CustomRoleByID :: "AuthSession option \<Rightarrow> uuid \<Rightarrow> CustomRole op" where
  "CustomRoleByID ctx roleID =
    andThen (projectSession ctx) (\<lambda>(sess, project).
    andThen (onError rowsNotFound (CustomRoleByExternalID (ap_OrgID project) roleID)) (\<lambda>role.
    liftS (customRoleFromPg role)))"

definition CreateCustomRole :: "AuthSession option \<Rightarrow> CreateCustomRole \<Rightarrow> CustomRole op" where
  "CreateCustomRole ctx cr =
    andThen (projectSession ctx) (\<lambda>(sess, project).
    andThen (liftS (CreateCustomRole_Validate cr)) (\<lambda>_.
    andThen (run_tx (
      andThen (onError rowsNotFound (OrgPermissionsByProjectID (sessUser sess) (ap_ID project)))
        (\<lambda>userOrgPerms.
      if \<not> IsPermissionSuperset (permissionsFromPg (pp_PermissionNames userOrgPerms)) (ccr_Permissions cr)
      then throw ErrPermissionDenied
      else onError createRoleErr
        (pg_CreateCustomRole (createCustomRoleToPg cr (pp_OrgID userOrgPerms)))))) (\<lambda>role.
    liftS (customRoleFromPg role))))"

definition UpdateCustomRole :: "AuthSession option \<Rightarrow> UpdateCustomRole \<Rightarrow> CustomRole op" where
  "UpdateCustomRole ctx ur =
    andThen (projectSession ctx) (\<lambda>(sess, project).
    andThen (liftS (UpdateCustomRole_Validate ur)) (\<lambda>_.
    andThen (if ucr_FieldPermissions ur then
      run_tx (
        andThen (onError rowsNotFound
          (customRolePermChangeContext (sessUser sess) (ap_ID project) (ucr_ID ur)))
          (\<lambda>(userOrgPerms, currentRole).
        if pcr_ManagedKey currentRole \<noteq> None then throw ErrManagedRole
        else if \<not> IsPermissionSuperset (permissionsFromPg (pp_PermissionNames userOrgPerms))
                  (changedPerms (permissionsFromPg (pcr_PermissionNames currentRole)) (ucr_Permissions ur))
        then throw ErrPermissionDenied
        else andThen (validateCustomRoleAssignmentScope (ucr_ID ur) (ucr_Permissions ur)) (\<lambda>_.
        onError updateRoleErr
          (pg_UpdateCustomRole (updateCustomRoleToPg ur (pp_OrgID userOrgPerms))))))
     else onError updateNameErr
        (pg_UpdateCustomRole (updateCustomRoleToPg ur (ap_OrgID project)))) (\<lambda>role.
    liftS (customRoleFromPg role))))"

definition ModifyCustomRolePermissions ::
    "AuthSession option \<Rightarrow> ModifyCustomRolePermissions \<Rightarrow> CustomRole op" where
  "ModifyCustomRolePermissions ctx mrp =
    andThen (projectSession ctx) (\<lambda>(sess, project).
    andThen (liftS (ModifyCustomRolePermissions_Validate mrp)) (\<lambda>_.
    andThen (run_tx (
      andThen (onError rowsNotFound
        (customRolePermChangeContext (sessUser sess) (ap_ID project) (mrp_ID mrp)))
        (\<lambda>(userOrgPerms, currentRole).
      if pcr_ManagedKey currentRole \<noteq> None then throw ErrManagedRole
      else
        let current = permissionsFromPg (pcr_PermissionNames currentRole);
            nextPerms = setRemove (setAdd (setFromSlice current) (mrp_AddPermissions mrp))
              (mrp_RemovePermissions mrp) in
        if \<not> IsPermissionSuperset (permissionsFromPg (pp_PermissionNames userOrgPerms))
              (changedPerms current (setValues nextPerms))
        then throw ErrPermissionDenied
        else andThen (validateCustomRoleAssignmentScope (mrp_ID mrp) (setValues nextPerms)) (\<lambda>_.
        onError modifyRoleErr
          (pg_ModifyCustomRolePermissions
            (modifyCustomRolePermissionsToPg mrp (pp_OrgID userOrgPerms))))))) (\<lambda>role.
    liftS (customRoleFromPg role))))"

definition DeleteCustomRole :: "AuthSession option \<Rightarrow> uuid \<Rightarrow> unit op" where
  "DeleteCustomRole ctx roleID =
    andThen (projectSession ctx) (\<lambda>(sess, project).
    run_tx (
      andThen (onError rowsNotFound
        (customRolePermChangeContext (sessUser sess) (ap_ID project) roleID)) (\<lambda>(userOrgPerms, role).
      if pcr_ManagedKey role \<noteq> None then throw ErrManagedRole
      else if \<not> IsPermissionSuperset (permissionsFromPg (pp_PermissionNames userOrgPerms))
                (permissionsFromPg (pcr_PermissionNames role))
      then throw ErrPermissionDenied
      else pg_DeleteCustomRole (pp_OrgID userOrgPerms) roleID)))"

definition AssignCustomRoleToProject :: "AuthSession option \<Rightarrow> uuid \<Rightarrow> uuid \<Rightarrow> unit op" where
  "AssignCustomRoleToProject ctx targetUserID roleID =
    andThen (projectSession ctx) (\<lambda>(sess, project).
    run_tx (
      andThen (onError rowsNotFound (ProjectPermissions (sessUser sess) (ap_ID project)))
        (\<lambda>userProjectPerms.
      andThen (LockCustomRole roleID) (\<lambda>_.
      andThen (onError rowsNotFound (CustomRoleByExternalID (pp_OrgID userProjectPerms) roleID)) (\<lambda>role.
      andThen (liftS (MinimumAssignmentScope (permissionsFromPg (pcr_PermissionNames role)))) (\<lambda>scope.
      if scope > AssignmentScopeProject then throw ErrInvalidAssignmentScope
      else if \<not> IsPermissionSuperset (permissionsFromPg (pp_PermissionNames userProjectPerms))
                (permissionsFromPg (pcr_PermissionNames role))
      then throw ErrPermissionDenied
      else onError assignErr
        (pg_AssignCustomRoleToProject targetUserID roleID (ap_ID project))))))))"

definition UnassignCustomRoleFromProject :: "AuthSession option \<Rightarrow> uuid \<Rightarrow> uuid \<Rightarrow> unit op" where
  "UnassignCustomRoleFromProject ctx targetUserID roleID =
    andThen (projectSession ctx) (\<lambda>(sess, project).
    run_tx (
      andThen (onError rowsNotFound (ProjectPermissions (sessUser sess) (ap_ID project)))
        (\<lambda>userProjectPerms.
      andThen (onError rowsNotFound (CustomRoleByExternalID (pp_OrgID userProjectPerms) roleID)) (\<lambda>role.
      if \<not> IsPermissionSuperset (permissionsFromPg (pp_PermissionNames userProjectPerms))
            (permissionsFromPg (pcr_PermissionNames role))
      then throw ErrPermissionDenied
      else onError rowsNotFound
        (pg_UnassignCustomRoleFromProject targetUserID roleID (ap_ID project))))))"

definition AssignCustomRoleToOrg :: "AuthSession option \<Rightarrow> uuid \<Rightarrow> uuid \<Rightarrow> unit op" where
  "AssignCustomRoleToOrg ctx targetUserID roleID =
    andThen (projectSession ctx) (\<lambda>(sess, project).
    run_tx (
      andThen (onError rowsNotFound (OrgPermissionsByProjectID (sessUser sess) (ap_ID project)))
        (\<lambda>userOrgPerms.
      andThen (onError rowsNotFound (CustomRoleByExternalID (pp_OrgID userOrgPerms) roleID)) (\<lambda>role.
      if \<not> IsPermissionSuperset (permissionsFromPg (pp_PermissionNames userOrgPerms))
            (permissionsFromPg (pcr_PermissionNames role))
      then throw ErrPermissionDenied
      else onError assignErr
        (pg_AssignCustomRoleToOrg targetUserID roleID (pp_OrgID userOrgPerms))))))"

definition UnassignCustomRoleFromOrg :: "AuthSession option \<Rightarrow> uuid \<Rightarrow> uuid \<Rightarrow> unit op" where
  "UnassignCustomRoleFromOrg ctx targetUserID roleID =
    andThen (projectSession ctx) (\<lambda>(sess, project).
    run_tx (
      andThen (onError rowsNotFound (OrgPermissionsByProjectID (sessUser sess) (ap_ID project)))
        (\<lambda>userOrgPerms.
      andThen (onError rowsNotFound (CustomRoleByExternalID (pp_OrgID userOrgPerms) roleID)) (\<lambda>role.
      if \<not> IsPermissionSuperset (permissionsFromPg (pp_PermissionNames userOrgPerms))
            (permissionsFromPg (pcr_PermissionNames role))
      then throw ErrPermissionDenied
      else onError rowsNotFound
        (pg_UnassignCustomRoleFromOrg targetUserID roleID (pp_OrgID userOrgPerms))))))"

end
