(* ===== verification/CustomRoleStore.thy ===== *)
theory CustomRoleStore
  imports CustomRoleCore
begin

text \<open>
  What the custom-role store does, operation by operation: the state after a successful call written
  out, and that reads change nothing. The domain proofs use these facts only.
\<close>

section \<open>Reads\<close>

lemma resolved_names [simp]:
  "set (permission_names_of s (org_permission_ids s u o')) = {n. holds_org s u o' n}"
  "set (permission_names_of s (project_permission_ids s u p)) = {n. holds_project s u p n}"
  by (simp_all add: set_eq_iff names_org_permission_ids names_project_permission_ids)

lemma OrgPermissionsByProjectID_Inr:
  assumes "OrgPermissionsByProjectID x p s = (Inr r, t)"
  shows "t = s" and "\<exists>pr \<in> set (projects s). \<exists>u \<in> set (users_by_external_id s x). prj_id pr = p \<and>
    pp_OrgID r = prj_org_id pr \<and> set (pp_PermissionNames r) = {n. holds_org s (usr_id u) (prj_org_id pr) n}"
proof -
  let ?rows = "[\<lparr>pp_OrgID = prj_org_id p', pp_PermissionNames =
         permission_names_of s (org_permission_ids s (usr_id u) (prj_org_id p'))\<rparr>.
       p' \<leftarrow> projects s, prj_id p' = p, u \<leftarrow> users_by_external_id s x]"
  from assms have t: "t = s" and rows: "?rows = [r]"
    by (auto simp: OrgPermissionsByProjectID_def orgPermissionsByProjectIDQuery_def queueOne_reads)
  from rows have "r \<in> set ?rows" by simp
  then obtain pr u where "pr \<in> set (projects s)" "prj_id pr = p" "u \<in> set (users_by_external_id s x)"
    "r = \<lparr>pp_OrgID = prj_org_id pr, pp_PermissionNames = permission_names_of s (org_permission_ids s (usr_id u) (prj_org_id pr))\<rparr>"
    by (auto split: if_splits)
  then show "\<exists>pr \<in> set (projects s). \<exists>u \<in> set (users_by_external_id s x). prj_id pr = p \<and>
    pp_OrgID r = prj_org_id pr \<and> set (pp_PermissionNames r) = {n. holds_org s (usr_id u) (prj_org_id pr) n}"
    by (intro bexI[of _ pr] bexI[of _ u]) auto
  show "t = s" by (rule t)
qed

lemma ProjectPermissions_Inr:
  assumes "ProjectPermissions x p s = (Inr r, t)"
  shows "t = s" and "\<exists>pr \<in> set (projects s). \<exists>u \<in> set (users_by_external_id s x). prj_id pr = p \<and>
    pp_OrgID r = prj_org_id pr \<and> set (pp_PermissionNames r) = {n. holds_project s (usr_id u) p n}"
proof -
  let ?rows = "[\<lparr>pp_OrgID = prj_org_id p', pp_PermissionNames =
         permission_names_of s (project_permission_ids s (usr_id u) (prj_id p'))\<rparr>.
       p' \<leftarrow> projects s, prj_id p' = p, u \<leftarrow> users_by_external_id s x]"
  from assms have t: "t = s" and rows: "?rows = [r]"
    by (auto simp: ProjectPermissions_def projectPermissionsQuery_def queueOne_reads)
  from rows have "r \<in> set ?rows" by simp
  then obtain pr u where "pr \<in> set (projects s)" "prj_id pr = p" "u \<in> set (users_by_external_id s x)"
    "r = \<lparr>pp_OrgID = prj_org_id pr, pp_PermissionNames = permission_names_of s (project_permission_ids s (usr_id u) (prj_id pr))\<rparr>"
    by (auto split: if_splits)
  then show "\<exists>pr \<in> set (projects s). \<exists>u \<in> set (users_by_external_id s x). prj_id pr = p \<and>
    pp_OrgID r = prj_org_id pr \<and> set (pp_PermissionNames r) = {n. holds_project s (usr_id u) p n}"
    by (intro bexI[of _ pr] bexI[of _ u]) auto
  show "t = s" by (rule t)
qed

lemma CustomRoleByExternalID_iff:
  "CustomRoleByExternalID o' x s = (Inr r, t) \<longleftrightarrow>
    t = s \<and> (\<exists>row. org_roles_by_external_id s o' x = [row] \<and> r = custom_role_of s row)"
  by (auto simp: CustomRoleByExternalID_def customRoleByExternalIDQuery_def queueOne_reads
      map_eq_Cons_conv)

lemma custom_role_of_perms [simp]:
  "set (pcr_PermissionNames (custom_role_of s r)) = {n. role_has s (rol_id r) n}"
  "pcr_ManagedKey (custom_role_of s r) = rol_managed_key r"
  "pcr_ETag (custom_role_of s r) = rol_etag r" "pcr_ID (custom_role_of s r) = rol_id r"
  by (auto simp: custom_role_of_def set_role_permission_names)

lemma CustomRoleHasProjectAssignments_Inr:
  assumes "CustomRoleHasProjectAssignments x s = (Inr b, t)"
  shows "t = s" "\<exists>r. roles_by_external_id s x = [r] \<and>
    (b \<longleftrightarrow> (\<exists>a \<in> set (project_role_assignments s). pa_role_id a = rol_id r))"
  using assms
  by (auto simp: CustomRoleHasProjectAssignments_def customRoleHasProjectAssignmentsQuery_def
      queueOne_reads map_eq_Cons_conv)

lemma LockCustomRole_eq:
  "LockCustomRole x s = (Inr (), s\<lparr>locks := locks s @
     map (AdvisoryLock ''rbac.custom-role'') (map rol_id (roles_by_external_id s x))\<rparr>)"
  by (simp add: LockCustomRole_def RunExec_def andThen_def atomic_def reads_def ret_def lock_each_eq)

section \<open>Assignments\<close>

lemma pg_AssignCustomRoleToProject_Inr:
  assumes "pg_AssignCustomRoleToProject x rx p s = (Inr (), t)"
  shows "\<exists>a. t = s\<lparr>project_role_assignments := project_role_assignments s @ [a]\<rparr> \<and>
    pa_project_id a = p \<and>
    (\<forall>b \<in> set (project_role_assignments s). (pa_user_id b, pa_project_id b, pa_role_id b) \<noteq>
       (pa_user_id a, pa_project_id a, pa_role_id a)) \<and>
    (\<exists>u \<in> set (users_by_external_id s x). pa_user_id a = usr_id u) \<and>
    (pa_org_id a, pa_user_id a) \<in> set (org_membership s) \<and>
    (\<exists>pr \<in> set (projects s). prj_id pr = p \<and> prj_org_id pr = pa_org_id a) \<and>
    (\<exists>r \<in> set (roles_by_external_id s rx). rol_id r = pa_role_id a \<and> rol_org_id r = pa_org_id a)"
proof -
  let ?rows = "[\<lparr>pa_user_id = usr_id u, pa_project_id = prj_id p',
             pa_role_id = rol_id r, pa_org_id = prj_org_id p'\<rparr>.
           u \<leftarrow> users_by_external_id s x, r \<leftarrow> roles_by_external_id s rx,
           p' \<leftarrow> filter (\<lambda>p'. prj_id p' = p) (projects s), rol_org_id r = prj_org_id p',
           (prj_org_id p', usr_id u) \<in> set (org_membership s)]"
  from assms have t: "t = s\<lparr>project_role_assignments := project_role_assignments s @ ?rows\<rparr>"
    and one: "\<exists>a. ?rows = [a]"
    and new: "\<not> (\<exists>a \<in> set ?rows. \<exists>b \<in> set (project_role_assignments s). pa_user_id b = pa_user_id a \<and>
             pa_project_id b = pa_project_id a \<and> pa_role_id b = pa_role_id a)"
    by (auto simp only: pg_AssignCustomRoleToProject_def assignCustomRoleToProjectQuery_def
        andThen_Inr_iff queueOne_Inr_iff Queue_simp reads_Inr_iff updates_Inr_iff ret_Inr_iff
        sum.inject violations throw_Inr_iff map_eq_Cons_conv map_is_Nil_conv list.inject simp_thms
        split: if_splits)
  from one obtain a where a: "?rows = [a]" by blast
  then have "a \<in> set ?rows" by simp
  then obtain u r p' where "u \<in> set (users_by_external_id s x)" "r \<in> set (roles_by_external_id s rx)"
    "p' \<in> set (projects s)" "prj_id p' = p" "rol_org_id r = prj_org_id p'"
    "(prj_org_id p', usr_id u) \<in> set (org_membership s)"
    "a = \<lparr>pa_user_id = usr_id u, pa_project_id = prj_id p', pa_role_id = rol_id r, pa_org_id = prj_org_id p'\<rparr>"
    by (auto split: if_splits)
  moreover have "t = s\<lparr>project_role_assignments := project_role_assignments s @ [a]\<rparr>" using t a by metis
  moreover have "\<forall>b \<in> set (project_role_assignments s). (pa_user_id b, pa_project_id b, pa_role_id b) \<noteq>
       (pa_user_id a, pa_project_id a, pa_role_id a)" using new unfolding a by auto
  ultimately show ?thesis by (intro exI[of _ a]) auto
qed

lemma pg_UnassignCustomRoleFromProject_Inr:
  assumes "pg_UnassignCustomRoleFromProject x rx p s = (Inr (), t)"
  shows "\<exists>keep. t = s\<lparr>project_role_assignments := filter keep (project_role_assignments s)\<rparr> \<and>
    (\<forall>a. \<not> keep a \<longrightarrow> pa_project_id a = p \<and>
       (\<exists>u \<in> set (users_by_external_id s x). pa_user_id a = usr_id u) \<and>
       (\<exists>r \<in> set (roles_by_external_id s rx). rol_id r = pa_role_id a \<and>
          (\<exists>pr \<in> set (projects s). prj_id pr = p \<and> prj_org_id pr = rol_org_id r)))"
proof -
  let ?uids = "[usr_id u. u \<leftarrow> users_by_external_id s x, p' \<leftarrow> filter (\<lambda>p'. prj_id p' = p) (projects s),
              (prj_org_id p', usr_id u) \<in> set (org_membership s)]"
  let ?rids = "[rol_id r. r \<leftarrow> roles_by_external_id s rx, p' \<leftarrow> filter (\<lambda>p'. prj_id p' = p) (projects s),
              prj_org_id p' = rol_org_id r]"
  let ?hit = "\<lambda>a. pa_user_id a \<in> set ?uids \<and> pa_role_id a \<in> set ?rids \<and> pa_project_id a = p"
  from assms have "t = s\<lparr>project_role_assignments := filter (\<lambda>a. \<not> ?hit a) (project_role_assignments s)\<rparr>"
    by (auto simp only: pg_UnassignCustomRoleFromProject_def unassignCustomRoleFromProjectQuery_def
        andThen_Inr_iff queueOne_Inr_iff Queue_simp reads_Inr_iff updates_Inr_iff ret_Inr_iff
        sum.inject Let_def prod.case)
  then show ?thesis by (intro exI[of _ "\<lambda>a. \<not> ?hit a"]) (auto split: if_splits)
qed

lemma pg_AssignCustomRoleToOrg_Inr:
  assumes "pg_AssignCustomRoleToOrg x rx o' s = (Inr (), t)"
  shows "\<exists>a. t = s\<lparr>org_role_assignments := org_role_assignments s @ [a]\<rparr> \<and> oa_org_id a = o' \<and>
    a \<notin> set (org_role_assignments s) \<and>
    (\<exists>u \<in> set (users_by_external_id s x). oa_user_id a = usr_id u) \<and>
    (o', oa_user_id a) \<in> set (org_membership s) \<and>
    (\<exists>r \<in> set (org_roles_by_external_id s o' rx). rol_id r = oa_role_id a)"
proof -
  let ?rows = "[\<lparr>oa_user_id = usr_id u, oa_org_id = m, oa_role_id = rol_id r\<rparr>.
           u \<leftarrow> users_by_external_id s x, (m, v) \<leftarrow> org_membership s, v = usr_id u, m = o',
           r \<leftarrow> org_roles_by_external_id s m rx]"
  from assms have t: "t = s\<lparr>org_role_assignments := org_role_assignments s @ ?rows\<rparr>"
    and one: "\<exists>a. ?rows = [a]"
    and new: "\<not> (\<exists>a \<in> set ?rows. a \<in> set (org_role_assignments s))"
    by (auto simp only: pg_AssignCustomRoleToOrg_def assignCustomRoleToOrgQuery_def
        andThen_Inr_iff queueOne_Inr_iff Queue_simp reads_Inr_iff updates_Inr_iff ret_Inr_iff
        sum.inject violations throw_Inr_iff map_eq_Cons_conv map_is_Nil_conv list.inject simp_thms
        split: if_splits)
  from one obtain a where a: "?rows = [a]" by blast
  then have "a \<in> set ?rows" by simp
  then obtain u r where "u \<in> set (users_by_external_id s x)" "r \<in> set (org_roles_by_external_id s o' rx)"
    "(o', usr_id u) \<in> set (org_membership s)"
    "a = \<lparr>oa_user_id = usr_id u, oa_org_id = o', oa_role_id = rol_id r\<rparr>"
    by (auto split: if_splits)
  moreover have "t = s\<lparr>org_role_assignments := org_role_assignments s @ [a]\<rparr>" using t a by metis
  moreover have "a \<notin> set (org_role_assignments s)" using new unfolding a by auto
  ultimately show ?thesis by (intro exI[of _ a]) auto
qed

lemma pg_UnassignCustomRoleFromOrg_Inr:
  assumes "pg_UnassignCustomRoleFromOrg x rx o' s = (Inr (), t)"
  shows "\<exists>keep. t = s\<lparr>org_role_assignments := filter keep (org_role_assignments s)\<rparr> \<and>
    (\<forall>a. \<not> keep a \<longrightarrow> oa_org_id a = o' \<and>
       (\<exists>u \<in> set (users_by_external_id s x). oa_user_id a = usr_id u) \<and>
       (\<exists>r \<in> set (org_roles_by_external_id s o' rx). rol_id r = oa_role_id a))"
proof -
  let ?uids = "[usr_id u. u \<leftarrow> users_by_external_id s x, (o', usr_id u) \<in> set (org_membership s)]"
  let ?hit = "\<lambda>a. oa_user_id a \<in> set ?uids \<and>
    oa_role_id a \<in> set (map rol_id (org_roles_by_external_id s o' rx)) \<and> oa_org_id a = o'"
  from assms have "t = s\<lparr>org_role_assignments := filter (\<lambda>a. \<not> ?hit a) (org_role_assignments s)\<rparr>"
    by (auto simp only: pg_UnassignCustomRoleFromOrg_def unassignCustomRoleFromOrgQuery_def
        andThen_Inr_iff queueOne_Inr_iff Queue_simp reads_Inr_iff updates_Inr_iff ret_Inr_iff
        sum.inject Let_def prod.case)
  then show ?thesis by (intro exI[of _ "\<lambda>a. \<not> ?hit a"]) (auto split: if_splits)
qed

section \<open>Creating\<close>

lemma insert_custom_role_Inr:
  "insert_custom_role r s = (Inr y, t) \<longleftrightarrow> role_checks r \<and> \<not> role_conflict r (custom_roles s) \<and>
    t = s\<lparr>custom_roles := custom_roles s @ [r]\<rparr>"
  by (auto simp: insert_custom_role_def andThen_Inr_iff violations split: if_splits)

lemma insert_role_permissions_Inr:
  "insert_role_permissions rps s = (Inr y, t) \<longleftrightarrow>
    distinct rps \<and> set rps \<inter> set (custom_role_permissions s) = {} \<and>
    t = s\<lparr>custom_role_permissions := custom_role_permissions s @ rps\<rparr>"
  by (auto simp: insert_role_permissions_def andThen_Inr_iff violations split: if_splits)

lemma createCustomRole_Inr:
  assumes "Queue (createCustomRoleQuery cr mk) s = (Inr role, t)"
  shows "\<exists>r ids names. resolve_permissions s (pccr_PermissionNames cr) = Some (ids, names) \<and>
    pccr_OrgID cr \<in> org_ids s \<and> role_checks r \<and> \<not> role_conflict r (custom_roles s) \<and>
    rol_name r = pccr_Name cr \<and> rol_org_id r = pccr_OrgID cr \<and> rol_managed_key r = mk \<and>
    rol_id r = g_custom_roles (gen s) \<and> rol_external_id r = g_uuids (gen s) (g_uuid_pos (gen s)) \<and>
    rol_etag r = g_uuids (gen s) (Suc (g_uuid_pos (gen s))) \<and>
    distinct ids \<and> (\<forall>p. (rol_id r, p) \<in> set (custom_role_permissions s) \<longrightarrow> p \<notin> set ids) \<and>
    (\<exists>g. t = s\<lparr>gen := g, custom_roles := custom_roles s @ [r],
      custom_role_permissions := custom_role_permissions s @ map (Pair (rol_id r)) ids\<rparr>) \<and>
    pcr_ID role = rol_id r \<and> pcr_ExternalID role = rol_external_id r \<and> pcr_Name role = rol_name r \<and>
    pcr_ManagedKey role = mk \<and> pcr_PermissionNames role = names \<and> pcr_ETag role = rol_etag r"
proof -
  let ?i = "g_custom_roles (gen s)" and ?x = "g_uuids (gen s) (g_uuid_pos (gen s))"
  let ?e = "g_uuids (gen s) (Suc (g_uuid_pos (gen s)))"
  let ?r = "\<lparr>rol_id = ?i, rol_external_id = ?x, rol_name = pccr_Name cr, rol_org_id = pccr_OrgID cr,
     rol_managed_key = mk, rol_created_at = clock s, rol_updated_at = None, rol_etag = ?e\<rparr>"
  let ?g = "(gen s)\<lparr>g_custom_roles := ?i + 1, g_uuid_pos := Suc (Suc (g_uuid_pos (gen s)))\<rparr>"
  from assms obtain ids names where res: "resolve_permissions s (pccr_PermissionNames cr) = Some (ids, names)"
    and org: "filter (\<lambda>o'. org_id o' = pccr_OrgID cr) (organizations s) \<noteq> []"
    by (auto simp: createCustomRoleQuery_def andThen_Inr_iff queueOne_Inr_iff split: option.splits if_splits)
  with assms have chk: "role_checks ?r" "\<not> role_conflict ?r (custom_roles s)"
    and ins: "distinct (map (Pair ?i) ids)" "set (map (Pair ?i) ids) \<inter> set (custom_role_permissions s) = {}"
    and t: "t = s\<lparr>gen := ?g, custom_roles := custom_roles s @ [?r],
      custom_role_permissions := custom_role_permissions s @ map (Pair ?i) ids\<rparr>"
    and role: "role = \<lparr>pcr_ID = ?i, pcr_ExternalID = ?x, pcr_Name = pccr_Name cr,
                   pcr_ManagedKey = mk, pcr_PermissionNames = names,
                   pcr_CreatedAt = clock s, pcr_UpdatedAt = None, pcr_ETag = ?e\<rparr>"
    by (simp_all add: createCustomRoleQuery_def andThen_Inr_iff queueOne_Inr_iff insert_custom_role_Inr
        insert_role_permissions_Inr nextval_def gen_random_uuid_def Let_def)
  have "pccr_OrgID cr \<in> org_ids s" using org by (force simp: filter_empty_conv)
  moreover have "distinct ids" using ins(1) by (simp add: distinct_map)
  moreover have "\<forall>p. (?i, p) \<in> set (custom_role_permissions s) \<longrightarrow> p \<notin> set ids" using ins(2) by auto
  ultimately show ?thesis using res chk t role by (intro exI[of _ ?r]) auto
qed

section \<open>Deleting\<close>

lemma org_roles_frame [simp]:
  "org_roles_by_external_id (s\<lparr>project_role_assignments := pa\<rparr>) o' x = org_roles_by_external_id s o' x"
  "org_roles_by_external_id (s\<lparr>org_role_assignments := oa\<rparr>) o' x = org_roles_by_external_id s o' x"
  "org_roles_by_external_id (s\<lparr>custom_role_permissions := rp\<rparr>) o' x = org_roles_by_external_id s o' x"
  by (simp_all add: org_roles_by_external_id_def)

lemma pg_DeleteCustomRole_Inr:
  assumes "pg_DeleteCustomRole o' x s = (Inr (), t)"
  shows "\<exists>r. org_roles_by_external_id s o' x = [r] \<and>
    t = s\<lparr>project_role_assignments := filter (\<lambda>a. pa_role_id a \<noteq> rol_id r) (project_role_assignments s),
          org_role_assignments := filter (\<lambda>a. oa_role_id a \<noteq> rol_id r) (org_role_assignments s),
          custom_role_permissions := filter (\<lambda>(q, p). q \<noteq> rol_id r) (custom_role_permissions s),
          custom_roles := filter (\<lambda>q. \<not> (rol_external_id q = x \<and> rol_org_id q = o')) (custom_roles s)\<rparr>"
proof -
  from assms obtain r where r: "org_roles_by_external_id s o' x = [r]"
    by (auto simp: pg_DeleteCustomRole_def andThen_Inr_iff queueOne_Inr_iff map_eq_Cons_conv
        deleteCustomRoleProjectAssignmentsQuery_def deleteCustomRoleOrgAssignmentsQuery_def
        deleteCustomRolePermissionsQuery_def deleteCustomRoleQuery_def violations split: if_splits)
  with assms show ?thesis
    by (auto simp: pg_DeleteCustomRole_def andThen_Inr_iff queueOne_Inr_iff
        deleteCustomRoleProjectAssignmentsQuery_def deleteCustomRoleOrgAssignmentsQuery_def
        deleteCustomRolePermissionsQuery_def deleteCustomRoleQuery_def violations split: if_splits)
qed

section \<open>Updating\<close>

lemma roles_by_id_single:
  assumes "db_inv s" "r \<in> set (custom_roles s)"
  shows "roles_by_external_id s (rol_external_id r) = [r]"
    "org_roles_by_external_id s (rol_org_id r) (rol_external_id r) = [r]"
proof -
  have d: "distinct (map rol_external_id (custom_roles s))"
    using assms(1) by (simp add: db_inv_def custom_roles_ok_def)
  then show one: "roles_by_external_id s (rol_external_id r) = [r]"
    using assms(2) by (simp add: roles_by_external_id_def filter_eq_single)
  have "org_roles_by_external_id s (rol_org_id r) (rol_external_id r) =
      filter (\<lambda>q. rol_org_id q = rol_org_id r) (roles_by_external_id s (rol_external_id r))"
    by (auto simp: org_roles_by_external_id_def roles_by_external_id_def intro: filter_cong)
  then show "org_roles_by_external_id s (rol_org_id r) (rol_external_id r) = [r]" by (simp add: one)
qed

lemma org_role_member:
  "r \<in> set (org_roles_by_external_id s o' x) \<longleftrightarrow>
    r \<in> set (custom_roles s) \<and> rol_external_id r = x \<and> rol_org_id r = o'"
  "r \<in> set (roles_by_external_id s x) \<longleftrightarrow> r \<in> set (custom_roles s) \<and> rol_external_id r = x"
  by (auto simp: org_roles_by_external_id_def roles_by_external_id_def)

lemma org_roles_single:
  assumes "db_inv s" "r \<in> set (org_roles_by_external_id s o' x)"
  shows "org_roles_by_external_id s o' x = [r]" "roles_by_external_id s x = [r]"
  using roles_by_id_single[of s r] assms by (simp_all add: org_role_member)

lemma update_custom_roles_Inr:
  "update_custom_roles hit upd s = (Inr y, t) \<longleftrightarrow>
    (\<forall>r \<in> set (custom_roles s). hit r \<longrightarrow> role_checks (upd r) \<and>
       \<not> role_conflict (upd r) (filter (\<lambda>q. rol_id q \<noteq> rol_id r) (custom_roles s))) \<and>
    t = s\<lparr>custom_roles := map (\<lambda>r. if hit r then upd r else r) (custom_roles s)\<rparr>"
  by (auto simp: update_custom_roles_def andThen_Inr_iff violations split: if_splits)

lemma role_has_gen_roles [simp]:
  "role_permission_names (s\<lparr>custom_roles := rs\<rparr>) i = role_permission_names s i"
  "resolve_permissions (s\<lparr>custom_roles := rs\<rparr>) ns = resolve_permissions s ns"
  "resolve_permissions (s\<lparr>custom_role_permissions := rp\<rparr>) ns = resolve_permissions s ns"
proof -
  have "permission_id_of (s\<lparr>custom_roles := rs\<rparr>) = permission_id_of s"
    "permission_id_of (s\<lparr>custom_role_permissions := rp\<rparr>) = permission_id_of s"
    by (simp_all add: permission_id_of_def fun_eq_iff)
  then show "resolve_permissions (s\<lparr>custom_roles := rs\<rparr>) ns = resolve_permissions s ns"
    "resolve_permissions (s\<lparr>custom_role_permissions := rp\<rparr>) ns = resolve_permissions s ns"
    by (simp_all add: resolve_permissions_def cong: if_cong)
  show "role_permission_names (s\<lparr>custom_roles := rs\<rparr>) i = role_permission_names s i"
    by (simp add: role_permission_names_def permission_names_of_def role_permission_ids_def)
qed

definition updated_role :: "PgUpdateCustomRole \<Rightarrow> db \<Rightarrow> custom_role_row \<Rightarrow> custom_role_row" where
  "updated_role ur s r = r\<lparr>rol_name := (if pur_FieldName ur then pur_Name ur else rol_name r),
     rol_updated_at := Some (clock s), rol_etag := g_uuids (gen s) (g_uuid_pos (gen s))\<rparr>"

lemma updateCustomRoleQuery_Inr:
  assumes inv: "db_inv s" and q: "Queue (updateCustomRoleQuery ur) s = (Inr i, t)"
  shows "\<exists>r. org_roles_by_external_id s (pur_OrgID ur) (pur_ExternalID ur) = [r] \<and> i = rol_id r \<and>
    rol_etag r = pur_ETag ur \<and> role_checks (updated_role ur s r) \<and>
    \<not> role_conflict (updated_role ur s r) (filter (\<lambda>q. rol_id q \<noteq> rol_id r) (custom_roles s)) \<and>
    (pur_FieldPermissionNames ur \<longrightarrow> resolve_permissions s (pur_PermissionNames ur) \<noteq> None) \<and>
    (\<exists>g. t = s\<lparr>gen := g, custom_roles :=
      map (\<lambda>q. if rol_id q = rol_id r then updated_role ur s r else q) (custom_roles s)\<rparr>)"
proof -
  let ?hit = "\<lambda>r. (rol_external_id r = pur_ExternalID ur \<and> rol_org_id r = pur_OrgID ur) \<and> rol_etag r = pur_ETag ur"
  let ?g = "(gen s)\<lparr>g_uuid_pos := Suc (g_uuid_pos (gen s))\<rparr>"
  from q have ne: "filter ?hit (custom_roles s) \<noteq> []"
    and res: "pur_FieldPermissionNames ur \<longrightarrow> resolve_permissions s (pur_PermissionNames ur) \<noteq> None"
    by (auto simp: updateCustomRoleQuery_def Let_def andThen_Inr_iff queueOne_Inr_iff map_eq_Cons_conv
        split: if_splits)
  from ne obtain r where r: "r \<in> set (custom_roles s)" "?hit r" by (auto simp: filter_empty_conv)
  have one: "org_roles_by_external_id s (pur_OrgID ur) (pur_ExternalID ur) = [r]"
    using roles_by_id_single(2)[OF inv r(1)] r(2) by simp
  have ids: "distinct (map rol_id (custom_roles s))" "distinct (map rol_external_id (custom_roles s))"
    using inv by (simp_all add: db_inv_def custom_roles_ok_def)
  have hit: "?hit p \<longleftrightarrow> rol_id p = rol_id r" if "p \<in> set (custom_roles s)" for p
    using distinct_key_unique[OF ids(1) that r(1)] distinct_key_unique[OF ids(2) that r(1)] r(2) by auto
  have "filter ?hit (custom_roles s) = filter (\<lambda>p. rol_id p = rol_id r) (custom_roles s)"
    using hit by (intro filter_cong) auto
  then have q': "filter ?hit (custom_roles s) = [r]" using filter_eq_single[OF ids(1) r(1)] by simp
  from q ne res have upd: "\<forall>p \<in> set (custom_roles s). ?hit p \<longrightarrow> role_checks (updated_role ur s p) \<and>
       \<not> role_conflict (updated_role ur s p) (filter (\<lambda>q. rol_id q \<noteq> rol_id p) (custom_roles s))"
    and t: "t = s\<lparr>gen := ?g, custom_roles := map (\<lambda>p. if ?hit p then updated_role ur s p else p) (custom_roles s)\<rparr>"
    and i: "i = rol_id r"
    using q' by (auto simp: updateCustomRoleQuery_def Let_def andThen_Inr_iff queueOne_Inr_iff
        update_custom_roles_Inr gen_random_uuid_def updated_role_def)
  have m: "map (\<lambda>p. if ?hit p then updated_role ur s p else p) (custom_roles s) =
      map (\<lambda>p. if rol_id p = rol_id r then updated_role ur s r else p) (custom_roles s)"
    using hit distinct_key_unique[OF ids(1) _ r(1)] by (intro map_cong) auto
  have "\<exists>g. t = s\<lparr>gen := g, custom_roles :=
      map (\<lambda>q. if rol_id q = rol_id r then updated_role ur s r else q) (custom_roles s)\<rparr>"
    using t unfolding m by blast
  moreover have "role_checks (updated_role ur s r)"
    "\<not> role_conflict (updated_role ur s r) (filter (\<lambda>q. rol_id q \<noteq> rol_id r) (custom_roles s))"
    using upd r by blast+
  ultimately show ?thesis using one i r res by (intro exI[of _ r]) blast
qed

lemma deleteCustomRolePermissionsQuery_Inr:
  "QueueMany (deleteCustomRolePermissionsQuery o' x) s = (Inr ys, t) \<longleftrightarrow>
    ys = map snd (filter (\<lambda>(r, p). r \<in> rol_id ` set (org_roles_by_external_id s o' x)) (custom_role_permissions s)) \<and>
    t = s\<lparr>custom_role_permissions := filter (\<lambda>(r, p). r \<notin> rol_id ` set (org_roles_by_external_id s o' x))
      (custom_role_permissions s)\<rparr>"
  by (auto simp: deleteCustomRolePermissionsQuery_def andThen_Inr_iff)

lemma insertCustomRolePermissionsQuery_Inr:
  assumes "resolve_permissions s ns = Some (ids, names)" "roles_by_external_id s x = [r]"
  shows "QueueMany (insertCustomRolePermissionsQuery x ns) s = (Inr ys, t) \<longleftrightarrow>
    ys = ids \<and> distinct ids \<and> (\<forall>p \<in> set ids. (rol_id r, p) \<notin> set (custom_role_permissions s)) \<and>
    t = s\<lparr>custom_role_permissions := custom_role_permissions s @ map (Pair (rol_id r)) ids\<rparr>"
  using assms
  by (auto simp: insertCustomRolePermissionsQuery_def andThen_Inr_iff insert_role_permissions_Inr
      comp_def distinct_map inj_on_def)

lemma pg_UpdateCustomRole_Inr:
  assumes inv: "db_inv s" and q: "pg_UpdateCustomRole ur s = (Inr role, t)"
  shows "\<exists>r rps g. org_roles_by_external_id s (pur_OrgID ur) (pur_ExternalID ur) = [r] \<and>
    rol_etag r = pur_ETag ur \<and> role_checks (updated_role ur s r) \<and>
    \<not> role_conflict (updated_role ur s r) (filter (\<lambda>q. rol_id q \<noteq> rol_id r) (custom_roles s)) \<and>
    t = s\<lparr>gen := g, custom_roles :=
          map (\<lambda>q. if rol_id q = rol_id r then updated_role ur s r else q) (custom_roles s),
        custom_role_permissions := rps\<rparr> \<and>
    (if pur_FieldPermissionNames ur
     then (\<exists>ids names. resolve_permissions s (pur_PermissionNames ur) = Some (ids, names) \<and> distinct ids \<and>
       rps = filter (\<lambda>(q, p). q \<noteq> rol_id r) (custom_role_permissions s) @ map (Pair (rol_id r)) ids)
     else rps = custom_role_permissions s) \<and>
    role = custom_role_of t (updated_role ur s r)"
proof -
  let ?fp = "pur_FieldPermissionNames ur"
  from q obtain i u v where 1: "Queue (updateCustomRoleQuery ur) s = (Inr i, u)"
    and 2: "(if ?fp then
          andThen (QueueMany (deleteCustomRolePermissionsQuery (pur_OrgID ur) (pur_ExternalID ur))) (\<lambda>_.
          andThen (QueueMany (insertCustomRolePermissionsQuery (pur_ExternalID ur)
            (pur_PermissionNames ur))) (\<lambda>_. ret ()))
        else ret ()) u = (Inr (), v)"
    and 3: "Queue (customRoleByExternalIDQuery (pur_OrgID ur) (pur_ExternalID ur)) v = (Inr role, t)"
    by (auto simp: pg_UpdateCustomRole_def andThen_Inr_iff simp del: if_split)
  from updateCustomRoleQuery_Inr[OF inv 1] obtain r g where
    r: "org_roles_by_external_id s (pur_OrgID ur) (pur_ExternalID ur) = [r]"
    and et: "rol_etag r = pur_ETag ur" and chk: "role_checks (updated_role ur s r)"
    and con: "\<not> role_conflict (updated_role ur s r) (filter (\<lambda>q. rol_id q \<noteq> rol_id r) (custom_roles s))"
    and res: "?fp \<longrightarrow> resolve_permissions s (pur_PermissionNames ur) \<noteq> None"
    and u: "u = s\<lparr>gen := g, custom_roles :=
      map (\<lambda>q. if rol_id q = rol_id r then updated_role ur s r else q) (custom_roles s)\<rparr>" by blast
  have mem: "r \<in> set (custom_roles s)" "rol_external_id r = pur_ExternalID ur" "rol_org_id r = pur_OrgID ur"
    using r org_role_member(1)[of r s "pur_OrgID ur" "pur_ExternalID ur"] by simp_all
  have ids: "distinct (map rol_id (custom_roles s))"
    using inv by (simp add: db_inv_def custom_roles_ok_def)
  have ext: "filter P (map (\<lambda>q. if rol_id q = rol_id r then updated_role ur s r else q) (custom_roles s)) =
      map (\<lambda>q. if rol_id q = rol_id r then updated_role ur s r else q) (filter P (custom_roles s))"
    if "\<And>p. P (updated_role ur s p) = P p" for P
    using distinct_key_unique[OF ids _ mem(1)] that
    by (auto simp: filter_map comp_def intro!: arg_cong[where f = "map _"] filter_cong)
  have ext1: "filter (\<lambda>q. rol_external_id q = x) (map (\<lambda>q. if rol_id q = rol_id r then updated_role ur s r else q)
      (custom_roles s)) = map (\<lambda>q. if rol_id q = rol_id r then updated_role ur s r else q)
      (filter (\<lambda>q. rol_external_id q = x) (custom_roles s))" for x
    by (rule ext) (simp add: updated_role_def)
  have ext2: "filter (\<lambda>q. rol_external_id q = x \<and> rol_org_id q = o')
      (map (\<lambda>q. if rol_id q = rol_id r then updated_role ur s r else q) (custom_roles s)) =
      map (\<lambda>q. if rol_id q = rol_id r then updated_role ur s r else q)
      (filter (\<lambda>q. rol_external_id q = x \<and> rol_org_id q = o') (custom_roles s))" for x o'
    by (rule ext) (simp add: updated_role_def)
  have rs: "roles_by_external_id s (pur_ExternalID ur) = [r]"
    using roles_by_id_single(1)[OF inv mem(1)] mem(2) by simp
  have u1: "roles_by_external_id u (pur_ExternalID ur) = [updated_role ur s r]"
    "org_roles_by_external_id u (pur_OrgID ur) (pur_ExternalID ur) = [updated_role ur s r]"
    using rs r unfolding u roles_by_external_id_def org_roles_by_external_id_def by (simp_all add: ext1 ext2)
  have id: "rol_id (updated_role ur s r) = rol_id r" by (simp add: updated_role_def)
  obtain rps where v: "v = u\<lparr>custom_role_permissions := rps\<rparr>" and rps: "if ?fp
     then (\<exists>ids names. resolve_permissions s (pur_PermissionNames ur) = Some (ids, names) \<and> distinct ids \<and>
       rps = filter (\<lambda>(q, p). q \<noteq> rol_id r) (custom_role_permissions s) @ map (Pair (rol_id r)) ids)
     else rps = custom_role_permissions s"
  proof (cases ?fp)
    case True
    with res obtain ids names where rs: "resolve_permissions s (pur_PermissionNames ur) = Some (ids, names)" by auto
    define w where "w = u\<lparr>custom_role_permissions := filter (\<lambda>(q, p). q \<noteq> rol_id r) (custom_role_permissions s)\<rparr>"
    have su: "custom_role_permissions u = custom_role_permissions s" by (simp add: u)
    have rw: "resolve_permissions w (pur_PermissionNames ur) = Some (ids, names)" using rs by (simp add: w_def u)
    have wr: "roles_by_external_id w (pur_ExternalID ur) = [updated_role ur s r]"
      using u1(1) by (simp add: w_def roles_by_external_id_def)
    have "\<exists>ys. QueueMany (deleteCustomRolePermissionsQuery (pur_OrgID ur) (pur_ExternalID ur)) u = (Inr ys, w)"
      by (simp add: deleteCustomRolePermissionsQuery_Inr u1(2) id w_def su)
    then obtain ys where
      "QueueMany (deleteCustomRolePermissionsQuery (pur_OrgID ur) (pur_ExternalID ur)) u = (Inr ys, w)" ..
    with 2 True have "\<exists>zs. QueueMany (insertCustomRolePermissionsQuery (pur_ExternalID ur)
        (pur_PermissionNames ur)) w = (Inr zs, v)"
      by (auto simp: andThen_step andThen_Inr_iff)
    then have d: "distinct ids" and
      "v = w\<lparr>custom_role_permissions := custom_role_permissions w @ map (Pair (rol_id r)) ids\<rparr>"
      unfolding insertCustomRolePermissionsQuery_Inr[OF rw wr] id by blast+
    then have "v = u\<lparr>custom_role_permissions := filter (\<lambda>(q, p). q \<noteq> rol_id r) (custom_role_permissions s) @
        map (Pair (rol_id r)) ids\<rparr>" by (simp add: w_def)
    with d rs True show ?thesis using that by simp
  next
    case False
    with 2 have "v = u\<lparr>custom_role_permissions := custom_role_permissions s\<rparr>" by (simp add: u)
    with False show ?thesis using that by simp
  qed
  have "org_roles_by_external_id v (pur_OrgID ur) (pur_ExternalID ur) = [updated_role ur s r]"
    using u1(2) by (simp add: v org_roles_by_external_id_def)
  with 3 have "t = v" "role = custom_role_of v (updated_role ur s r)"
    by (auto simp: customRoleByExternalIDQuery_def queueOne_reads)
  then show ?thesis using r et chk con u v rps by (intro exI[of _ r] exI[of _ rps] exI[of _ g]) simp
qed

section \<open>Modifying permissions\<close>

definition touched_role :: "db \<Rightarrow> custom_role_row \<Rightarrow> custom_role_row" where
  "touched_role s r = r\<lparr>rol_updated_at := Some (clock s),
     rol_etag := g_uuids (gen s) (g_uuid_pos (gen s))\<rparr>"

lemma permission_id_of_single:
  assumes "db_inv s" "(i, n) \<in> set (permissions s)" shows "permission_id_of s n = [i]"
proof -
  have "[i. (i, m) \<leftarrow> xs, m = n] = map fst (filter (\<lambda>a. snd a = n) xs)" for xs :: "(int \<times> string) list"
    by (induction xs) (auto split: prod.splits)
  then have "permission_id_of s n = map fst (filter (\<lambda>a. snd a = n) (permissions s))"
    by (simp only: permission_id_of_def)
  moreover have "filter (\<lambda>a. snd a = n) (permissions s) = [(i, n)]"
    using filter_eq_single[of snd "permissions s" "(i, n)"] assms
    by (simp add: db_inv_def permissions_ok_def)
  ultimately show ?thesis by simp
qed

lemma permission_id_of_registered:
  "permission_id_of s n \<noteq> [] \<longleftrightarrow> (\<exists>i. (i, n) \<in> set (permissions s))"
proof -
  have "set (permission_id_of s n) = {i. (i, n) \<in> set (permissions s)}"
    by (force simp: permission_id_of_def)
  then show ?thesis by (metis (mono_tags, lifting) Collect_empty_eq set_empty)
qed

lemma zip_resolved:
  assumes "db_inv s" "resolve_permissions s ns = Some (ids, names)"
  shows "set (zip ids names) = {(i, n). n \<in> set ns \<and> (i, n) \<in> set (permissions s)}"
proof -
  let ?req = "sort_by (coll s) (remdups ns)"
  from assms(2) have "(\<forall>n \<in> set ?req. permission_id_of s n \<noteq> []) \<and>
      (concat (map (permission_id_of s) ?req), ?req) = (ids, names)"
    unfolding resolve_permissions_def Let_def by (metis (no_types, lifting) option.distinct(1) option.inject)
  then have known: "\<forall>n \<in> set ?req. permission_id_of s n \<noteq> []" and names: "names = ?req"
    and ids: "ids = concat (map (permission_id_of s) ?req)" by blast+
  have "set (zip (concat (map (permission_id_of s) xs)) xs) = {(i, n). n \<in> set xs \<and> (i, n) \<in> set (permissions s)}"
    if "\<forall>n \<in> set xs. permission_id_of s n \<noteq> []" for xs
    using that
  proof (induction xs)
    case (Cons n xs)
    from Cons.prems have "permission_id_of s n \<noteq> []" by simp
    then obtain i where i: "(i, n) \<in> set (permissions s)"
      unfolding permission_id_of_registered ..
    have one: "permission_id_of s n = [i]" by (rule permission_id_of_single[OF assms(1) i])
    have "j = i" if "(j, n) \<in> set (permissions s)" for j
      using permission_id_of_single[OF assms(1) that] one by simp
    then have "{(j, m). m \<in> set (n # xs) \<and> (j, m) \<in> set (permissions s)} =
        insert (i, n) {(j, m). m \<in> set xs \<and> (j, m) \<in> set (permissions s)}"
      unfolding set_eq_iff split_paired_All mem_Collect_eq prod.case insert_iff list.set prod.inject
      using i by blast
    moreover have "set (zip (concat (map (permission_id_of s) (n # xs))) (n # xs)) =
        insert (i, n) (set (zip (concat (map (permission_id_of s) xs)) xs))" by (simp add: one)
    ultimately show ?case using Cons by simp
  qed simp
  from this[OF known] show ?thesis by (simp add: ids names)
qed

definition modified_permissions ::
    "PgModifyCustomRolePermissions \<Rightarrow> db \<Rightarrow> custom_role_row \<Rightarrow> (int \<times> int) list" where
  "modified_permissions mp s r =
    (let valid = (case resolve_permissions s (pmp_AddPermissionNames mp @ pmp_RemovePermissionNames mp) of
           None \<Rightarrow> [] | Some (ids, names) \<Rightarrow> zip ids names);
         removable = [i. (i, n) \<leftarrow> valid, n \<in> set (pmp_RemovePermissionNames mp)];
         addable = [i. (i, n) \<leftarrow> valid, n \<in> set (pmp_AddPermissionNames mp)] in
     filter (\<lambda>(q, p). \<not> (q = rol_id r \<and> p \<in> set removable)) (custom_role_permissions s) @
     filter (\<lambda>a. a \<notin> set (custom_role_permissions s)) (map (Pair (rol_id r)) addable))"

lemma touch_roles_Inr:
  assumes inv: "db_inv s" and r: "r \<in> set (custom_roles s)" and u: "u = s\<lparr>custom_role_permissions := rps\<rparr>"
    and q: "(if b then andThen gen_random_uuid (\<lambda>etag. update_custom_roles (\<lambda>q. rol_id q \<in> set [rol_id r])
        (\<lambda>q. q\<lparr>rol_updated_at := Some (clock s), rol_etag := etag\<rparr>)) else ret ()) u = (Inr (), t)"
  shows "\<exists>rs g. t = s\<lparr>gen := g, custom_roles := rs, custom_role_permissions := rps\<rparr> \<and>
    (rs = custom_roles s \<and> \<not> b \<or>
      role_checks (touched_role s r) \<and>
      \<not> role_conflict (touched_role s r) (filter (\<lambda>q. rol_id q \<noteq> rol_id r) (custom_roles s)) \<and>
      rs = map (\<lambda>q. if rol_id q = rol_id r then touched_role s r else q) (custom_roles s))"
proof (cases b)
  case True
  let ?g = "(gen s)\<lparr>g_uuid_pos := Suc (g_uuid_pos (gen s))\<rparr>"
  let ?rs = "map (\<lambda>q. if rol_id q = rol_id r then touched_role s r else q) (custom_roles s)"
  have ids: "distinct (map rol_id (custom_roles s))"
    using inv by (simp add: db_inv_def custom_roles_ok_def)
  from q True have "update_custom_roles (\<lambda>q. rol_id q = rol_id r) (touched_role s) (u\<lparr>gen := ?g\<rparr>) = (Inr (), t)"
    by (simp add: gen_random_uuid_def andThen_def u touched_role_def[abs_def])
  then have chk: "\<forall>q \<in> set (custom_roles s). rol_id q = rol_id r \<longrightarrow> role_checks (touched_role s q) \<and>
       \<not> role_conflict (touched_role s q) (filter (\<lambda>p. rol_id p \<noteq> rol_id q) (custom_roles s))"
    and t: "t = u\<lparr>gen := ?g, custom_roles := map (\<lambda>q. if rol_id q = rol_id r then touched_role s q else q)
        (custom_roles s)\<rparr>"
    unfolding update_custom_roles_Inr by (simp_all add: u)
  have "map (\<lambda>q. if rol_id q = rol_id r then touched_role s q else q) (custom_roles s) = ?rs"
    using distinct_key_unique[OF ids _ r] by (intro map_cong) auto
  then show ?thesis using chk r t by (intro exI[of _ ?rs] exI[of _ ?g]) (simp add: u)
next
  case False
  with q show ?thesis by (intro exI[of _ "custom_roles s"] exI[of _ "gen s"]) (simp add: u)
qed

lemma modifyCustomRolePermissionsQuery_Inr:
  assumes inv: "db_inv s" and q: "Queue (modifyCustomRolePermissionsQuery mp) s = (Inr i, t)"
  shows "\<exists>r rs g. org_roles_by_external_id s (pmp_OrgID mp) (pmp_ExternalID mp) = [r] \<and> i = rol_id r \<and>
    rol_etag r = pmp_ETag mp \<and>
    resolve_permissions s (pmp_AddPermissionNames mp @ pmp_RemovePermissionNames mp) \<noteq> None \<and>
    t = s\<lparr>gen := g, custom_roles := rs, custom_role_permissions := modified_permissions mp s r\<rparr> \<and>
    (rs = custom_roles s \<and> modified_permissions mp s r = custom_role_permissions s \<or>
      role_checks (touched_role s r) \<and>
      \<not> role_conflict (touched_role s r) (filter (\<lambda>q. rol_id q \<noteq> rol_id r) (custom_roles s)) \<and>
      rs = map (\<lambda>q. if rol_id q = rol_id r then touched_role s r else q) (custom_roles s))"
proof -
  let ?org = "org_roles_by_external_id s (pmp_OrgID mp) (pmp_ExternalID mp)"
  let ?res = "resolve_permissions s (pmp_AddPermissionNames mp @ pmp_RemovePermissionNames mp)"
  let ?valid = "case ?res of None \<Rightarrow> [] | Some (ids, names) \<Rightarrow> zip ids names"
  let ?target = "if ?res = None then [] else map rol_id (filter (\<lambda>r. rol_etag r = pmp_ETag mp) ?org)"
  let ?rem = "[i. (i, n) \<leftarrow> ?valid, n \<in> set (pmp_RemovePermissionNames mp)]"
  let ?add = "[i. (i, n) \<leftarrow> ?valid, n \<in> set (pmp_AddPermissionNames mp)]"
  let ?gone = "\<lambda>(r, p). r \<in> set ?target \<and> p \<in> set ?rem"
  let ?added = "filter (\<lambda>a. a \<notin> set (custom_role_permissions s)) [(r, p). r \<leftarrow> ?target, p \<leftarrow> ?add]"
  let ?rps = "filter (\<lambda>a. \<not> ?gone a) (custom_role_permissions s) @ ?added"
  let ?b = "filter ?gone (custom_role_permissions s) \<noteq> [] \<or> ?added \<noteq> []"
  from q have A: "(if ?b then andThen gen_random_uuid (\<lambda>etag. update_custom_roles (\<lambda>r. rol_id r \<in> set ?target)
              (\<lambda>r. r\<lparr>rol_updated_at := Some (clock s), rol_etag := etag\<rparr>)) else ret ())
        (s\<lparr>custom_role_permissions := ?rps\<rparr>) = (Inr (), t)"
    and B: "(case (case ?target of [] \<Rightarrow> None | i # _ \<Rightarrow> Some i) of
         None \<Rightarrow> if \<not> ?res \<noteq> None then Inl SqlErrNoRows
                 else if ?org \<noteq> [] then Inl PgErrETagMismatch else Inl SqlErrNoRows
       | Some k \<Rightarrow> Inr k) = Inr i"
    by (auto simp only: modifyCustomRolePermissionsQuery_def Let_def andThen_Inr_iff queueOne_Inr_iff
        Queue_simp reads_Inr_iff updates_Inr_iff ret_Inr_iff list.inject simp_thms prod.case sum.inject)
  have "?target \<noteq> [] \<and> hd ?target = i"
    by (cases ?target; use B in \<open>simp only: list.case option.case list.sel\<close>)
      (simp split: if_splits, blast)
  then have tne: "?target \<noteq> []" and hd: "hd ?target = i" by blast+
  from tne have res: "?res \<noteq> None" by presburger
  from tne have "filter (\<lambda>r. rol_etag r = pmp_ETag mp) ?org \<noteq> []" by (metis list.map_disc_iff)
  then obtain r where r: "r \<in> set ?org" "rol_etag r = pmp_ETag mp" by (auto simp: filter_empty_conv)
  have one: "?org = [r]" by (rule org_roles_single(1)[OF inv r(1)])
  have tgt: "?target = [rol_id r]" using one res r(2) by simp
  have rps: "?rps = modified_permissions mp s r"
  proof -
    have "(\<lambda>a. \<not> ?gone a) = (\<lambda>(q, p). \<not> (q = rol_id r \<and> p \<in> set ?rem))"
      unfolding tgt by (simp only: fun_eq_iff split_paired_All prod.case list.set singleton_iff simp_thms)
    moreover have "[(r, p). r \<leftarrow> ?target, p \<leftarrow> ?add] = map (Pair (rol_id r)) ?add"
      unfolding tgt by (simp only: list.map concat.simps append_Nil2)
    ultimately show ?thesis unfolding modified_permissions_def Let_def by simp
  qed
  have mem: "r \<in> set (custom_roles s)" using r(1) by (simp add: org_role_member)
  have nb: "?rps = custom_role_permissions s" if "\<not> ?b"
  proof -
    from that have "filter ?gone (custom_role_permissions s) = []" "?added = []" by blast+
    moreover have "filter (\<lambda>a. \<not> P a) xs = xs" if "filter P xs = []" for P and xs :: "(int \<times> int) list"
      using that by (simp add: filter_empty_conv)
    ultimately show ?thesis by (metis append_Nil2)
  qed
  define b rps where "b = ?b" and "rps = ?rps"
  have A': "(if b then andThen gen_random_uuid (\<lambda>etag. update_custom_roles (\<lambda>q. rol_id q \<in> set [rol_id r])
              (\<lambda>r. r\<lparr>rol_updated_at := Some (clock s), rol_etag := etag\<rparr>)) else ret ())
        (s\<lparr>custom_role_permissions := rps\<rparr>) = (Inr (), t)"
    by (rule A[folded b_def rps_def, unfolded tgt])
  from rps have rps': "rps = modified_permissions mp s r" unfolding rps_def .
  from nb have nb': "\<not> b \<Longrightarrow> rps = custom_role_permissions s" unfolding rps_def b_def .
  have i: "i = rol_id r" using hd unfolding tgt by simp
  from touch_roles_Inr[OF inv mem refl A'] obtain rs where
    "\<exists>g. t = s\<lparr>gen := g, custom_roles := rs, custom_role_permissions := rps\<rparr> \<and>
      (rs = custom_roles s \<and> \<not> b \<or> role_checks (touched_role s r) \<and>
        \<not> role_conflict (touched_role s r) (filter (\<lambda>q. rol_id q \<noteq> rol_id r) (custom_roles s)) \<and>
        rs = map (\<lambda>q. if rol_id q = rol_id r then touched_role s r else q) (custom_roles s))" ..
  then obtain g where g: "t = s\<lparr>gen := g, custom_roles := rs, custom_role_permissions := rps\<rparr> \<and>
      (rs = custom_roles s \<and> \<not> b \<or> role_checks (touched_role s r) \<and>
        \<not> role_conflict (touched_role s r) (filter (\<lambda>q. rol_id q \<noteq> rol_id r) (custom_roles s)) \<and>
        rs = map (\<lambda>q. if rol_id q = rol_id r then touched_role s r else q) (custom_roles s))" ..
  note g1 = conjunct1[OF g] and g2 = conjunct2[OF g]
  have "rs = custom_roles s \<and> modified_permissions mp s r = custom_role_permissions s \<or>
      role_checks (touched_role s r) \<and>
      \<not> role_conflict (touched_role s r) (filter (\<lambda>q. rol_id q \<noteq> rol_id r) (custom_roles s)) \<and>
      rs = map (\<lambda>q. if rol_id q = rol_id r then touched_role s r else q) (custom_roles s)"
    using g2 nb' unfolding rps' by blast
  then show ?thesis
    by (intro exI[of _ r] exI[of _ rs] exI[of _ g] conjI one i r(2) res g1[unfolded rps'])
qed

lemma comprehension_filter:
  "[i. (i, n) \<leftarrow> xs, P n] = map fst (filter (\<lambda>a. P (snd a)) xs)"
  by (induction xs) (auto split: prod.splits)

lemma set_modified_permissions:
  assumes inv: "db_inv s" and res: "resolve_permissions s (pmp_AddPermissionNames mp @ pmp_RemovePermissionNames mp) \<noteq> None"
  shows "(q, p) \<in> set (modified_permissions mp s r) \<longleftrightarrow>
    ((q, p) \<in> set (custom_role_permissions s) \<and>
      \<not> (q = rol_id r \<and> (\<exists>n. n \<in> set (pmp_RemovePermissionNames mp) \<and> (p, n) \<in> set (permissions s)))) \<or>
    ((q, p) \<notin> set (custom_role_permissions s) \<and> q = rol_id r \<and>
      (\<exists>n. n \<in> set (pmp_AddPermissionNames mp) \<and> (p, n) \<in> set (permissions s)))"
proof -
  let ?ns = "pmp_AddPermissionNames mp @ pmp_RemovePermissionNames mp"
  obtain ids names where rs: "resolve_permissions s ?ns = Some (ids, names)" using res by auto
  have el: "p \<in> set (map fst (filter (\<lambda>a. snd a \<in> set X) (zip ids names))) \<longleftrightarrow>
      (\<exists>n. n \<in> set X \<and> (p, n) \<in> set (permissions s))" if "set X \<subseteq> set ?ns" for X
  proof -
    have "p \<in> set (map fst (filter (\<lambda>a. snd a \<in> set X) xs)) \<longleftrightarrow> (\<exists>n. n \<in> set X \<and> (p, n) \<in> set xs)"
      for xs :: "(int \<times> string) list" by force
    moreover have "(p, n) \<in> set (zip ids names) \<longleftrightarrow> n \<in> set ?ns \<and> (p, n) \<in> set (permissions s)" for n
      unfolding zip_resolved[OF inv rs] by simp
    ultimately show ?thesis using that by blast
  qed
  have "p \<in> set (map fst (filter (\<lambda>a. snd a \<in> set (pmp_AddPermissionNames mp)) (zip ids names))) \<longleftrightarrow>
      (\<exists>n. n \<in> set (pmp_AddPermissionNames mp) \<and> (p, n) \<in> set (permissions s))"
    "p \<in> set (map fst (filter (\<lambda>a. snd a \<in> set (pmp_RemovePermissionNames mp)) (zip ids names))) \<longleftrightarrow>
      (\<exists>n. n \<in> set (pmp_RemovePermissionNames mp) \<and> (p, n) \<in> set (permissions s))"
    by (rule el, simp)+
  moreover have "(q, p) \<in> Pair k ` A \<longleftrightarrow> q = k \<and> p \<in> A" for k :: int and A :: "int set" by auto
  ultimately show ?thesis
    unfolding modified_permissions_def Let_def rs option.case prod.case set_append Un_iff set_filter
      mem_Collect_eq comprehension_filter list.set_map by blast
qed

lemma distinct_modified_permissions:
  assumes inv: "db_inv s" and res: "resolve_permissions s (pmp_AddPermissionNames mp @ pmp_RemovePermissionNames mp) \<noteq> None"
  shows "distinct (modified_permissions mp s r)"
proof -
  obtain ids names where rs: "resolve_permissions s (pmp_AddPermissionNames mp @ pmp_RemovePermissionNames mp) = Some (ids, names)"
    using res by auto
  have "distinct (map fst (permissions s))" using inv by (simp add: db_inv_def permissions_ok_def)
  then have "inj_on fst (set (permissions s))" by (simp add: distinct_map)
  moreover have "set (zip ids names) \<subseteq> set (permissions s)" unfolding zip_resolved[OF inv rs] by blast
  ultimately have "inj_on fst (set (zip ids names))" by (rule inj_on_subset)
  moreover have "distinct (zip ids names)"
  proof (rule distinct_zipI2)
    show "distinct names"
      using rs by (auto simp: resolve_permissions_def Let_def split: if_splits)
  qed
  ultimately have "distinct (map fst (zip ids names))" by (simp add: distinct_map)
  then have "distinct (map fst (filter P (zip ids names)))" for P by (rule distinct_map_filter)
  then have "distinct (map (Pair (rol_id r)) (map fst (filter P (zip ids names))))" for P
    by (simp add: distinct_map inj_on_def)
  moreover have "distinct (custom_role_permissions s)"
    using inv by (simp add: db_inv_def role_permissions_ok_def)
  ultimately show ?thesis
    unfolding modified_permissions_def Let_def rs option.case prod.case comprehension_filter
    by (auto simp del: map_map)
qed

lemma pg_ModifyCustomRolePermissions_Inr:
  assumes "db_inv s" "pg_ModifyCustomRolePermissions mp s = (Inr role, t)"
  shows "\<exists>r rs g. org_roles_by_external_id s (pmp_OrgID mp) (pmp_ExternalID mp) = [r] \<and>
    rol_etag r = pmp_ETag mp \<and>
    resolve_permissions s (pmp_AddPermissionNames mp @ pmp_RemovePermissionNames mp) \<noteq> None \<and>
    t = s\<lparr>gen := g, custom_roles := rs, custom_role_permissions := modified_permissions mp s r\<rparr> \<and>
    (rs = custom_roles s \<and> modified_permissions mp s r = custom_role_permissions s \<or>
      role_checks (touched_role s r) \<and>
      \<not> role_conflict (touched_role s r) (filter (\<lambda>q. rol_id q \<noteq> rol_id r) (custom_roles s)) \<and>
      rs = map (\<lambda>q. if rol_id q = rol_id r then touched_role s r else q) (custom_roles s))"
proof -
  from assms(2) obtain i u where u: "Queue (modifyCustomRolePermissionsQuery mp) s = (Inr i, u)"
    and "Queue (customRoleByExternalIDQuery (pmp_OrgID mp) (pmp_ExternalID mp)) u = (Inr role, t)"
    by (auto simp: pg_ModifyCustomRolePermissions_def andThen_Inr_iff)
  then have "t = u" by (auto simp: customRoleByExternalIDQuery_def queueOne_reads)
  with modifyCustomRolePermissionsQuery_Inr[OF assms(1) u] show ?thesis by blast
qed

end
