(* ===== verification/RoleCalls.thy ===== *)
theory RoleCalls
  imports CustomRoleStore Fixtures
begin

text \<open>
  The eight writing operations of \<open>custom_role.go\<close> as one type of calls, and what a successful call has
  established: who the caller is, what the checks compared, and the effect on the tables. \<open>acted\<close> is the
  common part: the caller's row, the row of the project of the session.
\<close>

section \<open>Calls\<close>

datatype role_call =
    CallCreate CreateCustomRole
  | CallUpdate UpdateCustomRole
  | CallModify ModifyCustomRolePermissions
  | CallDelete uuid
  | CallAssignProject uuid uuid
  | CallUnassignProject uuid uuid
  | CallAssignOrg uuid uuid
  | CallUnassignOrg uuid uuid

primrec run_role_call :: "AuthSession option \<Rightarrow> role_call \<Rightarrow> unit op" where
  "run_role_call ctx (CallCreate cr) = andThen (CreateCustomRole ctx cr) (\<lambda>_. ret ())"
| "run_role_call ctx (CallUpdate ur) = andThen (UpdateCustomRole ctx ur) (\<lambda>_. ret ())"
| "run_role_call ctx (CallModify mrp) = andThen (ModifyCustomRolePermissions ctx mrp) (\<lambda>_. ret ())"
| "run_role_call ctx (CallDelete role) = DeleteCustomRole ctx role"
| "run_role_call ctx (CallAssignProject user role) = AssignCustomRoleToProject ctx user role"
| "run_role_call ctx (CallUnassignProject user role) = UnassignCustomRoleFromProject ctx user role"
| "run_role_call ctx (CallAssignOrg user role) = AssignCustomRoleToOrg ctx user role"
| "run_role_call ctx (CallUnassignOrg user role) = UnassignCustomRoleFromOrg ctx user role"

definition acted :: "db \<Rightarrow> AuthSession \<Rightarrow> user_row \<Rightarrow> project_row \<Rightarrow> bool" where
  "acted s sess actor pr \<longleftrightarrow> actor \<in> set (users_by_external_id s (sessUser sess)) \<and>
    pr \<in> set (projects s) \<and> (\<exists>p. as_Project sess = Some p \<and> ap_ID p = prj_id pr)"

section \<open>The shared context reads\<close>

lemma projectSession_Inr [simp]:
  "projectSession ctx s = (Inr (sess, p), t) \<longleftrightarrow> ctx = Some sess \<and> as_Project sess = Some p \<and> t = s"
  by (auto simp: projectSession_def split: option.splits)

lemma liftS_customRoleFromPg: "liftS (customRoleFromPg r) s = (Inr x, t) \<Longrightarrow> t = s" by simp

lemma OrgPermissions_acted:
  assumes "OrgPermissionsByProjectID (sessUser sess) (ap_ID p) s = (Inr ps, t)" "as_Project sess = Some p"
  obtains actor pr where "t = s" "acted s sess actor pr" "pp_OrgID ps = prj_org_id pr"
    "set (pp_PermissionNames ps) = {n. holds_org s (usr_id actor) (prj_org_id pr) n}"
  using OrgPermissionsByProjectID_Inr[OF assms(1)] assms(2) unfolding acted_def by metis

lemma ProjectPermissions_acted:
  assumes "ProjectPermissions (sessUser sess) (ap_ID p) s = (Inr ps, t)" "as_Project sess = Some p"
  obtains actor pr where "t = s" "acted s sess actor pr" "pp_OrgID ps = prj_org_id pr"
    "set (pp_PermissionNames ps) = {n. holds_project s (usr_id actor) (prj_id pr) n}"
  using ProjectPermissions_Inr[OF assms(1)] assms(2) unfolding acted_def by metis

lemma customRolePermChangeContext_Inr:
  assumes "customRolePermChangeContext (sessUser sess) (ap_ID p) x s = (Inr (ps, role), t)"
    "as_Project sess = Some p"
  obtains actor pr row l where "t = s\<lparr>locks := l\<rparr>" "acted s sess actor pr" "pp_OrgID ps = prj_org_id pr"
    "set (pp_PermissionNames ps) = {n. holds_org s (usr_id actor) (prj_org_id pr) n}"
    "org_roles_by_external_id s (prj_org_id pr) x = [row]" "role = custom_role_of t row"
proof -
  from assms(1) obtain u l where 1: "OrgPermissionsByProjectID (sessUser sess) (ap_ID p) s = (Inr ps, u)"
    and 2: "CustomRoleByExternalID (pp_OrgID ps) x (u\<lparr>locks := l\<rparr>) = (Inr role, t)"
    by (auto simp: customRolePermChangeContext_def andThen_Inr_iff LockCustomRole_eq)
  obtain actor pr where a: "u = s" "acted s sess actor pr" "pp_OrgID ps = prj_org_id pr"
    "set (pp_PermissionNames ps) = {n. holds_org s (usr_id actor) (prj_org_id pr) n}"
    by (rule OrgPermissions_acted[OF 1 assms(2)])
  from 2 obtain row where "t = s\<lparr>locks := l\<rparr>" "org_roles_by_external_id s (prj_org_id pr) x = [row]"
    "role = custom_role_of t row"
    using a unfolding CustomRoleByExternalID_iff by auto
  then show ?thesis using a that by blast
qed

lemma validateScope_Inr:
  assumes "validateCustomRoleAssignmentScope x ps s = (Inr (), t)"
  shows "t = s" "(\<forall>p \<in> set ps. isProjectScope p) \<or> (\<exists>r. roles_by_external_id s x = [r] \<and>
    (\<forall>a \<in> set (project_role_assignments s). pa_role_id a \<noteq> rol_id r))"
proof -
  from assms obtain sc where sc: "MinimumAssignmentScope ps = Inr sc"
    and c: "sc = AssignmentScopeProject \<and> t = s \<or> CustomRoleHasProjectAssignments x s = (Inr False, t)"
    by (auto simp: validateCustomRoleAssignmentScope_def andThen_Inr_iff split: if_splits)
  show "t = s" using c CustomRoleHasProjectAssignments_Inr(1) by blast
  show "(\<forall>p \<in> set ps. isProjectScope p) \<or> (\<exists>r. roles_by_external_id s x = [r] \<and>
    (\<forall>a \<in> set (project_role_assignments s). pa_role_id a \<noteq> rol_id r))"
    using c sc CustomRoleHasProjectAssignments_Inr(2)[of x s False t]
    by (auto simp: MinimumAssignmentScope_project)
qed

lemma projectScope_iff:
  "MinimumAssignmentScope ps = Inr sc \<Longrightarrow> \<not> sc > AssignmentScopeProject \<longleftrightarrow> (\<forall>p \<in> set ps. isProjectScope p)"
  using MinimumAssignmentScope_project[of ps] by (cases sc) (auto simp: less_AssignmentScope_def)

section \<open>Successful calls\<close>

lemma CreateCustomRole_InrE:
  assumes "CreateCustomRole ctx cr s = (Inr role, t)"
  obtains sess actor pr r ids names g where "ctx = Some sess" "acted s sess actor pr"
    "CreateCustomRole_Validate cr = Inr ()"
    "\<forall>n \<in> set (ccr_Permissions cr). holds_org s (usr_id actor) (prj_org_id pr) n"
    "resolve_permissions s (ccr_Permissions cr) = Some (ids, names)" "prj_org_id pr \<in> org_ids s"
    "role_checks r" "\<not> role_conflict r (custom_roles s)" "rol_name r = ccr_Name cr"
    "rol_org_id r = prj_org_id pr" "rol_managed_key r = None" "distinct ids"
    "t = s\<lparr>gen := g, custom_roles := custom_roles s @ [r],
      custom_role_permissions := custom_role_permissions s @ map (Pair (rol_id r)) ids, locks := []\<rparr>"
    "cr_ID role = rol_external_id r" "cr_Permissions role = names" "cr_ETag role = rol_etag r"
    "cr_Name role = rol_name r"
proof -
  from assms obtain sess p ps u v prole where ctx: "ctx = Some sess" and p: "as_Project sess = Some p"
    and val: "CreateCustomRole_Validate cr = Inr ()"
    and perms: "OrgPermissionsByProjectID (sessUser sess) (ap_ID p) s = (Inr ps, u)"
    and sup: "IsPermissionSuperset (pp_PermissionNames ps) (ccr_Permissions cr)"
    and c: "pg_CreateCustomRole (createCustomRoleToPg cr (pp_OrgID ps)) u = (Inr prole, v)"
    and t: "t = v\<lparr>locks := []\<rparr>" and role: "customRoleFromPg prole = Inr role"
    by (auto simp: CreateCustomRole_def andThen_Inr_iff split: if_splits)
  obtain actor pr where a: "u = s" "acted s sess actor pr" "pp_OrgID ps = prj_org_id pr"
    "set (pp_PermissionNames ps) = {n. holds_org s (usr_id actor) (prj_org_id pr) n}"
    by (rule OrgPermissions_acted[OF perms p])
  let ?pc = "createCustomRoleToPg cr (pp_OrgID ps)"
  have pc: "pccr_PermissionNames ?pc = ccr_Permissions cr" "pccr_OrgID ?pc = prj_org_id pr"
    "pccr_Name ?pc = ccr_Name cr" by (simp_all add: createCustomRoleToPg_def a)
  have "Queue (createCustomRoleQuery ?pc None) s = (Inr prole, v)" using c a(1) by (simp add: pg_CreateCustomRole_def)
  from createCustomRole_Inr[OF this] obtain r ids names g where
    r: "resolve_permissions s (ccr_Permissions cr) = Some (ids, names)" "prj_org_id pr \<in> org_ids s"
    "role_checks r" "\<not> role_conflict r (custom_roles s)" "rol_name r = ccr_Name cr"
    "rol_org_id r = prj_org_id pr" "rol_managed_key r = None" "distinct ids"
    and v: "v = s\<lparr>gen := g, custom_roles := custom_roles s @ [r],
      custom_role_permissions := custom_role_permissions s @ map (Pair (rol_id r)) ids\<rparr>"
    and pr: "pcr_ExternalID prole = rol_external_id r" "pcr_Name prole = rol_name r"
      "pcr_ManagedKey prole = None" "pcr_PermissionNames prole = names" "pcr_ETag prole = rol_etag r"
    unfolding pc by metis
  have cr: "cr_ID role = rol_external_id r" "cr_Permissions role = names" "cr_ETag role = rol_etag r"
    "cr_Name role = rol_name r"
    using role pr by (auto simp: customRoleFromPg_def Let_def)
  have "\<forall>n \<in> set (ccr_Permissions cr). holds_org s (usr_id actor) (prj_org_id pr) n"
    using sup a(4) by (auto simp: IsPermissionSuperset_iff)
  moreover have "t = s\<lparr>gen := g, custom_roles := custom_roles s @ [r],
      custom_role_permissions := custom_role_permissions s @ map (Pair (rol_id r)) ids, locks := []\<rparr>"
    using t v by simp
  ultimately show ?thesis using that ctx a(2) val r cr by blast
qed

lemma updated_role_locks [simp]: "updated_role pu (s\<lparr>locks := l\<rparr>) r = updated_role pu s r"
  by (simp add: updated_role_def)

lemma touched_role_locks [simp]: "touched_role (s\<lparr>locks := l\<rparr>) r = touched_role s r"
  by (simp add: touched_role_def)

lemma modified_permissions_locks [simp]: "modified_permissions mp (s\<lparr>locks := l\<rparr>) r = modified_permissions mp s r"
  by (simp add: modified_permissions_def)

lemma db_inv_locks [simp]: "db_inv (s\<lparr>locks := l\<rparr>) = db_inv s"
  by (simp add: db_inv_def)

text \<open>The row of the caller's organization that an update, a modification or a delete targets.\<close>

definition target_role :: "db \<Rightarrow> int \<Rightarrow> uuid \<Rightarrow> custom_role_row \<Rightarrow> bool" where
  "target_role s o' x r \<longleftrightarrow> org_roles_by_external_id s o' x = [r]"

lemma target_role_locks [simp]: "target_role (s\<lparr>locks := l\<rparr>) o' x r = target_role s o' x r"
  by (simp add: target_role_def)

lemma target_roleD:
  assumes "target_role s o' x r"
  shows "r \<in> set (custom_roles s)" "rol_org_id r = o'" "rol_external_id r = x"
  using assms org_role_member(1)[of r s o' x] by (simp_all add: target_role_def)

lemma pg_UpdateCustomRole_InrE:
  assumes inv: "db_inv s" and q: "pg_UpdateCustomRole (updateCustomRoleToPg ur o') (s\<lparr>locks := l\<rparr>) = (Inr role, t)"
  obtains r r' rps g where "target_role s o' (ucr_ID ur) r" "rol_etag r = ucr_ETag ur"
    "r' = updated_role (updateCustomRoleToPg ur o') s r" "role_checks r'"
    "\<not> role_conflict r' (filter (\<lambda>q. rol_id q \<noteq> rol_id r) (custom_roles s))"
    "t\<lparr>locks := []\<rparr> = s\<lparr>gen := g, custom_roles := map (\<lambda>q. if rol_id q = rol_id r then r' else q) (custom_roles s),
       custom_role_permissions := rps, locks := []\<rparr>"
    "if ucr_FieldPermissions ur
     then (\<exists>ids names. resolve_permissions s (ucr_Permissions ur) = Some (ids, names) \<and> distinct ids \<and>
       rps = filter (\<lambda>(q, p). q \<noteq> rol_id r) (custom_role_permissions s) @ map (Pair (rol_id r)) ids)
     else rps = custom_role_permissions s"
    "role = custom_role_of t r'"
proof -
  let ?pu = "updateCustomRoleToPg ur o'"
  have f: "pur_OrgID ?pu = o'" "pur_ExternalID ?pu = ucr_ID ur" "pur_ETag ?pu = ucr_ETag ur"
    "pur_FieldPermissionNames ?pu = ucr_FieldPermissions ur" "pur_PermissionNames ?pu = ucr_Permissions ur"
    by (simp_all add: updateCustomRoleToPg_def)
  have winv: "db_inv (s\<lparr>locks := l\<rparr>)" using inv by simp
  let ?w = "s\<lparr>locks := l\<rparr>"
  let ?Q = "\<lambda>r rps g. org_roles_by_external_id ?w o' (ucr_ID ur) = [r] \<and>
    rol_etag r = ucr_ETag ur \<and> role_checks (updated_role ?pu ?w r) \<and>
    \<not> role_conflict (updated_role ?pu ?w r) (filter (\<lambda>q. rol_id q \<noteq> rol_id r) (custom_roles ?w)) \<and>
    t = ?w\<lparr>gen := g, custom_roles :=
          map (\<lambda>q. if rol_id q = rol_id r then updated_role ?pu ?w r else q) (custom_roles ?w),
        custom_role_permissions := rps\<rparr> \<and>
    (if ucr_FieldPermissions ur
     then (\<exists>ids names. resolve_permissions ?w (ucr_Permissions ur) = Some (ids, names) \<and> distinct ids \<and>
       rps = filter (\<lambda>(q, p). q \<noteq> rol_id r) (custom_role_permissions ?w) @ map (Pair (rol_id r)) ids)
     else rps = custom_role_permissions ?w) \<and>
    role = custom_role_of t (updated_role ?pu ?w r)"
  from pg_UpdateCustomRole_Inr[OF winv q, unfolded f] obtain r where "\<exists>rps g. ?Q r rps g" ..
  then obtain rps where "\<exists>g. ?Q r rps g" ..
  then obtain g where F: "?Q r rps g" ..
  show ?thesis
    by (rule that[OF _ _ refl, of r rps g]) (use F in \<open>simp_all add: target_role_def cong: if_cong\<close>)
qed

lemma pg_ModifyCustomRolePermissions_InrE:
  assumes inv: "db_inv s"
    and q: "pg_ModifyCustomRolePermissions (modifyCustomRolePermissionsToPg mrp o') (s\<lparr>locks := l\<rparr>) = (Inr role, t)"
  obtains r rs g where "target_role s o' (mrp_ID mrp) r" "rol_etag r = mrp_ETag mrp"
    "resolve_permissions s (mrp_AddPermissions mrp @ mrp_RemovePermissions mrp) \<noteq> None"
    "t\<lparr>locks := []\<rparr> = s\<lparr>gen := g, custom_roles := rs, custom_role_permissions :=
       modified_permissions (modifyCustomRolePermissionsToPg mrp o') s r, locks := []\<rparr>"
    "rs = custom_roles s \<and> modified_permissions (modifyCustomRolePermissionsToPg mrp o') s r = custom_role_permissions s \<or>
      role_checks (touched_role s r) \<and>
      \<not> role_conflict (touched_role s r) (filter (\<lambda>q. rol_id q \<noteq> rol_id r) (custom_roles s)) \<and>
      rs = map (\<lambda>q. if rol_id q = rol_id r then touched_role s r else q) (custom_roles s)"
proof -
  let ?mp = "modifyCustomRolePermissionsToPg mrp o'" and ?w = "s\<lparr>locks := l\<rparr>"
  have f: "pmp_OrgID ?mp = o'" "pmp_ExternalID ?mp = mrp_ID mrp" "pmp_ETag ?mp = mrp_ETag mrp"
    "pmp_AddPermissionNames ?mp = mrp_AddPermissions mrp"
    "pmp_RemovePermissionNames ?mp = mrp_RemovePermissions mrp"
    by (simp_all add: modifyCustomRolePermissionsToPg_def)
  let ?Q = "\<lambda>r rs g. org_roles_by_external_id ?w o' (mrp_ID mrp) = [r] \<and> rol_etag r = mrp_ETag mrp \<and>
    resolve_permissions ?w (mrp_AddPermissions mrp @ mrp_RemovePermissions mrp) \<noteq> None \<and>
    t = ?w\<lparr>gen := g, custom_roles := rs, custom_role_permissions := modified_permissions ?mp ?w r\<rparr> \<and>
    (rs = custom_roles ?w \<and> modified_permissions ?mp ?w r = custom_role_permissions ?w \<or>
      role_checks (touched_role ?w r) \<and>
      \<not> role_conflict (touched_role ?w r) (filter (\<lambda>q. rol_id q \<noteq> rol_id r) (custom_roles ?w)) \<and>
      rs = map (\<lambda>q. if rol_id q = rol_id r then touched_role ?w r else q) (custom_roles ?w))"
  have winv: "db_inv ?w" using inv by simp
  from pg_ModifyCustomRolePermissions_Inr[OF winv q, unfolded f] obtain r where "\<exists>rs g. ?Q r rs g" ..
  then obtain rs where "\<exists>g. ?Q r rs g" ..
  then obtain g where F: "?Q r rs g" ..
  show ?thesis
    by (rule that[of r rs g]) (use F in \<open>simp_all add: target_role_def cong: if_cong\<close>)
qed

lemma pg_DeleteCustomRole_InrE:
  assumes q: "pg_DeleteCustomRole o' x (s\<lparr>locks := l\<rparr>) = (Inr (), t)"
  obtains r where "target_role s o' x r"
    "t\<lparr>locks := []\<rparr> = s\<lparr>project_role_assignments := filter (\<lambda>a. pa_role_id a \<noteq> rol_id r) (project_role_assignments s),
          org_role_assignments := filter (\<lambda>a. oa_role_id a \<noteq> rol_id r) (org_role_assignments s),
          custom_role_permissions := filter (\<lambda>(q, p). q \<noteq> rol_id r) (custom_role_permissions s),
          custom_roles := filter (\<lambda>q. \<not> (rol_external_id q = x \<and> rol_org_id q = o')) (custom_roles s),
          locks := []\<rparr>"
proof -
  from pg_DeleteCustomRole_Inr[OF q] obtain r where F: "org_roles_by_external_id (s\<lparr>locks := l\<rparr>) o' x = [r] \<and>
    t = s\<lparr>locks := l, project_role_assignments := filter (\<lambda>a. pa_role_id a \<noteq> rol_id r) (project_role_assignments (s\<lparr>locks := l\<rparr>)),
          org_role_assignments := filter (\<lambda>a. oa_role_id a \<noteq> rol_id r) (org_role_assignments (s\<lparr>locks := l\<rparr>)),
          custom_role_permissions := filter (\<lambda>(q, p). q \<noteq> rol_id r) (custom_role_permissions (s\<lparr>locks := l\<rparr>)),
          custom_roles := filter (\<lambda>q. \<not> (rol_external_id q = x \<and> rol_org_id q = o')) (custom_roles (s\<lparr>locks := l\<rparr>))\<rparr>" ..
  show ?thesis by (rule that[of r]) (use F in \<open>simp_all add: target_role_def\<close>)
qed

subsection \<open>Updating, modifying, deleting\<close>

lemma changedPerms_set: "set (changedPerms cur new) = (set cur - set new) \<union> (set new - set cur)"
  unfolding changedPerms_def by simp

lemma UpdateCustomRole_perms_InrE:
  assumes inv: "db_inv s" and q: "UpdateCustomRole ctx ur s = (Inr role, t)" and fp: "ucr_FieldPermissions ur"
  obtains sess actor pr r ids names rps g r' where "ctx = Some sess" "acted s sess actor pr"
    "UpdateCustomRole_Validate ur = Inr ()"
    "target_role s (prj_org_id pr) (ucr_ID ur) r" "rol_managed_key r = None" "rol_etag r = ucr_ETag ur"
    "\<forall>n. role_has s (rol_id r) n \<noteq> (n \<in> set (ucr_Permissions ur)) \<longrightarrow> holds_org s (usr_id actor) (prj_org_id pr) n"
    "(\<forall>n \<in> set (ucr_Permissions ur). isProjectScope n) \<or>
      (\<forall>a \<in> set (project_role_assignments s). pa_role_id a \<noteq> rol_id r)"
    "r' = updated_role (updateCustomRoleToPg ur (prj_org_id pr)) s r" "role_checks r'"
    "\<not> role_conflict r' (filter (\<lambda>q. rol_id q \<noteq> rol_id r) (custom_roles s))"
    "t = s\<lparr>gen := g, custom_roles := map (\<lambda>q. if rol_id q = rol_id r then r' else q) (custom_roles s),
       custom_role_permissions := rps, locks := []\<rparr>"
    "resolve_permissions s (ucr_Permissions ur) = Some (ids, names)" "distinct ids"
    "rps = filter (\<lambda>(q, p). q \<noteq> rol_id r) (custom_role_permissions s) @ map (Pair (rol_id r)) ids"
    "cr_ETag role = rol_etag r'"
proof -
  from q fp obtain sess p ps prole u v v' prole' where ctx: "ctx = Some sess" and p: "as_Project sess = Some p"
    and val: "UpdateCustomRole_Validate ur = Inr ()"
    and c: "customRolePermChangeContext (sessUser sess) (ap_ID p) (ucr_ID ur) s = (Inr (ps, prole), u)"
    and mk: "pcr_ManagedKey prole = None"
    and sup: "IsPermissionSuperset (pp_PermissionNames ps) (changedPerms (pcr_PermissionNames prole) (ucr_Permissions ur))"
    and vs: "validateCustomRoleAssignmentScope (ucr_ID ur) (ucr_Permissions ur) u = (Inr (), v)"
    and pg: "pg_UpdateCustomRole (updateCustomRoleToPg ur (pp_OrgID ps)) v = (Inr prole', v')"
    and t: "t = v'\<lparr>locks := []\<rparr>" and cf: "customRoleFromPg prole' = Inr role"
    by (auto simp: UpdateCustomRole_def andThen_Inr_iff split: if_splits)
  obtain actor pr row l where u: "u = s\<lparr>locks := l\<rparr>" and a: "acted s sess actor pr" and o': "pp_OrgID ps = prj_org_id pr"
    and ps: "set (pp_PermissionNames ps) = {n. holds_org s (usr_id actor) (prj_org_id pr) n}"
    and row: "org_roles_by_external_id s (prj_org_id pr) (ucr_ID ur) = [row]" and pr: "prole = custom_role_of u row"
    by (rule customRolePermChangeContext_Inr[OF c p])
  have v: "v = s\<lparr>locks := l\<rparr>" using validateScope_Inr(1)[OF vs] u by simp
  obtain r r' rps g where r: "target_role s (prj_org_id pr) (ucr_ID ur) r" "rol_etag r = ucr_ETag ur"
    "r' = updated_role (updateCustomRoleToPg ur (prj_org_id pr)) s r" "role_checks r'"
    "\<not> role_conflict r' (filter (\<lambda>q. rol_id q \<noteq> rol_id r) (custom_roles s))"
    and v': "v'\<lparr>locks := []\<rparr> = s\<lparr>gen := g, custom_roles := map (\<lambda>q. if rol_id q = rol_id r then r' else q) (custom_roles s),
       custom_role_permissions := rps, locks := []\<rparr>"
    and rps: "if ucr_FieldPermissions ur
     then (\<exists>ids names. resolve_permissions s (ucr_Permissions ur) = Some (ids, names) \<and> distinct ids \<and>
       rps = filter (\<lambda>(q, p). q \<noteq> rol_id r) (custom_role_permissions s) @ map (Pair (rol_id r)) ids)
     else rps = custom_role_permissions s" and pr': "prole' = custom_role_of v' r'"
    by (rule pg_UpdateCustomRole_InrE[OF inv pg[unfolded o' v]])
  from rps fp obtain ids names where ids: "resolve_permissions s (ucr_Permissions ur) = Some (ids, names)" "distinct ids"
       "rps = filter (\<lambda>(q, p). q \<noteq> rol_id r) (custom_role_permissions s) @ map (Pair (rol_id r)) ids" by auto
  have rr: "row = r" using r(1) row by (simp add: target_role_def)
  have "roles_by_external_id s (ucr_ID ur) = [r]"
    using org_roles_single(2)[OF inv, of r "prj_org_id pr" "ucr_ID ur"] row rr by simp
  then have scope: "(\<forall>n \<in> set (ucr_Permissions ur). isProjectScope n) \<or>
      (\<forall>a \<in> set (project_role_assignments s). pa_role_id a \<noteq> rol_id r)"
    using validateScope_Inr(2)[OF vs] by (simp add: u)
  have "\<forall>n. role_has s (rol_id r) n \<noteq> (n \<in> set (ucr_Permissions ur)) \<longrightarrow> holds_org s (usr_id actor) (prj_org_id pr) n"
    using sup by (auto simp: IsPermissionSuperset_iff changedPerms_set ps pr rr u)
  moreover have "rol_managed_key r = None" using mk by (simp add: pr rr)
  moreover have "cr_ETag role = rol_etag r'"
    using cf pr' by (auto simp: customRoleFromPg_def Let_def split: option.splits if_splits)
  ultimately show ?thesis
    by (intro that[OF ctx a val r(1) _ r(2) _ scope r(3,4,5) _ ids]) (simp_all add: t v')
qed

lemma UpdateCustomRole_name_InrE:
  assumes inv: "db_inv s" and q: "UpdateCustomRole ctx ur s = (Inr role, t)" and fp: "\<not> ucr_FieldPermissions ur"
  obtains sess p r g r' where "ctx = Some sess" "as_Project sess = Some p"
    "UpdateCustomRole_Validate ur = Inr ()"
    "target_role s (ap_OrgID p) (ucr_ID ur) r" "rol_etag r = ucr_ETag ur"
    "r' = updated_role (updateCustomRoleToPg ur (ap_OrgID p)) s r" "role_checks r'"
    "\<not> role_conflict r' (filter (\<lambda>q. rol_id q \<noteq> rol_id r) (custom_roles s))"
    "t\<lparr>locks := []\<rparr> = s\<lparr>gen := g, custom_roles := map (\<lambda>q. if rol_id q = rol_id r then r' else q) (custom_roles s), locks := []\<rparr>"
    "cr_ETag role = rol_etag r'"
proof -
  from q fp obtain sess p prole' v where ctx: "ctx = Some sess" and p: "as_Project sess = Some p"
    and val: "UpdateCustomRole_Validate ur = Inr ()"
    and pg: "pg_UpdateCustomRole (updateCustomRoleToPg ur (ap_OrgID p)) s = (Inr prole', v)"
    and t: "t = v" and cf: "customRoleFromPg prole' = Inr role"
    by (auto simp: UpdateCustomRole_def andThen_Inr_iff split: if_splits)
  have pg': "pg_UpdateCustomRole (updateCustomRoleToPg ur (ap_OrgID p)) (s\<lparr>locks := locks s\<rparr>) = (Inr prole', v)"
    using pg by simp
  obtain r r' rps g where r: "target_role s (ap_OrgID p) (ucr_ID ur) r" "rol_etag r = ucr_ETag ur"
    "r' = updated_role (updateCustomRoleToPg ur (ap_OrgID p)) s r" "role_checks r'"
    "\<not> role_conflict r' (filter (\<lambda>q. rol_id q \<noteq> rol_id r) (custom_roles s))"
    and v: "v\<lparr>locks := []\<rparr> = s\<lparr>gen := g, custom_roles := map (\<lambda>q. if rol_id q = rol_id r then r' else q) (custom_roles s),
       custom_role_permissions := rps, locks := []\<rparr>"
    and rps: "if ucr_FieldPermissions ur
     then (\<exists>ids names. resolve_permissions s (ucr_Permissions ur) = Some (ids, names) \<and> distinct ids \<and>
       rps = filter (\<lambda>(q, p). q \<noteq> rol_id r) (custom_role_permissions s) @ map (Pair (rol_id r)) ids)
     else rps = custom_role_permissions s" and pr': "prole' = custom_role_of v r'"
    by (rule pg_UpdateCustomRole_InrE[OF inv pg'])
  have "rps = custom_role_permissions s" using rps fp by simp
  then have "t\<lparr>locks := []\<rparr> = s\<lparr>gen := g, custom_roles := map (\<lambda>q. if rol_id q = rol_id r then r' else q) (custom_roles s), locks := []\<rparr>"
    using v t by simp
  moreover have "cr_ETag role = rol_etag r'"
    using cf pr' by (auto simp: customRoleFromPg_def Let_def split: option.splits if_splits)
  ultimately show ?thesis by (rule that[OF ctx p val r])
qed

lemma ModifyCustomRolePermissions_InrE:
  assumes inv: "db_inv s" and q: "ModifyCustomRolePermissions ctx mrp s = (Inr role, t)"
  obtains sess actor pr r rs g mp where "ctx = Some sess" "acted s sess actor pr"
    "ModifyCustomRolePermissions_Validate mrp = Inr ()"
    "target_role s (prj_org_id pr) (mrp_ID mrp) r" "rol_managed_key r = None" "rol_etag r = mrp_ETag mrp"
    "\<forall>n \<in> set (mrp_AddPermissions mrp). role_has s (rol_id r) n \<or> holds_org s (usr_id actor) (prj_org_id pr) n"
    "\<forall>n \<in> set (mrp_RemovePermissions mrp). role_has s (rol_id r) n \<longrightarrow> holds_org s (usr_id actor) (prj_org_id pr) n"
    "(\<forall>n. role_has s (rol_id r) n \<or> n \<in> set (mrp_AddPermissions mrp) \<longrightarrow>
        n \<notin> set (mrp_RemovePermissions mrp) \<longrightarrow> isProjectScope n) \<or>
      (\<forall>a \<in> set (project_role_assignments s). pa_role_id a \<noteq> rol_id r)"
    "mp = modifyCustomRolePermissionsToPg mrp (prj_org_id pr)"
    "resolve_permissions s (mrp_AddPermissions mrp @ mrp_RemovePermissions mrp) \<noteq> None"
    "t = s\<lparr>gen := g, custom_roles := rs, custom_role_permissions := modified_permissions mp s r, locks := []\<rparr>"
    "rs = custom_roles s \<and> modified_permissions mp s r = custom_role_permissions s \<or>
      role_checks (touched_role s r) \<and>
      \<not> role_conflict (touched_role s r) (filter (\<lambda>q. rol_id q \<noteq> rol_id r) (custom_roles s)) \<and>
      rs = map (\<lambda>q. if rol_id q = rol_id r then touched_role s r else q) (custom_roles s)"
proof -
  define nxt where "nxt = (\<lambda>prole :: PgCustomRole. setRemove (setAdd (setFromSlice (pcr_PermissionNames prole)) (mrp_AddPermissions mrp))
              (mrp_RemovePermissions mrp))"
  from q obtain sess p ps prole u v v' prole' where ctx: "ctx = Some sess" and p: "as_Project sess = Some p"
    and val: "ModifyCustomRolePermissions_Validate mrp = Inr ()"
    and c: "customRolePermChangeContext (sessUser sess) (ap_ID p) (mrp_ID mrp) s = (Inr (ps, prole), u)"
    and mk: "pcr_ManagedKey prole = None"
    and sup: "IsPermissionSuperset (pp_PermissionNames ps) (changedPerms (pcr_PermissionNames prole)
        (setValues (nxt prole)))"
    and vs: "validateCustomRoleAssignmentScope (mrp_ID mrp) (setValues (nxt prole)) u = (Inr (), v)"
    and pg: "pg_ModifyCustomRolePermissions (modifyCustomRolePermissionsToPg mrp (pp_OrgID ps)) v = (Inr prole', v')"
    and t: "t = v'\<lparr>locks := []\<rparr>"
    unfolding nxt_def by (auto simp: ModifyCustomRolePermissions_def andThen_Inr_iff Let_def split: if_splits)
  obtain actor pr row l where u: "u = s\<lparr>locks := l\<rparr>" and a: "acted s sess actor pr" and o': "pp_OrgID ps = prj_org_id pr"
    and ps: "set (pp_PermissionNames ps) = {n. holds_org s (usr_id actor) (prj_org_id pr) n}"
    and row: "org_roles_by_external_id s (prj_org_id pr) (mrp_ID mrp) = [row]" and pr: "prole = custom_role_of u row"
    by (rule customRolePermChangeContext_Inr[OF c p])
  have v: "v = s\<lparr>locks := l\<rparr>" using validateScope_Inr(1)[OF vs] u by simp
  obtain r rs g where r: "target_role s (prj_org_id pr) (mrp_ID mrp) r" "rol_etag r = mrp_ETag mrp"
    and res: "resolve_permissions s (mrp_AddPermissions mrp @ mrp_RemovePermissions mrp) \<noteq> None"
    and v': "v'\<lparr>locks := []\<rparr> = s\<lparr>gen := g, custom_roles := rs, custom_role_permissions :=
       modified_permissions (modifyCustomRolePermissionsToPg mrp (prj_org_id pr)) s r, locks := []\<rparr>"
    and rs: "rs = custom_roles s \<and> modified_permissions (modifyCustomRolePermissionsToPg mrp (prj_org_id pr)) s r = custom_role_permissions s \<or>
      role_checks (touched_role s r) \<and>
      \<not> role_conflict (touched_role s r) (filter (\<lambda>q. rol_id q \<noteq> rol_id r) (custom_roles s)) \<and>
      rs = map (\<lambda>q. if rol_id q = rol_id r then touched_role s r else q) (custom_roles s)"
    by (rule pg_ModifyCustomRolePermissions_InrE[OF inv pg[unfolded o' v]])
  have rr: "row = r" using r(1) row by (simp add: target_role_def)
  have "roles_by_external_id s (mrp_ID mrp) = [r]"
    using org_roles_single(2)[OF inv, of r "prj_org_id pr" "mrp_ID mrp"] row rr by simp
  then have scope: "(\<forall>n \<in> set (setValues (nxt prole)). isProjectScope n) \<or>
      (\<forall>a \<in> set (project_role_assignments s). pa_role_id a \<noteq> rol_id r)"
    using validateScope_Inr(2)[OF vs] by (simp add: u)
  have nx: "set (setValues (nxt prole)) = ({n. role_has s (rol_id r) n} \<union> set (mrp_AddPermissions mrp)) -
      set (mrp_RemovePermissions mrp)" by (simp add: nxt_def pr rr u)
  have sub: "({n. role_has s (rol_id r) n} - set (setValues (nxt prole))) \<union>
      (set (setValues (nxt prole)) - {n. role_has s (rol_id r) n}) \<subseteq> {n. holds_org s (usr_id actor) (prj_org_id pr) n}"
    using sup by (simp add: IsPermissionSuperset_iff changedPerms_set ps pr rr u)
  have dis: "set (mrp_AddPermissions mrp) \<inter> set (mrp_RemovePermissions mrp) = {}"
    using val by (simp add: ModifyCustomRolePermissions_Validate_iff)
  have 1: "\<forall>n \<in> set (mrp_AddPermissions mrp). role_has s (rol_id r) n \<or> holds_org s (usr_id actor) (prj_org_id pr) n"
    and 2: "\<forall>n \<in> set (mrp_RemovePermissions mrp). role_has s (rol_id r) n \<longrightarrow> holds_org s (usr_id actor) (prj_org_id pr) n"
    using sub dis unfolding nx by blast+
  have 3: "(\<forall>n. role_has s (rol_id r) n \<or> n \<in> set (mrp_AddPermissions mrp) \<longrightarrow>
        n \<notin> set (mrp_RemovePermissions mrp) \<longrightarrow> isProjectScope n) \<or>
      (\<forall>a \<in> set (project_role_assignments s). pa_role_id a \<noteq> rol_id r)"
    using scope unfolding nx by blast
  have "rol_managed_key r = None" using mk by (simp add: pr rr)
  then show ?thesis by (rule that[OF ctx a val r(1) _ r(2) 1 2 3 refl res _ rs]) (simp add: t v')
qed

lemma DeleteCustomRole_InrE:
  assumes inv: "db_inv s" and q: "DeleteCustomRole ctx x s = (Inr (), t)"
  obtains sess actor pr r where "ctx = Some sess" "acted s sess actor pr"
    "target_role s (prj_org_id pr) x r" "rol_managed_key r = None"
    "\<forall>n. role_has s (rol_id r) n \<longrightarrow> holds_org s (usr_id actor) (prj_org_id pr) n"
    "t = s\<lparr>project_role_assignments := filter (\<lambda>a. pa_role_id a \<noteq> rol_id r) (project_role_assignments s),
          org_role_assignments := filter (\<lambda>a. oa_role_id a \<noteq> rol_id r) (org_role_assignments s),
          custom_role_permissions := filter (\<lambda>(q, p). q \<noteq> rol_id r) (custom_role_permissions s),
          custom_roles := filter (\<lambda>q. \<not> (rol_external_id q = x \<and> rol_org_id q = prj_org_id pr)) (custom_roles s),
          locks := []\<rparr>"
proof -
  from q obtain sess p ps prole u v where ctx: "ctx = Some sess" and p: "as_Project sess = Some p"
    and c: "customRolePermChangeContext (sessUser sess) (ap_ID p) x s = (Inr (ps, prole), u)"
    and mk: "pcr_ManagedKey prole = None"
    and sup: "IsPermissionSuperset (pp_PermissionNames ps) (pcr_PermissionNames prole)"
    and pg: "pg_DeleteCustomRole (pp_OrgID ps) x u = (Inr (), v)" and t: "t = v\<lparr>locks := []\<rparr>"
    by (auto simp: DeleteCustomRole_def andThen_Inr_iff split: if_splits)
  obtain actor pr row l where u: "u = s\<lparr>locks := l\<rparr>" and a: "acted s sess actor pr" and o': "pp_OrgID ps = prj_org_id pr"
    and ps: "set (pp_PermissionNames ps) = {n. holds_org s (usr_id actor) (prj_org_id pr) n}"
    and row: "org_roles_by_external_id s (prj_org_id pr) x = [row]" and pr: "prole = custom_role_of u row"
    by (rule customRolePermChangeContext_Inr[OF c p])
  obtain r where r: "target_role s (prj_org_id pr) x r" and v: "v\<lparr>locks := []\<rparr> = s\<lparr>
          project_role_assignments := filter (\<lambda>a. pa_role_id a \<noteq> rol_id r) (project_role_assignments s),
          org_role_assignments := filter (\<lambda>a. oa_role_id a \<noteq> rol_id r) (org_role_assignments s),
          custom_role_permissions := filter (\<lambda>(q, p). q \<noteq> rol_id r) (custom_role_permissions s),
          custom_roles := filter (\<lambda>q. \<not> (rol_external_id q = x \<and> rol_org_id q = prj_org_id pr)) (custom_roles s),
          locks := []\<rparr>"
    by (rule pg_DeleteCustomRole_InrE[OF pg[unfolded o' u]])
  have rr: "row = r" using r row by (simp add: target_role_def)
  have "\<forall>n. role_has s (rol_id r) n \<longrightarrow> holds_org s (usr_id actor) (prj_org_id pr) n"
    using sup by (auto simp: IsPermissionSuperset_iff ps pr rr u)
  moreover have "rol_managed_key r = None" using mk by (simp add: pr rr)
  ultimately show ?thesis by (intro that[OF ctx a r]) (simp_all add: t v)
qed

subsection \<open>Assigning and unassigning\<close>

lemma AssignCustomRoleToProject_InrE:
  assumes inv: "db_inv s" and q: "AssignCustomRoleToProject ctx x rx s = (Inr (), t)"
  obtains sess actor pr r a where "ctx = Some sess" "acted s sess actor pr"
    "target_role s (prj_org_id pr) rx r"
    "\<forall>n. role_has s (rol_id r) n \<longrightarrow> isProjectScope n \<and> holds_project s (usr_id actor) (prj_id pr) n"
    "t = s\<lparr>project_role_assignments := project_role_assignments s @ [a], locks := []\<rparr>"
    "pa_project_id a = prj_id pr" "pa_role_id a = rol_id r" "pa_org_id a = prj_org_id pr"
    "\<forall>b \<in> set (project_role_assignments s). (pa_user_id b, pa_project_id b, pa_role_id b) \<noteq>
       (pa_user_id a, pa_project_id a, pa_role_id a)"
    "\<exists>u \<in> set (users_by_external_id s x). pa_user_id a = usr_id u"
    "(pa_org_id a, pa_user_id a) \<in> set (org_membership s)"
proof -
  from q obtain sess p ps prole u l v w sc where ctx: "ctx = Some sess" and p: "as_Project sess = Some p"
    and pp: "ProjectPermissions (sessUser sess) (ap_ID p) s = (Inr ps, u)"
    and cr: "CustomRoleByExternalID (pp_OrgID ps) rx (u\<lparr>locks := l\<rparr>) = (Inr prole, v)"
    and sc: "MinimumAssignmentScope (pcr_PermissionNames prole) = Inr sc" "\<not> sc > AssignmentScopeProject"
    and sup: "IsPermissionSuperset (pp_PermissionNames ps) (pcr_PermissionNames prole)"
    and pg: "pg_AssignCustomRoleToProject x rx (ap_ID p) v = (Inr (), w)" and t: "t = w\<lparr>locks := []\<rparr>"
    by (auto simp: AssignCustomRoleToProject_def andThen_Inr_iff LockCustomRole_eq split: if_splits)
  obtain actor pr where a: "u = s" "acted s sess actor pr" "pp_OrgID ps = prj_org_id pr"
    "set (pp_PermissionNames ps) = {n. holds_project s (usr_id actor) (prj_id pr) n}"
    by (rule ProjectPermissions_acted[OF pp p])
  have ap: "ap_ID p = prj_id pr" using a(2) p by (simp add: acted_def)
  have prs: "pr \<in> set (projects s)" using a(2) by (simp add: acted_def)
  from cr obtain r where v: "v = s\<lparr>locks := l\<rparr>" and r: "target_role s (prj_org_id pr) rx r"
    and role: "prole = custom_role_of v r"
    unfolding CustomRoleByExternalID_iff by (auto simp: a target_role_def)
  from pg_AssignCustomRoleToProject_Inr[OF pg[unfolded v ap]] obtain b where
    b: "w = s\<lparr>locks := l\<rparr>\<lparr>project_role_assignments := project_role_assignments (s\<lparr>locks := l\<rparr>) @ [b]\<rparr> \<and>
    pa_project_id b = prj_id pr \<and>
    (\<forall>c \<in> set (project_role_assignments (s\<lparr>locks := l\<rparr>)). (pa_user_id c, pa_project_id c, pa_role_id c) \<noteq>
       (pa_user_id b, pa_project_id b, pa_role_id b)) \<and>
    (\<exists>u \<in> set (users_by_external_id (s\<lparr>locks := l\<rparr>) x). pa_user_id b = usr_id u) \<and>
    (pa_org_id b, pa_user_id b) \<in> set (org_membership (s\<lparr>locks := l\<rparr>)) \<and>
    (\<exists>q \<in> set (projects (s\<lparr>locks := l\<rparr>)). prj_id q = prj_id pr \<and> prj_org_id q = pa_org_id b) \<and>
    (\<exists>r \<in> set (roles_by_external_id (s\<lparr>locks := l\<rparr>) rx). rol_id r = pa_role_id b \<and> rol_org_id r = pa_org_id b)" ..
  have "distinct (map prj_id (projects s))" using inv by (simp add: db_inv_def projects_ok_def)
  then have "prj_org_id q = prj_org_id pr" if "q \<in> set (projects s)" "prj_id q = prj_id pr" for q
    using distinct_key_unique[of prj_id "projects s" q pr] prs that by simp
  then have org: "pa_org_id b = prj_org_id pr"
  proof -
    from b obtain q' where "q' \<in> set (projects (s\<lparr>locks := l\<rparr>))" "prj_id q' = prj_id pr"
      "prj_org_id q' = pa_org_id b" by blast
    with \<open>\<And>q. q \<in> set (projects s) \<Longrightarrow> prj_id q = prj_id pr \<Longrightarrow> prj_org_id q = prj_org_id pr\<close>[of q']
    show ?thesis by simp
  qed
  have "roles_by_external_id s rx = [r]"
    using org_roles_single(2)[OF inv, of r "prj_org_id pr" rx] r by (simp add: target_role_def)
  then have rid: "pa_role_id b = rol_id r" using b by auto
  have "\<forall>n. role_has s (rol_id r) n \<longrightarrow> isProjectScope n \<and> holds_project s (usr_id actor) (prj_id pr) n"
    using sup projectScope_iff[OF sc(1)] sc(2) by (auto simp: IsPermissionSuperset_iff a role v)
  then show ?thesis by (rule that[OF ctx a(2) r _ _ _ rid org]) (use b t in simp_all)
qed

lemma UnassignCustomRoleFromProject_InrE:
  assumes inv: "db_inv s" and q: "UnassignCustomRoleFromProject ctx x rx s = (Inr (), t)"
  obtains sess actor pr r keep where "ctx = Some sess" "acted s sess actor pr"
    "target_role s (prj_org_id pr) rx r"
    "\<forall>n. role_has s (rol_id r) n \<longrightarrow> holds_project s (usr_id actor) (prj_id pr) n"
    "t = s\<lparr>project_role_assignments := filter keep (project_role_assignments s), locks := []\<rparr>"
    "\<forall>a. \<not> keep a \<longrightarrow> pa_project_id a = prj_id pr \<and> pa_role_id a = rol_id r \<and>
       (\<exists>u \<in> set (users_by_external_id s x). pa_user_id a = usr_id u)"
proof -
  from q obtain sess p ps prole u v w where ctx: "ctx = Some sess" and p: "as_Project sess = Some p"
    and pp: "ProjectPermissions (sessUser sess) (ap_ID p) s = (Inr ps, u)"
    and cr: "CustomRoleByExternalID (pp_OrgID ps) rx u = (Inr prole, v)"
    and sup: "IsPermissionSuperset (pp_PermissionNames ps) (pcr_PermissionNames prole)"
    and pg: "pg_UnassignCustomRoleFromProject x rx (ap_ID p) v = (Inr (), w)" and t: "t = w\<lparr>locks := []\<rparr>"
    by (auto simp: UnassignCustomRoleFromProject_def andThen_Inr_iff split: if_splits)
  obtain actor pr where a: "u = s" "acted s sess actor pr" "pp_OrgID ps = prj_org_id pr"
    "set (pp_PermissionNames ps) = {n. holds_project s (usr_id actor) (prj_id pr) n}"
    by (rule ProjectPermissions_acted[OF pp p])
  have ap: "ap_ID p = prj_id pr" using a(2) p by (simp add: acted_def)
  from cr obtain r where v: "v = s" and r: "target_role s (prj_org_id pr) rx r" and role: "prole = custom_role_of s r"
    unfolding CustomRoleByExternalID_iff by (auto simp: a target_role_def)
  have one: "roles_by_external_id s rx = [r]"
    using org_roles_single(2)[OF inv, of r "prj_org_id pr" rx] r by (simp add: target_role_def)
  from pg_UnassignCustomRoleFromProject_Inr[OF pg[unfolded v ap]] obtain keep where
    k: "w = s\<lparr>project_role_assignments := filter keep (project_role_assignments s)\<rparr> \<and>
    (\<forall>a. \<not> keep a \<longrightarrow> pa_project_id a = prj_id pr \<and>
       (\<exists>u \<in> set (users_by_external_id s x). pa_user_id a = usr_id u) \<and>
       (\<exists>r \<in> set (roles_by_external_id s rx). rol_id r = pa_role_id a \<and>
          (\<exists>q \<in> set (projects s). prj_id q = prj_id pr \<and> prj_org_id q = rol_org_id r)))" ..
  have "\<forall>n. role_has s (rol_id r) n \<longrightarrow> holds_project s (usr_id actor) (prj_id pr) n"
    using sup by (auto simp: IsPermissionSuperset_iff a role)
  moreover have "\<forall>a. \<not> keep a \<longrightarrow> pa_project_id a = prj_id pr \<and> pa_role_id a = rol_id r \<and>
       (\<exists>u \<in> set (users_by_external_id s x). pa_user_id a = usr_id u)" using k one by auto
  ultimately show ?thesis by (intro that[OF ctx a(2) r, of keep]) (use k t in simp_all)
qed

lemma AssignCustomRoleToOrg_InrE:
  assumes q: "AssignCustomRoleToOrg ctx x rx s = (Inr (), t)"
  obtains sess actor pr r a where "ctx = Some sess" "acted s sess actor pr"
    "target_role s (prj_org_id pr) rx r"
    "\<forall>n. role_has s (rol_id r) n \<longrightarrow> holds_org s (usr_id actor) (prj_org_id pr) n"
    "t = s\<lparr>org_role_assignments := org_role_assignments s @ [a], locks := []\<rparr>"
    "oa_org_id a = prj_org_id pr" "oa_role_id a = rol_id r" "a \<notin> set (org_role_assignments s)"
    "\<exists>u \<in> set (users_by_external_id s x). oa_user_id a = usr_id u"
    "(prj_org_id pr, oa_user_id a) \<in> set (org_membership s)"
proof -
  from q obtain sess p ps prole u v w where ctx: "ctx = Some sess" and p: "as_Project sess = Some p"
    and pp: "OrgPermissionsByProjectID (sessUser sess) (ap_ID p) s = (Inr ps, u)"
    and cr: "CustomRoleByExternalID (pp_OrgID ps) rx u = (Inr prole, v)"
    and sup: "IsPermissionSuperset (pp_PermissionNames ps) (pcr_PermissionNames prole)"
    and pg: "pg_AssignCustomRoleToOrg x rx (pp_OrgID ps) v = (Inr (), w)" and t: "t = w\<lparr>locks := []\<rparr>"
    by (auto simp: AssignCustomRoleToOrg_def andThen_Inr_iff split: if_splits)
  obtain actor pr where a: "u = s" "acted s sess actor pr" "pp_OrgID ps = prj_org_id pr"
    "set (pp_PermissionNames ps) = {n. holds_org s (usr_id actor) (prj_org_id pr) n}"
    by (rule OrgPermissions_acted[OF pp p])
  from cr obtain r where v: "v = s" and r: "target_role s (prj_org_id pr) rx r" and role: "prole = custom_role_of s r"
    unfolding CustomRoleByExternalID_iff by (auto simp: a target_role_def)
  from pg_AssignCustomRoleToOrg_Inr[OF pg[unfolded v a(3)]] obtain b where
    b: "w = s\<lparr>org_role_assignments := org_role_assignments s @ [b]\<rparr> \<and> oa_org_id b = prj_org_id pr \<and>
    b \<notin> set (org_role_assignments s) \<and>
    (\<exists>u \<in> set (users_by_external_id s x). oa_user_id b = usr_id u) \<and>
    (prj_org_id pr, oa_user_id b) \<in> set (org_membership s) \<and>
    (\<exists>r \<in> set (org_roles_by_external_id s (prj_org_id pr) rx). rol_id r = oa_role_id b)" ..
  have "\<forall>n. role_has s (rol_id r) n \<longrightarrow> holds_org s (usr_id actor) (prj_org_id pr) n"
    using sup by (auto simp: IsPermissionSuperset_iff a role)
  moreover have "oa_role_id b = rol_id r" using b r by (auto simp: target_role_def)
  ultimately show ?thesis by (intro that[OF ctx a(2) r, of b]) (use b t in simp_all)
qed

lemma UnassignCustomRoleFromOrg_InrE:
  assumes q: "UnassignCustomRoleFromOrg ctx x rx s = (Inr (), t)"
  obtains sess actor pr r keep where "ctx = Some sess" "acted s sess actor pr"
    "target_role s (prj_org_id pr) rx r"
    "\<forall>n. role_has s (rol_id r) n \<longrightarrow> holds_org s (usr_id actor) (prj_org_id pr) n"
    "t = s\<lparr>org_role_assignments := filter keep (org_role_assignments s), locks := []\<rparr>"
    "\<forall>a. \<not> keep a \<longrightarrow> oa_org_id a = prj_org_id pr \<and> oa_role_id a = rol_id r \<and>
       (\<exists>u \<in> set (users_by_external_id s x). oa_user_id a = usr_id u)"
proof -
  from q obtain sess p ps prole u v w where ctx: "ctx = Some sess" and p: "as_Project sess = Some p"
    and pp: "OrgPermissionsByProjectID (sessUser sess) (ap_ID p) s = (Inr ps, u)"
    and cr: "CustomRoleByExternalID (pp_OrgID ps) rx u = (Inr prole, v)"
    and sup: "IsPermissionSuperset (pp_PermissionNames ps) (pcr_PermissionNames prole)"
    and pg: "pg_UnassignCustomRoleFromOrg x rx (pp_OrgID ps) v = (Inr (), w)" and t: "t = w\<lparr>locks := []\<rparr>"
    by (auto simp: UnassignCustomRoleFromOrg_def andThen_Inr_iff split: if_splits)
  obtain actor pr where a: "u = s" "acted s sess actor pr" "pp_OrgID ps = prj_org_id pr"
    "set (pp_PermissionNames ps) = {n. holds_org s (usr_id actor) (prj_org_id pr) n}"
    by (rule OrgPermissions_acted[OF pp p])
  from cr obtain r where v: "v = s" and r: "target_role s (prj_org_id pr) rx r" and role: "prole = custom_role_of s r"
    unfolding CustomRoleByExternalID_iff by (auto simp: a target_role_def)
  from pg_UnassignCustomRoleFromOrg_Inr[OF pg[unfolded v a(3)]] obtain keep where
    k: "w = s\<lparr>org_role_assignments := filter keep (org_role_assignments s)\<rparr> \<and>
    (\<forall>a. \<not> keep a \<longrightarrow> oa_org_id a = prj_org_id pr \<and>
       (\<exists>u \<in> set (users_by_external_id s x). oa_user_id a = usr_id u) \<and>
       (\<exists>r \<in> set (org_roles_by_external_id s (prj_org_id pr) rx). rol_id r = oa_role_id a))" ..
  have "\<forall>n. role_has s (rol_id r) n \<longrightarrow> holds_org s (usr_id actor) (prj_org_id pr) n"
    using sup by (auto simp: IsPermissionSuperset_iff a role)
  moreover have "\<forall>a. \<not> keep a \<longrightarrow> oa_org_id a = prj_org_id pr \<and> oa_role_id a = rol_id r \<and>
       (\<exists>u \<in> set (users_by_external_id s x). oa_user_id a = usr_id u)"
    using k r by (auto simp: target_role_def)
  ultimately show ?thesis by (intro that[OF ctx a(2) r, of keep]) (use k t in simp_all)
qed

end
