(* ===== verification/RoleAuthority.thy ===== *)
theory RoleAuthority
  imports RoleCalls
begin

text \<open>
  Authority: what a successful call of \<open>custom_role.go\<close> can change in anybody's permissions is bounded by
  what the caller holds. \<open>authority_bound\<close> is the specification; \<open>authority_boundI\<close> reduces it to the
  changed rows, and one lemma per call discharges it.
\<close>

section \<open>Specification\<close>

definition authority_bound :: "db \<Rightarrow> db \<Rightarrow> int \<Rightarrow> int \<Rightarrow> bool" where
  "authority_bound s t actor org \<longleftrightarrow>
    (\<forall>u n. holds_system t u n = holds_system s u n) \<and>
    (\<forall>u o' n. holds_org t u o' n \<noteq> holds_org s u o' n \<longrightarrow> o' = org \<and> holds_org s actor org n) \<and>
    (\<forall>u j n. holds_project t u j n \<noteq> holds_project s u j n \<longrightarrow>
       (j, org) \<in> proj_orgs s \<and> holds_project s actor j n)"

definition same_system :: "db \<Rightarrow> db \<Rightarrow> bool" where
  "same_system s t \<longleftrightarrow> system_role_assignments t = system_role_assignments s \<and>
    system_role_permissions t = system_role_permissions s \<and> permissions t = permissions s \<and>
    projects t = projects s"

lemma same_system_holds: "same_system s t \<Longrightarrow> holds_system t = holds_system s"
  by (simp add: same_system_def holds_system_def system_role_has_def fun_eq_iff)

lemma role_org_unique:
  assumes "db_inv s" "(q, a) \<in> role_orgs s" "(q, b) \<in> role_orgs s" shows "a = b"
proof -
  have "distinct (map rol_id (custom_roles s))" using assms(1) by (simp add: db_inv_def custom_roles_ok_def)
  moreover from assms(2,3) obtain r r' where "r \<in> set (custom_roles s)" "r' \<in> set (custom_roles s)"
    "rol_id r = q" "rol_id r' = q" "rol_org_id r = a" "rol_org_id r' = b" by auto
  ultimately show ?thesis using distinct_key_unique[of rol_id "custom_roles s" r r'] by simp
qed

lemma assignment_fks:
  assumes "db_inv s"
  shows "a \<in> set (org_role_assignments s) \<Longrightarrow> (oa_role_id a, oa_org_id a) \<in> role_orgs s"
    "b \<in> set (project_role_assignments s) \<Longrightarrow> (pa_role_id b, pa_org_id b) \<in> role_orgs s"
    "b \<in> set (project_role_assignments s) \<Longrightarrow> (pa_project_id b, pa_org_id b) \<in> proj_orgs s"
  using assms unfolding db_inv_def org_assignments_ok_def project_assignments_ok_def by blast+

lemma org_authority_in_project:
  "(j, org) \<in> proj_orgs s \<Longrightarrow> holds_org s u org n \<Longrightarrow> holds_project s u j n"
  unfolding holds_project_def by force

text \<open>
  The rows a call changed, for the caller \<open>actor\<close> acting in \<open>org\<close>: a role whose permissions changed is one
  of \<open>org\<close> and the changed permission is held by the caller, or nobody is assigned the role; a changed
  assignment is of a role of which the caller holds every permission.
\<close>

definition changes_within :: "db \<Rightarrow> db \<Rightarrow> int \<Rightarrow> int \<Rightarrow> bool" where
  "changes_within s t actor org \<longleftrightarrow>
    (\<forall>q n. role_has t q n \<noteq> role_has s q n \<longrightarrow> (q, org) \<in> role_orgs s \<and> holds_org s actor org n \<or>
       (q \<notin> oa_role_id ` (set (org_role_assignments s) \<union> set (org_role_assignments t)) \<and>
        q \<notin> pa_role_id ` (set (project_role_assignments s) \<union> set (project_role_assignments t)))) \<and>
    (\<forall>a. (a \<in> set (org_role_assignments t)) \<noteq> (a \<in> set (org_role_assignments s)) \<longrightarrow>
       oa_org_id a = org \<and> (\<forall>n. role_has s (oa_role_id a) n \<longrightarrow> holds_org s actor org n)) \<and>
    (\<forall>a. (a \<in> set (project_role_assignments t)) \<noteq> (a \<in> set (project_role_assignments s)) \<longrightarrow>
       (pa_project_id a, org) \<in> proj_orgs s \<and>
       (\<forall>n. role_has s (pa_role_id a) n \<longrightarrow> holds_project s actor (pa_project_id a) n))"

lemma changes_within_assignment:
  assumes "changes_within s t actor org"
    and "(a \<in> set (project_role_assignments t)) \<noteq> (a \<in> set (project_role_assignments s))"
  shows "(pa_project_id a, org) \<in> proj_orgs s"
    "role_has s (pa_role_id a) n \<Longrightarrow> holds_project s actor (pa_project_id a) n"
  using assms(1)[unfolded changes_within_def, THEN conjunct2, THEN conjunct2, THEN spec, THEN mp, OF assms(2)]
  by (blast, blast)

lemma changes_within_org:
  assumes inv: "db_inv s" and sys: "same_system s t" and ch: "changes_within s t actor org"
    and d: "holds_org t u o' n \<noteq> holds_org s u o' n"
  shows "o' = org \<and> holds_org s actor org n"
proof -
  from d obtain a where a: "oa_user_id a = u" "oa_org_id a = o'"
    and in': "a \<in> set (org_role_assignments s) \<union> set (org_role_assignments t)"
    and c: "(a \<in> set (org_role_assignments t) \<and> role_has t (oa_role_id a) n) \<noteq>
      (a \<in> set (org_role_assignments s) \<and> role_has s (oa_role_id a) n)"
    unfolding holds_org_def same_system_holds[OF sys] by blast
  show ?thesis
  proof (cases "role_has t (oa_role_id a) n = role_has s (oa_role_id a) n")
    case True
    with c have "(a \<in> set (org_role_assignments t)) \<noteq> (a \<in> set (org_role_assignments s))"
      "role_has s (oa_role_id a) n" by blast+
    with ch a(2) show ?thesis unfolding changes_within_def by blast
  next
    case False
    with ch in' have r: "(oa_role_id a, org) \<in> role_orgs s" "holds_org s actor org n"
      unfolding changes_within_def by blast+
    have "oa_org_id a = org"
    proof (cases "a \<in> set (org_role_assignments s)")
      case True
      show ?thesis by (rule role_org_unique[OF inv assignment_fks(1)[OF inv True] r(1)])
    next
      case False
      with in' ch show ?thesis unfolding changes_within_def by blast
    qed
    with a(2) r(2) show ?thesis by simp
  qed
qed

lemma changes_within_project:
  assumes inv: "db_inv s" and sys: "same_system s t" and ch: "changes_within s t actor org"
    and d: "holds_project t u j n \<noteq> holds_project s u j n"
  shows "(j, org) \<in> proj_orgs s \<and> holds_project s actor j n"
proof -
  have pr: "projects t = projects s" using sys by (simp add: same_system_def)
  let ?A = "\<lambda>s. \<exists>a \<in> set (project_role_assignments s). pa_user_id a = u \<and> pa_project_id a = j \<and> role_has s (pa_role_id a) n"
  let ?O = "\<lambda>w. \<exists>p \<in> set (projects s). prj_id p = j \<and> holds_org w u (prj_org_id p) n"
  from d have d': "?A t \<noteq> ?A s \<or> ?O t \<noteq> ?O s" unfolding holds_project_def pr by argo
  have O: "\<exists>p \<in> set (projects s). prj_id p = j \<and> holds_org t u (prj_org_id p) n \<noteq> holds_org s u (prj_org_id p) n"
    if "?O t \<noteq> ?O s" using that by metis
  have A: "\<exists>a. pa_user_id a = u \<and> pa_project_id a = j \<and>
      a \<in> set (project_role_assignments s) \<union> set (project_role_assignments t) \<and>
      (a \<in> set (project_role_assignments t) \<and> role_has t (pa_role_id a) n) \<noteq>
      (a \<in> set (project_role_assignments s) \<and> role_has s (pa_role_id a) n)"
    if "?A t \<noteq> ?A s"
  proof (cases "?A t")
    case True
    with that obtain a where "a \<in> set (project_role_assignments t)" "pa_user_id a = u" "pa_project_id a = j"
      "role_has t (pa_role_id a) n" "\<not> (a \<in> set (project_role_assignments s) \<and> role_has s (pa_role_id a) n)" by blast
    then show ?thesis by (intro exI[of _ a]) blast
  next
    case False
    with that obtain a where "a \<in> set (project_role_assignments s)" "pa_user_id a = u" "pa_project_id a = j"
      "role_has s (pa_role_id a) n" "\<not> (a \<in> set (project_role_assignments t) \<and> role_has t (pa_role_id a) n)" by blast
    then show ?thesis by (intro exI[of _ a]) blast
  qed
  consider (org) p where "p \<in> set (projects s)" "prj_id p = j"
      "holds_org t u (prj_org_id p) n \<noteq> holds_org s u (prj_org_id p) n"
    | (prj) a where "pa_user_id a = u" "pa_project_id a = j"
      "a \<in> set (project_role_assignments s) \<union> set (project_role_assignments t)"
      "(a \<in> set (project_role_assignments t) \<and> role_has t (pa_role_id a) n) \<noteq>
      (a \<in> set (project_role_assignments s) \<and> role_has s (pa_role_id a) n)"
  proof (cases "?A t \<noteq> ?A s")
    case True
    from A[OF True] show ?thesis using prj by (elim exE conjE)
  next
    case False
    with d' have "?O t \<noteq> ?O s" by argo
    from O[OF this] show ?thesis using org by (elim bexE conjE)
  qed
  then show ?thesis
  proof cases
    case org
    with changes_within_org[OF inv sys ch] have "prj_org_id p = org" "holds_org s actor org n" by blast+
    moreover have "(j, prj_org_id p) \<in> proj_orgs s" using org by force
    ultimately show ?thesis using org_authority_in_project by blast
  next
    case prj
    show ?thesis
    proof (cases "role_has t (pa_role_id a) n = role_has s (pa_role_id a) n")
      case True
      with prj(4) have "(a \<in> set (project_role_assignments t)) \<noteq> (a \<in> set (project_role_assignments s))"
        "role_has s (pa_role_id a) n" by blast+
      with changes_within_assignment[OF ch] prj(2) show ?thesis by metis
    next
      case False
      with ch prj(3) have r: "(pa_role_id a, org) \<in> role_orgs s" "holds_org s actor org n"
        unfolding changes_within_def by blast+
      have "(j, org) \<in> proj_orgs s"
      proof (cases "a \<in> set (project_role_assignments s)")
        case True
        have "pa_org_id a = org" by (rule role_org_unique[OF inv assignment_fks(2)[OF inv True] r(1)])
        with assignment_fks(3)[OF inv True] prj(2) show ?thesis by simp
      next
        case False
        with prj(2,3) ch show ?thesis unfolding changes_within_def by blast
      qed
      with org_authority_in_project r(2) show ?thesis by blast
    qed
  qed
qed

lemma authority_boundI:
  assumes "db_inv s" "same_system s t" "changes_within s t actor org"
  shows "authority_bound s t actor org"
  unfolding authority_bound_def same_system_holds[OF assms(2)]
  using changes_within_org[OF assms] changes_within_project[OF assms] by blast

section \<open>Permissions of a role after a call\<close>

lemma permission_name_unique:
  "db_inv s \<Longrightarrow> (i, n) \<in> set (permissions s) \<Longrightarrow> (i, m) \<in> set (permissions s) \<Longrightarrow> n = m"
  using distinct_key_unique[of fst "permissions s" "(i, n)" "(i, m)"]
  by (simp add: db_inv_def permissions_ok_def)

lemma resolved_has:
  assumes "db_inv s" "resolve_permissions s ns = Some (ids, names)"
  shows "(\<exists>i \<in> set ids. (i, n) \<in> set (permissions s)) \<longleftrightarrow> n \<in> set ns"
proof
  assume "\<exists>i \<in> set ids. (i, n) \<in> set (permissions s)"
  then obtain i m where "(i, n) \<in> set (permissions s)" "m \<in> set ns" "(i, m) \<in> set (permissions s)"
    unfolding resolve_permissions_Some(2)[OF assms(2)] by blast
  then show "n \<in> set ns" using permission_name_unique[OF assms(1)] by blast
next
  assume n: "n \<in> set ns"
  with resolve_permissions_Some(3)[OF assms(2)] obtain i where "(i, n) \<in> set (permissions s)" by blast
  then show "\<exists>i \<in> set ids. (i, n) \<in> set (permissions s)"
    using n unfolding resolve_permissions_Some(2)[OF assms(2)] by blast
qed

lemma role_has_replaced:
  assumes "db_inv s" "resolve_permissions s ns = Some (ids, names)" "permissions t = permissions s"
    and t: "custom_role_permissions t = filter (\<lambda>(q, p). q \<noteq> k) (custom_role_permissions s) @ map (Pair k) ids"
  shows "role_has t q n \<longleftrightarrow> (if q = k then n \<in> set ns else role_has s q n)"
proof -
  have "(q, i) \<in> set (custom_role_permissions t) \<longleftrightarrow>
      (if q = k then i \<in> set ids else (q, i) \<in> set (custom_role_permissions s))" for i
    unfolding t by auto
  then show ?thesis using resolved_has[OF assms(1,2), of n] unfolding role_has_def assms(3) by auto
qed

lemma role_has_modified:
  assumes inv: "db_inv s"
    and res: "resolve_permissions s (mrp_AddPermissions mrp @ mrp_RemovePermissions mrp) \<noteq> None"
    and dis: "set (mrp_AddPermissions mrp) \<inter> set (mrp_RemovePermissions mrp) = {}"
    and t: "custom_role_permissions t = modified_permissions (modifyCustomRolePermissionsToPg mrp o') s r"
      "permissions t = permissions s"
  shows "role_has t q n \<longleftrightarrow> (if q = rol_id r
     then (role_has s q n \<or> n \<in> set (mrp_AddPermissions mrp)) \<and> n \<notin> set (mrp_RemovePermissions mrp)
     else role_has s q n)"
proof -
  let ?mp = "modifyCustomRolePermissionsToPg mrp o'"
  have f: "pmp_AddPermissionNames ?mp = mrp_AddPermissions mrp"
    "pmp_RemovePermissionNames ?mp = mrp_RemovePermissions mrp"
    by (simp_all add: modifyCustomRolePermissionsToPg_def)
  have el: "(q, i) \<in> set (custom_role_permissions t) \<longleftrightarrow>
      ((q, i) \<in> set (custom_role_permissions s) \<and>
        \<not> (q = rol_id r \<and> (\<exists>n. n \<in> set (mrp_RemovePermissions mrp) \<and> (i, n) \<in> set (permissions s)))) \<or>
      ((q, i) \<notin> set (custom_role_permissions s) \<and> q = rol_id r \<and>
        (\<exists>n. n \<in> set (mrp_AddPermissions mrp) \<and> (i, n) \<in> set (permissions s)))" for i
    unfolding t(1) using set_modified_permissions[OF inv, of ?mp q i r] res unfolding f by blast
  note un = permission_name_unique[OF inv]
  have reg: "\<exists>i. (i, n) \<in> set (permissions s)" if "n \<in> set (mrp_AddPermissions mrp)" for n
  proof -
    obtain ids names where "resolve_permissions s (mrp_AddPermissions mrp @ mrp_RemovePermissions mrp) = Some (ids, names)"
      using res by auto
    from resolve_permissions_Some(3)[OF this] that show ?thesis by auto
  qed
  show ?thesis
  proof (cases "q = rol_id r")
    case True
    have "role_has t q n \<longleftrightarrow> (role_has s q n \<or> n \<in> set (mrp_AddPermissions mrp)) \<and> n \<notin> set (mrp_RemovePermissions mrp)"
    proof
      assume "role_has t q n"
      then obtain i where i: "(q, i) \<in> set (custom_role_permissions t)" "(i, n) \<in> set (permissions s)"
        unfolding role_has_def t(2) by blast
      from i(1) show "(role_has s q n \<or> n \<in> set (mrp_AddPermissions mrp)) \<and> n \<notin> set (mrp_RemovePermissions mrp)"
        unfolding el role_has_def using i(2) un dis True by blast
    next
      assume A: "(role_has s q n \<or> n \<in> set (mrp_AddPermissions mrp)) \<and> n \<notin> set (mrp_RemovePermissions mrp)"
      then obtain i where i: "(i, n) \<in> set (permissions s)"
        "(q, i) \<in> set (custom_role_permissions s) \<or> n \<in> set (mrp_AddPermissions mrp)"
        unfolding role_has_def using reg by blast
      then have "(q, i) \<in> set (custom_role_permissions t)" unfolding el using A True un by blast
      with i(1) show "role_has t q n" unfolding role_has_def t(2) by blast
    qed
    with True show ?thesis by simp
  next
    case False
    then show ?thesis unfolding role_has_def t(2) el by simp
  qed
qed

lemma unreferenced_role:
  assumes "db_inv s" "k \<notin> role_ids s"
  shows "k \<notin> oa_role_id ` set (org_role_assignments s)" "k \<notin> pa_role_id ` set (project_role_assignments s)"
    "(k, p) \<notin> set (custom_role_permissions s)"
proof -
  show "k \<notin> oa_role_id ` set (org_role_assignments s)" using assignment_fks(1)[OF assms(1)] assms(2) by force
  show "k \<notin> pa_role_id ` set (project_role_assignments s)" using assignment_fks(2)[OF assms(1)] assms(2) by force
  show "(k, p) \<notin> set (custom_role_permissions s)"
    using assms by (auto simp: db_inv_def role_permissions_ok_def)
qed

lemma role_has_created:
  assumes "db_inv s" "resolve_permissions s ns = Some (ids, names)" "permissions t = permissions s" "k \<notin> role_ids s"
    and t: "custom_role_permissions t = custom_role_permissions s @ map (Pair k) ids"
  shows "role_has t q n \<longleftrightarrow> (if q = k then n \<in> set ns else role_has s q n)"
proof -
  have "filter (\<lambda>(q, p). q \<noteq> k) (custom_role_permissions s) = custom_role_permissions s"
    using unreferenced_role(3)[OF assms(1,4)] by (auto simp: filter_id_conv)
  with t show ?thesis by (intro role_has_replaced[OF assms(1-3)]) simp
qed

lemma new_role_id: "\<not> role_conflict r (custom_roles s) \<Longrightarrow> rol_id r \<notin> role_ids s"
  by (auto simp: role_conflict_def)

section \<open>The calls stay within the caller's authority\<close>

lemma changes_withinI:
  assumes "\<And>q n. role_has t q n \<noteq> role_has s q n \<Longrightarrow> (q, org) \<in> role_orgs s \<and> holds_org s actor org n \<or>
       (q \<notin> oa_role_id ` (set (org_role_assignments s) \<union> set (org_role_assignments t)) \<and>
        q \<notin> pa_role_id ` (set (project_role_assignments s) \<union> set (project_role_assignments t)))"
    and "\<And>a. (a \<in> set (org_role_assignments t)) \<noteq> (a \<in> set (org_role_assignments s)) \<Longrightarrow>
       oa_org_id a = org \<and> (\<forall>n. role_has s (oa_role_id a) n \<longrightarrow> holds_org s actor org n)"
    and "\<And>a. (a \<in> set (project_role_assignments t)) \<noteq> (a \<in> set (project_role_assignments s)) \<Longrightarrow>
       (pa_project_id a, org) \<in> proj_orgs s \<and>
       (\<forall>n. role_has s (pa_role_id a) n \<longrightarrow> holds_project s actor (pa_project_id a) n)"
  shows "changes_within s t actor org"
  unfolding changes_within_def
  by (intro conjI; intro allI impI; (rule assms(1) | rule assms(2) | rule assms(3)); assumption)

lemma changes_permissions:
  assumes "db_inv s" "org_role_assignments t = org_role_assignments s"
    "project_role_assignments t = project_role_assignments s"
    and "\<And>q n. role_has t q n \<noteq> role_has s q n \<Longrightarrow> (q, org) \<in> role_orgs s \<and> holds_org s actor org n \<or> q \<notin> role_ids s"
  shows "changes_within s t actor org"
proof (rule changes_withinI)
  fix q n assume "role_has t q n \<noteq> role_has s q n"
  from assms(4)[OF this] unreferenced_role(1,2)[OF assms(1), of q]
  show "(q, org) \<in> role_orgs s \<and> holds_org s actor org n \<or>
       (q \<notin> oa_role_id ` (set (org_role_assignments s) \<union> set (org_role_assignments t)) \<and>
        q \<notin> pa_role_id ` (set (project_role_assignments s) \<union> set (project_role_assignments t)))"
    unfolding assms(2,3) Un_absorb by satx
qed (simp_all add: assms(2,3))

lemma target_in_org: "target_role s o' x r \<Longrightarrow> (rol_id r, o') \<in> role_orgs s"
  using target_roleD[of s o' x r] by force

lemma acted_project: "acted s sess actor pr \<Longrightarrow> (prj_id pr, prj_org_id pr) \<in> proj_orgs s"
  by (auto simp: acted_def)

definition bounded_call :: "AuthSession option \<Rightarrow> db \<Rightarrow> db \<Rightarrow> bool" where
  "bounded_call ctx s t \<longleftrightarrow> (\<exists>sess actor pr. ctx = Some sess \<and> acted s sess actor pr \<and>
     authority_bound s t (usr_id actor) (prj_org_id pr))"

lemma bounded_callI:
  assumes "db_inv s" "ctx = Some sess" "acted s sess actor pr" "same_system s t"
    "changes_within s t (usr_id actor) (prj_org_id pr)"
  shows "bounded_call ctx s t"
  using authority_boundI[OF assms(1,4,5)] assms(2,3) unfolding bounded_call_def by blast

lemma create_bounded:
  assumes inv: "db_inv s" and q: "CreateCustomRole ctx cr s = (Inr role, t)"
  shows "bounded_call ctx s t"
proof (rule CreateCustomRole_InrE[OF q])
  fix sess actor pr r ids names g
  assume c: "ctx = Some sess" "acted s sess actor pr" and res: "resolve_permissions s (ccr_Permissions cr) = Some (ids, names)"
    and new: "\<not> role_conflict r (custom_roles s)"
    and t: "t = s\<lparr>gen := g, custom_roles := custom_roles s @ [r],
      custom_role_permissions := custom_role_permissions s @ map (Pair (rol_id r)) ids, locks := []\<rparr>"
  have "role_has t q n \<longleftrightarrow> (if q = rol_id r then n \<in> set (ccr_Permissions cr) else role_has s q n)" for q n
    by (rule role_has_created[OF inv res _ new_role_id[OF new]]) (simp_all add: t)
  then show ?thesis using new_role_id[OF new]
    by (intro bounded_callI[OF inv c] changes_permissions[OF inv]) (auto simp: t same_system_def split: if_splits)
qed

lemma update_bounded:
  assumes inv: "db_inv s" and q: "UpdateCustomRole ctx ur s = (Inr role, t)" and fp: "ucr_FieldPermissions ur"
  shows "bounded_call ctx s t"
proof (rule UpdateCustomRole_perms_InrE[OF inv q fp])
  fix sess actor pr r ids names rps g r'
  assume c: "ctx = Some sess" "acted s sess actor pr" and r: "target_role s (prj_org_id pr) (ucr_ID ur) r"
    and auth: "\<forall>n. role_has s (rol_id r) n \<noteq> (n \<in> set (ucr_Permissions ur)) \<longrightarrow> holds_org s (usr_id actor) (prj_org_id pr) n"
    and res: "resolve_permissions s (ucr_Permissions ur) = Some (ids, names)"
    and t: "t = s\<lparr>gen := g, custom_roles := map (\<lambda>q. if rol_id q = rol_id r then r' else q) (custom_roles s),
       custom_role_permissions := rps, locks := []\<rparr>"
      "rps = filter (\<lambda>(q, p). q \<noteq> rol_id r) (custom_role_permissions s) @ map (Pair (rol_id r)) ids"
  have "role_has t q n \<longleftrightarrow> (if q = rol_id r then n \<in> set (ucr_Permissions ur) else role_has s q n)" for q n
    by (rule role_has_replaced[OF inv res]) (simp_all add: t)
  then show ?thesis using auth target_in_org[OF r]
    by (intro bounded_callI[OF inv c] changes_permissions[OF inv]) (simp_all add: t same_system_def split: if_splits)
qed

lemma modify_bounded:
  assumes inv: "db_inv s" and q: "ModifyCustomRolePermissions ctx mrp s = (Inr role, t)"
  shows "bounded_call ctx s t"
proof (rule ModifyCustomRolePermissions_InrE[OF inv q])
  fix sess actor pr r rs g mp
  assume c: "ctx = Some sess" "acted s sess actor pr" and r: "target_role s (prj_org_id pr) (mrp_ID mrp) r"
    and val: "ModifyCustomRolePermissions_Validate mrp = Inr ()"
    and auth: "\<forall>n \<in> set (mrp_AddPermissions mrp). role_has s (rol_id r) n \<or> holds_org s (usr_id actor) (prj_org_id pr) n"
    "\<forall>n \<in> set (mrp_RemovePermissions mrp). role_has s (rol_id r) n \<longrightarrow> holds_org s (usr_id actor) (prj_org_id pr) n"
    and mp: "mp = modifyCustomRolePermissionsToPg mrp (prj_org_id pr)"
    and res: "resolve_permissions s (mrp_AddPermissions mrp @ mrp_RemovePermissions mrp) \<noteq> None"
    and t: "t = s\<lparr>gen := g, custom_roles := rs, custom_role_permissions := modified_permissions mp s r, locks := []\<rparr>"
  have dis: "set (mrp_AddPermissions mrp) \<inter> set (mrp_RemovePermissions mrp) = {}"
    using val by (simp add: ModifyCustomRolePermissions_Validate_iff)
  have "role_has t q n \<longleftrightarrow> (if q = rol_id r
     then (role_has s q n \<or> n \<in> set (mrp_AddPermissions mrp)) \<and> n \<notin> set (mrp_RemovePermissions mrp)
     else role_has s q n)" for q n
    by (rule role_has_modified[OF inv res dis]) (simp_all add: t mp)
  then have "holds_org s (usr_id actor) (prj_org_id pr) n \<and> q = rol_id r" if "role_has t q n \<noteq> role_has s q n" for q n
    using that auth by (auto split: if_splits)
  then show ?thesis using target_in_org[OF r]
    by (intro bounded_callI[OF inv c] changes_permissions[OF inv]) (auto simp: t same_system_def)
qed

lemma role_has_deleted:
  assumes "permissions t = permissions s"
    "custom_role_permissions t = filter (\<lambda>(q, p). q \<noteq> k) (custom_role_permissions s)"
  shows "role_has t q n \<longleftrightarrow> q \<noteq> k \<and> role_has s q n"
  by (auto simp: role_has_def assms)

lemma delete_bounded:
  assumes inv: "db_inv s" and q: "DeleteCustomRole ctx x s = (Inr (), t)"
  shows "bounded_call ctx s t"
proof (rule DeleteCustomRole_InrE[OF inv q])
  fix sess actor pr r
  assume c: "ctx = Some sess" "acted s sess actor pr" and r: "target_role s (prj_org_id pr) x r"
    and auth: "\<forall>n. role_has s (rol_id r) n \<longrightarrow> holds_org s (usr_id actor) (prj_org_id pr) n"
    and t: "t = s\<lparr>project_role_assignments := filter (\<lambda>a. pa_role_id a \<noteq> rol_id r) (project_role_assignments s),
          org_role_assignments := filter (\<lambda>a. oa_role_id a \<noteq> rol_id r) (org_role_assignments s),
          custom_role_permissions := filter (\<lambda>(q, p). q \<noteq> rol_id r) (custom_role_permissions s),
          custom_roles := filter (\<lambda>q. \<not> (rol_external_id q = x \<and> rol_org_id q = prj_org_id pr)) (custom_roles s),
          locks := []\<rparr>"
  have rh: "role_has t q n \<longleftrightarrow> q \<noteq> rol_id r \<and> role_has s q n" for q n
    by (rule role_has_deleted) (simp_all add: t)
  note ro = target_in_org[OF r]
  have "changes_within s t (usr_id actor) (prj_org_id pr)"
  proof (rule changes_withinI)
    fix a assume "(a \<in> set (org_role_assignments t)) \<noteq> (a \<in> set (org_role_assignments s))"
    then have a: "a \<in> set (org_role_assignments s)" "oa_role_id a = rol_id r" by (auto simp: t)
    have "oa_org_id a = prj_org_id pr"
      using role_org_unique[OF inv assignment_fks(1)[OF inv a(1)]] ro a(2) by simp
    with auth a(2) show "oa_org_id a = prj_org_id pr \<and>
       (\<forall>n. role_has s (oa_role_id a) n \<longrightarrow> holds_org s (usr_id actor) (prj_org_id pr) n)" by simp
  next
    fix a assume "(a \<in> set (project_role_assignments t)) \<noteq> (a \<in> set (project_role_assignments s))"
    then have a: "a \<in> set (project_role_assignments s)" "pa_role_id a = rol_id r" by (auto simp: t)
    have "pa_org_id a = prj_org_id pr"
      using role_org_unique[OF inv assignment_fks(2)[OF inv a(1)]] ro a(2) by simp
    with assignment_fks(3)[OF inv a(1)] have po: "(pa_project_id a, prj_org_id pr) \<in> proj_orgs s" by simp
    with auth a(2) org_authority_in_project[OF po] show "(pa_project_id a, prj_org_id pr) \<in> proj_orgs s \<and>
       (\<forall>n. role_has s (pa_role_id a) n \<longrightarrow> holds_project s (usr_id actor) (pa_project_id a) n)" by simp
  qed (use rh ro auth in auto)
  then show ?thesis by (intro bounded_callI[OF inv c]) (simp_all add: t same_system_def)
qed

lemma assignment_changes:
  assumes "custom_role_permissions t = custom_role_permissions s" "permissions t = permissions s"
    and "\<And>a. (a \<in> set (org_role_assignments t)) \<noteq> (a \<in> set (org_role_assignments s)) \<Longrightarrow>
       oa_org_id a = org \<and> (\<forall>n. role_has s (oa_role_id a) n \<longrightarrow> holds_org s actor org n)"
    and "\<And>a. (a \<in> set (project_role_assignments t)) \<noteq> (a \<in> set (project_role_assignments s)) \<Longrightarrow>
       (pa_project_id a, org) \<in> proj_orgs s \<and>
       (\<forall>n. role_has s (pa_role_id a) n \<longrightarrow> holds_project s actor (pa_project_id a) n)"
  shows "changes_within s t actor org"
  by (rule changes_withinI[OF _ assms(3,4)]) (simp_all add: role_has_def assms(1,2))

lemma assign_project_bounded:
  assumes inv: "db_inv s" and q: "AssignCustomRoleToProject ctx x rx s = (Inr (), t)"
  shows "bounded_call ctx s t"
proof (rule AssignCustomRoleToProject_InrE[OF inv q])
  fix sess actor pr r a
  assume c: "ctx = Some sess" "acted s sess actor pr"
    and auth: "\<forall>n. role_has s (rol_id r) n \<longrightarrow> isProjectScope n \<and> holds_project s (usr_id actor) (prj_id pr) n"
    and t: "t = s\<lparr>project_role_assignments := project_role_assignments s @ [a], locks := []\<rparr>"
    and a: "pa_project_id a = prj_id pr" "pa_role_id a = rol_id r"
  have "changes_within s t (usr_id actor) (prj_org_id pr)"
    by (rule assignment_changes) (use auth a acted_project[OF c(2)] in \<open>auto simp: t\<close>)
  then show ?thesis by (intro bounded_callI[OF inv c]) (simp_all add: t same_system_def)
qed

lemma unassign_project_bounded:
  assumes inv: "db_inv s" and q: "UnassignCustomRoleFromProject ctx x rx s = (Inr (), t)"
  shows "bounded_call ctx s t"
proof (rule UnassignCustomRoleFromProject_InrE[OF inv q])
  fix sess actor pr r keep
  assume c: "ctx = Some sess" "acted s sess actor pr"
    and auth: "\<forall>n. role_has s (rol_id r) n \<longrightarrow> holds_project s (usr_id actor) (prj_id pr) n"
    and t: "t = s\<lparr>project_role_assignments := filter keep (project_role_assignments s), locks := []\<rparr>"
    and k: "\<forall>a. \<not> keep a \<longrightarrow> pa_project_id a = prj_id pr \<and> pa_role_id a = rol_id r \<and>
       (\<exists>u \<in> set (users_by_external_id s x). pa_user_id a = usr_id u)"
  have "changes_within s t (usr_id actor) (prj_org_id pr)"
    by (rule assignment_changes) (use auth k acted_project[OF c(2)] in \<open>auto simp: t\<close>)
  then show ?thesis by (intro bounded_callI[OF inv c]) (simp_all add: t same_system_def)
qed

lemma assign_org_bounded:
  assumes inv: "db_inv s" and q: "AssignCustomRoleToOrg ctx x rx s = (Inr (), t)"
  shows "bounded_call ctx s t"
proof (rule AssignCustomRoleToOrg_InrE[OF q])
  fix sess actor pr r a
  assume c: "ctx = Some sess" "acted s sess actor pr"
    and auth: "\<forall>n. role_has s (rol_id r) n \<longrightarrow> holds_org s (usr_id actor) (prj_org_id pr) n"
    and t: "t = s\<lparr>org_role_assignments := org_role_assignments s @ [a], locks := []\<rparr>"
    and a: "oa_org_id a = prj_org_id pr" "oa_role_id a = rol_id r"
  have "changes_within s t (usr_id actor) (prj_org_id pr)"
    by (rule assignment_changes) (use auth a in \<open>auto simp: t\<close>)
  then show ?thesis by (intro bounded_callI[OF inv c]) (simp_all add: t same_system_def)
qed

lemma unassign_org_bounded:
  assumes inv: "db_inv s" and q: "UnassignCustomRoleFromOrg ctx x rx s = (Inr (), t)"
  shows "bounded_call ctx s t"
proof (rule UnassignCustomRoleFromOrg_InrE[OF q])
  fix sess actor pr r keep
  assume c: "ctx = Some sess" "acted s sess actor pr"
    and auth: "\<forall>n. role_has s (rol_id r) n \<longrightarrow> holds_org s (usr_id actor) (prj_org_id pr) n"
    and t: "t = s\<lparr>org_role_assignments := filter keep (org_role_assignments s), locks := []\<rparr>"
    and k: "\<forall>a. \<not> keep a \<longrightarrow> oa_org_id a = prj_org_id pr \<and> oa_role_id a = rol_id r \<and>
       (\<exists>u \<in> set (users_by_external_id s x). oa_user_id a = usr_id u)"
  have "changes_within s t (usr_id actor) (prj_org_id pr)"
    by (rule assignment_changes) (use auth k in \<open>auto simp: t\<close>)
  then show ?thesis by (intro bounded_callI[OF inv c]) (simp_all add: t same_system_def)
qed

text \<open>A rename changes nobody's permissions; it is the one call without a permission check of its own.\<close>

lemma rename_keeps_holds:
  assumes inv: "db_inv s" and q: "UpdateCustomRole ctx ur s = (Inr role, t)" and fp: "\<not> ucr_FieldPermissions ur"
  shows "holds_system t = holds_system s" "holds_org t = holds_org s" "holds_project t = holds_project s"
proof -
  obtain g rs where t: "t\<lparr>locks := []\<rparr> = s\<lparr>gen := g, custom_roles := rs, locks := []\<rparr>"
    by (rule UpdateCustomRole_name_InrE[OF inv q fp]) blast
  have "permissions t = permissions s" "custom_role_permissions t = custom_role_permissions s"
    "org_role_assignments t = org_role_assignments s" "project_role_assignments t = project_role_assignments s"
    "system_role_assignments t = system_role_assignments s" "projects t = projects s"
    "system_role_permissions t = system_role_permissions s"
    using arg_cong[OF t, of permissions] arg_cong[OF t, of custom_role_permissions]
      arg_cong[OF t, of org_role_assignments] arg_cong[OF t, of project_role_assignments]
      arg_cong[OF t, of system_role_assignments] arg_cong[OF t, of projects]
      arg_cong[OF t, of system_role_permissions] by simp_all
  then show "holds_system t = holds_system s" "holds_org t = holds_org s" "holds_project t = holds_project s"
    by (simp_all add: fun_eq_iff holds_system_def holds_org_def holds_project_def role_has_def system_role_has_def)
qed

lemma run_role_call_bounded:
  assumes inv: "db_inv s" and q: "run_role_call ctx c s = (Inr (), t)"
  shows "bounded_call ctx s t \<or>
    (holds_system t = holds_system s \<and> holds_org t = holds_org s \<and> holds_project t = holds_project s)"
proof (cases c)
  case (CallUpdate ur)
  with q obtain role where u: "UpdateCustomRole ctx ur s = (Inr role, t)" by (auto simp: andThen_Inr_iff)
  show ?thesis
  proof (cases "ucr_FieldPermissions ur")
    case True
    show ?thesis by (rule disjI1, rule update_bounded[OF inv u True])
  next
    case False
    show ?thesis by (intro disjI2 conjI rename_keeps_holds[OF inv u False])
  qed
qed (use q in \<open>auto simp: andThen_Inr_iff intro: create_bounded[OF inv] modify_bounded[OF inv]
    delete_bounded[OF inv] assign_project_bounded[OF inv] unassign_project_bounded[OF inv]
    assign_org_bounded[OF inv] unassign_org_bounded[OF inv]\<close>)

section \<open>Properties\<close>

text \<open>C1: no successful call of the custom-role service changes a permission the caller does not hold: a
  system permission never changes, an organization permission changes only in the organization of the
  session's project and only if the caller holds it there, and a project permission changes only in a
  project of that organization and only if the caller holds it in that project.\<close>

theorem role_call_within_authority:
  assumes "db_inv s" and "run_role_call ctx c s = (Inr (), t)"
  shows "(\<forall>u n. holds_system t u n = holds_system s u n) \<and>
    (\<forall>u o' n. holds_org t u o' n \<noteq> holds_org s u o' n \<longrightarrow>
      (\<exists>sess actor pr. ctx = Some sess \<and> acted s sess actor pr \<and> o' = prj_org_id pr \<and>
        holds_org s (usr_id actor) o' n)) \<and>
    (\<forall>u j n. holds_project t u j n \<noteq> holds_project s u j n \<longrightarrow>
      (\<exists>sess actor pr. ctx = Some sess \<and> acted s sess actor pr \<and> (j, prj_org_id pr) \<in> proj_orgs s \<and>
        holds_project s (usr_id actor) j n))"
  using run_role_call_bounded[OF assms]
proof
  assume "bounded_call ctx s t"
  then obtain sess actor pr where c: "ctx = Some sess" "acted s sess actor pr"
    and b: "authority_bound s t (usr_id actor) (prj_org_id pr)" unfolding bounded_call_def by blast
  have 1: "\<forall>u n. holds_system t u n = holds_system s u n"
    by (rule b[unfolded authority_bound_def, THEN conjunct1])
  have 2: "o' = prj_org_id pr \<and> holds_org s (usr_id actor) (prj_org_id pr) n"
    if "holds_org t u o' n \<noteq> holds_org s u o' n" for u o' n
    by (rule b[unfolded authority_bound_def, THEN conjunct2, THEN conjunct1, rule_format, OF that])
  have 3: "(j, prj_org_id pr) \<in> proj_orgs s \<and> holds_project s (usr_id actor) j n"
    if "holds_project t u j n \<noteq> holds_project s u j n" for u j n
    by (rule b[unfolded authority_bound_def, THEN conjunct2, THEN conjunct2, rule_format, OF that])
  show ?thesis
    by (intro conjI[OF 1] conjI allI impI; drule 2 3; rule exI[of _ sess], rule exI[of _ actor], rule exI[of _ pr])
      (simp_all add: c)
qed simp

text \<open>The caller's authority is really used: bob (organization administrator) hands the project role to dave.\<close>

theorem role_call_within_authority_witness:
  "let t = snd (run_role_call (Some (demo_session 102 4 2)) (CallAssignProject 104 401) demo_db) in
   holds_project t 4 4 PermissionCustomRoleAssignProject \<and>
   \<not> holds_project demo_db 4 4 PermissionCustomRoleAssignProject \<and>
   (\<exists>actor pr. acted demo_db (demo_session 102 4 2) actor pr \<and>
      holds_project demo_db (usr_id actor) 4 PermissionCustomRoleAssignProject)"
proof -
  let ?r = "run_role_call (Some (demo_session 102 4 2)) (CallAssignProject 104 401) demo_db"
  have "fst ?r = Inr ()" by code_simp
  then have r: "?r = (Inr (), snd ?r)" by (simp add: prod_eq_iff)
  have "\<lparr>pa_user_id = 4, pa_project_id = 4, pa_role_id = 1, pa_org_id = 2\<rparr> \<in>
      set (project_role_assignments (snd ?r))"
    "(1, 2) \<in> set (custom_role_permissions (snd ?r))"
    "(2, PermissionCustomRoleAssignProject) \<in> set (permissions (snd ?r))" by code_simp+
  then have t: "holds_project (snd ?r) 4 4 PermissionCustomRoleAssignProject"
    unfolding holds_project_def role_has_def by force
  have s: "\<not> holds_project demo_db 4 4 PermissionCustomRoleAssignProject"
    by (simp add: holds_project_def holds_org_def holds_system_def role_has_def demo_defs)
  from t s have d: "holds_project (snd ?r) 4 4 PermissionCustomRoleAssignProject \<noteq>
      holds_project demo_db 4 4 PermissionCustomRoleAssignProject" by blast
  from role_call_within_authority[OF demo_db_inv r, THEN conjunct2, THEN conjunct2, rule_format, OF d]
  show ?thesis unfolding Let_def using t s by blast
qed

end
