(* ===== verification/RoleInvariants.thy ===== *)
theory RoleInvariants
  imports RoleAuthority
begin

text \<open>
  Every call of \<open>custom_role.go\<close> keeps the constraints of the schema and the security invariant, a failed
  call changes no table, a managed role keeps its permissions, another organization is never touched,
  and a stale ETag never overwrites a change.
\<close>

section \<open>Constraints\<close>

lemma distinct_map_replace:
  assumes "distinct (map f rs)" "distinct (map k rs)" "\<And>q. q \<in> set rs \<Longrightarrow> k q \<noteq> c \<Longrightarrow> f q \<noteq> f r'"
  shows "distinct (map f (map (\<lambda>q. if k q = c then r' else q) rs))"
  using assms
proof (induction rs)
  case (Cons a rs)
  have "f a \<notin> f ` set rs" "k a \<notin> k ` set rs" using Cons.prems by auto
  moreover have "distinct (map f (map (\<lambda>q. if k q = c then r' else q) rs))"
    using Cons by auto
  moreover have "f r' \<notin> f ` set rs" if "k a = c"
  proof
    assume "f r' \<in> f ` set rs"
    then obtain q where q: "q \<in> set rs" "f q = f r'" by auto
    then have "k q = c" using Cons.prems(3)[of q] by auto
    then show False using that q(1) \<open>k a \<notin> k ` set rs\<close> by auto
  qed
  moreover have "f a \<noteq> f r'" if "k a \<noteq> c" using Cons.prems(3) that by simp
  ultimately show ?case using Cons.prems(3) by (auto simp: image_iff)
qed simp

lemma custom_roles_ok_insert:
  assumes "custom_roles_ok orgs rs" "role_checks r" "\<not> role_conflict r rs" "rol_org_id r \<in> orgs"
  shows "custom_roles_ok orgs (rs @ [r])"
  using assms unfolding custom_roles_ok_def role_checks_def role_conflict_def
  by (auto simp: image_iff)

lemma custom_roles_ok_replace:
  assumes ok: "custom_roles_ok orgs rs" and r: "r \<in> set rs" and chk: "role_checks r'"
    and con: "\<not> role_conflict r' (filter (\<lambda>q. rol_id q \<noteq> rol_id r) rs)"
    and same: "rol_id r' = rol_id r" "rol_external_id r' = rol_external_id r" "rol_org_id r' = rol_org_id r"
      "rol_managed_key r' = rol_managed_key r"
  shows "custom_roles_ok orgs (map (\<lambda>q. if rol_id q = rol_id r then r' else q) rs)"
proof -
  let ?up = "\<lambda>q. if rol_id q = rol_id r then r' else q"
  have ids: "distinct (map rol_id rs)" using ok by (simp add: custom_roles_ok_def)
  have c: "rol_external_id q \<noteq> rol_external_id r' \<and> rol_etag q \<noteq> rol_etag r' \<and>
      (rol_org_id q, toLower (rol_name q)) \<noteq> (rol_org_id r', toLower (rol_name r')) \<and>
      (rol_managed_key r' \<noteq> None \<longrightarrow> (rol_org_id q, rol_managed_key q) \<noteq> (rol_org_id r', rol_managed_key r'))"
    if "q \<in> set rs" "rol_id q \<noteq> rol_id r" for q
    using con that unfolding role_conflict_def by auto
  have key: "rol_managed_key (?up q) = rol_managed_key q" if "q \<in> set rs" for q
    using distinct_key_unique[OF ids that r] same(4) by auto
  have "filter (\<lambda>q. rol_managed_key q \<noteq> None) (map ?up rs) = map ?up (filter (\<lambda>q. rol_managed_key q \<noteq> None) rs)"
    unfolding filter_map comp_def using key
    by (intro arg_cong[where f = "map _"] filter_cong refl) (simp only:)
  moreover have "distinct (map (\<lambda>r. (rol_org_id r, rol_managed_key r)) (map ?up (filter (\<lambda>q. rol_managed_key q \<noteq> None) rs)))"
  proof (rule distinct_map_replace)
    show "distinct (map rol_id (filter (\<lambda>q. rol_managed_key q \<noteq> None) rs))" using ids by (rule distinct_map_filter)
    fix q assume q: "q \<in> set (filter (\<lambda>q. rol_managed_key q \<noteq> None) rs)" "rol_id q \<noteq> rol_id r"
    then have "rol_managed_key q \<noteq> None" "q \<in> set rs" by auto
    with c[of q] q(2) show "(rol_org_id q, rol_managed_key q) \<noteq> (rol_org_id r', rol_managed_key r')"
      by (cases "rol_managed_key r'") auto
  qed (use ok in \<open>simp add: custom_roles_ok_def\<close>)
  moreover have "distinct (map rol_id (map ?up rs))" "distinct (map rol_external_id (map ?up rs))"
    "distinct (map rol_etag (map ?up rs))" "distinct (map (\<lambda>r. (rol_org_id r, toLower (rol_name r))) (map ?up rs))"
    by (rule distinct_map_replace; use ok c same in \<open>simp add: custom_roles_ok_def\<close>)+
  moreover have "\<forall>q \<in> set (map ?up rs). role_name_check (rol_name q) \<and> managed_key_check (rol_managed_key q) \<and>
       rol_org_id q \<in> orgs"
    using ok r chk same by (auto simp: custom_roles_ok_def role_checks_def)
  ultimately show ?thesis unfolding custom_roles_ok_def by presburger
qed

lemma replaced_ids:
  assumes "rol_id r' = rol_id r" "rol_org_id r' = rol_org_id r" "distinct (map rol_id rs)" "r \<in> set rs"
  shows "rol_id ` set (map (\<lambda>q. if rol_id q = rol_id r then r' else q) rs) = rol_id ` set rs"
    "(\<lambda>r. (rol_id r, rol_org_id r)) ` set (map (\<lambda>q. if rol_id q = rol_id r then r' else q) rs) =
      (\<lambda>r. (rol_id r, rol_org_id r)) ` set rs"
proof -
  have *: "(rol_id (if rol_id q = rol_id r then r' else q), rol_org_id (if rol_id q = rol_id r then r' else q)) =
      (rol_id q, rol_org_id q)" if "q \<in> set rs" for q
    using distinct_key_unique[OF assms(3) that assms(4)] assms(1,2) by auto
  then show "(\<lambda>r. (rol_id r, rol_org_id r)) ` set (map (\<lambda>q. if rol_id q = rol_id r then r' else q) rs) =
      (\<lambda>r. (rol_id r, rol_org_id r)) ` set rs"
    unfolding set_map image_image by (intro image_cong) auto
  show "rol_id ` set (map (\<lambda>q. if rol_id q = rol_id r then r' else q) rs) = rol_id ` set rs"
    unfolding set_map image_image using * by (intro image_cong) auto
qed

lemma resolved_registered: "resolve_permissions s ns = Some (ids, names) \<Longrightarrow> set ids \<subseteq> perm_ids s"
  using resolve_permissions_Some(2)[of s ns ids names] by force

lemma create_keeps_inv:
  assumes inv: "db_inv s" and q: "CreateCustomRole ctx cr s = (Inr role, t)" shows "db_inv t"
proof (rule CreateCustomRole_InrE[OF q])
  fix sess actor pr r ids names g
  assume res: "resolve_permissions s (ccr_Permissions cr) = Some (ids, names)" and d: "distinct ids"
    and org: "prj_org_id pr \<in> org_ids s" "rol_org_id r = prj_org_id pr"
    and chk: "role_checks r" and new: "\<not> role_conflict r (custom_roles s)"
    and t: "t = s\<lparr>gen := g, custom_roles := custom_roles s @ [r],
      custom_role_permissions := custom_role_permissions s @ map (Pair (rol_id r)) ids, locks := []\<rparr>"
  have "custom_roles_ok (org_ids s) (custom_roles s @ [r])"
    using inv org chk new by (intro custom_roles_ok_insert) (simp_all add: db_inv_def)
  moreover have "role_permissions_ok (insert (rol_id r) (role_ids s)) (perm_ids s)
      (custom_role_permissions s @ map (Pair (rol_id r)) ids)"
    using inv d resolved_registered[OF res] unreferenced_role(3)[OF inv new_role_id[OF new]]
    by (auto simp: db_inv_def role_permissions_ok_def distinct_map inj_on_def)
  moreover have "org_assignments_ok (set (org_membership s)) (insert (rol_id r, rol_org_id r) (role_orgs s)) (org_role_assignments s)"
    "project_assignments_ok (set (org_membership s)) (insert (rol_id r, rol_org_id r) (role_orgs s)) (proj_orgs s) (project_role_assignments s)"
    using inv unfolding db_inv_def org_assignments_ok_def project_assignments_ok_def by blast+
  ultimately show "db_inv t" using inv by (simp add: t db_inv_def)
qed

text \<open>Writes that replace one role row by a row with the same keys, and the role's permissions.\<close>

lemma replace_keeps_inv:
  assumes inv: "db_inv s" and r: "r \<in> set (custom_roles s)" and chk: "role_checks r'"
    and con: "\<not> role_conflict r' (filter (\<lambda>q. rol_id q \<noteq> rol_id r) (custom_roles s))"
    and same: "rol_id r' = rol_id r" "rol_external_id r' = rol_external_id r" "rol_org_id r' = rol_org_id r"
      "rol_managed_key r' = rol_managed_key r"
    and rps: "role_permissions_ok (role_ids s) (perm_ids s) rps"
    and t: "t = s\<lparr>gen := g, custom_roles := map (\<lambda>q. if rol_id q = rol_id r then r' else q) (custom_roles s),
       custom_role_permissions := rps, locks := l\<rparr>"
  shows "db_inv t"
proof -
  have "distinct (map rol_id (custom_roles s))" using inv by (simp add: db_inv_def custom_roles_ok_def)
  note ids = replaced_ids[OF same(1,3) this r]
  have "custom_roles_ok (org_ids s) (map (\<lambda>q. if rol_id q = rol_id r then r' else q) (custom_roles s))"
    using inv by (intro custom_roles_ok_replace[OF _ r chk con same]) (simp add: db_inv_def)
  moreover have e: "users t = users s" "organizations t = organizations s" "projects t = projects s"
    "org_membership t = org_membership s" "permissions t = permissions s" "custom_role_permissions t = rps"
    "org_role_assignments t = org_role_assignments s" "project_role_assignments t = project_role_assignments s"
    "system_roles t = system_roles s" "system_role_permissions t = system_role_permissions s"
    "system_role_assignments t = system_role_assignments s" "magic_link_tokens t = magic_link_tokens s"
    "refresh_tokens t = refresh_tokens s"
    "custom_roles t = map (\<lambda>q. if rol_id q = rol_id r then r' else q) (custom_roles s)"
    by (simp_all add: t)
  ultimately show ?thesis using inv rps unfolding db_inv_def e ids by blast
qed

lemma updated_role_keys [simp]:
  "rol_id (updated_role pu s r) = rol_id r" "rol_external_id (updated_role pu s r) = rol_external_id r"
  "rol_org_id (updated_role pu s r) = rol_org_id r" "rol_managed_key (updated_role pu s r) = rol_managed_key r"
  "rol_id (touched_role s r) = rol_id r" "rol_external_id (touched_role s r) = rol_external_id r"
  "rol_org_id (touched_role s r) = rol_org_id r" "rol_managed_key (touched_role s r) = rol_managed_key r"
  by (simp_all add: updated_role_def touched_role_def)

lemma update_keeps_inv:
  assumes inv: "db_inv s" and q: "UpdateCustomRole ctx ur s = (Inr role, t)" shows "db_inv t"
proof (cases "ucr_FieldPermissions ur")
  case True
  show ?thesis
  proof (rule UpdateCustomRole_perms_InrE[OF inv q True])
    fix sess actor pr r ids names rps g r'
    assume r: "target_role s (prj_org_id pr) (ucr_ID ur) r"
      and r': "r' = updated_role (updateCustomRoleToPg ur (prj_org_id pr)) s r" "role_checks r'"
        "\<not> role_conflict r' (filter (\<lambda>q. rol_id q \<noteq> rol_id r) (custom_roles s))"
      and t: "t = s\<lparr>gen := g, custom_roles := map (\<lambda>q. if rol_id q = rol_id r then r' else q) (custom_roles s),
         custom_role_permissions := rps, locks := []\<rparr>"
      and res: "resolve_permissions s (ucr_Permissions ur) = Some (ids, names)" "distinct ids"
        "rps = filter (\<lambda>(q, p). q \<noteq> rol_id r) (custom_role_permissions s) @ map (Pair (rol_id r)) ids"
    have "role_permissions_ok (role_ids s) (perm_ids s) rps"
      using inv res(2) resolved_registered[OF res(1)] target_roleD(1)[OF r]
      by (auto simp: res(3) db_inv_def role_permissions_ok_def distinct_map inj_on_def)
    then show "db_inv t"
      by (intro replace_keeps_inv[OF inv target_roleD(1)[OF r] r'(2,3) _ _ _ _ _ t]) (simp_all add: r'(1))
  qed
next
  case False
  show ?thesis
  proof (rule UpdateCustomRole_name_InrE[OF inv q False])
    fix sess p r g r'
    assume r: "target_role s (ap_OrgID p) (ucr_ID ur) r"
      and r': "r' = updated_role (updateCustomRoleToPg ur (ap_OrgID p)) s r" "role_checks r'"
        "\<not> role_conflict r' (filter (\<lambda>q. rol_id q \<noteq> rol_id r) (custom_roles s))"
      and t: "t\<lparr>locks := []\<rparr> = s\<lparr>gen := g, custom_roles := map (\<lambda>q. if rol_id q = rol_id r then r' else q) (custom_roles s), locks := []\<rparr>"
    have "role_permissions_ok (role_ids s) (perm_ids s) (custom_role_permissions s)" using inv by (simp add: db_inv_def)
    then have "db_inv (t\<lparr>locks := []\<rparr>)"
      by (intro replace_keeps_inv[OF inv target_roleD(1)[OF r] r'(2,3), of "custom_role_permissions s" "t\<lparr>locks := []\<rparr>" "[]" g])
        (simp_all add: r'(1) t)
    then show "db_inv t" by simp
  qed
qed

lemma modify_keeps_inv:
  assumes inv: "db_inv s" and q: "ModifyCustomRolePermissions ctx mrp s = (Inr role, t)" shows "db_inv t"
proof (rule ModifyCustomRolePermissions_InrE[OF inv q])
  fix sess actor pr r rs g mp
  assume r: "target_role s (prj_org_id pr) (mrp_ID mrp) r" and mp: "mp = modifyCustomRolePermissionsToPg mrp (prj_org_id pr)"
    and res: "resolve_permissions s (mrp_AddPermissions mrp @ mrp_RemovePermissions mrp) \<noteq> None"
    and t: "t = s\<lparr>gen := g, custom_roles := rs, custom_role_permissions := modified_permissions mp s r, locks := []\<rparr>"
    and rs: "rs = custom_roles s \<and> modified_permissions mp s r = custom_role_permissions s \<or>
      role_checks (touched_role s r) \<and>
      \<not> role_conflict (touched_role s r) (filter (\<lambda>q. rol_id q \<noteq> rol_id r) (custom_roles s)) \<and>
      rs = map (\<lambda>q. if rol_id q = rol_id r then touched_role s r else q) (custom_roles s)"
  have res': "resolve_permissions s (pmp_AddPermissionNames mp @ pmp_RemovePermissionNames mp) \<noteq> None"
    using res by (simp add: mp modifyCustomRolePermissionsToPg_def)
  have "role_permissions_ok (role_ids s) (perm_ids s) (modified_permissions mp s r)"
    unfolding role_permissions_ok_def
  proof (intro conjI ballI)
    show "distinct (modified_permissions mp s r)" by (rule distinct_modified_permissions[OF inv res'])
    fix a assume "a \<in> set (modified_permissions mp s r)"
    moreover obtain k p where a: "a = (k, p)" by (cases a)
    ultimately have "(k, p) \<in> set (custom_role_permissions s) \<or> k = rol_id r \<and> p \<in> perm_ids s"
      unfolding a set_modified_permissions[OF inv res'] by force
    then show "case a of (r, p) \<Rightarrow> r \<in> role_ids s \<and> p \<in> perm_ids s"
      using inv target_roleD(1)[OF r] by (auto simp: a db_inv_def role_permissions_ok_def)
  qed
  note ok = this
  from rs show "db_inv t"
  proof
    assume e: "rs = custom_roles s \<and> modified_permissions mp s r = custom_role_permissions s"
    then have "t = s\<lparr>gen := g, locks := []\<rparr>" by (simp add: t)
    then show ?thesis using inv by (simp add: db_inv_def)
  next
    assume e: "role_checks (touched_role s r) \<and>
      \<not> role_conflict (touched_role s r) (filter (\<lambda>q. rol_id q \<noteq> rol_id r) (custom_roles s)) \<and>
      rs = map (\<lambda>q. if rol_id q = rol_id r then touched_role s r else q) (custom_roles s)"
    show ?thesis
      by (rule replace_keeps_inv[OF inv target_roleD(1)[OF r] _ _ _ _ _ _ ok, of "touched_role s r" t "[]" g])
        (use e in \<open>simp_all add: t\<close>)
  qed
qed

lemma custom_roles_ok_filter: "custom_roles_ok orgs rs \<Longrightarrow> custom_roles_ok orgs (filter P rs)"
proof -
  assume ok: "custom_roles_ok orgs rs"
  have "filter (\<lambda>r. rol_managed_key r \<noteq> None) (filter P rs) = filter P (filter (\<lambda>r. rol_managed_key r \<noteq> None) rs)"
    by (simp add: conj_commute)
  then show ?thesis using ok unfolding custom_roles_ok_def by (auto simp: distinct_map_filter simp del: filter_filter)
qed

lemma assignments_ok_restrict:
  assumes "\<And>k o'. (k, o') \<in> ro \<Longrightarrow> P k \<Longrightarrow> (k, o') \<in> ro'"
  shows "org_assignments_ok m ro as \<Longrightarrow> org_assignments_ok m ro' (filter (\<lambda>a. P (oa_role_id a)) as)"
    "project_assignments_ok m ro po bs \<Longrightarrow> project_assignments_ok m ro' po (filter (\<lambda>a. P (pa_role_id a)) bs)"
  using assms by (simp_all add: org_assignments_ok_def project_assignments_ok_def distinct_map_filter)

lemma delete_keeps_inv:
  assumes inv: "db_inv s" and q: "DeleteCustomRole ctx x s = (Inr (), t)" shows "db_inv t"
proof (rule DeleteCustomRole_InrE[OF inv q])
  fix sess actor pr r
  let ?keep = "\<lambda>q. \<not> (rol_external_id q = x \<and> rol_org_id q = prj_org_id pr)"
  assume r: "target_role s (prj_org_id pr) x r"
    and t: "t = s\<lparr>project_role_assignments := filter (\<lambda>a. pa_role_id a \<noteq> rol_id r) (project_role_assignments s),
          org_role_assignments := filter (\<lambda>a. oa_role_id a \<noteq> rol_id r) (org_role_assignments s),
          custom_role_permissions := filter (\<lambda>(q, p). q \<noteq> rol_id r) (custom_role_permissions s),
          custom_roles := filter ?keep (custom_roles s), locks := []\<rparr>"
  have one: "q = r" if "q \<in> set (custom_roles s)" "\<not> ?keep q" for q
    using that r org_role_member(1)[of q s "prj_org_id pr" x] by (simp add: target_role_def)
  have ro: "(k, o') \<in> role_orgs s \<Longrightarrow> k \<noteq> rol_id r \<Longrightarrow>
      (k, o') \<in> (\<lambda>r. (rol_id r, rol_org_id r)) ` set (filter ?keep (custom_roles s))" for k o'
    using one by force
  have ri: "k \<in> role_ids s \<Longrightarrow> k \<noteq> rol_id r \<Longrightarrow> k \<in> rol_id ` set (filter ?keep (custom_roles s))" for k
    using one by force
  have oa: "org_assignments_ok (set (org_membership s)) (role_orgs s) (org_role_assignments s)"
    and pa: "project_assignments_ok (set (org_membership s)) (role_orgs s) (proj_orgs s) (project_role_assignments s)"
    using inv by (simp_all add: db_inv_def)
  have "custom_roles_ok (org_ids s) (filter ?keep (custom_roles s))"
    using inv by (intro custom_roles_ok_filter) (simp add: db_inv_def)
  moreover have "role_permissions_ok (rol_id ` set (filter ?keep (custom_roles s))) (perm_ids s)
      (filter (\<lambda>(q, p). q \<noteq> rol_id r) (custom_role_permissions s))"
    using inv ri unfolding db_inv_def role_permissions_ok_def by fastforce
  moreover have "org_assignments_ok (set (org_membership s))
      ((\<lambda>r. (rol_id r, rol_org_id r)) ` set (filter ?keep (custom_roles s)))
      (filter (\<lambda>a. oa_role_id a \<noteq> rol_id r) (org_role_assignments s))"
    by (rule assignments_ok_restrict(1)[where P = "\<lambda>k. k \<noteq> rol_id r", OF ro oa])
  moreover have "project_assignments_ok (set (org_membership s))
      ((\<lambda>r. (rol_id r, rol_org_id r)) ` set (filter ?keep (custom_roles s))) (proj_orgs s)
      (filter (\<lambda>a. pa_role_id a \<noteq> rol_id r) (project_role_assignments s))"
    by (rule assignments_ok_restrict(2)[where P = "\<lambda>k. k \<noteq> rol_id r", OF ro pa])
  ultimately show "db_inv t" using inv by (simp add: t db_inv_def)
qed

lemma assign_project_keeps_inv:
  assumes inv: "db_inv s" and q: "AssignCustomRoleToProject ctx x rx s = (Inr (), t)" shows "db_inv t"
proof (rule AssignCustomRoleToProject_InrE[OF inv q])
  fix sess actor pr r a
  assume c: "acted s sess actor pr" and r: "target_role s (prj_org_id pr) rx r"
    and t: "t = s\<lparr>project_role_assignments := project_role_assignments s @ [a], locks := []\<rparr>"
    and a: "pa_project_id a = prj_id pr" "pa_role_id a = rol_id r" "pa_org_id a = prj_org_id pr"
      "\<forall>b \<in> set (project_role_assignments s). (pa_user_id b, pa_project_id b, pa_role_id b) \<noteq>
       (pa_user_id a, pa_project_id a, pa_role_id a)" "(pa_org_id a, pa_user_id a) \<in> set (org_membership s)"
  have "(pa_role_id a, pa_org_id a) \<in> role_orgs s" "(pa_project_id a, pa_org_id a) \<in> proj_orgs s"
    using target_in_org[OF r] acted_project[OF c] by (simp_all only: a)
  moreover have "(pa_user_id a, pa_project_id a, pa_role_id a) \<notin>
      (\<lambda>a. (pa_user_id a, pa_project_id a, pa_role_id a)) ` set (project_role_assignments s)"
    using a(4) by (simp only: image_iff) metis
  ultimately have "project_assignments_ok (set (org_membership s)) (role_orgs s) (proj_orgs s) (project_role_assignments s @ [a])"
    using inv a(5) by (simp add: db_inv_def project_assignments_ok_def)
  then show "db_inv t" using inv by (simp add: t db_inv_def)
qed

lemma unassign_project_keeps_inv:
  assumes inv: "db_inv s" and q: "UnassignCustomRoleFromProject ctx x rx s = (Inr (), t)" shows "db_inv t"
proof (rule UnassignCustomRoleFromProject_InrE[OF inv q])
  fix keep assume t: "t = s\<lparr>project_role_assignments := filter keep (project_role_assignments s), locks := []\<rparr>"
  have "project_assignments_ok m ro po (project_role_assignments s) \<Longrightarrow>
      project_assignments_ok m ro po (filter keep (project_role_assignments s))" for m ro po
    by (simp add: project_assignments_ok_def distinct_map_filter)
  then show "db_inv t" using inv by (simp add: t db_inv_def)
qed

lemma assign_org_keeps_inv:
  assumes inv: "db_inv s" and q: "AssignCustomRoleToOrg ctx x rx s = (Inr (), t)" shows "db_inv t"
proof (rule AssignCustomRoleToOrg_InrE[OF q])
  fix sess actor pr r a
  assume r: "target_role s (prj_org_id pr) rx r"
    and t: "t = s\<lparr>org_role_assignments := org_role_assignments s @ [a], locks := []\<rparr>"
    and a: "oa_org_id a = prj_org_id pr" "oa_role_id a = rol_id r" "a \<notin> set (org_role_assignments s)"
      "(prj_org_id pr, oa_user_id a) \<in> set (org_membership s)"
  have "(oa_role_id a, oa_org_id a) \<in> role_orgs s" using target_in_org[OF r] by (simp only: a)
  then have "org_assignments_ok (set (org_membership s)) (role_orgs s) (org_role_assignments s @ [a])"
    using inv a(3,4) by (simp add: db_inv_def org_assignments_ok_def a(1))
  then show "db_inv t" using inv by (simp add: t db_inv_def)
qed

lemma unassign_org_keeps_inv:
  assumes inv: "db_inv s" and q: "UnassignCustomRoleFromOrg ctx x rx s = (Inr (), t)" shows "db_inv t"
proof (rule UnassignCustomRoleFromOrg_InrE[OF q])
  fix keep assume t: "t = s\<lparr>org_role_assignments := filter keep (org_role_assignments s), locks := []\<rparr>"
  have "org_assignments_ok m ro (org_role_assignments s) \<Longrightarrow>
      org_assignments_ok m ro (filter keep (org_role_assignments s))" for m ro
    by (simp add: org_assignments_ok_def)
  then show "db_inv t" using inv by (simp add: t db_inv_def)
qed

lemmas role_calls_keep_inv = create_keeps_inv update_keeps_inv modify_keeps_inv delete_keeps_inv
  assign_project_keeps_inv unassign_project_keeps_inv assign_org_keeps_inv unassign_org_keeps_inv

lemma run_role_call_Inr_inv:
  assumes inv: "db_inv s" and q: "run_role_call ctx c s = (Inr (), t)" shows "db_inv t"
  using q by (cases c) (auto simp: andThen_Inr_iff intro: role_calls_keep_inv[OF inv])

section \<open>Failed calls\<close>

definition same_tables :: "db \<Rightarrow> db \<Rightarrow> bool" where
  "same_tables s t \<longleftrightarrow> (\<exists>g l. t = s\<lparr>gen := g, locks := l\<rparr>)"

lemma same_tablesI: "t = s\<lparr>gen := g, locks := l\<rparr> \<Longrightarrow> same_tables s t"
  by (auto simp: same_tables_def)

lemma same_tables_refl [simp]: "same_tables s s"
  by (rule same_tablesI[of s "locks s" "gen s" s]) simp

lemma same_tables_run_tx: "run_tx m s = (Inl e, t) \<Longrightarrow> same_tables s t"
  unfolding run_tx_Inl_iff same_tables_def by blast

lemma same_tables_atomic: "atomic m s = (Inl e, t) \<Longrightarrow> same_tables s t"
proof -
  assume "atomic m s = (Inl e, t)"
  then obtain g where "t = s\<lparr>gen := g\<rparr>" by (auto simp: atomic_Inl_iff)
  then have "t = s\<lparr>gen := g, locks := locks s\<rparr>" by simp
  then show "same_tables s t" by (rule same_tablesI)
qed

lemma same_tables_onError: "onError f m s = (Inl e, t) \<Longrightarrow> (\<And>d. m s = (Inl d, t) \<Longrightarrow> same_tables s t) \<Longrightarrow> same_tables s t"
  by (auto simp: onError_Inl_iff)

lemma projectSession_Inl: "projectSession ctx s = (Inl e, t) \<Longrightarrow> t = s"
  by (auto simp: projectSession_def split: option.splits)

lemma customRoleFromPg_total: "managed_key_check (pcr_ManagedKey r) \<Longrightarrow> customRoleFromPg r \<noteq> Inl e"
  by (auto simp: managed_key_check_def customRoleFromPg_def Let_def)

lemma pg_CreateCustomRole_key:
  "pg_CreateCustomRole cr s = (Inr role, t) \<Longrightarrow> managed_key_check (pcr_ManagedKey role)"
  using createCustomRole_Inr[of cr None s role t] by (auto simp: pg_CreateCustomRole_def managed_key_check_def)

lemma pg_UpdateCustomRole_key:
  assumes "db_inv s" "pg_UpdateCustomRole (updateCustomRoleToPg ur o') (s\<lparr>locks := l\<rparr>) = (Inr role, t)"
  shows "managed_key_check (pcr_ManagedKey role)"
  by (rule pg_UpdateCustomRole_InrE[OF assms]) (simp add: role_checks_def)

lemma pg_ModifyCustomRolePermissions_key:
  assumes inv: "db_inv s"
    and q: "pg_ModifyCustomRolePermissions (modifyCustomRolePermissionsToPg mrp o') (s\<lparr>locks := l\<rparr>) = (Inr role, t)"
  shows "managed_key_check (pcr_ManagedKey role)"
proof -
  from q obtain row where row: "row \<in> set (custom_roles t)" and role: "pcr_ManagedKey role = rol_managed_key row"
    by (auto simp: pg_ModifyCustomRolePermissions_def andThen_Inr_iff customRoleByExternalIDQuery_def queueOne_reads
        map_eq_Cons_conv) (metis list.set_intros(1) org_role_member(1))
  have keys: "managed_key_check (rol_managed_key r)" if "r \<in> set (custom_roles s)" for r
    using inv that by (simp add: db_inv_def custom_roles_ok_def)
  show ?thesis
  proof (rule pg_ModifyCustomRolePermissions_InrE[OF inv q])
    fix r rs g
    assume t: "t\<lparr>locks := []\<rparr> = s\<lparr>gen := g, custom_roles := rs, custom_role_permissions :=
         modified_permissions (modifyCustomRolePermissionsToPg mrp o') s r, locks := []\<rparr>"
      and rs: "rs = custom_roles s \<and> modified_permissions (modifyCustomRolePermissionsToPg mrp o') s r = custom_role_permissions s \<or>
        role_checks (touched_role s r) \<and>
        \<not> role_conflict (touched_role s r) (filter (\<lambda>q. rol_id q \<noteq> rol_id r) (custom_roles s)) \<and>
        rs = map (\<lambda>q. if rol_id q = rol_id r then touched_role s r else q) (custom_roles s)"
    have "custom_roles t = rs" using arg_cong[OF t, of custom_roles] by simp
    with rs keys row role show ?thesis by (auto simp: role_checks_def split: if_splits)
  qed
qed

text \<open>The inner transaction of a permission change ends in a row whose key the conversion knows.\<close>

lemma tx_then_conversion:
  assumes "andThen (run_tx m) (\<lambda>role. liftS (customRoleFromPg role)) s = (Inl e, t)"
    and "\<And>role u. m s = (Inr role, u) \<Longrightarrow> managed_key_check (pcr_ManagedKey role)"
  shows "same_tables s t"
  using assms customRoleFromPg_total
  by (auto simp: andThen_Inl_iff same_tables_def)

lemma projectSession_failed:
  assumes "andThen (projectSession ctx) (\<lambda>(sess, p). andThen (liftS v) (\<lambda>_. k sess p)) s = (Inl e, t)"
    and "\<And>sess p. as_Project sess = Some p \<Longrightarrow> k sess p s = (Inl e, t) \<Longrightarrow> same_tables s t"
  shows "same_tables s t"
  using assms by (auto simp: andThen_Inl_iff dest: projectSession_Inl)

lemma create_failed:
  assumes "CreateCustomRole ctx cr s = (Inl e, t)" shows "same_tables s t"
  using assms unfolding CreateCustomRole_def
proof (rule projectSession_failed, elim tx_then_conversion)
qed (auto simp: andThen_Inr_iff dest: pg_CreateCustomRole_key split: if_splits)

lemma delete_failed: "DeleteCustomRole ctx x s = (Inl e, t) \<Longrightarrow> same_tables s t"
  unfolding DeleteCustomRole_def andThen_Inl_iff[of "projectSession ctx"]
  by (auto dest: projectSession_Inl simp del: run_tx_Inl_iff intro: same_tables_run_tx)

lemma assign_failed:
  "AssignCustomRoleToProject ctx x rx s = (Inl e, t) \<Longrightarrow> same_tables s t"
  "UnassignCustomRoleFromProject ctx x rx s = (Inl e, t) \<Longrightarrow> same_tables s t"
  "AssignCustomRoleToOrg ctx x rx s = (Inl e, t) \<Longrightarrow> same_tables s t"
  "UnassignCustomRoleFromOrg ctx x rx s = (Inl e, t) \<Longrightarrow> same_tables s t"
  unfolding AssignCustomRoleToProject_def UnassignCustomRoleFromProject_def AssignCustomRoleToOrg_def
    UnassignCustomRoleFromOrg_def andThen_Inl_iff[of "projectSession ctx"]
  by (auto dest: projectSession_Inl simp del: run_tx_Inl_iff intro: same_tables_run_tx)

lemma locked_context:
  assumes "customRolePermChangeContext u p x s = (Inr (ps, role), v)" obtains l where "v = s\<lparr>locks := l\<rparr>"
  using assms
  by (auto simp: customRolePermChangeContext_def andThen_Inr_iff LockCustomRole_eq CustomRoleByExternalID_iff
      dest!: OrgPermissionsByProjectID_Inr(1))

lemma modify_failed:
  assumes inv: "db_inv s" and q: "ModifyCustomRolePermissions ctx mrp s = (Inl e, t)" shows "same_tables s t"
  using q unfolding ModifyCustomRolePermissions_def Let_def
proof (rule projectSession_failed, elim tx_then_conversion)
qed (auto simp: andThen_Inr_iff split: if_splits elim!: locked_context dest!: validateScope_Inr(1)
    intro: pg_ModifyCustomRolePermissions_key[OF inv])

lemma update_failed:
  assumes inv: "db_inv s" and q: "UpdateCustomRole ctx ur s = (Inl e, t)" shows "same_tables s t"
proof (cases "ucr_FieldPermissions ur")
  case True
  with q have "UpdateCustomRole ctx ur s = (Inl e, t)" by simp
  then show ?thesis unfolding UpdateCustomRole_def if_P[OF True]
  proof (rule projectSession_failed, elim tx_then_conversion)
  qed (auto simp: andThen_Inr_iff split: if_splits elim!: locked_context dest!: validateScope_Inr(1)
      intro: pg_UpdateCustomRole_key[OF inv])
next
  case False
  have key: "managed_key_check (pcr_ManagedKey role)" if "pg_UpdateCustomRole (updateCustomRoleToPg ur o') s = (Inr role, u)" for o' role u
    using pg_UpdateCustomRole_key[OF inv, of ur o' "locks s" role u] that by simp
  have pg: "same_tables s u" if "pg_UpdateCustomRole pu s = (Inl d, u)" for pu d u
    using that unfolding pg_UpdateCustomRole_def RunBatchTx_def by (rule same_tables_atomic)
  from q show ?thesis unfolding UpdateCustomRole_def if_not_P[OF False]
    by (rule projectSession_failed)
      (auto simp: andThen_Inl_iff onError_Inl_iff dest: pg key customRoleFromPg_total)
qed

lemma run_role_call_failed:
  assumes inv: "db_inv s" and q: "run_role_call ctx c s = (Inl e, t)" shows "same_tables s t"
  using q by (cases c) (auto simp: andThen_Inl_iff
      intro: create_failed update_failed[OF inv] modify_failed[OF inv] delete_failed assign_failed)

text \<open>C6: a call of the custom-role service that fails, for whatever reason, leaves every table as it was.\<close>

theorem failed_role_call_changes_nothing:
  assumes inv: "db_inv s" and q: "run_role_call ctx c s = (Inl e, t)"
  shows "\<exists>g l. t = s\<lparr>gen := g, locks := l\<rparr>"
  using run_role_call_failed[OF assms] by (simp only: same_tables_def)

theorem failed_role_call_changes_nothing_witness:
  "\<exists>g l. snd (run_role_call (Some (demo_session 103 4 2)) (CallAssignOrg 104 402) demo_db) =
     demo_db\<lparr>gen := g, locks := l\<rparr> \<and>
   fst (run_role_call (Some (demo_session 103 4 2)) (CallAssignOrg 104 402) demo_db) = Inl ErrPermissionDenied"
proof -
  let ?r = "run_role_call (Some (demo_session 103 4 2)) (CallAssignOrg 104 402) demo_db"
  have e: "fst ?r = Inl ErrPermissionDenied" by code_simp
  then have "?r = (Inl ErrPermissionDenied, snd ?r)" by (simp add: prod_eq_iff)
  from failed_role_call_changes_nothing[OF demo_db_inv this] e show ?thesis by blast
qed

text \<open>C3: every call of the custom-role service, successful or not, keeps every constraint of the schema:
  keys and ETags stay unique, role names stay unique per organization up to case, every foreign key
  resolves, an assignment never crosses organizations.\<close>

theorem role_call_keeps_constraints:
  assumes "db_inv s" shows "db_inv (snd (run_role_call ctx c s))"
proof (cases "run_role_call ctx c s")
  case (Pair r t)
  show ?thesis
  proof (cases r)
    case (Inl e)
    then show ?thesis using assms Pair run_role_call_failed[OF assms, of ctx c e t]
      by (auto simp: same_tables_def db_inv_def)
  next
    case (Inr u)
    then show ?thesis using run_role_call_Inr_inv[OF assms, of ctx c t] Pair by simp
  qed
qed

theorem role_call_keeps_constraints_witness:
  "let cr = \<lparr>ccr_Name = ''Auditor'', ccr_Permissions = [PermissionCustomRoleCreate]\<rparr> in
   fst (run_role_call (Some (demo_session 102 4 2)) (CallCreate cr) demo_db) = Inr () \<and>
   db_inv (snd (run_role_call (Some (demo_session 102 4 2)) (CallCreate cr) demo_db))"
  unfolding Let_def
  by (rule conjI, code_simp, rule role_call_keeps_constraints[OF demo_db_inv])

end
