(* ===== verification/RoleSafety.thy ===== *)
theory RoleSafety
  imports RoleInvariants
begin

text \<open>
  What a successful call leaves alone: \<open>touches_only\<close> says which organization and which role it worked on.
  Tenant isolation, the immutability of managed roles, the scope invariant and the ETag protocol follow.
\<close>

section \<open>The touched organization and role\<close>

definition touches_only :: "db \<Rightarrow> db \<Rightarrow> int \<Rightarrow> int \<Rightarrow> bool" where
  "touches_only s t org k \<longleftrightarrow>
    filter (\<lambda>r. rol_org_id r \<noteq> org) (custom_roles t) = filter (\<lambda>r. rol_org_id r \<noteq> org) (custom_roles s) \<and>
    filter (\<lambda>(q, p). q \<noteq> k) (custom_role_permissions t) = filter (\<lambda>(q, p). q \<noteq> k) (custom_role_permissions s) \<and>
    filter (\<lambda>a. oa_org_id a \<noteq> org) (org_role_assignments t) = filter (\<lambda>a. oa_org_id a \<noteq> org) (org_role_assignments s) \<and>
    filter (\<lambda>a. pa_org_id a \<noteq> org) (project_role_assignments t) = filter (\<lambda>a. pa_org_id a \<noteq> org) (project_role_assignments s) \<and>
    (k \<in> role_ids s \<longrightarrow> (k, org) \<in> role_orgs s)"

definition session_org :: "db \<Rightarrow> AuthSession \<Rightarrow> int \<Rightarrow> bool" where
  "session_org s sess org \<longleftrightarrow> (\<exists>p. as_Project sess = Some p \<and> ((ap_ID p, org) \<in> proj_orgs s \<or> ap_OrgID p = org))"

lemma acted_session_org: "acted s sess actor pr \<Longrightarrow> session_org s sess (prj_org_id pr)"
  unfolding acted_def session_org_def by force

lemma filter_replaced:
  assumes "\<And>q. q \<in> set xs \<Longrightarrow> \<not> P q \<Longrightarrow> f q = q" "\<And>q. q \<in> set xs \<Longrightarrow> P q \<Longrightarrow> P (f q)"
  shows "filter (\<lambda>q. \<not> P q) (map f xs) = filter (\<lambda>q. \<not> P q) xs"
  using assms by (induction xs) auto

lemma replaced_outside:
  assumes "r \<in> set rs" "rol_org_id r = org" "rol_org_id r' = org" "distinct (map rol_id rs)"
  shows "filter (\<lambda>q. rol_org_id q \<noteq> org) (map (\<lambda>q. if rol_id q = rol_id r then r' else q) rs) =
    filter (\<lambda>q. rol_org_id q \<noteq> org) rs"
proof (rule filter_replaced)
  fix q assume "q \<in> set rs" "rol_org_id q \<noteq> org"
  then show "(if rol_id q = rol_id r then r' else q) = q"
    using distinct_key_unique[OF assms(4) _ assms(1), of q] assms(2) by auto
qed (use assms(3) in auto)

lemma filter_swallow:
  assumes "\<And>a. a \<in> set xs \<Longrightarrow> \<not> K a \<Longrightarrow> \<not> P a" shows "filter P (filter K xs) = filter P xs"
  using assms by (induction xs) auto

lemma role_ids_distinct: "db_inv s \<Longrightarrow> distinct (map rol_id (custom_roles s))"
  by (simp add: db_inv_def custom_roles_ok_def)

lemma target_assignments:
  assumes inv: "db_inv s" and r: "target_role s org x r"
  shows "a \<in> set (org_role_assignments s) \<Longrightarrow> oa_role_id a = rol_id r \<Longrightarrow> oa_org_id a = org"
    "b \<in> set (project_role_assignments s) \<Longrightarrow> pa_role_id b = rol_id r \<Longrightarrow> pa_org_id b = org"
  using role_org_unique[OF inv assignment_fks(1)[OF inv]] role_org_unique[OF inv assignment_fks(2)[OF inv]]
    target_in_org[OF r] by metis+

lemma update_touches:
  assumes inv: "db_inv s" and q: "UpdateCustomRole (Some sess) ur s = (Inr role, t)"
  shows "\<exists>org k. session_org s sess org \<and> touches_only s t org k"
proof (cases "ucr_FieldPermissions ur")
  case True
  show ?thesis
  proof (rule UpdateCustomRole_perms_InrE[OF inv q True])
    fix sess' actor pr r ids names rps g r'
    assume c: "Some sess = Some sess'" "acted s sess' actor pr" and r: "target_role s (prj_org_id pr) (ucr_ID ur) r"
      and r': "r' = updated_role (updateCustomRoleToPg ur (prj_org_id pr)) s r"
      and t: "t = s\<lparr>gen := g, custom_roles := map (\<lambda>q. if rol_id q = rol_id r then r' else q) (custom_roles s),
         custom_role_permissions := rps, locks := []\<rparr>"
        "rps = filter (\<lambda>(q, p). q \<noteq> rol_id r) (custom_role_permissions s) @ map (Pair (rol_id r)) ids"
    have "filter (\<lambda>q. rol_org_id q \<noteq> prj_org_id pr) (map (\<lambda>q. if rol_id q = rol_id r then r' else q) (custom_roles s)) =
        filter (\<lambda>q. rol_org_id q \<noteq> prj_org_id pr) (custom_roles s)"
      using target_roleD[OF r] by (intro replaced_outside role_ids_distinct[OF inv]) (simp_all add: r')
    then have "touches_only s t (prj_org_id pr) (rol_id r)"
      using target_in_org[OF r] by (simp add: touches_only_def t filter_map comp_def case_prod_unfold)
    then show ?thesis using acted_session_org[OF c(2)] c(1) by blast
  qed
next
  case False
  show ?thesis
  proof (rule UpdateCustomRole_name_InrE[OF inv q False])
    fix sess' p r g r'
    assume c: "Some sess = Some sess'" "as_Project sess' = Some p" and r: "target_role s (ap_OrgID p) (ucr_ID ur) r"
      and r': "r' = updated_role (updateCustomRoleToPg ur (ap_OrgID p)) s r"
      and t: "t\<lparr>locks := []\<rparr> = s\<lparr>gen := g, custom_roles := map (\<lambda>q. if rol_id q = rol_id r then r' else q) (custom_roles s), locks := []\<rparr>"
    have "filter (\<lambda>q. rol_org_id q \<noteq> ap_OrgID p) (map (\<lambda>q. if rol_id q = rol_id r then r' else q) (custom_roles s)) =
        filter (\<lambda>q. rol_org_id q \<noteq> ap_OrgID p) (custom_roles s)"
      using target_roleD[OF r] by (intro replaced_outside role_ids_distinct[OF inv]) (simp_all add: r')
    then have "touches_only s (t\<lparr>locks := []\<rparr>) (ap_OrgID p) (rol_id r)"
      using target_in_org[OF r] by (simp add: touches_only_def t)
    then have "touches_only s t (ap_OrgID p) (rol_id r)" by (simp add: touches_only_def)
    then show ?thesis using c unfolding session_org_def by blast
  qed
qed

lemma modify_touches:
  assumes inv: "db_inv s" and q: "ModifyCustomRolePermissions (Some sess) mrp s = (Inr role, t)"
  shows "\<exists>org k. session_org s sess org \<and> touches_only s t org k"
proof (rule ModifyCustomRolePermissions_InrE[OF inv q])
  fix sess' actor pr r rs g mp
  assume c: "Some sess = Some sess'" "acted s sess' actor pr" and r: "target_role s (prj_org_id pr) (mrp_ID mrp) r"
    and t: "t = s\<lparr>gen := g, custom_roles := rs, custom_role_permissions := modified_permissions mp s r, locks := []\<rparr>"
    and rs: "rs = custom_roles s \<and> modified_permissions mp s r = custom_role_permissions s \<or>
      role_checks (touched_role s r) \<and>
      \<not> role_conflict (touched_role s r) (filter (\<lambda>q. rol_id q \<noteq> rol_id r) (custom_roles s)) \<and>
      rs = map (\<lambda>q. if rol_id q = rol_id r then touched_role s r else q) (custom_roles s)"
  have "filter (\<lambda>q. rol_org_id q \<noteq> prj_org_id pr) (map (\<lambda>q. if rol_id q = rol_id r then touched_role s r else q) (custom_roles s)) =
      filter (\<lambda>q. rol_org_id q \<noteq> prj_org_id pr) (custom_roles s)"
    using target_roleD[OF r] by (intro replaced_outside role_ids_distinct[OF inv]) simp_all
  with rs have 1: "filter (\<lambda>q. rol_org_id q \<noteq> prj_org_id pr) rs = filter (\<lambda>q. rol_org_id q \<noteq> prj_org_id pr) (custom_roles s)"
    by (elim disjE) simp_all
  have 2: "filter (\<lambda>(q, p). q \<noteq> rol_id r) (modified_permissions mp s r) =
      filter (\<lambda>(q, p). q \<noteq> rol_id r) (custom_role_permissions s)"
    unfolding modified_permissions_def Let_def filter_append
    by (subst filter_swallow) (auto simp: filter_empty_conv)
  have "touches_only s t (prj_org_id pr) (rol_id r)"
    using target_in_org[OF r] by (simp add: touches_only_def t 1 2)
  then show ?thesis using acted_session_org[OF c(2)] c(1) by blast
qed

lemma create_touches:
  assumes inv: "db_inv s" and q: "CreateCustomRole (Some sess) cr s = (Inr role, t)"
  shows "\<exists>org k. session_org s sess org \<and> touches_only s t org k"
proof (rule CreateCustomRole_InrE[OF q])
  fix sess' actor pr r ids names g
  assume c: "Some sess = Some sess'" "acted s sess' actor pr"
    and r: "\<not> role_conflict r (custom_roles s)" "rol_org_id r = prj_org_id pr"
    and t: "t = s\<lparr>gen := g, custom_roles := custom_roles s @ [r],
      custom_role_permissions := custom_role_permissions s @ map (Pair (rol_id r)) ids, locks := []\<rparr>"
  have "touches_only s t (prj_org_id pr) (rol_id r)"
    using new_role_id[OF r(1)] r(2) by (simp add: touches_only_def t filter_map comp_def)
  then show ?thesis using acted_session_org[OF c(2)] c(1) by blast
qed

lemma delete_touches:
  assumes inv: "db_inv s" and q: "DeleteCustomRole (Some sess) x s = (Inr (), t)"
  shows "\<exists>org k. session_org s sess org \<and> touches_only s t org k"
proof (rule DeleteCustomRole_InrE[OF inv q])
  fix sess' actor pr r
  assume c: "Some sess = Some sess'" "acted s sess' actor pr" and r: "target_role s (prj_org_id pr) x r"
    and t: "t = s\<lparr>project_role_assignments := filter (\<lambda>a. pa_role_id a \<noteq> rol_id r) (project_role_assignments s),
          org_role_assignments := filter (\<lambda>a. oa_role_id a \<noteq> rol_id r) (org_role_assignments s),
          custom_role_permissions := filter (\<lambda>(q, p). q \<noteq> rol_id r) (custom_role_permissions s),
          custom_roles := filter (\<lambda>q. \<not> (rol_external_id q = x \<and> rol_org_id q = prj_org_id pr)) (custom_roles s),
          locks := []\<rparr>"
  note ta = target_assignments[OF inv r]
  have "filter (\<lambda>r. rol_org_id r \<noteq> prj_org_id pr) (filter (\<lambda>q. \<not> (rol_external_id q = x \<and> rol_org_id q = prj_org_id pr)) (custom_roles s)) =
      filter (\<lambda>r. rol_org_id r \<noteq> prj_org_id pr) (custom_roles s)"
    "filter (\<lambda>a. oa_org_id a \<noteq> prj_org_id pr) (filter (\<lambda>a. oa_role_id a \<noteq> rol_id r) (org_role_assignments s)) =
      filter (\<lambda>a. oa_org_id a \<noteq> prj_org_id pr) (org_role_assignments s)"
    "filter (\<lambda>a. pa_org_id a \<noteq> prj_org_id pr) (filter (\<lambda>a. pa_role_id a \<noteq> rol_id r) (project_role_assignments s)) =
      filter (\<lambda>a. pa_org_id a \<noteq> prj_org_id pr) (project_role_assignments s)"
    "filter (\<lambda>(q, p). q \<noteq> rol_id r) (filter (\<lambda>(q, p). q \<noteq> rol_id r) (custom_role_permissions s)) =
      filter (\<lambda>(q, p). q \<noteq> rol_id r) (custom_role_permissions s)"
    using ta by (intro filter_swallow; auto)+
  then have "touches_only s t (prj_org_id pr) (rol_id r)"
    using target_in_org[OF r] by (simp add: touches_only_def t del: filter_filter)
  then show ?thesis using acted_session_org[OF c(2)] c(1) by blast
qed

lemma assign_project_touches:
  assumes inv: "db_inv s" and q: "AssignCustomRoleToProject (Some sess) x rx s = (Inr (), t)"
  shows "\<exists>org k. session_org s sess org \<and> touches_only s t org k"
proof (rule AssignCustomRoleToProject_InrE[OF inv q])
  fix sess' actor pr r a
  assume c: "Some sess = Some sess'" "acted s sess' actor pr" and r: "target_role s (prj_org_id pr) rx r"
    and t: "t = s\<lparr>project_role_assignments := project_role_assignments s @ [a], locks := []\<rparr>"
    and a: "pa_org_id a = prj_org_id pr"
  have "touches_only s t (prj_org_id pr) (rol_id r)"
    using target_in_org[OF r] a by (simp add: touches_only_def t)
  then show ?thesis using acted_session_org[OF c(2)] c(1) by blast
qed

lemma unassign_project_touches:
  assumes inv: "db_inv s" and q: "UnassignCustomRoleFromProject (Some sess) x rx s = (Inr (), t)"
  shows "\<exists>org k. session_org s sess org \<and> touches_only s t org k"
proof (rule UnassignCustomRoleFromProject_InrE[OF inv q])
  fix sess' actor pr r keep
  assume c: "Some sess = Some sess'" "acted s sess' actor pr" and r: "target_role s (prj_org_id pr) rx r"
    and t: "t = s\<lparr>project_role_assignments := filter keep (project_role_assignments s), locks := []\<rparr>"
    and k: "\<forall>a. \<not> keep a \<longrightarrow> pa_project_id a = prj_id pr \<and> pa_role_id a = rol_id r \<and>
       (\<exists>u \<in> set (users_by_external_id s x). pa_user_id a = usr_id u)"
  have "filter (\<lambda>a. pa_org_id a \<noteq> prj_org_id pr) (filter keep (project_role_assignments s)) =
      filter (\<lambda>a. pa_org_id a \<noteq> prj_org_id pr) (project_role_assignments s)"
    using target_assignments(2)[OF inv r] k by (intro filter_swallow) simp
  then have "touches_only s t (prj_org_id pr) (rol_id r)"
    using target_in_org[OF r] by (simp add: touches_only_def t del: filter_filter)
  then show ?thesis using acted_session_org[OF c(2)] c(1) by blast
qed

lemma assign_org_touches:
  assumes inv: "db_inv s" and q: "AssignCustomRoleToOrg (Some sess) x rx s = (Inr (), t)"
  shows "\<exists>org k. session_org s sess org \<and> touches_only s t org k"
proof (rule AssignCustomRoleToOrg_InrE[OF q])
  fix sess' actor pr r a
  assume c: "Some sess = Some sess'" "acted s sess' actor pr" and r: "target_role s (prj_org_id pr) rx r"
    and t: "t = s\<lparr>org_role_assignments := org_role_assignments s @ [a], locks := []\<rparr>"
    and a: "oa_org_id a = prj_org_id pr"
  have "touches_only s t (prj_org_id pr) (rol_id r)"
    using target_in_org[OF r] a by (simp add: touches_only_def t)
  then show ?thesis using acted_session_org[OF c(2)] c(1) by blast
qed

lemma unassign_org_touches:
  assumes inv: "db_inv s" and q: "UnassignCustomRoleFromOrg (Some sess) x rx s = (Inr (), t)"
  shows "\<exists>org k. session_org s sess org \<and> touches_only s t org k"
proof (rule UnassignCustomRoleFromOrg_InrE[OF q])
  fix sess' actor pr r keep
  assume c: "Some sess = Some sess'" "acted s sess' actor pr" and r: "target_role s (prj_org_id pr) rx r"
    and t: "t = s\<lparr>org_role_assignments := filter keep (org_role_assignments s), locks := []\<rparr>"
    and k: "\<forall>a. \<not> keep a \<longrightarrow> oa_org_id a = prj_org_id pr \<and> oa_role_id a = rol_id r \<and>
       (\<exists>u \<in> set (users_by_external_id s x). oa_user_id a = usr_id u)"
  have "filter (\<lambda>a. oa_org_id a \<noteq> prj_org_id pr) (filter keep (org_role_assignments s)) =
      filter (\<lambda>a. oa_org_id a \<noteq> prj_org_id pr) (org_role_assignments s)"
    using k by (intro filter_swallow) simp
  then have "touches_only s t (prj_org_id pr) (rol_id r)"
    using target_in_org[OF r] by (simp add: touches_only_def t del: filter_filter)
  then show ?thesis using acted_session_org[OF c(2)] c(1) by blast
qed

lemma run_role_call_touches:
  assumes inv: "db_inv s" and q: "run_role_call (Some sess) c s = (Inr (), t)"
  shows "\<exists>org k. session_org s sess org \<and> touches_only s t org k"
  using q by (cases c) (auto simp: andThen_Inr_iff simp del: ex_simps intro: create_touches[OF inv] update_touches[OF inv]
      modify_touches[OF inv] delete_touches[OF inv] assign_project_touches[OF inv]
      unassign_project_touches[OF inv] assign_org_touches[OF inv] unassign_org_touches[OF inv])

lemma proj_org_unique:
  assumes "db_inv s" "(j, a) \<in> proj_orgs s" "(j, b) \<in> proj_orgs s" shows "a = b"
proof -
  have "distinct (map prj_id (projects s))" using assms(1) by (simp add: db_inv_def projects_ok_def)
  moreover from assms(2,3) obtain r r' where "r \<in> set (projects s)" "r' \<in> set (projects s)"
    "prj_id r = j" "prj_id r' = j" "prj_org_id r = a" "prj_org_id r' = b" by auto
  ultimately show ?thesis using distinct_key_unique[of prj_id "projects s" r r'] by simp
qed

text \<open>C5: tenant isolation. When the session names its project's organization correctly, a successful call
  leaves the roles, the role permissions and the assignments of every other organization as they were.\<close>

theorem role_call_tenant_isolation:
  assumes "db_inv s" and "run_role_call (Some sess) c s = (Inr (), t)"
    and "as_Project sess = Some p" and "(ap_ID p, ap_OrgID p) \<in> proj_orgs s" and "o' \<noteq> ap_OrgID p"
  shows "filter (\<lambda>r. rol_org_id r = o') (custom_roles t) = filter (\<lambda>r. rol_org_id r = o') (custom_roles s) \<and>
    (\<forall>k i. (k, o') \<in> role_orgs s \<longrightarrow>
       ((k, i) \<in> set (custom_role_permissions t) \<longleftrightarrow> (k, i) \<in> set (custom_role_permissions s))) \<and>
    filter (\<lambda>a. oa_org_id a = o') (org_role_assignments t) = filter (\<lambda>a. oa_org_id a = o') (org_role_assignments s) \<and>
    filter (\<lambda>a. pa_org_id a = o') (project_role_assignments t) = filter (\<lambda>a. pa_org_id a = o') (project_role_assignments s)"
proof -
  obtain org k where so: "session_org s sess org" and to: "touches_only s t org k"
    using run_role_call_touches[OF assms(1,2)] by blast
  have "(ap_ID p, org) \<in> proj_orgs s \<Longrightarrow> org = ap_OrgID p"
    using proj_org_unique[OF assms(1) _ assms(4)] by blast
  with so assms(3) have org: "org = ap_OrgID p" by (auto simp: session_org_def)
  have sub: "filter (\<lambda>a. f a = o') xs = filter (\<lambda>a. f a = o') ys"
    if "filter (\<lambda>a. f a \<noteq> org) xs = filter (\<lambda>a. f a \<noteq> org) ys" for f :: "'b \<Rightarrow> int" and xs ys
  proof -
    have *: "filter (\<lambda>a. f a = o') zs = filter (\<lambda>a. f a = o') (filter (\<lambda>a. f a \<noteq> org) zs)" for zs
      using assms(5) org by (induction zs) auto
    show ?thesis unfolding *[of xs] *[of ys] that ..
  qed
  note T = to[unfolded touches_only_def]
  have "(q, i) \<in> set (custom_role_permissions t) \<longleftrightarrow> (q, i) \<in> set (custom_role_permissions s)"
    if "(q, o') \<in> role_orgs s" for q i
  proof -
    have "q \<noteq> k" using that T role_org_unique[OF assms(1), of k o' org] assms(5) org by force
    moreover have "set (filter (\<lambda>(q, p). q \<noteq> k) (custom_role_permissions t)) =
        set (filter (\<lambda>(q, p). q \<noteq> k) (custom_role_permissions s))" using T by argo
    ultimately show ?thesis by (auto simp: set_eq_iff)
  qed
  moreover have "filter (\<lambda>r. rol_org_id r = o') (custom_roles t) = filter (\<lambda>r. rol_org_id r = o') (custom_roles s)"
    "filter (\<lambda>a. oa_org_id a = o') (org_role_assignments t) = filter (\<lambda>a. oa_org_id a = o') (org_role_assignments s)"
    "filter (\<lambda>a. pa_org_id a = o') (project_role_assignments t) = filter (\<lambda>a. pa_org_id a = o') (project_role_assignments s)"
    using T by (auto intro: sub)
  ultimately show ?thesis by blast
qed

theorem role_call_tenant_isolation_witness:
  "let t = snd (run_role_call (Some (demo_session 102 4 2)) (CallDelete 401) demo_db) in
   map rol_id (custom_roles t) = [2, 3] \<and>
   filter (\<lambda>r. rol_org_id r = 1) (custom_roles t) = filter (\<lambda>r. rol_org_id r = 1) (custom_roles demo_db)"
proof -
  let ?r = "run_role_call (Some (demo_session 102 4 2)) (CallDelete 401) demo_db"
  have "fst ?r = Inr ()" by code_simp
  then have r: "?r = (Inr (), snd ?r)" by (simp add: prod_eq_iff)
  have "(4, 2) \<in> proj_orgs demo_db" by (simp add: demo_defs)
  then have "filter (\<lambda>r. rol_org_id r = 1) (custom_roles (snd ?r)) = filter (\<lambda>r. rol_org_id r = 1) (custom_roles demo_db)"
    using role_call_tenant_isolation[OF demo_db_inv r, of _ 1] by (simp add: demo_session_def)
  moreover have "map rol_id (custom_roles (snd ?r)) = [2, 3]" by code_simp
  ultimately show ?thesis by (simp add: Let_def)
qed

section \<open>The scope invariant\<close>

lemma rbac_invD:
  assumes "rbac_inv s"
  shows "role_has s q n \<Longrightarrow> n \<notin> set SystemOnlyPermissions"
    "a \<in> set (project_role_assignments s) \<Longrightarrow> role_has s (pa_role_id a) n \<Longrightarrow> isProjectScope n"
  using assms unfolding rbac_inv_def by blast+

lemma role_has_same:
  "custom_role_permissions t = custom_role_permissions s \<Longrightarrow> permissions t = permissions s \<Longrightarrow> role_has t = role_has s"
  by (simp add: role_has_def fun_eq_iff)

lemma rbac_inv_fewer:
  assumes "rbac_inv s" "role_has t = role_has s" "set (project_role_assignments t) \<subseteq> set (project_role_assignments s)"
  shows "rbac_inv t"
  unfolding rbac_inv_def using rbac_invD[OF assms(1)] assms(3) by (auto simp: assms(2))

lemma rbac_inv_role:
  assumes rb: "rbac_inv s" and pa: "project_role_assignments t = project_role_assignments s"
    and rh: "\<And>q n. role_has t q n \<Longrightarrow> q \<noteq> k \<Longrightarrow> role_has s q n"
    and new: "\<And>n. role_has t k n \<Longrightarrow> n \<notin> set SystemOnlyPermissions"
    and scope: "(\<forall>n. role_has t k n \<longrightarrow> isProjectScope n) \<or> k \<notin> pa_role_id ` set (project_role_assignments s)"
  shows "rbac_inv t"
  unfolding rbac_inv_def pa
proof (intro conjI allI impI ballI)
  fix q n assume "role_has t q n"
  then show "n \<notin> set SystemOnlyPermissions"
    using rh[of q n] new[of n] rbac_invD(1)[OF rb, of q n] by (cases "q = k") blast+
next
  fix a n assume a: "a \<in> set (project_role_assignments s)" "role_has t (pa_role_id a) n"
  show "isProjectScope n"
  proof (cases "pa_role_id a = k")
    case True
    then show ?thesis using a scope by auto
  next
    case False
    then show ?thesis using a rh rbac_invD(2)[OF rb a(1)] by blast
  qed
qed

lemma create_keeps_rbac:
  assumes inv: "db_inv s" and rb: "rbac_inv s" and q: "CreateCustomRole ctx cr s = (Inr role, t)" shows "rbac_inv t"
proof (rule CreateCustomRole_InrE[OF q])
  fix sess actor pr r ids names g
  assume val: "CreateCustomRole_Validate cr = Inr ()" and res: "resolve_permissions s (ccr_Permissions cr) = Some (ids, names)"
    and new: "\<not> role_conflict r (custom_roles s)"
    and t: "t = s\<lparr>gen := g, custom_roles := custom_roles s @ [r],
      custom_role_permissions := custom_role_permissions s @ map (Pair (rol_id r)) ids, locks := []\<rparr>"
  have rh: "role_has t q n \<longleftrightarrow> (if q = rol_id r then n \<in> set (ccr_Permissions cr) else role_has s q n)" for q n
    by (rule role_has_created[OF inv res _ new_role_id[OF new]]) (simp_all add: t)
  have "rol_id r \<notin> pa_role_id ` set (project_role_assignments s)"
    by (rule unreferenced_role(2)[OF inv new_role_id[OF new]])
  moreover have "project_role_assignments t = project_role_assignments s" by (simp add: t)
  ultimately show "rbac_inv t" using val
    by (intro rbac_inv_role[OF rb, of t "rol_id r"]) (auto simp: rh CreateCustomRole_Validate_iff)
qed

lemma update_keeps_rbac:
  assumes inv: "db_inv s" and rb: "rbac_inv s" and q: "UpdateCustomRole ctx ur s = (Inr role, t)" shows "rbac_inv t"
proof (cases "ucr_FieldPermissions ur")
  case True
  show ?thesis
  proof (rule UpdateCustomRole_perms_InrE[OF inv q True])
    fix sess actor pr r ids names rps g r'
    assume val: "UpdateCustomRole_Validate ur = Inr ()" and res: "resolve_permissions s (ucr_Permissions ur) = Some (ids, names)"
      and scope: "(\<forall>n \<in> set (ucr_Permissions ur). isProjectScope n) \<or>
        (\<forall>a \<in> set (project_role_assignments s). pa_role_id a \<noteq> rol_id r)"
      and t: "t = s\<lparr>gen := g, custom_roles := map (\<lambda>q. if rol_id q = rol_id r then r' else q) (custom_roles s),
         custom_role_permissions := rps, locks := []\<rparr>"
        "rps = filter (\<lambda>(q, p). q \<noteq> rol_id r) (custom_role_permissions s) @ map (Pair (rol_id r)) ids"
    have rh: "role_has t q n \<longleftrightarrow> (if q = rol_id r then n \<in> set (ucr_Permissions ur) else role_has s q n)" for q n
      by (rule role_has_replaced[OF inv res]) (simp_all add: t)
    have "project_role_assignments t = project_role_assignments s" by (simp add: t)
    then show "rbac_inv t" using val True scope
      by (intro rbac_inv_role[OF rb, of t "rol_id r"]) (auto simp: rh UpdateCustomRole_Validate_iff)
  qed
next
  case False
  show ?thesis
  proof (rule UpdateCustomRole_name_InrE[OF inv q False])
    fix sess p r g r'
    assume t: "t\<lparr>locks := []\<rparr> = s\<lparr>gen := g, custom_roles := map (\<lambda>q. if rol_id q = rol_id r then r' else q) (custom_roles s), locks := []\<rparr>"
    have "rbac_inv (t\<lparr>locks := []\<rparr>)" by (rule rbac_inv_fewer[OF rb]) (simp_all add: t role_has_def fun_eq_iff)
    then show "rbac_inv t" by simp
  qed
qed

lemma modify_keeps_rbac:
  assumes inv: "db_inv s" and rb: "rbac_inv s" and q: "ModifyCustomRolePermissions ctx mrp s = (Inr role, t)" shows "rbac_inv t"
proof (rule ModifyCustomRolePermissions_InrE[OF inv q])
  fix sess actor pr r rs g mp
  assume val: "ModifyCustomRolePermissions_Validate mrp = Inr ()"
    and scope: "(\<forall>n. role_has s (rol_id r) n \<or> n \<in> set (mrp_AddPermissions mrp) \<longrightarrow>
        n \<notin> set (mrp_RemovePermissions mrp) \<longrightarrow> isProjectScope n) \<or>
      (\<forall>a \<in> set (project_role_assignments s). pa_role_id a \<noteq> rol_id r)"
    and mp: "mp = modifyCustomRolePermissionsToPg mrp (prj_org_id pr)"
    and res: "resolve_permissions s (mrp_AddPermissions mrp @ mrp_RemovePermissions mrp) \<noteq> None"
    and t: "t = s\<lparr>gen := g, custom_roles := rs, custom_role_permissions := modified_permissions mp s r, locks := []\<rparr>"
  have dis: "set (mrp_AddPermissions mrp) \<inter> set (mrp_RemovePermissions mrp) = {}"
    and ok: "n \<in> set (mrp_AddPermissions mrp) \<Longrightarrow> n \<notin> set SystemOnlyPermissions" for n
    using val by (auto simp: ModifyCustomRolePermissions_Validate_iff)
  have rh: "role_has t q n \<longleftrightarrow> (if q = rol_id r
     then (role_has s q n \<or> n \<in> set (mrp_AddPermissions mrp)) \<and> n \<notin> set (mrp_RemovePermissions mrp)
     else role_has s q n)" for q n
    by (rule role_has_modified[OF inv res dis]) (simp_all add: t mp)
  have pa: "project_role_assignments t = project_role_assignments s" by (simp add: t)
  have "n \<notin> set SystemOnlyPermissions" if "role_has t (rol_id r) n" for n
    using that ok[of n] rbac_invD(1)[OF rb, of "rol_id r" n] by (auto simp: rh)
  moreover have "(\<forall>n. role_has t (rol_id r) n \<longrightarrow> isProjectScope n) \<or> rol_id r \<notin> pa_role_id ` set (project_role_assignments s)"
    using scope by (auto simp: rh)
  ultimately show "rbac_inv t"
    by (intro rbac_inv_role[OF rb pa, of "rol_id r"]) (simp_all add: rh)
qed

lemma other_calls_keep_rbac:
  assumes inv: "db_inv s" and rb: "rbac_inv s"
  shows "DeleteCustomRole ctx x s = (Inr (), t) \<Longrightarrow> rbac_inv t"
    "UnassignCustomRoleFromProject ctx x y s = (Inr (), t) \<Longrightarrow> rbac_inv t"
    "AssignCustomRoleToOrg ctx x y s = (Inr (), t) \<Longrightarrow> rbac_inv t"
    "UnassignCustomRoleFromOrg ctx x y s = (Inr (), t) \<Longrightarrow> rbac_inv t"
proof -
  have *: "rbac_inv t" if "permissions t = permissions s" "custom_role_permissions t = custom_role_permissions s"
    "set (project_role_assignments t) \<subseteq> set (project_role_assignments s)"
    using role_has_same[OF that(2,1)] that(3) by (rule rbac_inv_fewer[OF rb])
  show "rbac_inv t" if q: "UnassignCustomRoleFromProject ctx x y s = (Inr (), t)"
    by (rule UnassignCustomRoleFromProject_InrE[OF inv q], rule *) auto
  show "rbac_inv t" if q: "AssignCustomRoleToOrg ctx x y s = (Inr (), t)"
    by (rule AssignCustomRoleToOrg_InrE[OF q], rule *) auto
  show "rbac_inv t" if q: "UnassignCustomRoleFromOrg ctx x y s = (Inr (), t)"
    by (rule UnassignCustomRoleFromOrg_InrE[OF q], rule *) auto
  show "rbac_inv t" if q: "DeleteCustomRole ctx x s = (Inr (), t)"
  proof (rule DeleteCustomRole_InrE[OF inv q])
    fix sess actor pr r
    assume t: "t = s\<lparr>project_role_assignments := filter (\<lambda>a. pa_role_id a \<noteq> rol_id r) (project_role_assignments s),
          org_role_assignments := filter (\<lambda>a. oa_role_id a \<noteq> rol_id r) (org_role_assignments s),
          custom_role_permissions := filter (\<lambda>(q, p). q \<noteq> rol_id r) (custom_role_permissions s),
          custom_roles := filter (\<lambda>q. \<not> (rol_external_id q = x \<and> rol_org_id q = prj_org_id pr)) (custom_roles s),
          locks := []\<rparr>"
    have "role_has t q n \<longleftrightarrow> q \<noteq> rol_id r \<and> role_has s q n" for q n by (rule role_has_deleted) (simp_all add: t)
    moreover have "set (project_role_assignments t) \<subseteq> set (project_role_assignments s)" by (auto simp: t)
    ultimately show "rbac_inv t" unfolding rbac_inv_def using rbac_invD[OF rb] by blast
  qed
qed

lemma assign_project_keeps_rbac:
  assumes inv: "db_inv s" and rb: "rbac_inv s" and q: "AssignCustomRoleToProject ctx x rx s = (Inr (), t)" shows "rbac_inv t"
proof (rule AssignCustomRoleToProject_InrE[OF inv q])
  fix sess actor pr r a
  assume auth: "\<forall>n. role_has s (rol_id r) n \<longrightarrow> isProjectScope n \<and> holds_project s (usr_id actor) (prj_id pr) n"
    and t: "t = s\<lparr>project_role_assignments := project_role_assignments s @ [a], locks := []\<rparr>"
    and a: "pa_role_id a = rol_id r"
  have rh: "role_has t = role_has s" by (rule role_has_same) (simp_all add: t)
  show "rbac_inv t" unfolding rbac_inv_def rh using rbac_invD[OF rb] auth a by (auto simp: t)
qed

text \<open>C4: every call of the custom-role service keeps the security invariant: no custom role carries a
  system-only permission, and a role assigned in a project carries project-scope permissions only.\<close>

theorem role_call_keeps_scopes:
  assumes inv: "db_inv s" and rb: "rbac_inv s" shows "rbac_inv (snd (run_role_call ctx c s))"
proof (cases "run_role_call ctx c s")
  case (Pair r t)
  show ?thesis
  proof (cases r)
    case (Inl e)
    then show ?thesis using rb Pair run_role_call_failed[OF inv, of ctx c e t]
      by (auto simp: same_tables_def rbac_inv_def)
  next
    case (Inr u)
    then have "run_role_call ctx c s = (Inr (), t)" using Pair by simp
    then have "rbac_inv t"
      by (cases c) (auto simp: andThen_Inr_iff intro: create_keeps_rbac[OF inv rb] update_keeps_rbac[OF inv rb]
          modify_keeps_rbac[OF inv rb] other_calls_keep_rbac[OF inv rb] assign_project_keeps_rbac[OF inv rb])
    then show ?thesis using Pair by simp
  qed
qed

theorem role_call_keeps_scopes_witness:
  "let mrp = \<lparr>mrp_ID = 402, mrp_ETag = 502, mrp_AddPermissions = [PermissionCustomRoleAssignProject],
     mrp_RemovePermissions = [PermissionCustomRoleCreate]\<rparr> in
   fst (run_role_call (Some (demo_session 102 4 2)) (CallModify mrp) demo_db) = Inr () \<and>
   rbac_inv (snd (run_role_call (Some (demo_session 102 4 2)) (CallModify mrp) demo_db))"
  unfolding Let_def
  by (rule conjI, code_simp, rule role_call_keeps_scopes[OF demo_db_inv demo_rbac_inv])

end
