(* ===== verification/RoleVersions.thy ===== *)
theory RoleVersions
  imports RoleSafety
begin

text \<open>
  Managed roles and ETags: a managed role keeps its identity, its key and its permissions under every
  call; a successful write of a role returns the new ETag and consumes the one it was given, so of two
  writes prepared from the same version only one succeeds.
\<close>

section \<open>Managed roles\<close>

definition same_role :: "custom_role_row \<Rightarrow> custom_role_row \<Rightarrow> bool" where
  "same_role r r' \<longleftrightarrow> rol_id r' = rol_id r \<and> rol_external_id r' = rol_external_id r \<and>
     rol_org_id r' = rol_org_id r \<and> rol_managed_key r' = rol_managed_key r"

lemma same_role_refl [simp]: "same_role r r" by (simp add: same_role_def)

definition keeps_managed :: "db \<Rightarrow> db \<Rightarrow> bool" where
  "keeps_managed s t \<longleftrightarrow> (\<forall>m \<in> set (custom_roles s). rol_managed_key m \<noteq> None \<longrightarrow>
     (\<exists>m' \<in> set (custom_roles t). same_role m m') \<and> (\<forall>n. role_has t (rol_id m) n = role_has s (rol_id m) n))"

lemma keeps_managedI:
  assumes "\<And>m. m \<in> set (custom_roles s) \<Longrightarrow> rol_managed_key m \<noteq> None \<Longrightarrow> \<exists>m' \<in> set (custom_roles t). same_role m m'"
    "\<And>m n. m \<in> set (custom_roles s) \<Longrightarrow> rol_managed_key m \<noteq> None \<Longrightarrow> role_has t (rol_id m) n = role_has s (rol_id m) n"
  shows "keeps_managed s t"
  using assms unfolding keeps_managed_def by blast

lemma keeps_managed_same: "custom_roles t = custom_roles s \<Longrightarrow> role_has t = role_has s \<Longrightarrow> keeps_managed s t"
  unfolding keeps_managed_def using same_role_refl by metis

lemma replaced_same_role:
  assumes "distinct (map rol_id rs)" "r \<in> set rs" "same_role r r'" "m \<in> set rs"
  shows "\<exists>m' \<in> set (map (\<lambda>q. if rol_id q = rol_id r then r' else q) rs). same_role m m'"
  using assms(3,4) distinct_key_unique[OF assms(1,4,2)]
  by (intro bexI[of _ "if rol_id m = rol_id r then r' else m"]) auto

lemma unmanaged_other:
  assumes "db_inv s" "target_role s o' x r" "rol_managed_key r = None" "m \<in> set (custom_roles s)" "rol_managed_key m \<noteq> None"
  shows "rol_id m \<noteq> rol_id r"
  using distinct_key_unique[OF role_ids_distinct[OF assms(1)] assms(4) target_roleD(1)[OF assms(2)]] assms(3,5) by auto

lemma update_keeps_managed:
  assumes inv: "db_inv s" and q: "UpdateCustomRole ctx ur s = (Inr role, t)" shows "keeps_managed s t"
proof (cases "ucr_FieldPermissions ur")
  case True
  show ?thesis
  proof (rule UpdateCustomRole_perms_InrE[OF inv q True])
    fix sess actor pr r ids names rps g r'
    assume r: "target_role s (prj_org_id pr) (ucr_ID ur) r" "rol_managed_key r = None"
      and r': "r' = updated_role (updateCustomRoleToPg ur (prj_org_id pr)) s r"
      and res: "resolve_permissions s (ucr_Permissions ur) = Some (ids, names)"
      and t: "t = s\<lparr>gen := g, custom_roles := map (\<lambda>q. if rol_id q = rol_id r then r' else q) (custom_roles s),
         custom_role_permissions := rps, locks := []\<rparr>"
        "rps = filter (\<lambda>(q, p). q \<noteq> rol_id r) (custom_role_permissions s) @ map (Pair (rol_id r)) ids"
    have rh: "role_has t q n \<longleftrightarrow> (if q = rol_id r then n \<in> set (ucr_Permissions ur) else role_has s q n)" for q n
      by (rule role_has_replaced[OF inv res]) (simp_all add: t)
    have ct: "custom_roles t = map (\<lambda>q. if rol_id q = rol_id r then r' else q) (custom_roles s)" by (simp add: t)
    show "keeps_managed s t"
    proof (rule keeps_managedI)
      fix m assume m: "m \<in> set (custom_roles s)" "rol_managed_key m \<noteq> None"
      show "\<exists>m' \<in> set (custom_roles t). same_role m m'" unfolding ct
        by (rule replaced_same_role[OF role_ids_distinct[OF inv] target_roleD(1)[OF r(1)] _ m(1)])
          (simp add: same_role_def r')
      show "role_has t (rol_id m) n = role_has s (rol_id m) n" for n
        using unmanaged_other[OF inv r m] by (simp add: rh)
    qed
  qed
next
  case False
  show ?thesis
  proof (rule UpdateCustomRole_name_InrE[OF inv q False])
    fix sess p r g r'
    assume r: "target_role s (ap_OrgID p) (ucr_ID ur) r"
      and r': "r' = updated_role (updateCustomRoleToPg ur (ap_OrgID p)) s r"
      and t: "t\<lparr>locks := []\<rparr> = s\<lparr>gen := g, custom_roles := map (\<lambda>q. if rol_id q = rol_id r then r' else q) (custom_roles s), locks := []\<rparr>"
    have rh: "role_has (t\<lparr>locks := []\<rparr>) = role_has s" by (rule role_has_same) (simp_all add: t)
    have ct: "custom_roles (t\<lparr>locks := []\<rparr>) = map (\<lambda>q. if rol_id q = rol_id r then r' else q) (custom_roles s)" by (simp add: t)
    have "keeps_managed s (t\<lparr>locks := []\<rparr>)"
    proof (rule keeps_managedI)
      fix m assume m: "m \<in> set (custom_roles s)" "rol_managed_key m \<noteq> None"
      show "\<exists>m' \<in> set (custom_roles (t\<lparr>locks := []\<rparr>)). same_role m m'" unfolding ct
        by (rule replaced_same_role[OF role_ids_distinct[OF inv] target_roleD(1)[OF r] _ m(1)])
          (simp add: same_role_def r')
    qed (simp only: rh)
    then show "keeps_managed s t" by (simp add: keeps_managed_def)
  qed
qed

lemma modify_keeps_managed:
  assumes inv: "db_inv s" and q: "ModifyCustomRolePermissions ctx mrp s = (Inr role, t)" shows "keeps_managed s t"
proof (rule ModifyCustomRolePermissions_InrE[OF inv q])
  fix sess actor pr r rs g mp
  assume val: "ModifyCustomRolePermissions_Validate mrp = Inr ()"
    and r: "target_role s (prj_org_id pr) (mrp_ID mrp) r" "rol_managed_key r = None"
    and mp: "mp = modifyCustomRolePermissionsToPg mrp (prj_org_id pr)"
    and res: "resolve_permissions s (mrp_AddPermissions mrp @ mrp_RemovePermissions mrp) \<noteq> None"
    and t: "t = s\<lparr>gen := g, custom_roles := rs, custom_role_permissions := modified_permissions mp s r, locks := []\<rparr>"
    and rs: "rs = custom_roles s \<and> modified_permissions mp s r = custom_role_permissions s \<or>
      role_checks (touched_role s r) \<and>
      \<not> role_conflict (touched_role s r) (filter (\<lambda>q. rol_id q \<noteq> rol_id r) (custom_roles s)) \<and>
      rs = map (\<lambda>q. if rol_id q = rol_id r then touched_role s r else q) (custom_roles s)"
  have dis: "set (mrp_AddPermissions mrp) \<inter> set (mrp_RemovePermissions mrp) = {}"
    using val by (simp add: ModifyCustomRolePermissions_Validate_iff)
  have rh: "role_has t q n \<longleftrightarrow> (if q = rol_id r
     then (role_has s q n \<or> n \<in> set (mrp_AddPermissions mrp)) \<and> n \<notin> set (mrp_RemovePermissions mrp)
     else role_has s q n)" for q n
    by (rule role_has_modified[OF inv res dis]) (simp_all add: t mp)
  have ct: "custom_roles t = rs" by (simp add: t)
  show "keeps_managed s t"
  proof (rule keeps_managedI)
    fix m assume m: "m \<in> set (custom_roles s)" "rol_managed_key m \<noteq> None"
    have "\<exists>m' \<in> set (map (\<lambda>q. if rol_id q = rol_id r then touched_role s r else q) (custom_roles s)). same_role m m'"
      by (rule replaced_same_role[OF role_ids_distinct[OF inv] target_roleD(1)[OF r(1)] _ m(1)]) (simp add: same_role_def)
    with rs m(1) show "\<exists>m' \<in> set (custom_roles t). same_role m m'"
      unfolding ct using same_role_refl by metis
    show "role_has t (rol_id m) n = role_has s (rol_id m) n" for n
      using unmanaged_other[OF inv r m] by (simp add: rh)
  qed
qed

lemma create_keeps_managed:
  assumes inv: "db_inv s" and q: "CreateCustomRole ctx cr s = (Inr role, t)" shows "keeps_managed s t"
proof (rule CreateCustomRole_InrE[OF q])
  fix sess actor pr r ids names g
  assume res: "resolve_permissions s (ccr_Permissions cr) = Some (ids, names)"
    and new: "\<not> role_conflict r (custom_roles s)"
    and t: "t = s\<lparr>gen := g, custom_roles := custom_roles s @ [r],
      custom_role_permissions := custom_role_permissions s @ map (Pair (rol_id r)) ids, locks := []\<rparr>"
  have rh: "role_has t q n \<longleftrightarrow> (if q = rol_id r then n \<in> set (ccr_Permissions cr) else role_has s q n)" for q n
    by (rule role_has_created[OF inv res _ new_role_id[OF new]]) (simp_all add: t)
  show "keeps_managed s t"
  proof (rule keeps_managedI)
    fix m assume m: "m \<in> set (custom_roles s)" "rol_managed_key m \<noteq> None"
    then show "\<exists>m' \<in> set (custom_roles t). same_role m m'" by (intro bexI[of _ m]) (simp_all add: t)
    have "rol_id m \<noteq> rol_id r" using new_role_id[OF new] m(1) by (metis imageI)
    then show "role_has t (rol_id m) n = role_has s (rol_id m) n" for n by (simp add: rh)
  qed
qed

lemma delete_keeps_managed:
  assumes inv: "db_inv s" and q: "DeleteCustomRole ctx x s = (Inr (), t)" shows "keeps_managed s t"
proof (rule DeleteCustomRole_InrE[OF inv q])
  fix sess actor pr r
  assume r: "target_role s (prj_org_id pr) x r" "rol_managed_key r = None"
    and t: "t = s\<lparr>project_role_assignments := filter (\<lambda>a. pa_role_id a \<noteq> rol_id r) (project_role_assignments s),
          org_role_assignments := filter (\<lambda>a. oa_role_id a \<noteq> rol_id r) (org_role_assignments s),
          custom_role_permissions := filter (\<lambda>(q, p). q \<noteq> rol_id r) (custom_role_permissions s),
          custom_roles := filter (\<lambda>q. \<not> (rol_external_id q = x \<and> rol_org_id q = prj_org_id pr)) (custom_roles s),
          locks := []\<rparr>"
  have rh: "role_has t q n \<longleftrightarrow> q \<noteq> rol_id r \<and> role_has s q n" for q n by (rule role_has_deleted) (simp_all add: t)
  show "keeps_managed s t"
  proof (rule keeps_managedI)
    fix m assume m: "m \<in> set (custom_roles s)" "rol_managed_key m \<noteq> None"
    have "m \<noteq> r" using m(2) r(2) by auto
    then have "\<not> (rol_external_id m = x \<and> rol_org_id m = prj_org_id pr)"
      using m(1) r(1) org_role_member(1)[of m s "prj_org_id pr" x] by (simp add: target_role_def)
    with m(1) show "\<exists>m' \<in> set (custom_roles t). same_role m m'" by (intro bexI[of _ m]) (simp_all add: t)
    show "role_has t (rol_id m) n = role_has s (rol_id m) n" for n
      using unmanaged_other[OF inv r m] by (simp add: rh)
  qed
qed

lemma assignments_keep_managed:
  assumes inv: "db_inv s"
  shows "AssignCustomRoleToProject ctx x y s = (Inr (), t) \<Longrightarrow> keeps_managed s t"
    "UnassignCustomRoleFromProject ctx x y s = (Inr (), t) \<Longrightarrow> keeps_managed s t"
    "AssignCustomRoleToOrg ctx x y s = (Inr (), t) \<Longrightarrow> keeps_managed s t"
    "UnassignCustomRoleFromOrg ctx x y s = (Inr (), t) \<Longrightarrow> keeps_managed s t"
proof -
  have *: "keeps_managed s t" if "custom_roles t = custom_roles s" "permissions t = permissions s"
    "custom_role_permissions t = custom_role_permissions s"
    using that(1) role_has_same[OF that(3,2)] by (rule keeps_managed_same)
  show "keeps_managed s t" if q: "AssignCustomRoleToProject ctx x y s = (Inr (), t)"
    by (rule AssignCustomRoleToProject_InrE[OF inv q], rule *) auto
  show "keeps_managed s t" if q: "UnassignCustomRoleFromProject ctx x y s = (Inr (), t)"
    by (rule UnassignCustomRoleFromProject_InrE[OF inv q], rule *) auto
  show "keeps_managed s t" if q: "AssignCustomRoleToOrg ctx x y s = (Inr (), t)"
    by (rule AssignCustomRoleToOrg_InrE[OF q], rule *) auto
  show "keeps_managed s t" if q: "UnassignCustomRoleFromOrg ctx x y s = (Inr (), t)"
    by (rule UnassignCustomRoleFromOrg_InrE[OF q], rule *) auto
qed

text \<open>C9: a managed role is never deleted, and no call changes its permissions, its key, its identifiers or
  its organization (a rename is the only change the service makes to it).\<close>

theorem role_call_keeps_managed_roles:
  assumes inv: "db_inv s" and q: "run_role_call ctx c s = (Inr (), t)"
    and m: "m \<in> set (custom_roles s)" "rol_managed_key m = Some k"
  shows "(\<exists>m' \<in> set (custom_roles t). rol_id m' = rol_id m \<and> rol_external_id m' = rol_external_id m \<and>
      rol_org_id m' = rol_org_id m \<and> rol_managed_key m' = Some k) \<and>
    (\<forall>n. role_has t (rol_id m) n = role_has s (rol_id m) n)"
proof -
  have "keeps_managed s t"
    using q by (cases c) (auto simp: andThen_Inr_iff intro: create_keeps_managed[OF inv] update_keeps_managed[OF inv]
        modify_keeps_managed[OF inv] delete_keeps_managed[OF inv] assignments_keep_managed[OF inv])
  then have "(\<exists>m' \<in> set (custom_roles t). same_role m m') \<and> (\<forall>n. role_has t (rol_id m) n = role_has s (rol_id m) n)"
    using m unfolding keeps_managed_def by blast
  then show ?thesis unfolding same_role_def m(2) .
qed

theorem role_call_keeps_managed_roles_witness:
  "let ur = \<lparr>ucr_ID = 403, ucr_ETag = 503, ucr_FieldName = True, ucr_FieldPermissions = False,
       ucr_Name = ''Owners'', ucr_Permissions = []\<rparr>;
     t = snd (run_role_call (Some (demo_session 102 4 2)) (CallUpdate ur) demo_db) in
   map rol_name (custom_roles t) = [''Assigner'', ''Builder'', ''Owners''] \<and>
   (\<forall>n. role_has t 3 n = role_has demo_db 3 n)"
proof -
  let ?ur = "\<lparr>ucr_ID = 403, ucr_ETag = 503, ucr_FieldName = True, ucr_FieldPermissions = False,
       ucr_Name = ''Owners'', ucr_Permissions = []\<rparr>"
  let ?r = "run_role_call (Some (demo_session 102 4 2)) (CallUpdate ?ur) demo_db"
  let ?m = "demo_role 3 403 ''Organization Administrator'' 2 (Some ManagedRoleKeyOrganizationAdmin) 503"
  have "fst ?r = Inr ()" by code_simp
  then have r: "?r = (Inr (), snd ?r)" by (simp add: prod_eq_iff)
  have m: "?m \<in> set (custom_roles demo_db)" "rol_managed_key ?m = Some ManagedRoleKeyOrganizationAdmin"
    "rol_id ?m = 3" by (simp_all add: demo_defs)
  have "\<forall>n. role_has (snd ?r) 3 n = role_has demo_db 3 n"
    using role_call_keeps_managed_roles[OF demo_db_inv r m(1,2)] unfolding m(3) by blast
  moreover have "map rol_name (custom_roles (snd ?r)) = [''Assigner'', ''Builder'', ''Owners'']" by code_simp
  ultimately show ?thesis by (simp only: Let_def simp_thms)
qed

section \<open>ETags\<close>

text \<open>The row a successful update leaves.\<close>

lemma update_rotates:
  assumes inv: "db_inv s" and q: "UpdateCustomRole ctx ur s = (Inr role, t)"
  shows "\<exists>r \<in> set (custom_roles s). \<exists>r' \<in> set (custom_roles t). rol_external_id r = ucr_ID ur \<and>
    rol_external_id r' = ucr_ID ur \<and> rol_etag r = ucr_ETag ur \<and>
    rol_etag r' = g_uuids (gen s) (g_uuid_pos (gen s)) \<and> cr_ETag role = rol_etag r' \<and>
    rol_name r' = (if ucr_FieldName ur then ucr_Name ur else rol_name r) \<and>
    (ucr_FieldPermissions ur \<longrightarrow> (\<forall>n. role_has t (rol_id r') n \<longleftrightarrow> n \<in> set (ucr_Permissions ur)))"
proof (cases "ucr_FieldPermissions ur")
  case True
  show ?thesis
  proof (rule UpdateCustomRole_perms_InrE[OF inv q True])
    fix sess actor pr r ids names rps g r'
    assume r: "target_role s (prj_org_id pr) (ucr_ID ur) r" "rol_etag r = ucr_ETag ur"
      and r': "r' = updated_role (updateCustomRoleToPg ur (prj_org_id pr)) s r"
      and res: "resolve_permissions s (ucr_Permissions ur) = Some (ids, names)"
      and t: "t = s\<lparr>gen := g, custom_roles := map (\<lambda>q. if rol_id q = rol_id r then r' else q) (custom_roles s),
         custom_role_permissions := rps, locks := []\<rparr>"
        "rps = filter (\<lambda>(q, p). q \<noteq> rol_id r) (custom_role_permissions s) @ map (Pair (rol_id r)) ids"
      and et: "cr_ETag role = rol_etag r'"
    have rh: "role_has t q n \<longleftrightarrow> (if q = rol_id r then n \<in> set (ucr_Permissions ur) else role_has s q n)" for q n
      by (rule role_has_replaced[OF inv res]) (simp_all add: t)
    have "r' \<in> set (custom_roles t)" using target_roleD(1)[OF r(1)] by (force simp: t)
    then show ?thesis
      using target_roleD[OF r(1)] r(2) et
      by (intro bexI[of _ r] bexI[of _ r']) (simp_all add: rh, simp_all add: r' updated_role_def updateCustomRoleToPg_def)
  qed
next
  case False
  show ?thesis
  proof (rule UpdateCustomRole_name_InrE[OF inv q False])
    fix sess p r g r'
    assume r: "target_role s (ap_OrgID p) (ucr_ID ur) r" "rol_etag r = ucr_ETag ur"
      and r': "r' = updated_role (updateCustomRoleToPg ur (ap_OrgID p)) s r"
      and t: "t\<lparr>locks := []\<rparr> = s\<lparr>gen := g, custom_roles := map (\<lambda>q. if rol_id q = rol_id r then r' else q) (custom_roles s), locks := []\<rparr>"
      and et: "cr_ETag role = rol_etag r'"
    have "custom_roles t = map (\<lambda>q. if rol_id q = rol_id r then r' else q) (custom_roles s)"
      using arg_cong[OF t, of custom_roles] by simp
    then have "r' \<in> set (custom_roles t)" using target_roleD(1)[OF r(1)] by force
    then show ?thesis
      using target_roleD[OF r(1)] r(2) et False
      by (intro bexI[of _ r] bexI[of _ r']) (simp_all add: r' updated_role_def updateCustomRoleToPg_def)
  qed
qed


definition demo_rename :: UpdateCustomRole where
  "demo_rename = \<lparr>ucr_ID = 402, ucr_ETag = 502, ucr_FieldName = True, ucr_FieldPermissions = True,
     ucr_Name = ''Auditor'', ucr_Permissions = [PermissionCustomRoleAssignProject]\<rparr>"

lemma demo_rename_runs:
  "\<exists>role. UpdateCustomRole (Some (demo_session 102 4 2)) demo_rename demo_db =
     (Inr role, snd (UpdateCustomRole (Some (demo_session 102 4 2)) demo_rename demo_db))"
proof -
  let ?r = "UpdateCustomRole (Some (demo_session 102 4 2)) demo_rename demo_db"
  have "\<not> isl (fst ?r)" by code_simp
  then show ?thesis by (cases ?r, cases "fst ?r") auto
qed


text \<open>C7: no lost update. After a successful update, a second update prepared from the same version does not
  succeed, provided the generator did not give out the version's ETag again.\<close>

theorem no_lost_role_update:
  assumes inv: "db_inv s" and one: "UpdateCustomRole ctx ur s = (Inr role, t)"
    and same: "ucr_ID ur' = ucr_ID ur" "ucr_ETag ur' = ucr_ETag ur"
    and fresh: "g_uuids (gen s) (g_uuid_pos (gen s)) \<noteq> ucr_ETag ur"
  shows "\<exists>e. fst (UpdateCustomRole ctx' ur' t) = Inl e"
proof (rule ccontr)
  assume "\<not> ?thesis"
  then obtain role' t' where two: "UpdateCustomRole ctx' ur' t = (Inr role', t')"
    by (metis prod.collapse sum.exhaust_sel)
  have inv': "db_inv t" by (rule update_keeps_inv[OF inv one])
  from update_rotates[OF inv one] obtain r' where r': "r' \<in> set (custom_roles t)" "rol_external_id r' = ucr_ID ur"
    "rol_etag r' \<noteq> ucr_ETag ur" using fresh by metis
  from update_rotates[OF inv' two] obtain q where q: "q \<in> set (custom_roles t)" "rol_external_id q = ucr_ID ur"
    "rol_etag q = ucr_ETag ur" unfolding same by blast
  have "distinct (map rol_external_id (custom_roles t))" using inv' by (simp add: db_inv_def custom_roles_ok_def)
  then have "q = r'" using distinct_key_unique[of rol_external_id "custom_roles t" q r'] q r' by simp
  with q r' show False by simp
qed

theorem no_lost_role_update_witness:
  "\<exists>e. fst (UpdateCustomRole (Some (demo_session 102 4 2)) demo_rename
     (snd (UpdateCustomRole (Some (demo_session 102 4 2)) demo_rename demo_db))) = Inl e"
proof -
  obtain role where r: "UpdateCustomRole (Some (demo_session 102 4 2)) demo_rename demo_db =
     (Inr role, snd (UpdateCustomRole (Some (demo_session 102 4 2)) demo_rename demo_db))" using demo_rename_runs ..
  have "g_uuids (gen demo_db) (g_uuid_pos (gen demo_db)) \<noteq> ucr_ETag demo_rename"
    by (simp add: demo_rename_def demo_defs)
  from no_lost_role_update[OF demo_db_inv r refl refl this] show ?thesis .
qed

end
