(* ===== verification/PgOrg.thy ===== *)
theory PgOrg
  imports PgUser
begin

text \<open>
  The organization store \<open>internal/core/pgstores/pgorg\<close>: its model, queries (\<open>query.go\<close>) and store
  methods (\<open>store.go\<close>). \<open>pgorg.Project\<close> has the columns of the table and is its row.
\<close>

section \<open>model.go\<close>

record PgOrganization =
  po_ID :: int
  po_Name :: string
  po_ControlProjectID :: int
  po_CreatedAt :: time
  po_UpdatedAt :: "time option"

record PgCreateOrganization =
  pco_Name :: string
  pco_ControlProjectName :: string

record PgProjectFilter =
  ppf_Name :: string

record PgOrganizationUserFilter =
  pouf_ProjectID :: "int option"

record PgCreateProject =
  pcp_OrgID :: int
  pcp_Name :: string

section \<open>Constraints\<close>

definition org_conflict :: "org_row \<Rightarrow> org_row list \<Rightarrow> bool" where
  "org_conflict r rs \<longleftrightarrow> (\<exists>q \<in> set rs. org_id q = org_id r \<or> org_name q = org_name r)"

definition project_conflict :: "project_row \<Rightarrow> project_row list \<Rightarrow> bool" where
  "project_conflict r rs \<longleftrightarrow> (\<exists>q \<in> set rs. prj_id q = prj_id r \<or> prj_etag q = prj_etag r \<or>
     (prj_org_id q, toLower (prj_name q)) = (prj_org_id r, toLower (prj_name r)) \<or>
     (prj_is_control q \<and> prj_is_control r \<and> prj_org_id q = prj_org_id r))"

definition insert_org :: "org_row \<Rightarrow> unit op" where
  "insert_org r = andThen (reads organizations) (\<lambda>rs.
     if org_conflict r rs then unique_violation
     else updates (\<lambda>s. s\<lparr>organizations := organizations s @ [r]\<rparr>))"

definition insert_project :: "project_row \<Rightarrow> unit op" where
  "insert_project r = andThen (reads projects) (\<lambda>rs.
     if project_conflict r rs then unique_violation
     else updates (\<lambda>s. s\<lparr>projects := projects s @ [r]\<rparr>))"

definition new_project :: "int \<Rightarrow> string \<Rightarrow> bool \<Rightarrow> project_row op" where
  "new_project org name ctl =
    andThen (nextval g_projects g_projects_update) (\<lambda>i.
    andThen gen_random_uuid (\<lambda>etag.
    andThen (reads clock) (\<lambda>now.
    let r = \<lparr>prj_id = i, prj_org_id = org, prj_name = name, prj_is_control = ctl,
             prj_created_at = now, prj_updated_at = None, prj_etag = etag\<rparr> in
    andThen (insert_project r) (\<lambda>_. ret r))))"

section \<open>query.go\<close>

definition createOrganizationQuery ::
    "PgCreateOrganization \<Rightarrow> (PgOrganization, PgOrganization) TypedQuery" where
  "createOrganizationQuery co = \<lparr>
     tq_SQL =
       andThen (nextval g_organizations g_organizations_update) (\<lambda>i.
       andThen (reads clock) (\<lambda>now.
       andThen (insert_org \<lparr>org_id = i, org_name = pco_Name co, org_created_at = now,
                            org_updated_at = None\<rparr>) (\<lambda>_.
       andThen (new_project i (pco_ControlProjectName co) True) (\<lambda>p.
       ret [\<lparr>po_ID = i, po_Name = pco_Name co, po_ControlProjectID = prj_id p, po_CreatedAt = now,
             po_UpdatedAt = None\<rparr>])))),
     tq_Scan = Inr, tq_Expect = ExpectOne\<rparr>"

definition organizationUsersWhereClause ::
    "PgOrganizationUserFilter \<Rightarrow> db \<Rightarrow> int \<Rightarrow> org_row \<Rightarrow> user_row \<Rightarrow> bool" where
  "organizationUsersWhereClause filt s orgID r u \<longleftrightarrow> org_id r = orgID \<and>
    (case pouf_ProjectID filt of
       None \<Rightarrow> True
     | Some projectID \<Rightarrow>
         (\<exists>p \<in> set (projects s). prj_id p = projectID \<and> prj_org_id p = org_id r) \<and>
         projectID \<in> set (accessible_project_ids s (usr_id u)))"

definition organizationUsersScopeWhereClause ::
    "PgOrganizationUserFilter \<Rightarrow> db \<Rightarrow> int \<Rightarrow> org_row \<Rightarrow> bool" where
  "organizationUsersScopeWhereClause filt s orgID r \<longleftrightarrow> org_id r = orgID \<and>
    (case pouf_ProjectID filt of
       None \<Rightarrow> True
     | Some projectID \<Rightarrow>
         (\<exists>p \<in> set (projects s). prj_id p = projectID \<and> prj_org_id p = org_id r))"

definition organization_users :: "PgOrganizationUserFilter \<Rightarrow> int \<Rightarrow> db \<Rightarrow> user_row list" where
  "organization_users filt orgID s =
    [u. r \<leftarrow> organizations s, (m, v) \<leftarrow> org_membership s, m = org_id r, u \<leftarrow> users s, usr_id u = v,
        organizationUsersWhereClause filt s orgID r u]"

definition by_email_id :: "db \<Rightarrow> user_row \<Rightarrow> user_row \<Rightarrow> bool" where
  "by_email_id s a b \<longleftrightarrow> coll s (usr_email a) (usr_email b) \<and>
    (coll s (usr_email b) (usr_email a) \<longrightarrow> usr_id a \<le> usr_id b)"

definition organizationUsersQuery ::
    "int \<Rightarrow> PgOrganizationUserFilter \<Rightarrow> int \<Rightarrow> int \<Rightarrow> (user_row, user_row) TypedQuery" where
  "organizationUsersQuery orgID filt pageSize pageOffset = \<lparr>
     tq_SQL = with_page pageSize pageOffset (reads (\<lambda>s.
       sort_by (by_email_id s) (organization_users filt orgID s))),
     tq_Scan = Inr, tq_Expect = ExpectMany\<rparr>"

definition organizationUserCountQuery :: "int \<Rightarrow> PgOrganizationUserFilter \<Rightarrow> (int, int) TypedQuery" where
  "organizationUserCountQuery orgID filt = \<lparr>
     tq_SQL = reads (\<lambda>s. [int (length (organization_users filt orgID s)).
       r \<leftarrow> organizations s, organizationUsersScopeWhereClause filt s orgID r]),
     tq_Scan = Inr, tq_Expect = ExpectOne\<rparr>"

definition organizationByNameQuery :: "string \<Rightarrow> (PgOrganization, PgOrganization) TypedQuery" where
  "organizationByNameQuery name = \<lparr>
     tq_SQL = reads (\<lambda>s.
       [\<lparr>po_ID = org_id r, po_Name = org_name r, po_ControlProjectID = prj_id p,
         po_CreatedAt = org_created_at r, po_UpdatedAt = org_updated_at r\<rparr>.
        r \<leftarrow> organizations s, p \<leftarrow> projects s, prj_org_id p = org_id r \<and> prj_is_control p,
        org_name r = name]),
     tq_Scan = Inr, tq_Expect = ExpectOne\<rparr>"

definition projectByNameQuery :: "int \<Rightarrow> string \<Rightarrow> (project_row, project_row) TypedQuery" where
  "projectByNameQuery orgID name = \<lparr>
     tq_SQL = reads (\<lambda>s.
       filter (\<lambda>p. prj_org_id p = orgID \<and> toLower (prj_name p) = toLower name) (projects s)),
     tq_Scan = Inr, tq_Expect = ExpectOne\<rparr>"

text \<open>\<open>INSERT ... SELECT\<close> inserts one project for every organization the join finds.\<close>

primrec new_projects :: "int list \<Rightarrow> string \<Rightarrow> project_row list op" where
  "new_projects [] name = ret []"
| "new_projects (org # orgs) name =
    andThen (new_project org name False) (\<lambda>p.
    andThen (new_projects orgs name) (\<lambda>ps. ret (p # ps)))"

definition createProjectQuery :: "PgCreateProject \<Rightarrow> (project_row, project_row) TypedQuery" where
  "createProjectQuery cp = \<lparr>
     tq_SQL = andThen (reads (\<lambda>s. filter (\<lambda>i. i = pcp_OrgID cp) (map org_id (organizations s)))) (\<lambda>orgs.
       new_projects orgs (pcp_Name cp)),
     tq_Scan = Inr, tq_Expect = ExpectOne\<rparr>"

definition member_target :: "uuid \<Rightarrow> int \<Rightarrow> db \<Rightarrow> (int \<times> int) list" where
  "member_target userID orgID s =
    [(org_id r, usr_id u). r \<leftarrow> organizations s, org_id r = orgID, u \<leftarrow> users_by_external_id s userID]"

definition addOrganizationMemberQuery :: "uuid \<Rightarrow> int \<Rightarrow> (int, int) TypedQuery" where
  "addOrganizationMemberQuery userID orgID = \<lparr>
     tq_SQL = andThen (reads (member_target userID orgID)) (\<lambda>rows.
       andThen (reads org_membership) (\<lambda>ms.
       if \<not> distinct rows \<or> set rows \<inter> set ms \<noteq> {} then unique_violation
       else andThen (updates (\<lambda>s. s\<lparr>org_membership := org_membership s @ rows\<rparr>)) (\<lambda>_.
         ret (map fst rows)))),
     tq_Scan = Inr, tq_Expect = ExpectOne\<rparr>"

text \<open>\<open>ON CONFLICT DO NOTHING\<close> skips the rows that are members already.\<close>

definition ensureOrganizationMemberQuery :: "uuid \<Rightarrow> int \<Rightarrow> (int, int) TypedQuery" where
  "ensureOrganizationMemberQuery userID orgID = \<lparr>
     tq_SQL = andThen (reads (member_target userID orgID)) (\<lambda>rows.
       andThen (updates (\<lambda>s. s\<lparr>org_membership := org_membership s @
           filter (\<lambda>m. m \<notin> set (org_membership s)) (remdups rows)\<rparr>)) (\<lambda>_.
       ret (map fst rows))),
     tq_Scan = Inr, tq_Expect = ExpectOne\<rparr>"

definition projectWhereClause :: "PgProjectFilter \<Rightarrow> project_row \<Rightarrow> bool" where
  "projectWhereClause f p \<longleftrightarrow> prefix_filter (ppf_Name f) (prj_name p)"

definition by_org_natural_name :: "db \<Rightarrow> project_row \<Rightarrow> project_row \<Rightarrow> bool" where
  "by_org_natural_name s a b \<longleftrightarrow> prj_org_id a < prj_org_id b \<or>
    prj_org_id a = prj_org_id b \<and> natural s (prj_name a) (prj_name b)"

definition accessible_projects :: "uuid \<Rightarrow> PgProjectFilter \<Rightarrow> db \<Rightarrow> project_row list" where
  "accessible_projects userID filt s =
    [p. u \<leftarrow> users_by_external_id s userID, i \<leftarrow> accessible_project_ids s (usr_id u),
        p \<leftarrow> projects s, prj_id p = i, projectWhereClause filt p]"

definition accessibleProjectsQuery ::
    "uuid \<Rightarrow> PgProjectFilter \<Rightarrow> int \<Rightarrow> int \<Rightarrow> (project_row, project_row) TypedQuery" where
  "accessibleProjectsQuery userID filt pageSize pageOffset = \<lparr>
     tq_SQL = with_page pageSize pageOffset (reads (\<lambda>s.
       sort_by (by_org_natural_name s) (accessible_projects userID filt s))),
     tq_Scan = Inr, tq_Expect = ExpectMany\<rparr>"

definition accessibleProjectCountQuery :: "uuid \<Rightarrow> PgProjectFilter \<Rightarrow> (int, int) TypedQuery" where
  "accessibleProjectCountQuery userID filt = \<lparr>
     tq_SQL = reads (\<lambda>s.
       [int (length [p. i \<leftarrow> accessible_project_ids s (usr_id u),
                        p \<leftarrow> filter (projectWhereClause filt) (projects s), prj_id p = i]).
        u \<leftarrow> users_by_external_id s userID]),
     tq_Scan = Inr, tq_Expect = ExpectOne\<rparr>"

section \<open>store.go\<close>

definition pgorg_OrganizationUsers ::
    "int \<Rightarrow> PgOrganizationUserFilter \<Rightarrow> int \<Rightarrow> int \<Rightarrow> (user_row list \<times> int) op" where
  "pgorg_OrganizationUsers orgID filt pageSize pageOffset =
    andThen (QueueMany (organizationUsersQuery orgID filt pageSize pageOffset)) (\<lambda>us.
    andThen (Queue (organizationUserCountQuery orgID filt)) (\<lambda>count. ret (us, count)))"

definition pgorg_CreateOrganization :: "PgCreateOrganization \<Rightarrow> PgOrganization op" where
  "pgorg_CreateOrganization co = Queue (createOrganizationQuery co)"

definition pgorg_CreateProject :: "PgCreateProject \<Rightarrow> project_row op" where
  "pgorg_CreateProject cp = Queue (createProjectQuery cp)"

definition AddOrganizationMember :: "uuid \<Rightarrow> int \<Rightarrow> unit op" where
  "AddOrganizationMember userID orgID =
    andThen (Queue (addOrganizationMemberQuery userID orgID)) (\<lambda>_. ret ())"

definition EnsureOrganizationMember :: "uuid \<Rightarrow> int \<Rightarrow> unit op" where
  "EnsureOrganizationMember userID orgID =
    andThen (Queue (ensureOrganizationMemberQuery userID orgID)) (\<lambda>_. ret ())"

definition pgorg_OrganizationByName :: "string \<Rightarrow> PgOrganization op" where
  "pgorg_OrganizationByName name = Queue (organizationByNameQuery name)"

definition pgorg_ProjectByName :: "int \<Rightarrow> string \<Rightarrow> project_row op" where
  "pgorg_ProjectByName orgID name = Queue (projectByNameQuery orgID name)"

definition pgorg_AccessibleProjects ::
    "uuid \<Rightarrow> PgProjectFilter \<Rightarrow> int \<Rightarrow> int \<Rightarrow> (project_row list \<times> int) op" where
  "pgorg_AccessibleProjects userID filt pageSize pageOffset =
    andThen (QueueMany (accessibleProjectsQuery userID filt pageSize pageOffset)) (\<lambda>ps.
    andThen (Queue (accessibleProjectCountQuery userID filt)) (\<lambda>count. ret (ps, count)))"

end
