(* ===== verification/OrgCore.thy ===== *)
theory OrgCore
  imports PgOrg CustomRoleCore UserCore
begin

text \<open>
  Organizations and projects in the domain layer: \<open>internal/core/org/org.go\<close> and \<open>conv.go\<close>, over the
  organization store, the user store and the managed-role operations of the role store. \<open>userFromPg\<close>,
  \<open>usersFromPg\<close> and \<open>permissionsToPg\<close> are those of theories UserCore and SystemRoleCore: the package has
  its own copies of the same functions.
\<close>

section \<open>conv.go\<close>

definition defaultControlProjectName :: string where
  "defaultControlProjectName = ''control''"

definition createOrganizationToPg :: "CreateOrganization \<Rightarrow> PgCreateOrganization" where
  "createOrganizationToPg co = \<lparr>pco_Name = co_Name co, pco_ControlProjectName = defaultControlProjectName\<rparr>"

definition organizationUserFilterToPg :: "OrganizationUserFilter \<Rightarrow> PgOrganizationUserFilter" where
  "organizationUserFilterToPg filt = \<lparr>pouf_ProjectID = ouf_ProjectID filt\<rparr>"

definition organizationFromPg :: "PgOrganization \<Rightarrow> Organization" where
  "organizationFromPg r = \<lparr>o_ID = po_ID r, o_Name = po_Name r, o_ControlProjectID = po_ControlProjectID r,
     o_CreatedAt = po_CreatedAt r, o_UpdatedAt = po_UpdatedAt r\<rparr>"

definition createProjectToPg :: "CreateProject \<Rightarrow> PgCreateProject" where
  "createProjectToPg cp = \<lparr>pcp_OrgID = cp_OrgID cp, pcp_Name = cp_Name cp\<rparr>"

definition projectFromPg :: "project_row \<Rightarrow> Project" where
  "projectFromPg p = \<lparr>p_ID = prj_id p, p_OrgID = prj_org_id p, p_Name = prj_name p,
     p_IsControl = prj_is_control p, p_CreatedAt = prj_created_at p, p_UpdatedAt = prj_updated_at p,
     p_ETag = prj_etag p\<rparr>"

definition projectsFromPg :: "project_row list \<Rightarrow> Project list" where
  "projectsFromPg ps = map projectFromPg ps"

definition projectFilterToPg :: "ProjectFilter \<Rightarrow> PgProjectFilter" where
  "projectFilterToPg filt = \<lparr>ppf_Name = pf_Name filt\<rparr>"

section \<open>org.go\<close>

definition createOrganization :: "CreateOrganization \<Rightarrow> uuid option \<Rightarrow> Organization op" where
  "createOrganization co creatorID =
    andThen (liftS (CreateOrganization_Validate co)) (\<lambda>_.
    andThen (run_tx (
      andThen (onError (\<lambda>e. if e = PgErrAlreadyExists then ErrAlreadyExists else e)
        (pgorg_CreateOrganization (createOrganizationToPg co))) (\<lambda>pgOrg.
      andThen (onError (\<lambda>e. if e = PgErrAlreadyExists then ErrControlProjectNameConflict else e)
        (pgorg_CreateProject \<lparr>pcp_OrgID = po_ID pgOrg, pcp_Name = co_ProjectName co\<rparr>)) (\<lambda>_.
      case creatorID of
        None \<Rightarrow> ret pgOrg
      | Some creator \<Rightarrow>
          andThen (onError (\<lambda>e. if e = SqlErrNoRows then ErrOrgCreatorNotFound else e)
            (AddOrganizationMember creator (po_ID pgOrg))) (\<lambda>_.
          andThen (CreateOrganizationAdminRole (po_ID pgOrg)
            (permissionsToPg OrganizationAdminPermissions)) (\<lambda>adminRole.
          andThen (pg_AssignCustomRoleToOrg creator (pcr_ExternalID adminRole) (po_ID pgOrg)) (\<lambda>_.
          ret pgOrg))))))) (\<lambda>pgOrg.
    ret (organizationFromPg pgOrg)))"

definition CreateOrganization :: "AuthSession option \<Rightarrow> CreateOrganization \<Rightarrow> Organization op" where
  "CreateOrganization ctx co = (case ctx of
      None \<Rightarrow> throw (ErrMsg ''auth session missing'')
    | Some sess \<Rightarrow> onError (\<lambda>e. if e = ErrOrgCreatorNotFound then ErrNotFound else e)
        (createOrganization co (Some (sessUser sess))))"

definition BootstrapOrganization :: "CreateOrganization \<Rightarrow> Organization op" where
  "BootstrapOrganization co = createOrganization co None"

definition CreateProject :: "CreateProject \<Rightarrow> Project op" where
  "CreateProject cp =
    andThen (liftS (CreateProject_Validate cp)) (\<lambda>_.
    andThen (onError (\<lambda>e. if e = SqlErrNoRows then ErrNotFound
                          else if e = PgErrAlreadyExists then ErrAlreadyExists else e)
      (pgorg_CreateProject (createProjectToPg cp))) (\<lambda>pgProject.
    ret (projectFromPg pgProject)))"

definition OrganizationByName :: "string \<Rightarrow> Organization op" where
  "OrganizationByName name =
    andThen (onError notFound (pgorg_OrganizationByName name)) (\<lambda>pgOrg. ret (organizationFromPg pgOrg))"

definition CreateOrganizationUser :: "address_parser \<Rightarrow> AuthSession option \<Rightarrow> string \<Rightarrow> User op" where
  "CreateOrganizationUser pa ctx email =
    andThen (liftS (CreateOrganizationUser_Validate pa email)) (\<lambda>_.
    andThen (projectSession ctx) (\<lambda>(sess, project).
    andThen (run_tx (
      andThen (pguser_GetOrCreateUserByEmail email) (\<lambda>pgUser.
      andThen (EnsureOrganizationMember (usr_external_id pgUser) (ap_OrgID project)) (\<lambda>_.
      ret pgUser)))) (\<lambda>pgUser.
    ret (userFromPg pgUser))))"

definition OrganizationUsers ::
    "AuthSession option \<Rightarrow> OrganizationUserFilter \<Rightarrow> int \<Rightarrow> int \<Rightarrow> (User list \<times> int) op" where
  "OrganizationUsers ctx filt pageSize pageOffset =
    andThen (projectSession ctx) (\<lambda>(sess, project).
    andThen (onError notFound (pgorg_OrganizationUsers (ap_OrgID project)
      (organizationUserFilterToPg filt) pageSize pageOffset)) (\<lambda>(us, count).
    ret (usersFromPg us, count)))"

definition ProjectByName :: "int \<Rightarrow> string \<Rightarrow> Project op" where
  "ProjectByName orgID name =
    andThen (onError notFound (pgorg_ProjectByName orgID name)) (\<lambda>pgProject. ret (projectFromPg pgProject))"

definition AccessibleProjects ::
    "AuthSession option \<Rightarrow> ProjectFilter \<Rightarrow> int \<Rightarrow> int \<Rightarrow> (Project list \<times> int) op" where
  "AccessibleProjects ctx filt pageSize pageOffset = (case ctx of
      None \<Rightarrow> throw (ErrMsg ''auth session missing from context'')
    | Some sess \<Rightarrow>
        andThen (onError notFound (pgorg_AccessibleProjects (sessUser sess) (projectFilterToPg filt)
          pageSize pageOffset)) (\<lambda>(ps, count).
        ret (projectsFromPg ps, count)))"

end
