(* ===== verification/OrgProps.thy ===== *)
theory OrgProps
  imports OrgCore RoleSafety
begin

text \<open>
  Organizations and projects: what a successful creation writes, that it hands out nothing beyond the
  administrator role of the new organization, its errors, and the invariants every call keeps.
\<close>

section \<open>Store operations\<close>

lemma insert_org_Inr:
  "insert_org r s = (Inr y, t) \<longleftrightarrow>
    \<not> org_conflict r (organizations s) \<and> t = s\<lparr>organizations := organizations s @ [r]\<rparr>"
  by (auto simp: insert_org_def andThen_Inr_iff violations split: if_splits)

lemma insert_project_Inr:
  "insert_project r s = (Inr y, t) \<longleftrightarrow>
    \<not> project_conflict r (projects s) \<and> t = s\<lparr>projects := projects s @ [r]\<rparr>"
  by (auto simp: insert_project_def andThen_Inr_iff violations split: if_splits)

definition project_row_of :: "int \<Rightarrow> string \<Rightarrow> bool \<Rightarrow> db \<Rightarrow> project_row" where
  "project_row_of org name ctl s = \<lparr>prj_id = g_projects (gen s), prj_org_id = org, prj_name = name,
     prj_is_control = ctl, prj_created_at = clock s, prj_updated_at = None,
     prj_etag = g_uuids (gen s) (g_uuid_pos (gen s))\<rparr>"

definition project_gen :: "db \<Rightarrow> generators" where
  "project_gen s = (gen s)\<lparr>g_projects := g_projects (gen s) + 1, g_uuid_pos := Suc (g_uuid_pos (gen s))\<rparr>"

lemma new_project_eq:
  "new_project org name ctl s = (if project_conflict (project_row_of org name ctl s) (projects s)
     then (Inl PgErrAlreadyExists, s\<lparr>gen := project_gen s\<rparr>)
     else (Inr (project_row_of org name ctl s),
       s\<lparr>gen := project_gen s, projects := projects s @ [project_row_of org name ctl s]\<rparr>))"
  by (simp add: new_project_def insert_project_def project_row_of_def project_gen_def prog_defs nextval_def
      gen_random_uuid_def violations Let_def)

lemma filter_id_single:
  "distinct (map f rs) \<Longrightarrow> filter (\<lambda>i. i = k) (map f rs) = (if k \<in> f ` set rs then [k] else [])"
  by (induction rs) (auto simp: filter_empty_conv)

definition org_row_of :: "string \<Rightarrow> db \<Rightarrow> org_row" where
  "org_row_of name s = \<lparr>org_id = g_organizations (gen s), org_name = name, org_created_at = clock s,
     org_updated_at = None\<rparr>"

definition pg_org_of :: "org_row \<Rightarrow> project_row \<Rightarrow> PgOrganization" where
  "pg_org_of r p = \<lparr>po_ID = org_id r, po_Name = org_name r, po_ControlProjectID = prj_id p,
     po_CreatedAt = org_created_at r, po_UpdatedAt = org_updated_at r\<rparr>"

lemma po_ID_pg_org_of [simp]: "po_ID (pg_org_of r p) = org_id r"
  by (simp add: pg_org_of_def)

lemma project_row_of_simps [simp]:
  "prj_id (project_row_of org name ctl s) = g_projects (gen s)"
  "prj_org_id (project_row_of org name ctl s) = org" "prj_name (project_row_of org name ctl s) = name"
  "prj_is_control (project_row_of org name ctl s) = ctl"
  "prj_etag (project_row_of org name ctl s) = g_uuids (gen s) (g_uuid_pos (gen s))"
  "prj_updated_at (project_row_of org name ctl s) = None"
  "prj_created_at (project_row_of org name ctl s) = clock s"
  by (simp_all add: project_row_of_def)

lemma org_row_of_simps [simp]:
  "org_id (org_row_of name s) = g_organizations (gen s)" "org_name (org_row_of name s) = name"
  "org_created_at (org_row_of name s) = clock s" "org_updated_at (org_row_of name s) = None"
  by (simp_all add: org_row_of_def)

lemma pgorg_CreateProject_eq:
  assumes "distinct (map org_id (organizations s))"
  shows "pgorg_CreateProject cp s =
    (if pcp_OrgID cp \<notin> org_ids s then (Inl SqlErrNoRows, s)
     else let p = project_row_of (pcp_OrgID cp) (pcp_Name cp) False s in
       if project_conflict p (projects s) then (Inl PgErrAlreadyExists, s\<lparr>gen := project_gen s\<rparr>)
       else (Inr p, s\<lparr>gen := project_gen s, projects := projects s @ [p]\<rparr>))"
  using assms
  by (simp add: pgorg_CreateProject_def createProjectQuery_def queueOne_def filter_id_single prog_defs
      atomic_def new_project_eq collectOne_def Let_def)

definition org_gen :: "db \<Rightarrow> generators" where
  "org_gen s = (gen s)\<lparr>g_organizations := g_organizations (gen s) + 1,
     g_projects := g_projects (gen s) + 1, g_uuid_pos := Suc (g_uuid_pos (gen s))\<rparr>"

lemma pgorg_CreateOrganization_eq:
  assumes r: "r = org_row_of (pco_Name co) s"
    and p: "p = project_row_of (org_id r) (pco_ControlProjectName co) True s"
  shows "pgorg_CreateOrganization co s =
    (if org_conflict r (organizations s) then
       (Inl PgErrAlreadyExists, s\<lparr>gen := (gen s)\<lparr>g_organizations := g_organizations (gen s) + 1\<rparr>\<rparr>)
     else if project_conflict p (projects s) then (Inl PgErrAlreadyExists, s\<lparr>gen := org_gen s\<rparr>)
     else (Inr (pg_org_of r p),
       s\<lparr>organizations := organizations s @ [r], gen := org_gen s, projects := projects s @ [p]\<rparr>))"
  unfolding r p
  by (simp add: pgorg_CreateOrganization_def createOrganizationQuery_def queueOne_def prog_defs atomic_def
      nextval_def insert_org_def new_project_eq violations collectOne_def pg_org_of_def org_row_of_def
      project_row_of_def project_gen_def org_gen_def)

lemma pgorg_CreateOrganization_Inr:
  assumes "pgorg_CreateOrganization co s = (Inr po, t)"
  shows "\<exists>r p. r = org_row_of (pco_Name co) s \<and> \<not> org_conflict r (organizations s) \<and>
    p = project_row_of (org_id r) (pco_ControlProjectName co) True s \<and>
    \<not> project_conflict p (projects s) \<and> po = pg_org_of r p \<and>
    t = s\<lparr>organizations := organizations s @ [r], gen := org_gen s, projects := projects s @ [p]\<rparr>"
  using assms by (auto simp: pgorg_CreateOrganization_eq split: if_splits)

lemma AddOrganizationMember_Inr:
  assumes "AddOrganizationMember x o' s = (Inr (), t)"
  shows "\<exists>u \<in> set (users_by_external_id s x). o' \<in> org_ids s \<and> (o', usr_id u) \<notin> set (org_membership s) \<and>
    t = s\<lparr>org_membership := org_membership s @ [(o', usr_id u)]\<rparr>"
proof -
  let ?rows = "member_target x o' s"
  from assms obtain m where rows: "?rows = [m]" and new: "m \<notin> set (org_membership s)"
    and t: "t = s\<lparr>org_membership := org_membership s @ [m]\<rparr>"
    by (auto simp: AddOrganizationMember_def addOrganizationMemberQuery_def queueOne_Inr_iff andThen_Inr_iff
        violations map_eq_Cons_conv split: if_splits)
  then have "m \<in> set ?rows" by simp
  then obtain r u where "r \<in> set (organizations s)" "org_id r = o'" "u \<in> set (users_by_external_id s x)"
    "m = (o', usr_id u)" by (auto simp: member_target_def split: if_splits)
  with new t show ?thesis by auto
qed

lemma CreateOrganizationAdminRole_Inr:
  assumes "CreateOrganizationAdminRole o' ns s = (Inr role, t)"
  shows "\<exists>r ids names g. resolve_permissions s ns = Some (ids, names) \<and> o' \<in> org_ids s \<and> role_checks r \<and>
    \<not> role_conflict r (custom_roles s) \<and> rol_name r = ''Organization Administrator'' \<and> rol_org_id r = o' \<and>
    rol_managed_key r = Some ManagedRoleKeyOrganizationAdmin \<and> distinct ids \<and>
    pcr_ExternalID role = rol_external_id r \<and>
    t = s\<lparr>gen := g, custom_roles := custom_roles s @ [r],
      custom_role_permissions := custom_role_permissions s @ map (Pair (rol_id r)) ids\<rparr>"
  using createCustomRole_Inr[OF assms[unfolded CreateOrganizationAdminRole_def]]
  by (simp add: ManagedRoleKeyOrganizationAdmin_def) blast

section \<open>Successful creation\<close>

definition founded :: "CreateOrganization \<Rightarrow> db \<Rightarrow> org_row \<Rightarrow> project_row \<Rightarrow> project_row \<Rightarrow> bool" where
  "founded co s r ctl prj \<longleftrightarrow>
    org_name r = co_Name co \<and> \<not> org_conflict r (organizations s) \<and>
    prj_org_id ctl = org_id r \<and> prj_name ctl = defaultControlProjectName \<and> prj_is_control ctl \<and>
    \<not> project_conflict ctl (projects s) \<and>
    prj_org_id prj = org_id r \<and> prj_name prj = co_ProjectName co \<and> \<not> prj_is_control prj \<and>
    \<not> project_conflict prj (projects s @ [ctl])"

definition with_org :: "db \<Rightarrow> org_row \<Rightarrow> project_row \<Rightarrow> project_row \<Rightarrow> generators \<Rightarrow> db" where
  "with_org s r ctl prj g = s\<lparr>organizations := organizations s @ [r],
     projects := projects s @ [ctl, prj], gen := g, locks := []\<rparr>"

definition with_admin :: "db \<Rightarrow> int \<Rightarrow> int \<Rightarrow> custom_role_row \<Rightarrow> int list \<Rightarrow> db" where
  "with_admin s o' u role ids = s\<lparr>org_membership := org_membership s @ [(o', u)],
     custom_roles := custom_roles s @ [role],
     custom_role_permissions := custom_role_permissions s @ map (Pair (rol_id role)) ids,
     org_role_assignments := org_role_assignments s @
       [\<lparr>oa_user_id = u, oa_org_id = o', oa_role_id = rol_id role\<rparr>]\<rparr>"

lemma founding_steps:
  assumes d: "distinct (map org_id (organizations s))"
    and co: "pgorg_CreateOrganization (createOrganizationToPg co) s = (Inr po, s1)"
    and cp: "pgorg_CreateProject \<lparr>pcp_OrgID = po_ID po, pcp_Name = co_ProjectName co\<rparr> s1 = (Inr p, s2)"
  shows "\<exists>r ctl g. founded co s r ctl p \<and> po = pg_org_of r ctl \<and>
    s2 = s\<lparr>organizations := organizations s @ [r], projects := projects s @ [ctl, p], gen := g\<rparr>"
proof -
  from pgorg_CreateOrganization_Inr[OF co] obtain r ctl
    where r: "r = org_row_of (co_Name co) s" "\<not> org_conflict r (organizations s)"
    and ctl: "ctl = project_row_of (org_id r) defaultControlProjectName True s" "\<not> project_conflict ctl (projects s)"
    and po: "po = pg_org_of r ctl"
    and s1: "s1 = s\<lparr>organizations := organizations s @ [r], gen := org_gen s, projects := projects s @ [ctl]\<rparr>"
    by (auto simp: createOrganizationToPg_def)
  have "distinct (map org_id (organizations s1))" using d r(2) by (auto simp: s1 org_conflict_def)
  from cp[unfolded pgorg_CreateProject_eq[OF this]]
  have p: "p = project_row_of (org_id r) (co_ProjectName co) False s1" "\<not> project_conflict p (projects s @ [ctl])"
    and s2: "s2 = s1\<lparr>gen := project_gen s1, projects := projects s1 @ [p]\<rparr>"
    by (auto simp: po pg_org_of_def s1 Let_def split: if_splits)
  have "founded co s r ctl p" unfolding founded_def using r ctl p by simp
  moreover have "s2 = s\<lparr>organizations := organizations s @ [r], projects := projects s @ [ctl, p], gen := project_gen s1\<rparr>"
    unfolding s2 by (simp add: s1)
  ultimately show ?thesis using po by blast
qed

lemma bootstrap_InrE:
  assumes inv: "db_inv s" and q: "createOrganization co None s = (Inr org, t)"
  obtains r ctl p g where "founded co s r ctl p" "org = organizationFromPg (pg_org_of r ctl)"
    "t = with_org s r ctl p g"
proof -
  have d: "distinct (map org_id (organizations s))" using inv by (simp add: db_inv_def orgs_ok_def)
  from q obtain po s1 p s2 where
    "pgorg_CreateOrganization (createOrganizationToPg co) s = (Inr po, s1)"
    "pgorg_CreateProject \<lparr>pcp_OrgID = po_ID po, pcp_Name = co_ProjectName co\<rparr> s1 = (Inr p, s2)"
    and o': "org = organizationFromPg po" and t: "t = s2\<lparr>locks := []\<rparr>"
    by (auto simp: createOrganization_def andThen_Inr_iff)
  from founding_steps[OF d this(1,2)] obtain r ctl g where f: "founded co s r ctl p" "po = pg_org_of r ctl"
    "s2 = s\<lparr>organizations := organizations s @ [r], projects := projects s @ [ctl, p], gen := g\<rparr>" by blast
  show ?thesis by (rule that[OF f(1), of g]) (simp_all add: o' t f with_org_def)
qed

lemma create_InrE:
  assumes inv: "db_inv s" and q: "createOrganization co (Some x) s = (Inr org, t)"
  obtains r ctl p g u role ids names where "founded co s r ctl p" "org = organizationFromPg (pg_org_of r ctl)"
    "u \<in> set (users_by_external_id s x)"
    "resolve_permissions s OrganizationAdminPermissions = Some (ids, names)" "distinct ids"
    "role_checks role" "\<not> role_conflict role (custom_roles s)" "rol_org_id role = org_id r"
    "rol_managed_key role = Some ManagedRoleKeyOrganizationAdmin"
    "t = with_admin (with_org s r ctl p g) (org_id r) (usr_id u) role ids"
proof -
  have d: "distinct (map org_id (organizations s))" using inv by (simp add: db_inv_def orgs_ok_def)
  from q obtain po s1 p s2 s3 role s4 s5 where
    "pgorg_CreateOrganization (createOrganizationToPg co) s = (Inr po, s1)"
    "pgorg_CreateProject \<lparr>pcp_OrgID = po_ID po, pcp_Name = co_ProjectName co\<rparr> s1 = (Inr p, s2)"
    and add: "AddOrganizationMember x (po_ID po) s2 = (Inr (), s3)"
    and adm: "CreateOrganizationAdminRole (po_ID po) (permissionsToPg OrganizationAdminPermissions) s3 = (Inr role, s4)"
    and asg: "pg_AssignCustomRoleToOrg x (pcr_ExternalID role) (po_ID po) s4 = (Inr (), s5)"
    and o': "org = organizationFromPg po" and t: "t = s5\<lparr>locks := []\<rparr>"
    by (auto simp: createOrganization_def andThen_Inr_iff)
  from founding_steps[OF d this(1,2)] obtain r ctl g where f: "founded co s r ctl p" and po: "po = pg_org_of r ctl"
    and s2: "s2 = s\<lparr>organizations := organizations s @ [r], projects := projects s @ [ctl, p], gen := g\<rparr>" by blast
  from AddOrganizationMember_Inr[OF add] obtain u where u: "u \<in> set (users_by_external_id s x)"
    and s3: "s3 = s2\<lparr>org_membership := org_membership s2 @ [(org_id r, usr_id u)]\<rparr>"
    by (auto simp: s2 users_by_external_id_def po pg_org_of_def)
  from CreateOrganizationAdminRole_Inr[OF adm] obtain rr ids names g'
    where res: "resolve_permissions s3 OrganizationAdminPermissions = Some (ids, names)" "distinct ids"
    and rr: "role_checks rr" "\<not> role_conflict rr (custom_roles s3)" "rol_org_id rr = org_id r"
      "rol_managed_key rr = Some ManagedRoleKeyOrganizationAdmin"
    and ext: "pcr_ExternalID role = rol_external_id rr"
    and s4: "s4 = s3\<lparr>gen := g', custom_roles := custom_roles s3 @ [rr],
      custom_role_permissions := custom_role_permissions s3 @ map (Pair (rol_id rr)) ids\<rparr>"
    by (auto simp: po pg_org_of_def)
  have "permission_id_of s3 = permission_id_of s" "coll s3 = coll s"
    by (simp_all add: s3 s2 permission_id_of_def fun_eq_iff)
  then have "resolve_permissions s3 ns = resolve_permissions s ns" for ns
    by (simp only: resolve_permissions_def)
  note res = res[unfolded this]
  from pg_AssignCustomRoleToOrg_Inr[OF asg] obtain a
    where s5: "s5 = s4\<lparr>org_role_assignments := org_role_assignments s4 @ [a]\<rparr>"
    and a: "oa_org_id a = org_id r" "\<exists>v \<in> set (users_by_external_id s4 x). oa_user_id a = usr_id v"
      "\<exists>q \<in> set (org_roles_by_external_id s4 (org_id r) (rol_external_id rr)). rol_id q = oa_role_id a"
    by (auto simp: po pg_org_of_def ext)
  have "users_by_external_id s4 x = users_by_external_id s x"
    by (simp add: s4 s3 s2 users_by_external_id_def)
  moreover have "\<forall>v \<in> set (users_by_external_id s x). v = u"
    using u inv distinct_key_unique[of usr_external_id "users s"]
    by (auto simp: users_by_external_id_def db_inv_def users_ok_def)
  ultimately have au: "oa_user_id a = usr_id u" using a(2) by auto
  have "custom_roles s4 = custom_roles s @ [rr]" "custom_roles s3 = custom_roles s"
    by (simp_all add: s4 s3 s2)
  then have ar: "oa_role_id a = rol_id rr"
    using a(3) rr(2) by (auto simp: org_roles_by_external_id_def role_conflict_def split: if_splits)
  have "a = \<lparr>oa_user_id = usr_id u, oa_org_id = org_id r, oa_role_id = rol_id rr\<rparr>"
    using a(1) au ar by simp
  then have "t = with_admin (with_org s r ctl p g') (org_id r) (usr_id u) rr ids"
    unfolding t s5 s4 s3 s2 with_admin_def with_org_def by simp
  then show ?thesis
    using that[OF f _ u res rr(1) _ rr(3,4)] rr(2) by (simp add: o' po s3 s2)
qed

section \<open>What the new organization grants\<close>

lemma with_admin_simps [simp]:
  "users (with_admin (with_org s r ctl p g) o' u role ids) = users s"
  "organizations (with_admin (with_org s r ctl p g) o' u role ids) = organizations s @ [r]"
  "projects (with_admin (with_org s r ctl p g) o' u role ids) = projects s @ [ctl, p]"
  "permissions (with_admin (with_org s r ctl p g) o' u role ids) = permissions s"
  "org_membership (with_admin (with_org s r ctl p g) o' u role ids) = org_membership s @ [(o', u)]"
  "custom_roles (with_admin (with_org s r ctl p g) o' u role ids) = custom_roles s @ [role]"
  "custom_role_permissions (with_admin (with_org s r ctl p g) o' u role ids) =
    custom_role_permissions s @ map (Pair (rol_id role)) ids"
  "org_role_assignments (with_admin (with_org s r ctl p g) o' u role ids) =
    org_role_assignments s @ [\<lparr>oa_user_id = u, oa_org_id = o', oa_role_id = rol_id role\<rparr>]"
  "project_role_assignments (with_admin (with_org s r ctl p g) o' u role ids) = project_role_assignments s"
  "system_roles (with_admin (with_org s r ctl p g) o' u role ids) = system_roles s"
  "system_role_permissions (with_admin (with_org s r ctl p g) o' u role ids) = system_role_permissions s"
  "system_role_assignments (with_admin (with_org s r ctl p g) o' u role ids) = system_role_assignments s"
  "magic_link_tokens (with_admin (with_org s r ctl p g) o' u role ids) = magic_link_tokens s"
  "refresh_tokens (with_admin (with_org s r ctl p g) o' u role ids) = refresh_tokens s"
  by (simp_all add: with_admin_def with_org_def)

lemma with_org_simps [simp]:
  "users (with_org s r ctl p g) = users s"
  "organizations (with_org s r ctl p g) = organizations s @ [r]"
  "projects (with_org s r ctl p g) = projects s @ [ctl, p]"
  "permissions (with_org s r ctl p g) = permissions s"
  "org_membership (with_org s r ctl p g) = org_membership s"
  "custom_roles (with_org s r ctl p g) = custom_roles s"
  "custom_role_permissions (with_org s r ctl p g) = custom_role_permissions s"
  "org_role_assignments (with_org s r ctl p g) = org_role_assignments s"
  "project_role_assignments (with_org s r ctl p g) = project_role_assignments s"
  "system_roles (with_org s r ctl p g) = system_roles s"
  "system_role_permissions (with_org s r ctl p g) = system_role_permissions s"
  "system_role_assignments (with_org s r ctl p g) = system_role_assignments s"
  "magic_link_tokens (with_org s r ctl p g) = magic_link_tokens s"
  "refresh_tokens (with_org s r ctl p g) = refresh_tokens s"
  by (simp_all add: with_org_def)

text \<open>The projects of an organization, and the control project among them.\<close>

definition control_projects :: "db \<Rightarrow> int \<Rightarrow> project_row list" where
  "control_projects s o' = filter (\<lambda>p. prj_org_id p = o' \<and> prj_is_control p) (projects s)"

definition control_inv :: "db \<Rightarrow> bool" where
  "control_inv s \<longleftrightarrow> (\<forall>r \<in> set (organizations s). length (control_projects s (org_id r)) = 1)"

lemma new_org_unreferenced:
  assumes inv: "db_inv s" and new: "\<not> org_conflict r (organizations s)"
  shows "org_id r \<notin> org_ids s" "q \<in> set (projects s) \<Longrightarrow> prj_org_id q \<noteq> org_id r"
    "(org_id r, u) \<notin> set (org_membership s)"
    "a \<in> set (org_role_assignments s) \<Longrightarrow> oa_org_id a \<noteq> org_id r"
    "q' \<in> set (custom_roles s) \<Longrightarrow> rol_org_id q' \<noteq> org_id r"
proof -
  show n: "org_id r \<notin> org_ids s" using new by (auto simp: org_conflict_def)
  have "\<forall>p \<in> set (projects s). prj_org_id p \<in> org_ids s" using inv by (simp add: db_inv_def projects_ok_def)
  then show "prj_org_id q \<noteq> org_id r" if "q \<in> set (projects s)" using that n by metis
  have "\<forall>(o', u) \<in> set (org_membership s). o' \<in> org_ids s" using inv by (auto simp: db_inv_def membership_ok_def)
  then show m: "(org_id r, u) \<notin> set (org_membership s)" for u using n by fastforce
  show "oa_org_id a \<noteq> org_id r" if "a \<in> set (org_role_assignments s)"
    using that inv m[of "oa_user_id a"] by (auto simp: db_inv_def org_assignments_ok_def)
  have "\<forall>q \<in> set (custom_roles s). rol_org_id q \<in> org_ids s" using inv by (simp add: db_inv_def custom_roles_ok_def)
  then show "rol_org_id q' \<noteq> org_id r" if "q' \<in> set (custom_roles s)" using that n by metis
qed

lemma control_inv_with_org:
  assumes inv: "db_inv s" "control_inv s" and f: "founded co s r ctl p" and ps: "projects t = projects s @ [ctl, p]"
    and os: "organizations t = organizations s @ [r]"
  shows "control_inv t"
proof -
  have new: "\<not> org_conflict r (organizations s)" using f by (simp add: founded_def)
  note un = new_org_unreferenced[OF inv(1) new]
  have "control_projects t o' = control_projects s o'" if "o' \<noteq> org_id r" for o'
    using that f by (simp add: control_projects_def ps founded_def)
  moreover have "control_projects t (org_id r) = [ctl]"
    using f un(2) by (auto simp: control_projects_def ps founded_def filter_empty_conv)
  moreover have "org_id q \<noteq> org_id r" if "q \<in> set (organizations s)" for q using un(1) that by (metis imageI)
  ultimately show ?thesis using inv(2) by (simp add: control_inv_def os)
qed

section \<open>Constraints\<close>

lemma projects_ok_insert:
  assumes "projects_ok orgs ps" "\<not> project_conflict p ps" "prj_org_id p \<in> orgs"
  shows "projects_ok orgs (ps @ [p])"
  using assms unfolding projects_ok_def project_conflict_def
  by (auto simp: image_iff)

lemma projects_ok_mono: "projects_ok orgs ps \<Longrightarrow> orgs \<subseteq> orgs' \<Longrightarrow> projects_ok orgs' ps"
  by (auto simp: projects_ok_def)

lemma custom_roles_ok_mono: "custom_roles_ok orgs rs \<Longrightarrow> orgs \<subseteq> orgs' \<Longrightarrow> custom_roles_ok orgs' rs"
  by (auto simp: custom_roles_ok_def)

lemma membership_ok_mono: "membership_ok orgs us ms \<Longrightarrow> orgs \<subseteq> orgs' \<Longrightarrow> us \<subseteq> us' \<Longrightarrow> membership_ok orgs' us' ms"
  by (fastforce simp: membership_ok_def)

lemma org_assignments_ok_mono:
  "org_assignments_ok ms ros as \<Longrightarrow> ms \<subseteq> ms' \<Longrightarrow> ros \<subseteq> ros' \<Longrightarrow> org_assignments_ok ms' ros' as"
  by (auto simp: org_assignments_ok_def)

lemma project_assignments_ok_mono:
  "project_assignments_ok ms ros pos as \<Longrightarrow> ms \<subseteq> ms' \<Longrightarrow> ros \<subseteq> ros' \<Longrightarrow> pos \<subseteq> pos' \<Longrightarrow>
    project_assignments_ok ms' ros' pos' as"
  by (auto simp: project_assignments_ok_def)

lemma role_permissions_ok_mono:
  "role_permissions_ok rs ps rps \<Longrightarrow> rs \<subseteq> rs' \<Longrightarrow> role_permissions_ok rs' ps rps"
  by (auto simp: role_permissions_ok_def)

lemma db_inv_with_org:
  assumes inv: "db_inv s" and f: "founded co s r ctl p"
  shows "db_inv (with_org s r ctl p g)"
proof -
  let ?os = "insert (org_id r) (org_ids s)"
  have "orgs_ok (organizations s @ [r])"
    using inv f by (auto simp: db_inv_def orgs_ok_def founded_def org_conflict_def)
  moreover have "projects_ok ?os (projects s @ [ctl, p])"
  proof -
    have "projects_ok ?os (projects s)"
      by (rule projects_ok_mono[of "org_ids s"]) (use inv in \<open>auto simp: db_inv_def\<close>)
    then have "projects_ok ?os ((projects s @ [ctl]) @ [p])"
      using f by (intro projects_ok_insert) (simp_all add: founded_def)
    then show ?thesis by simp
  qed
  moreover have "membership_ok ?os (user_ids s) (org_membership s)"
    by (rule membership_ok_mono[of "org_ids s" "user_ids s"]) (use inv in \<open>auto simp: db_inv_def\<close>)
  moreover have "custom_roles_ok ?os (custom_roles s)"
    by (rule custom_roles_ok_mono[of "org_ids s"]) (use inv in \<open>auto simp: db_inv_def\<close>)
  moreover have "project_assignments_ok (set (org_membership s)) (role_orgs s)
      ((\<lambda>q. (prj_id q, prj_org_id q)) ` set (projects s @ [ctl, p])) (project_role_assignments s)"
    by (rule project_assignments_ok_mono[of "set (org_membership s)" "role_orgs s" "proj_orgs s"])
      (use inv in \<open>auto simp: db_inv_def\<close>)
  ultimately show ?thesis using inv by (simp add: db_inv_def)
qed

lemma db_inv_add_member:
  assumes inv: "db_inv s" and m: "o' \<in> org_ids s" "u \<in> user_ids s" "(o', u) \<notin> set (org_membership s)"
  shows "db_inv (s\<lparr>org_membership := org_membership s @ [(o', u)]\<rparr>)"
proof -
  let ?ms = "insert (o', u) (set (org_membership s))"
  have "org_assignments_ok ?ms (role_orgs s) (org_role_assignments s)"
    by (rule org_assignments_ok_mono[of "set (org_membership s)" "role_orgs s"]) (use inv in \<open>auto simp: db_inv_def\<close>)
  moreover have "project_assignments_ok ?ms (role_orgs s) (proj_orgs s) (project_role_assignments s)"
    by (rule project_assignments_ok_mono[of "set (org_membership s)" "role_orgs s" "proj_orgs s"])
      (use inv in \<open>auto simp: db_inv_def\<close>)
  ultimately show ?thesis using inv m by (simp add: db_inv_def membership_ok_def)
qed

lemma db_inv_add_role:
  assumes inv: "db_inv s" and role: "role_checks role" "\<not> role_conflict role (custom_roles s)"
      "rol_org_id role \<in> org_ids s"
    and ids: "distinct ids" "set ids \<subseteq> perm_ids s"
  shows "db_inv (s\<lparr>custom_roles := custom_roles s @ [role],
    custom_role_permissions := custom_role_permissions s @ map (Pair (rol_id role)) ids\<rparr>)"
proof -
  have "custom_roles_ok (org_ids s) (custom_roles s @ [role])"
    using inv role by (intro custom_roles_ok_insert) (simp_all add: db_inv_def)
  moreover have "role_permissions_ok (insert (rol_id role) (role_ids s)) (perm_ids s)
      (custom_role_permissions s @ map (Pair (rol_id role)) ids)"
    using inv ids unreferenced_role(3)[OF inv new_role_id[OF role(2)]]
    by (auto simp: db_inv_def role_permissions_ok_def distinct_map inj_on_def)
  moreover have "org_assignments_ok (set (org_membership s)) (insert (rol_id role, rol_org_id role) (role_orgs s)) (org_role_assignments s)"
    by (rule org_assignments_ok_mono[of "set (org_membership s)" "role_orgs s"]) (use inv in \<open>auto simp: db_inv_def\<close>)
  moreover have "project_assignments_ok (set (org_membership s)) (insert (rol_id role, rol_org_id role) (role_orgs s))
      (proj_orgs s) (project_role_assignments s)"
    by (rule project_assignments_ok_mono[of "set (org_membership s)" "role_orgs s" "proj_orgs s"])
      (use inv in \<open>auto simp: db_inv_def\<close>)
  ultimately show ?thesis using inv by (simp add: db_inv_def)
qed

lemma db_inv_assign_org:
  assumes inv: "db_inv s" and a: "a \<notin> set (org_role_assignments s)" "(oa_org_id a, oa_user_id a) \<in> set (org_membership s)"
      "(oa_role_id a, oa_org_id a) \<in> role_orgs s"
  shows "db_inv (s\<lparr>org_role_assignments := org_role_assignments s @ [a]\<rparr>)"
  using inv a by (simp add: db_inv_def org_assignments_ok_def)

lemma db_inv_with_admin:
  assumes inv: "db_inv s" and m: "o' \<in> org_ids s" "u \<in> user_ids s" "(o', u) \<notin> set (org_membership s)"
    and role: "role_checks role" "\<not> role_conflict role (custom_roles s)" "rol_org_id role = o'"
    and ids: "distinct ids" "set ids \<subseteq> perm_ids s"
  shows "db_inv (with_admin s o' u role ids)"
proof -
  let ?a = "\<lparr>oa_user_id = u, oa_org_id = o', oa_role_id = rol_id role\<rparr>"
  let ?s1 = "s\<lparr>org_membership := org_membership s @ [(o', u)]\<rparr>"
  let ?s2 = "?s1\<lparr>custom_roles := custom_roles ?s1 @ [role],
    custom_role_permissions := custom_role_permissions ?s1 @ map (Pair (rol_id role)) ids\<rparr>"
  have 1: "db_inv ?s1" by (rule db_inv_add_member[OF inv m])
  have 2: "db_inv ?s2" by (rule db_inv_add_role[OF 1]) (use role ids m in simp_all)
  have "?a \<notin> set (org_role_assignments s)"
    using unreferenced_role(1)[OF inv new_role_id[OF role(2)]] by force
  then have "db_inv (?s2\<lparr>org_role_assignments := org_role_assignments ?s2 @ [?a]\<rparr>)"
    using role(3) by (intro db_inv_assign_org[OF 2]) simp_all
  then show ?thesis by (simp add: with_admin_def)
qed

lemma rbac_inv_with_admin:
  assumes inv: "db_inv s" and rb: "rbac_inv s" and new: "\<not> role_conflict role (custom_roles s)"
    and res: "resolve_permissions s OrganizationAdminPermissions = Some (ids, names)"
    and t: "permissions t = permissions s"
      "custom_role_permissions t = custom_role_permissions s @ map (Pair (rol_id role)) ids"
      "project_role_assignments t = project_role_assignments s"
  shows "rbac_inv t"
proof -
  have "set OrganizationAdminPermissions \<inter> set SystemOnlyPermissions = {}"
    by code_simp
  moreover have "pa_role_id a \<noteq> rol_id role" if "a \<in> set (project_role_assignments s)" for a
    using unreferenced_role(2)[OF inv new_role_id[OF new]] that by force
  ultimately show ?thesis
    using rb unfolding rbac_inv_def role_has_created[OF inv res t(1) new_role_id[OF new] t(2)] t(3) by auto
qed

end
