(* ===== verification/OrgSafety.thy ===== *)
theory OrgSafety
  imports OrgProps
begin

text \<open>
  The calls of the organization service together: they keep the constraints of the schema, the security
  invariant and the control projects, a failed call changes no table, and a new organization grants
  exactly its administrator role to its creator.
\<close>

section \<open>Users\<close>

lemma users_ok_insert: "users_ok us \<Longrightarrow> \<not> user_conflict u us \<Longrightarrow> users_ok (us @ [u])"
  by (auto simp: users_ok_def user_conflict_def image_iff)

lemma system_assignments_ok_mono:
  "system_assignments_ok us rs as \<Longrightarrow> us \<subseteq> us' \<Longrightarrow> system_assignments_ok us' rs as"
  by (auto simp: system_assignments_ok_def)

lemma tokens_ok_mono: "tokens_ok us ts \<Longrightarrow> us \<subseteq> us' \<Longrightarrow> tokens_ok us' ts"
  by (auto simp: tokens_ok_def)

lemma db_inv_add_user:
  assumes inv: "db_inv s" and new: "\<not> user_conflict u (users s)"
  shows "db_inv (s\<lparr>users := users s @ [u]\<rparr>)"
proof -
  let ?us = "insert (usr_id u) (user_ids s)"
  have "users_ok (users s @ [u])" using inv new by (simp add: db_inv_def users_ok_insert)
  moreover have "membership_ok (org_ids s) ?us (org_membership s)"
    by (rule membership_ok_mono[of "org_ids s" "user_ids s"]) (use inv in \<open>auto simp: db_inv_def\<close>)
  moreover have "system_assignments_ok ?us (sys_role_ids s) (system_role_assignments s)"
    by (rule system_assignments_ok_mono[of "user_ids s"]) (use inv in \<open>auto simp: db_inv_def\<close>)
  moreover have "tokens_ok ?us (magic_link_tokens s)" "tokens_ok ?us (refresh_tokens s)"
    by (rule tokens_ok_mono[of "user_ids s"]; use inv in \<open>auto simp: db_inv_def\<close>)+
  ultimately show ?thesis using inv by (simp add: db_inv_def)
qed

lemma GetOrCreateUserByEmail_InrE:
  assumes "pguser_GetOrCreateUserByEmail email s = (Inr u, t)"
  obtains (existing) g where "filter (\<lambda>v. usr_email v = email) (users s) = [u]" "t = s\<lparr>gen := g\<rparr>"
  | (created) g where "filter (\<lambda>v. usr_email v = email) (users s) = []" "usr_email u = email"
      "\<not> user_conflict u (users s)" "t = s\<lparr>gen := g, users := users s @ [u]\<rparr>"
proof -
  let ?k = "\<lambda>n. andThen (reads (\<lambda>s. filter (\<lambda>v. usr_email v = email) (users s))) (\<lambda>existing.
         if existing \<noteq> [] then ret existing else insert_user n)"
  have "andThen (new_user_row email []) ?k s = (Inr [u], t)"
    using assms by (simp only: pguser_GetOrCreateUserByEmail_def getOrCreateUserByEmailQuery_def Queue_simp
        queueOne_Inr_iff sum.inject) blast
  then obtain n w where n: "new_user_row email [] s = (Inr n, w)" and k: "?k n w = (Inr [u], t)"
    by (rule andThen_InrE)
  from k have q: "(if filter (\<lambda>v. usr_email v = email) (users w) \<noteq> []
       then ret (filter (\<lambda>v. usr_email v = email) (users w)) else insert_user n) w = (Inr [u], t)"
    by (simp only: andThen_step[OF reads_Inr_iff[THEN iffD2, OF conjI, OF refl refl]])
  obtain g where w: "w = s\<lparr>gen := g\<rparr>" using new_user_row_Inr(6)[OF n] by blast
  show ?thesis
  proof (cases "filter (\<lambda>v. usr_email v = email) (users s) = []")
    case True
    with q have "u = n" "\<not> user_conflict u (users s)" "t = s\<lparr>gen := g, users := users s @ [u]\<rparr>"
      by (simp_all add: w insert_user_Inr_iff)
    with True new_user_row_Inr(1)[OF n] show ?thesis by (intro created) simp_all
  next
    case False
    with q have "filter (\<lambda>v. usr_email v = email) (users s) = [u]" "t = s\<lparr>gen := g\<rparr>" by (simp_all add: w)
    then show ?thesis by (rule existing)
  qed
qed

lemma EnsureOrganizationMember_InrE:
  assumes "EnsureOrganizationMember x o' s = (Inr (), t)"
  obtains u ms where "u \<in> set (users_by_external_id s x)" "o' \<in> org_ids s"
    "ms = (if (o', usr_id u) \<in> set (org_membership s) then org_membership s
           else org_membership s @ [(o', usr_id u)])" "t = s\<lparr>org_membership := ms\<rparr>"
proof -
  let ?rows = "member_target x o' s"
  from assms obtain m where rows: "?rows = [m]"
    and t: "t = s\<lparr>org_membership := org_membership s @ filter (\<lambda>m. m \<notin> set (org_membership s)) (remdups ?rows)\<rparr>"
    by (auto simp: EnsureOrganizationMember_def ensureOrganizationMemberQuery_def queueOne_Inr_iff andThen_Inr_iff
        map_eq_Cons_conv)
  then have "m \<in> set ?rows" by simp
  then obtain r u where "r \<in> set (organizations s)" "org_id r = o'" "u \<in> set (users_by_external_id s x)"
    "m = (o', usr_id u)" by (auto simp: member_target_def split: if_splits)
  moreover from this t have "t = s\<lparr>org_membership := (if (o', usr_id u) \<in> set (org_membership s)
      then org_membership s else org_membership s @ [(o', usr_id u)])\<rparr>"
    by (simp add: rows)
  ultimately show ?thesis using that by blast
qed

section \<open>Calls\<close>

datatype org_call =
    CallCreateOrganization CreateOrganization
  | CallBootstrapOrganization CreateOrganization
  | CallCreateProject CreateProject
  | CallCreateOrganizationUser string

definition run_org_call :: "address_parser \<Rightarrow> AuthSession option \<Rightarrow> org_call \<Rightarrow> unit op" where
  "run_org_call pa ctx c = (case c of
      CallCreateOrganization co \<Rightarrow> andThen (CreateOrganization ctx co) (\<lambda>_. ret ())
    | CallBootstrapOrganization co \<Rightarrow> andThen (BootstrapOrganization co) (\<lambda>_. ret ())
    | CallCreateProject cp \<Rightarrow> andThen (CreateProject cp) (\<lambda>_. ret ())
    | CallCreateOrganizationUser email \<Rightarrow> andThen (CreateOrganizationUser pa ctx email) (\<lambda>_. ret ()))"

lemma founded_new: "founded co s r ctl p \<Longrightarrow> \<not> org_conflict r (organizations s)"
  by (simp add: founded_def)

lemma CreateProject_InrE:
  assumes inv: "db_inv s" and q: "CreateProject cp s = (Inr v, t)"
  obtains p g where "prj_org_id p = cp_OrgID cp" "prj_name p = cp_Name cp" "\<not> prj_is_control p"
    "cp_OrgID cp \<in> org_ids s" "\<not> project_conflict p (projects s)" "v = projectFromPg p"
    "t = s\<lparr>gen := g, projects := projects s @ [p]\<rparr>"
proof -
  have d: "distinct (map org_id (organizations s))" using inv by (simp add: db_inv_def orgs_ok_def)
  from q obtain p where "pgorg_CreateProject (createProjectToPg cp) s = (Inr p, t)" "v = projectFromPg p"
    by (auto simp: CreateProject_def andThen_Inr_iff)
  then show ?thesis
    using that[of p "project_gen s"] by (auto simp: pgorg_CreateProject_eq[OF d] createProjectToPg_def Let_def split: if_splits)
qed

lemma CreateOrganizationUser_InrE:
  assumes "CreateOrganizationUser pa ctx email s = (Inr v, t)"
  obtains sess p u s1 s2 where "ctx = Some sess" "as_Project sess = Some p" "v = userFromPg u"
    "CreateOrganizationUser_Validate pa email = Inr ()"
    "pguser_GetOrCreateUserByEmail email s = (Inr u, s1)"
    "EnsureOrganizationMember (usr_external_id u) (ap_OrgID p) s1 = (Inr (), s2)" "t = s2\<lparr>locks := []\<rparr>"
proof -
  have valid: "CreateOrganizationUser_Validate pa email = Inr ()"
    using assms by (auto simp: CreateOrganizationUser_def andThen_Inr_iff)
  from assms obtain a s0 where "projectSession ctx s = (Inr a, s0)"
    and k: "(case a of (sess, project) \<Rightarrow> andThen (run_tx (
      andThen (pguser_GetOrCreateUserByEmail email) (\<lambda>pgUser.
      andThen (EnsureOrganizationMember (usr_external_id pgUser) (ap_OrgID project)) (\<lambda>_.
      ret pgUser)))) (\<lambda>pgUser. ret (userFromPg pgUser))) s0 = (Inr v, t)"
    unfolding CreateOrganizationUser_def by (elim andThen_InrE) simp
  moreover obtain sess p where a: "a = (sess, p)" by (cases a)
  ultimately have "ctx = Some sess" "as_Project sess = Some p" "s0 = s" by simp_all
  moreover from k obtain u w where tx: "run_tx (
      andThen (pguser_GetOrCreateUserByEmail email) (\<lambda>pgUser.
      andThen (EnsureOrganizationMember (usr_external_id pgUser) (ap_OrgID p)) (\<lambda>_.
      ret pgUser))) s0 = (Inr u, w)" and "v = userFromPg u" "t = w"
    unfolding a prod.case by (elim andThen_InrE) simp
  moreover from tx obtain s2 where w: "w = s2\<lparr>locks := []\<rparr>" and
    i: "andThen (pguser_GetOrCreateUserByEmail email) (\<lambda>pgUser.
      andThen (EnsureOrganizationMember (usr_external_id pgUser) (ap_OrgID p)) (\<lambda>_.
      ret pgUser)) s0 = (Inr u, s2)" unfolding run_tx_Inr_iff by blast
  moreover from i obtain u' s1 where "pguser_GetOrCreateUserByEmail email s0 = (Inr u', s1)"
    and e: "andThen (EnsureOrganizationMember (usr_external_id u') (ap_OrgID p)) (\<lambda>_. ret u') s1 = (Inr u, s2)"
    by (rule andThen_InrE)
  moreover from e have "u' = u" "EnsureOrganizationMember (usr_external_id u') (ap_OrgID p) s1 = (Inr (), s2)"
    by (auto elim!: andThen_InrE)
  ultimately show ?thesis
    by (intro that[of sess p u s1 s2]) (simp_all add: valid)
qed

definition org_inv :: "db \<Rightarrow> bool" where
  "org_inv s \<longleftrightarrow> db_inv s \<and> rbac_inv s \<and> control_inv s"

lemma on_tables_control_inv [simp]: "on_tables control_inv"
  by (simp add: on_tables_def control_inv_def control_projects_def)

lemma on_tables_org_inv [simp]: "on_tables org_inv"
  unfolding on_tables_def org_inv_def by simp

lemma control_inv_same:
  "control_inv s \<Longrightarrow> organizations t = organizations s \<Longrightarrow> projects t = projects s \<Longrightarrow> control_inv t"
  by (simp add: control_inv_def control_projects_def)

lemma rbac_inv_same:
  "rbac_inv s \<Longrightarrow> permissions t = permissions s \<Longrightarrow> custom_role_permissions t = custom_role_permissions s \<Longrightarrow>
    project_role_assignments t = project_role_assignments s \<Longrightarrow> rbac_inv t"
  by (simp add: rbac_inv_def role_has_def)

lemma creation_keeps:
  assumes inv: "org_inv s" and q: "createOrganization co c s = (Inr org, t)" shows "org_inv t"
proof (cases c)
  case None
  have "createOrganization co None s = (Inr org, t)" using q None by simp
  then show ?thesis
  proof (rule bootstrap_InrE[rotated])
    fix r ctl p g assume f: "founded co s r ctl p" and t: "t = with_org s r ctl p g"
    have "db_inv t" using db_inv_with_org[OF _ f] inv by (simp add: org_inv_def t)
    moreover have "rbac_inv t" by (rule rbac_inv_same[of s]) (use inv in \<open>simp_all add: org_inv_def t\<close>)
    moreover have "control_inv t"
      by (rule control_inv_with_org[OF _ _ f]) (use inv in \<open>simp_all add: org_inv_def t\<close>)
    ultimately show "org_inv t" by (simp add: org_inv_def)
  qed (use inv in \<open>simp add: org_inv_def\<close>)
next
  case (Some x)
  have "createOrganization co (Some x) s = (Inr org, t)" using q Some by simp
  then show ?thesis
  proof (rule create_InrE[rotated])
    fix r ctl p g u role ids names
    assume f: "founded co s r ctl p" and u: "u \<in> set (users_by_external_id s x)"
      and res: "resolve_permissions s OrganizationAdminPermissions = Some (ids, names)" "distinct ids"
      and role: "role_checks role" "\<not> role_conflict role (custom_roles s)" "rol_org_id role = org_id r"
      and t: "t = with_admin (with_org s r ctl p g) (org_id r) (usr_id u) role ids"
    have i: "db_inv s" "rbac_inv s" "control_inv s" using inv by (simp_all add: org_inv_def)
    have "usr_id u \<in> user_ids s" using u by (auto simp: users_by_external_id_def)
    then have "db_inv t" unfolding t
      using new_org_unreferenced(3)[OF i(1) founded_new[OF f]] role res(2) resolved_registered[OF res(1)]
      by (intro db_inv_with_admin[OF db_inv_with_org[OF i(1) f]]) simp_all
    moreover have "rbac_inv t" by (rule rbac_inv_with_admin[OF i(1,2) role(2) res(1)]) (simp_all add: t)
    moreover have "control_inv t" by (rule control_inv_with_org[OF i(1,3) f]) (simp_all add: t)
    ultimately show "org_inv t" by (simp add: org_inv_def)
  qed (use inv in \<open>simp add: org_inv_def\<close>)
qed

lemma create_project_keeps:
  assumes inv: "org_inv s" and q: "CreateProject cp s = (Inr v, t)" shows "org_inv t"
proof (rule CreateProject_InrE[OF _ q])
  fix p g assume p: "prj_org_id p = cp_OrgID cp" "\<not> prj_is_control p" "cp_OrgID cp \<in> org_ids s"
      "\<not> project_conflict p (projects s)" and t: "t = s\<lparr>gen := g, projects := projects s @ [p]\<rparr>"
  have i: "db_inv s" "rbac_inv s" "control_inv s" using inv by (simp_all add: org_inv_def)
  have "projects_ok (org_ids s) (projects s @ [p])"
    using i(1) p by (intro projects_ok_insert) (simp_all add: db_inv_def)
  moreover have "project_assignments_ok (set (org_membership s)) (role_orgs s)
      ((\<lambda>q. (prj_id q, prj_org_id q)) ` set (projects s @ [p])) (project_role_assignments s)"
    by (rule project_assignments_ok_mono[of "set (org_membership s)" "role_orgs s" "proj_orgs s"])
      (use i(1) in \<open>auto simp: db_inv_def\<close>)
  ultimately have "db_inv t" using i(1) by (simp add: t db_inv_def)
  moreover have "rbac_inv t" by (rule rbac_inv_same[OF i(2)]) (simp_all add: t)
  moreover have "control_projects t o' = control_projects s o'" for o'
    using p(2) by (simp add: t control_projects_def)
  then have "control_inv t" using i(3) by (simp add: control_inv_def) (simp add: t)
  ultimately show "org_inv t" by (simp add: org_inv_def)
qed (use inv in \<open>simp add: org_inv_def\<close>)

lemma create_user_keeps:
  assumes inv: "org_inv s" and q: "CreateOrganizationUser pa ctx email s = (Inr v, t)" shows "org_inv t"
proof (rule CreateOrganizationUser_InrE[OF q])
  fix sess p u s1 s2
  assume u: "pguser_GetOrCreateUserByEmail email s = (Inr u, s1)"
    and m: "EnsureOrganizationMember (usr_external_id u) (ap_OrgID p) s1 = (Inr (), s2)"
    and t: "t = s2\<lparr>locks := []\<rparr>"
  have i: "db_inv s" "rbac_inv s" "control_inv s" using inv by (simp_all add: org_inv_def)
  have 1: "db_inv s1 \<and> rbac_inv s1 \<and> control_inv s1"
  proof (rule GetOrCreateUserByEmail_InrE[OF u])
    fix g assume "s1 = s\<lparr>gen := g\<rparr>"
    then show ?thesis using i by simp
  next
    fix g assume new: "\<not> user_conflict u (users s)" and s1: "s1 = s\<lparr>gen := g, users := users s @ [u]\<rparr>"
    have "db_inv (s\<lparr>users := users s @ [u]\<rparr>)" by (rule db_inv_add_user[OF i(1) new])
    then have "db_inv s1" by (simp add: s1 db_inv_def)
    moreover have "rbac_inv s1" by (rule rbac_inv_same[OF i(2)]) (simp_all add: s1)
    moreover have "control_inv s1" by (rule control_inv_same[OF i(3)]) (simp_all add: s1)
    ultimately show ?thesis by blast
  qed
  show "org_inv t"
  proof (rule EnsureOrganizationMember_InrE[OF m])
    fix w ms assume w: "w \<in> set (users_by_external_id s1 (usr_external_id u))" "ap_OrgID p \<in> org_ids s1"
      and ms: "ms = (if (ap_OrgID p, usr_id w) \<in> set (org_membership s1) then org_membership s1
           else org_membership s1 @ [(ap_OrgID p, usr_id w)])" and s2: "s2 = s1\<lparr>org_membership := ms\<rparr>"
    have "db_inv s2"
    proof (cases "(ap_OrgID p, usr_id w) \<in> set (org_membership s1)")
      case True then show ?thesis using 1 by (simp add: s2 ms)
    next
      case False
      have "usr_id w \<in> user_ids s1" using w(1) by (auto simp: users_by_external_id_def)
      with False show ?thesis using db_inv_add_member[of s1] 1 w(2) by (simp add: s2 ms)
    qed
    moreover have "rbac_inv s2" by (rule rbac_inv_same[of s1]) (use 1 in \<open>simp_all add: s2\<close>)
    moreover have "control_inv s2" by (rule control_inv_same[of s1]) (use 1 in \<open>simp_all add: s2\<close>)
    ultimately show "org_inv t" by (simp add: t org_inv_def control_inv_same[of s2])
  qed
qed

section \<open>Every call\<close>

lemma CreateOrganization_Inr:
  "CreateOrganization ctx co s = (Inr org, t) \<longleftrightarrow>
    (\<exists>sess. ctx = Some sess \<and> createOrganization co (Some (sessUser sess)) s = (Inr org, t))"
  by (auto simp: CreateOrganization_def split: option.splits)

lemma same_tables_update [simp]: "same_tables s (s\<lparr>gen := g, locks := l\<rparr>)" "same_tables s (s\<lparr>gen := g\<rparr>)"
  by (rule same_tablesI[where g = g and l = l], simp) (rule same_tablesI[where g = g and l = "locks s"], simp)

lemma createOrganization_failed: "createOrganization co c s = (Inl e, t) \<Longrightarrow> same_tables s t"
  by (auto simp: createOrganization_def andThen_Inl_iff)

lemma CreateProject_failed:
  assumes inv: "db_inv s" and q: "CreateProject cp s = (Inl e, t)" shows "same_tables s t"
proof -
  have d: "distinct (map org_id (organizations s))" using inv by (simp add: db_inv_def orgs_ok_def)
  from q show ?thesis
    by (auto simp: CreateProject_def andThen_Inl_iff onError_Inl_iff pgorg_CreateProject_eq[OF d] Let_def
        split: if_splits)
qed

lemma CreateOrganizationUser_failed: "CreateOrganizationUser pa ctx email s = (Inl e, t) \<Longrightarrow> same_tables s t"
  by (auto simp: CreateOrganizationUser_def andThen_Inl_iff split: prod.splits dest: projectSession_Inl)

lemma run_org_call_failed:
  assumes "db_inv s" "run_org_call pa ctx c s = (Inl e, t)" shows "same_tables s t"
proof (cases c)
  case (CallCreateOrganization co)
  with assms(2) have "CreateOrganization ctx co s = (Inl e, t)"
    by (simp add: run_org_call_def andThen_Inl_iff)
  then show ?thesis
    by (auto simp: CreateOrganization_def onError_Inl_iff intro: createOrganization_failed split: option.splits)
next
  case (CallBootstrapOrganization co)
  with assms(2) show ?thesis
    by (intro createOrganization_failed) (simp add: run_org_call_def andThen_Inl_iff BootstrapOrganization_def)
next
  case (CallCreateProject cp)
  with assms show ?thesis
    by (intro CreateProject_failed) (simp_all add: run_org_call_def andThen_Inl_iff)
next
  case (CallCreateOrganizationUser email)
  with assms(2) show ?thesis
    by (intro CreateOrganizationUser_failed) (simp add: run_org_call_def andThen_Inl_iff)
qed

lemma run_org_call_keeps:
  assumes "org_inv s" "run_org_call pa ctx c s = (Inr (), t)" shows "org_inv t"
  using assms by (cases c)
    (auto simp: run_org_call_def andThen_Inr_iff CreateOrganization_Inr BootstrapOrganization_def
      intro: creation_keeps create_project_keeps create_user_keeps)

text \<open>C15: every call of the organization service, successful or not, keeps the constraints of the schema,
  the security invariant, and exactly one control project in every organization.\<close>

theorem org_call_keeps_invariants:
  assumes "db_inv s" "rbac_inv s" "control_inv s"
  shows "db_inv (snd (run_org_call pa ctx c s)) \<and> rbac_inv (snd (run_org_call pa ctx c s)) \<and>
    control_inv (snd (run_org_call pa ctx c s))"
proof (cases "run_org_call pa ctx c s")
  case (Pair r t)
  have inv: "org_inv s" using assms by (simp add: org_inv_def)
  have "org_inv t"
  proof (cases r)
    case (Inl e)
    then obtain g l where "t = s\<lparr>gen := g, locks := l\<rparr>"
      using run_org_call_failed[OF assms(1), of pa ctx c e t] Pair by (auto simp: same_tables_def)
    then show ?thesis using inv by simp
  next
    case (Inr x)
    then show ?thesis using run_org_call_keeps[OF inv] Pair by (simp add: unit_eq)
  qed
  then show ?thesis by (simp add: Pair org_inv_def)
qed

lemma demo_control_inv: "control_inv demo_db"
  by code_simp

theorem org_call_keeps_invariants_witness:
  "control_inv (snd (run_org_call (\<lambda>a. Some a) None (CallCreateProject \<lparr>cp_OrgID = 2, cp_Name = ''api''\<rparr>) demo_db)) \<and>
   fst (run_org_call (\<lambda>a. Some a) None (CallCreateProject \<lparr>cp_OrgID = 2, cp_Name = ''api''\<rparr>) demo_db) = Inr ()"
proof
  show "control_inv (snd (run_org_call (\<lambda>a. Some a) None (CallCreateProject \<lparr>cp_OrgID = 2, cp_Name = ''api''\<rparr>) demo_db))"
    using org_call_keeps_invariants[OF demo_db_inv demo_rbac_inv demo_control_inv] by simp
  show "fst (run_org_call (\<lambda>a. Some a) None (CallCreateProject \<lparr>cp_OrgID = 2, cp_Name = ''api''\<rparr>) demo_db) = Inr ()"
    by code_simp
qed

end
