(* ===== verification/OrgCreation.thy ===== *)
theory OrgCreation
  imports OrgSafety
begin

text \<open>
  The creation of an organization in full: the result of \<open>CreateOrganization\<close> on every branch, and the
  permissions it changes.
\<close>

section \<open>Permissions\<close>

lemma holds_system_same:
  assumes "system_role_assignments t = system_role_assignments s" "system_role_permissions t = system_role_permissions s"
    "permissions t = permissions s"
  shows "holds_system t u n = holds_system s u n"
  by (simp add: holds_system_def system_role_has_def assms)

lemma creation_effect:
  assumes inv: "db_inv s" and q: "CreateOrganization (Some sess) co s = (Inr org, t)"
  shows "\<exists>u \<in> set (users s). usr_external_id u = sessUser sess \<and> o_ID org \<notin> org_ids s \<and>
    (\<forall>v o' n. holds_org t v o' n \<longleftrightarrow> holds_org s v o' n \<or>
       (v = usr_id u \<and> o' = o_ID org \<and> n \<in> set OrganizationAdminPermissions)) \<and>
    (\<forall>v n. holds_system t v n \<longleftrightarrow> holds_system s v n) \<and>
    (\<exists>ps. projects t = projects s @ ps \<and> (\<forall>p \<in> set ps. prj_org_id p = o_ID org \<and> prj_id p \<notin> prj_id ` set (projects s))) \<and>
    project_role_assignments t = project_role_assignments s \<and>
    (\<forall>a \<in> set (project_role_assignments s). \<forall>n. role_has t (pa_role_id a) n = role_has s (pa_role_id a) n)"
proof (rule create_InrE[OF inv])
  show "createOrganization co (Some (sessUser sess)) s = (Inr org, t)"
    using q by (simp add: CreateOrganization_Inr)
  fix r ctl p g u role ids names
  assume f: "founded co s r ctl p" and o': "org = organizationFromPg (pg_org_of r ctl)"
    and u: "u \<in> set (users_by_external_id s (sessUser sess))"
    and res: "resolve_permissions s OrganizationAdminPermissions = Some (ids, names)"
    and role: "\<not> role_conflict role (custom_roles s)"
    and t: "t = with_admin (with_org s r ctl p g) (org_id r) (usr_id u) role ids"
  have sys: "holds_system t v n \<longleftrightarrow> holds_system s v n" for v n by (rule holds_system_same) (simp_all add: t)
  have rh: "role_has t q n \<longleftrightarrow> (if q = rol_id role then n \<in> set OrganizationAdminPermissions else role_has s q n)" for q n
    by (rule role_has_created[OF inv res _ new_role_id[OF role]]) (simp_all add: t)
  have old: "oa_role_id a \<noteq> rol_id role" if "a \<in> set (org_role_assignments s)" for a
    using unreferenced_role(1)[OF inv new_role_id[OF role]] that by (metis imageI)
  have as: "org_role_assignments t =
      org_role_assignments s @ [\<lparr>oa_user_id = usr_id u, oa_org_id = org_id r, oa_role_id = rol_id role\<rparr>]"
    by (simp add: t)
  have "o_ID org = org_id r" by (simp add: o' organizationFromPg_def pg_org_of_def)
  then have "holds_org t v o' n \<longleftrightarrow> holds_org s v o' n \<or>
       (v = usr_id u \<and> o' = o_ID org \<and> n \<in> set OrganizationAdminPermissions)" for v o' n
    unfolding holds_org_def sys as using old by (auto simp: rh)
  moreover have "role_has t (pa_role_id a) n = role_has s (pa_role_id a) n" if "a \<in> set (project_role_assignments s)" for a n
    using unreferenced_role(2)[OF inv new_role_id[OF role]] that by (simp add: rh) (metis imageI)
  moreover have "projects t = projects s @ [ctl, p]" by (simp add: t)
  moreover have "prj_org_id q = o_ID org \<and> prj_id q \<notin> prj_id ` set (projects s)" if "q \<in> set [ctl, p]" for q
    using that f \<open>o_ID org = org_id r\<close> by (auto simp: founded_def project_conflict_def)
  moreover have "o_ID org \<notin> org_ids s"
    using founded_new[OF f] \<open>o_ID org = org_id r\<close> by (auto simp: org_conflict_def)
  moreover have "project_role_assignments t = project_role_assignments s" by (simp add: t)
  moreover have "u \<in> set (users s)" "usr_external_id u = sessUser sess" using u by (auto simp: users_by_external_id_def)
  ultimately show ?thesis using sys by (intro bexI[of _ u] conjI exI[of _ "[ctl, p]"] ballI allI) blast+
qed


definition demo_org_db :: db where
  "demo_org_db = demo_db\<lparr>permissions := zip [1..14] (PermissionUserRead # PermissionCustomRoleAssignProject #
     PermissionCustomRoleCreate # filter (\<lambda>p. p \<noteq> PermissionCustomRoleAssignProject \<and>
       p \<noteq> PermissionCustomRoleCreate) OrganizationAdminPermissions)\<rparr>"

lemma demo_org_permissions:
  "permissions demo_org_db = (1, PermissionUserRead) # (2, PermissionCustomRoleAssignProject) #
    (3, PermissionCustomRoleCreate) # zip [4..14] (filter (\<lambda>p. p \<noteq> PermissionCustomRoleAssignProject \<and>
       p \<noteq> PermissionCustomRoleCreate) OrganizationAdminPermissions)"
  by code_simp

lemma demo_org_inv: "db_inv demo_org_db"
proof -
  have "permissions_ok (permissions demo_org_db)" by code_simp
  moreover have "perm_ids demo_org_db = set [1..14]" by code_simp
  ultimately show ?thesis using demo_db_inv
    by (simp add: db_inv_def demo_org_db_def) (simp add: demo_defs role_permissions_ok_def)
qed

section \<open>Every outcome\<close>

definition next_uuids :: "nat \<Rightarrow> db \<Rightarrow> uuid list" where
  "next_uuids k s = map (\<lambda>i. g_uuids (gen s) (g_uuid_pos (gen s) + i)) [0..<k]"

definition used_uuids :: "db \<Rightarrow> uuid set" where
  "used_uuids s = usr_external_id ` set (users s) \<union> usr_etag ` set (users s) \<union> prj_etag ` set (projects s) \<union>
     rol_external_id ` set (custom_roles s) \<union> rol_etag ` set (custom_roles s)"

text \<open>The generators do not repeat: the next \<open>k\<close> UUIDs are unused and distinct, the sequences are ahead
  of the tables.\<close>

definition gens_fresh :: "nat \<Rightarrow> db \<Rightarrow> bool" where
  "gens_fresh k s \<longleftrightarrow> distinct (next_uuids k s) \<and> (\<forall>x \<in> set (next_uuids k s). x \<notin> used_uuids s) \<and>
    (\<forall>q \<in> set (users s). usr_id q < g_users (gen s)) \<and>
    (\<forall>q \<in> set (organizations s). org_id q < g_organizations (gen s)) \<and>
    (\<forall>q \<in> set (projects s). prj_id q < g_projects (gen s)) \<and>
    (\<forall>q \<in> set (custom_roles s). rol_id q < g_custom_roles (gen s))"

lemma AddOrganizationMember_missing:
  "users_by_external_id s x = [] \<Longrightarrow> AddOrganizationMember x o' s = (Inl SqlErrNoRows, s)"
proof -
  assume "users_by_external_id s x = []"
  then have "member_target x o' s = []" by (auto simp: member_target_def)
  then show ?thesis
    by (simp add: AddOrganizationMember_def addOrganizationMemberQuery_def queueOne_def prog_defs atomic_def
        collectOne_def)
qed

lemma member_target_single:
  assumes "distinct (map org_id (organizations s))" "o' \<in> org_ids s" "users_by_external_id s x = [u]"
  shows "member_target x o' s = [(o', usr_id u)]"
proof -
  have "[(org_id r, usr_id w). r \<leftarrow> rs, org_id r = o', w \<leftarrow> [u]] =
      map (\<lambda>i. (i, usr_id u)) (filter (\<lambda>i. i = o') (map org_id rs))" for rs
    by (induction rs) auto
  then have "member_target x o' s = map (\<lambda>i. (i, usr_id u)) (filter (\<lambda>i. i = o') (map org_id (organizations s)))"
    unfolding member_target_def assms(3) .
  then show ?thesis using assms by (simp add: filter_id_single)
qed

lemma AddOrganizationMember_adds:
  assumes "distinct (map org_id (organizations s))" "o' \<in> org_ids s" "users_by_external_id s x = [u]"
    "(o', usr_id u) \<notin> set (org_membership s)"
  shows "AddOrganizationMember x o' s = (Inr (), s\<lparr>org_membership := org_membership s @ [(o', usr_id u)]\<rparr>)"
  using assms(4) member_target_single[OF assms(1-3)]
  by (simp add: AddOrganizationMember_def addOrganizationMemberQuery_def queueOne_def prog_defs atomic_def
      collectOne_def)

lemma resolve_distinct:
  assumes "db_inv s" "resolve_permissions s ns = Some (ids, names)" shows "distinct ids"
proof -
  have d: "distinct (concat (map (permission_id_of s) xs))"
    if "distinct xs" "\<forall>n \<in> set xs. permission_id_of s n \<noteq> []" for xs
    using that
  proof (induction xs)
    case (Cons n xs)
    then obtain i where i: "(i, n) \<in> set (permissions s)"
      by (auto simp: permission_id_of_registered)
    have one: "permission_id_of s n = [i]" by (rule permission_id_of_single[OF assms(1) i])
    have "i \<notin> set (permission_id_of s m)" if "m \<in> set xs" for m
    proof
      assume "i \<in> set (permission_id_of s m)"
      then have "(i, m) \<in> set (permissions s)" by (force simp: permission_id_of_def)
      moreover have "distinct (map fst (permissions s))" using assms(1) by (simp add: db_inv_def permissions_ok_def)
      ultimately have "m = n" using i by (metis eq_key_imp_eq_value)
      then show False using Cons.prems that by simp
    qed
    with Cons one show ?case by auto
  qed simp
  from assms(2) have "(\<forall>n \<in> set (sort_by (coll s) (remdups ns)). permission_id_of s n \<noteq> [])"
    and "ids = concat (map (permission_id_of s) (sort_by (coll s) (remdups ns)))"
    unfolding resolve_permissions_def Let_def by (metis (no_types, lifting) option.distinct(1) option.inject prod.inject)+
  then show ?thesis using d[of "sort_by (coll s) (remdups ns)"] by simp
qed

definition admin_role_row :: "int \<Rightarrow> db \<Rightarrow> custom_role_row" where
  "admin_role_row o' s = \<lparr>rol_id = g_custom_roles (gen s),
     rol_external_id = g_uuids (gen s) (g_uuid_pos (gen s)), rol_name = ''Organization Administrator'',
     rol_org_id = o', rol_managed_key = Some ''organization_admin'', rol_created_at = clock s,
     rol_updated_at = None, rol_etag = g_uuids (gen s) (Suc (g_uuid_pos (gen s)))\<rparr>"

lemma admin_role_checks: "role_checks (admin_role_row o' s)"
  by (simp add: role_checks_def admin_role_row_def role_name_check_def managed_key_check_def btrim_def
      trimBy_def byte_def ManagedRoleKeyOrganizationAdmin_def)

lemma CreateOrganizationAdminRole_creates:
  assumes res: "resolve_permissions s ns = Some (ids, names)" "distinct ids"
    and o': "o' \<in> org_ids s" and new: "\<not> role_conflict (admin_role_row o' s) (custom_roles s)"
    and free: "\<And>p. (g_custom_roles (gen s), p) \<notin> set (custom_role_permissions s)"
  shows "\<exists>role. CreateOrganizationAdminRole o' ns s = (Inr role, s\<lparr>gen := (gen s)\<lparr>
      g_custom_roles := g_custom_roles (gen s) + 1, g_uuid_pos := Suc (Suc (g_uuid_pos (gen s)))\<rparr>,
      custom_roles := custom_roles s @ [admin_role_row o' s],
      custom_role_permissions := custom_role_permissions s @ map (Pair (g_custom_roles (gen s))) ids\<rparr>) \<and>
    pcr_ExternalID role = rol_external_id (admin_role_row o' s)"
proof -
  have "filter (\<lambda>q. org_id q = o') (organizations s) \<noteq> []" using o' by (auto simp: filter_empty_conv)
  moreover have "distinct (map (\<lambda>p. (g_custom_roles (gen s), p)) ids)" using res(2) by (simp add: distinct_map inj_on_def)
  moreover have "\<not> (\<exists>a \<in> set (map (\<lambda>p. (g_custom_roles (gen s), p)) ids). a \<in> set (custom_role_permissions s))"
    using free by auto
  ultimately show ?thesis
    using res(1) admin_role_checks[of o' s] new
    by (simp add: CreateOrganizationAdminRole_def createCustomRoleQuery_def queueOne_def prog_defs atomic_def nextval_def
        gen_random_uuid_def insert_custom_role_def insert_role_permissions_def admin_role_row_def Let_def collectOne_def
        del: map_eq_conv)
qed

lemma queueOne_reads_step: "queueOne scan (andThen (reads f) k) s = queueOne scan (k (f s)) s"
  by (simp add: queueOne_def andThen_def atomic_def reads_def)

lemma pg_AssignCustomRoleToOrg_assigns:
  assumes "users_by_external_id s x = [u]" "distinct (org_membership s)" "(o', usr_id u) \<in> set (org_membership s)"
    "org_roles_by_external_id s o' rx = [r]"
    and new: "\<lparr>oa_user_id = usr_id u, oa_org_id = o', oa_role_id = rol_id r\<rparr> \<notin> set (org_role_assignments s)"
  shows "pg_AssignCustomRoleToOrg x rx o' s = (Inr (), s\<lparr>org_role_assignments := org_role_assignments s @
    [\<lparr>oa_user_id = usr_id u, oa_org_id = o', oa_role_id = rol_id r\<rparr>]\<rparr>)"
proof -
  let ?f = "\<lambda>(m, v). if v = usr_id u \<and> m = o' then [\<lparr>oa_user_id = usr_id u, oa_org_id = o', oa_role_id = rol_id r\<rparr>] else []"
  have rows: "[\<lparr>oa_user_id = usr_id w, oa_org_id = m, oa_role_id = rol_id q\<rparr>.
           w \<leftarrow> [u], (m, v) \<leftarrow> org_membership s, v = usr_id w, m = o', q \<leftarrow> org_roles_by_external_id s m rx] =
      concat (map ?f (org_membership s))"
    by (auto simp: assms(4) intro!: arg_cong[where f = concat] map_cong)
  have "concat (map ?f (org_membership s)) = ?f (o', usr_id u)"
    by (rule concat_map_single[OF assms(2,3)]) (auto split: if_splits)
  then have rows1: "concat (map ?f (org_membership s)) = [\<lparr>oa_user_id = usr_id u, oa_org_id = o', oa_role_id = rol_id r\<rparr>]" by simp
  have "Queue (assignCustomRoleToOrgQuery x rx o') s = (Inr (rol_id r), s\<lparr>org_role_assignments := org_role_assignments s @
    [\<lparr>oa_user_id = usr_id u, oa_org_id = o', oa_role_id = rol_id r\<rparr>]\<rparr>)"
    unfolding assignCustomRoleToOrgQuery_def Queue_simp queueOne_reads_step assms(1) rows rows1
    using new by (simp add: queueOne_def prog_defs atomic_def collectOne_def)
  then show ?thesis by (simp add: pg_AssignCustomRoleToOrg_def andThen_def ret_def)
qed

lemma db_inv_membership_distinct: "db_inv s \<Longrightarrow> distinct (org_membership s)"
  by (simp add: db_inv_def membership_ok_def)

lemma db_inv_orgs_distinct: "db_inv s \<Longrightarrow> distinct (map org_id (organizations s))"
  by (simp add: db_inv_def orgs_ok_def)

lemma users_single:
  assumes "db_inv s" "u \<in> set (users_by_external_id s x)" shows "users_by_external_id s x = [u]"
  using assms filter_eq_single[of usr_external_id "users s" u]
  by (auto simp: users_by_external_id_def db_inv_def users_ok_def)

text \<open>The administrator of a fresh organization: the three steps after its projects exist.\<close>

lemma administrator_steps:
  assumes inv: "db_inv s" and o': "o' \<in> org_ids s" and none: "(o', usr_id u) \<notin> set (org_membership s)"
    and u: "users_by_external_id s x = [u]"
    and res: "resolve_permissions s (permissionsToPg OrganizationAdminPermissions) = Some (ids, names)"
    and new: "\<not> role_conflict (admin_role_row o' s) (custom_roles s)"
  shows "\<exists>t. andThen (onError f (AddOrganizationMember x o')) (\<lambda>_.
          andThen (CreateOrganizationAdminRole o' (permissionsToPg OrganizationAdminPermissions)) (\<lambda>adminRole.
          andThen (pg_AssignCustomRoleToOrg x (pcr_ExternalID adminRole) o') (\<lambda>_. ret po))) s = (Inr po, t)"
proof -
  let ?s1 = "s\<lparr>org_membership := org_membership s @ [(o', usr_id u)]\<rparr>"
  let ?r = "admin_role_row o' s"
  have new_id: "rol_id ?r \<notin> role_ids s" by (rule new_role_id[OF new])
  have m: "AddOrganizationMember x o' s = (Inr (), ?s1)"
    by (rule AddOrganizationMember_adds[OF db_inv_orgs_distinct[OF inv] o' u none])
  have "permission_id_of ?s1 = permission_id_of s" by (simp add: permission_id_of_def fun_eq_iff)
  then have res1: "resolve_permissions ?s1 ns = resolve_permissions s ns" for ns
    by (simp only: resolve_permissions_def) simp
  have r1: "admin_role_row o' ?s1 = ?r" by (simp add: admin_role_row_def)
  have free: "(g_custom_roles (gen ?s1), p) \<notin> set (custom_role_permissions ?s1)" for p
    using unreferenced_role(3)[OF inv new_id] by (simp add: admin_role_row_def)
  let ?s2 = "?s1\<lparr>gen := (gen ?s1)\<lparr>g_custom_roles := g_custom_roles (gen ?s1) + 1,
         g_uuid_pos := Suc (Suc (g_uuid_pos (gen ?s1)))\<rparr>,
      custom_roles := custom_roles ?s1 @ [admin_role_row o' ?s1],
      custom_role_permissions := custom_role_permissions ?s1 @ map (Pair (g_custom_roles (gen ?s1))) ids\<rparr>"
  obtain role where role: "CreateOrganizationAdminRole o' (permissionsToPg OrganizationAdminPermissions) ?s1 =
      (Inr role, ?s2)" and ext: "pcr_ExternalID role = rol_external_id ?r"
    using CreateOrganizationAdminRole_creates[OF res1[THEN trans, OF res] resolve_distinct[OF inv res], of o'] o' new free
    by (auto simp: r1)
  have s2: "users_by_external_id ?s2 x = [u]" "org_membership ?s2 = org_membership s @ [(o', usr_id u)]"
    "custom_roles ?s2 = custom_roles s @ [?r]" "org_role_assignments ?s2 = org_role_assignments s"
    using u by (simp_all add: users_by_external_id_def r1)
  have "\<forall>q \<in> set (custom_roles s). rol_external_id q \<noteq> rol_external_id ?r" "rol_org_id ?r = o'"
    using new by (auto simp: role_conflict_def admin_role_row_def)
  then have "org_roles_by_external_id ?s2 o' (rol_external_id ?r) = [?r]"
    unfolding org_roles_by_external_id_def s2(3) by (simp add: filter_empty_conv)
  moreover have "rol_id ?r \<notin> oa_role_id ` set (org_role_assignments s)"
    by (rule unreferenced_role(1)[OF inv new_id])
  then have "\<lparr>oa_user_id = usr_id u, oa_org_id = o', oa_role_id = rol_id ?r\<rparr> \<notin> set (org_role_assignments ?s2)"
    unfolding s2 by force
  moreover have "distinct (org_membership ?s2)" using db_inv_membership_distinct[OF inv] none s2 by simp
  ultimately obtain s3 where "pg_AssignCustomRoleToOrg x (pcr_ExternalID role) o' ?s2 = (Inr (), s3)"
    using pg_AssignCustomRoleToOrg_assigns[of ?s2 x u o' "rol_external_id ?r" ?r] s2(1,2) ext by auto
  then show ?thesis using m role by (simp add: andThen_def onError_def ret_def)
qed

lemma next_uuids_nth: "i < k \<Longrightarrow> next_uuids k s ! i = g_uuids (gen s) (g_uuid_pos (gen s) + i)"
  by (simp add: next_uuids_def)

lemma gens_freshD:
  assumes "gens_fresh k s" "i < k"
  shows "g_uuids (gen s) (g_uuid_pos (gen s) + i) \<notin> used_uuids s"
    "j < k \<Longrightarrow> i \<noteq> j \<Longrightarrow> g_uuids (gen s) (g_uuid_pos (gen s) + i) \<noteq> g_uuids (gen s) (g_uuid_pos (gen s) + j)"
  using assms by (auto simp: gens_fresh_def next_uuids_def distinct_conv_nth)

lemma not_used:
  assumes "x \<notin> used_uuids s"
  shows "q \<in> set (projects s) \<Longrightarrow> prj_etag q \<noteq> x" "r \<in> set (custom_roles s) \<Longrightarrow> rol_external_id r \<noteq> x"
    "r \<in> set (custom_roles s) \<Longrightarrow> rol_etag r \<noteq> x"
  using assms by (auto simp: used_uuids_def)

lemma fresh_org:
  assumes inv: "db_inv s" and fr: "gens_fresh 4 s"
  defines "i \<equiv> g_organizations (gen s)"
  shows "org_conflict (org_row_of name s) (organizations s) \<longleftrightarrow> name \<in> org_name ` set (organizations s)"
    "i \<notin> org_ids s"
    "q \<in> set (projects s) \<Longrightarrow> prj_id q < g_projects (gen s) \<and> prj_org_id q \<noteq> i"
    "r \<in> set (custom_roles s) \<Longrightarrow> rol_id r < g_custom_roles (gen s) \<and> rol_org_id r \<noteq> i"
    "(i, u) \<notin> set (org_membership s)"
proof -
  have ids: "\<forall>q \<in> set (organizations s). org_id q < i" using fr by (simp add: gens_fresh_def i_def)
  then show n: "i \<notin> org_ids s" by auto
  show "org_conflict (org_row_of name s) (organizations s) \<longleftrightarrow> name \<in> org_name ` set (organizations s)"
    using ids by (force simp: org_conflict_def i_def)
  have "prj_org_id q \<in> org_ids s" if "q \<in> set (projects s)" for q
    using inv that by (simp add: db_inv_def projects_ok_def)
  then show "q \<in> set (projects s) \<Longrightarrow> prj_id q < g_projects (gen s) \<and> prj_org_id q \<noteq> i"
    using n fr by (auto simp: gens_fresh_def)
  have "rol_org_id r \<in> org_ids s" if "r \<in> set (custom_roles s)" for r
    using inv that by (simp add: db_inv_def custom_roles_ok_def)
  then show "r \<in> set (custom_roles s) \<Longrightarrow> rol_id r < g_custom_roles (gen s) \<and> rol_org_id r \<noteq> i"
    using n fr by (auto simp: gens_fresh_def)
  show "(i, u) \<notin> set (org_membership s)" using inv n by (auto simp: db_inv_def membership_ok_def)
qed

lemma founding_outcome:
  assumes inv: "db_inv s" and fr: "gens_fresh 4 s" and name: "co_Name co \<notin> org_name ` set (organizations s)"
  defines "r \<equiv> org_row_of (co_Name co) s"
  defines "ctl \<equiv> project_row_of (org_id r) defaultControlProjectName True s"
  defines "s1 \<equiv> s\<lparr>organizations := organizations s @ [r], gen := org_gen s, projects := projects s @ [ctl]\<rparr>"
  defines "p \<equiv> project_row_of (org_id r) (co_ProjectName co) False s1"
  shows "pgorg_CreateOrganization (createOrganizationToPg co) s = (Inr (pg_org_of r ctl), s1)"
    "toLower (co_ProjectName co) = defaultControlProjectName \<Longrightarrow>
      pgorg_CreateProject \<lparr>pcp_OrgID = org_id r, pcp_Name = co_ProjectName co\<rparr> s1 =
        (Inl PgErrAlreadyExists, s1\<lparr>gen := project_gen s1\<rparr>)"
    "toLower (co_ProjectName co) \<noteq> defaultControlProjectName \<Longrightarrow>
      pgorg_CreateProject \<lparr>pcp_OrgID = org_id r, pcp_Name = co_ProjectName co\<rparr> s1 =
        (Inr p, s1\<lparr>gen := project_gen s1, projects := projects s1 @ [p]\<rparr>)"
    "toLower (co_ProjectName co) \<noteq> defaultControlProjectName \<Longrightarrow> founded co s r ctl p"
proof -
  note fo = fresh_org[OF inv fr]
  let ?u = "\<lambda>i. g_uuids (gen s) (g_uuid_pos (gen s) + i)"
  have u: "?u 0 \<notin> used_uuids s" "?u 1 \<notin> used_uuids s" "?u 0 \<noteq> ?u 1"
    using gens_freshD(1)[OF fr, of 0] gens_freshD(1)[OF fr, of 1] gens_freshD(2)[OF fr, of 0 1] by simp_all
  have rid: "org_id r = g_organizations (gen s)" by (simp add: r_def)
  have ro: "\<not> org_conflict r (organizations s)" using fo(1) name by (simp add: r_def)
  moreover have cc: "\<not> project_conflict ctl (projects s)"
    unfolding project_conflict_def using fo(3) not_used(1)[OF u(1)] by (fastforce simp: ctl_def rid)
  ultimately show "pgorg_CreateOrganization (createOrganizationToPg co) s = (Inr (pg_org_of r ctl), s1)"
    using pgorg_CreateOrganization_eq[of r "createOrganizationToPg co" s ctl]
    by (simp add: createOrganizationToPg_def r_def ctl_def s1_def)
  have d1: "distinct (map org_id (organizations s1))" using db_inv_orgs_distinct[OF inv] fo(2) by (simp add: s1_def rid)
  have pid: "prj_id p = g_projects (gen s) + 1" "prj_etag p = ?u 1" "prj_org_id p = org_id r"
    "prj_name p = co_ProjectName co" "\<not> prj_is_control p"
    by (simp_all add: p_def s1_def org_gen_def)
  have "project_conflict p (projects s1) \<longleftrightarrow> toLower (co_ProjectName co) = toLower defaultControlProjectName"
    unfolding project_conflict_def using fo(3) not_used(1)[OF u(2)] u(3) by (force simp: pid s1_def ctl_def rid)
  moreover have "toLower defaultControlProjectName = defaultControlProjectName" by code_simp
  ultimately have c: "project_conflict p (projects s1) \<longleftrightarrow> toLower (co_ProjectName co) = defaultControlProjectName" by simp
  have cp: "pgorg_CreateProject \<lparr>pcp_OrgID = org_id r, pcp_Name = co_ProjectName co\<rparr> s1 =
      (if project_conflict p (projects s1) then (Inl PgErrAlreadyExists, s1\<lparr>gen := project_gen s1\<rparr>)
       else (Inr p, s1\<lparr>gen := project_gen s1, projects := projects s1 @ [p]\<rparr>))"
    using pgorg_CreateProject_eq[OF d1, of "\<lparr>pcp_OrgID = org_id r, pcp_Name = co_ProjectName co\<rparr>"]
    by (simp add: p_def[symmetric]) (simp add: s1_def)
  show "toLower (co_ProjectName co) = defaultControlProjectName \<Longrightarrow>
      pgorg_CreateProject \<lparr>pcp_OrgID = org_id r, pcp_Name = co_ProjectName co\<rparr> s1 =
        (Inl PgErrAlreadyExists, s1\<lparr>gen := project_gen s1\<rparr>)" using cp c by simp
  show "toLower (co_ProjectName co) \<noteq> defaultControlProjectName \<Longrightarrow>
      pgorg_CreateProject \<lparr>pcp_OrgID = org_id r, pcp_Name = co_ProjectName co\<rparr> s1 =
        (Inr p, s1\<lparr>gen := project_gen s1, projects := projects s1 @ [p]\<rparr>)" using cp c by simp
  show "toLower (co_ProjectName co) \<noteq> defaultControlProjectName \<Longrightarrow> founded co s r ctl p"
    using ro cc c by (simp add: founded_def pid) (simp add: r_def ctl_def s1_def)
qed

lemma admin_role_new:
  assumes inv: "db_inv s" and fr: "gens_fresh 4 s" and o': "o' = g_organizations (gen s)"
    and w: "custom_roles w = custom_roles s" "g_custom_roles (gen w) = g_custom_roles (gen s)"
      "g_uuids (gen w) = g_uuids (gen s)" "g_uuid_pos (gen w) = g_uuid_pos (gen s) + 2"
  shows "\<not> role_conflict (admin_role_row o' w) (custom_roles w)"
proof -
  let ?u = "\<lambda>i. g_uuids (gen s) (g_uuid_pos (gen s) + i)"
  have u: "?u 2 \<notin> used_uuids s" "?u 3 \<notin> used_uuids s"
    using gens_freshD(1)[OF fr, of 2] gens_freshD(1)[OF fr, of 3] by simp_all
  have r: "rol_id (admin_role_row o' w) = g_custom_roles (gen s)" "rol_org_id (admin_role_row o' w) = o'"
    "rol_external_id (admin_role_row o' w) = ?u 2" "rol_etag (admin_role_row o' w) = ?u 3"
    by (simp_all add: admin_role_row_def w numeral_3_eq_3)
  show ?thesis unfolding role_conflict_def w(1) r
    using fresh_org(4)[OF inv fr] not_used(2,3)[OF u(1)] not_used(2,3)[OF u(2)] by (fastforce simp: o')
qed

definition creation_result :: "uuid \<Rightarrow> CreateOrganization \<Rightarrow> db \<Rightarrow> error + Organization" where
  "creation_result x co s =
    (if co_Name co = [] \<or> co_ProjectName co = [] then Inl ErrValidation
     else if co_Name co \<in> org_name ` set (organizations s) then Inl ErrAlreadyExists
     else if toLower (co_ProjectName co) = ''control'' then Inl ErrControlProjectNameConflict
     else if users_by_external_id s x = [] then Inl ErrNotFound
     else Inr \<lparr>o_ID = g_organizations (gen s), o_Name = co_Name co,
       o_ControlProjectID = g_projects (gen s), o_CreatedAt = clock s, o_UpdatedAt = None\<rparr>)"

lemma run_tx_result: "m s = (r, u) \<Longrightarrow> fst (run_tx m s) = r"
  by (cases r) (simp_all add: run_tx_def atomic_def)

lemma fst_andThen_ret: "fst (andThen m (\<lambda>x. ret (f x)) s) = (case fst (m s) of Inl e \<Rightarrow> Inl e | Inr x \<Rightarrow> Inr (f x))"
  by (simp add: andThen_def ret_def split: prod.splits sum.splits)

lemma fst_onError: "fst (onError f m s) = (case fst (m s) of Inl e \<Rightarrow> Inl (f e) | Inr x \<Rightarrow> Inr x)"
  by (simp add: onError_def split: prod.splits sum.splits)

lemma andThen_liftS [simp]: "andThen (liftS (Inr x)) k = k x" "andThen (liftS (Inl e)) k = throw e"
  by (auto simp: andThen_def liftS_def throw_def fun_eq_iff)

text \<open>The body of the transaction in \<open>createOrganization\<close>, with a creator.\<close>

definition admin_steps :: "uuid \<Rightarrow> PgOrganization \<Rightarrow> PgOrganization op" where
  "admin_steps x pgOrg =
    andThen (onError (\<lambda>e. if e = SqlErrNoRows then ErrOrgCreatorNotFound else e)
      (AddOrganizationMember x (po_ID pgOrg))) (\<lambda>_.
    andThen (CreateOrganizationAdminRole (po_ID pgOrg) (permissionsToPg OrganizationAdminPermissions)) (\<lambda>adminRole.
    andThen (pg_AssignCustomRoleToOrg x (pcr_ExternalID adminRole) (po_ID pgOrg)) (\<lambda>_. ret pgOrg)))"

definition founding_body :: "uuid \<Rightarrow> CreateOrganization \<Rightarrow> PgOrganization op" where
  "founding_body x co =
    andThen (onError (\<lambda>e. if e = PgErrAlreadyExists then ErrAlreadyExists else e)
      (pgorg_CreateOrganization (createOrganizationToPg co))) (\<lambda>pgOrg.
    andThen (onError (\<lambda>e. if e = PgErrAlreadyExists then ErrControlProjectNameConflict else e)
      (pgorg_CreateProject \<lparr>pcp_OrgID = po_ID pgOrg, pcp_Name = co_ProjectName co\<rparr>)) (\<lambda>_. admin_steps x pgOrg))"

lemma CreateOrganization_body:
  assumes "CreateOrganization_Validate co = Inr ()"
  shows "fst (CreateOrganization (Some sess) co s) = (case fst (founding_body (sessUser sess) co s) of
     Inl e \<Rightarrow> Inl (if e = ErrOrgCreatorNotFound then ErrNotFound else e) | Inr po \<Rightarrow> Inr (organizationFromPg po))"
proof -
  have "createOrganization co (Some (sessUser sess)) s =
      andThen (run_tx (founding_body (sessUser sess) co)) (\<lambda>pgOrg. ret (organizationFromPg pgOrg)) s"
    unfolding createOrganization_def assms andThen_liftS founding_body_def admin_steps_def by simp
  moreover have "fst (run_tx (founding_body (sessUser sess) co) s) = fst (founding_body (sessUser sess) co s)"
    by (rule run_tx_result[of _ _ _ "snd (founding_body (sessUser sess) co s)"]) simp
  ultimately show ?thesis
    by (simp add: CreateOrganization_def fst_onError fst_andThen_ret split: sum.splits)
qed

lemma admin_steps_outcome:
  assumes inv: "db_inv s" and fr: "gens_fresh 4 s" and f: "founded co s r ctl p"
    and perms: "set OrganizationAdminPermissions \<subseteq> snd ` set (permissions s)"
    and po: "po_ID po = org_id r" and rid: "org_id r = g_organizations (gen s)"
    and w: "w = s\<lparr>organizations := organizations s @ [r], projects := projects s @ [ctl, p], gen := g\<rparr>"
    and g: "g_custom_roles g = g_custom_roles (gen s)" "g_uuids g = g_uuids (gen s)" "g_uuid_pos g = g_uuid_pos (gen s) + 2"
  shows "fst (admin_steps x po w) = (if users_by_external_id s x = [] then Inl ErrOrgCreatorNotFound else Inr po)"
proof (cases "users_by_external_id s x = []")
  case True
  then have "AddOrganizationMember x (org_id r) w = (Inl SqlErrNoRows, w)"
    by (intro AddOrganizationMember_missing) (simp add: users_by_external_id_def w)
  then show ?thesis using True by (simp add: admin_steps_def prog_defs po)
next
  case False
  then obtain u where "u \<in> set (users_by_external_id s x)" by (meson last_in_set)
  then have u: "users_by_external_id s x = [u]" by (rule users_single[OF inv])
  have "db_inv (with_org s r ctl p g)" by (rule db_inv_with_org[OF inv f])
  then have inv2: "db_inv w" unfolding w with_org_def by (simp add: db_inv_def)
  have "permission_id_of w = permission_id_of s" by (simp add: w permission_id_of_def fun_eq_iff)
  moreover have "permission_id_of s n \<noteq> []" if "n \<in> set OrganizationAdminPermissions" for n
    using that perms unfolding permission_id_of_registered by force
  ultimately obtain ids names where res: "resolve_permissions w (permissionsToPg OrganizationAdminPermissions) = Some (ids, names)"
    by (simp add: resolve_permissions_def Let_def)
  have "\<exists>t. admin_steps x po w = (Inr po, t)"
    unfolding admin_steps_def po
  proof (rule administrator_steps[OF inv2 _ _ _ res])
    show "org_id r \<in> org_ids w" by (simp add: w)
    show "(org_id r, usr_id u) \<notin> set (org_membership w)" using fresh_org(5)[OF inv fr] by (simp add: w rid)
    show "users_by_external_id w x = [u]" using u by (simp add: w users_by_external_id_def)
    show "\<not> role_conflict (admin_role_row (org_id r) w) (custom_roles w)"
      by (rule admin_role_new[OF inv fr rid]) (simp_all add: w g)
  qed
  with False show ?thesis by auto
qed

lemma creation_outcome:
  assumes inv: "db_inv s" and fr: "gens_fresh 4 s"
    and perms: "set OrganizationAdminPermissions \<subseteq> snd ` set (permissions s)"
  shows "fst (CreateOrganization (Some sess) co s) = creation_result (sessUser sess) co s"
proof (cases "co_Name co = [] \<or> co_ProjectName co = []")
  case True
  then show ?thesis by (auto simp: CreateOrganization_def createOrganization_def CreateOrganization_Validate_def
      prog_defs creation_result_def)
next
  case valid: False
  let ?x = "sessUser sess"
  have "CreateOrganization_Validate co = Inr ()" using valid by (simp add: CreateOrganization_Validate_def)
  note step = CreateOrganization_body[OF this, of sess s]
  let ?r = "org_row_of (co_Name co) s"
  let ?ctl = "project_row_of (org_id ?r) defaultControlProjectName True s"
  let ?s1 = "s\<lparr>organizations := organizations s @ [?r], gen := org_gen s, projects := projects s @ [?ctl]\<rparr>"
  let ?p = "project_row_of (org_id ?r) (co_ProjectName co) False ?s1"
  let ?s2 = "?s1\<lparr>gen := project_gen ?s1, projects := projects ?s1 @ [?p]\<rparr>"
  let ?po = "pg_org_of ?r ?ctl"
  have po: "po_ID ?po = org_id ?r" by (simp add: pg_org_of_def)
  consider (taken) "co_Name co \<in> org_name ` set (organizations s)"
    | (control) "co_Name co \<notin> org_name ` set (organizations s)" "toLower (co_ProjectName co) = defaultControlProjectName"
    | (free) "co_Name co \<notin> org_name ` set (organizations s)" "toLower (co_ProjectName co) \<noteq> defaultControlProjectName"
    by blast
  then show ?thesis
  proof cases
    case taken
    then have "org_conflict ?r (organizations s)" using fresh_org(1)[OF inv fr] by simp
    then have "\<exists>w. pgorg_CreateOrganization (createOrganizationToPg co) s = (Inl PgErrAlreadyExists, w)"
      using pgorg_CreateOrganization_eq[of ?r "createOrganizationToPg co" s]
      by (simp add: createOrganizationToPg_def)
    then have "fst (founding_body ?x co s) = Inl ErrAlreadyExists" by (auto simp: founding_body_def prog_defs)
    then show ?thesis using step valid taken by (simp add: creation_result_def)
  next
    case control
    note fo = founding_outcome(1,2)[OF inv fr control(1)]
    have "fst (founding_body ?x co s) = Inl ErrControlProjectNameConflict"
      using fo(1) fo(2)[OF control(2)] by (simp add: founding_body_def andThen_def onError_def)
    then show ?thesis using step valid control by (simp add: creation_result_def defaultControlProjectName_def)
  next
    case free
    note fo = founding_outcome(1,3,4)[OF inv fr free(1)]
    have "founding_body ?x co s = admin_steps ?x ?po ?s2"
      using fo(1) fo(2)[OF free(2)] by (simp add: founding_body_def andThen_def onError_def po)
    moreover have "fst (admin_steps ?x ?po ?s2) = (if users_by_external_id s ?x = [] then Inl ErrOrgCreatorNotFound else Inr ?po)"
      by (rule admin_steps_outcome[OF inv fr fo(3)[OF free(2)] perms po, where g = "project_gen ?s1"])
        (simp_all add: project_gen_def org_gen_def)
    ultimately show ?thesis using step valid free
      by (simp add: creation_result_def defaultControlProjectName_def organizationFromPg_def pg_org_of_def)
  qed
qed

lemma demo_org_fresh: "gens_fresh 4 demo_org_db"
  by code_simp

lemma demo_org_perms: "set OrganizationAdminPermissions \<subseteq> snd ` set (permissions demo_org_db)"
  by code_simp

lemma demo_creation_runs:
  "fst (CreateOrganization (Some (demo_session 101 2 1)) \<lparr>co_Name = ''globex'', co_ProjectName = ''main''\<rparr> demo_org_db) =
    Inr \<lparr>o_ID = 10, o_Name = ''globex'', o_ControlProjectID = 10, o_CreatedAt = 100, o_UpdatedAt = None\<rparr>"
  unfolding creation_outcome[OF demo_org_inv demo_org_fresh demo_org_perms] by code_simp

text \<open>C13: the result of \<open>CreateOrganization\<close> on every branch, in the order of the code's checks: an
  empty name, a taken name, a default project named like the control project, a creator that does not
  exist; otherwise the organization is created, provided that the generators do not repeat.\<close>

theorem create_organization_outcome:
  assumes "db_inv s" "gens_fresh 4 s" "set OrganizationAdminPermissions \<subseteq> snd ` set (permissions s)"
  shows "fst (CreateOrganization (Some sess) co s) =
    (if co_Name co = [] \<or> co_ProjectName co = [] then Inl ErrValidation
     else if co_Name co \<in> org_name ` set (organizations s) then Inl ErrAlreadyExists
     else if toLower (co_ProjectName co) = ''control'' then Inl ErrControlProjectNameConflict
     else if users_by_external_id s (sessUser sess) = [] then Inl ErrNotFound
     else Inr \<lparr>o_ID = g_organizations (gen s), o_Name = co_Name co,
       o_ControlProjectID = g_projects (gen s), o_CreatedAt = clock s, o_UpdatedAt = None\<rparr>)"
  using creation_outcome[OF assms] by (simp only: creation_result_def)

theorem create_organization_outcome_witness:
  "fst (CreateOrganization (Some (demo_session 101 2 1)) \<lparr>co_Name = ''globex'', co_ProjectName = ''Control''\<rparr>
     demo_org_db) = Inl ErrControlProjectNameConflict"
  unfolding create_organization_outcome[OF demo_org_inv demo_org_fresh demo_org_perms] by code_simp


section \<open>Lookup\<close>

lemma organization_by_name_rows:
  assumes d: "distinct (map org_name (organizations s))" and r: "r \<in> set (organizations s)"
    and c: "control_projects s (org_id r) = [ctl]"
  shows "OrganizationByName (org_name r) s = (Inr (organizationFromPg (pg_org_of r ctl)), s)"
proof -
  let ?f = "\<lambda>q. [pg_org_of q p. p \<leftarrow> projects s, prj_org_id p = org_id q \<and> prj_is_control p, org_name q = org_name r]"
  have other: "?f q = []" if "q \<in> set (organizations s)" "q \<noteq> r" for q
  proof -
    have "org_name q \<noteq> org_name r" using distinct_key_unique[OF d that(1) r] that(2) by blast
    then show ?thesis by auto
  qed
  have "distinct (organizations s)" using d by (simp add: distinct_map)
  then have single: "concat (map ?f (organizations s)) = ?f r"
    by (rule concat_map_single[where f = ?f, OF _ r other])
  have "[pg_org_of r p. p \<leftarrow> ps, prj_org_id p = org_id r \<and> prj_is_control p, org_name r = org_name r] =
      map (pg_org_of r) (filter (\<lambda>p. prj_org_id p = org_id r \<and> prj_is_control p) ps)" for ps
    by (induction ps) auto
  then have "?f r = map (pg_org_of r) (control_projects s (org_id r))"
    unfolding control_projects_def .
  with single c have "concat (map ?f (organizations s)) = [pg_org_of r ctl]" by (simp only: list.map)
  then have rows: "[\<lparr>po_ID = org_id r', po_Name = org_name r', po_ControlProjectID = prj_id p,
         po_CreatedAt = org_created_at r', po_UpdatedAt = org_updated_at r'\<rparr>.
        r' \<leftarrow> organizations s, p \<leftarrow> projects s, prj_org_id p = org_id r' \<and> prj_is_control p,
        org_name r' = org_name r] = [pg_org_of r ctl]"
    by (simp only: pg_org_of_def)
  have "pgorg_OrganizationByName (org_name r) s = (Inr (pg_org_of r ctl), s)"
    unfolding pgorg_OrganizationByName_def organizationByNameQuery_def Queue_simp queueOne_reads rows
    by (simp add: collectOne_def)
  then show ?thesis by (simp add: OrganizationByName_def andThen_def onError_def ret_def)
qed

text \<open>C16: a created organization is found again under its name: \<open>OrganizationByName\<close> returns the very
  value that the creation returned.\<close>

theorem created_organization_is_found:
  assumes inv: "db_inv s" and q: "CreateOrganization (Some sess) co s = (Inr org, t)"
  shows "OrganizationByName (co_Name co) t = (Inr org, t)"
proof (rule create_InrE[OF inv])
  show "createOrganization co (Some (sessUser sess)) s = (Inr org, t)"
    using q by (simp add: CreateOrganization_Inr)
  fix r ctl p g u role ids names
  assume f: "founded co s r ctl p" and o': "org = organizationFromPg (pg_org_of r ctl)"
    and t: "t = with_admin (with_org s r ctl p g) (org_id r) (usr_id u) role ids"
  have new: "\<not> org_conflict r (organizations s)" by (rule founded_new[OF f])
  have "distinct (map org_name (organizations t))"
    using inv new by (auto simp: t db_inv_def orgs_ok_def org_conflict_def)
  moreover have "control_projects t (org_id r) = [ctl]"
    using f new_org_unreferenced(2)[OF inv new] by (auto simp: control_projects_def t founded_def filter_empty_conv)
  moreover have "org_name r = co_Name co" using f by (simp add: founded_def)
  ultimately show "OrganizationByName (co_Name co) t = (Inr org, t)"
    using organization_by_name_rows[of t r ctl] by (simp add: o') (simp add: t)
qed

theorem created_organization_is_found_witness:
  "fst (OrganizationByName ''globex'' (snd (CreateOrganization (Some (demo_session 101 2 1))
     \<lparr>co_Name = ''globex'', co_ProjectName = ''main''\<rparr> demo_org_db))) =
   Inr \<lparr>o_ID = 10, o_Name = ''globex'', o_ControlProjectID = 10, o_CreatedAt = 100, o_UpdatedAt = None\<rparr>"
proof -
  let ?r = "CreateOrganization (Some (demo_session 101 2 1)) \<lparr>co_Name = ''globex'', co_ProjectName = ''main''\<rparr> demo_org_db"
  have r: "?r = (Inr \<lparr>o_ID = 10, o_Name = ''globex'', o_ControlProjectID = 10, o_CreatedAt = 100, o_UpdatedAt = None\<rparr>, snd ?r)"
    using demo_creation_runs by (simp add: prod_eq_iff)
  from created_organization_is_found[OF demo_org_inv r] show ?thesis by simp
qed

end
