(* ===== verification/PgAuth.thy ===== *)
theory PgAuth
  imports PgUser
begin

text \<open>
  The token store \<open>internal/core/pgstores/pgauth\<close>. \<open>magic_link_tokens\<close> and \<open>refresh_tokens\<close> have the same
  columns, so what a statement does to one of them is written once over a \<open>token_table\<close>: how to read the
  table, how to write it, its sequence. \<open>token_ops\<close> states what such an access must satisfy.
\<close>

section \<open>model.go\<close>

text \<open>\<open>MagicLinkToken\<close> and \<open>RefreshToken\<close> have the same fields, and so have the two requests.\<close>

record PgToken =
  ptk_ID :: int
  ptk_UserID :: int
  ptk_UserExternalID :: uuid
  ptk_ExpiresAt :: time
  ptk_CreatedAt :: time

record PgCreateToken =
  pct_UserID :: int
  pct_TokenHash :: string
  pct_ExpiresAt :: time

record AuthSessionData =
  asd_UserExternalID :: uuid
  asd_Email :: string
  asd_ProjectID :: "int option"
  asd_OrgID :: "int option"
  asd_OrgName :: "string option"
  asd_IsControlProject :: "bool option"
  asd_IsOrgMember :: "bool option"

section \<open>Token tables\<close>

record token_table =
  tt_rows :: "db \<Rightarrow> token_row list"
  tt_update :: "(token_row list \<Rightarrow> token_row list) \<Rightarrow> db \<Rightarrow> db"
  tt_next :: "int op"

definition magic_links :: token_table where
  "magic_links = \<lparr>tt_rows = magic_link_tokens, tt_update = magic_link_tokens_update,
     tt_next = nextval g_magic_link_tokens g_magic_link_tokens_update\<rparr>"

definition refreshes :: token_table where
  "refreshes = \<lparr>tt_rows = refresh_tokens, tt_update = refresh_tokens_update,
     tt_next = nextval g_refresh_tokens g_refresh_tokens_update\<rparr>"

definition token_of :: "user_row \<Rightarrow> token_row \<Rightarrow> PgToken" where
  "token_of u r = \<lparr>ptk_ID = tok_id r, ptk_UserID = tok_user_id r, ptk_UserExternalID = usr_external_id u,
     ptk_ExpiresAt = tok_expires_at r, ptk_CreatedAt = tok_created_at r\<rparr>"

text \<open>\<open>used_at IS NULL AND expires_at > NOW()\<close>, and \<open>revoked_at\<close> likewise.\<close>

definition token_open :: "time \<Rightarrow> token_row \<Rightarrow> bool" where
  "token_open now r \<longleftrightarrow> tok_closed_at r = None \<and> now < tok_expires_at r"

definition token_conflict :: "token_row \<Rightarrow> token_row list \<Rightarrow> bool" where
  "token_conflict r rs \<longleftrightarrow> (\<exists>q \<in> set rs. tok_id q = tok_id r \<or> tok_hash q = tok_hash r)"

definition insert_token :: "token_table \<Rightarrow> token_row \<Rightarrow> unit op" where
  "insert_token T r = andThen (reads (tt_rows T)) (\<lambda>rs.
     if token_conflict r rs then unique_violation else updates (tt_update T (\<lambda>rs. rs @ [r])))"

text \<open>\<open>INSERT ... SELECT\<close>: one token for every user the condition selects.\<close>

primrec insert_tokens :: "token_table \<Rightarrow> PgCreateToken \<Rightarrow> user_row list \<Rightarrow> PgToken list op" where
  "insert_tokens T ct [] = ret []"
| "insert_tokens T ct (u # us) =
    andThen (tt_next T) (\<lambda>i.
    andThen (reads clock) (\<lambda>now.
    let r = \<lparr>tok_id = i, tok_user_id = usr_id u, tok_hash = pct_TokenHash ct,
             tok_expires_at = pct_ExpiresAt ct, tok_closed_at = None, tok_created_at = now\<rparr> in
    andThen (insert_token T r) (\<lambda>_.
    andThen (insert_tokens T ct us) (\<lambda>ts. ret (token_of u r # ts)))))"

definition create_token :: "token_table \<Rightarrow> PgCreateToken \<Rightarrow> PgToken list op" where
  "create_token T ct = andThen (reads (\<lambda>s. filter (\<lambda>u. usr_id u = pct_UserID ct) (users s))) (insert_tokens T ct)"

text \<open>\<open>UPDATE ... SET used_at = NOW() WHERE hit\<close>; the rows as they are after the update.\<close>

definition close_token :: "time \<Rightarrow> token_row \<Rightarrow> token_row" where
  "close_token now r = r\<lparr>tok_closed_at := Some now\<rparr>"

definition close_tokens :: "token_table \<Rightarrow> (db \<Rightarrow> token_row \<Rightarrow> bool) \<Rightarrow> token_row list op" where
  "close_tokens T hit = andThen (reads (\<lambda>s. (clock s, filter (hit s) (tt_rows T s), hit s))) (\<lambda>(now, rs, h).
     andThen (updates (tt_update T (map (\<lambda>r. if h r then close_token now r else r)))) (\<lambda>_.
     ret (map (close_token now) rs)))"

definition token_users :: "db \<Rightarrow> token_row \<Rightarrow> user_row list" where
  "token_users s r = filter (\<lambda>u. usr_id u = tok_user_id r) (users s)"

section \<open>query.go\<close>

definition left_join :: "'a list \<Rightarrow> 'a option list" where
  "left_join rows = (if rows = [] then [None] else map Some rows)"

definition authSessionDataQuery :: "uuid \<Rightarrow> int option \<Rightarrow> (AuthSessionData, AuthSessionData) TypedQuery" where
  "authSessionDataQuery userID projectID = \<lparr>
     tq_SQL = reads (\<lambda>s.
       [\<lparr>asd_UserExternalID = usr_external_id u, asd_Email = usr_email u,
         asd_ProjectID = map_option prj_id p, asd_OrgID = map_option org_id r,
         asd_OrgName = map_option org_name r, asd_IsControlProject = map_option prj_is_control p,
         asd_IsOrgMember = (case p of None \<Rightarrow> None
           | Some _ \<Rightarrow> Some (case r of None \<Rightarrow> False
               | Some o' \<Rightarrow> (org_id o', usr_id u) \<in> set (org_membership s)))\<rparr>.
        u \<leftarrow> users_by_external_id s userID,
        p \<leftarrow> left_join (filter (\<lambda>p. Some (prj_id p) = projectID) (projects s)),
        r \<leftarrow> left_join (case p of None \<Rightarrow> [] | Some p' \<Rightarrow>
              filter (\<lambda>o'. org_id o' = prj_org_id p') (organizations s)),
        projectID = None \<or> p \<noteq> None]),
     tq_Scan = Inr, tq_Expect = ExpectOne\<rparr>"

definition createMagicLinkTokenQuery :: "PgCreateToken \<Rightarrow> (PgToken, PgToken) TypedQuery" where
  "createMagicLinkTokenQuery cm =
    \<lparr>tq_SQL = create_token magic_links cm, tq_Scan = Inr, tq_Expect = ExpectOne\<rparr>"

definition magicLinkTokenByHashQuery :: "string \<Rightarrow> (PgToken, PgToken) TypedQuery" where
  "magicLinkTokenByHashQuery hash = \<lparr>
     tq_SQL = reads (\<lambda>s. [token_of u r.
       r \<leftarrow> filter (\<lambda>r. tok_hash r = hash \<and> token_open (clock s) r) (magic_link_tokens s),
       u \<leftarrow> token_users s r]),
     tq_Scan = Inr, tq_Expect = ExpectOne\<rparr>"

definition latestMagicLinkTokenCreatedAtQuery :: "int \<Rightarrow> (time, time) TypedQuery" where
  "latestMagicLinkTokenCreatedAtQuery userID = \<lparr>
     tq_SQL = reads (\<lambda>s. take 1 (sort_by (\<lambda>a b. b \<le> a)
       (map tok_created_at (filter (\<lambda>r. tok_user_id r = userID) (magic_link_tokens s))))),
     tq_Scan = Inr, tq_Expect = ExpectOne\<rparr>"

definition invalidateUserMagicLinkTokensQuery :: "int \<Rightarrow> (token_row, int) TypedQuery" where
  "invalidateUserMagicLinkTokensQuery userID = \<lparr>
     tq_SQL = close_tokens magic_links (\<lambda>s r. tok_user_id r = userID \<and> token_open (clock s) r),
     tq_Scan = (\<lambda>r. Inr (tok_id r)), tq_Expect = ExpectMany\<rparr>"

definition consumeMagicLinkTokenQuery :: "int \<Rightarrow> (token_row, int) TypedQuery" where
  "consumeMagicLinkTokenQuery i = \<lparr>
     tq_SQL = close_tokens magic_links (\<lambda>s r. tok_id r = i \<and> token_open (clock s) r),
     tq_Scan = (\<lambda>r. Inr (tok_id r)), tq_Expect = ExpectOne\<rparr>"

definition createRefreshTokenQuery :: "PgCreateToken \<Rightarrow> (PgToken, PgToken) TypedQuery" where
  "createRefreshTokenQuery cr =
    \<lparr>tq_SQL = create_token refreshes cr, tq_Scan = Inr, tq_Expect = ExpectOne\<rparr>"

definition consumeRefreshTokenQuery :: "string \<Rightarrow> (PgToken, PgToken) TypedQuery" where
  "consumeRefreshTokenQuery hash = \<lparr>
     tq_SQL = andThen (close_tokens refreshes (\<lambda>s r.
         tok_hash r = hash \<and> token_open (clock s) r \<and> token_users s r \<noteq> [])) (\<lambda>rs.
       reads (\<lambda>s. [token_of u r. r \<leftarrow> rs, u \<leftarrow> token_users s r])),
     tq_Scan = Inr, tq_Expect = ExpectOne\<rparr>"

definition revokeAllUserRefreshTokensQuery :: "uuid \<Rightarrow> (token_row, int) TypedQuery" where
  "revokeAllUserRefreshTokensQuery userExternalID = \<lparr>
     tq_SQL = close_tokens refreshes (\<lambda>s r.
       (\<exists>u \<in> set (users_by_external_id s userExternalID). tok_user_id r = usr_id u) \<and> tok_closed_at r = None),
     tq_Scan = (\<lambda>r. Inr (tok_id r)), tq_Expect = ExpectMany\<rparr>"

section \<open>store.go\<close>

definition pg_AuthSessionData :: "uuid \<Rightarrow> int option \<Rightarrow> AuthSessionData op" where
  "pg_AuthSessionData userID projectID = Queue (authSessionDataQuery userID projectID)"

definition LatestMagicLinkTokenCreatedAt :: "int \<Rightarrow> time op" where
  "LatestMagicLinkTokenCreatedAt userID = Queue (latestMagicLinkTokenCreatedAtQuery userID)"

definition InvalidateUserMagicLinkTokens :: "int \<Rightarrow> unit op" where
  "InvalidateUserMagicLinkTokens userID =
    andThen (QueueMany (invalidateUserMagicLinkTokensQuery userID)) (\<lambda>_. ret ())"

definition CreateMagicLinkToken :: "PgCreateToken \<Rightarrow> PgToken op" where
  "CreateMagicLinkToken cm = Queue (createMagicLinkTokenQuery cm)"

definition MagicLinkTokenByHash :: "string \<Rightarrow> PgToken op" where
  "MagicLinkTokenByHash hash = Queue (magicLinkTokenByHashQuery hash)"

definition ConsumeMagicLinkToken :: "int \<Rightarrow> unit op" where
  "ConsumeMagicLinkToken i = andThen (Queue (consumeMagicLinkTokenQuery i)) (\<lambda>_. ret ())"

definition CreateRefreshToken :: "PgCreateToken \<Rightarrow> PgToken op" where
  "CreateRefreshToken cr = Queue (createRefreshTokenQuery cr)"

definition LockUser :: "int \<Rightarrow> unit op" where
  "LockUser userID = RunExec (andThen (pg_advisory_xact_lock ''auth.user'' userID) (\<lambda>u. ret [u]))"

definition ConsumeRefreshToken :: "string \<Rightarrow> PgToken op" where
  "ConsumeRefreshToken hash = Queue (consumeRefreshTokenQuery hash)"

definition pg_RevokeAllUserRefreshTokens :: "uuid \<Rightarrow> unit op" where
  "pg_RevokeAllUserRefreshTokens userExternalID =
    andThen (QueueMany (revokeAllUserRefreshTokensQuery userExternalID)) (\<lambda>_. ret ())"

end
