(* ===== verification/AuthCore.thy ===== *)
theory AuthCore
  imports Crypto PgAuth SystemRoleCore UserCore
begin

text \<open>
  Authentication: \<open>internal/core/auth/auth.go\<close> and \<open>conv.go\<close>. The environment of a call holds what it
  reads outside the database: the successive readings of the process clock, the 32 bytes of the secure
  random source (None when reading it fails), and the two functions of the JWT library, \<open>NewNumericDate\<close>
  and \<open>SignedString\<close> (None when signing fails).
\<close>

section \<open>Configuration and environment\<close>

record Config =
  cfg_JWTKey :: bytes
  cfg_JWTIssuer :: string
  cfg_JWTAudience :: string
  cfg_MagicLinkFromEmail :: string
  cfg_MagicLinkBaseURL :: string
  cfg_MagicLinkTTL :: time
  cfg_MagicLinkRateLimit :: time
  cfg_AccessTokenTTL :: time
  cfg_RefreshTokenTTL :: time

record AuthClaims =
  cl_UserID :: uuid
  cl_Issuer :: string
  cl_Audience :: "string list"
  cl_Subject :: string
  cl_IssuedAt :: time
  cl_ExpiresAt :: time

record env =
  e_since :: time
  e_now :: time
  e_random :: "bytes option"
  e_NewNumericDate :: "time \<Rightarrow> time"
  e_SignedString :: "AuthClaims \<Rightarrow> bytes \<Rightarrow> string option"

section \<open>conv.go\<close>

definition createMagicLinkTokenToPg :: "int \<Rightarrow> string \<Rightarrow> time \<Rightarrow> PgCreateToken" where
  "createMagicLinkTokenToPg userID hash expiresAt =
    \<lparr>pct_UserID = userID, pct_TokenHash = hash, pct_ExpiresAt = expiresAt\<rparr>"

definition createRefreshTokenToPg :: "int \<Rightarrow> string \<Rightarrow> time \<Rightarrow> PgCreateToken" where
  "createRefreshTokenToPg userID hash expiresAt =
    \<lparr>pct_UserID = userID, pct_TokenHash = hash, pct_ExpiresAt = expiresAt\<rparr>"

definition authProjectFromPg :: "AuthSessionData \<Rightarrow> error + AuthProject option" where
  "authProjectFromPg d = (case asd_ProjectID d of
      None \<Rightarrow> Inr None
    | Some i \<Rightarrow> (case (asd_OrgID d, asd_OrgName d, asd_IsControlProject d, asd_IsOrgMember d) of
        (Some o', Some n, Some c, Some m) \<Rightarrow> Inr (Some \<lparr>ap_ID = i, ap_OrgID = o', ap_OrgName = n,
          ap_IsControl = c, ap_IsOrgMember = m\<rparr>)
      | _ \<Rightarrow> Inl (GoPanic ''incomplete project metadata in auth session data'')))"

definition authSessionFromPg :: "AuthSessionData \<Rightarrow> string list \<Rightarrow> error + AuthSession" where
  "authSessionFromPg d permissionNames = (case authProjectFromPg d of
      Inl e \<Rightarrow> Inl e
    | Inr p \<Rightarrow> Inr \<lparr>as_User = \<lparr>au_UserID = asd_UserExternalID d, au_Email = asd_Email d,
        au_Permissions = permissionsFromPg permissionNames\<rparr>, as_Project = p\<rparr>)"

section \<open>Tokens\<close>

definition hashToken :: "string \<Rightarrow> string" where
  "hashToken raw = hexEncode (sha256_Sum256 (bytes_of raw))"

definition generateToken :: "bytes option \<Rightarrow> error + string \<times> string" where
  "generateToken rnd = (case rnd of
      None \<Rightarrow> Inl (ErrMsg ''read random bytes'')
    | Some b \<Rightarrow> (let raw = rawURLEncode b in Inr (raw, hashToken raw)))"

definition issueTokenPair :: "Config \<Rightarrow> env \<Rightarrow> int \<Rightarrow> uuid \<Rightarrow> AuthTokenPair op" where
  "issueTokenPair cfg env userID userExternalID =
    (let now = e_now env;
         claims = \<lparr>cl_UserID = userExternalID, cl_Issuer = cfg_JWTIssuer cfg,
           cl_Audience = [cfg_JWTAudience cfg], cl_Subject = uuidString userExternalID,
           cl_IssuedAt = e_NewNumericDate env now,
           cl_ExpiresAt = e_NewNumericDate env (now + cfg_AccessTokenTTL cfg)\<rparr> in
     case e_SignedString env claims (cfg_JWTKey cfg) of
       None \<Rightarrow> throw (ErrMsg ''sign access token'')
     | Some accessToken \<Rightarrow>
         andThen (liftS (generateToken (e_random env))) (\<lambda>(rawRefresh, refreshHash).
         andThen (CreateRefreshToken
           (createRefreshTokenToPg userID refreshHash (now + cfg_RefreshTokenTTL cfg))) (\<lambda>_.
         ret \<lparr>tp_AccessToken = accessToken, tp_RefreshToken = rawRefresh,
              tp_ExpiresIn = cfg_AccessTokenTTL cfg\<rparr>)))"

section \<open>auth.go\<close>

text \<open>The result of a call with its error, for code that goes on after an error.\<close>

definition attempt :: "'a op \<Rightarrow> (error + 'a) op" where
  "attempt m = (\<lambda>s. case m s of (r, t) \<Rightarrow> (Inr r, t))"

definition tokenInvalid :: "error \<Rightarrow> error" where
  "tokenInvalid e = (if e = SqlErrNoRows then ErrTokenInvalid else e)"

definition rateLimitReached :: "Config \<Rightarrow> env \<Rightarrow> int \<Rightarrow> bool op" where
  "rateLimitReached cfg env userID =
    (if cfg_MagicLinkRateLimit cfg > 0 then
       andThen (attempt (LatestMagicLinkTokenCreatedAt userID)) (\<lambda>r. case r of
           Inl e \<Rightarrow> if e \<noteq> SqlErrNoRows then throw e else ret False
         | Inr lastSent \<Rightarrow> ret (e_since env - lastSent < cfg_MagicLinkRateLimit cfg))
     else ret False)"

text \<open>The transaction returns None when the rate limit is reached: it commits without a change.\<close>

definition MagicLinkToken :: "address_parser \<Rightarrow> Config \<Rightarrow> env \<Rightarrow> string \<Rightarrow> string op" where
  "MagicLinkToken pa cfg env email =
    andThen (liftS (RequestMagicLink_Validate pa email)) (\<lambda>_.
    andThen (onError notFound (pguser_UserByEmail (toLower email))) (\<lambda>pgUser.
    andThen (run_tx (
      andThen (LockUser (usr_id pgUser)) (\<lambda>_.
      andThen (rateLimitReached cfg env (usr_id pgUser)) (\<lambda>rateLimited.
      if rateLimited then ret None
      else
        andThen (InvalidateUserMagicLinkTokens (usr_id pgUser)) (\<lambda>_.
        andThen (liftS (generateToken (e_random env))) (\<lambda>(tok, hash).
        andThen (CreateMagicLinkToken (createMagicLinkTokenToPg (usr_id pgUser) hash
          (e_now env + cfg_MagicLinkTTL cfg))) (\<lambda>_.
        ret (Some tok)))))))) (\<lambda>rawTok.
    case rawTok of None \<Rightarrow> throw ErrRateLimited | Some tok \<Rightarrow> ret tok)))"

definition VerifyMagicLink :: "Config \<Rightarrow> env \<Rightarrow> string \<Rightarrow> AuthTokenPair op" where
  "VerifyMagicLink cfg env token =
    andThen (liftS (VerifyMagicLink_Validate token)) (\<lambda>_.
    andThen (onError tokenInvalid (MagicLinkTokenByHash (hashToken token))) (\<lambda>tok.
    run_tx (
      andThen (onError tokenInvalid (ConsumeMagicLinkToken (ptk_ID tok))) (\<lambda>_.
      andThen (pguser_MarkEmailVerified (ptk_UserExternalID tok)) (\<lambda>_.
      issueTokenPair cfg env (ptk_UserID tok) (ptk_UserExternalID tok))))))"

definition RefreshAccessToken :: "Config \<Rightarrow> env \<Rightarrow> string \<Rightarrow> AuthTokenPair op" where
  "RefreshAccessToken cfg env token =
    andThen (liftS (RefreshToken_Validate token)) (\<lambda>_.
    run_tx (
      andThen (onError tokenInvalid (ConsumeRefreshToken (hashToken token))) (\<lambda>refreshTok.
      issueTokenPair cfg env (ptk_UserID refreshTok) (ptk_UserExternalID refreshTok))))"

definition RevokeRefreshToken :: "string \<Rightarrow> unit op" where
  "RevokeRefreshToken token =
    andThen (liftS (RefreshToken_Validate token)) (\<lambda>_.
    andThen (onError tokenInvalid (ConsumeRefreshToken (hashToken token))) (\<lambda>_. ret ()))"

definition RevokeAllUserRefreshTokens :: "uuid \<Rightarrow> unit op" where
  "RevokeAllUserRefreshTokens userExternalID = pg_RevokeAllUserRefreshTokens userExternalID"

definition AuthSession :: "uuid \<Rightarrow> int option \<Rightarrow> AuthSession op" where
  "AuthSession userID projectID =
    andThen (onError notFound (pg_AuthSessionData userID projectID)) (\<lambda>d.
    case projectID of
      None \<Rightarrow>
        andThen (onError notFound (SystemPermissions (asd_UserExternalID d))) (\<lambda>perms.
        liftS (authSessionFromPg d perms))
    | Some pid \<Rightarrow>
        andThen (onError notFound (ProjectPermissions (asd_UserExternalID d) pid)) (\<lambda>perms.
        liftS (authSessionFromPg d (pp_PermissionNames perms))))"

definition OrganizationAuthSession :: "uuid \<Rightarrow> int \<Rightarrow> AuthSession op" where
  "OrganizationAuthSession userID projectID =
    andThen (onError notFound (pg_AuthSessionData userID (Some projectID))) (\<lambda>d.
    andThen (onError notFound (OrgPermissionsByProjectID (asd_UserExternalID d) projectID)) (\<lambda>orgPerms.
    liftS (authSessionFromPg d (pp_PermissionNames orgPerms))))"

definition AuthContext :: "AuthSession option \<Rightarrow> AuthContext op" where
  "AuthContext ctx = (case ctx of
      None \<Rightarrow> throw (ErrMsg ''auth session missing'')
    | Some sess \<Rightarrow> (case as_Project sess of
        None \<Rightarrow> throw (ErrMsg ''project context missing'')
      | Some p \<Rightarrow>
          andThen (onError notFound (PermissionsByScope (au_UserID (as_User sess)) (ap_ID p))) (\<lambda>perms.
          ret \<lparr>ac_UserID = au_UserID (as_User sess), ac_Email = au_Email (as_User sess),
               ac_ProjectPermissions = permissionsFromPg (pps_ProjectPermissionNames perms),
               ac_OrganizationPermissions = permissionsFromPg (pps_OrgPermissionNames perms),
               ac_SystemPermissions = permissionsFromPg (pps_SystemPermissionNames perms)\<rparr>)))"

end
