(* ===== verification/AuthSessions.thy ===== *)
theory AuthSessions
  imports AuthCore RoleSafety SystemRoleProps
begin

text \<open>
  The sessions the service resolves for a request: who the caller is, in which project, and exactly the
  permissions he holds at the scope asked for. A session is resolved or the result is \<open>ErrNotFound\<close>; the
  panic of \<open>authProjectFromPg\<close> is unreachable.
\<close>

lemma users_by_id_cases:
  assumes "db_inv s"
  obtains (none) "users_by_external_id s x = []"
  | (one) u where "users_by_external_id s x = [u]" "u \<in> set (users s)" "usr_external_id u = x"
proof (cases "users_by_external_id s x")
  case Nil then show ?thesis by (rule none)
next
  case (Cons u us)
  then have "u \<in> set (users_by_external_id s x)" by simp
  then have u: "u \<in> set (users s)" "usr_external_id u = x" by (auto simp: users_by_external_id_def)
  have "distinct (map usr_external_id (users s))" using assms by (simp add: db_inv_def users_ok_def)
  from filter_eq_single[OF this u(1)] have "users_by_external_id s x = [u]" by (simp add: users_by_external_id_def u(2))
  then show ?thesis using u by (rule one)
qed

lemma projects_by_id_cases:
  assumes "db_inv s"
  obtains (none) "filter (\<lambda>p. prj_id p = i) (projects s) = []" "i \<notin> prj_id ` set (projects s)"
  | (one) p r where "filter (\<lambda>p. prj_id p = i) (projects s) = [p]" "p \<in> set (projects s)" "prj_id p = i"
      "filter (\<lambda>q. org_id q = prj_org_id p) (organizations s) = [r]" "r \<in> set (organizations s)" "org_id r = prj_org_id p"
proof (cases "filter (\<lambda>p. prj_id p = i) (projects s)")
  case Nil
  then have "i \<notin> prj_id ` set (projects s)" by (auto simp: filter_empty_conv)
  with Nil show ?thesis by (rule none)
next
  case (Cons p ps)
  then have "p \<in> set (filter (\<lambda>p. prj_id p = i) (projects s))" by simp
  then have p: "p \<in> set (projects s)" "prj_id p = i" by auto
  have d: "distinct (map prj_id (projects s))" "distinct (map org_id (organizations s))" "prj_org_id p \<in> org_ids s"
    using assms p(1) by (simp_all add: db_inv_def projects_ok_def orgs_ok_def)
  then obtain r where r: "r \<in> set (organizations s)" "org_id r = prj_org_id p" by auto
  have "filter (\<lambda>p. prj_id p = i) (projects s) = [p]" using filter_eq_single[OF d(1) p(1)] by (simp add: p(2))
  moreover have "filter (\<lambda>q. org_id q = prj_org_id p) (organizations s) = [r]"
    using filter_eq_single[OF d(2) r(1)] by (simp add: r(2))
  ultimately show ?thesis using p r by (intro one)
qed

definition session_data :: "db \<Rightarrow> user_row \<Rightarrow> project_row \<Rightarrow> org_row \<Rightarrow> AuthSessionData" where
  "session_data s u p r = \<lparr>asd_UserExternalID = usr_external_id u, asd_Email = usr_email u,
     asd_ProjectID = Some (prj_id p), asd_OrgID = Some (org_id r), asd_OrgName = Some (org_name r),
     asd_IsControlProject = Some (prj_is_control p),
     asd_IsOrgMember = Some ((org_id r, usr_id u) \<in> set (org_membership s))\<rparr>"

definition session_project :: "db \<Rightarrow> user_row \<Rightarrow> project_row \<Rightarrow> org_row \<Rightarrow> AuthProject" where
  "session_project s u p r = \<lparr>ap_ID = prj_id p, ap_OrgID = org_id r, ap_OrgName = org_name r,
     ap_IsControl = prj_is_control p, ap_IsOrgMember = ((org_id r, usr_id u) \<in> set (org_membership s))\<rparr>"

lemma pg_AuthSessionData_project:
  assumes "users_by_external_id s x = [u]" "filter (\<lambda>p. prj_id p = i) (projects s) = [p]"
    "filter (\<lambda>q. org_id q = prj_org_id p) (organizations s) = [r]"
  shows "pg_AuthSessionData x (Some i) s = (Inr (session_data s u p r), s)"
  using assms by (simp add: pg_AuthSessionData_def authSessionDataQuery_def queueOne_reads left_join_def
      collectOne_def session_data_def)

lemma pg_AuthSessionData_none:
  "users_by_external_id s x = [] \<Longrightarrow> pg_AuthSessionData x pid s = (Inl SqlErrNoRows, s)"
  "filter (\<lambda>p. prj_id p = i) (projects s) = [] \<Longrightarrow> pg_AuthSessionData x (Some i) s = (Inl SqlErrNoRows, s)"
proof -
  assume "users_by_external_id s x = []"
  then show "pg_AuthSessionData x pid s = (Inl SqlErrNoRows, s)"
    by (simp add: pg_AuthSessionData_def authSessionDataQuery_def queueOne_reads collectOne_def)
next
  assume none: "filter (\<lambda>p. prj_id p = i) (projects s) = []"
  have nil: "concat (map (\<lambda>u. []) us) = []" for us :: "user_row list" by (induction us) auto
  show "pg_AuthSessionData x (Some i) s = (Inl SqlErrNoRows, s)"
    by (simp add: pg_AuthSessionData_def authSessionDataQuery_def queueOne_reads collectOne_def none left_join_def nil)
qed

lemma pg_AuthSessionData_system:
  assumes "users_by_external_id s x = [u]"
  shows "pg_AuthSessionData x None s = (Inr \<lparr>asd_UserExternalID = usr_external_id u, asd_Email = usr_email u,
    asd_ProjectID = None, asd_OrgID = None, asd_OrgName = None, asd_IsControlProject = None, asd_IsOrgMember = None\<rparr>, s)"
  using assms by (simp add: pg_AuthSessionData_def authSessionDataQuery_def queueOne_reads left_join_def collectOne_def)

lemma permissions_read:
  assumes "users_by_external_id s x = [u]" "filter (\<lambda>p. prj_id p = i) (projects s) = [p]"
  shows "\<exists>r. ProjectPermissions x i s = (Inr r, s) \<and> set (pp_PermissionNames r) = {n. holds_project s (usr_id u) i n}"
    "\<exists>r. OrgPermissionsByProjectID x i s = (Inr r, s) \<and> set (pp_PermissionNames r) = {n. holds_org s (usr_id u) (prj_org_id p) n}"
proof -
  have i: "prj_id p = i" using filter_singleD(2)[OF assms(2)] .
  have rows: "[f q v. q \<leftarrow> qs, prj_id q = i, v \<leftarrow> [u]] = map (\<lambda>q. f q u) (filter (\<lambda>q. prj_id q = i) qs)"
    for f :: "project_row \<Rightarrow> user_row \<Rightarrow> PgPermissions" and qs by (induction qs) auto
  show "\<exists>r. ProjectPermissions x i s = (Inr r, s) \<and> set (pp_PermissionNames r) = {n. holds_project s (usr_id u) i n}"
    unfolding ProjectPermissions_def projectPermissionsQuery_def Queue_simp queueOne_reads assms(1) rows assms(2)
    by (simp add: collectOne_def i)
  show "\<exists>r. OrgPermissionsByProjectID x i s = (Inr r, s) \<and> set (pp_PermissionNames r) = {n. holds_org s (usr_id u) (prj_org_id p) n}"
    unfolding OrgPermissionsByProjectID_def orgPermissionsByProjectIDQuery_def Queue_simp queueOne_reads assms(1) rows assms(2)
    by (simp add: collectOne_def)
qed

lemma system_permissions_read:
  assumes "users_by_external_id s x = [u]"
  shows "\<exists>ns. SystemPermissions x s = (Inr ns, s) \<and> set ns = {n. holds_system s (usr_id u) n}"
  using assms by (simp add: SystemPermissions_def systemPermissionNamesQuery_def queueOne_reads collectOne_def)
    (auto simp: names_system_permission_ids)

lemma authSessionFromPg_data:
  "authSessionFromPg (session_data s u p r) ns = Inr \<lparr>as_User = \<lparr>au_UserID = usr_external_id u,
     au_Email = usr_email u, au_Permissions = permissionsFromPg ns\<rparr>, as_Project = Some (session_project s u p r)\<rparr>"
  by (simp add: authSessionFromPg_def authProjectFromPg_def session_data_def session_project_def)



text \<open>C21: the three permission sets of an authorization context are exactly what the caller holds at the
  project, its organization and the system, and they are nested.\<close>

theorem auth_context_scopes:
  assumes inv: "db_inv s" and p: "as_Project sess = Some p" and q: "AuthContext (Some sess) s = (Inr c, t)"
  shows "t = s \<and> (\<exists>u \<in> set (users s). \<exists>pr \<in> set (projects s). usr_external_id u = au_UserID (as_User sess) \<and>
    prj_id pr = ap_ID p \<and>
    set (ac_ProjectPermissions c) = {n. holds_project s (usr_id u) (ap_ID p) n} \<and>
    set (ac_OrganizationPermissions c) = {n. holds_org s (usr_id u) (prj_org_id pr) n} \<and>
    set (ac_SystemPermissions c) = {n. holds_system s (usr_id u) n} \<and>
    set (ac_SystemPermissions c) \<subseteq> set (ac_OrganizationPermissions c) \<and>
    set (ac_OrganizationPermissions c) \<subseteq> set (ac_ProjectPermissions c))"
proof -
  let ?x = "au_UserID (as_User sess)"
  let ?mk = "\<lambda>pp op sp. \<lparr>pps_ProjectPermissionNames = pp_PermissionNames pp,
         pps_OrgPermissionNames = pp_PermissionNames op, pps_SystemPermissionNames = sp\<rparr>"
  from q obtain perms where b: "PermissionsByScope ?x (ap_ID p) s = (Inr perms, t)"
    and c: "c = \<lparr>ac_UserID = ?x, ac_Email = au_Email (as_User sess),
      ac_ProjectPermissions = permissionsFromPg (pps_ProjectPermissionNames perms),
      ac_OrganizationPermissions = permissionsFromPg (pps_OrgPermissionNames perms),
      ac_SystemPermissions = permissionsFromPg (pps_SystemPermissionNames perms)\<rparr>"
    unfolding AuthContext_def option.case p by (elim andThen_InrE) simp
  from b[unfolded PermissionsByScope_def, folded ProjectPermissions_def OrgPermissionsByProjectID_def SystemPermissions_def]
  obtain pp op sp s1 s2 where 1: "ProjectPermissions ?x (ap_ID p) s = (Inr pp, s1)"
    and 2: "OrgPermissionsByProjectID ?x (ap_ID p) s1 = (Inr op, s2)" and 3: "SystemPermissions ?x s2 = (Inr sp, t)"
    and perms: "perms = ?mk pp op sp"
    by (elim andThen_InrE) simp
  have s1: "s1 = s" by (rule ProjectPermissions_Inr(1)[OF 1])
  have s2: "s2 = s" using OrgPermissionsByProjectID_Inr(1)[OF 2] s1 by simp
  from ProjectPermissions_Inr(2)[OF 1] obtain pr u where pr: "pr \<in> set (projects s)" "prj_id pr = ap_ID p"
    and u: "u \<in> set (users_by_external_id s ?x)" by blast
  have us: "users_by_external_id s ?x = [u]" "u \<in> set (users s)" "usr_external_id u = ?x"
    using users_by_external_id_single[OF inv, of u ?x] u by (auto simp: users_by_external_id_def)
  have "distinct (map prj_id (projects s))" using inv by (simp add: db_inv_def projects_ok_def)
  then have ps: "filter (\<lambda>q. prj_id q = ap_ID p) (projects s) = [pr]"
    using filter_eq_single[of prj_id "projects s" pr] pr by simp
  obtain ns where ns: "SystemPermissions ?x s = (Inr ns, s)" "set ns = {n. holds_system s (usr_id u) n}"
    using system_permissions_read[OF us(1)] by blast
  obtain r1 where r1: "ProjectPermissions ?x (ap_ID p) s = (Inr r1, s)" "set (pp_PermissionNames r1) = {n. holds_project s (usr_id u) (ap_ID p) n}"
    using permissions_read(1)[OF us(1) ps] by blast
  obtain r2 where r2: "OrgPermissionsByProjectID ?x (ap_ID p) s = (Inr r2, s)" "set (pp_PermissionNames r2) = {n. holds_org s (usr_id u) (prj_org_id pr) n}"
    using permissions_read(2)[OF us(1) ps] by blast
  have "t = s" "sp = ns" "pp = r1" "op = r2" using 1 2 3 ns r1 r2 s1 s2 by simp_all
  moreover have "{n. holds_system s (usr_id u) n} \<subseteq> {n. holds_org s (usr_id u) (prj_org_id pr) n}"
    by (auto simp: holds_org_def)
  moreover have "{n. holds_org s (usr_id u) (prj_org_id pr) n} \<subseteq> {n. holds_project s (usr_id u) (ap_ID p) n}"
    using pr by (auto simp: holds_project_def)
  ultimately show ?thesis using us(2,3) pr ns(2) r1(2) r2(2) by (intro conjI bexI[of _ u] bexI[of _ pr]) (simp_all add: c perms)
qed

theorem auth_context_scopes_witness:
  "\<exists>c. fst (AuthContext (Some (demo_session 103 4 2)) demo_db) = Inr c \<and>
     set (ac_SystemPermissions c) \<subseteq> set (ac_OrganizationPermissions c)"
proof -
  let ?sess = "demo_session 103 4 2"
  have "case fst (AuthContext (Some ?sess) demo_db) of Inl e \<Rightarrow> False | Inr c \<Rightarrow> True" by code_simp
  then obtain c where c: "fst (AuthContext (Some ?sess) demo_db) = Inr c" by (auto split: sum.splits)
  have p: "as_Project ?sess = Some (the (as_Project ?sess))" by (simp add: demo_session_def)
  have "AuthContext (Some ?sess) demo_db = (Inr c, snd (AuthContext (Some ?sess) demo_db))"
    using c by (simp add: prod_eq_iff)
  from auth_context_scopes[OF demo_db_inv p this] c show ?thesis by blast
qed

end
