(* ===== verification/AuthTokens.thy ===== *)
theory AuthTokens
  imports AuthCore OrgSafety
begin

text \<open>
  The life of a token, over any table that satisfies the laws of \<open>token_ops\<close>: the abstract view of a
  table is the map \<open>live\<close> from the hash of every open token to its user; creating a token adds an entry,
  closing tokens removes entries, and a closed token is never open again. Both token tables of the
  store are instances.
\<close>

section \<open>The contract of a token table\<close>

definition live :: "token_table \<Rightarrow> db \<Rightarrow> string \<Rightarrow> int option" where
  "live T s h = map_option tok_user_id (find (\<lambda>r. tok_hash r = h \<and> token_open (clock s) r) (tt_rows T s))"

definition spent :: "token_table \<Rightarrow> db \<Rightarrow> string \<Rightarrow> bool" where
  "spent T s h \<longleftrightarrow> (\<exists>r \<in> set (tt_rows T s). tok_hash r = h \<and> tok_closed_at r \<noteq> None)"

definition unique_tokens :: "token_table \<Rightarrow> db \<Rightarrow> bool" where
  "unique_tokens T s \<longleftrightarrow> distinct (map tok_id (tt_rows T s)) \<and> distinct (map tok_hash (tt_rows T s))"

lemma close_tokens_eq:
  "close_tokens T hit s = (Inr (map (close_token (clock s)) (filter (hit s) (tt_rows T s))),
     tt_update T (map (\<lambda>r. if hit s r then close_token (clock s) r else r)) s)"
  by (simp add: close_tokens_def prog_defs)

lemma close_token_simps [simp]:
  "tok_id (close_token now r) = tok_id r" "tok_hash (close_token now r) = tok_hash r"
  "tok_user_id (close_token now r) = tok_user_id r" "tok_closed_at (close_token now r) = Some now"
  "tok_expires_at (close_token now r) = tok_expires_at r" "tok_created_at (close_token now r) = tok_created_at r"
  "\<not> token_open t (close_token now r)" "token_of u (close_token now r) = token_of u r"
  by (simp_all add: close_token_def token_open_def token_of_def)

locale token_ops =
  fixes T :: token_table
  assumes rows_update: "tt_rows T (tt_update T f s) = f (tt_rows T s)"
    and frame_update: "users (tt_update T f s) = users s" "clock (tt_update T f s) = clock s"
    and next_gen: "\<exists>i g. tt_next T s = (Inr i, s\<lparr>gen := g\<rparr>)"
    and rows_gen: "tt_rows T (s\<lparr>gen := g\<rparr>) = tt_rows T s"
begin

lemma live_Some:
  assumes "unique_tokens T s"
  shows "live T s h = Some u \<longleftrightarrow>
    (\<exists>r \<in> set (tt_rows T s). tok_hash r = h \<and> token_open (clock s) r \<and> tok_user_id r = u)"
proof
  assume "live T s h = Some u"
  then show "\<exists>r \<in> set (tt_rows T s). tok_hash r = h \<and> token_open (clock s) r \<and> tok_user_id r = u"
    by (auto simp: live_def find_Some_iff)
next
  assume "\<exists>r \<in> set (tt_rows T s). tok_hash r = h \<and> token_open (clock s) r \<and> tok_user_id r = u"
  then obtain r where r: "r \<in> set (tt_rows T s)" "tok_hash r = h" "token_open (clock s) r" "tok_user_id r = u" by blast
  then obtain q where q: "find (\<lambda>r. tok_hash r = h \<and> token_open (clock s) r) (tt_rows T s) = Some q"
    using find_None_iff[of "\<lambda>r. tok_hash r = h \<and> token_open (clock s) r" "tt_rows T s"] by (metis not_Some_eq)
  then have "q \<in> set (tt_rows T s)" "tok_hash q = h" by (auto simp: find_Some_iff)
  then have "q = r" using assms r by (auto simp: unique_tokens_def intro: distinct_key_unique)
  with q r(4) show "live T s h = Some u" by (simp add: live_def)
qed

lemma live_None:
  "live T s h = None \<longleftrightarrow> (\<forall>r \<in> set (tt_rows T s). tok_hash r = h \<longrightarrow> \<not> token_open (clock s) r)"
  by (auto simp: live_def find_None_iff)

text \<open>Closing.\<close>

abbreviation closed_state :: "(db \<Rightarrow> token_row \<Rightarrow> bool) \<Rightarrow> db \<Rightarrow> db" where
  "closed_state hit s \<equiv> tt_update T (map (\<lambda>r. if hit s r then close_token (clock s) r else r)) s"

lemma unique_close: "unique_tokens T s \<Longrightarrow> unique_tokens T (closed_state hit s)"
proof -
  have "map tok_id (map (\<lambda>r. if hit s r then close_token (clock s) r else r) rs) = map tok_id rs"
    "map tok_hash (map (\<lambda>r. if hit s r then close_token (clock s) r else r) rs) = map tok_hash rs" for rs
    by simp_all
  then show "unique_tokens T s \<Longrightarrow> unique_tokens T (closed_state hit s)"
    unfolding unique_tokens_def rows_update by presburger
qed

lemma live_close:
  assumes "unique_tokens T s"
  shows "live T (closed_state hit s) h =
    (if \<exists>r \<in> set (tt_rows T s). tok_hash r = h \<and> hit s r then None else live T s h)"
proof -
  have u: "q = r" if "q \<in> set (tt_rows T s)" "r \<in> set (tt_rows T s)" "tok_hash q = tok_hash r" for q r
    using assms that by (auto simp: unique_tokens_def intro: distinct_key_unique)
  show ?thesis
  proof (cases "\<exists>r \<in> set (tt_rows T s). tok_hash r = h \<and> hit s r")
    case True
    then have "live T (closed_state hit s) h = None"
      unfolding live_None rows_update frame_update using u by auto
    with True show ?thesis by simp
  next
    case False
    have find_map: "find P (map f rs) = find P rs" if "\<forall>r \<in> set rs. P (f r) = P r \<and> (P r \<longrightarrow> f r = r)" for P f and rs :: "token_row list"
      using that by (induction rs) auto
    have "live T (closed_state hit s) h = live T s h"
      unfolding live_def rows_update frame_update
      by (rule arg_cong[where f = "map_option _"], rule find_map) (use False in auto)
    then show ?thesis by (simp only: False if_False)
  qed
qed

lemma spent_closed_state:
  "spent T (closed_state hit s) h \<longleftrightarrow>
    (\<exists>r \<in> set (tt_rows T s). tok_hash r = h \<and> (hit s r \<or> tok_closed_at r \<noteq> None))"
  unfolding spent_def rows_update set_map bex_simps by auto

lemma spent_close: "spent T s h \<Longrightarrow> spent T (closed_state hit s) h"
  by (simp only: spent_closed_state) (auto simp: spent_def)

lemma spent_closed: "r \<in> set (tt_rows T s) \<Longrightarrow> hit s r \<Longrightarrow> spent T (closed_state hit s) (tok_hash r)"
  by (auto simp: spent_closed_state)

text \<open>Creating.\<close>

lemma create_token_Inr:
  assumes q: "create_token T ct s = (Inr [v], t)" and d: "distinct (map usr_id (users s))"
  shows "\<exists>u r g. u \<in> set (users s) \<and> usr_id u = pct_UserID ct \<and> tok_user_id r = pct_UserID ct \<and>
    tok_hash r = pct_TokenHash ct \<and> tok_expires_at r = pct_ExpiresAt ct \<and> tok_closed_at r = None \<and>
    tok_created_at r = clock s \<and> \<not> token_conflict r (tt_rows T s) \<and> v = token_of u r \<and>
    t = tt_update T (\<lambda>rs. rs @ [r]) (s\<lparr>gen := g\<rparr>)"
proof -
  let ?us = "filter (\<lambda>u. usr_id u = pct_UserID ct) (users s)"
  have q: "insert_tokens T ct ?us s = (Inr [v], t)" using q by (simp add: create_token_def andThen_def reads_def)
  then have "?us \<noteq> []" by auto
  then obtain u where u: "u \<in> set (users s)" "usr_id u = pct_UserID ct" by (auto simp: filter_empty_conv)
  then have us: "?us = [u]" using filter_eq_single[OF d u(1)] by simp
  obtain i g where nx: "tt_next T s = (Inr i, s\<lparr>gen := g\<rparr>)" using next_gen by blast
  let ?r = "\<lparr>tok_id = i, tok_user_id = usr_id u, tok_hash = pct_TokenHash ct,
             tok_expires_at = pct_ExpiresAt ct, tok_closed_at = None, tok_created_at = clock s\<rparr>"
  from q nx have "\<not> token_conflict ?r (tt_rows T s)" "v = token_of u ?r" "t = tt_update T (\<lambda>rs. rs @ [?r]) (s\<lparr>gen := g\<rparr>)"
    unfolding us
    by (auto simp: andThen_def reads_def ret_def insert_token_def rows_gen updates_def violations throw_def
        Let_def split: if_splits)
  with u show ?thesis by (intro exI[of _ u] exI[of _ ?r] exI[of _ g]) simp
qed

abbreviation created_state :: "token_row \<Rightarrow> generators \<Rightarrow> db \<Rightarrow> db" where
  "created_state r g s \<equiv> tt_update T (\<lambda>rs. rs @ [r]) (s\<lparr>gen := g\<rparr>)"

lemma unique_create: "unique_tokens T s \<Longrightarrow> \<not> token_conflict r (tt_rows T s) \<Longrightarrow> unique_tokens T (created_state r g s)"
  by (auto simp: unique_tokens_def rows_update rows_gen token_conflict_def)

lemma live_create:
  assumes "\<not> token_conflict r (tt_rows T s)"
  shows "live T (created_state r g s) h =
    (if h = tok_hash r then (if token_open (clock s) r then Some (tok_user_id r) else None) else live T s h)"
proof -
  have new: "find (\<lambda>q. tok_hash q = tok_hash r \<and> token_open (clock s) q) (tt_rows T s) = None"
    using assms by (auto simp: find_None_iff token_conflict_def)
  have app: "find P (rs @ [r]) = (case find P rs of None \<Rightarrow> (if P r then Some r else None) | Some q \<Rightarrow> Some q)"
    for P and rs :: "token_row list" by (induction rs) auto
  show ?thesis unfolding live_def rows_update rows_gen frame_update app
    using new by (auto split: option.splits)
qed

lemma spent_create: "spent T s h \<Longrightarrow> spent T (created_state r g s) h"
  by (auto simp: spent_def rows_update rows_gen)

lemma spent_not_live:
  assumes "unique_tokens T s" "spent T s h" shows "live T s h = None"
proof -
  have "q = r" if "q \<in> set (tt_rows T s)" "r \<in> set (tt_rows T s)" "tok_hash q = tok_hash r" for q r
    using assms(1) that by (auto simp: unique_tokens_def intro: distinct_key_unique)
  then show ?thesis using assms(2) unfolding live_None spent_def token_open_def by (metis option.distinct(1))
qed

lemma spent_no_conflict: "spent T s h \<Longrightarrow> \<not> token_conflict r (tt_rows T s) \<Longrightarrow> tok_hash r \<noteq> h"
  by (auto simp: spent_def token_conflict_def)

end

interpretation ml: token_ops magic_links
  by unfold_locales (auto simp: magic_links_def nextval_def)

interpretation rf: token_ops refreshes
  by unfold_locales (auto simp: refreshes_def nextval_def)

end
