(* ===== verification/AuthCalls.thy ===== *)
theory AuthCalls
  imports AuthTokens
begin

text \<open>
  What each call of the authentication service does when it succeeds, with the token tables seen as the
  states \<open>closed_state\<close> and \<open>created_state\<close> of theory AuthTokens.
\<close>

section \<open>Store operations\<close>

lemma db_inv_unique_tokens:
  assumes "db_inv s" shows "unique_tokens magic_links s" "unique_tokens refreshes s" "distinct (map usr_id (users s))"
  using assms by (simp_all add: db_inv_def tokens_ok_def unique_tokens_def magic_links_def refreshes_def users_ok_def)

lemma token_users_single:
  assumes "db_inv s" "r \<in> set (magic_link_tokens s) \<union> set (refresh_tokens s)"
  shows "\<exists>u \<in> set (users s). usr_id u = tok_user_id r \<and> token_users s r = [u]"
proof -
  have "tok_user_id r \<in> user_ids s" using assms by (auto simp: db_inv_def tokens_ok_def)
  then obtain u where u: "u \<in> set (users s)" "usr_id u = tok_user_id r" by auto
  have "token_users s r = [u]"
    using filter_eq_single[OF db_inv_unique_tokens(3)[OF assms(1)] u(1)] by (simp add: token_users_def u(2))
  with u show ?thesis by blast
qed

abbreviation consumed :: "string \<Rightarrow> db \<Rightarrow> token_row \<Rightarrow> bool" where
  "consumed h s r \<equiv> tok_hash r = h \<and> token_open (clock s) r \<and> token_users s r \<noteq> []"

lemma ConsumeRefreshToken_Inr:
  assumes inv: "db_inv s" and q: "ConsumeRefreshToken h s = (Inr v, t)"
  shows "\<exists>r u. r \<in> set (refresh_tokens s) \<and> tok_hash r = h \<and> token_open (clock s) r \<and>
    u \<in> set (users s) \<and> usr_id u = tok_user_id r \<and> v = token_of u r \<and> t = rf.closed_state (consumed h) s"
proof -
  let ?rows = "filter (consumed h s) (refresh_tokens s)"
  have R: "tt_rows refreshes = refresh_tokens" by (simp add: refreshes_def)
  let ?t = "rf.closed_state (consumed h) s"
  have tu: "token_users ?t (close_token now r) = token_users s r" for now r
    by (simp add: token_users_def rf.frame_update)
  from q have t: "t = ?t" and v: "[token_of u r. r \<leftarrow> map (close_token (clock s)) ?rows, u \<leftarrow> token_users ?t r] = [v]"
    by (simp_all add: ConsumeRefreshToken_def consumeRefreshTokenQuery_def queueOne_Inr_iff andThen_Inr_iff
        close_tokens_eq R)
  have "concat (map (\<lambda>r. map (\<lambda>u. token_of u r) (token_users s r)) ?rows) = [v]"
    using v by (simp add: comp_def tu)
  then have "v \<in> set (concat (map (\<lambda>r. map (\<lambda>u. token_of u r) (token_users s r)) ?rows))" by simp
  then obtain r u where r: "r \<in> set ?rows" and u: "u \<in> set (token_users s r)" "v = token_of u r" by auto
  then have "u \<in> set (users s)" "usr_id u = tok_user_id r" by (auto simp: token_users_def)
  with r u t show ?thesis by auto
qed

lemma ConsumeRefreshToken_none:
  assumes "\<And>r. r \<in> set (refresh_tokens s) \<Longrightarrow> tok_hash r = h \<Longrightarrow> \<not> token_open (clock s) r"
  shows "\<exists>t. ConsumeRefreshToken h s = (Inl SqlErrNoRows, t)"
proof -
  have R: "tt_rows refreshes = refresh_tokens" by (simp add: refreshes_def)
  have "filter (consumed h s) (refresh_tokens s) = []" using assms by (auto simp: filter_empty_conv)
  then show ?thesis
    by (simp add: ConsumeRefreshToken_def consumeRefreshTokenQuery_def queueOne_def prog_defs close_tokens_def
        atomic_def collectOne_def R)
qed

lemma CreateRefreshToken_Inr:
  assumes "db_inv s" "CreateRefreshToken ct s = (Inr v, t)"
  shows "\<exists>u r g. u \<in> set (users s) \<and> usr_id u = pct_UserID ct \<and> tok_user_id r = pct_UserID ct \<and>
    tok_hash r = pct_TokenHash ct \<and> tok_expires_at r = pct_ExpiresAt ct \<and> tok_closed_at r = None \<and>
    \<not> token_conflict r (refresh_tokens s) \<and> t = rf.created_state r g s"
proof -
  have "create_token refreshes ct s = (Inr [v], t)"
    using assms(2) by (simp add: CreateRefreshToken_def createRefreshTokenQuery_def queueOne_Inr_iff)
  from rf.create_token_Inr[OF this db_inv_unique_tokens(3)[OF assms(1)]]
  show ?thesis unfolding refreshes_def token_table.simps by metis
qed

lemma CreateMagicLinkToken_Inr:
  assumes "db_inv s" "CreateMagicLinkToken ct s = (Inr v, t)"
  shows "\<exists>u r g. u \<in> set (users s) \<and> usr_id u = pct_UserID ct \<and> tok_user_id r = pct_UserID ct \<and>
    tok_hash r = pct_TokenHash ct \<and> tok_expires_at r = pct_ExpiresAt ct \<and> tok_closed_at r = None \<and>
    tok_created_at r = clock s \<and>
    \<not> token_conflict r (magic_link_tokens s) \<and> t = ml.created_state r g s"
proof -
  have "create_token magic_links ct s = (Inr [v], t)"
    using assms(2) by (simp add: CreateMagicLinkToken_def createMagicLinkTokenQuery_def queueOne_Inr_iff)
  from ml.create_token_Inr[OF this db_inv_unique_tokens(3)[OF assms(1)]]
  show ?thesis unfolding magic_links_def token_table.simps by metis
qed

lemma InvalidateUserMagicLinkTokens_eq:
  "InvalidateUserMagicLinkTokens i s =
    (Inr (), ml.closed_state (\<lambda>s r. tok_user_id r = i \<and> token_open (clock s) r) s)"
  by (simp add: InvalidateUserMagicLinkTokens_def invalidateUserMagicLinkTokensQuery_def andThen_def atomic_def
      close_tokens_eq liftS_def collectRows_map ret_def)

lemma RevokeAll_eq:
  "RevokeAllUserRefreshTokens x s = (Inr (), rf.closed_state (\<lambda>s r.
     (\<exists>u \<in> set (users_by_external_id s x). tok_user_id r = usr_id u) \<and> tok_closed_at r = None) s)"
  by (simp add: RevokeAllUserRefreshTokens_def pg_RevokeAllUserRefreshTokens_def revokeAllUserRefreshTokensQuery_def
      andThen_def atomic_def close_tokens_eq liftS_def collectRows_map ret_def)

lemma ConsumeMagicLinkToken_Inr:
  assumes "ConsumeMagicLinkToken i s = (Inr (), t)"
  shows "t = ml.closed_state (\<lambda>s r. tok_id r = i \<and> token_open (clock s) r) s"
  using assms by (auto simp: ConsumeMagicLinkToken_def consumeMagicLinkTokenQuery_def andThen_Inr_iff
      queueOne_Inr_iff close_tokens_eq)

lemma MagicLinkTokenByHash_Inr:
  assumes "MagicLinkTokenByHash h s = (Inr v, t)"
  shows "t = s \<and> (\<exists>r u. r \<in> set (magic_link_tokens s) \<and> tok_hash r = h \<and> token_open (clock s) r \<and>
    u \<in> set (users s) \<and> usr_id u = tok_user_id r \<and> v = token_of u r)"
proof -
  let ?rows = "[token_of u r. r \<leftarrow> filter (\<lambda>r. tok_hash r = h \<and> token_open (clock s) r) (magic_link_tokens s),
       u \<leftarrow> token_users s r]"
  have "(collectOne Inr ?rows, s) = MagicLinkTokenByHash h s"
    by (simp add: MagicLinkTokenByHash_def magicLinkTokenByHashQuery_def queueOne_reads)
  from trans[OF this assms] have "t = s" "collectOne Inr ?rows = Inr v" by blast+
  then have "?rows = [v]" unfolding collectOne_Inr_iff by simp
  then have "v \<in> set ?rows" by simp
  with \<open>t = s\<close> show ?thesis by (auto simp: token_users_def)
qed

lemma MagicLinkTokenByHash_none:
  assumes "\<And>r. r \<in> set (magic_link_tokens s) \<Longrightarrow> tok_hash r = h \<Longrightarrow> \<not> token_open (clock s) r"
  shows "MagicLinkTokenByHash h s = (Inl SqlErrNoRows, s)"
proof -
  have "filter (\<lambda>r. tok_hash r = h \<and> token_open (clock s) r) (magic_link_tokens s) = []"
    using assms by (auto simp: filter_empty_conv)
  then show ?thesis
    by (simp add: MagicLinkTokenByHash_def magicLinkTokenByHashQuery_def queueOne_reads collectOne_def)
qed

section \<open>Service operations\<close>

lemma issueTokenPair_Inr:
  assumes inv: "db_inv s" and q: "issueTokenPair cfg env i x s = (Inr pair, t)"
  shows "\<exists>b u r g. e_random env = Some b \<and> tp_RefreshToken pair = rawURLEncode b \<and>
    tp_ExpiresIn pair = cfg_AccessTokenTTL cfg \<and> u \<in> set (users s) \<and> usr_id u = i \<and> tok_user_id r = i \<and>
    tok_hash r = hashToken (tp_RefreshToken pair) \<and> tok_expires_at r = e_now env + cfg_RefreshTokenTTL cfg \<and>
    tok_closed_at r = None \<and> \<not> token_conflict r (refresh_tokens s) \<and> t = rf.created_state r g s"
proof -
  let ?ct = "\<lambda>h. createRefreshTokenToPg i h (e_now env + cfg_RefreshTokenTTL cfg)"
  from q obtain raw h v where g: "generateToken (e_random env) = Inr (raw, h)"
    and c: "CreateRefreshToken (?ct h) s = (Inr v, t)"
    and p: "tp_RefreshToken pair = raw" "tp_ExpiresIn pair = cfg_AccessTokenTTL cfg"
    by (auto simp: issueTokenPair_def Let_def andThen_Inr_iff split: option.splits)
  from g obtain b where b: "e_random env = Some b" "raw = rawURLEncode b" "h = hashToken raw"
    by (auto simp: generateToken_def Let_def split: option.splits)
  from CreateRefreshToken_Inr[OF inv c] obtain u r g where
    "u \<in> set (users s)" "usr_id u = i" "tok_user_id r = i" "tok_hash r = h"
    "tok_expires_at r = e_now env + cfg_RefreshTokenTTL cfg" "tok_closed_at r = None"
    "\<not> token_conflict r (refresh_tokens s)" "t = rf.created_state r g s"
    by (auto simp: createRefreshTokenToPg_def)
  with b p show ?thesis by (intro exI[of _ b] exI[of _ u] exI[of _ r] exI[of _ g]) simp
qed

lemma MarkEmailVerified_Inr:
  assumes "pguser_MarkEmailVerified x s = (Inr (), t)"
  shows "\<exists>f. t = s\<lparr>users := map f (users s)\<rparr> \<and> (\<forall>u. usr_id (f u) = usr_id u \<and>
    usr_external_id (f u) = usr_external_id u \<and> usr_email (f u) = usr_email u \<and> usr_etag (f u) = usr_etag u \<and>
    usr_name (f u) = usr_name u \<and>
    (usr_external_id u = x \<longrightarrow> usr_email_verified_at (f u) \<noteq> None) \<and> (usr_external_id u \<noteq> x \<longrightarrow> f u = u))"
proof -
  let ?upd = "\<lambda>u. u\<lparr>usr_email_verified_at := (case usr_email_verified_at u of None \<Rightarrow> Some (clock s) | Some t \<Rightarrow> Some t)\<rparr>"
  let ?f = "\<lambda>u. if usr_external_id u = x then ?upd u else u"
  have "t = s\<lparr>users := map ?f (users s)\<rparr>"
    using assms by (auto simp: pguser_MarkEmailVerified_def markEmailVerifiedQuery_def Let_def andThen_Inr_iff queueOne_Inr_iff)
  then show ?thesis by (intro exI[of _ ?f]) (auto split: option.splits)
qed

lemma MarkEmailVerified_keeps_inv:
  assumes "db_inv s" "pguser_MarkEmailVerified x s = (Inr (), t)" shows "db_inv t"
proof -
  from MarkEmailVerified_Inr[OF assms(2)] obtain f where t: "t = s\<lparr>users := map f (users s)\<rparr>"
    and f: "\<And>u. usr_id (f u) = usr_id u" "\<And>u. usr_external_id (f u) = usr_external_id u"
      "\<And>u. usr_email (f u) = usr_email u" "\<And>u. usr_etag (f u) = usr_etag u" by blast
  have "users_ok (map f us) = users_ok us" for us by (simp add: users_ok_def comp_def f)
  moreover have "usr_id ` f ` us = usr_id ` us" for us by (simp add: image_image f)
  ultimately show ?thesis using assms(1) by (simp add: t db_inv_def)
qed

lemma tokens_ok_close: "tokens_ok us rs \<Longrightarrow> tokens_ok us (map (\<lambda>r. if P r then close_token now r else r) rs)"
proof -
  have "map tok_id (map (\<lambda>r. if P r then close_token now r else r) rs) = map tok_id rs"
    "map tok_hash (map (\<lambda>r. if P r then close_token now r else r) rs) = map tok_hash rs" by simp_all
  then show "tokens_ok us rs \<Longrightarrow> ?thesis" unfolding tokens_ok_def by (simp only:) auto
qed

lemma tokens_ok_insert:
  "tokens_ok us rs \<Longrightarrow> \<not> token_conflict r rs \<Longrightarrow> tok_user_id r \<in> us \<Longrightarrow> tokens_ok us (rs @ [r])"
  by (auto simp: tokens_ok_def token_conflict_def)

lemma token_states_keep_inv:
  assumes "db_inv s"
  shows "db_inv (ml.closed_state hit s)" "db_inv (rf.closed_state hit s)"
    "\<not> token_conflict r (magic_link_tokens s) \<Longrightarrow> tok_user_id r \<in> user_ids s \<Longrightarrow> db_inv (ml.created_state r g s)"
    "\<not> token_conflict r (refresh_tokens s) \<Longrightarrow> tok_user_id r \<in> user_ids s \<Longrightarrow> db_inv (rf.created_state r g s)"
  using assms by (simp_all add: db_inv_def magic_links_def refreshes_def tokens_ok_close tokens_ok_insert)

lemma other_table [simp]:
  "tt_rows refreshes (tt_update magic_links f s) = tt_rows refreshes s"
  "tt_rows magic_links (tt_update refreshes f s) = tt_rows magic_links s"
  "tt_rows refreshes (s\<lparr>users := us\<rparr>) = tt_rows refreshes s" "tt_rows magic_links (s\<lparr>users := us\<rparr>) = tt_rows magic_links s"
  "tt_rows refreshes (s\<lparr>locks := l\<rparr>) = tt_rows refreshes s" "tt_rows magic_links (s\<lparr>locks := l\<rparr>) = tt_rows magic_links s"
  "tt_rows refreshes (s\<lparr>gen := g\<rparr>) = tt_rows refreshes s" "tt_rows magic_links (s\<lparr>gen := g\<rparr>) = tt_rows magic_links s"
  by (simp_all add: magic_links_def refreshes_def)

lemma live_frame [simp]:
  "live refreshes (tt_update magic_links f s) = live refreshes s" "live magic_links (tt_update refreshes f s) = live magic_links s"
  "live refreshes (s\<lparr>users := us\<rparr>) = live refreshes s" "live magic_links (s\<lparr>users := us\<rparr>) = live magic_links s"
  "live refreshes (s\<lparr>locks := l\<rparr>) = live refreshes s" "live magic_links (s\<lparr>locks := l\<rparr>) = live magic_links s"
  "live refreshes (s\<lparr>gen := g\<rparr>) = live refreshes s" "live magic_links (s\<lparr>gen := g\<rparr>) = live magic_links s"
  by (simp_all add: live_def fun_eq_iff ml.frame_update rf.frame_update)

lemma spent_frame [simp]:
  "spent refreshes (tt_update magic_links f s) = spent refreshes s" "spent magic_links (tt_update refreshes f s) = spent magic_links s"
  "spent refreshes (s\<lparr>users := us\<rparr>) = spent refreshes s" "spent magic_links (s\<lparr>users := us\<rparr>) = spent magic_links s"
  "spent refreshes (s\<lparr>locks := l\<rparr>) = spent refreshes s" "spent magic_links (s\<lparr>locks := l\<rparr>) = spent magic_links s"
  "spent refreshes (s\<lparr>gen := g\<rparr>) = spent refreshes s" "spent magic_links (s\<lparr>gen := g\<rparr>) = spent magic_links s"
  "spent refreshes (s\<lparr>clock := c\<rparr>) = spent refreshes s" "spent magic_links (s\<lparr>clock := c\<rparr>) = spent magic_links s"
  by (simp_all add: spent_def fun_eq_iff magic_links_def refreshes_def)

lemma RefreshAccessToken_InrE:
  assumes inv: "db_inv s" and q: "RefreshAccessToken cfg env tok s = (Inr pair, t)"
  obtains r u b n g where "r \<in> set (refresh_tokens s)" "tok_hash r = hashToken tok" "token_open (clock s) r"
    "u \<in> set (users s)" "usr_id u = tok_user_id r" "tok \<noteq> []"
    "e_random env = Some b" "tp_RefreshToken pair = rawURLEncode b" "tok_user_id n = tok_user_id r"
    "tok_hash n = hashToken (tp_RefreshToken pair)" "tok_expires_at n = e_now env + cfg_RefreshTokenTTL cfg"
    "tok_closed_at n = None"
    "\<not> token_conflict n (refresh_tokens (rf.closed_state (consumed (hashToken tok)) s))"
    "t = (rf.created_state n g (rf.closed_state (consumed (hashToken tok)) s))\<lparr>locks := []\<rparr>"
proof -
  from q obtain v s1 s2 where ne: "tok \<noteq> []" and c: "ConsumeRefreshToken (hashToken tok) s = (Inr v, s1)"
    and i: "issueTokenPair cfg env (ptk_UserID v) (ptk_UserExternalID v) s1 = (Inr pair, s2)" and t: "t = s2\<lparr>locks := []\<rparr>"
    by (auto simp: RefreshAccessToken_def andThen_Inr_iff RefreshToken_Validate_def split: if_splits)
  from ConsumeRefreshToken_Inr[OF inv c] obtain r u where r: "r \<in> set (refresh_tokens s)" "tok_hash r = hashToken tok"
    "token_open (clock s) r" "u \<in> set (users s)" "usr_id u = tok_user_id r" "v = token_of u r"
    and s1: "s1 = rf.closed_state (consumed (hashToken tok)) s" by blast
  have inv1: "db_inv s1" unfolding s1 by (rule token_states_keep_inv(2)[OF inv])
  have "ptk_UserID v = tok_user_id r" by (simp add: r(6) token_of_def)
  with issueTokenPair_Inr[OF inv1 i] obtain b n g where "e_random env = Some b" "tp_RefreshToken pair = rawURLEncode b"
    "tok_user_id n = tok_user_id r" "tok_hash n = hashToken (tp_RefreshToken pair)"
    "tok_expires_at n = e_now env + cfg_RefreshTokenTTL cfg" "tok_closed_at n = None"
    "\<not> token_conflict n (refresh_tokens s1)" "s2 = rf.created_state n g s1" by auto
  with r ne show ?thesis by (intro that[of r u b n g]) (simp_all add: t s1)
qed

lemma VerifyMagicLink_InrE:
  assumes inv: "db_inv s" and q: "VerifyMagicLink cfg env tok s = (Inr pair, t)"
  obtains r u b n g f where "r \<in> set (magic_link_tokens s)" "tok_hash r = hashToken tok" "token_open (clock s) r"
    "u \<in> set (users s)" "usr_id u = tok_user_id r" "tok \<noteq> []"
    "e_random env = Some b" "tp_RefreshToken pair = rawURLEncode b" "tok_user_id n = tok_user_id r"
    "tok_hash n = hashToken (tp_RefreshToken pair)" "tok_expires_at n = e_now env + cfg_RefreshTokenTTL cfg"
    "tok_closed_at n = None" "\<not> token_conflict n (refresh_tokens s)"
    "\<And>v. usr_id (f v) = usr_id v" "\<And>v. usr_external_id (f v) = usr_external_id v"
    "\<And>v. usr_external_id v \<noteq> usr_external_id u \<Longrightarrow> f v = v" "usr_email_verified_at (f u) \<noteq> None"
    "db_inv t"
    "t = (rf.created_state n g ((ml.closed_state (\<lambda>s q. tok_id q = tok_id r \<and> token_open (clock s) q) s)
       \<lparr>users := map f (users s)\<rparr>))\<lparr>locks := []\<rparr>"
proof -
  let ?hit = "\<lambda>i s q. tok_id q = i \<and> token_open (clock s) q"
  from q obtain v s0 s1 s2 s3 where ne: "tok \<noteq> []" and l: "MagicLinkTokenByHash (hashToken tok) s = (Inr v, s0)"
    and c: "ConsumeMagicLinkToken (ptk_ID v) s0 = (Inr (), s1)"
    and m: "pguser_MarkEmailVerified (ptk_UserExternalID v) s1 = (Inr (), s2)"
    and i: "issueTokenPair cfg env (ptk_UserID v) (ptk_UserExternalID v) s2 = (Inr pair, s3)" and t: "t = s3\<lparr>locks := []\<rparr>"
    by (auto simp: VerifyMagicLink_def andThen_Inr_iff VerifyMagicLink_Validate_def split: if_splits)
  from MagicLinkTokenByHash_Inr[OF l] obtain r u where s0: "s0 = s" and r: "r \<in> set (magic_link_tokens s)"
    "tok_hash r = hashToken tok" "token_open (clock s) r" "u \<in> set (users s)" "usr_id u = tok_user_id r"
    and v: "v = token_of u r" by blast
  have s1: "s1 = ml.closed_state (?hit (tok_id r)) s"
    using ConsumeMagicLinkToken_Inr[OF c[unfolded s0]] by (simp add: v token_of_def)
  have inv1: "db_inv s1" unfolding s1 by (rule token_states_keep_inv(1)[OF inv])
  from MarkEmailVerified_Inr[OF m] obtain f where s2: "s2 = s1\<lparr>users := map f (users s1)\<rparr>"
    and f: "\<And>w. usr_id (f w) = usr_id w" "\<And>w. usr_external_id (f w) = usr_external_id w"
      "\<And>w. usr_external_id w \<noteq> usr_external_id u \<Longrightarrow> f w = w" "usr_email_verified_at (f u) \<noteq> None"
    by (auto simp: v token_of_def)
  have inv2: "db_inv s2" by (rule MarkEmailVerified_keeps_inv[OF inv1 m])
  have rows: "refresh_tokens s2 = refresh_tokens s" by (simp add: s2 s1 magic_links_def)
  have "ptk_UserID v = tok_user_id r" by (simp add: v token_of_def)
  with issueTokenPair_Inr[OF inv2 i] obtain b w n g where n: "e_random env = Some b" "tp_RefreshToken pair = rawURLEncode b"
    "w \<in> set (users s2)" "usr_id w = tok_user_id r"
    "tok_user_id n = tok_user_id r" "tok_hash n = hashToken (tp_RefreshToken pair)"
    "tok_expires_at n = e_now env + cfg_RefreshTokenTTL cfg" "tok_closed_at n = None"
    "\<not> token_conflict n (refresh_tokens s2)" "s3 = rf.created_state n g s2" by auto
  have "tok_user_id n \<in> user_ids s2" using n(3,4,5) by (metis imageI)
  then have "db_inv s3" unfolding n(10) using n(9) by (intro token_states_keep_inv(4)[OF inv2])
  then have "db_inv t" by (simp add: t)
  with n r ne f rows show ?thesis
    by (intro that[of r u b n f g]) (simp_all add: t s1 s2 ml.frame_update)
qed

end
