(* ===== verification/AuthDemo.thy ===== *)
theory AuthDemo
  imports AuthCore Fixtures
begin

text \<open>
  A concrete configuration, environment and database for the witnesses of the authentication
  properties: user 3 holds the magic link \<open>ml\<close> and the refresh token \<open>rt\<close>. Their digests, and the
  digest of the token the environment's random bytes give, are computed by the model's SHA-256.
\<close>

definition demo_cfg :: Config where
  "demo_cfg = \<lparr>cfg_JWTKey = [1, 2, 3], cfg_JWTIssuer = ''theapp'', cfg_JWTAudience = ''theapp-api'',
     cfg_MagicLinkFromEmail = ''noreply@x'', cfg_MagicLinkBaseURL = ''http://x/verify'',
     cfg_MagicLinkTTL = 600, cfg_MagicLinkRateLimit = 30, cfg_AccessTokenTTL = 300,
     cfg_RefreshTokenTTL = 9000\<rparr>"

definition demo_random :: bytes where
  "demo_random = replicate 32 7"

definition demo_env :: env where
  "demo_env = \<lparr>e_since = 101, e_now = 101, e_random = Some demo_random, e_NewNumericDate = (\<lambda>t. t),
     e_SignedString = (\<lambda>c k. Some ''jwt'')\<rparr>"

lemma demo_raw: "rawURLEncode demo_random = ''BwcHBwcHBwcHBwcHBwcHBwcHBwcHBwcHBwcHBwcHBwc''"
  by code_simp

lemma demo_hash_rt: "hashToken ''rt'' = ''cdffd5dd8ca8126c0482ba994814b9014cc9e973435d399f1cf1f69479e6b907''"
  by code_simp

lemma demo_hash_ml: "hashToken ''ml'' = ''5d58d41913d9fea4e42cecd7a5d1b692aa6d0d792977ad7c6d6bb1507e8f3dbd''"
  by code_simp

lemma demo_hash_new: "hashToken ''BwcHBwcHBwcHBwcHBwcHBwcHBwcHBwcHBwcHBwcHBwc'' = ''dc4bf80c77473d130fa0de86ba4018fe98bb214005e6a5891d12ba91446f9e81''"
  by code_simp

lemmas demo_hashes = demo_hash_rt demo_hash_ml demo_hash_new

definition demo_auth_db :: db where
  "demo_auth_db = demo_db\<lparr>
     magic_link_tokens := [\<lparr>tok_id = 1, tok_user_id = 3,
       tok_hash = ''5d58d41913d9fea4e42cecd7a5d1b692aa6d0d792977ad7c6d6bb1507e8f3dbd'',
       tok_expires_at = 900, tok_closed_at = None, tok_created_at = 50\<rparr>],
     refresh_tokens := [\<lparr>tok_id = 1, tok_user_id = 3,
       tok_hash = ''cdffd5dd8ca8126c0482ba994814b9014cc9e973435d399f1cf1f69479e6b907'',
       tok_expires_at = 900, tok_closed_at = None, tok_created_at = 50\<rparr>]\<rparr>"

lemma demo_auth_inv: "db_inv demo_auth_db"
  using demo_db_inv by (simp add: db_inv_def demo_auth_db_def tokens_ok_def) (simp add: demo_defs)

lemma demo_refresh_runs:
  "fst (RefreshAccessToken demo_cfg demo_env ''rt'' demo_auth_db) =
    Inr \<lparr>tp_AccessToken = ''jwt'', tp_RefreshToken = ''BwcHBwcHBwcHBwcHBwcHBwcHBwcHBwcHBwcHBwcHBwc'', tp_ExpiresIn = 300\<rparr>"
  unfolding RefreshAccessToken_def issueTokenPair_def generateToken_def demo_env_def env.simps option.case
    demo_raw Let_def demo_hashes
  by code_simp

lemma demo_verify_runs:
  "fst (VerifyMagicLink demo_cfg demo_env ''ml'' demo_auth_db) =
    Inr \<lparr>tp_AccessToken = ''jwt'', tp_RefreshToken = ''BwcHBwcHBwcHBwcHBwcHBwcHBwcHBwcHBwcHBwcHBwc'', tp_ExpiresIn = 300\<rparr>"
  unfolding VerifyMagicLink_def issueTokenPair_def generateToken_def demo_env_def env.simps option.case
    demo_raw Let_def demo_hashes
  by code_simp

lemma demo_link_runs:
  "fst (MagicLinkToken (\<lambda>a. Some a) demo_cfg demo_env ''Carol@x'' demo_auth_db) = Inr ''BwcHBwcHBwcHBwcHBwcHBwcHBwcHBwcHBwcHBwcHBwc''"
  unfolding MagicLinkToken_def rateLimitReached_def generateToken_def demo_env_def env.simps option.case
    demo_raw Let_def demo_hashes
  by code_simp

end
