(* ===== verification/AuthProps.thy ===== *)
theory AuthProps
  imports AuthCalls AuthDemo
begin

text \<open>
  The authentication service against its abstract view: the live magic links and the live refresh
  tokens, maps from token hashes to users. Rotation replaces one live refresh token by another,
  signing in trades a magic link for a refresh token, a spent token stays spent.
\<close>

section \<open>Rotation\<close>

lemma live_consumed:
  assumes inv: "db_inv s"
  shows "live refreshes (rf.closed_state (consumed k) s) h = (if h = k then None else live refreshes s h)"
proof -
  have R: "tt_rows refreshes = refresh_tokens" by (simp add: refreshes_def)
  have "live refreshes s h \<noteq> None \<longleftrightarrow> (\<exists>r \<in> set (refresh_tokens s). tok_hash r = h \<and> token_open (clock s) r)"
    unfolding rf.live_None R by blast
  moreover have "token_users s r \<noteq> []" if "r \<in> set (refresh_tokens s)" for r
    using token_users_single[OF inv, of r] that by auto
  ultimately have "(\<exists>r \<in> set (refresh_tokens s). tok_hash r = h \<and> consumed k s r) \<longleftrightarrow>
      h = k \<and> live refreshes s h \<noteq> None" by blast
  then show ?thesis using rf.live_close[OF db_inv_unique_tokens(2)[OF inv], of "consumed k" h] by (auto simp: R)
qed

lemma live_hash:
  assumes "db_inv s" "r \<in> set (refresh_tokens s)" "token_open (clock s) r"
  shows "live refreshes s (tok_hash r) = Some (tok_user_id r)"
  using rf.live_Some[OF db_inv_unique_tokens(2)[OF assms(1)]] assms(2,3) by (auto simp: refreshes_def)

lemma live_magic_hash:
  assumes "db_inv s" "r \<in> set (magic_link_tokens s)" "token_open (clock s) r"
  shows "live magic_links s (tok_hash r) = Some (tok_user_id r)"
  using ml.live_Some[OF db_inv_unique_tokens(1)[OF assms(1)]] assms(2,3) by (auto simp: magic_links_def)

text \<open>C17: a successful refresh takes exactly the presented token out of the live refresh tokens and puts
  the returned one in for the same user; magic links are untouched.\<close>

theorem refresh_rotates:
  assumes inv: "db_inv s" and q: "RefreshAccessToken cfg env tok s = (Inr pair, t)"
    and ttl: "clock s < e_now env + cfg_RefreshTokenTTL cfg"
  shows "\<exists>u. live refreshes s (hashToken tok) = Some u \<and>
    live refreshes t = (live refreshes s)(hashToken tok := None, hashToken (tp_RefreshToken pair) := Some u) \<and>
    live magic_links t = live magic_links s"
proof (rule RefreshAccessToken_InrE[OF inv q])
  fix r u b n g
  assume r: "r \<in> set (refresh_tokens s)" "tok_hash r = hashToken tok" "token_open (clock s) r"
    and n: "tok_user_id n = tok_user_id r" "tok_hash n = hashToken (tp_RefreshToken pair)"
      "tok_expires_at n = e_now env + cfg_RefreshTokenTTL cfg" "tok_closed_at n = None"
    and new: "\<not> token_conflict n (refresh_tokens (rf.closed_state (consumed (hashToken tok)) s))"
    and t: "t = (rf.created_state n g (rf.closed_state (consumed (hashToken tok)) s))\<lparr>locks := []\<rparr>"
  have new': "\<not> token_conflict n (tt_rows refreshes (rf.closed_state (consumed (hashToken tok)) s))"
    using new by (simp add: refreshes_def)
  have "token_open (clock s) n" using ttl n by (simp add: token_open_def)
  then have "live refreshes t h = ((live refreshes s)(hashToken tok := None,
      hashToken (tp_RefreshToken pair) := Some (tok_user_id r))) h" for h
    unfolding t live_frame rf.live_create[OF new'] live_consumed[OF inv] rf.frame_update by (simp add: n)
  moreover have "live refreshes s (hashToken tok) = Some (tok_user_id r)" using live_hash[OF inv r(1,3)] r(2) by simp
  moreover have "live magic_links t = live magic_links s" unfolding t live_frame by simp
  ultimately show ?thesis by (intro exI[of _ "tok_user_id r"]) (simp add: fun_eq_iff)
qed

theorem refresh_rotates_witness:
  "live refreshes (snd (RefreshAccessToken demo_cfg demo_env ''rt'' demo_auth_db)) =
     (live refreshes demo_auth_db)(hashToken ''rt'' := None, hashToken ''BwcHBwcHBwcHBwcHBwcHBwcHBwcHBwcHBwcHBwcHBwc'' := Some 3)"
proof -
  let ?r = "RefreshAccessToken demo_cfg demo_env ''rt'' demo_auth_db"
  have r: "?r = (Inr \<lparr>tp_AccessToken = ''jwt'', tp_RefreshToken = ''BwcHBwcHBwcHBwcHBwcHBwcHBwcHBwcHBwcHBwcHBwc'', tp_ExpiresIn = 300\<rparr>, snd ?r)" using demo_refresh_runs by (simp add: prod_eq_iff)
  have ttl: "clock demo_auth_db < e_now demo_env + cfg_RefreshTokenTTL demo_cfg" by code_simp
  have "live refreshes demo_auth_db (hashToken ''rt'') = Some 3" unfolding demo_hashes by code_simp
  with refresh_rotates[OF demo_auth_inv r ttl] show ?thesis by auto
qed

section \<open>Signing in\<close>

text \<open>C18: signing in with a magic link uses that link up, gives its user one new live refresh token and
  nothing else, and marks the user's email as verified.\<close>

theorem sign_in_trades_magic_link:
  assumes inv: "db_inv s" and q: "VerifyMagicLink cfg env tok s = (Inr pair, t)"
    and ttl: "clock s < e_now env + cfg_RefreshTokenTTL cfg"
  shows "\<exists>u \<in> set (users t). live magic_links s (hashToken tok) = Some (usr_id u) \<and>
    usr_email_verified_at u \<noteq> None \<and>
    live magic_links t = (live magic_links s)(hashToken tok := None) \<and>
    live refreshes t = (live refreshes s)(hashToken (tp_RefreshToken pair) := Some (usr_id u))"
proof (rule VerifyMagicLink_InrE[OF inv q])
  fix r n :: token_row and u b g f
  let ?hit = "\<lambda>s q. tok_id q = tok_id r \<and> token_open (clock s) q"
  assume r: "r \<in> set (magic_link_tokens s)" "tok_hash r = hashToken tok" "token_open (clock s) r"
    and u: "u \<in> set (users s)" "usr_id u = tok_user_id r"
    and n: "tok_user_id n = tok_user_id r" "tok_hash n = hashToken (tp_RefreshToken pair)"
      "tok_expires_at n = e_now env + cfg_RefreshTokenTTL cfg" "tok_closed_at n = None"
    and new: "\<not> token_conflict n (refresh_tokens s)"
    and f: "\<And>v. usr_id (f v) = usr_id v" "usr_email_verified_at (f u) \<noteq> None"
    and t: "t = (rf.created_state n g ((ml.closed_state ?hit s)\<lparr>users := map f (users s)\<rparr>))\<lparr>locks := []\<rparr>"
  let ?s1 = "(ml.closed_state ?hit s)\<lparr>users := map f (users s)\<rparr>"
  have M: "tt_rows magic_links = magic_link_tokens" and R: "tt_rows refreshes = refresh_tokens"
    by (simp_all add: magic_links_def refreshes_def)
  have "tok_id q = tok_id r \<longleftrightarrow> q = r" if "q \<in> set (magic_link_tokens s)" for q
    using db_inv_unique_tokens(1)[OF inv] that r(1) unfolding unique_tokens_def M by (blast intro: distinct_key_unique)
  then have "live magic_links (ml.closed_state ?hit s) h = (if h = hashToken tok then None else live magic_links s h)" for h
    using ml.live_close[OF db_inv_unique_tokens(1)[OF inv], of ?hit h] r unfolding M by auto
  then have m: "live magic_links t = (live magic_links s)(hashToken tok := None)"
    unfolding t live_frame by (simp add: fun_eq_iff)
  have "\<not> token_conflict n (tt_rows refreshes ?s1)" using new by (simp add: R[symmetric])
  from rf.live_create[OF this, of g] have "live refreshes t h = ((live refreshes s)(hashToken (tp_RefreshToken pair) := Some (usr_id u))) h" for h
    unfolding t live_frame using ttl n u(2) by (simp add: token_open_def ml.frame_update)
  moreover have "users t = map f (users s)" by (simp add: t rf.frame_update)
  then have "f u \<in> set (users t)" using u(1) by simp
  moreover have "live magic_links s (hashToken tok) = Some (usr_id u)" using live_magic_hash[OF inv r(1,3)] r(2) u(2) by simp
  ultimately show ?thesis using m f(1)[of u] f(2) by (intro bexI[of _ "f u"]) (auto simp: fun_eq_iff)
qed

theorem sign_in_trades_magic_link_witness:
  "live magic_links (snd (VerifyMagicLink demo_cfg demo_env ''ml'' demo_auth_db)) =
     (live magic_links demo_auth_db)(hashToken ''ml'' := None) \<and>
   live refreshes (snd (VerifyMagicLink demo_cfg demo_env ''ml'' demo_auth_db)) =
     (live refreshes demo_auth_db)(hashToken ''BwcHBwcHBwcHBwcHBwcHBwcHBwcHBwcHBwcHBwcHBwc'' := Some 3)"
proof -
  let ?r = "VerifyMagicLink demo_cfg demo_env ''ml'' demo_auth_db"
  have r: "?r = (Inr \<lparr>tp_AccessToken = ''jwt'', tp_RefreshToken = ''BwcHBwcHBwcHBwcHBwcHBwcHBwcHBwcHBwcHBwcHBwc'', tp_ExpiresIn = 300\<rparr>, snd ?r)" using demo_verify_runs by (simp add: prod_eq_iff)
  have ttl: "clock demo_auth_db < e_now demo_env + cfg_RefreshTokenTTL demo_cfg" by code_simp
  have "live magic_links demo_auth_db (hashToken ''ml'') = Some 3" unfolding demo_hashes by code_simp
  with sign_in_trades_magic_link[OF demo_auth_inv r ttl] show ?thesis by auto
qed

section \<open>Requesting a magic link\<close>

lemma take_1_sorted_desc:
  "take 1 (sort_by (\<lambda>a b. b \<le> a) (xs :: int list)) = (if xs = [] then [] else [Max (set xs)])"
proof (induction xs)
  case (Cons x xs)
  let ?ys = "sort_by (\<lambda>a b. b \<le> a) xs"
  have s: "sort_by (\<lambda>a b. b \<le> a) (x # xs) =
      takeWhile (\<lambda>y. \<not> y \<le> x) ?ys @ x # dropWhile (\<lambda>y. \<not> y \<le> x) ?ys" by (simp add: sort_by_def)
  show ?case
  proof (cases "xs = []")
    case True then show ?thesis by (simp add: sort_by_def)
  next
    case False
    then obtain y ys where y: "?ys = y # ys" "Max (set xs) = y"
      using Cons by (cases ?ys) auto
    have "Max (set (x # xs)) = max x y" using False y(2) by simp
    then show ?thesis unfolding s y(1) by (simp add: max_def)
  qed
qed (simp add: sort_by_def)

lemma LatestMagicLinkTokenCreatedAt_eq:
  "LatestMagicLinkTokenCreatedAt i s = ((let ts = {tok_created_at r |r. r \<in> set (magic_link_tokens s) \<and> tok_user_id r = i}
     in if ts = {} then Inl SqlErrNoRows else Inr (Max ts)), s)"
proof -
  let ?xs = "map tok_created_at (filter (\<lambda>r. tok_user_id r = i) (magic_link_tokens s))"
  have "set ?xs = {tok_created_at r |r. r \<in> set (magic_link_tokens s) \<and> tok_user_id r = i}" by auto
  moreover have "?xs = [] \<longleftrightarrow> set ?xs = {}" by (simp only: set_empty)
  ultimately show ?thesis
    unfolding LatestMagicLinkTokenCreatedAt_def latestMagicLinkTokenCreatedAtQuery_def Queue_simp queueOne_reads
      take_1_sorted_desc Let_def by (simp only: collectOne_def split: if_splits) simp
qed

definition recent_link :: "Config \<Rightarrow> env \<Rightarrow> int \<Rightarrow> db \<Rightarrow> bool" where
  "recent_link cfg env i s \<longleftrightarrow> (\<exists>r \<in> set (magic_link_tokens s). tok_user_id r = i \<and>
     e_since env - tok_created_at r < cfg_MagicLinkRateLimit cfg)"

lemma rateLimitReached_eq:
  "rateLimitReached cfg env i s = (Inr (0 < cfg_MagicLinkRateLimit cfg \<and> recent_link cfg env i s), s)"
proof -
  let ?ts = "{tok_created_at r |r. r \<in> set (magic_link_tokens s) \<and> tok_user_id r = i}"
  have fin: "finite ?ts" by simp
  show ?thesis
  proof (cases "?ts = {}")
    case True
    then have "\<not> recent_link cfg env i s" by (auto simp: recent_link_def)
    moreover have "LatestMagicLinkTokenCreatedAt i s = (Inl SqlErrNoRows, s)"
      unfolding LatestMagicLinkTokenCreatedAt_eq Let_def by (simp add: True)
    ultimately show ?thesis by (simp add: rateLimitReached_def andThen_def attempt_def ret_def)
  next
    case False
    have "recent_link cfg env i s \<longleftrightarrow> (\<exists>c \<in> ?ts. e_since env - c < cfg_MagicLinkRateLimit cfg)"
      by (auto simp: recent_link_def)
    also have "\<dots> \<longleftrightarrow> e_since env - Max ?ts < cfg_MagicLinkRateLimit cfg"
    proof
      assume "\<exists>c \<in> ?ts. e_since env - c < cfg_MagicLinkRateLimit cfg"
      then obtain c where "c \<in> ?ts" "e_since env - c < cfg_MagicLinkRateLimit cfg" by blast
      with Max_ge[OF fin this(1)] show "e_since env - Max ?ts < cfg_MagicLinkRateLimit cfg" by linarith
    next
      assume "e_since env - Max ?ts < cfg_MagicLinkRateLimit cfg"
      with Max_in[OF fin False] show "\<exists>c \<in> ?ts. e_since env - c < cfg_MagicLinkRateLimit cfg" by blast
    qed
    finally have "recent_link cfg env i s \<longleftrightarrow> e_since env - Max ?ts < cfg_MagicLinkRateLimit cfg" .
    moreover have "LatestMagicLinkTokenCreatedAt i s = (Inr (Max ?ts), s)"
      unfolding LatestMagicLinkTokenCreatedAt_eq Let_def by (simp only: False if_False)
    ultimately show ?thesis by (simp add: rateLimitReached_def andThen_def attempt_def ret_def)
  qed
qed

definition link_body :: "Config \<Rightarrow> env \<Rightarrow> int \<Rightarrow> string option op" where
  "link_body cfg env i =
      andThen (LockUser i) (\<lambda>_.
      andThen (rateLimitReached cfg env i) (\<lambda>rateLimited.
      if rateLimited then ret None
      else
        andThen (InvalidateUserMagicLinkTokens i) (\<lambda>_.
        andThen (liftS (generateToken (e_random env))) (\<lambda>(tok, hash).
        andThen (CreateMagicLinkToken (createMagicLinkTokenToPg i hash
          (e_now env + cfg_MagicLinkTTL cfg))) (\<lambda>_.
        ret (Some tok))))))"

lemma LockUser_eq: "LockUser i s = (Inr (), s\<lparr>locks := locks s @ [AdvisoryLock ''auth.user'' i]\<rparr>)"
  by (simp add: LockUser_def RunExec_def pg_advisory_xact_lock_def prog_defs atomic_def)

lemma recent_link_locks [simp]: "recent_link cfg env i (s\<lparr>locks := l\<rparr>) = recent_link cfg env i s"
  by (simp add: recent_link_def)

lemma link_body_limited:
  assumes "0 < cfg_MagicLinkRateLimit cfg" "recent_link cfg env i s"
  shows "link_body cfg env i s = (Inr None, s\<lparr>locks := locks s @ [AdvisoryLock ''auth.user'' i]\<rparr>)"
  unfolding link_body_def using assms by (simp add: andThen_def LockUser_eq rateLimitReached_eq ret_def)

abbreviation invalidated :: "int \<Rightarrow> db \<Rightarrow> token_row \<Rightarrow> bool" where
  "invalidated i s r \<equiv> tok_user_id r = i \<and> token_open (clock s) r"

lemma link_body_Inr:
  assumes inv: "db_inv s" and q: "link_body cfg env i s = (Inr tok, t)"
    and free: "\<not> (0 < cfg_MagicLinkRateLimit cfg \<and> recent_link cfg env i s)"
  shows "\<exists>b n g l. tok = Some (rawURLEncode b) \<and> e_random env = Some b \<and> tok_user_id n = i \<and> i \<in> user_ids s \<and>
    tok_hash n = hashToken (rawURLEncode b) \<and> tok_expires_at n = e_now env + cfg_MagicLinkTTL cfg \<and>
    tok_closed_at n = None \<and> tok_created_at n = clock s \<and>
    \<not> token_conflict n (magic_link_tokens (ml.closed_state (invalidated i) s)) \<and>
    t\<lparr>locks := l\<rparr> = (ml.created_state n g (ml.closed_state (invalidated i) s))\<lparr>locks := l\<rparr>"
proof -
  let ?s0 = "s\<lparr>locks := locks s @ [AdvisoryLock ''auth.user'' i]\<rparr>"
  let ?s1 = "ml.closed_state (invalidated i) ?s0"
  from q free obtain raw h v where g: "generateToken (e_random env) = Inr (raw, h)"
    and c: "CreateMagicLinkToken (createMagicLinkTokenToPg i h (e_now env + cfg_MagicLinkTTL cfg)) ?s1 = (Inr v, t)"
    and tok: "tok = Some raw"
    unfolding link_body_def
    by (auto simp: andThen_Inr_iff LockUser_eq rateLimitReached_eq InvalidateUserMagicLinkTokens_eq)
  from g obtain b where b: "e_random env = Some b" "raw = rawURLEncode b" "h = hashToken raw"
    by (auto simp: generateToken_def Let_def split: option.splits)
  have inv1: "db_inv ?s1" by (rule token_states_keep_inv(1)) (simp add: inv)
  from CreateMagicLinkToken_Inr[OF inv1 c] obtain u n gg where n: "u \<in> set (users s)" "usr_id u = i" "tok_user_id n = i"
    "tok_hash n = h" "tok_expires_at n = e_now env + cfg_MagicLinkTTL cfg" "tok_closed_at n = None"
    "tok_created_at n = clock s" "\<not> token_conflict n (magic_link_tokens ?s1)" and t: "t = ml.created_state n gg ?s1"
    by (auto simp: createMagicLinkTokenToPg_def ml.frame_update)
  have "magic_link_tokens ?s1 = magic_link_tokens (ml.closed_state (invalidated i) s)"
    "t\<lparr>locks := []\<rparr> = (ml.created_state n gg (ml.closed_state (invalidated i) s))\<lparr>locks := []\<rparr>"
    by (simp_all add: t magic_links_def)
  with n b tok show ?thesis by (intro exI[of _ b] exI[of _ n] exI[of _ gg] exI[of _ "[]"]) auto
qed

lemma MagicLinkToken_body:
  "MagicLinkToken pa cfg env email =
    andThen (liftS (RequestMagicLink_Validate pa email)) (\<lambda>_.
    andThen (onError notFound (pguser_UserByEmail (toLower email))) (\<lambda>pgUser.
    andThen (run_tx (link_body cfg env (usr_id pgUser))) (\<lambda>rawTok.
    case rawTok of None \<Rightarrow> throw ErrRateLimited | Some tok \<Rightarrow> ret tok)))"
  unfolding MagicLinkToken_def link_body_def ..

lemma pguser_UserByEmail_Inr:
  "pguser_UserByEmail e s = (Inr u, t) \<longleftrightarrow> t = s \<and> filter (\<lambda>w. usr_email w = e) (users s) = [u]"
  by (auto simp: pguser_UserByEmail_def userByEmailQuery_def queueOne_reads)

text \<open>C19: a successful request for a magic link leaves the user exactly one live link, the returned one:
  the links he had are dead, those of the other users and all refresh tokens are as before, and no link
  was issued to him within the rate limit.\<close>

theorem magic_link_replaces:
  assumes inv: "db_inv s" and q: "MagicLinkToken pa cfg env email s = (Inr raw, t)"
    and ttl: "clock s < e_now env + cfg_MagicLinkTTL cfg"
  shows "\<exists>u \<in> set (users s). usr_email u = toLower email \<and>
    live magic_links t = (\<lambda>h. if live magic_links s h = Some (usr_id u) then None else live magic_links s h)
      (hashToken raw := Some (usr_id u)) \<and>
    live refreshes t = live refreshes s \<and>
    (0 < cfg_MagicLinkRateLimit cfg \<longrightarrow> (\<forall>r \<in> set (magic_link_tokens s). tok_user_id r = usr_id u \<longrightarrow>
       cfg_MagicLinkRateLimit cfg \<le> e_since env - tok_created_at r))"
proof -
  from q obtain u w where e: "filter (\<lambda>w. usr_email w = toLower email) (users s) = [u]"
    and b: "link_body cfg env (usr_id u) s = (Inr (Some raw), w)" and t: "t = w\<lparr>locks := []\<rparr>"
    by (auto simp: MagicLinkToken_body andThen_Inr_iff pguser_UserByEmail_Inr split: option.splits)
  let ?i = "usr_id u"
  have free: "\<not> (0 < cfg_MagicLinkRateLimit cfg \<and> recent_link cfg env ?i s)"
    using b link_body_limited[of cfg env ?i s] by auto
  from link_body_Inr[OF inv b free] obtain n g l where n: "tok_user_id n = ?i" "tok_hash n = hashToken raw"
    "tok_expires_at n = e_now env + cfg_MagicLinkTTL cfg" "tok_closed_at n = None"
    and new: "\<not> token_conflict n (magic_link_tokens (ml.closed_state (invalidated ?i) s))"
    and w: "w\<lparr>locks := l\<rparr> = (ml.created_state n g (ml.closed_state (invalidated ?i) s))\<lparr>locks := l\<rparr>" by auto
  have live_w: "live T t = live T (w\<lparr>locks := l\<rparr>)" if "T = magic_links \<or> T = refreshes" for T
    using that by (auto simp: t)
  have new': "\<not> token_conflict n (tt_rows magic_links (ml.closed_state (invalidated ?i) s))"
    using new by (simp add: magic_links_def)
  have M: "tt_rows magic_links = magic_link_tokens" by (simp add: magic_links_def)
  have "live magic_links (ml.closed_state (invalidated ?i) s) h =
      (if live magic_links s h = Some ?i then None else live magic_links s h)" for h
  proof -
    have "(\<exists>r \<in> set (magic_link_tokens s). tok_hash r = h \<and> invalidated ?i s r) \<longleftrightarrow> live magic_links s h = Some ?i"
      unfolding ml.live_Some[OF db_inv_unique_tokens(1)[OF inv]] M by blast
    then show ?thesis using ml.live_close[OF db_inv_unique_tokens(1)[OF inv], of "invalidated ?i" h] unfolding M by simp
  qed
  moreover have "token_open (clock s) n" using ttl n by (simp add: token_open_def)
  ultimately have "live magic_links t h = ((\<lambda>h. if live magic_links s h = Some ?i then None else live magic_links s h)
      (hashToken raw := Some ?i)) h" for h
    using live_w[of magic_links] ml.live_create[OF new', of g h] n by (simp add: w ml.frame_update)
  moreover have "live refreshes t = live refreshes s" using live_w[of refreshes] by (simp add: w)
  moreover have "u \<in> set (users s)" "usr_email u = toLower email" using filter_singleD(1,2)[OF e] by auto
  ultimately show ?thesis using free by (intro bexI[of _ u]) (auto simp: fun_eq_iff recent_link_def not_less)
qed

theorem magic_link_replaces_witness:
  "live magic_links (snd (MagicLinkToken (\<lambda>a. Some a) demo_cfg demo_env ''Carol@x'' demo_auth_db)) (hashToken ''ml'') = None \<and>
   live magic_links demo_auth_db (hashToken ''ml'') = Some 3"
proof -
  let ?r = "MagicLinkToken (\<lambda>a. Some a) demo_cfg demo_env ''Carol@x'' demo_auth_db"
  have r: "?r = (Inr ''BwcHBwcHBwcHBwcHBwcHBwcHBwcHBwcHBwcHBwcHBwc'', snd ?r)" using demo_link_runs by (simp add: prod_eq_iff)
  have ttl: "clock demo_auth_db < e_now demo_env + cfg_MagicLinkTTL demo_cfg" by code_simp
  from magic_link_replaces[OF demo_auth_inv r ttl] obtain u where u: "u \<in> set (users demo_auth_db)"
    "usr_email u = toLower ''Carol@x''"
    and l: "live magic_links (snd ?r) = (\<lambda>h. if live magic_links demo_auth_db h = Some (usr_id u) then None
       else live magic_links demo_auth_db h)(hashToken ''BwcHBwcHBwcHBwcHBwcHBwcHBwcHBwcHBwcHBwcHBwc'' := Some (usr_id u))" by blast
  have "toLower ''Carol@x'' = ''carol@x''" by code_simp
  then have "usr_id u = 3" using u by (auto simp: demo_auth_db_def demo_defs)
  moreover have m: "live magic_links demo_auth_db (hashToken ''ml'') = Some 3" unfolding demo_hashes by code_simp
  moreover have "hashToken ''ml'' \<noteq> hashToken ''BwcHBwcHBwcHBwcHBwcHBwcHBwcHBwcHBwcHBwcHBwc''" unfolding demo_hashes by simp
  ultimately show ?thesis unfolding l by simp
qed

end
