(* ===== verification/History.thy ===== *)
theory History
  imports OrgCreation RoleVersions AuthProps AuthSessions
begin

text \<open>
  What no call of the backend ever undoes, as a preorder \<open>advances\<close> on databases: users keep their
  identity, organizations, projects and memberships stay, the registry and the system roles are fixed, a
  managed role keeps its identity and its permissions, and a token keeps everything but its closing
  time, which is written once. One group of lemmas per service shows that its calls advance the database.
\<close>

section \<open>The preorder\<close>

definition same_token :: "token_row \<Rightarrow> token_row \<Rightarrow> bool" where
  "same_token r q \<longleftrightarrow> tok_id q = tok_id r \<and> tok_user_id q = tok_user_id r \<and> tok_hash q = tok_hash r \<and>
    tok_expires_at q = tok_expires_at r \<and> tok_created_at q = tok_created_at r \<and>
    (tok_closed_at r \<noteq> None \<longrightarrow> tok_closed_at q = tok_closed_at r)"

definition tokens_advance :: "token_row list \<Rightarrow> token_row list \<Rightarrow> bool" where
  "tokens_advance rs qs \<longleftrightarrow> (\<forall>r \<in> set rs. \<exists>q \<in> set qs. same_token r q)"

definition same_user :: "user_row \<Rightarrow> user_row \<Rightarrow> bool" where
  "same_user u v \<longleftrightarrow> usr_id v = usr_id u \<and> usr_external_id v = usr_external_id u \<and> usr_email v = usr_email u \<and>
    usr_created_at v = usr_created_at u"

definition users_advance :: "user_row list \<Rightarrow> user_row list \<Rightarrow> bool" where
  "users_advance us vs \<longleftrightarrow> (\<forall>u \<in> set us. \<exists>v \<in> set vs. same_user u v)"

definition fixed_tables :: "db \<Rightarrow> db \<Rightarrow> bool" where
  "fixed_tables s t \<longleftrightarrow> permissions t = permissions s \<and> system_roles t = system_roles s \<and>
    system_role_permissions t = system_role_permissions s"

definition growing_tables :: "db \<Rightarrow> db \<Rightarrow> bool" where
  "growing_tables s t \<longleftrightarrow> set (organizations s) \<subseteq> set (organizations t) \<and>
    set (projects s) \<subseteq> set (projects t) \<and> set (org_membership s) \<subseteq> set (org_membership t)"

definition advances :: "db \<Rightarrow> db \<Rightarrow> bool" where
  "advances s t \<longleftrightarrow> fixed_tables s t \<and> growing_tables s t \<and> users_advance (users s) (users t) \<and>
    tokens_advance (magic_link_tokens s) (magic_link_tokens t) \<and>
    tokens_advance (refresh_tokens s) (refresh_tokens t) \<and> keeps_managed s t \<and> clock s \<le> clock t"

lemma same_token_refl [simp]: "same_token r r"
  by (simp add: same_token_def)

lemma same_token_trans: "same_token r q \<Longrightarrow> same_token q p \<Longrightarrow> same_token r p"
  by (simp add: same_token_def)

lemma tokens_advance_refl [simp]: "tokens_advance rs rs"
  unfolding tokens_advance_def using same_token_refl by blast

lemma tokens_advance_trans: "tokens_advance rs qs \<Longrightarrow> tokens_advance qs ps \<Longrightarrow> tokens_advance rs ps"
  unfolding tokens_advance_def using same_token_trans by meson

lemma tokens_advance_append [simp]: "tokens_advance rs (rs @ qs)"
  unfolding tokens_advance_def using same_token_refl by (metis UnCI set_append)

lemma tokens_advance_close:
  assumes "\<And>r. P r \<Longrightarrow> tok_closed_at r = None"
  shows "tokens_advance rs (map (\<lambda>r. if P r then close_token now r else r) rs)"
proof -
  have "same_token r (if P r then close_token now r else r)" for r
    using assms[of r] by (simp add: same_token_def)
  then show ?thesis unfolding tokens_advance_def by (metis (mono_tags, lifting) imageI list.set_map)
qed

lemma users_advance_refl [simp]: "users_advance us us"
  by (auto simp: users_advance_def same_user_def)

lemma users_advance_trans: "users_advance us vs \<Longrightarrow> users_advance vs ws \<Longrightarrow> users_advance us ws"
  unfolding users_advance_def same_user_def by (metis (no_types, lifting))

lemma users_advance_append [simp]: "users_advance us (us @ vs)"
  unfolding users_advance_def by (auto simp: same_user_def)

lemma users_advance_map: "(\<And>u. u \<in> set us \<Longrightarrow> same_user u (f u)) \<Longrightarrow> users_advance us (map f us)"
  unfolding users_advance_def by auto

lemma users_advance_ids: "users_advance us vs \<Longrightarrow> usr_id ` set us \<subseteq> usr_id ` set vs"
  unfolding users_advance_def same_user_def by (auto simp: image_iff) metis

lemma keeps_managed_refl [simp]: "keeps_managed s s"
  by (rule keeps_managed_same) simp_all

lemma keeps_managed_trans:
  assumes "keeps_managed s t" "keeps_managed t w" shows "keeps_managed s w"
proof (rule keeps_managedI)
  fix m assume m: "m \<in> set (custom_roles s)" "rol_managed_key m \<noteq> None"
  then obtain m' where m': "m' \<in> set (custom_roles t)" "same_role m m'"
    and h: "\<And>n. role_has t (rol_id m) n = role_has s (rol_id m) n"
    using assms(1) unfolding keeps_managed_def by blast
  then have k: "rol_managed_key m' \<noteq> None" "rol_id m' = rol_id m" using m(2) by (simp_all add: same_role_def)
  then obtain m'' where "m'' \<in> set (custom_roles w)" "same_role m' m''"
    and h': "\<And>n. role_has w (rol_id m') n = role_has t (rol_id m') n"
    using assms(2) m'(1) unfolding keeps_managed_def by blast
  then show "\<exists>m'' \<in> set (custom_roles w). same_role m m''" using m'(2) by (auto simp: same_role_def)
  show "role_has w (rol_id m) n = role_has s (rol_id m) n" for n using h h' k(2) by simp
qed

lemma advances_refl [simp]: "advances s s"
  by (simp add: advances_def fixed_tables_def growing_tables_def)

lemma advances_trans: "advances s t \<Longrightarrow> advances t w \<Longrightarrow> advances s w"
  unfolding advances_def
  using users_advance_trans tokens_advance_trans keeps_managed_trans
  by (auto simp: fixed_tables_def growing_tables_def; blast)

lemma advances_same_tables: "same_tables s t \<Longrightarrow> advances s t"
proof -
  assume "same_tables s t"
  then obtain g l where t: "t = s\<lparr>gen := g, locks := l\<rparr>" by (auto simp: same_tables_def)
  have "keeps_managed s t" by (rule keeps_managed_same) (simp_all add: t role_has_def fun_eq_iff)
  then show ?thesis by (simp add: advances_def fixed_tables_def growing_tables_def t)
qed

lemma advances_frame [simp]: "advances s (t\<lparr>locks := l\<rparr>) = advances s t" "advances s (t\<lparr>gen := g\<rparr>) = advances s t"
proof -
  have "keeps_managed s (t\<lparr>locks := l\<rparr>) = keeps_managed s t" "keeps_managed s (t\<lparr>gen := g\<rparr>) = keeps_managed s t"
    by (simp_all add: keeps_managed_def role_has_def)
  then show "advances s (t\<lparr>locks := l\<rparr>) = advances s t" "advances s (t\<lparr>gen := g\<rparr>) = advances s t"
    by (simp_all add: advances_def fixed_tables_def growing_tables_def)
qed

text \<open>Once there is a fully privileged user, an advance that keeps the system-role assignments keeps one.\<close>

lemma advances_keep_admin:
  assumes adv: "advances s t" and sub: "set (system_role_assignments s) \<subseteq> set (system_role_assignments t)"
    and adm: "has_admin s"
  shows "has_admin t"
proof -
  have "user_ids s \<subseteq> user_ids t" using adv by (simp add: advances_def users_advance_ids)
  moreover have "holds_system s u n \<Longrightarrow> holds_system t u n" for u n
    using adv sub by (auto simp: advances_def fixed_tables_def holds_system_def system_role_has_def)
  moreover have "permissions t = permissions s" using adv by (simp add: advances_def fixed_tables_def)
  ultimately have "fully_privileged s u \<Longrightarrow> fully_privileged t u" for u
    unfolding fully_privileged_def by auto
  then show ?thesis using adm by (auto simp: has_admin_def)
qed

end
