(* ===== verification/Advance.thy ===== *)
theory Advance
  imports History
begin

text \<open>
  Every call of the backend advances the database (theory History) and keeps its invariants; one lemma
  per service, for the successful and for the failed calls together.
\<close>

section \<open>Custom roles\<close>

definition outside_roles :: "db \<Rightarrow> db \<Rightarrow> bool" where
  "outside_roles s t \<longleftrightarrow> fixed_tables s t \<and> users t = users s \<and> organizations t = organizations s \<and>
    projects t = projects s \<and> org_membership t = org_membership s \<and>
    system_role_assignments t = system_role_assignments s \<and> magic_link_tokens t = magic_link_tokens s \<and>
    refresh_tokens t = refresh_tokens s \<and> clock t = clock s"

lemma outside_roles_locks: "outside_roles s (t\<lparr>locks := l\<rparr>) = outside_roles s t"
  by (simp add: outside_roles_def fixed_tables_def)

lemma outside_roles_advances: "outside_roles s t \<Longrightarrow> keeps_managed s t \<Longrightarrow> advances s t"
  by (simp add: outside_roles_def advances_def growing_tables_def)

lemma role_changes_outside:
  assumes inv: "db_inv s"
  shows "CreateCustomRole ctx cr s = (Inr v, t) \<Longrightarrow> outside_roles s t"
    "UpdateCustomRole ctx ur s = (Inr v, t) \<Longrightarrow> outside_roles s t"
    "ModifyCustomRolePermissions ctx mrp s = (Inr v, t) \<Longrightarrow> outside_roles s t"
    "DeleteCustomRole ctx x s = (Inr (), t) \<Longrightarrow> outside_roles s t"
proof -
  show "outside_roles s t" if q: "CreateCustomRole ctx cr s = (Inr v, t)"
    by (rule CreateCustomRole_InrE[OF q]) (simp add: outside_roles_def fixed_tables_def)
  show "outside_roles s t" if q: "ModifyCustomRolePermissions ctx mrp s = (Inr v, t)"
    by (rule ModifyCustomRolePermissions_InrE[OF inv q]) (simp add: outside_roles_def fixed_tables_def)
  show "outside_roles s t" if q: "DeleteCustomRole ctx x s = (Inr (), t)"
    by (rule DeleteCustomRole_InrE[OF inv q]) (simp add: outside_roles_def fixed_tables_def)
  show "outside_roles s t" if q: "UpdateCustomRole ctx ur s = (Inr v, t)"
  proof (cases "ucr_FieldPermissions ur")
    case True
    show ?thesis
      by (rule UpdateCustomRole_perms_InrE[OF inv q True]) (simp add: outside_roles_def fixed_tables_def)
  next
    case False
    show ?thesis
    proof (rule UpdateCustomRole_name_InrE[OF inv q False])
      fix r g r'
      assume "t\<lparr>locks := []\<rparr> = s\<lparr>gen := g, custom_roles :=
        map (\<lambda>q. if rol_id q = rol_id (r :: custom_role_row) then r' else q) (custom_roles s), locks := []\<rparr>"
      then have "outside_roles s (t\<lparr>locks := []\<rparr>)" by (simp add: outside_roles_def fixed_tables_def)
      then show "outside_roles s t" by (simp only: outside_roles_locks)
    qed
  qed
qed

lemma role_assignments_outside:
  assumes inv: "db_inv s"
  shows "AssignCustomRoleToProject ctx x y s = (Inr (), t) \<Longrightarrow> outside_roles s t"
    "UnassignCustomRoleFromProject ctx x y s = (Inr (), t) \<Longrightarrow> outside_roles s t"
    "AssignCustomRoleToOrg ctx x y s = (Inr (), t) \<Longrightarrow> outside_roles s t"
    "UnassignCustomRoleFromOrg ctx x y s = (Inr (), t) \<Longrightarrow> outside_roles s t"
proof -
  show "outside_roles s t" if q: "AssignCustomRoleToProject ctx x y s = (Inr (), t)"
    by (rule AssignCustomRoleToProject_InrE[OF inv q]) (simp add: outside_roles_def fixed_tables_def)
  show "outside_roles s t" if q: "UnassignCustomRoleFromProject ctx x y s = (Inr (), t)"
    by (rule UnassignCustomRoleFromProject_InrE[OF inv q]) (simp add: outside_roles_def fixed_tables_def)
  show "outside_roles s t" if q: "AssignCustomRoleToOrg ctx x y s = (Inr (), t)"
    by (rule AssignCustomRoleToOrg_InrE[OF q]) (simp add: outside_roles_def fixed_tables_def)
  show "outside_roles s t" if q: "UnassignCustomRoleFromOrg ctx x y s = (Inr (), t)"
    by (rule UnassignCustomRoleFromOrg_InrE[OF q]) (simp add: outside_roles_def fixed_tables_def)
qed

lemma run_role_call_keeps_managed:
  assumes inv: "db_inv s" and q: "run_role_call ctx c s = (Inr (), t)" shows "keeps_managed s t"
  using q by (cases c) (auto simp: andThen_Inr_iff intro: create_keeps_managed[OF inv] update_keeps_managed[OF inv]
      modify_keeps_managed[OF inv] delete_keeps_managed[OF inv] assignments_keep_managed[OF inv])

lemma run_role_call_keeps_rbac:
  assumes inv: "db_inv s" and rb: "rbac_inv s" and q: "run_role_call ctx c s = (Inr (), t)" shows "rbac_inv t"
  using q by (cases c) (auto simp: andThen_Inr_iff intro: create_keeps_rbac[OF inv rb] update_keeps_rbac[OF inv rb]
      modify_keeps_rbac[OF inv rb] other_calls_keep_rbac[OF inv rb] assign_project_keeps_rbac[OF inv rb])

lemma run_role_call_outside:
  assumes inv: "db_inv s" and q: "run_role_call ctx c s = (Inr (), t)" shows "outside_roles s t"
  using q by (cases c) (auto simp: andThen_Inr_iff intro: role_changes_outside[OF inv] role_assignments_outside[OF inv])

section \<open>The invariant of the backend\<close>

definition backend_inv :: "db \<Rightarrow> bool" where
  "backend_inv s \<longleftrightarrow> org_inv s \<and> has_admin s"

lemma backend_inv_D:
  assumes "backend_inv s" shows "db_inv s" "rbac_inv s" "control_inv s" "has_admin s" "org_inv s"
  using assms by (simp_all add: backend_inv_def org_inv_def)

definition good :: "db \<Rightarrow> db \<Rightarrow> bool" where
  "good s t \<longleftrightarrow> backend_inv t \<and> advances s t"

lemma good_same_tables: "backend_inv s \<Longrightarrow> same_tables s t \<Longrightarrow> good s t"
  using advances_same_tables[of s t] unfolding good_def backend_inv_def same_tables_def by auto

lemma good_refl: "backend_inv s \<Longrightarrow> good s s"
  by (simp add: good_same_tables)

lemma goodI:
  assumes "backend_inv s" "org_inv t" "advances s t"
    "set (system_role_assignments s) \<subseteq> set (system_role_assignments t)"
  shows "good s t"
  using assms advances_keep_admin[OF assms(3,4)] by (simp add: good_def backend_inv_def)

lemma unit_cases:
  fixes r :: "error + unit"
  obtains e where "r = Inl e" | "r = Inr ()"
  by (cases r) auto

lemma role_call_good:
  assumes inv: "backend_inv s" and q: "run_role_call ctx c s = (r, t)" shows "good s t"
proof (cases r rule: unit_cases)
  case (1 e)
  then show ?thesis using run_role_call_failed[OF backend_inv_D(1)[OF inv]] q by (intro good_same_tables[OF inv]) blast
next
  case 2
  note i = backend_inv_D[OF inv]
  have q: "run_role_call ctx c s = (Inr (), t)" using q 2 by simp
  have out: "outside_roles s t" by (rule run_role_call_outside[OF i(1) q])
  have "control_inv t" by (rule control_inv_same[OF i(3)]) (use out in \<open>simp_all add: outside_roles_def\<close>)
  then have "org_inv t"
    using run_role_call_Inr_inv[OF i(1) q] run_role_call_keeps_rbac[OF i(1,2) q] by (simp add: org_inv_def)
  moreover have "advances s t"
    by (rule outside_roles_advances[OF out run_role_call_keeps_managed[OF i(1) q]])
  ultimately show ?thesis by (rule goodI[OF inv]) (use out in \<open>simp add: outside_roles_def\<close>)
qed

section \<open>Organizations\<close>

lemma keeps_managed_frame:
  assumes "custom_roles t = custom_roles s" "permissions t = permissions s"
    "custom_role_permissions t = custom_role_permissions s"
  shows "keeps_managed s t"
  using assms(1) role_has_same[OF assms(3,2)] by (rule keeps_managed_same)

lemma keeps_managed_with_admin:
  assumes inv: "db_inv s" and new: "\<not> role_conflict role (custom_roles s)" and p: "permissions t = permissions s"
    and rs: "custom_roles t = custom_roles s @ [role]"
    and rp: "custom_role_permissions t = custom_role_permissions s @ map (Pair (rol_id role)) ids"
  shows "keeps_managed s t"
proof (rule keeps_managedI)
  fix m assume m: "m \<in> set (custom_roles s)"
  then show "\<exists>m' \<in> set (custom_roles t). same_role m m'" by (intro bexI[of _ m]) (simp_all add: rs)
  have "rol_id m \<noteq> rol_id role" using new_role_id[OF new] m by (metis imageI)
  then show "role_has t (rol_id m) n = role_has s (rol_id m) n" for n
    by (auto simp: role_has_def rp p)
qed

lemma creation_advances:
  assumes inv: "db_inv s" and q: "createOrganization co c s = (Inr org, t)"
  shows "advances s t \<and> system_role_assignments t = system_role_assignments s"
proof (cases c)
  case None
  have "createOrganization co None s = (Inr org, t)" using q None by simp
  then show ?thesis
  proof (rule bootstrap_InrE[OF inv])
    fix r ctl p g assume t: "t = with_org s r ctl p g"
    have "keeps_managed s t" by (rule keeps_managed_frame) (simp_all add: t)
    then show ?thesis
      by (simp add: advances_def fixed_tables_def growing_tables_def t) (auto simp: with_org_def)
  qed
next
  case (Some x)
  have "createOrganization co (Some x) s = (Inr org, t)" using q Some by simp
  then show ?thesis
  proof (rule create_InrE[OF inv])
    fix r ctl p g u role ids names
    assume role: "\<not> role_conflict role (custom_roles s)"
      and t: "t = with_admin (with_org s r ctl p g) (org_id r) (usr_id u) role ids"
    have "keeps_managed s t" by (rule keeps_managed_with_admin[OF inv role]) (simp_all add: t)
    then show ?thesis
      by (simp add: advances_def fixed_tables_def growing_tables_def t)
        (auto simp: with_org_def with_admin_def)
  qed
qed

lemma create_project_advances:
  assumes inv: "db_inv s" and q: "CreateProject cp s = (Inr v, t)"
  shows "advances s t \<and> system_role_assignments t = system_role_assignments s"
proof (rule CreateProject_InrE[OF inv q])
  fix p g assume t: "t = s\<lparr>gen := g, projects := projects s @ [p]\<rparr>"
  have "keeps_managed s t" by (rule keeps_managed_frame) (simp_all add: t)
  then show ?thesis by (simp add: advances_def fixed_tables_def growing_tables_def t) auto
qed

lemma create_user_advances:
  assumes q: "CreateOrganizationUser pa ctx email s = (Inr v, t)"
  shows "advances s t \<and> system_role_assignments t = system_role_assignments s"
proof (rule CreateOrganizationUser_InrE[OF q])
  fix sess p u s1 s2
  assume u: "pguser_GetOrCreateUserByEmail email s = (Inr u, s1)"
    and m: "EnsureOrganizationMember (usr_external_id u) (ap_OrgID p) s1 = (Inr (), s2)"
    and t: "t = s2\<lparr>locks := []\<rparr>"
  have s1: "\<exists>g us. s1 = s\<lparr>gen := g, users := users s @ us\<rparr>"
  proof (rule GetOrCreateUserByEmail_InrE[OF u])
    fix g assume "s1 = s\<lparr>gen := g\<rparr>"
    then show ?thesis by (intro exI[of _ g] exI[of _ "[]"]) simp
  next
    fix g assume "s1 = s\<lparr>gen := g, users := users s @ [u]\<rparr>"
    then show ?thesis by blast
  qed
  then obtain g us where s1: "s1 = s\<lparr>gen := g, users := users s @ us\<rparr>" by blast
  obtain w ms where "ms = (if (ap_OrgID p, usr_id (w :: user_row)) \<in> set (org_membership s1) then org_membership s1
      else org_membership s1 @ [(ap_OrgID p, usr_id w)])" and s2: "s2 = s1\<lparr>org_membership := ms\<rparr>"
    by (rule EnsureOrganizationMember_InrE[OF m])
  then have ms: "set (org_membership s1) \<subseteq> set ms" by auto
  have "keeps_managed s t" by (rule keeps_managed_frame) (simp_all add: t s2 s1)
  then show ?thesis using ms
    by (simp add: advances_def fixed_tables_def growing_tables_def t s2 s1)
qed

lemma run_org_call_advances:
  assumes inv: "db_inv s" and q: "run_org_call pa ctx c s = (Inr (), t)"
  shows "advances s t \<and> system_role_assignments t = system_role_assignments s"
  using q by (cases c)
    (auto simp: run_org_call_def andThen_Inr_iff CreateOrganization_Inr BootstrapOrganization_def
      dest: creation_advances[OF inv] create_project_advances[OF inv] create_user_advances)

lemma org_call_good:
  assumes inv: "backend_inv s" and q: "run_org_call pa ctx c s = (r, t)" shows "good s t"
proof (cases r rule: unit_cases)
  case (1 e)
  then show ?thesis using run_org_call_failed[OF backend_inv_D(1)[OF inv]] q by (intro good_same_tables[OF inv]) blast
next
  case 2
  note i = backend_inv_D[OF inv]
  have q: "run_org_call pa ctx c s = (Inr (), t)" using q 2 by simp
  show ?thesis
    by (rule goodI[OF inv run_org_call_keeps[OF i(5) q]]) (use run_org_call_advances[OF i(1) q] in simp_all)
qed

section \<open>System roles\<close>

lemma system_frame:
  assumes t: "t = s\<lparr>system_role_assignments := a, locks := l\<rparr>"
  shows "advances s t" "rbac_inv t = rbac_inv s" "control_inv t = control_inv s"
proof -
  have "keeps_managed s t" by (rule keeps_managed_frame) (simp_all add: t)
  then show "advances s t" by (simp add: advances_def fixed_tables_def growing_tables_def t)
  show "rbac_inv t = rbac_inv s" "control_inv t = control_inv s"
    by (simp_all add: t rbac_inv_def role_has_def control_inv_def control_projects_def)
qed

text \<open>A system-role change that keeps an administrator.\<close>

lemma system_change_good:
  assumes inv: "backend_inv s" and w: "w = s\<lparr>locks := l\<rparr>"
    and q: "pg_AssignSystemRole x n w = (Inr (), w2) \<or> pg_UnassignSystemRole x n w = (Inr (), w2)"
    and adm: "has_admin w2" and t: "t = w2\<lparr>locks := []\<rparr>"
  shows "good s t"
proof -
  note i = backend_inv_D[OF inv]
  have iw: "db_inv w" using i(1) by (simp add: w)
  obtain a where w2: "w2 = w\<lparr>system_role_assignments := a\<rparr>" using system_ops_frame[OF q] by blast
  have t': "t = s\<lparr>system_role_assignments := a, locks := []\<rparr>" by (simp add: t w2 w)
  have "db_inv w2" using q assign_system_keeps_inv[OF iw] unassign_system_keeps_inv[OF iw] by blast
  then have "db_inv t" "has_admin t" using adm by (simp_all add: t)
  with i system_frame[OF t'] show ?thesis by (simp add: good_def backend_inv_def org_inv_def)
qed

lemma AssignSystemRole_good:
  assumes inv: "backend_inv s" and q: "AssignSystemRole ctx x n s = (r, t)" shows "good s t"
proof (cases r rule: unit_cases)
  case (1 e)
  with q have "same_tables s t"
    unfolding AssignSystemRole_def andThen_Inl_iff[of "authSession ctx"]
    by (auto simp: authSession_def simp del: run_tx_Inl_iff intro: same_tables_run_tx split: option.splits)
  then show ?thesis by (rule good_same_tables[OF inv])
next
  case 2
  with q have "AssignSystemRole ctx x n s = (Inr (), t)" by simp
  from AssignSystemRole_Inr[OF this] obtain w w2 l where w: "w = s\<lparr>locks := l\<rparr>"
    and g: "pg_AssignSystemRole x n w = (Inr (), w2)" and t: "t = w2\<lparr>locks := []\<rparr>" by blast
  have adm: "has_admin w" using backend_inv_D(4)[OF inv] by (simp add: w)
  show ?thesis by (rule system_change_good[OF inv w disjI1[OF g] assign_system_monotone[OF g adm] t])
qed

lemma BootstrapAssignSystemRole_good:
  assumes inv: "backend_inv s" and q: "BootstrapAssignSystemRole x n s = (r, t)" shows "good s t"
proof (cases r rule: unit_cases)
  case (1 e)
  with q have "same_tables s t" by (auto simp: BootstrapAssignSystemRole_def)
  then show ?thesis by (rule good_same_tables[OF inv])
next
  case 2
  with q obtain w2 l where g: "pg_AssignSystemRole x n (s\<lparr>locks := l\<rparr>) = (Inr (), w2)" and t: "t = w2\<lparr>locks := []\<rparr>"
    by (auto simp: BootstrapAssignSystemRole_def andThen_Inr_iff LockSystemRoleUser_eq)
  have adm: "has_admin (s\<lparr>locks := l\<rparr>)" using backend_inv_D(4)[OF inv] by simp
  show ?thesis by (rule system_change_good[OF inv refl disjI1[OF g] assign_system_monotone[OF g adm] t])
qed

lemma UnassignSystemRole_good:
  assumes inv: "backend_inv s" and q: "UnassignSystemRole ctx x n s = (r, t)" shows "good s t"
proof (cases r rule: unit_cases)
  case (1 e)
  with q have "same_tables s t"
    unfolding UnassignSystemRole_def andThen_Inl_iff[of "authSession ctx"]
    by (auto simp: authSession_def simp del: run_tx_Inl_iff intro: same_tables_run_tx split: option.splits)
  then show ?thesis by (rule good_same_tables[OF inv])
next
  case 2
  with q have "UnassignSystemRole ctx x n s = (Inr (), t)" by simp
  from UnassignSystemRole_Inr[OF this] obtain w role w2 l where w: "w = s\<lparr>locks := l\<rparr>"
    and a: "\<exists>y. authorizeSystemRoleChange y n w = (Inr role, w)"
    and e: "ensureFullyPrivilegedSystemUserRemains x (psr_Name role) w = (Inr (), w)"
    and g: "pg_UnassignSystemRole x n w = (Inr (), w2)" and t: "t = w2\<lparr>locks := []\<rparr>" by blast
  have "filter (\<lambda>r. sys_name r = n) rs = [row] \<Longrightarrow> sys_name row = n" for rs row
    using filter_singleD(2)[of "\<lambda>r. sys_name r = n"] by blast
  then have "psr_Name role = n" using a by (auto simp: authorizeSystemRoleChange_iff system_role_of_def)
  then have adm: "has_admin w2" using revoke_keeps_admin[of w x n w2] backend_inv_D(1)[OF inv] w e g by simp
  show ?thesis by (rule system_change_good[OF inv w disjI2[OF g] adm t])
qed

end
