(* ===== verification/AdvanceAuth.thy ===== *)
theory AdvanceAuth
  imports Advance
begin

text \<open>
  The calls of the user and of the authentication service advance the database and keep its
  invariants, whatever they return.
\<close>

section \<open>Users\<close>

lemma users_frame:
  assumes t: "t = s\<lparr>gen := g, users := us, locks := l\<rparr>" and adv: "users_advance (users s) us"
  shows "advances s t" "rbac_inv t = rbac_inv s" "control_inv t = control_inv s"
    "system_role_assignments t = system_role_assignments s"
proof -
  have "keeps_managed s t" by (rule keeps_managed_frame) (simp_all add: t)
  then show "advances s t" using adv by (simp add: advances_def fixed_tables_def growing_tables_def t)
  show "rbac_inv t = rbac_inv s" "control_inv t = control_inv s"
    "system_role_assignments t = system_role_assignments s"
    by (simp_all add: t rbac_inv_def role_has_def control_inv_def control_projects_def)
qed

lemma users_change_good:
  assumes inv: "backend_inv s" and t: "t = s\<lparr>gen := g, users := us, locks := l\<rparr>"
    and adv: "users_advance (users s) us" and db: "db_inv t"
  shows "good s t"
  using users_frame[OF t adv] backend_inv_D[OF inv] db by (intro goodI[OF inv]) (simp_all add: org_inv_def)

definition renamed :: "PgUpdateUser \<Rightarrow> db \<Rightarrow> user_row \<Rightarrow> user_row" where
  "renamed uu s u = (if usr_external_id u = puu_ExternalID uu \<and> usr_etag u = puu_ETag uu
     then u\<lparr>usr_name := (if puu_FieldName uu then puu_Name uu else usr_name u),
       usr_updated_at := Some (clock s), usr_etag := g_uuids (gen s) (g_uuid_pos (gen s))\<rparr> else u)"

lemma renamed_same [simp]:
  "usr_id (renamed uu s u) = usr_id u" "usr_external_id (renamed uu s u) = usr_external_id u"
  "usr_email (renamed uu s u) = usr_email u" "same_user u (renamed uu s u)"
  by (simp_all add: renamed_def same_user_def)

lemma pguser_UpdateUser_cases:
  assumes inv: "db_inv s" and q: "pguser_UpdateUser uu s = (r, t)"
  shows "(\<exists>e. r = Inl e \<and> same_tables s t) \<or>
    (\<exists>u g. r = Inr (renamed uu s u) \<and> u \<in> set (users s) \<and> usr_external_id u = puu_ExternalID uu \<and>
      usr_etag u = puu_ETag uu \<and> t = s\<lparr>gen := g, users := map (renamed uu s) (users s)\<rparr> \<and>
      (\<forall>w \<in> set (users s). w \<noteq> u \<longrightarrow> usr_etag w \<noteq> usr_etag (renamed uu s u)))"
proof -
  let ?hit = "\<lambda>u. usr_external_id u = puu_ExternalID uu \<and> usr_etag u = puu_ETag uu"
  let ?etag = "g_uuids (gen s) (g_uuid_pos (gen s))"
  let ?clash = "\<exists>u \<in> set (users s). \<not> ?hit u \<and> usr_etag u = ?etag"
  have d: "distinct (map usr_external_id (users s))" using inv by (simp add: db_inv_def users_ok_def)
  show ?thesis
  proof (cases "filter ?hit (users s) = []")
    case True
    then have "t = s" "\<exists>e. r = Inl e" using q
      by (auto simp: pguser_UpdateUser_def updateUserQuery_def Let_def queueOne_def prog_defs atomic_def collectOne_def
          split: list.splits)
    then show ?thesis by auto
  next
    case False
    then obtain u where u: "u \<in> set (users s)" "?hit u" by (auto simp: filter_empty_conv)
    have only: "w = u" if "w \<in> set (users s)" "?hit w" for w
      using distinct_key_unique[OF d that(1) u(1)] that(2) u(2) by simp
    have "filter (\<lambda>w. usr_external_id w = usr_external_id u \<and> usr_etag w = puu_ETag uu) (users s) = [u]"
    proof -
      have "filter (\<lambda>w. usr_external_id w = usr_external_id u \<and> usr_etag w = puu_ETag uu) (users s) =
          filter (\<lambda>w. usr_external_id w = usr_external_id u) (users s)"
        using only u(2) distinct_key_unique[OF d _ u(1)] by (intro filter_cong) auto
      then show ?thesis using filter_eq_single[OF d u(1)] by simp
    qed
    then have f: "filter ?hit (users s) = [u]" using u(2) by simp
    have upd: "renamed uu s u = u\<lparr>usr_name := (if puu_FieldName uu then puu_Name uu else usr_name u),
        usr_updated_at := Some (clock s), usr_etag := ?etag\<rparr>" using u(2) by (simp add: renamed_def)
    have m: "map (\<lambda>u. if ?hit u then u\<lparr>usr_name := (if puu_FieldName uu then puu_Name uu else usr_name u),
        usr_updated_at := Some (clock s), usr_etag := ?etag\<rparr> else u) us = map (renamed uu s) us" for us
      by (simp add: renamed_def)
    show ?thesis
    proof (cases ?clash)
      case True
      with q f have "\<exists>e g. r = Inl e \<and> t = s\<lparr>gen := g\<rparr>"
        by (auto simp: pguser_UpdateUser_def updateUserQuery_def Let_def queueOne_def prog_defs atomic_def
            gen_random_uuid_def violations split: if_split_asm)
      then show ?thesis by auto
    next
      case False
      with q f have "r = Inr (renamed uu s u) \<and> (\<exists>g. t = s\<lparr>gen := g, users := map (renamed uu s) (users s)\<rparr>)"
        unfolding upd m[symmetric]
        by (auto simp: pguser_UpdateUser_def updateUserQuery_def Let_def queueOne_def prog_defs atomic_def
            gen_random_uuid_def violations collectOne_def split: if_split_asm cong: if_cong)
      moreover have "\<forall>w \<in> set (users s). w \<noteq> u \<longrightarrow> usr_etag w \<noteq> usr_etag (renamed uu s u)"
        using False only upd by auto
      ultimately show ?thesis using u by auto
    qed
  qed
qed

lemma db_inv_renamed:
  assumes inv: "db_inv s" and u: "u \<in> set (users s)" "usr_external_id u = puu_ExternalID uu" "usr_etag u = puu_ETag uu"
    and new: "\<forall>w \<in> set (users s). w \<noteq> u \<longrightarrow> usr_etag w \<noteq> usr_etag (renamed uu s u)"
  shows "db_inv (s\<lparr>gen := g, users := map (renamed uu s) (users s)\<rparr>)"
proof -
  have d: "distinct (map usr_external_id (users s))" "distinct (map usr_etag (users s))" "distinct (users s)"
    using inv by (auto simp: db_inv_def users_ok_def distinct_map)
  have other: "renamed uu s w = w" if "w \<in> set (users s)" "w \<noteq> u" for w
    using distinct_key_unique[OF d(1) that(1) u(1)] that(2) u(2) by (auto simp: renamed_def)
  have "inj_on (\<lambda>w. usr_etag (renamed uu s w)) (set (users s))"
  proof (rule inj_onI)
    fix v w assume v: "v \<in> set (users s)" and w: "w \<in> set (users s)"
      and e: "usr_etag (renamed uu s v) = usr_etag (renamed uu s w)"
    show "v = w"
    proof (cases "v = u \<or> w = u")
      case True
      then show ?thesis using new v w e other by metis
    next
      case False
      then have "usr_etag v = usr_etag w" using e other v w by simp
      then show ?thesis using distinct_key_unique[OF d(2) v w] by simp
    qed
  qed
  then have "distinct (map usr_etag (map (renamed uu s) (users s)))"
    using d(3) by (simp add: distinct_map comp_def)
  moreover have "map usr_id (map (renamed uu s) us) = map usr_id us"
    "map usr_external_id (map (renamed uu s) us) = map usr_external_id us"
    "map usr_email (map (renamed uu s) us) = map usr_email us" for us by simp_all
  ultimately have "users_ok (map (renamed uu s) (users s))"
    using inv unfolding users_ok_def db_inv_def by (simp only:)
  moreover have "usr_id ` renamed uu s ` us = usr_id ` us" for us by (simp add: image_image)
  ultimately show ?thesis using inv by (simp add: db_inv_def)
qed

lemma UpdateUser_good:
  assumes inv: "backend_inv s" and q: "UpdateUser uu s = (r, t)" shows "good s t"
proof (cases "UpdateUser_Validate uu")
  case (Inl e)
  then have "t = s" using q by (simp add: UpdateUser_def andThen_def liftS_def)
  then show ?thesis using good_refl[OF inv] by simp
next
  case (Inr w)
  obtain r' t' where p: "pguser_UpdateUser (updateUserToPg uu) s = (r', t')" by fastforce
  have t: "t = t'" using q Inr p
    by (cases r') (auto simp: UpdateUser_def andThen_def liftS_def onError_def ret_def)
  note i = backend_inv_D[OF inv]
  from pguser_UpdateUser_cases[OF i(1) p] show ?thesis
  proof (elim disjE exE conjE)
    fix e assume "same_tables s t'" then show ?thesis using good_same_tables[OF inv] t by blast
  next
    fix u g
    let ?f = "renamed (updateUserToPg uu) s"
    assume u: "u \<in> set (users s)" "usr_external_id u = puu_ExternalID (updateUserToPg uu)"
      "usr_etag u = puu_ETag (updateUserToPg uu)" "\<forall>w \<in> set (users s). w \<noteq> u \<longrightarrow> usr_etag w \<noteq> usr_etag (?f u)"
      and t': "t' = s\<lparr>gen := g, users := map ?f (users s)\<rparr>"
    have "t = s\<lparr>gen := g, users := map ?f (users s), locks := locks s\<rparr>" by (simp add: t t')
    moreover have "users_advance (users s) (map ?f (users s))" by (rule users_advance_map) simp
    moreover have "db_inv t" unfolding t t' by (rule db_inv_renamed[OF i(1) u])
    ultimately show ?thesis by (rule users_change_good[OF inv])
  qed
qed

lemma CreateUser_good:
  assumes inv: "backend_inv s" and q: "CreateUser pa cu s = (r, t)" shows "good s t"
proof -
  let ?cu = "cu\<lparr>cu_Email := toLower (trimSpace (cu_Email cu))\<rparr>"
  obtain r' t' where p: "pguser_CreateUser (createUserToPg ?cu) s = (r', t')" by fastforce
  have t: "t = s \<or> t = t'" using q p
    by (cases r'; cases "CreateUser_Validate pa ?cu")
      (auto simp: CreateUser_def Let_def andThen_def liftS_def onError_def ret_def)
  have "good s t'"
  proof (cases r')
    case (Inl e)
    with p have "\<exists>g. t' = s\<lparr>gen := g\<rparr>"
      by (auto simp: pguser_CreateUser_def createUserQuery_def queueOne_def andThen_Inl_iff andThen_Inr_iff
          atomic_Inl_iff insert_user_Inr_iff collectOne_def)
    then show ?thesis using good_same_tables[OF inv, of t'] by auto
  next
    case (Inr u)
    with p have "pguser_CreateUser (createUserToPg ?cu) s = (Inr u, t')" by simp
    from pguser_CreateUser_Inr(6,7)[OF this] obtain g where new: "\<not> user_conflict u (users s)"
      and t': "t' = s\<lparr>users := users s @ [u], gen := g\<rparr>" by blast
    have "db_inv (s\<lparr>users := users s @ [u]\<rparr>)" by (rule db_inv_add_user[OF backend_inv_D(1)[OF inv] new])
    then have "db_inv t'" by (simp add: t' db_inv_def)
    then show ?thesis
      by (intro users_change_good[OF inv, where g = g and us = "users s @ [u]" and l = "locks s"]) (simp_all add: t')
  qed
  then show ?thesis using t good_refl[OF inv] by blast
qed

section \<open>Tokens\<close>

lemma good_trans: "good s t \<Longrightarrow> good t w \<Longrightarrow> good s w"
  unfolding good_def using advances_trans by blast

lemma on_tables_backend_inv [simp]: "on_tables backend_inv"
  unfolding on_tables_def backend_inv_def by simp

lemma on_tables_good [simp]: "on_tables (good s)"
  unfolding on_tables_def good_def by simp

lemma preserves_good:
  assumes "\<And>s. backend_inv s \<Longrightarrow> good s (snd (m s))" shows "preserves (good s0) m"
proof (rule preservesI)
  fix s assume g: "good s0 s"
  then have "good s (snd (m s))" using assms by (simp add: good_def)
  with g show "good s0 (snd (m s))" by (rule good_trans)
qed

lemma tokens_frame:
  assumes inv: "backend_inv s" and T: "T = magic_links \<or> T = refreshes"
    and ok: "tokens_ok (user_ids s) (tt_rows T s) \<Longrightarrow> tokens_ok (user_ids s) (f (tt_rows T s))"
    and adv: "tokens_advance (tt_rows T s) (f (tt_rows T s))"
  shows "good s (tt_update T f s)" (is "good s ?t")
proof -
  note i = backend_inv_D[OF inv]
  have m: "keeps_managed s ?t" using T by (intro keeps_managed_frame) (auto simp: magic_links_def refreshes_def)
  have "db_inv ?t" using T i(1) ok by (auto simp: db_inv_def magic_links_def refreshes_def)
  moreover have "rbac_inv ?t" by (rule rbac_inv_same[OF i(2)]) (use T in \<open>auto simp: magic_links_def refreshes_def\<close>)
  moreover have "control_inv ?t" by (rule control_inv_same[OF i(3)]) (use T in \<open>auto simp: magic_links_def refreshes_def\<close>)
  moreover have "advances s ?t" using T adv m
    by (auto simp: advances_def fixed_tables_def growing_tables_def magic_links_def refreshes_def)
  ultimately show ?thesis
    by (intro goodI[OF inv]) (use T in \<open>auto simp: org_inv_def magic_links_def refreshes_def\<close>)
qed

lemma close_tokens_good:
  assumes T: "T = magic_links \<or> T = refreshes" and hit: "\<And>s r. hit s r \<Longrightarrow> tok_closed_at r = None"
  shows "preserves (good s0) (close_tokens T hit)"
proof (rule preserves_good)
  fix s assume inv: "backend_inv s"
  have "good s (tt_update T (map (\<lambda>r. if hit s r then close_token (clock s) r else r)) s)"
    by (rule tokens_frame[OF inv T]) (simp_all add: tokens_ok_close tokens_advance_close hit)
  then show "good s (snd (close_tokens T hit s))" by (simp add: close_tokens_eq)
qed

lemma insert_tokens_good:
  assumes T: "T = magic_links \<or> T = refreshes"
  shows "backend_inv s \<Longrightarrow> set us \<subseteq> set (users s) \<Longrightarrow> good s (snd (insert_tokens T ct us s))"
proof (induction us arbitrary: s)
  case Nil
  then show ?case by (simp add: ret_def good_refl)
next
  case (Cons u us)
  obtain i g where nx: "tt_next T s = (Inr i, s\<lparr>gen := g\<rparr>)" using T ml.next_gen rf.next_gen by metis
  let ?r = "\<lparr>tok_id = i, tok_user_id = usr_id u, tok_hash = pct_TokenHash ct,
             tok_expires_at = pct_ExpiresAt ct, tok_closed_at = None, tok_created_at = clock s\<rparr>"
  let ?s1 = "s\<lparr>gen := g\<rparr>"
  have inv1: "backend_inv ?s1" and g1: "good s ?s1" using Cons.prems(1) good_refl[of s] by simp_all
  have rows: "tt_rows T ?s1 = tt_rows T s" using T ml.rows_gen rf.rows_gen by metis
  show ?case
  proof (cases "token_conflict ?r (tt_rows T s)")
    case True
    then have "snd (insert_tokens T ct (u # us) s) = ?s1"
      by (simp add: andThen_def nx reads_def insert_token_def rows violations throw_def Let_def)
    then show ?thesis using g1 by simp
  next
    case False
    let ?s2 = "tt_update T (\<lambda>rs. rs @ [?r]) ?s1"
    have "good ?s1 ?s2"
      by (rule tokens_frame[OF inv1 T]) (use False Cons.prems(2) in \<open>simp_all add: rows tokens_ok_insert\<close>)
    then have g2: "good s ?s2" using g1 by (rule good_trans[rotated])
    have "users ?s2 = users s" using T ml.frame_update(1)[of _ ?s1] rf.frame_update(1)[of _ ?s1] by auto
    then have "good ?s2 (snd (insert_tokens T ct us ?s2))" using Cons g2 by (simp add: good_def)
    moreover have "snd (insert_tokens T ct (u # us) s) = snd (insert_tokens T ct us ?s2)"
      using False by (simp add: andThen_def nx reads_def insert_token_def rows updates_def ret_def Let_def
          split: prod.split sum.split)
    ultimately show ?thesis using good_trans[OF g2] by simp
  qed
qed

lemma create_token_good:
  assumes "T = magic_links \<or> T = refreshes" shows "preserves (good s0) (create_token T ct)"
  by (rule preserves_good)
    (simp add: create_token_def andThen_def reads_def insert_tokens_good[OF assms])

lemma MarkEmailVerified_good: "preserves (good s0) (pguser_MarkEmailVerified x)"
proof -
  have "good s (s\<lparr>users := map f (users s)\<rparr>)"
    if inv: "backend_inv s" and f: "f = (\<lambda>u. if usr_external_id u = x then u\<lparr>usr_email_verified_at := v u\<rparr> else u)" for s v f
  proof -
    have same: "usr_id (f u) = usr_id u" "usr_external_id (f u) = usr_external_id u" "usr_email (f u) = usr_email u"
      "usr_etag (f u) = usr_etag u" "usr_created_at (f u) = usr_created_at u" for u by (simp_all add: f)
    have "users_ok (map f us) = users_ok us" "usr_id ` f ` set us = usr_id ` set us" for us
      by (simp_all add: users_ok_def comp_def same image_image)
    then have "db_inv (s\<lparr>users := map f (users s)\<rparr>)" using backend_inv_D(1)[OF inv] by (simp add: db_inv_def)
    moreover have "users_advance (users s) (map f (users s))"
      by (rule users_advance_map) (simp add: same_user_def same)
    ultimately show ?thesis
      by (intro users_change_good[OF inv, where g = "gen s" and us = "map f (users s)" and l = "locks s"]) simp_all
  qed
  then show ?thesis
    unfolding pguser_MarkEmailVerified_def markEmailVerifiedQuery_def Let_def Queue_simp
    by (intro pres_intros preserves_queueOne preserves_good on_tables_good)
      (simp add: andThen_def reads_def updates_def ret_def)
qed

end
