(* ===== verification/System.thy ===== *)
theory System
  imports AdvanceAuth
begin

text \<open>
  The backend as a state machine: any sequence of calls of its services, by any caller and with any
  arguments, environment and context, while the clock of the database moves on. What holds of single
  calls gives invariants of every reachable state and of every history.
\<close>

section \<open>Authentication calls\<close>

lemma preserves_attempt [pres_intros]: "preserves I m \<Longrightarrow> preserves I (attempt m)"
  by (simp add: preserves_def attempt_def split: prod.splits) (metis snd_conv)

lemma preserves_case_sum [pres_intros]:
  "(\<And>e. preserves I (f e)) \<Longrightarrow> (\<And>x. preserves I (g x)) \<Longrightarrow> preserves I (case r of Inl e \<Rightarrow> f e | Inr x \<Rightarrow> g x)"
  by (cases r) auto

lemma Queue_good: "preserves (good s0) (tq_SQL q) \<Longrightarrow> preserves (good s0) (Queue q)"
  unfolding Queue_def by (intro pres_intros preserves_queueOne on_tables_good)

lemma QueueMany_good: "preserves (good s0) (tq_SQL q) \<Longrightarrow> preserves (good s0) (QueueMany q)"
  unfolding QueueMany_def by (intro pres_intros preserves_atomic on_tables_good)

lemmas query_goods = Queue_good QueueMany_good close_tokens_good create_token_good preserves_run_tx on_tables_good

lemma token_store_good:
  "preserves (good s0) (ConsumeRefreshToken h)" "preserves (good s0) (ConsumeMagicLinkToken i)"
  "preserves (good s0) (InvalidateUserMagicLinkTokens i)" "preserves (good s0) (pg_RevokeAllUserRefreshTokens x)"
  "preserves (good s0) (CreateRefreshToken ct)" "preserves (good s0) (CreateMagicLinkToken ct)"
  "preserves (good s0) (MagicLinkTokenByHash h)" "preserves (good s0) (LatestMagicLinkTokenCreatedAt i)"
  "preserves (good s0) (pguser_UserByEmail e)" "preserves (good s0) (LockUser i)"
  unfolding ConsumeRefreshToken_def consumeRefreshTokenQuery_def ConsumeMagicLinkToken_def consumeMagicLinkTokenQuery_def
    InvalidateUserMagicLinkTokens_def invalidateUserMagicLinkTokensQuery_def pg_RevokeAllUserRefreshTokens_def
    revokeAllUserRefreshTokensQuery_def CreateRefreshToken_def createRefreshTokenQuery_def CreateMagicLinkToken_def
    createMagicLinkTokenQuery_def MagicLinkTokenByHash_def magicLinkTokenByHashQuery_def
    LatestMagicLinkTokenCreatedAt_def latestMagicLinkTokenCreatedAtQuery_def pguser_UserByEmail_def
    userByEmailQuery_def LockUser_def RunExec_def
  by (intro pres_intros query_goods preserves_atomic; simp add: token_open_def pres_intros query_goods)+

lemma issueTokenPair_good: "preserves (good s0) (issueTokenPair cfg env i x)"
  unfolding issueTokenPair_def Let_def by (intro pres_intros token_store_good)

lemma auth_calls_good:
  "preserves (good s0) (MagicLinkToken pa cfg env email)" "preserves (good s0) (VerifyMagicLink cfg env tok)"
  "preserves (good s0) (RefreshAccessToken cfg env tok)" "preserves (good s0) (RevokeRefreshToken tok)"
  "preserves (good s0) (RevokeAllUserRefreshTokens x)"
  unfolding MagicLinkToken_def rateLimitReached_def VerifyMagicLink_def RefreshAccessToken_def RevokeRefreshToken_def
    RevokeAllUserRefreshTokens_def
  by (intro pres_intros query_goods token_store_good issueTokenPair_good MarkEmailVerified_good)+

section \<open>Steps\<close>

datatype call =
    RoleCall "AuthSession option" role_call
  | OrgCall "AuthSession option" org_call
  | AssignSystem "AuthSession option" uuid string
  | UnassignSystem "AuthSession option" uuid string
  | BootstrapAssignSystem uuid string
  | UserCreate CreateUser
  | UserUpdate UpdateUser
  | RequestLink env string
  | VerifyLink env string
  | Refresh env string
  | Revoke string
  | RevokeAll uuid

primrec run_call :: "address_parser \<Rightarrow> Config \<Rightarrow> call \<Rightarrow> unit op" where
  "run_call pa cfg (RoleCall ctx c) = run_role_call ctx c"
| "run_call pa cfg (OrgCall ctx c) = run_org_call pa ctx c"
| "run_call pa cfg (AssignSystem ctx x n) = AssignSystemRole ctx x n"
| "run_call pa cfg (UnassignSystem ctx x n) = UnassignSystemRole ctx x n"
| "run_call pa cfg (BootstrapAssignSystem x n) = BootstrapAssignSystemRole x n"
| "run_call pa cfg (UserCreate cu) = andThen (CreateUser pa cu) (\<lambda>_. ret ())"
| "run_call pa cfg (UserUpdate uu) = andThen (UpdateUser uu) (\<lambda>_. ret ())"
| "run_call pa cfg (RequestLink env e) = andThen (MagicLinkToken pa cfg env e) (\<lambda>_. ret ())"
| "run_call pa cfg (VerifyLink env tok) = andThen (VerifyMagicLink cfg env tok) (\<lambda>_. ret ())"
| "run_call pa cfg (Refresh env tok) = andThen (RefreshAccessToken cfg env tok) (\<lambda>_. ret ())"
| "run_call pa cfg (Revoke tok) = RevokeRefreshToken tok"
| "run_call pa cfg (RevokeAll x) = RevokeAllUserRefreshTokens x"

inductive step :: "address_parser \<Rightarrow> Config \<Rightarrow> db \<Rightarrow> db \<Rightarrow> bool" for pa cfg where
  call: "run_call pa cfg c s = (r, t) \<Longrightarrow> step pa cfg s t"
| tick: "clock s \<le> now \<Longrightarrow> step pa cfg s (s\<lparr>clock := now\<rparr>)"

inductive reaches :: "address_parser \<Rightarrow> Config \<Rightarrow> db \<Rightarrow> db \<Rightarrow> bool" for pa cfg s where
  start: "reaches pa cfg s s"
| next_step: "reaches pa cfg s t \<Longrightarrow> step pa cfg t w \<Longrightarrow> reaches pa cfg s w"

inductive_cases stepE: "step pa cfg s t"

lemma reaches_call: "run_call pa cfg c s = (r, t) \<Longrightarrow> reaches pa cfg s t"
  using start call by (rule next_step)

lemma reaches_trans: "reaches pa cfg t w \<Longrightarrow> reaches pa cfg s t \<Longrightarrow> reaches pa cfg s w"
  by (induction rule: reaches.induct) (simp_all add: reaches.next_step)

section \<open>Invariants of reachable states\<close>

lemma call_good: "preserves (good s0) (run_call pa cfg c)"
proof (cases c)
  case (RoleCall ctx rc)
  show ?thesis unfolding RoleCall run_call.simps
    by (rule preserves_good) (metis prod.collapse role_call_good)
next
  case (OrgCall ctx oc)
  show ?thesis unfolding OrgCall run_call.simps
    by (rule preserves_good) (metis prod.collapse org_call_good)
next
  case (AssignSystem ctx x n)
  show ?thesis unfolding AssignSystem run_call.simps
    by (rule preserves_good) (metis prod.collapse AssignSystemRole_good)
next
  case (UnassignSystem ctx x n)
  show ?thesis unfolding UnassignSystem run_call.simps
    by (rule preserves_good) (metis prod.collapse UnassignSystemRole_good)
next
  case (BootstrapAssignSystem x n)
  show ?thesis unfolding BootstrapAssignSystem run_call.simps
    by (rule preserves_good) (metis prod.collapse BootstrapAssignSystemRole_good)
next
  case (UserCreate cu)
  show ?thesis unfolding UserCreate run_call.simps
    by (intro pres_intros preserves_good) (metis prod.collapse CreateUser_good)
next
  case (UserUpdate uu)
  show ?thesis unfolding UserUpdate run_call.simps
    by (intro pres_intros preserves_good) (metis prod.collapse UpdateUser_good)
qed (simp_all only: run_call.simps, (intro pres_intros auth_calls_good)+)

lemma tick_good: "backend_inv s \<Longrightarrow> clock s \<le> now \<Longrightarrow> good s (s\<lparr>clock := now\<rparr>)"
proof -
  assume inv: "backend_inv s" and c: "clock s \<le> now"
  let ?t = "s\<lparr>clock := now\<rparr>"
  have "keeps_managed s ?t" by (rule keeps_managed_frame) simp_all
  then have "advances s ?t" using c by (simp add: advances_def fixed_tables_def growing_tables_def)
  moreover have "org_inv ?t"
    using backend_inv_D[OF inv] rbac_inv_same[of s ?t] control_inv_same[of s ?t] by (simp add: org_inv_def db_inv_def)
  ultimately show ?thesis by (intro goodI[OF inv]) simp_all
qed

lemma step_good: "backend_inv s \<Longrightarrow> step pa cfg s t \<Longrightarrow> good s t"
proof (erule stepE)
  fix c r assume "backend_inv s" "run_call pa cfg c s = (r, t)"
  then show "good s t" using preservesD[OF call_good] good_refl by blast
qed (simp add: tick_good)

lemma reaches_good: "reaches pa cfg s t \<Longrightarrow> backend_inv s \<Longrightarrow> good s t"
proof (induction rule: reaches.induct)
  case start
  then show ?case by (rule good_refl)
next
  case (next_step t w)
  then have "good s t" by blast
  moreover from this have "good t w" using step_good next_step.hyps(2) by (auto simp: good_def)
  ultimately show ?case by (rule good_trans)
qed

end
