(* ===== verification/SystemProps.thy ===== *)
theory SystemProps
  imports System
begin

text \<open>
  Properties of whole histories: the invariants of every reachable state, what is never lost, and tokens
  that are refused for ever once they have been used, revoked or replaced.
\<close>

section \<open>Invariants\<close>

text \<open>C22: whatever sequence of calls the backend serves, its database keeps the constraints of the schema, no
  custom role carries a system-only permission and no project assignment a permission above project scope,
  every organization has exactly one control project, and at least one user holds every registered
  permission at system scope.\<close>

theorem reachable_invariants:
  assumes "db_inv s" "rbac_inv s" "control_inv s" "has_admin s" and "reaches pa cfg s t"
  shows "db_inv t \<and> rbac_inv t \<and> control_inv t \<and> has_admin t"
proof -
  have "backend_inv s" using assms by (simp add: backend_inv_def org_inv_def)
  then have "backend_inv t" using reaches_good[OF assms(5)] by (simp add: good_def)
  then show ?thesis by (simp add: backend_inv_def org_inv_def)
qed

lemma demo_has_admin: "has_admin demo_db"
proof -
  have cov: "\<forall>n \<in> snd ` set (permissions demo_db). \<exists>i \<in> snd ` set (system_role_permissions demo_db).
      (1, i) \<in> set (system_role_permissions demo_db) \<and> (i, n) \<in> set (permissions demo_db)" by code_simp
  have asg: "(1, 1) \<in> set (system_role_assignments demo_db)" by code_simp
  have "holds_system demo_db 1 n" if n: "n \<in> snd ` set (permissions demo_db)" for n
  proof -
    from bspec[OF cov n] obtain i where "(1, i) \<in> set (system_role_permissions demo_db)"
      "(i, n) \<in> set (permissions demo_db)" by (elim bexE conjE)
    then have "system_role_has demo_db 1 n" unfolding system_role_has_def by (intro exI[of _ i] conjI)
    with asg show ?thesis unfolding holds_system_def by (intro exI[of _ 1] conjI)
  qed
  moreover have "1 \<in> user_ids demo_db" by code_simp
  ultimately have "fully_privileged demo_db 1" by (simp only: fully_privileged_def) blast
  then show ?thesis unfolding has_admin_def by (rule exI)
qed

theorem reachable_invariants_witness:
  "has_admin (snd (run_call (\<lambda>a. Some a) demo_cfg (UnassignSystem (Some (demo_session 101 1 1)) 102 ''superadmin'') demo_db)) \<and>
   fst (run_call (\<lambda>a. Some a) demo_cfg (UnassignSystem (Some (demo_session 101 1 1)) 102 ''superadmin'') demo_db) = Inr ()"
proof
  let ?c = "UnassignSystem (Some (demo_session 101 1 1)) 102 ''superadmin''"
  let ?r = "run_call (\<lambda>a. Some a) demo_cfg ?c demo_db"
  show "fst ?r = Inr ()" by code_simp
  have "reaches (\<lambda>a. Some a) demo_cfg demo_db (snd ?r)"
    by (rule reaches_call[of "\<lambda>a. Some a" demo_cfg ?c demo_db "fst ?r"]) simp
  from reachable_invariants[OF demo_db_inv demo_rbac_inv demo_control_inv demo_has_admin this]
  show "has_admin (snd ?r)" by blast
qed

section \<open>History\<close>

text \<open>C26: the administrator role of an organization, once created, is there in every later state with the
  identifiers and the organization it had, and with exactly the permissions it had.\<close>

theorem admin_role_survives:
  assumes "db_inv s" "rbac_inv s" "control_inv s" "has_admin s" and "reaches pa cfg s t"
    and "m \<in> set (custom_roles s)" "rol_managed_key m = Some k"
  shows "\<exists>m' \<in> set (custom_roles t). rol_id m' = rol_id m \<and> rol_external_id m' = rol_external_id m \<and>
    rol_org_id m' = rol_org_id m \<and> rol_managed_key m' = Some k \<and>
    (\<forall>n. role_has t (rol_id m') n = role_has s (rol_id m) n)"
proof -
  have "backend_inv s" using assms by (simp add: backend_inv_def org_inv_def)
  then have "keeps_managed s t" using reaches_good[OF assms(5)] by (simp add: good_def advances_def)
  then obtain m' where "m' \<in> set (custom_roles t)" "same_role m m'"
    "\<forall>n. role_has t (rol_id m) n = role_has s (rol_id m) n" using assms(6,7) unfolding keeps_managed_def by blast
  then show ?thesis using assms(7) by (intro bexI[of _ m']) (simp_all add: same_role_def)
qed

theorem admin_role_survives_witness:
  "\<exists>m' \<in> set (custom_roles (snd (run_call (\<lambda>a. Some a) demo_cfg
      (RoleCall (Some (demo_session 102 4 2)) (CallDelete 403)) demo_db))).
    rol_external_id m' = 403 \<and> rol_managed_key m' = Some ManagedRoleKeyOrganizationAdmin"
proof -
  let ?c = "RoleCall (Some (demo_session 102 4 2)) (CallDelete 403)"
  let ?r = "run_call (\<lambda>a. Some a) demo_cfg ?c demo_db"
  let ?m = "demo_role 3 403 ''Organization Administrator'' 2 (Some ManagedRoleKeyOrganizationAdmin) 503"
  have m: "?m \<in> set (custom_roles demo_db)" "rol_managed_key ?m = Some ManagedRoleKeyOrganizationAdmin"
    "rol_external_id ?m = 403" by (simp_all add: demo_defs)
  have "reaches (\<lambda>a. Some a) demo_cfg demo_db (snd ?r)"
    by (rule reaches_call[of "\<lambda>a. Some a" demo_cfg ?c demo_db "fst ?r"]) simp
  from admin_role_survives[OF demo_db_inv demo_rbac_inv demo_control_inv demo_has_admin this m(1,2)] m(3)
  show ?thesis by metis
qed

text \<open>C27: no call ever removes or re-identifies a user, an organization, a project or a membership, and none
  touches the permission registry or what the system roles carry.\<close>

theorem nothing_is_lost:
  assumes "db_inv s" "rbac_inv s" "control_inv s" "has_admin s" and "reaches pa cfg s t"
  shows "(\<forall>u \<in> set (users s). \<exists>v \<in> set (users t). usr_id v = usr_id u \<and>
      usr_external_id v = usr_external_id u \<and> usr_email v = usr_email u) \<and>
    set (organizations s) \<subseteq> set (organizations t) \<and> set (projects s) \<subseteq> set (projects t) \<and>
    set (org_membership s) \<subseteq> set (org_membership t) \<and> permissions t = permissions s \<and>
    system_roles t = system_roles s \<and> system_role_permissions t = system_role_permissions s"
proof -
  have "backend_inv s" using assms by (simp add: backend_inv_def org_inv_def)
  then have "advances s t" using reaches_good[OF assms(5)] by (simp add: good_def)
  then have g: "growing_tables s t" and f: "fixed_tables s t" and u: "users_advance (users s) (users t)"
    by (simp_all add: advances_def)
  have "\<forall>u \<in> set (users s). \<exists>v \<in> set (users t). usr_id v = usr_id u \<and>
      usr_external_id v = usr_external_id u \<and> usr_email v = usr_email u"
    using u unfolding users_advance_def same_user_def by blast
  with g f show ?thesis by (simp add: growing_tables_def fixed_tables_def)
qed

theorem nothing_is_lost_witness:
  "set (org_membership demo_db) \<subseteq> set (org_membership (snd (run_call (\<lambda>a. Some a) demo_cfg
      (OrgCall (Some (demo_session 102 4 2)) (CallCreateOrganizationUser ''eve@x'')) demo_db)))"
proof -
  let ?c = "OrgCall (Some (demo_session 102 4 2)) (CallCreateOrganizationUser ''eve@x'')"
  have "reaches (\<lambda>a. Some a) demo_cfg demo_db (snd (run_call (\<lambda>a. Some a) demo_cfg ?c demo_db))"
    by (rule reaches_call[of "\<lambda>a. Some a" demo_cfg ?c demo_db]) (rule prod.collapse[symmetric])
  from nothing_is_lost[OF demo_db_inv demo_rbac_inv demo_control_inv demo_has_admin this] show ?thesis by blast
qed

end
