(* ===== verification/TokenLife.thy ===== *)
theory TokenLife
  imports SystemProps
begin

text \<open>
  Tokens over whole histories: a token that was used, revoked, replaced or has expired is refused in every
  state the backend can reach afterwards.
\<close>

section \<open>Dead tokens\<close>

definition dead :: "token_row list \<Rightarrow> time \<Rightarrow> string \<Rightarrow> bool" where
  "dead rs now h \<longleftrightarrow> (\<exists>r \<in> set rs. tok_hash r = h \<and> \<not> token_open now r)"

lemma dead_advance:
  assumes "dead rs now h" "tokens_advance rs qs" "now \<le> later" shows "dead qs later h"
proof -
  from assms(1) obtain r where r: "r \<in> set rs" "tok_hash r = h" "\<not> token_open now r" by (auto simp: dead_def)
  then obtain q where q: "q \<in> set qs" "same_token r q" using assms(2) by (auto simp: tokens_advance_def)
  then have "tok_hash q = h" "\<not> token_open later q" using r(2,3) assms(3)
    by (auto simp: same_token_def token_open_def)
  with q(1) show ?thesis by (auto simp: dead_def)
qed

lemma dead_not_open:
  assumes "distinct (map tok_hash rs)" "dead rs now h" "r \<in> set rs" "tok_hash r = h"
  shows "\<not> token_open now r"
  using assms by (auto simp: dead_def dest: distinct_key_unique)

lemma dead_refresh_refused:
  assumes inv: "db_inv s" and d: "dead (refresh_tokens s) (clock s) (hashToken tok)" and ne: "tok \<noteq> []"
  shows "fst (RefreshAccessToken cfg env tok s) = Inl ErrTokenInvalid \<and>
    fst (RevokeRefreshToken tok s) = Inl ErrTokenInvalid"
proof -
  have u: "distinct (map tok_hash (refresh_tokens s))" using inv by (simp add: db_inv_def tokens_ok_def)
  obtain t where "ConsumeRefreshToken (hashToken tok) s = (Inl SqlErrNoRows, t)"
    using ConsumeRefreshToken_none[of s "hashToken tok"] dead_not_open[OF u d] by blast
  then show ?thesis using ne
    by (simp add: RefreshAccessToken_def RevokeRefreshToken_def RefreshToken_Validate_def prog_defs run_tx_def
        atomic_def tokenInvalid_def)
qed

lemma dead_link_refused:
  assumes inv: "db_inv s" and d: "dead (magic_link_tokens s) (clock s) (hashToken tok)" and ne: "tok \<noteq> []"
  shows "fst (VerifyMagicLink cfg env tok s) = Inl ErrTokenInvalid"
proof -
  have u: "distinct (map tok_hash (magic_link_tokens s))" using inv by (simp add: db_inv_def tokens_ok_def)
  have "MagicLinkTokenByHash (hashToken tok) s = (Inl SqlErrNoRows, s)"
    using MagicLinkTokenByHash_none[of s "hashToken tok"] dead_not_open[OF u d] by blast
  then show ?thesis using ne
    by (simp add: VerifyMagicLink_def VerifyMagicLink_Validate_def prog_defs tokenInvalid_def)
qed

text \<open>A successful call leaves the token it used dead.\<close>

lemma closed_dead:
  "r \<in> set (tt_rows refreshes s) \<Longrightarrow> hit s r \<Longrightarrow> dead (tt_rows refreshes (rf.closed_state hit s)) now (tok_hash r)"
  "r \<in> set (tt_rows magic_links s) \<Longrightarrow> hit s r \<Longrightarrow> dead (tt_rows magic_links (ml.closed_state hit s)) now (tok_hash r)"
  unfolding dead_def rf.rows_update ml.rows_update by (auto intro!: bexI[of _ "close_token (clock s) r"] image_eqI[of _ _ r])

lemma dead_append: "dead rs now h \<Longrightarrow> dead (rs @ qs) now h"
  by (auto simp: dead_def)

lemma Consume_dead:
  assumes inv: "db_inv s" and q: "ConsumeRefreshToken h s = (Inr v, t)"
  shows "dead (refresh_tokens t) now h"
proof -
  from ConsumeRefreshToken_Inr[OF inv q] obtain r u where r: "r \<in> set (refresh_tokens s)" "tok_hash r = h"
    "token_open (clock s) r" "u \<in> set (users s)" "usr_id u = tok_user_id r"
    and t: "t = rf.closed_state (consumed h) s" by blast
  have R: "tt_rows refreshes = refresh_tokens" by (simp add: refreshes_def)
  have "consumed h s r" using r by (auto simp: token_users_def filter_empty_conv)
  then show ?thesis using closed_dead(1)[of r s "consumed h"] r(1,2) unfolding R t by simp
qed

lemma Refresh_dead:
  assumes inv: "db_inv s" and q: "RefreshAccessToken cfg env tok s = (Inr pair, t)"
  shows "dead (refresh_tokens t) now (hashToken tok)" "tok \<noteq> []"
proof -
  from q obtain v s1 s2 where ne: "tok \<noteq> []" and c: "ConsumeRefreshToken (hashToken tok) s = (Inr v, s1)"
    and i: "issueTokenPair cfg env (ptk_UserID v) (ptk_UserExternalID v) s1 = (Inr pair, s2)" and t: "t = s2\<lparr>locks := []\<rparr>"
    by (auto simp: RefreshAccessToken_def andThen_Inr_iff RefreshToken_Validate_def split: if_splits)
  from ConsumeRefreshToken_Inr[OF inv c] obtain where_state: "s1 = rf.closed_state (consumed (hashToken tok)) s" by blast
  have inv1: "db_inv s1" unfolding where_state by (rule token_states_keep_inv(2)[OF inv])
  from issueTokenPair_Inr[OF inv1 i] obtain r g where "s2 = rf.created_state r g s1" by blast
  then have "refresh_tokens t = refresh_tokens s1 @ [r]" by (simp add: t refreshes_def)
  then show "dead (refresh_tokens t) now (hashToken tok)" using dead_append[OF Consume_dead[OF inv c]] by simp
  show "tok \<noteq> []" by (rule ne)
qed

lemma Verify_dead:
  assumes inv: "db_inv s" and q: "VerifyMagicLink cfg env tok s = (Inr pair, t)"
  shows "dead (magic_link_tokens t) now (hashToken tok) \<and> tok \<noteq> []"
proof (rule VerifyMagicLink_InrE[OF inv q])
  fix r n :: token_row and g f
  let ?hit = "\<lambda>s q. tok_id q = tok_id r \<and> token_open (clock s) q"
  assume r: "r \<in> set (magic_link_tokens s)" "tok_hash r = hashToken tok" "token_open (clock s) r"
    and ne: "tok \<noteq> []"
    and t: "t = (rf.created_state n g ((ml.closed_state ?hit s)\<lparr>users := map f (users s)\<rparr>))\<lparr>locks := []\<rparr>"
  have "magic_link_tokens t = tt_rows magic_links (ml.closed_state ?hit s)"
    by (simp add: t magic_links_def refreshes_def)
  then show "dead (magic_link_tokens t) now (hashToken tok) \<and> tok \<noteq> []"
    using closed_dead(2)[of r s ?hit] r ne by (simp add: magic_links_def)
qed

section \<open>Histories\<close>

lemma dead_for_ever:
  assumes inv: "backend_inv s" and re: "reaches pa cfg s t"
  shows "dead (refresh_tokens s) (clock s) h \<Longrightarrow> dead (refresh_tokens t) (clock t) h"
    "dead (magic_link_tokens s) (clock s) h \<Longrightarrow> dead (magic_link_tokens t) (clock t) h" "db_inv t"
  using reaches_good[OF re inv] dead_advance backend_inv_D(1) by (auto simp: good_def advances_def)

text \<open>A call of the machine leads to a good state, too.\<close>

lemma call_backend_inv: "backend_inv s \<Longrightarrow> run_call pa cfg c s = (r, t) \<Longrightarrow> backend_inv t"
  using reaches_good[OF reaches_call] by (auto simp: good_def)

text \<open>C23: a refresh token works once. After a successful refresh the presented token is refused as invalid by
  refresh and by revocation in every state the backend reaches from then on, whoever calls what.\<close>

theorem used_refresh_token_is_dead:
  assumes "db_inv s" "rbac_inv s" "control_inv s" "has_admin s"
    and q: "RefreshAccessToken cfg env tok s = (Inr pair, t)" and re: "reaches pa cfg t w"
  shows "fst (RefreshAccessToken cfg env' tok w) = Inl ErrTokenInvalid \<and>
    fst (RevokeRefreshToken tok w) = Inl ErrTokenInvalid"
proof -
  have inv: "backend_inv s" using assms(1-4) by (simp add: backend_inv_def org_inv_def)
  have "run_call pa cfg (Refresh env tok) s = (Inr (), t)" using q by (simp add: prog_defs)
  from call_backend_inv[OF inv this] have t: "backend_inv t" .
  have "dead (refresh_tokens w) (clock w) (hashToken tok)"
    by (rule dead_for_ever(1)[OF t re Refresh_dead(1)[OF assms(1) q]])
  then show ?thesis by (rule dead_refresh_refused[OF dead_for_ever(3)[OF t re] _ Refresh_dead(2)[OF assms(1) q]])
qed

lemma demo_auth_invs: "rbac_inv demo_auth_db" "control_inv demo_auth_db" "has_admin demo_auth_db"
proof -
  show "rbac_inv demo_auth_db" by (rule rbac_inv_same[OF demo_rbac_inv]) (simp_all add: demo_auth_db_def)
  show "control_inv demo_auth_db" by (rule control_inv_same[OF demo_control_inv]) (simp_all add: demo_auth_db_def)
  have "fully_privileged demo_auth_db = fully_privileged demo_db"
    by (simp add: fun_eq_iff fully_privileged_def holds_system_def system_role_has_def demo_auth_db_def)
  then show "has_admin demo_auth_db" using demo_has_admin by (simp add: has_admin_def)
qed

lemmas demo_auth_all = demo_auth_inv demo_auth_invs

theorem used_refresh_token_is_dead_witness:
  "fst (RefreshAccessToken demo_cfg demo_env ''rt''
     (snd (RefreshAccessToken demo_cfg demo_env ''rt'' demo_auth_db))) = Inl ErrTokenInvalid"
proof -
  let ?r = "RefreshAccessToken demo_cfg demo_env ''rt'' demo_auth_db"
  have "?r = (Inr \<lparr>tp_AccessToken = ''jwt'', tp_RefreshToken = ''BwcHBwcHBwcHBwcHBwcHBwcHBwcHBwcHBwcHBwcHBwc'', tp_ExpiresIn = 300\<rparr>, snd ?r)"
    using demo_refresh_runs by (simp add: prod_eq_iff)
  from used_refresh_token_is_dead[OF demo_auth_all this start] show ?thesis by blast
qed

text \<open>C24: a magic link works once. After a successful sign-in with it the link is refused as invalid in every
  state the backend reaches from then on.\<close>

theorem used_magic_link_is_dead:
  assumes "db_inv s" "rbac_inv s" "control_inv s" "has_admin s"
    and q: "VerifyMagicLink cfg env tok s = (Inr pair, t)" and re: "reaches pa cfg t w"
  shows "fst (VerifyMagicLink cfg env' tok w) = Inl ErrTokenInvalid"
proof -
  have inv: "backend_inv s" using assms(1-4) by (simp add: backend_inv_def org_inv_def)
  have "run_call pa cfg (VerifyLink env tok) s = (Inr (), t)" using q by (simp add: prog_defs)
  from call_backend_inv[OF inv this] have t: "backend_inv t" .
  have d: "dead (magic_link_tokens t) (clock t) (hashToken tok)" "tok \<noteq> []" using Verify_dead[OF assms(1) q] by auto
  show ?thesis
    by (rule dead_link_refused[OF dead_for_ever(3)[OF t re] dead_for_ever(2)[OF t re d(1)] d(2)])
qed

theorem used_magic_link_is_dead_witness:
  "fst (VerifyMagicLink demo_cfg demo_env ''ml''
     (snd (VerifyMagicLink demo_cfg demo_env ''ml'' demo_auth_db))) = Inl ErrTokenInvalid"
proof -
  let ?r = "VerifyMagicLink demo_cfg demo_env ''ml'' demo_auth_db"
  have "?r = (Inr \<lparr>tp_AccessToken = ''jwt'', tp_RefreshToken = ''BwcHBwcHBwcHBwcHBwcHBwcHBwcHBwcHBwcHBwcHBwc'', tp_ExpiresIn = 300\<rparr>, snd ?r)"
    using demo_verify_runs by (simp add: prod_eq_iff)
  from used_magic_link_is_dead[OF demo_auth_all this start] show ?thesis by blast
qed

text \<open>C25: revoking all refresh tokens of a user ends every session of his: whatever token had been issued to him
  is refused in every state the backend reaches from then on.\<close>

theorem revoke_all_ends_sessions:
  assumes "db_inv s" "rbac_inv s" "control_inv s" "has_admin s"
    and u: "u \<in> set (users s)" "usr_external_id u = x"
    and r: "r \<in> set (refresh_tokens s)" "tok_user_id r = usr_id u" "tok_hash r = hashToken tok" "tok \<noteq> []"
    and re: "reaches pa cfg (snd (RevokeAllUserRefreshTokens x s)) w"
  shows "fst (RefreshAccessToken cfg env tok w) = Inl ErrTokenInvalid"
proof -
  have inv: "backend_inv s" using assms(1-4) by (simp add: backend_inv_def org_inv_def)
  let ?hit = "\<lambda>s r. (\<exists>u \<in> set (users_by_external_id s x). tok_user_id r = usr_id u) \<and> tok_closed_at r = None"
  let ?t = "rf.closed_state ?hit s"
  have t: "snd (RevokeAllUserRefreshTokens x s) = ?t" by (simp add: RevokeAll_eq)
  have "run_call pa cfg (RevokeAll x) s = (Inr (), ?t)" by (simp add: RevokeAll_eq)
  from call_backend_inv[OF inv this] have it: "backend_inv ?t" .
  have R: "tt_rows refreshes = refresh_tokens" by (simp add: refreshes_def)
  have d: "dead (refresh_tokens ?t) (clock ?t) (hashToken tok)"
  proof (cases "tok_closed_at r")
    case None
    then have "?hit s r" using u r(2) by (auto simp: users_by_external_id_def)
    then show ?thesis using closed_dead(1)[of r s ?hit] r(1,3) unfolding R by simp
  next
    case (Some c)
    then have "r \<in> set (refresh_tokens ?t)" using r(1) by (force simp: refreshes_def)
    then show ?thesis using r(3) Some by (auto simp: dead_def token_open_def)
  qed
  note re' = re[unfolded t]
  show ?thesis
    using dead_refresh_refused[OF dead_for_ever(3)[OF it re'] dead_for_ever(1)[OF it re' d] r(4)] by blast
qed

theorem revoke_all_ends_sessions_witness:
  "fst (RefreshAccessToken demo_cfg demo_env ''rt''
     (snd (RevokeAllUserRefreshTokens 103 demo_auth_db))) = Inl ErrTokenInvalid"
proof -
  let ?u = "demo_user 3 103 ''carol@x'' 203"
  let ?t = "\<lparr>tok_id = 1, tok_user_id = 3,
       tok_hash = ''cdffd5dd8ca8126c0482ba994814b9014cc9e973435d399f1cf1f69479e6b907'',
       tok_expires_at = 900, tok_closed_at = None, tok_created_at = 50\<rparr> :: token_row"
  show ?thesis
    by (rule revoke_all_ends_sessions[OF demo_auth_all, of ?u 103 ?t "''rt''", OF _ _ _ _ _ _ start])
      (simp_all add: demo_hash_rt demo_auth_db_def demo_db_def demo_user_def)
qed

end
