(* ===== verification/Stdlib.thy ===== *)
theory Stdlib
  imports Crypto
begin

text \<open>
  More of Go's standard library, as far as the API layer uses it: \<open>strconv.Itoa\<close> and \<open>strconv.Atoi\<close>,
  \<open>strings.Split\<close>, \<open>strings.Fields\<close>, \<open>strings.CutPrefix\<close>, and the padded \<open>base64.StdEncoding\<close>, with the
  inverse laws the page tokens and the request metadata rest on. \<open>int\<close> is 64 bits wide.
\<close>

section \<open>strconv\<close>

definition digitChar :: "nat \<Rightarrow> char" where
  "digitChar n = char_of (48 + n)"

definition digitVal :: "char \<Rightarrow> nat option" where
  "digitVal c = (if 48 \<le> byte c \<and> byte c \<le> 57 then Some (byte c - 48) else None)"

fun natString :: "nat \<Rightarrow> string" where
  "natString n = (if n < 10 then [digitChar n] else natString (n div 10) @ [digitChar (n mod 10)])"

declare natString.simps [simp del]

definition Itoa :: "int \<Rightarrow> string" where
  "Itoa i = (if i < 0 then ''-'' @ natString (nat (- i)) else natString (nat i))"

primrec parseDigits :: "nat \<Rightarrow> string \<Rightarrow> nat option" where
  "parseDigits acc [] = Some acc"
| "parseDigits acc (c # cs) = (case digitVal c of
      None \<Rightarrow> None
    | Some d \<Rightarrow> parseDigits (acc * 10 + d) cs)"

definition maxInt :: int where "maxInt = 9223372036854775807"
definition minInt :: int where "minInt = - 9223372036854775808"

definition inRange :: "int \<Rightarrow> bool" where
  "inRange i \<longleftrightarrow> minInt \<le> i \<and> i \<le> maxInt"

definition parseUnsigned :: "string \<Rightarrow> int option" where
  "parseUnsigned cs = (if cs = [] then None else map_option int (parseDigits 0 cs))"

definition Atoi :: "string \<Rightarrow> int option" where
  "Atoi s =
    (let r = (case s of
        [] \<Rightarrow> None
      | c # cs \<Rightarrow> if c = CHR ''-'' then map_option uminus (parseUnsigned cs)
                  else if c = CHR ''+'' then parseUnsigned cs
                  else parseUnsigned s)
     in case r of None \<Rightarrow> None | Some i \<Rightarrow> if inRange i then Some i else None)"

definition wrapInt :: "int \<Rightarrow> int" where
  "wrapInt i = sint (word_of_int i :: 64 word)"

lemma byte_digitChar: "n < 10 \<Longrightarrow> byte (digitChar n) = 48 + n"
  by (simp add: byte_def digitChar_def)

lemma digitVal_digitChar [simp]: "n < 10 \<Longrightarrow> digitVal (digitChar n) = Some n"
  by (simp add: digitVal_def byte_digitChar)

lemma parseDigits_append:
  "parseDigits acc (xs @ ys) =
    (case parseDigits acc xs of None \<Rightarrow> None | Some n \<Rightarrow> parseDigits n ys)"
  by (induction xs arbitrary: acc) (auto split: option.splits)

lemma natString_not_Nil [simp]: "natString n \<noteq> []"
  by (subst natString.simps) simp

lemma parseDigits_natString: "parseDigits 0 (natString n) = Some n"
proof (induction n rule: natString.induct)
  case (1 n)
  show ?case
  proof (cases "n < 10")
    case True
    then show ?thesis by (subst natString.simps) simp
  next
    case False
    then have "parseDigits 0 (natString (n div 10)) = Some (n div 10)" by (rule 1)
    then show ?thesis using False by (subst natString.simps) (simp add: parseDigits_append)
  qed
qed

lemma natString_head: "\<exists>d cs. natString n = digitChar d # cs \<and> d < 10"
proof (induction n rule: natString.induct)
  case (1 n)
  show ?case
  proof (cases "n < 10")
    case False
    then obtain d cs where "natString (n div 10) = digitChar d # cs" "d < 10" using 1 by blast
    then show ?thesis using False by (subst natString.simps) auto
  qed (subst natString.simps, auto)
qed

lemma digitChar_neq: "d < 10 \<Longrightarrow> digitChar d \<noteq> CHR ''-''" "d < 10 \<Longrightarrow> digitChar d \<noteq> CHR ''+''"
  using byte_digitChar [of d] by (auto simp: byte_def)

lemma Atoi_Itoa: "inRange i \<Longrightarrow> Atoi (Itoa i) = Some i"
proof -
  assume r: "inRange i"
  obtain d cs where n: "natString (nat i) = digitChar d # cs" "d < 10" using natString_head by blast
  show ?thesis
  proof (cases "i < 0")
    case True
    then show ?thesis using r by (simp add: Itoa_def Atoi_def parseUnsigned_def parseDigits_natString)
  next
    case False
    then have "parseUnsigned (digitChar d # cs) = Some i"
      using parseDigits_natString [of "nat i"] n by (simp add: parseUnsigned_def)
    then show ?thesis using r False n by (simp add: Itoa_def Atoi_def digitChar_neq)
  qed
qed

lemma wrapInt_id: "inRange i \<Longrightarrow> wrapInt i = i"
  by (simp add: wrapInt_def inRange_def minInt_def maxInt_def sint_sbintrunc' signed_take_bit_int_eq_self)

section \<open>strings\<close>

text \<open>\<open>strings.Split\<close> at one separator byte, and \<open>strings.Fields\<close>.\<close>

fun splitOn :: "char \<Rightarrow> string \<Rightarrow> string list" where
  "splitOn c [] = [[]]"
| "splitOn c (x # xs) = (if x = c then [] # splitOn c xs
    else (case splitOn c xs of [] \<Rightarrow> [[x]] | w # ws \<Rightarrow> (x # w) # ws))"

function Fields :: "string \<Rightarrow> string list" where
  "Fields [] = []"
| "Fields (c # cs) = (if isSpace c then Fields cs
    else (c # takeWhile (\<lambda>d. \<not> isSpace d) cs) # Fields (dropWhile (\<lambda>d. \<not> isSpace d) cs))"
  by pat_completeness auto

termination Fields
  by (relation "measure length") (auto simp: length_dropWhile_le less_Suc_eq_le)

definition CutPrefix :: "string \<Rightarrow> string \<Rightarrow> string option" where
  "CutPrefix s pre = (if take (length pre) s = pre then Some (drop (length pre) s) else None)"

definition hasPrefix :: "string \<Rightarrow> string \<Rightarrow> bool" where
  "hasPrefix s pre \<longleftrightarrow> take (length pre) s = pre"

lemma splitOn_not_Nil [simp]: "splitOn c s \<noteq> []"
  by (induction s) (auto split: list.splits)

lemma splitOn_join: "c \<notin> set w \<Longrightarrow> splitOn c (w @ c # s) = w # splitOn c s"
  by (induction w) auto

lemma splitOn_single: "c \<notin> set w \<Longrightarrow> splitOn c w = [w]"
  by (induction w) auto

lemma Fields_no_space: "w \<in> set (Fields s) \<Longrightarrow> w \<noteq> [] \<and> (\<forall>c \<in> set w. \<not> isSpace c)"
proof (induction s rule: Fields.induct)
  case (2 c cs)
  show ?case
  proof (cases "isSpace c")
    case True
    then have "w \<in> set (Fields cs)" using 2(3) by simp
    then show ?thesis by (rule 2(1) [OF True])
  next
    case False
    then have "w = c # takeWhile (\<lambda>d. \<not> isSpace d) cs \<or>
        w \<in> set (Fields (dropWhile (\<lambda>d. \<not> isSpace d) cs))" using 2(3) by simp
    then show ?thesis using False 2(2) by (metis (no_types, lifting) list.distinct(1) set_ConsD set_takeWhileD)
  qed
qed simp

lemma Fields_word: "w \<noteq> [] \<Longrightarrow> \<forall>c \<in> set w. \<not> isSpace c \<Longrightarrow> Fields w = [w]"
proof (cases w)
  case (Cons c cs)
  moreover assume "\<forall>c \<in> set w. \<not> isSpace c"
  ultimately have "\<not> isSpace c" "\<forall>d \<in> set cs. \<not> isSpace d" by auto
  then have "takeWhile (\<lambda>d. \<not> isSpace d) cs = cs" "dropWhile (\<lambda>d. \<not> isSpace d) cs = []" by simp_all
  then show ?thesis using Cons \<open>\<not> isSpace c\<close> by (simp del: takeWhile_eq_all_conv dropWhile_eq_Nil_conv)
qed simp

lemma CutPrefix_append [simp]: "CutPrefix (pre @ s) pre = Some s"
  by (simp add: CutPrefix_def)

lemma CutPrefix_iff: "CutPrefix s pre = Some r \<longleftrightarrow> s = pre @ r"
  by (auto simp: CutPrefix_def) (metis append_take_drop_id)

section \<open>encoding/base64 (StdEncoding)\<close>

definition stdAlphabet :: string where
  "stdAlphabet = ''ABCDEFGHIJKLMNOPQRSTUVWXYZabcdefghijklmnopqrstuvwxyz0123456789+/''"

definition stdChar :: "nat \<Rightarrow> char" where
  "stdChar n = stdAlphabet ! (n mod 64)"

definition stdDigit :: "char \<Rightarrow> nat option" where
  "stdDigit c = (let b = byte c in
     if 65 \<le> b \<and> b \<le> 90 then Some (b - 65)
     else if 97 \<le> b \<and> b \<le> 122 then Some (b - 71)
     else if 48 \<le> b \<and> b \<le> 57 then Some (b + 4)
     else if b = 43 then Some 62
     else if b = 47 then Some 63
     else None)"

fun stdEncode :: "bytes \<Rightarrow> string" where
  "stdEncode [] = []"
| "stdEncode [a] = [stdChar (unat a div 4), stdChar (unat a * 16), CHR ''='', CHR ''='']"
| "stdEncode [a, b] =
    [stdChar (unat a div 4), stdChar (unat a * 16 + unat b div 16), stdChar (unat b * 4), CHR ''='']"
| "stdEncode (a # b # c # bs) =
    stdChar (unat a div 4) # stdChar (unat a * 16 + unat b div 16) #
    stdChar (unat b * 4 + unat c div 64) # stdChar (unat c) # stdEncode bs"

definition byteOf :: "nat \<Rightarrow> 8 word" where
  "byteOf n = of_nat n"

text \<open>
  The decoder skips carriage returns and line feeds, wants complete quanta, accepts padding only at the end
  and does not look at the unused low bits of a padded quantum.
\<close>

definition quantum :: "char \<Rightarrow> char \<Rightarrow> char \<Rightarrow> char \<Rightarrow> bytes option" where
  "quantum a b c d = (case (stdDigit a, stdDigit b, stdDigit c, stdDigit d) of
      (Some w, Some x, Some y, Some z) \<Rightarrow>
        Some [byteOf (w * 4 + x div 16), byteOf (x * 16 + y div 4), byteOf (y * 64 + z)]
    | _ \<Rightarrow> None)"

definition lastQuantum :: "char \<Rightarrow> char \<Rightarrow> char \<Rightarrow> char \<Rightarrow> bytes option" where
  "lastQuantum a b c d = (case (stdDigit a, stdDigit b) of
      (Some w, Some x) \<Rightarrow>
        if c = CHR ''='' then (if d = CHR ''='' then Some [byteOf (w * 4 + x div 16)] else None)
        else if d = CHR ''='' then (case stdDigit c of
            None \<Rightarrow> None
          | Some y \<Rightarrow> Some [byteOf (w * 4 + x div 16), byteOf (x * 16 + y div 4)])
        else quantum a b c d
    | _ \<Rightarrow> None)"

fun stdDecodeQuanta :: "string \<Rightarrow> bytes option" where
  "stdDecodeQuanta [] = Some []"
| "stdDecodeQuanta [a, b, c, d] = lastQuantum a b c d"
| "stdDecodeQuanta (a # b # c # d # e # cs) = (case quantum a b c d of
      None \<Rightarrow> None
    | Some bs \<Rightarrow> map_option (\<lambda>r. bs @ r) (stdDecodeQuanta (e # cs)))"
| "stdDecodeQuanta _ = None"

definition stdDecode :: "string \<Rightarrow> bytes option" where
  "stdDecode s = stdDecodeQuanta (filter (\<lambda>c. byte c \<noteq> 10 \<and> byte c \<noteq> 13) s)"

lemma stdAlphabet_digits: "map stdDigit stdAlphabet = map Some [0..<64]"
  by (simp add: stdAlphabet_def stdDigit_def byte_def upt_rec Let_def)

lemma length_stdAlphabet: "length stdAlphabet = 64"
  by (simp add: stdAlphabet_def)

lemma stdDigit_stdChar: "stdDigit (stdChar n) = Some (n mod 64)"
proof -
  have k: "n mod 64 < length stdAlphabet" by (simp add: length_stdAlphabet)
  then have "stdDigit (stdAlphabet ! (n mod 64)) = map Some [0..<64] ! (n mod 64)"
    by (metis nth_map stdAlphabet_digits)
  then show ?thesis by (simp add: stdChar_def)
qed

lemma stdChar_plain: "byte (stdChar n) \<noteq> 10" "byte (stdChar n) \<noteq> 13" "stdChar n \<noteq> CHR ''=''"
proof -
  have d: "\<And>c. stdDigit c = Some k \<Longrightarrow> byte c \<noteq> 10 \<and> byte c \<noteq> 13 \<and> byte c \<noteq> 61" for k
    by (auto simp: stdDigit_def)
  show "byte (stdChar n) \<noteq> 10" "byte (stdChar n) \<noteq> 13" using d [OF stdDigit_stdChar] by blast+
  have "byte (CHR ''='') = 61" by (simp add: byte_def)
  then show "stdChar n \<noteq> CHR ''=''" using d [OF stdDigit_stdChar] by metis
qed

lemma byteOf_eq: "n mod 256 = unat b \<Longrightarrow> byteOf n = b"
proof -
  assume "n mod 256 = unat b"
  then have "unat (byteOf n) = unat b" by (simp add: byteOf_def unat_of_nat)
  then show ?thesis by (rule word_unat_eq_iff [THEN iffD2])
qed

lemma stdEncode_plain: "filter (\<lambda>c. byte c \<noteq> 10 \<and> byte c \<noteq> 13) (stdEncode bs) = stdEncode bs"
proof -
  have "byte (CHR ''='') = 61" by (simp add: byte_def)
  then show ?thesis by (induction bs rule: stdEncode.induct) (simp_all add: stdChar_plain)
qed

lemma quantum_stdChar:
  "quantum (stdChar i) (stdChar j) (stdChar k) (stdChar l) =
    Some [byteOf (i mod 64 * 4 + j mod 64 div 16), byteOf (j mod 64 * 16 + k mod 64 div 4),
          byteOf (k mod 64 * 64 + l mod 64)]"
  by (simp add: quantum_def stdDigit_stdChar)

lemma lastQuantum_stdChar:
  "lastQuantum (stdChar i) (stdChar j) (stdChar k) (stdChar l) =
    quantum (stdChar i) (stdChar j) (stdChar k) (stdChar l)"
  by (simp add: lastQuantum_def stdDigit_stdChar stdChar_plain)

lemma split_bits:
  fixes x y :: nat
  shows "y < 256 \<Longrightarrow> (x * 16 + y div 16) mod 64 = x mod 4 * 16 + y div 16"
    and "y < 256 \<Longrightarrow> (x * 4 + y div 64) mod 64 = x mod 16 * 4 + y div 64"
    and "x * 16 mod 64 = x mod 4 * 16" "x * 4 mod 64 = x mod 16 * 4" "x < 256 \<Longrightarrow> x div 4 mod 64 = x div 4"
proof -
  show "(x * 16 + y div 16) mod 64 = x mod 4 * 16 + y div 16" if "y < 256"
    using that mod_mult2_eq [of "x * 16 + y div 16" 16 4] by simp
  show "(x * 4 + y div 64) mod 64 = x mod 16 * 4 + y div 64" if "y < 256"
    using that mod_mult2_eq [of "x * 4 + y div 64" 4 16] by simp
  show "x * 16 mod 64 = x mod 4 * 16" "x * 4 mod 64 = x mod 16 * 4"
    using mult_mod_left [of x 4 16] mult_mod_left [of x 16 4] by simp_all
qed simp

lemma join_bits:
  fixes x y :: nat
  shows "y < 256 \<Longrightarrow> x div 4 * 4 + (x mod 4 * 16 + y div 16) div 16 = x"
    and "y < 256 \<Longrightarrow> z < 256 \<Longrightarrow> ((x mod 4 * 16 + y div 16) * 16 + (y mod 16 * 4 + z div 64) div 4) mod 256 = y"
    and "z < 256 \<Longrightarrow> ((y mod 16 * 4 + z div 64) * 64 + z mod 64) mod 256 = z"
proof -
  show "x div 4 * 4 + (x mod 4 * 16 + y div 16) div 16 = x" if "y < 256" using that by simp
  show "((x mod 4 * 16 + y div 16) * 16 + (y mod 16 * 4 + z div 64) div 4) mod 256 = y" if "y < 256" "z < 256"
  proof -
    have "(y mod 16 * 4 + z div 64) div 4 = y mod 16" using that by simp
    moreover have "(x mod 4 * 16 + y div 16) * 16 + y mod 16 = x mod 4 * 256 + y"
      using div_mult_mod_eq [of y 16] by (simp add: algebra_simps)
    ultimately show ?thesis using that by simp
  qed
  show "((y mod 16 * 4 + z div 64) * 64 + z mod 64) mod 256 = z" if "z < 256"
  proof -
    have "(y mod 16 * 4 + z div 64) * 64 + z mod 64 = y mod 16 * 256 + z"
      using div_mult_mod_eq [of z 64] by (simp add: algebra_simps)
    then show ?thesis using that by simp
  qed
qed

lemma byte_parts:
  fixes a b c :: "8 word"
  shows "byteOf (unat a div 4 mod 64 * 4 + (unat a * 16 + unat b div 16) mod 64 div 16) = a"
    "byteOf ((unat a * 16 + unat b div 16) mod 64 * 16 + (unat b * 4 + unat c div 64) mod 64 div 4) = b"
    "byteOf ((unat b * 4 + unat c div 64) mod 64 * 64 + unat c mod 64) = c"
    "byteOf (unat a div 4 mod 64 * 4 + unat a * 16 mod 64 div 16) = a"
    "byteOf ((unat a * 16 + unat b div 16) mod 64 * 16 + unat b * 4 mod 64 div 4) = b"
proof -
  have r: "unat x < 256" for x :: "8 word" using unsigned_less [of x] by simp
  note bits = split_bits(1,2) [OF r] split_bits(3,4) split_bits(5) [OF r]
  show "byteOf (unat a div 4 mod 64 * 4 + (unat a * 16 + unat b div 16) mod 64 div 16) = a"
    by (rule byteOf_eq) (simp only: bits join_bits(1) [OF r] mod_less [OF r])
  show "byteOf ((unat a * 16 + unat b div 16) mod 64 * 16 + (unat b * 4 + unat c div 64) mod 64 div 4) = b"
    by (rule byteOf_eq) (simp only: bits join_bits(2) [OF r r])
  show "byteOf ((unat b * 4 + unat c div 64) mod 64 * 64 + unat c mod 64) = c"
    by (rule byteOf_eq) (simp only: bits join_bits(3) [OF r])
  show "byteOf (unat a div 4 mod 64 * 4 + unat a * 16 mod 64 div 16) = a"
    by (rule byteOf_eq) (use join_bits(1) [of 0 "unat a"] r [of a] in \<open>simp add: bits\<close>)
  show "byteOf ((unat a * 16 + unat b div 16) mod 64 * 16 + unat b * 4 mod 64 div 4) = b"
    by (rule byteOf_eq) (use join_bits(2) [of "unat b" 0 "unat a"] r [of b] in \<open>simp add: bits\<close>)
qed

lemma stdDecodeQuanta_step:
  assumes "quantum a b c d = Some bs" "lastQuantum a b c d = Some bs"
  shows "stdDecodeQuanta (a # b # c # d # s) = map_option (\<lambda>r. bs @ r) (stdDecodeQuanta s)"
  using assms by (cases s) simp_all

lemma stdDecodeQuanta_stdEncode: "stdDecodeQuanta (stdEncode bs) = Some bs"
proof (induction bs rule: stdEncode.induct)
  case (2 a)
  show ?case by (simp add: lastQuantum_def stdDigit_stdChar byte_parts)
next
  case (3 a b)
  show ?case by (simp add: lastQuantum_def stdDigit_stdChar stdChar_plain byte_parts)
next
  case (4 a b c bs)
  have q: "quantum (stdChar (unat a div 4)) (stdChar (unat a * 16 + unat b div 16))
      (stdChar (unat b * 4 + unat c div 64)) (stdChar (unat c)) = Some [a, b, c]"
    unfolding quantum_stdChar by (simp only: byte_parts)
  then show ?case using 4 by (simp add: stdDecodeQuanta_step lastQuantum_stdChar)
qed simp

lemma stdDecode_stdEncode [simp]: "stdDecode (stdEncode bs) = Some bs"
  unfolding stdDecode_def stdEncode_plain by (rule stdDecodeQuanta_stdEncode)

lemma stdEncode_Nil_iff [simp]: "stdEncode bs = [] \<longleftrightarrow> bs = []"
  by (cases bs rule: stdEncode.cases) simp_all

end
