(* ===== verification/Pgdb.thy ===== *)
theory Pgdb
  imports Fixtures Stdlib
begin

text \<open>
  Transactions and batches as they reach the driver: \<open>internal/data/pgdb/tx.go\<close> and \<open>batch.go\<close>.

  The driver is not under \<open>src/\<close>. A \<open>driver\<close> value says how the server answers the calls that carry no
  query of ours: beginning, the \<open>set_config\<close> statement, committing (a commit that reports an error may still
  have taken effect) and rolling back. A connection pool is the committed database and, when a transaction
  is open, the database as that transaction sees it; a transaction that was committed or rolled back is
  closed, and using it gives \<open>pgx.ErrTxClosed\<close>. Sequences are not transactional and locks end with their
  transaction. \<open>dbctx\<close> is what the code reads of its \<open>context.Context\<close>.

  The theorems justify the transactions of the other theories: whatever runs inside \<open>RunTx\<close>, with nested
  \<open>RunTx\<close> calls and a batch with its own transaction as the last step, is \<open>run_tx\<close> of its effect.
\<close>

section \<open>Driver and context\<close>

record driver =
  drv_begin :: "error option"
  drv_settings :: "error option"
  drv_commit :: "(error \<times> bool) option"
  drv_rollback :: "error option"

record conn =
  conn_committed :: db
  conn_tx :: "db option"
  conn_settings :: "(string \<times> string) list"

record dbctx =
  dc_tx :: bool
  dc_sess :: "AuthSession option"
  dc_traceID :: string

type_synonym 'a dbprog = "(conn, error, 'a) prog"

definition pgxErrTxClosed :: error where
  "pgxErrTxClosed = ErrMsg ''tx is closed''"

definition drv_Begin :: "driver \<Rightarrow> unit dbprog" where
  "drv_Begin d = (\<lambda>c. case drv_begin d of
      Some e \<Rightarrow> (Inl e, c)
    | None \<Rightarrow> (Inr (), c\<lparr>conn_tx := Some (conn_committed c), conn_settings := []\<rparr>))"

definition rolled_back :: "conn \<Rightarrow> db \<Rightarrow> conn" where
  "rolled_back c w = c\<lparr>conn_committed := conn_committed c\<lparr>gen := gen w, locks := []\<rparr>, conn_tx := None,
     conn_settings := []\<rparr>"

definition committed_as :: "conn \<Rightarrow> db \<Rightarrow> conn" where
  "committed_as c w = c\<lparr>conn_committed := w\<lparr>locks := []\<rparr>, conn_tx := None, conn_settings := []\<rparr>"

definition drv_Commit :: "driver \<Rightarrow> unit dbprog" where
  "drv_Commit d = (\<lambda>c. case conn_tx c of
      None \<Rightarrow> (Inl pgxErrTxClosed, c)
    | Some w \<Rightarrow> (case drv_commit d of
        None \<Rightarrow> (Inr (), committed_as c w)
      | Some (e, took_effect) \<Rightarrow> (Inl e, if took_effect then committed_as c w else rolled_back c w)))"

definition drv_Rollback :: "driver \<Rightarrow> unit dbprog" where
  "drv_Rollback d = (\<lambda>c. case conn_tx c of
      None \<Rightarrow> (Inl pgxErrTxClosed, c)
    | Some w \<Rightarrow> (case drv_rollback d of None \<Rightarrow> Inr () | Some e \<Rightarrow> Inl e, rolled_back c w))"

text \<open>Statements sent on the open transaction, or on the pool, where they commit by themselves.\<close>

definition tx_send :: "'a op \<Rightarrow> 'a dbprog" where
  "tx_send m = (\<lambda>c. case conn_tx c of
      None \<Rightarrow> (Inl pgxErrTxClosed, c)
    | Some w \<Rightarrow> (case m w of (r, t) \<Rightarrow> (r, c\<lparr>conn_tx := Some t\<rparr>)))"

definition pool_send :: "'a op \<Rightarrow> 'a dbprog" where
  "pool_send m = (\<lambda>c. case run_tx m (conn_committed c) of (r, t) \<Rightarrow> (r, c\<lparr>conn_committed := t\<rparr>))"

section \<open>tx.go\<close>

definition txFromCtx :: "dbctx \<Rightarrow> bool" where
  "txFromCtx ctx = dc_tx ctx"

definition ctxtWithTx :: "dbctx \<Rightarrow> dbctx" where
  "ctxtWithTx ctx = ctx\<lparr>dc_tx := True\<rparr>"

definition localSettings :: "dbctx \<Rightarrow> (string \<times> string) list" where
  "localSettings ctx =
    (case dc_sess ctx of
      None \<Rightarrow> []
    | Some sess \<Rightarrow>
        (case as_Project sess of None \<Rightarrow> [] | Some p \<Rightarrow> [(''app.project_id'', Itoa (ap_ID p))]) @
        (if au_UserID (as_User sess) \<noteq> nilUUID
         then [(''app.user_id'', uuidString (au_UserID (as_User sess)))] else [])) @
    (if dc_traceID ctx \<noteq> [] then [(''app.trace_id'', dc_traceID ctx)] else [])"

definition setLocalSettings :: "driver \<Rightarrow> dbctx \<Rightarrow> unit dbprog" where
  "setLocalSettings d ctx =
    (let settings = localSettings ctx in
     if settings = [] then ret ()
     else (\<lambda>c. case drv_settings d of
         Some e \<Rightarrow> (Inl e, c)
       | None \<Rightarrow> (Inr (), c\<lparr>conn_settings := settings\<rparr>)))"

text \<open>
  A deferred rollback: it runs when the function returned an error, not when it panics (\<open>retErr\<close> is nil
  then). An error of the rollback is joined to the first one, which \<open>errors.Is\<close> still finds.
\<close>

definition rollbackOnError :: "driver \<Rightarrow> bool \<Rightarrow> 'a dbprog \<Rightarrow> 'a dbprog" where
  "rollbackOnError d owner m = (\<lambda>c. case m c of
      (Inr x, t) \<Rightarrow> (Inr x, t)
    | (Inl e, t) \<Rightarrow> if \<not> owner \<or> isPanic e then (Inl e, t) else (Inl e, snd (drv_Rollback d t)))"

definition ignoreTxClosed :: "unit dbprog \<Rightarrow> unit dbprog" where
  "ignoreTxClosed m = (\<lambda>c. case m c of
      (Inl e, t) \<Rightarrow> if e = pgxErrTxClosed then (Inr (), t) else (Inl e, t)
    | (Inr x, t) \<Rightarrow> (Inr x, t))"

definition beginPoolTx :: "driver \<Rightarrow> dbctx \<Rightarrow> dbctx dbprog" where
  "beginPoolTx d ctx =
    (if txFromCtx ctx then ret ctx
     else andThen (drv_Begin d) (\<lambda>_.
       rollbackOnError d True (
         andThen (setLocalSettings d (ctxtWithTx ctx)) (\<lambda>_.
         ret (ctxtWithTx ctx)))))"

definition RunTx :: "driver \<Rightarrow> dbctx \<Rightarrow> (dbctx \<Rightarrow> 'a dbprog) \<Rightarrow> 'a dbprog" where
  "RunTx d ctx fn =
    (let owner = \<not> txFromCtx ctx in
     andThen (beginPoolTx d ctx) (\<lambda>ctx'.
     rollbackOnError d owner (
       andThen (fn ctx') (\<lambda>x.
       if owner then andThen (ignoreTxClosed (drv_Commit d)) (\<lambda>_. ret x) else ret x))))"

section \<open>batch.go and exec.go\<close>

text \<open>The queueing function reports an error, or the effect of the queries it queued.\<close>

definition RunBatch :: "dbctx \<Rightarrow> (dbctx \<Rightarrow> error + 'a op) \<Rightarrow> 'a dbprog" where
  "RunBatch ctx queueFunc =
    andThen (liftS (queueFunc ctx)) (\<lambda>b.
    onError translatePgErr (if txFromCtx ctx then tx_send b else pool_send b))"

definition pgdb_RunBatchTx :: "driver \<Rightarrow> dbctx \<Rightarrow> (dbctx \<Rightarrow> error + 'a op) \<Rightarrow> 'a dbprog" where
  "pgdb_RunBatchTx d ctx queueFunc =
    andThen (beginPoolTx d ctx) (\<lambda>ctx'.
    rollbackOnError d True (
      andThen (liftS (queueFunc ctx')) (\<lambda>b.
      andThen (onError translatePgErr (tx_send b)) (\<lambda>x.
      andThen (onError translatePgErr (ignoreTxClosed (drv_Commit d))) (\<lambda>_.
      ret x)))))"

definition pgdb_RunExec :: "dbctx \<Rightarrow> 'a op \<Rightarrow> unit dbprog" where
  "pgdb_RunExec ctx m =
    onError translatePgErr
      (andThen (if txFromCtx ctx then tx_send m else pool_send m) (\<lambda>_. ret ()))"

section \<open>Programs inside a transaction\<close>

text \<open>
  A program over the driver implements an effect on the database when, inside any open transaction, it does
  exactly that to the transaction's view and leaves the transaction open.
\<close>

definition in_tx :: "'a op \<Rightarrow> 'a dbprog" where
  "in_tx m = (\<lambda>c. case m (the (conn_tx c)) of (r, t) \<Rightarrow> (r, c\<lparr>conn_tx := Some t\<rparr>))"

definition implements :: "(dbctx \<Rightarrow> 'a dbprog) \<Rightarrow> 'a op \<Rightarrow> bool" where
  "implements f m \<longleftrightarrow> (\<forall>(ctx :: dbctx) c. dc_tx ctx \<longrightarrow> conn_tx c \<noteq> None \<longrightarrow> f ctx c = in_tx m c)"

named_theorems impl_intros "programs of the driver and the effects they implement"

lemma implementsD:
  "implements f m \<Longrightarrow> dc_tx ctx \<Longrightarrow> conn_tx c = Some w \<Longrightarrow> m w = (r, t) \<Longrightarrow> f ctx c = (r, c\<lparr>conn_tx := Some t\<rparr>)"
  by (simp add: implements_def in_tx_def)

lemma implementsI:
  "(\<And>(ctx :: dbctx) c w r t. dc_tx ctx \<Longrightarrow> conn_tx c = Some w \<Longrightarrow> m w = (r, t) \<Longrightarrow> f ctx c = (r, c\<lparr>conn_tx := Some t\<rparr>)) \<Longrightarrow>
    implements f m"
  by (auto simp: implements_def in_tx_def split: prod.splits)

lemma same_tx [simp]: "conn_tx c = Some w \<Longrightarrow> c\<lparr>conn_tx := Some w\<rparr> = c"
  by (cases c) simp

lemma implements_ret [impl_intros]: "implements (\<lambda>_. ret x) (ret x)"
  by (rule implementsI) (simp add: ret_def)

lemma implements_throw [impl_intros]: "implements (\<lambda>_. throw e) (throw e)"
  by (rule implementsI) (simp add: throw_def)

lemma implements_liftS [impl_intros]: "implements (\<lambda>_. liftS r) (liftS r)"
  by (rule implementsI) (simp add: liftS_def)

lemma implements_andThen [impl_intros]:
  assumes "implements f m" "\<And>x. implements (g x) (k x)"
  shows "implements (\<lambda>ctx. andThen (f ctx) (\<lambda>x. g x ctx)) (andThen m k)"
proof (rule implementsI)
  fix ctx :: dbctx and c :: conn and w r t
  assume a: "dc_tx ctx" "conn_tx c = Some w" "andThen m k w = (r, t)"
  obtain q u where m: "m w = (q, u)" by fastforce
  have f: "f ctx c = (q, c\<lparr>conn_tx := Some u\<rparr>)" by (rule implementsD [OF assms(1) a(1,2) m])
  show "andThen (f ctx) (\<lambda>x. g x ctx) c = (r, c\<lparr>conn_tx := Some t\<rparr>)"
  proof (cases q)
    case (Inl e)
    then show ?thesis using a(3) m f by (simp add: andThen_def)
  next
    case (Inr x)
    then have "k x u = (r, t)" using a(3) m by (simp add: andThen_def)
    then have "g x ctx (c\<lparr>conn_tx := Some u\<rparr>) = (r, c\<lparr>conn_tx := Some u\<rparr>\<lparr>conn_tx := Some t\<rparr>)"
      by (intro implementsD [OF assms(2) a(1)]) simp_all
    then show ?thesis using Inr f by (simp add: andThen_def)
  qed
qed

lemma implements_onError [impl_intros]:
  "implements f m \<Longrightarrow> implements (\<lambda>ctx. onError h (f ctx)) (onError h m)"
  by (auto simp: implements_def in_tx_def onError_def split: prod.splits sum.splits)

lemma implements_if [impl_intros]:
  "implements f m \<Longrightarrow> implements g n \<Longrightarrow> implements (\<lambda>ctx. if b then f ctx else g ctx) (if b then m else n)"
  by simp

lemma implements_RunBatch [impl_intros]: "implements (\<lambda>ctx. RunBatch ctx (\<lambda>_. Inr m)) (onError translatePgErr m)"
  by (rule implementsI)
    (auto simp: RunBatch_def txFromCtx_def tx_send_def onError_def andThen_def liftS_def
      split: prod.splits sum.splits)

lemma implements_RunExec [impl_intros]:
  "implements (\<lambda>ctx. pgdb_RunExec ctx m) (onError translatePgErr (andThen m (\<lambda>_. ret ())))"
  by (rule implementsI)
    (auto simp: pgdb_RunExec_def txFromCtx_def tx_send_def onError_def andThen_def ret_def
      split: prod.splits sum.splits)

text \<open>A nested \<open>RunTx\<close> neither commits nor rolls back.\<close>

lemma nested_RunTx:
  assumes "dc_tx ctx" shows "RunTx d ctx f = f ctx"
proof -
  have "andThen (f ctx) (\<lambda>x. ret x) = f ctx" by simp
  then show ?thesis
    using assms by (auto simp: RunTx_def txFromCtx_def beginPoolTx_def rollbackOnError_def fun_eq_iff
        split: prod.splits sum.splits)
qed

lemma implements_RunTx [impl_intros]: "implements f m \<Longrightarrow> implements (\<lambda>ctx. RunTx d ctx f) m"
  by (auto simp: implements_def nested_RunTx)

section \<open>The outermost transaction\<close>

definition faultless :: "driver \<Rightarrow> bool" where
  "faultless d \<longleftrightarrow> drv_begin d = None \<and> drv_settings d = None \<and> drv_commit d = None"

lemma beginPoolTx_outer:
  assumes "\<not> dc_tx ctx"
  shows "drv_begin d = Some e \<Longrightarrow> beginPoolTx d ctx c = (Inl e, c)"
    and "drv_begin d = None \<Longrightarrow> drv_settings d = None \<or> localSettings (ctxtWithTx ctx) = [] \<Longrightarrow>
      beginPoolTx d ctx c = (Inr (ctxtWithTx ctx),
        c\<lparr>conn_tx := Some (conn_committed c), conn_settings := localSettings (ctxtWithTx ctx)\<rparr>)"
    and "drv_begin d = None \<Longrightarrow> drv_settings d = Some e \<Longrightarrow> localSettings (ctxtWithTx ctx) \<noteq> [] \<Longrightarrow> \<not> isPanic e \<Longrightarrow>
      beginPoolTx d ctx c = (Inl e, rolled_back c (conn_committed c))"
  using assms
  by (auto simp: beginPoolTx_def txFromCtx_def drv_Begin_def andThen_def setLocalSettings_def Let_def
      rollbackOnError_def ret_def drv_Rollback_def rolled_back_def)

text \<open>What becomes of the pool when a body that implements \<open>m\<close> was run to its end.\<close>

lemma outer_body:
  assumes "implements f m" "dc_tx ctx" "conn_tx c = Some w" "m w = (r, t)"
  shows "rollbackOnError d True
      (andThen (f ctx) (\<lambda>x. andThen (ignoreTxClosed (drv_Commit d)) (\<lambda>_. ret x))) c =
    (case r of
      Inl e \<Rightarrow> (Inl e, if isPanic e then c\<lparr>conn_tx := Some t\<rparr> else rolled_back c t)
    | Inr x \<Rightarrow> (case drv_commit d of
        None \<Rightarrow> (Inr x, committed_as c t)
      | Some (e, took_effect) \<Rightarrow>
          (if e = pgxErrTxClosed then Inr x else Inl e,
           if took_effect then committed_as c t else rolled_back c t)))"
proof -
  have f: "f ctx c = (r, c\<lparr>conn_tx := Some t\<rparr>)" by (rule implementsD [OF assms])
  show ?thesis
    unfolding rollbackOnError_def andThen_def f
    by (auto simp: ignoreTxClosed_def drv_Commit_def drv_Rollback_def ret_def committed_as_def rolled_back_def
        split: sum.splits option.splits)
qed

definition no_panic :: "'a op \<Rightarrow> db \<Rightarrow> bool" where
  "no_panic m s \<longleftrightarrow> (case m s of (Inl e, _) \<Rightarrow> \<not> isPanic e | _ \<Rightarrow> True)"

definition outcome :: "'a op \<Rightarrow> 'a dbprog" where
  "outcome m = (\<lambda>c. case run_tx m (conn_committed c) of (r, t) \<Rightarrow>
     (r, c\<lparr>conn_committed := t, conn_tx := None, conn_settings := []\<rparr>))"

lemma outcome_simps:
  "m (conn_committed c) = (Inr x, t) \<Longrightarrow> outcome m c = (Inr x, committed_as c t)"
  "m (conn_committed c) = (Inl e, t) \<Longrightarrow> outcome m c = (Inl e, rolled_back c t)"
  by (simp_all add: outcome_def run_tx_def atomic_def committed_as_def rolled_back_def)

definition opened :: "dbctx \<Rightarrow> conn \<Rightarrow> conn" where
  "opened ctx c = c\<lparr>conn_tx := Some (conn_committed c), conn_settings := localSettings (ctxtWithTx ctx)\<rparr>"

lemma opened_simps [simp]:
  "conn_tx (opened ctx c) = Some (conn_committed c)"
  "committed_as (opened ctx c) t = committed_as c t" "rolled_back (opened ctx c) t = rolled_back c t"
  by (simp_all add: opened_def committed_as_def rolled_back_def)

lemma dc_tx_ctxtWithTx [simp]: "dc_tx (ctxtWithTx ctx)"
  by (simp add: ctxtWithTx_def)

lemma RunTx_outer:
  assumes "\<not> dc_tx ctx" "faultless d"
  shows "RunTx d ctx f c = rollbackOnError d True
    (andThen (f (ctxtWithTx ctx)) (\<lambda>x. andThen (ignoreTxClosed (drv_Commit d)) (\<lambda>_. ret x))) (opened ctx c)"
proof -
  have "beginPoolTx d ctx c = (Inr (ctxtWithTx ctx), opened ctx c)"
    using assms by (simp add: faultless_def opened_def beginPoolTx_outer(2))
  then show ?thesis using assms(1) by (simp add: RunTx_def txFromCtx_def andThen_step)
qed

lemma RunTx_outcome:
  assumes "implements f m" "\<not> dc_tx ctx" "faultless d" "no_panic m (conn_committed c)"
  shows "RunTx d ctx f c = outcome m c"
proof -
  obtain r t where m: "m (conn_committed c) = (r, t)" by fastforce
  have "RunTx d ctx f c = (case r of
      Inl e \<Rightarrow> (Inl e, if isPanic e then (opened ctx c)\<lparr>conn_tx := Some t\<rparr> else rolled_back c t)
    | Inr x \<Rightarrow> (Inr x, committed_as c t))"
    using outer_body [OF assms(1) _ _ m, of "ctxtWithTx ctx" "opened ctx c" d] assms(3)
    unfolding RunTx_outer [OF assms(2,3)] by (cases r) (simp_all add: faultless_def)
  then show ?thesis using assms(4) m by (cases r) (auto simp: no_panic_def outcome_simps)
qed

text \<open>A batch with its own transaction joins the open one, and ends it.\<close>

lemma joined_batch:
  assumes "dc_tx ctx" "conn_tx c = Some w" "m w = (r, t)" "faultless d"
  shows "pgdb_RunBatchTx d ctx (\<lambda>_. Inr m) c = (case r of
      Inl e \<Rightarrow> (Inl (translatePgErr e),
        if isPanic (translatePgErr e) then c\<lparr>conn_tx := Some t\<rparr> else rolled_back c t)
    | Inr x \<Rightarrow> (Inr x, committed_as c t))"
  using assms
  by (auto simp: pgdb_RunBatchTx_def beginPoolTx_def txFromCtx_def rollbackOnError_def tx_send_def andThen_def
      liftS_def onError_def ignoreTxClosed_def drv_Commit_def drv_Rollback_def faultless_def ret_def
      committed_as_def rolled_back_def split: sum.splits)

lemma joined_batch_commits_outer:
  assumes "dc_tx ctx" "conn_tx c = Some w" "m w = (Inr x, t)" "faultless d"
  shows "pgdb_RunBatchTx d ctx (\<lambda>_. Inr m) c = (Inr x, committed_as c t)"
    and "drv_Rollback d (committed_as c t) = (Inl pgxErrTxClosed, committed_as c t)"
  using joined_batch [where m = m and w = w and r = "Inr x", OF assms] by (simp_all add: drv_Rollback_def committed_as_def)

lemma panic_leaves_tx_open:
  assumes "implements f m" "\<not> dc_tx ctx" "faultless d" "m (conn_committed c) = (Inl (GoPanic p), t)"
  shows "RunTx d ctx f c = (Inl (GoPanic p), (opened ctx c)\<lparr>conn_tx := Some t\<rparr>)"
  using outer_body [OF assms(1) _ _ assms(4), of "ctxtWithTx ctx" "opened ctx c" d]
  unfolding RunTx_outer [OF assms(2,3)] by (simp add: isPanic_def)

lemma RunTx_last_batch_outcome:
  assumes "implements f m" "\<not> dc_tx ctx" "faultless d" "\<forall>e. isPanic e \<longrightarrow> h e = e"
    and "no_panic (andThen m (\<lambda>x. onError h (onError translatePgErr (q x)))) (conn_committed c)"
  shows "RunTx d ctx (\<lambda>ctx. andThen (f ctx) (\<lambda>x. onError h (pgdb_RunBatchTx d ctx (\<lambda>_. Inr (q x))))) c =
    outcome (andThen m (\<lambda>x. onError h (onError translatePgErr (q x)))) c"
proof -
  let ?ctx = "ctxtWithTx ctx" and ?c = "opened ctx c"
  obtain r u where m: "m (conn_committed c) = (r, u)" by fastforce
  have f: "f ?ctx ?c = (r, ?c\<lparr>conn_tx := Some u\<rparr>)"
    by (rule implementsD [OF assms(1) dc_tx_ctxtWithTx opened_simps(1) m])
  show ?thesis
  proof (cases r)
    case (Inl e)
    then show ?thesis using assms(5) m f unfolding RunTx_outer [OF assms(2,3)]
      by (auto simp: rollbackOnError_def andThen_def drv_Rollback_def outcome_simps no_panic_def
          rolled_back_def opened_def)
  next
    case (Inr x)
    obtain p t where q: "q x u = (p, t)" by fastforce
    have b: "pgdb_RunBatchTx d ?ctx (\<lambda>_. Inr (q x)) (?c\<lparr>conn_tx := Some u\<rparr>) = (case p of
        Inl e \<Rightarrow> (Inl (translatePgErr e), if isPanic (translatePgErr e) then ?c\<lparr>conn_tx := Some t\<rparr> else rolled_back c t)
      | Inr y \<Rightarrow> (Inr y, committed_as c t))"
      using joined_batch [where m = "q x" and w = u and c = "?c\<lparr>conn_tx := Some u\<rparr>" and ctx = ?ctx, OF _ _ q assms(3)]
      by (cases p) (simp_all add: committed_as_def rolled_back_def opened_def)
    show ?thesis
      using assms(3,4,5) m f Inr q b unfolding RunTx_outer [OF assms(2,3)]
      by (auto simp: rollbackOnError_def andThen_def onError_def ignoreTxClosed_def drv_Commit_def
          drv_Rollback_def ret_def outcome_simps no_panic_def committed_as_def rolled_back_def
          split: sum.splits)
  qed
qed

text \<open>C28: Against a server that reports no fault, an outermost \<open>RunTx\<close> whose body does \<open>m\<close> inside the open
  transaction (through any nesting of \<open>RunTx\<close>, \<open>RunBatch\<close> and \<open>RunExec\<close>) and does not panic returns what
  \<open>run_tx m\<close> returns and leaves the pool with the database \<open>run_tx m\<close> leaves and no open transaction. The
  same holds when the body ends with a \<open>RunBatchTx\<close>, although that one commits or rolls back by itself.\<close>

theorem RunTx_refines_run_tx:
  assumes "implements f m" "\<not> dc_tx ctx" "faultless d" "\<forall>e. isPanic e \<longrightarrow> h e = e"
  shows "(no_panic m (conn_committed c) \<longrightarrow> RunTx d ctx f c = outcome m c) \<and>
    (no_panic (andThen m (\<lambda>x. onError h (onError translatePgErr (q x)))) (conn_committed c) \<longrightarrow>
      RunTx d ctx (\<lambda>ctx. andThen (f ctx) (\<lambda>x. onError h (pgdb_RunBatchTx d ctx (\<lambda>_. Inr (q x))))) c =
      outcome (andThen m (\<lambda>x. onError h (onError translatePgErr (q x)))) c)"
  using RunTx_outcome [OF assms(1-3)] RunTx_last_batch_outcome [OF assms] by blast

text \<open>A transaction that moves the clock in a nested transaction and then fails on a unique index.\<close>

definition demo_driver :: driver where
  "demo_driver = \<lparr>drv_begin = None, drv_settings = None, drv_commit = None, drv_rollback = None\<rparr>"

definition demo_dbctx :: dbctx where
  "demo_dbctx = \<lparr>dc_tx = False, dc_sess = Some (demo_session 1 1 1), dc_traceID = ''t''\<rparr>"

definition demo_conn :: conn where
  "demo_conn = \<lparr>conn_committed = demo_db, conn_tx = None, conn_settings = []\<rparr>"

definition demo_body :: "dbctx \<Rightarrow> unit dbprog" where
  "demo_body ctx = RunTx demo_driver ctx (\<lambda>ctx. pgdb_RunExec ctx (updates (\<lambda>s. s\<lparr>clock := 7\<rparr>)))"

definition demo_effect :: "unit op" where
  "demo_effect = onError translatePgErr (andThen (updates (\<lambda>s. s\<lparr>clock := 7\<rparr>)) (\<lambda>_. ret ()))"

lemma demo_implements: "implements demo_body demo_effect"
  unfolding demo_body_def demo_effect_def by (intro impl_intros)

theorem RunTx_refines_run_tx_witness:
  "RunTx demo_driver demo_dbctx demo_body demo_conn =
     (Inr (), demo_conn\<lparr>conn_committed := demo_db\<lparr>clock := 7, locks := []\<rparr>\<rparr>) \<and>
   RunTx demo_driver demo_dbctx (\<lambda>ctx. andThen (demo_body ctx) (\<lambda>x. onError id
     (pgdb_RunBatchTx demo_driver ctx (\<lambda>_. Inr (throw (PgOther ErrCodeUniqueViolation) :: unit op))))) demo_conn =
     (Inl PgErrAlreadyExists, demo_conn\<lparr>conn_committed := demo_db\<lparr>locks := []\<rparr>\<rparr>)"
proof -
  have c: "conn_committed demo_conn = demo_db" "demo_effect demo_db = (Inr (), demo_db\<lparr>clock := 7\<rparr>)"
    by (simp_all add: demo_conn_def demo_effect_def prog_defs)
  have f: "\<not> dc_tx demo_dbctx" "faultless demo_driver" "\<forall>e. isPanic e \<longrightarrow> id e = e"
    by (simp_all add: demo_dbctx_def faultless_def demo_driver_def)
  note main = RunTx_refines_run_tx [OF demo_implements f, of demo_conn
      "\<lambda>_. throw (PgOther ErrCodeUniqueViolation)"]
  have e: "andThen demo_effect (\<lambda>x. onError id (onError translatePgErr (throw (PgOther ErrCodeUniqueViolation)))) demo_db =
      (Inl PgErrAlreadyExists :: error + unit, demo_db\<lparr>clock := 7\<rparr>)"
    by (simp add: andThen_def c(2) onError_def throw_def)
  have o1: "outcome demo_effect demo_conn = (Inr (), demo_conn\<lparr>conn_committed := demo_db\<lparr>clock := 7, locks := []\<rparr>\<rparr>)"
    using c by (simp add: outcome_simps committed_as_def) (simp add: demo_conn_def)
  have o2: "outcome (andThen demo_effect (\<lambda>x. onError id (onError translatePgErr (throw (PgOther ErrCodeUniqueViolation)))))
      demo_conn = (Inl PgErrAlreadyExists :: error + unit, demo_conn\<lparr>conn_committed := demo_db\<lparr>locks := []\<rparr>\<rparr>)"
    using c e by (simp add: outcome_simps rolled_back_def) (simp add: demo_conn_def)
  have n1: "no_panic demo_effect (conn_committed demo_conn)" using c by (simp add: no_panic_def)
  have n2: "no_panic (andThen demo_effect (\<lambda>x. onError id (onError translatePgErr
      (throw (PgOther ErrCodeUniqueViolation) :: unit op)))) (conn_committed demo_conn)"
    unfolding no_panic_def c e by (simp add: isPanic_def)
  show ?thesis
    by (rule conjI [OF trans [OF mp [OF conjunct1 [OF main] n1] o1] trans [OF mp [OF conjunct2 [OF main] n2] o2]])
qed

end
