(* ===== verification/Api.thy ===== *)
theory Api
  imports Stdlib AuthCore OrgCore CustomRoleCore
begin

text \<open>
  The vocabulary of the gRPC layer (\<open>internal/api/grpc\<close>): status errors, the protobuf messages of
  \<open>internal/pb\<close>, the world a request runs in and the third-party functions the layer calls.

  A protobuf message is a record of its known fields, a pointer that may be nil an \<open>option\<close>; a generated
  getter on a nil message gives the field of the zero message. \<open>int32\<close> and \<open>int64\<close> fields of requests are
  the integers they carry; \<open>timestamppb.Timestamp\<close> is the instant it stands for.
\<close>

section \<open>Status errors\<close>

datatype Code =
    CodeOK | CodeCanceled | CodeUnknown | CodeInvalidArgument | CodeDeadlineExceeded | CodeNotFound
  | CodeAlreadyExists | CodePermissionDenied | CodeResourceExhausted | CodeFailedPrecondition
  | CodeAborted | CodeOutOfRange | CodeUnimplemented | CodeInternal | CodeUnavailable | CodeDataLoss
  | CodeUnauthenticated

text \<open>A message text, either fixed or with one argument printed by \<open>%q\<close> between a prefix and a suffix.\<close>

datatype msg = Txt string | Quoted string string string

record FieldViolation =
  fv_Field :: string
  fv_Description :: msg

datatype ErrorCode =
    ERROR_CODE_UNSPECIFIED | ERROR_CODE_ETAG_MISMATCH | ERROR_CODE_MANAGED_ROLE
  | ERROR_CODE_INVALID_ROLE_ASSIGNMENT_SCOPE | ERROR_CODE_LAST_FULLY_PRIVILEGED_SYSTEM_ADMIN
  | ERROR_CODE_CONTROL_PROJECT_NAME_CONFLICT

datatype detail = BadRequest "FieldViolation list" | ErrorDetail ErrorCode

record Status =
  st_Code :: Code
  st_Message :: msg
  st_Details :: "detail list"

text \<open>
  What \<open>errors.Is\<close> and \<open>errors.As\<close> can see of an error of this layer: the status it carries, or the error
  of the domain it wraps. Attaching a detail fails only when it cannot be marshalled, which the texts below
  never cause.
\<close>

datatype api_error = StatusErr Status | CoreErr error

definition status_Errorf :: "Code \<Rightarrow> msg \<Rightarrow> api_error" where
  "status_Errorf c m = StatusErr \<lparr>st_Code = c, st_Message = m, st_Details = []\<rparr>"

definition status_Error :: "Code \<Rightarrow> string \<Rightarrow> api_error" where
  "status_Error c m = status_Errorf c (Txt m)"

definition errorStatus :: "Code \<Rightarrow> ErrorCode \<Rightarrow> string \<Rightarrow> api_error" where
  "errorStatus c ec m = StatusErr \<lparr>st_Code = c, st_Message = Txt m, st_Details = [ErrorDetail ec]\<rparr>"

definition invalidArgumentStatus :: "FieldViolation list \<Rightarrow> api_error" where
  "invalidArgumentStatus violations = StatusErr \<lparr>st_Code = CodeInvalidArgument,
     st_Message = Txt ''InvalidArgument'', st_Details = [BadRequest violations]\<rparr>"

definition violation :: "string \<Rightarrow> string \<Rightarrow> FieldViolation" where
  "violation field desc = \<lparr>fv_Field = field, fv_Description = Txt desc\<rparr>"

section \<open>The world of a request\<close>

text \<open>
  The database, the emails handed to the sender, and the results that the durable workflow engine keeps
  under a workflow ID.
\<close>

record Message =
  em_From :: string
  em_To :: "string list"
  em_Subject :: string
  em_HTMLBody :: string
  em_TextBody :: string

record world =
  w_db :: db
  w_outbox :: "Message list"
  w_runs :: "(string \<times> (error + unit)) list"

type_synonym 'a api = "(world, api_error, 'a) prog"

text \<open>Calling the domain: \<open>f\<close> is what the handler makes of the error.\<close>

definition call_core :: "(error \<Rightarrow> api_error) \<Rightarrow> 'a op \<Rightarrow> 'a api" where
  "call_core f m = (\<lambda>w. case m (w_db w) of
      (Inl e, t) \<Rightarrow> (Inl (f e), w\<lparr>w_db := t\<rparr>)
    | (Inr x, t) \<Rightarrow> (Inr x, w\<lparr>w_db := t\<rparr>))"

text \<open>A conversion that may panic.\<close>

definition convert :: "error + 'a \<Rightarrow> 'a api" where
  "convert r = liftS (case r of Inl e \<Rightarrow> Inl (CoreErr e) | Inr x \<Rightarrow> Inr x)"

section \<open>Protobuf messages\<close>

type_synonym PbPermission = int

datatype PbAssignmentScope =
    ASSIGNMENT_SCOPE_UNSPECIFIED | ASSIGNMENT_SCOPE_PROJECT | ASSIGNMENT_SCOPE_ORGANIZATION
  | ASSIGNMENT_SCOPE_SYSTEM

datatype PbRoleKind = ROLE_KIND_UNSPECIFIED | ROLE_KIND_CUSTOM | ROLE_KIND_ORGANIZATION_ADMIN

record PbRole =
  pbr_Id :: string
  pbr_Name :: string
  pbr_Permissions :: "PbPermission list"
  pbr_Kind :: PbRoleKind
  pbr_MinimumAssignmentScope :: PbAssignmentScope
  pbr_CreateTime :: "time option"
  pbr_UpdateTime :: "time option"
  pbr_Etag :: string

record PbUser =
  pbu_Id :: string
  pbu_Email :: string
  pbu_Name :: string
  pbu_CreateTime :: "time option"
  pbu_UpdateTime :: "time option"
  pbu_EmailVerifiedTime :: "time option"
  pbu_Etag :: string

record PbOrganization =
  pbo_Id :: "32 word"
  pbo_Name :: string
  pbo_ControlProjectId :: "32 word"
  pbo_CreateTime :: "time option"
  pbo_UpdateTime :: "time option"

record PbProject =
  pbp_Id :: "32 word"
  pbp_OrganizationId :: "32 word"
  pbp_Name :: string
  pbp_IsControl :: bool
  pbp_CreateTime :: "time option"
  pbp_UpdateTime :: "time option"
  pbp_Etag :: string

record PbSystemRole =
  pbs_Name :: string
  pbs_Permissions :: "PbPermission list"

record PbPermissionDescriptor =
  pbd_Permission :: PbPermission
  pbd_MinimumAssignmentScope :: PbAssignmentScope

record PbTokenPair =
  pbt_AccessToken :: string
  pbt_RefreshToken :: string
  pbt_ExpiresIn :: int

record PbAuthContext =
  pba_UserId :: string
  pba_Email :: string
  pba_ProjectPermissions :: "PbPermission list"
  pba_OrganizationPermissions :: "PbPermission list"
  pba_SystemPermissions :: "PbPermission list"

record PbUserFilter =
  pbuf_Email :: string
  pbuf_Name :: string

record PbOrganizationUserFilter =
  pbof_ProjectId :: int

record PbProjectFilter =
  pbpf_Name :: string

text \<open>A page of a listing: its rows, the total number of rows and the token of the next page.\<close>

record 'a PbPage =
  pg_Rows :: "'a list"
  pg_TotalSize :: "32 word"
  pg_NextPageToken :: string

subsection \<open>Requests\<close>

text \<open>A request with a single string field is that string.\<close>

record PageRequest =
  pr_PageSize :: int
  pr_PageToken :: string

record UserPageRequest = PageRequest +
  upr_UserId :: string

record ListUsersRequest = PageRequest +
  lur_Filter :: "PbUserFilter option"
  lur_OrderBy :: string

record ListOrganizationUsersRequest = PageRequest +
  lor_Filter :: "PbOrganizationUserFilter option"

record ListProjectsRequest = PageRequest +
  lpr_Filter :: "PbProjectFilter option"

record UpdateRoleRequest =
  urr_Role :: "PbRole option"
  urr_Paths :: "string list"

record ModifyRolePermissionsRequest =
  mrr_Id :: string
  mrr_Etag :: string
  mrr_AddPermissions :: "PbPermission list"
  mrr_RemovePermissions :: "PbPermission list"

record RoleAssignmentRequest =
  rar_RoleId :: string
  rar_UserId :: string

record SystemRoleAssignmentRequest =
  sra_UserId :: string
  sra_RoleName :: string

record UpdateUserRequest =
  uur_User :: "PbUser option"
  uur_Paths :: "string list"

record CreateOrganizationRequest =
  cor_Organization :: "PbOrganization option"
  cor_ProjectName :: string

definition zeroRole :: PbRole where
  "zeroRole = \<lparr>pbr_Id = [], pbr_Name = [], pbr_Permissions = [], pbr_Kind = ROLE_KIND_UNSPECIFIED,
     pbr_MinimumAssignmentScope = ASSIGNMENT_SCOPE_UNSPECIFIED, pbr_CreateTime = None,
     pbr_UpdateTime = None, pbr_Etag = []\<rparr>"

definition zeroUser :: PbUser where
  "zeroUser = \<lparr>pbu_Id = [], pbu_Email = [], pbu_Name = [], pbu_CreateTime = None, pbu_UpdateTime = None,
     pbu_EmailVerifiedTime = None, pbu_Etag = []\<rparr>"

definition GetRole :: "PbRole option \<Rightarrow> PbRole" where
  "GetRole r = (case r of None \<Rightarrow> zeroRole | Some x \<Rightarrow> x)"

definition GetUser :: "PbUser option \<Rightarrow> PbUser" where
  "GetUser u = (case u of None \<Rightarrow> zeroUser | Some x \<Rightarrow> x)"

definition GetOrganizationName :: "PbOrganization option \<Rightarrow> string" where
  "GetOrganizationName r = (case r of None \<Rightarrow> [] | Some x \<Rightarrow> pbo_Name x)"

subsection \<open>Methods\<close>

text \<open>A request of a method: its message, None when it is nil. \<open>FullMethod\<close> is the name gRPC calls it by.\<close>

datatype request =
    RqRequestMagicLink "string option"
  | RqVerifyMagicLink "string option"
  | RqRefreshAccessToken "string option"
  | RqRevokeRefreshToken "string option"
  | RqRevokeAllSessions "unit option"
  | RqGetAuthContext "unit option"
  | RqListProjects "ListProjectsRequest option"
  | RqCreateOrganization "CreateOrganizationRequest option"
  | RqCreateOrganizationUser "string option"
  | RqListOrganizationUsers "ListOrganizationUsersRequest option"
  | RqGetUser "string option"
  | RqListUsers "ListUsersRequest option"
  | RqCreateUser "PbUser option option"
  | RqUpdateUser "UpdateUserRequest option"
  | RqListSystemRoles "PageRequest option"
  | RqAssignSystemRole "SystemRoleAssignmentRequest option"
  | RqUnassignSystemRole "SystemRoleAssignmentRequest option"
  | RqListSystemRoleAssignments "UserPageRequest option"
  | RqCreateRole "PbRole option option"
  | RqGetRole "string option"
  | RqListRoles "PageRequest option"
  | RqListProjectRoleAssignments "UserPageRequest option"
  | RqListOrganizationRoleAssignments "UserPageRequest option"
  | RqUpdateRole "UpdateRoleRequest option"
  | RqModifyRolePermissions "ModifyRolePermissionsRequest option"
  | RqDeleteRole "string option"
  | RqAssignRoleToProject "RoleAssignmentRequest option"
  | RqUnassignRoleFromProject "RoleAssignmentRequest option"
  | RqAssignRoleToOrganization "RoleAssignmentRequest option"
  | RqUnassignRoleFromOrganization "RoleAssignmentRequest option"
  | RqListPermissions "unit option"

primrec FullMethod :: "request \<Rightarrow> string" where
  "FullMethod (RqRequestMagicLink _) = ''/theapp.v1.AuthService/RequestMagicLink''"
| "FullMethod (RqVerifyMagicLink _) = ''/theapp.v1.AuthService/VerifyMagicLink''"
| "FullMethod (RqRefreshAccessToken _) = ''/theapp.v1.AuthService/RefreshAccessToken''"
| "FullMethod (RqRevokeRefreshToken _) = ''/theapp.v1.AuthService/RevokeRefreshToken''"
| "FullMethod (RqRevokeAllSessions _) = ''/theapp.v1.AuthService/RevokeAllSessions''"
| "FullMethod (RqGetAuthContext _) = ''/theapp.v1.AuthService/GetAuthContext''"
| "FullMethod (RqListProjects _) = ''/theapp.v1.ProjectService/ListProjects''"
| "FullMethod (RqCreateOrganization _) = ''/theapp.v1.OrgService/CreateOrganization''"
| "FullMethod (RqCreateOrganizationUser _) = ''/theapp.v1.OrgService/CreateOrganizationUser''"
| "FullMethod (RqListOrganizationUsers _) = ''/theapp.v1.OrgService/ListOrganizationUsers''"
| "FullMethod (RqGetUser _) = ''/theapp.v1.UserService/GetUser''"
| "FullMethod (RqListUsers _) = ''/theapp.v1.UserService/ListUsers''"
| "FullMethod (RqCreateUser _) = ''/theapp.v1.UserService/CreateUser''"
| "FullMethod (RqUpdateUser _) = ''/theapp.v1.UserService/UpdateUser''"
| "FullMethod (RqListSystemRoles _) = ''/theapp.v1.SystemRoleService/ListSystemRoles''"
| "FullMethod (RqAssignSystemRole _) = ''/theapp.v1.SystemRoleService/AssignSystemRole''"
| "FullMethod (RqUnassignSystemRole _) = ''/theapp.v1.SystemRoleService/UnassignSystemRole''"
| "FullMethod (RqListSystemRoleAssignments _) = ''/theapp.v1.SystemRoleService/ListSystemRoleAssignments''"
| "FullMethod (RqCreateRole _) = ''/theapp.v1.RoleService/CreateRole''"
| "FullMethod (RqGetRole _) = ''/theapp.v1.RoleService/GetRole''"
| "FullMethod (RqListRoles _) = ''/theapp.v1.RoleService/ListRoles''"
| "FullMethod (RqListProjectRoleAssignments _) = ''/theapp.v1.RoleService/ListProjectRoleAssignments''"
| "FullMethod (RqListOrganizationRoleAssignments _) = ''/theapp.v1.RoleService/ListOrganizationRoleAssignments''"
| "FullMethod (RqUpdateRole _) = ''/theapp.v1.RoleService/UpdateRole''"
| "FullMethod (RqModifyRolePermissions _) = ''/theapp.v1.RoleService/ModifyRolePermissions''"
| "FullMethod (RqDeleteRole _) = ''/theapp.v1.RoleService/DeleteRole''"
| "FullMethod (RqAssignRoleToProject _) = ''/theapp.v1.RoleService/AssignRoleToProject''"
| "FullMethod (RqUnassignRoleFromProject _) = ''/theapp.v1.RoleService/UnassignRoleFromProject''"
| "FullMethod (RqAssignRoleToOrganization _) = ''/theapp.v1.RoleService/AssignRoleToOrganization''"
| "FullMethod (RqUnassignRoleFromOrganization _) = ''/theapp.v1.RoleService/UnassignRoleFromOrganization''"
| "FullMethod (RqListPermissions _) = ''/theapp.v1.PermissionService/ListPermissions''"

datatype response =
    RsEmpty
  | RsTokenPair "PbTokenPair"
  | RsAuthContext "PbAuthContext"
  | RsProjects "PbProject PbPage"
  | RsOrganization "PbOrganization"
  | RsUser "PbUser"
  | RsUsers "PbUser PbPage"
  | RsSystemRoles "PbSystemRole PbPage"
  | RsRole "PbRole"
  | RsRoles "PbRole PbPage"
  | RsPermissions "PbPermissionDescriptor list"

section \<open>Third-party functions\<close>

text \<open>
  The functions of other modules that the layer calls: \<open>mail.ParseAddress\<close>, \<open>uuid.Parse\<close>, the JSON codec on
  the wire format of a page token, and the wire codec of each filter message (None where they report an
  error). \<open>proto.Marshal\<close> of a nil message is empty; \<open>proto.Equal\<close> is defined by its documentation: when
  one of the messages is nil it holds only if both are.
\<close>

record pageTokenEncoded =
  pte_Offset :: int
  pte_OrderBy :: string
  pte_Filter :: bytes

record 'f codec =
  enc :: "'f \<Rightarrow> bytes option"
  dec :: "bytes \<Rightarrow> 'f option"

record lib =
  ParseAddress :: address_parser
  uuid_Parse :: "string \<Rightarrow> uuid option"
  json_Marshal :: "pageTokenEncoded \<Rightarrow> bytes option"
  json_Unmarshal :: "bytes \<Rightarrow> pageTokenEncoded option"
  codec_Empty :: "unit codec"
  codec_UserFilter :: "PbUserFilter codec"
  codec_OrganizationUserFilter :: "PbOrganizationUserFilter codec"
  codec_ProjectFilter :: "PbProjectFilter codec"

definition proto_Marshal :: "'f codec \<Rightarrow> 'f option \<Rightarrow> bytes option" where
  "proto_Marshal c m = (case m of None \<Rightarrow> Some [] | Some f \<Rightarrow> enc c f)"

definition proto_Equal :: "'f option \<Rightarrow> 'f option \<Rightarrow> bool" where
  "proto_Equal a b \<longleftrightarrow> a = b"

subsection \<open>Documented behaviour of the codecs\<close>

text \<open>
  Decoding inverts encoding, and encoding does not fail on the messages that occur. Laws that theorems name
  as hypotheses.
\<close>

definition codec_ok :: "'f codec \<Rightarrow> bool" where
  "codec_ok c \<longleftrightarrow> (\<forall>f. \<exists>b. enc c f = Some b \<and> dec c b = Some f)"

definition json_ok :: "lib \<Rightarrow> bool" where
  "json_ok L \<longleftrightarrow> (\<forall>e. inRange (pte_Offset e) \<longrightarrow>
     (\<exists>b. json_Marshal L e = Some b \<and> b \<noteq> [] \<and> json_Unmarshal L b = Some e))"

definition uuid_ok :: "lib \<Rightarrow> bool" where
  "uuid_ok L \<longleftrightarrow> (\<forall>u. uuid_Parse L (uuidString u) = Some u)"

section \<open>Running the programs of this layer\<close>

lemma call_core_Inr_iff:
  "call_core f m w = (Inr x, v) \<longleftrightarrow> (\<exists>t. m (w_db w) = (Inr x, t) \<and> v = w\<lparr>w_db := t\<rparr>)"
  by (auto simp: call_core_def split: prod.splits sum.splits)

lemma call_core_Inl_iff:
  "call_core f m w = (Inl d, v) \<longleftrightarrow> (\<exists>e t. m (w_db w) = (Inl e, t) \<and> d = f e \<and> v = w\<lparr>w_db := t\<rparr>)"
  by (auto simp: call_core_def split: prod.splits sum.splits)

lemma convert_Inr_iff [simp]: "convert r w = (Inr x, v) \<longleftrightarrow> r = Inr x \<and> v = w"
  by (auto simp: convert_def split: sum.splits)

lemma convert_Inl_iff [simp]: "convert r w = (Inl d, v) \<longleftrightarrow> (\<exists>e. r = Inl e \<and> d = CoreErr e) \<and> v = w"
  by (auto simp: convert_def split: sum.splits)

lemma preserves_convert [pres_intros]: "preserves I (convert r)"
  by (simp add: convert_def pres_intros)

lemma preserves_call_core [pres_intros]:
  "preserves I m \<Longrightarrow> preserves (\<lambda>w. I (w_db w)) (call_core f m)"
  unfolding preserves_def call_core_def
  by (auto split: prod.splits sum.splits)

lemmas status_defs = status_Error_def status_Errorf_def errorStatus_def invalidArgumentStatus_def

end
