(* ===== verification/ApiConv.thy ===== *)
theory ApiConv
  imports Api
begin

text \<open>
  Conversions between the domain and the protobuf messages: \<open>internal/api/grpc/internal/conv\<close>. A conversion
  that can panic returns \<open>GoPanic\<close>.
\<close>

section \<open>permission.go\<close>

definition permissionToPB :: "(permission \<times> PbPermission) list" where
  "permissionToPB =
    [(PermissionUserRead, 1),
     (PermissionUserCreate, 2),
     (PermissionUserUpdate, 3),
     (PermissionSystemRoleRead, 4),
     (PermissionSystemRoleAssign, 5),
     (PermissionSystemRoleUnassign, 6),
     (PermissionProjectDiscoverAll, 17),
     (PermissionOrgCreate, 18),
     (PermissionProjectCreate, 19),
     (PermissionOrgUserCreate, 20),
     (PermissionOrgUserRead, 21),
     (PermissionCustomRoleCreate, 7),
     (PermissionCustomRoleRead, 8),
     (PermissionCustomRoleUpdate, 9),
     (PermissionCustomRoleDelete, 10),
     (PermissionCustomRoleAssignProject, 11),
     (PermissionCustomRoleUnassignProject, 12),
     (PermissionCustomRoleAssignOrg, 13),
     (PermissionCustomRoleUnassignOrg, 14),
     (PermissionCustomRoleReadProjectAssignments, 15),
     (PermissionCustomRoleReadOrgAssignments, 16)]"

text \<open>\<open>Permission_name\<close> of the generated \<open>permission.pb.go\<close>; an unnamed number prints as itself.\<close>

definition Permission_name :: "(PbPermission \<times> string) list" where
  "Permission_name =
    [(0, ''PERMISSION_UNSPECIFIED''),
     (1, ''PERMISSION_USER_READ''),
     (2, ''PERMISSION_USER_CREATE''),
     (3, ''PERMISSION_USER_UPDATE''),
     (4, ''PERMISSION_SYSTEM_ROLE_READ''),
     (5, ''PERMISSION_SYSTEM_ROLE_ASSIGN''),
     (6, ''PERMISSION_SYSTEM_ROLE_UNASSIGN''),
     (7, ''PERMISSION_CUSTOM_ROLE_CREATE''),
     (8, ''PERMISSION_CUSTOM_ROLE_READ''),
     (9, ''PERMISSION_CUSTOM_ROLE_UPDATE''),
     (10, ''PERMISSION_CUSTOM_ROLE_DELETE''),
     (11, ''PERMISSION_CUSTOM_ROLE_ASSIGN_PROJECT''),
     (12, ''PERMISSION_CUSTOM_ROLE_UNASSIGN_PROJECT''),
     (13, ''PERMISSION_CUSTOM_ROLE_ASSIGN_ORGANIZATION''),
     (14, ''PERMISSION_CUSTOM_ROLE_UNASSIGN_ORGANIZATION''),
     (15, ''PERMISSION_CUSTOM_ROLE_READ_PROJECT_ASSIGNMENTS''),
     (16, ''PERMISSION_CUSTOM_ROLE_READ_ORGANIZATION_ASSIGNMENTS''),
     (17, ''PERMISSION_PROJECT_DISCOVER_ALL''),
     (18, ''PERMISSION_ORGANIZATION_CREATE''),
     (19, ''PERMISSION_PROJECT_CREATE''),
     (20, ''PERMISSION_ORGANIZATION_USER_CREATE''),
     (21, ''PERMISSION_ORGANIZATION_USER_READ'')]"

definition PbPermission_String :: "PbPermission \<Rightarrow> string" where
  "PbPermission_String p = (case map_of Permission_name p of Some n \<Rightarrow> n | None \<Rightarrow> Itoa p)"

primrec permissionFromPB_loop ::
    "(PbPermission \<times> permission) list \<Rightarrow> (permission \<times> PbPermission) list \<Rightarrow> error + (PbPermission \<times> permission) list" where
  "permissionFromPB_loop result [] = Inr result"
| "permissionFromPB_loop result (mp # mps) =
    (if map_of result (snd mp) \<noteq> None then Inl (GoPanic ''duplicate protobuf permission mapping'')
     else permissionFromPB_loop ((snd mp, fst mp) # result) mps)"

definition permissionFromPB :: "error + (PbPermission \<times> permission) list" where
  "permissionFromPB = permissionFromPB_loop [] permissionToPB"

definition PermissionToPB :: "permission \<Rightarrow> PbPermission option" where
  "PermissionToPB p = map_of permissionToPB p"

definition PermissionFromPB :: "PbPermission \<Rightarrow> permission option" where
  "PermissionFromPB p = (case permissionFromPB of Inl _ \<Rightarrow> None | Inr m \<Rightarrow> map_of m p)"

definition mustPermissionToPB :: "permission \<Rightarrow> error + PbPermission" where
  "mustPermissionToPB p = (case PermissionToPB p of
      None \<Rightarrow> Inl (GoPanic ''unsupported permission'')
    | Some r \<Rightarrow> Inr r)"

text \<open>\<open>slicesx.Map\<close> with a function that may panic.\<close>

primrec mapE :: "('a \<Rightarrow> error + 'b) \<Rightarrow> 'a list \<Rightarrow> error + 'b list" where
  "mapE f [] = Inr []"
| "mapE f (x # xs) = (case f x of
      Inl e \<Rightarrow> Inl e
    | Inr y \<Rightarrow> (case mapE f xs of Inl e \<Rightarrow> Inl e | Inr ys \<Rightarrow> Inr (y # ys)))"

definition bindE :: "error + 'a \<Rightarrow> ('a \<Rightarrow> error + 'b) \<Rightarrow> error + 'b" where
  "bindE r f = (case r of Inl e \<Rightarrow> Inl e | Inr x \<Rightarrow> f x)"

definition PermissionsToPB :: "permission list \<Rightarrow> error + PbPermission list" where
  "PermissionsToPB ps = mapE mustPermissionToPB ps"

primrec PermissionsFromPB :: "PbPermission list \<Rightarrow> permission list option" where
  "PermissionsFromPB [] = Some []"
| "PermissionsFromPB (p # ps) = (case PermissionFromPB p of
      None \<Rightarrow> None
    | Some q \<Rightarrow> (case PermissionsFromPB ps of None \<Rightarrow> None | Some qs \<Rightarrow> Some (q # qs)))"

primrec AssignmentScopeToPB :: "AssignmentScope \<Rightarrow> PbAssignmentScope" where
  "AssignmentScopeToPB AssignmentScopeProject = ASSIGNMENT_SCOPE_PROJECT"
| "AssignmentScopeToPB AssignmentScopeOrganization = ASSIGNMENT_SCOPE_ORGANIZATION"
| "AssignmentScopeToPB AssignmentScopeSystem = ASSIGNMENT_SCOPE_SYSTEM"

definition PermissionDescriptorsToPB :: "PermissionDescriptor list \<Rightarrow> error + PbPermissionDescriptor list" where
  "PermissionDescriptorsToPB ds = mapE (\<lambda>desc.
     bindE (mustPermissionToPB (pd_Permission desc)) (\<lambda>p.
     Inr \<lparr>pbd_Permission = p, pbd_MinimumAssignmentScope = AssignmentScopeToPB (pd_MinimumAssignmentScope desc)\<rparr>)) ds"

section \<open>custom_role.go and system_role.go\<close>

primrec roleKindToPB :: "RoleKind \<Rightarrow> PbRoleKind" where
  "roleKindToPB RoleKindCustom = ROLE_KIND_CUSTOM"
| "roleKindToPB RoleKindOrganizationAdmin = ROLE_KIND_ORGANIZATION_ADMIN"

definition CustomRoleToPB :: "CustomRole \<Rightarrow> error + PbRole" where
  "CustomRoleToPB cr =
    bindE (PermissionsToPB (cr_Permissions cr)) (\<lambda>perms.
    bindE (CustomRole_MinimumAssignmentScope cr) (\<lambda>scope.
    Inr \<lparr>pbr_Id = uuidString (cr_ID cr), pbr_Name = cr_Name cr, pbr_Permissions = perms,
      pbr_Kind = roleKindToPB (cr_Kind cr), pbr_MinimumAssignmentScope = AssignmentScopeToPB scope,
      pbr_CreateTime = Some (cr_CreatedAt cr), pbr_UpdateTime = cr_UpdatedAt cr,
      pbr_Etag = uuidString (cr_ETag cr)\<rparr>))"

definition CustomRolesToPB :: "CustomRole list \<Rightarrow> error + PbRole list" where
  "CustomRolesToPB crs = mapE CustomRoleToPB crs"

definition CreateCustomRoleFromPB :: "PbRole option \<Rightarrow> CreateCustomRole option" where
  "CreateCustomRoleFromPB role = (case PermissionsFromPB (pbr_Permissions (GetRole role)) of
      None \<Rightarrow> None
    | Some ps \<Rightarrow> Some \<lparr>ccr_Name = pbr_Name (GetRole role), ccr_Permissions = ps\<rparr>)"

definition UpdateCustomRoleFromPB :: "lib \<Rightarrow> UpdateRoleRequest \<Rightarrow> uuid \<Rightarrow> error + UpdateCustomRole" where
  "UpdateCustomRoleFromPB L req roleID =
    (case PermissionsFromPB (pbr_Permissions (GetRole (urr_Role req))) of
      None \<Rightarrow> Inl (ErrMsg ''unknown permission'')
    | Some ps \<Rightarrow> (case uuid_Parse L (pbr_Etag (GetRole (urr_Role req))) of
        None \<Rightarrow> Inl (ErrMsg ''parse etag'')
      | Some etag \<Rightarrow> Inr \<lparr>ucr_ID = roleID, ucr_ETag = etag,
          ucr_FieldName = (''name'' \<in> set (urr_Paths req)),
          ucr_FieldPermissions = (''permissions'' \<in> set (urr_Paths req)),
          ucr_Name = pbr_Name (GetRole (urr_Role req)), ucr_Permissions = ps\<rparr>))"

definition ModifyCustomRolePermissionsFromPB ::
    "lib \<Rightarrow> ModifyRolePermissionsRequest \<Rightarrow> uuid \<Rightarrow> error + ModifyCustomRolePermissions" where
  "ModifyCustomRolePermissionsFromPB L req roleID =
    (case (PermissionsFromPB (mrr_AddPermissions req), PermissionsFromPB (mrr_RemovePermissions req)) of
      (Some add, Some rem) \<Rightarrow> (case uuid_Parse L (mrr_Etag req) of
          None \<Rightarrow> Inl (ErrMsg ''parse etag'')
        | Some etag \<Rightarrow> Inr \<lparr>mrp_ID = roleID, mrp_ETag = etag, mrp_AddPermissions = add,
            mrp_RemovePermissions = rem\<rparr>)
    | _ \<Rightarrow> Inl (ErrMsg ''unknown permission''))"

definition SystemRoleToPB :: "SystemRole \<Rightarrow> error + PbSystemRole" where
  "SystemRoleToPB role =
    bindE (PermissionsToPB (sr_Permissions role)) (\<lambda>perms.
    Inr \<lparr>pbs_Name = sr_Name role, pbs_Permissions = perms\<rparr>)"

definition SystemRolesToPB :: "SystemRole list \<Rightarrow> error + PbSystemRole list" where
  "SystemRolesToPB roles = mapE SystemRoleToPB roles"

section \<open>user.go, organization.go, project.go and auth.go\<close>

definition UserToPB :: "User \<Rightarrow> PbUser" where
  "UserToPB usr = \<lparr>pbu_Id = uuidString (u_ID usr), pbu_Email = u_Email usr, pbu_Name = u_Name usr,
     pbu_CreateTime = Some (u_CreatedAt usr), pbu_UpdateTime = u_UpdatedAt usr,
     pbu_EmailVerifiedTime = u_EmailVerifiedAt usr, pbu_Etag = uuidString (u_ETag usr)\<rparr>"

definition UsersToPB :: "User list \<Rightarrow> PbUser list" where
  "UsersToPB usr = sliceMap usr UserToPB"

definition UpdateUserFromPB :: "lib \<Rightarrow> UpdateUserRequest \<Rightarrow> uuid \<Rightarrow> error + UpdateUser" where
  "UpdateUserFromPB L req i = (case uuid_Parse L (pbu_Etag (GetUser (uur_User req))) of
      None \<Rightarrow> Inl (ErrMsg ''parse etag'')
    | Some etag \<Rightarrow> Inr \<lparr>uu_ID = i, uu_ETag = etag, uu_FieldName = (''name'' \<in> set (uur_Paths req)),
        uu_Name = pbu_Name (GetUser (uur_User req))\<rparr>)"

definition CreateUserFromPB :: "PbUser option \<Rightarrow> CreateUser" where
  "CreateUserFromPB u = \<lparr>cu_Email = pbu_Email (GetUser u), cu_Name = pbu_Name (GetUser u)\<rparr>"

definition UserFilterFromPB :: "PbUserFilter option \<Rightarrow> UserFilter" where
  "UserFilterFromPB f = (case f of
      None \<Rightarrow> \<lparr>uf_Email = [], uf_Name = []\<rparr>
    | Some g \<Rightarrow> \<lparr>uf_Email = pbuf_Email g, uf_Name = pbuf_Name g\<rparr>)"

definition CreateOrganizationFromPB :: "CreateOrganizationRequest \<Rightarrow> CreateOrganization" where
  "CreateOrganizationFromPB req = \<lparr>co_Name = GetOrganizationName (cor_Organization req),
     co_ProjectName = cor_ProjectName req\<rparr>"

definition OrganizationUserFilterFromPB :: "PbOrganizationUserFilter option \<Rightarrow> OrganizationUserFilter" where
  "OrganizationUserFilterFromPB f =
    (let projectId = (case f of None \<Rightarrow> 0 | Some g \<Rightarrow> pbof_ProjectId g) in
     if projectId = 0 then \<lparr>ouf_ProjectID = None\<rparr> else \<lparr>ouf_ProjectID = Some projectId\<rparr>)"

definition OrganizationToPB :: "Organization \<Rightarrow> error + PbOrganization" where
  "OrganizationToPB o' =
    bindE (Int32 (o_ID o')) (\<lambda>i.
    bindE (Int32 (o_ControlProjectID o')) (\<lambda>c.
    Inr \<lparr>pbo_Id = i, pbo_Name = o_Name o', pbo_ControlProjectId = c,
      pbo_CreateTime = Some (o_CreatedAt o'), pbo_UpdateTime = o_UpdatedAt o'\<rparr>))"

definition ProjectFilterFromPB :: "PbProjectFilter option \<Rightarrow> ProjectFilter" where
  "ProjectFilterFromPB f = (case f of None \<Rightarrow> \<lparr>pf_Name = []\<rparr> | Some g \<Rightarrow> \<lparr>pf_Name = pbpf_Name g\<rparr>)"

definition ProjectToPB :: "Project \<Rightarrow> error + PbProject" where
  "ProjectToPB p =
    bindE (Int32 (p_ID p)) (\<lambda>i.
    bindE (Int32 (p_OrgID p)) (\<lambda>o'.
    Inr \<lparr>pbp_Id = i, pbp_OrganizationId = o', pbp_Name = p_Name p, pbp_IsControl = p_IsControl p,
      pbp_CreateTime = Some (p_CreatedAt p), pbp_UpdateTime = p_UpdatedAt p,
      pbp_Etag = uuidString (p_ETag p)\<rparr>))"

definition ProjectsToPB :: "Project list \<Rightarrow> error + PbProject list" where
  "ProjectsToPB ps = mapE ProjectToPB ps"

text \<open>\<open>int64(d.Seconds())\<close>: a duration counts nanoseconds, the conversion truncates towards zero.\<close>

definition wholeSeconds :: "time \<Rightarrow> int" where
  "wholeSeconds d = sgn d * (\<bar>d\<bar> div 1000000000)"

definition TokenPairToPB :: "AuthTokenPair \<Rightarrow> PbTokenPair" where
  "TokenPairToPB p = \<lparr>pbt_AccessToken = tp_AccessToken p, pbt_RefreshToken = tp_RefreshToken p,
     pbt_ExpiresIn = wholeSeconds (tp_ExpiresIn p)\<rparr>"

definition AuthContextToPB :: "AuthContext \<Rightarrow> error + PbAuthContext" where
  "AuthContextToPB ac =
    bindE (PermissionsToPB (ac_ProjectPermissions ac)) (\<lambda>pp.
    bindE (PermissionsToPB (ac_OrganizationPermissions ac)) (\<lambda>op.
    bindE (PermissionsToPB (ac_SystemPermissions ac)) (\<lambda>sp.
    Inr \<lparr>pba_UserId = uuidString (ac_UserID ac), pba_Email = ac_Email ac, pba_ProjectPermissions = pp,
      pba_OrganizationPermissions = op, pba_SystemPermissions = sp\<rparr>)))"

section \<open>order_by.go\<close>

definition parseDirection :: "string \<Rightarrow> Direction option" where
  "parseDirection s = (if toLower s = ''asc'' then Some DirectionAsc
     else if toLower s = ''desc'' then Some DirectionDesc
     else None)"

primrec parseOrderBy_loop ::
    "(string \<times> string) list \<Rightarrow> string By list \<Rightarrow> string list \<Rightarrow> string By list option" where
  "parseOrderBy_loop fieldMapping out [] = Some out"
| "parseOrderBy_loop fieldMapping out (s # ss) = (case Fields s of
      [f] \<Rightarrow> (case map_of fieldMapping f of
          None \<Rightarrow> None
        | Some field \<Rightarrow> parseOrderBy_loop fieldMapping
            (out @ [\<lparr>by_Field = field, by_Direction = DirectionAsc\<rparr>]) ss)
    | [f, d] \<Rightarrow> (case map_of fieldMapping f of
          None \<Rightarrow> None
        | Some field \<Rightarrow> (case parseDirection d of
            None \<Rightarrow> None
          | Some dir \<Rightarrow> parseOrderBy_loop fieldMapping
              (out @ [\<lparr>by_Field = field, by_Direction = dir\<rparr>]) ss))
    | _ \<Rightarrow> None)"

definition parseOrderBy :: "string \<Rightarrow> (string \<times> string) list \<Rightarrow> string By list option" where
  "parseOrderBy orderBy fieldMapping =
    (if orderBy = [] then Some []
     else if fieldMapping = [] then Some []
     else parseOrderBy_loop fieldMapping [] (splitOn CHR '','' orderBy))"

definition UserOrderBysFromPB :: "string \<Rightarrow> string By list option" where
  "UserOrderBysFromPB s = parseOrderBy s
    [(''email'', UserOrderByFieldEmail), (''updated_at'', UserOrderByFieldUpdatedAt)]"

section \<open>pagination.go\<close>

record 'f PageToken =
  pt_Offset :: int
  pt_OrderBy :: string
  pt_Filter :: "'f option"

definition EncodePageToken :: "lib \<Rightarrow> 'f codec \<Rightarrow> int \<Rightarrow> string \<Rightarrow> 'f option \<Rightarrow> string option" where
  "EncodePageToken L c offset orderBy filt =
    (case proto_Marshal c filt of
      None \<Rightarrow> None
    | Some fb \<Rightarrow> (case json_Marshal L \<lparr>pte_Offset = offset, pte_OrderBy = orderBy, pte_Filter = fb\<rparr> of
        None \<Rightarrow> None
      | Some b \<Rightarrow> Some (stdEncode b)))"

definition zeroPageToken :: "'f PageToken" where
  "zeroPageToken = \<lparr>pt_Offset = 0, pt_OrderBy = [], pt_Filter = None\<rparr>"

definition DecodePageToken :: "lib \<Rightarrow> 'f codec \<Rightarrow> string \<Rightarrow> 'f PageToken option" where
  "DecodePageToken L c token =
    (if token = [] then Some zeroPageToken
     else case stdDecode token of
       None \<Rightarrow> None
     | Some b \<Rightarrow> (case json_Unmarshal L b of
         None \<Rightarrow> None
       | Some e \<Rightarrow>
           if pte_Filter e = [] then Some \<lparr>pt_Offset = pte_Offset e, pt_OrderBy = pte_OrderBy e, pt_Filter = None\<rparr>
           else (case dec c (pte_Filter e) of
               None \<Rightarrow> None
             | Some f \<Rightarrow> Some \<lparr>pt_Offset = pte_Offset e, pt_OrderBy = pte_OrderBy e, pt_Filter = Some f\<rparr>)))"

end
