(* ===== verification/ApiConvProps.thy ===== *)
theory ApiConvProps
  imports ApiConv
begin

text \<open>
  The conversions are inverse to each other where the code relies on it: permissions and their protobuf
  numbers, page tokens, and the textual \<open>order_by\<close>.
\<close>

section \<open>Permissions\<close>

lemma permissionFromPB_loop_Inr:
  "distinct (map snd mps @ map fst result) \<Longrightarrow>
    permissionFromPB_loop result mps = Inr (rev (map (\<lambda>(m, p). (p, m)) mps) @ result)"
proof (induction mps arbitrary: result)
  case (Cons mp mps)
  have "map_of result (snd mp) = None" using Cons.prems by (simp add: map_of_eq_None_iff)
  moreover have "permissionFromPB_loop ((snd mp, fst mp) # result) mps =
      Inr (rev (map (\<lambda>(m, p). (p, m)) mps) @ (snd mp, fst mp) # result)"
    by (rule Cons.IH) (use Cons.prems in auto)
  ultimately show ?case by (cases mp) simp
qed simp

lemma permissionToPB_distinct: "distinct (map fst permissionToPB)" "distinct (map snd permissionToPB)"
  by (simp_all add: permissionToPB_def perm_names)

lemma permissionFromPB_eq: "permissionFromPB = Inr (rev (map (\<lambda>(m, p). (p, m)) permissionToPB))"
  using permissionFromPB_loop_Inr [of permissionToPB "[]"] permissionToPB_distinct
  by (simp add: permissionFromPB_def)

lemma PermissionToPB_iff: "PermissionToPB n = Some p \<longleftrightarrow> (n, p) \<in> set permissionToPB"
  using permissionToPB_distinct by (simp add: PermissionToPB_def)

lemma PermissionFromPB_iff: "PermissionFromPB p = Some n \<longleftrightarrow> (n, p) \<in> set permissionToPB"
proof -
  have "map fst (rev (map (\<lambda>(m, p). (p, m)) permissionToPB)) = rev (map snd permissionToPB)"
    by (simp add: rev_map o_def split_def)
  then have "distinct (map fst (rev (map (\<lambda>(m, p). (p, m)) permissionToPB)))"
    using permissionToPB_distinct by simp
  then have "map_of (rev (map (\<lambda>(m, p). (p, m)) permissionToPB)) p = Some n \<longleftrightarrow>
      (p, n) \<in> set (rev (map (\<lambda>(m, p). (p, m)) permissionToPB))" by (simp only: map_of_eq_Some_iff)
  then show ?thesis by (auto simp: PermissionFromPB_def permissionFromPB_eq)
qed

lemma permissionToPB_keys: "set (map fst permissionToPB) = set AllPermissions"
  by (simp add: permissionToPB_def AllPermissions_def)

lemma PermissionFromPB_known: "PermissionFromPB p = Some n \<Longrightarrow> n \<in> set AllPermissions"
  using permissionToPB_keys by (force simp: PermissionFromPB_iff)

lemma PermissionToPB_total: "(\<exists>p. PermissionToPB n = Some p) \<longleftrightarrow> n \<in> set AllPermissions"
  unfolding PermissionToPB_iff permissionToPB_keys [symmetric] by force

lemma PermissionsFromPB_Some:
  "PermissionsFromPB ps = Some ns \<longleftrightarrow> list_all2 (\<lambda>p n. PermissionFromPB p = Some n) ps ns"
proof (induction ps arbitrary: ns)
  case (Cons p ps)
  show ?case by (cases ns) (auto simp: Cons.IH [symmetric] split: option.splits)
qed auto

lemma mapE_Inr: "mapE f xs = Inr ys \<longleftrightarrow> list_all2 (\<lambda>x y. f x = Inr y) xs ys"
proof (induction xs arbitrary: ys)
  case (Cons x xs)
  show ?case by (cases ys) (auto simp: Cons.IH [symmetric] split: sum.splits)
qed auto

lemma PermissionsToPB_Inr:
  "PermissionsToPB ns = Inr ps \<longleftrightarrow> list_all2 (\<lambda>n p. PermissionToPB n = Some p) ns ps"
  unfolding PermissionsToPB_def mapE_Inr
  by (rule arg_cong [where f = "\<lambda>r. list_all2 r ns ps"])
    (auto simp: mustPermissionToPB_def fun_eq_iff split: option.splits)

lemma PermissionsToPB_total: "set ns \<subseteq> set AllPermissions \<Longrightarrow> \<exists>ps. PermissionsToPB ns = Inr ps"
proof (induction ns)
  case (Cons n ns)
  then obtain p where "PermissionToPB n = Some p" using PermissionToPB_total [of n] by auto
  then show ?case using Cons by (auto simp: PermissionsToPB_def mustPermissionToPB_def)
qed (simp add: PermissionsToPB_def)

text \<open>C29: the two conversions of permission lists are inverse: converting model permissions to protobuf succeeds
  exactly for registered ones, what it gives converts back to the same list, a protobuf list that converts
  to the model converts back to the same numbers, and the panic on a duplicate mapping never happens.\<close>

theorem permissions_roundtrip:
  "(\<forall>ns ps. PermissionsToPB ns = Inr ps \<longleftrightarrow> PermissionsFromPB ps = Some ns) \<and>
   (\<forall>ns. (\<exists>ps. PermissionsToPB ns = Inr ps) \<longleftrightarrow> set ns \<subseteq> set AllPermissions) \<and>
   (\<exists>m. permissionFromPB = Inr m)"
proof (intro conjI allI)
  fix ns ps
  have "list_all2 (\<lambda>n p. PermissionToPB n = Some p) ns ps \<longleftrightarrow> list_all2 (\<lambda>p n. PermissionFromPB p = Some n) ps ns"
    unfolding PermissionToPB_iff PermissionFromPB_iff by (auto simp: list_all2_conv_all_nth)
  then show "PermissionsToPB ns = Inr ps \<longleftrightarrow> PermissionsFromPB ps = Some ns"
    by (simp only: PermissionsToPB_Inr PermissionsFromPB_Some)
next
  fix ns
  show "(\<exists>ps. PermissionsToPB ns = Inr ps) \<longleftrightarrow> set ns \<subseteq> set AllPermissions"
  proof
    assume "\<exists>ps. PermissionsToPB ns = Inr ps"
    then obtain ps where l: "list_all2 (\<lambda>n p. PermissionToPB n = Some p) ns ps" by (auto simp: PermissionsToPB_Inr)
    show "set ns \<subseteq> set AllPermissions"
    proof
      fix n assume "n \<in> set ns"
      then have "\<exists>p. PermissionToPB n = Some p" using l by (auto simp: list_all2_conv_all_nth in_set_conv_nth)
      then show "n \<in> set AllPermissions" by (simp add: PermissionToPB_total)
    qed
  qed (rule PermissionsToPB_total)
next
  show "\<exists>m. permissionFromPB = Inr m" by (simp add: permissionFromPB_eq)
qed

section \<open>Page tokens\<close>

lemma EncodePageToken_Some:
  assumes "json_ok L" "codec_ok c" "inRange offset"
  obtains t fb where "EncodePageToken L c offset ob filt = Some t" "t \<noteq> []" "proto_Marshal c filt = Some fb"
    "DecodePageToken L c t = Some \<lparr>pt_Offset = offset, pt_OrderBy = ob, pt_Filter = (if fb = [] then None else filt)\<rparr>"
proof -
  have "\<exists>fb. proto_Marshal c filt = Some fb \<and> (\<forall>f. filt = Some f \<longrightarrow> dec c fb = Some f)"
  proof (cases filt)
    case (Some f)
    then show ?thesis using assms(2) by (simp add: proto_Marshal_def codec_ok_def)
  qed (simp add: proto_Marshal_def)
  then obtain fb where fb: "proto_Marshal c filt = Some fb" "\<And>f. filt = Some f \<Longrightarrow> dec c fb = Some f" by blast
  have none: "filt = None \<Longrightarrow> fb = []" using fb(1) by (simp add: proto_Marshal_def)
  let ?e = "\<lparr>pte_Offset = offset, pte_OrderBy = ob, pte_Filter = fb\<rparr>"
  obtain b where b: "json_Marshal L ?e = Some b" "b \<noteq> []" "json_Unmarshal L b = Some ?e"
    using assms(1,3) unfolding json_ok_def by (metis pageTokenEncoded.select_convs(1))
  show thesis
  proof (rule that [OF _ _ fb(1)])
    show "EncodePageToken L c offset ob filt = Some (stdEncode b)" using fb(1) b(1) by (simp add: EncodePageToken_def)
    show "stdEncode b \<noteq> []" using b(2) by simp
    show "DecodePageToken L c (stdEncode b) =
        Some \<lparr>pt_Offset = offset, pt_OrderBy = ob, pt_Filter = (if fb = [] then None else filt)\<rparr>"
      using b fb(2) none by (cases filt) (auto simp: DecodePageToken_def)
  qed
qed

text \<open>A filter that is present but has no field set is encoded to nothing, and is gone when the token comes back.\<close>

lemma empty_filter_lost:
  assumes "json_ok L" "codec_ok c" "inRange offset" "enc c f = Some []"
  obtains t where "EncodePageToken L c offset ob (Some f) = Some t" "t \<noteq> []"
    "\<exists>pt. DecodePageToken L c t = Some pt \<and> \<not> proto_Equal (pt_Filter pt) (Some f)"
proof -
  obtain t fb where t: "EncodePageToken L c offset ob (Some f) = Some t" "t \<noteq> []"
    "proto_Marshal c (Some f) = Some fb"
    "DecodePageToken L c t = Some \<lparr>pt_Offset = offset, pt_OrderBy = ob, pt_Filter = (if fb = [] then None else Some f)\<rparr>"
    by (rule EncodePageToken_Some [OF assms(1-3)])
  have "fb = []" using t(3) assms(4) by (simp add: proto_Marshal_def)
  then show thesis using t by (intro that) (auto simp: proto_Equal_def)
qed

section \<open>order_by\<close>

definition direction_text :: "Direction \<Rightarrow> string" where
  "direction_text d = (case d of DirectionAsc \<Rightarrow> ''asc'' | DirectionDesc \<Rightarrow> ''desc'')"

primrec order_text :: "string By list \<Rightarrow> string" where
  "order_text [] = []"
| "order_text (o' # os) = by_Field o' @ '' '' @ direction_text (by_Direction o') @
    (if os = [] then [] else '', '' @ order_text os)"

lemma Fields_two:
  assumes "w \<noteq> []" "v \<noteq> []" "\<forall>c \<in> set (w @ v). \<not> isSpace c"
  shows "Fields (w @ '' '' @ v) = [w, v]" "Fields ('' '' @ w @ '' '' @ v) = [w, v]"
proof -
  have sp: "isSpace CHR '' ''" by (simp add: isSpace_def byte_def)
  have "Fields (w @ CHR '' '' # v) = [w, v]"
  proof (cases w)
    case (Cons c cs)
    have "takeWhile (\<lambda>d. \<not> isSpace d) (cs @ CHR '' '' # v) = cs"
      "dropWhile (\<lambda>d. \<not> isSpace d) (cs @ CHR '' '' # v) = CHR '' '' # v"
      using assms(3) Cons sp by (simp_all add: takeWhile_append2 dropWhile_append2)
    moreover have "Fields v = [v]" using assms by (intro Fields_word) auto
    ultimately show ?thesis using Cons assms(3) sp by simp
  qed (use assms(1) in simp)
  then show "Fields (w @ '' '' @ v) = [w, v]" "Fields ('' '' @ w @ '' '' @ v) = [w, v]" using sp by simp_all
qed

definition user_fields :: "(string \<times> string) list" where
  "user_fields = [(''email'', UserOrderByFieldEmail), (''updated_at'', UserOrderByFieldUpdatedAt)]"

definition sortable :: "string By \<Rightarrow> bool" where
  "sortable o' \<longleftrightarrow> by_Field o' \<in> {UserOrderByFieldEmail, UserOrderByFieldUpdatedAt}"

lemma sortable_field:
  assumes "sortable o'"
  shows "map_of user_fields (by_Field o') = Some (by_Field o')" "by_Field o' \<noteq> []"
    "CHR '','' \<notin> set (by_Field o')" "\<forall>c \<in> set (by_Field o'). \<not> isSpace c"
  using assms
  by (auto simp: sortable_def user_fields_def UserOrderByFieldEmail_def UserOrderByFieldUpdatedAt_def
      isSpace_def byte_def)

lemma direction_text_props:
  "direction_text d \<noteq> []" "CHR '','' \<notin> set (direction_text d)" "\<forall>c \<in> set (direction_text d). \<not> isSpace c"
  "parseDirection (direction_text d) = Some d"
  by (cases d; simp add: direction_text_def isSpace_def byte_def parseDirection_def toLower_def lower_char_def)+

lemma parse_entry:
  assumes "sortable o'" "pre = [] \<or> pre = '' ''"
  shows "parseOrderBy_loop user_fields out ((pre @ by_Field o' @ '' '' @ direction_text (by_Direction o')) # ss) =
    parseOrderBy_loop user_fields (out @ [o']) ss"
proof -
  note f = sortable_field [OF assms(1)] and d = direction_text_props [of "by_Direction o'"]
  have "Fields (pre @ by_Field o' @ '' '' @ direction_text (by_Direction o')) = [by_Field o', direction_text (by_Direction o')]"
  proof -
    have "\<forall>c \<in> set (by_Field o' @ direction_text (by_Direction o')). \<not> isSpace c" using f(4) d(3) by auto
    from Fields_two [OF f(2) d(1) this] show ?thesis using assms(2) by auto
  qed
  then show ?thesis using f(1) d(4) by (cases o') simp
qed

lemma parse_order_text:
  "\<lbrakk>os \<noteq> []; \<forall>o' \<in> set os. sortable o'; pre = [] \<or> pre = '' ''\<rbrakk> \<Longrightarrow>
    parseOrderBy_loop user_fields out (splitOn CHR '','' (pre @ order_text os)) = Some (out @ os)"
proof (induction os arbitrary: out pre)
  case (Cons o' os)
  let ?w = "pre @ by_Field o' @ '' '' @ direction_text (by_Direction o')"
  have s: "sortable o'" using Cons.prems(2) by simp
  have c: "CHR '','' \<notin> set ?w"
    using Cons.prems(3) sortable_field(3) [OF s] direction_text_props(2) [of "by_Direction o'"] by auto
  show ?case
  proof (cases "os = []")
    case True
    have "splitOn CHR '','' ?w = [?w]" using c by (rule splitOn_single)
    then show ?thesis using True parse_entry [OF s Cons.prems(3), of out "[]"] by simp
  next
    case False
    have "pre @ order_text (o' # os) = ?w @ CHR '','' # '' '' @ order_text os" using False by simp
    then have "splitOn CHR '','' (pre @ order_text (o' # os)) = ?w # splitOn CHR '','' ('' '' @ order_text os)"
      using splitOn_join [OF c] by simp
    moreover have "parseOrderBy_loop user_fields (out @ [o']) (splitOn CHR '','' ('' '' @ order_text os)) =
        Some ((out @ [o']) @ os)"
      by (rule Cons.IH) (use False Cons.prems in auto)
    ultimately show ?thesis using parse_entry [OF s Cons.prems(3)] by simp
  qed
qed simp

lemma mapped_sortable: "map_of user_fields g = Some f \<Longrightarrow> sortable \<lparr>by_Field = f, by_Direction = d\<rparr>"
  by (auto simp: user_fields_def sortable_def split: if_splits)

lemma parse_step:
  assumes "parseOrderBy_loop user_fields out (s # ss) = Some r"
  obtains o' where "sortable o'" "parseOrderBy_loop user_fields (out @ [o']) ss = Some r"
proof (cases "Fields s")
  case (Cons f ds)
  show thesis
  proof (cases ds)
    case Nil
    then show thesis using assms Cons that [OF mapped_sortable] by (auto split: option.splits)
  next
    case (Cons d es)
    then show thesis using assms \<open>Fields s = f # ds\<close> that [OF mapped_sortable]
      by (cases es) (auto split: option.splits)
  qed
qed (use assms in simp)

lemma parsed_sortable:
  "parseOrderBy_loop user_fields out ss = Some r \<Longrightarrow> \<forall>o' \<in> set out. sortable o' \<Longrightarrow> \<forall>o' \<in> set r. sortable o'"
proof (induction ss arbitrary: out)
  case (Cons s ss)
  from Cons.prems(1) obtain o' where o: "sortable o'" "parseOrderBy_loop user_fields (out @ [o']) ss = Some r"
    by (rule parse_step)
  show ?case by (rule Cons.IH [OF o(2)]) (use o(1) Cons.prems(2) in auto)
qed simp

text \<open>The order of a listing survives its text form: writing any list of sortable fields and directions in
  the \<open>order_by\<close> syntax and parsing it gives the same list, in the same order; and whatever text is accepted
  orders by sortable fields only.\<close>

theorem order_by_roundtrip:
  "((\<forall>o' \<in> set os. sortable o') \<longrightarrow> UserOrderBysFromPB (order_text os) = Some os) \<and>
   (UserOrderBysFromPB s = Some rs \<longrightarrow> (\<forall>o' \<in> set rs. sortable o'))"
proof (intro conjI impI)
  assume a: "\<forall>o' \<in> set os. sortable o'"
  show "UserOrderBysFromPB (order_text os) = Some os"
  proof (cases "os = []")
    case True
    then show ?thesis by (simp add: UserOrderBysFromPB_def parseOrderBy_def)
  next
    case False
    then have "order_text os \<noteq> []" by (cases os) simp_all
    then show ?thesis
      using parse_order_text [OF False a, of "[]" "[]"]
      by (simp add: UserOrderBysFromPB_def parseOrderBy_def user_fields_def)
  qed
next
  assume "UserOrderBysFromPB s = Some rs"
  then show "\<forall>o' \<in> set rs. sortable o'"
    using parsed_sortable [of "[]" "splitOn CHR '','' s" rs]
    by (auto simp: UserOrderBysFromPB_def parseOrderBy_def user_fields_def split: if_splits)
qed

end
