(* ===== verification/ApiValidate.thy ===== *)
theory ApiValidate
  imports ApiConv
begin

text \<open>
  Request validation: \<open>internal/api/grpc/internal/validate\<close>. A request is None when the handler is given a nil
  message. The result is the status error, or \<open>Inr ()\<close>.
\<close>

section \<open>validate.go\<close>

type_synonym verdict = "api_error + unit"

definition invalidArgument :: "FieldViolation list \<Rightarrow> verdict" where
  "invalidArgument violations = Inl (invalidArgumentStatus violations)"

definition requiredRequest :: "string list \<Rightarrow> verdict" where
  "requiredRequest names = invalidArgument (map (\<lambda>field. violation field ''required'') names)"

definition verdictOf :: "FieldViolation list \<Rightarrow> verdict" where
  "verdictOf violations = (if violations \<noteq> [] then invalidArgument violations else Inr ())"

definition validUUID :: "lib \<Rightarrow> string \<Rightarrow> string \<Rightarrow> verdict" where
  "validUUID L value field = (case uuid_Parse L value of
      None \<Rightarrow> invalidArgument [violation field ''must be a valid UUID'']
    | Some _ \<Rightarrow> Inr ())"

definition invalidPageToken :: verdict where
  "invalidPageToken = Inl (status_Error CodeInvalidArgument ''invalid page_token'')"

definition validEmptyPageToken :: "lib \<Rightarrow> string \<Rightarrow> verdict" where
  "validEmptyPageToken L value = (case DecodePageToken L (codec_Empty L) value of
      None \<Rightarrow> invalidPageToken
    | Some _ \<Rightarrow> Inr ())"

text \<open>Go's \<open>if err := check; err != nil { return err }\<close>.\<close>

definition check :: "verdict \<Rightarrow> verdict \<Rightarrow> verdict" where
  "check v k = (case v of Inl e \<Rightarrow> Inl e | Inr _ \<Rightarrow> k)"

section \<open>auth.go\<close>

definition validate_RequestMagicLink :: "lib \<Rightarrow> string option \<Rightarrow> verdict" where
  "validate_RequestMagicLink L req = (case req of
      None \<Rightarrow> requiredRequest [''email'']
    | Some email \<Rightarrow>
        if email = [] then invalidArgument [violation ''email'' ''required'']
        else if \<not> IsValidEmail (ParseAddress L) email then invalidArgument [violation ''email'' ''invalid format'']
        else Inr ())"

definition validate_VerifyMagicLink :: "string option \<Rightarrow> verdict" where
  "validate_VerifyMagicLink req = (case req of
      None \<Rightarrow> requiredRequest [''token'']
    | Some token \<Rightarrow> if token = [] then invalidArgument [violation ''token'' ''required''] else Inr ())"

definition validate_RefreshAccessToken :: "string option \<Rightarrow> verdict" where
  "validate_RefreshAccessToken req = (case req of
      None \<Rightarrow> requiredRequest [''refresh_token'']
    | Some token \<Rightarrow> if token = [] then invalidArgument [violation ''refresh_token'' ''required''] else Inr ())"

definition validate_RevokeRefreshToken :: "string option \<Rightarrow> verdict" where
  "validate_RevokeRefreshToken req = (case req of
      None \<Rightarrow> requiredRequest [''refresh_token'']
    | Some token \<Rightarrow> if token = [] then invalidArgument [violation ''refresh_token'' ''required''] else Inr ())"

definition validate_RevokeAllSessions :: "unit option \<Rightarrow> verdict" where
  "validate_RevokeAllSessions req = (case req of None \<Rightarrow> requiredRequest [''request''] | Some _ \<Rightarrow> Inr ())"

definition validate_GetAuthContext :: "unit option \<Rightarrow> verdict" where
  "validate_GetAuthContext req = (case req of None \<Rightarrow> requiredRequest [''request''] | Some _ \<Rightarrow> Inr ())"

section \<open>permission.go, system_role.go\<close>

definition validate_ListPermissions :: "unit option \<Rightarrow> verdict" where
  "validate_ListPermissions req = (case req of None \<Rightarrow> requiredRequest [''request''] | Some _ \<Rightarrow> Inr ())"

definition validate_ListSystemRoles :: "lib \<Rightarrow> PageRequest option \<Rightarrow> verdict" where
  "validate_ListSystemRoles L req = (case req of
      None \<Rightarrow> requiredRequest [''request'']
    | Some r \<Rightarrow> validEmptyPageToken L (pr_PageToken r))"

definition validate_AssignSystemRole :: "lib \<Rightarrow> SystemRoleAssignmentRequest option \<Rightarrow> verdict" where
  "validate_AssignSystemRole L req = (case req of
      None \<Rightarrow> requiredRequest [''role_name'', ''user_id'']
    | Some r \<Rightarrow> verdictOf (
        (if sra_RoleName r = [] then [violation ''role_name'' ''required''] else []) @
        (if uuid_Parse L (sra_UserId r) = None then [violation ''user_id'' ''must be a valid UUID''] else [])))"

definition validate_UnassignSystemRole :: "lib \<Rightarrow> SystemRoleAssignmentRequest option \<Rightarrow> verdict" where
  "validate_UnassignSystemRole L req = (case req of
      None \<Rightarrow> requiredRequest [''role_name'', ''user_id'']
    | Some r \<Rightarrow> verdictOf (
        (if sra_RoleName r = [] then [violation ''role_name'' ''required''] else []) @
        (if uuid_Parse L (sra_UserId r) = None then [violation ''user_id'' ''must be a valid UUID''] else [])))"

definition validate_ListSystemRoleAssignments :: "lib \<Rightarrow> UserPageRequest option \<Rightarrow> verdict" where
  "validate_ListSystemRoleAssignments L req = (case req of
      None \<Rightarrow> requiredRequest [''user_id'']
    | Some r \<Rightarrow>
        check (validUUID L (upr_UserId r) ''user_id'')
        (validEmptyPageToken L (pr_PageToken r)))"

section \<open>custom_role.go\<close>

definition indexed :: "string \<Rightarrow> nat \<Rightarrow> string" where
  "indexed field i = field @ ''['' @ natString i @ '']''"

primrec permissionViolations_loop :: "string \<Rightarrow> nat \<Rightarrow> PbPermission list \<Rightarrow> FieldViolation list" where
  "permissionViolations_loop field i [] = []"
| "permissionViolations_loop field i (perm # perms) =
    (case PermissionFromPB perm of
      None \<Rightarrow> [\<lparr>fv_Field = indexed field i,
        fv_Description = Quoted [] (PbPermission_String perm) '' is not a recognized permission''\<rparr>]
    | Some p \<Rightarrow> if p \<in> set SystemOnlyPermissions
        then [\<lparr>fv_Field = indexed field i,
          fv_Description = Quoted [] (PbPermission_String perm) '' is system-only''\<rparr>]
        else []) @ permissionViolations_loop field (Suc i) perms"

definition permissionViolations :: "PbPermission list \<Rightarrow> string \<Rightarrow> FieldViolation list" where
  "permissionViolations perms field = permissionViolations_loop field 0 perms"

text \<open>The check of a name, the same in several requests.\<close>

definition nameViolations :: "string \<Rightarrow> string \<Rightarrow> FieldViolation list" where
  "nameViolations field name =
    (if trimSpace name = [] then [violation field ''required'']
     else if trimSpace name \<noteq> name
       then [violation field ''must not have leading or trailing whitespace'']
     else [])"

definition pathViolations :: "string list \<Rightarrow> string list \<Rightarrow> FieldViolation list" where
  "pathViolations updatable paths = map (\<lambda>path. \<lparr>fv_Field = ''update_mask'',
      fv_Description = Quoted ''field '' path '' is not updatable''\<rparr>)
    (filter (\<lambda>path. path \<notin> set updatable) paths)"

definition validate_CreateRole :: "PbRole option option \<Rightarrow> verdict" where
  "validate_CreateRole req = (case req of
      None \<Rightarrow> requiredRequest [''role'']
    | Some None \<Rightarrow> invalidArgument [violation ''role'' ''required'']
    | Some (Some role) \<Rightarrow> verdictOf (nameViolations ''role.name'' (pbr_Name role) @
        permissionViolations (pbr_Permissions role) ''role.permissions''))"

definition validate_GetRole :: "lib \<Rightarrow> string option \<Rightarrow> verdict" where
  "validate_GetRole L req = (case req of
      None \<Rightarrow> requiredRequest [''id'']
    | Some i \<Rightarrow> validUUID L i ''id'')"

definition validate_ListRoles :: "lib \<Rightarrow> PageRequest option \<Rightarrow> verdict" where
  "validate_ListRoles L req = (case req of
      None \<Rightarrow> requiredRequest [''request'']
    | Some r \<Rightarrow> (case DecodePageToken L (codec_Empty L) (pr_PageToken r) of
        None \<Rightarrow> invalidPageToken
      | Some _ \<Rightarrow> Inr ()))"

definition roleAssignments :: "lib \<Rightarrow> string \<Rightarrow> string \<Rightarrow> verdict" where
  "roleAssignments L userID pageToken =
    check (validUUID L userID ''user_id'')
    (case DecodePageToken L (codec_Empty L) pageToken of
      None \<Rightarrow> invalidPageToken
    | Some _ \<Rightarrow> Inr ())"

definition validate_ListProjectRoleAssignments :: "lib \<Rightarrow> UserPageRequest option \<Rightarrow> verdict" where
  "validate_ListProjectRoleAssignments L req = (case req of
      None \<Rightarrow> requiredRequest [''user_id'']
    | Some r \<Rightarrow> roleAssignments L (upr_UserId r) (pr_PageToken r))"

definition validate_ListOrganizationRoleAssignments :: "lib \<Rightarrow> UserPageRequest option \<Rightarrow> verdict" where
  "validate_ListOrganizationRoleAssignments L req = (case req of
      None \<Rightarrow> requiredRequest [''user_id'']
    | Some r \<Rightarrow> roleAssignments L (upr_UserId r) (pr_PageToken r))"

definition validate_UpdateRole :: "lib \<Rightarrow> UpdateRoleRequest option \<Rightarrow> verdict" where
  "validate_UpdateRole L req = (case req of
      None \<Rightarrow> requiredRequest [''role'']
    | Some r \<Rightarrow> (case urr_Role r of
        None \<Rightarrow> invalidArgument [violation ''role'' ''required'']
      | Some role \<Rightarrow>
          check (validUUID L (pbr_Id role) ''role.id'') (
          check (validUUID L (pbr_Etag role) ''role.etag'') (
          if urr_Paths r = [] then Inl (status_Error CodeInvalidArgument ''update_mask is required'')
          else verdictOf (
            pathViolations [''name'', ''permissions''] (urr_Paths r) @
            (if ''name'' \<in> set (urr_Paths r) then nameViolations ''role.name'' (pbr_Name role) else []) @
            (if ''permissions'' \<in> set (urr_Paths r)
             then permissionViolations (pbr_Permissions role) ''role.permissions'' else []))))))"

primrec overlapViolations :: "PbPermission list \<Rightarrow> nat \<Rightarrow> PbPermission list \<Rightarrow> FieldViolation list" where
  "overlapViolations removed i [] = []"
| "overlapViolations removed i (p # ps) =
    (if p \<in> set removed
     then [violation (indexed ''add_permissions'' i) ''must not also appear in remove_permissions'']
     else []) @ overlapViolations removed (Suc i) ps"

definition validate_ModifyRolePermissions :: "lib \<Rightarrow> ModifyRolePermissionsRequest option \<Rightarrow> verdict" where
  "validate_ModifyRolePermissions L req = (case req of
      None \<Rightarrow> requiredRequest [''id'']
    | Some r \<Rightarrow>
        check (validUUID L (mrr_Id r) ''id'') (
        check (validUUID L (mrr_Etag r) ''etag'') (
        verdictOf (overlapViolations (mrr_RemovePermissions r) 0 (mrr_AddPermissions r) @
          permissionViolations (mrr_AddPermissions r) ''add_permissions'' @
          permissionViolations (mrr_RemovePermissions r) ''remove_permissions''))))"

definition validate_DeleteRole :: "lib \<Rightarrow> string option \<Rightarrow> verdict" where
  "validate_DeleteRole L req = (case req of
      None \<Rightarrow> requiredRequest [''id'']
    | Some i \<Rightarrow> validUUID L i ''id'')"

definition roleAssignment :: "lib \<Rightarrow> string \<Rightarrow> string \<Rightarrow> verdict" where
  "roleAssignment L roleID userID = verdictOf (
    (if uuid_Parse L roleID = None then [violation ''role_id'' ''must be a valid UUID''] else []) @
    (if uuid_Parse L userID = None then [violation ''user_id'' ''must be a valid UUID''] else []))"

definition validate_AssignRoleToProject :: "lib \<Rightarrow> RoleAssignmentRequest option \<Rightarrow> verdict" where
  "validate_AssignRoleToProject L req = (case req of
      None \<Rightarrow> requiredRequest [''role_id'', ''user_id'']
    | Some r \<Rightarrow> roleAssignment L (rar_RoleId r) (rar_UserId r))"

definition validate_UnassignRoleFromProject :: "lib \<Rightarrow> RoleAssignmentRequest option \<Rightarrow> verdict" where
  "validate_UnassignRoleFromProject L req = (case req of
      None \<Rightarrow> requiredRequest [''role_id'', ''user_id'']
    | Some r \<Rightarrow> roleAssignment L (rar_RoleId r) (rar_UserId r))"

definition validate_AssignRoleToOrganization :: "lib \<Rightarrow> RoleAssignmentRequest option \<Rightarrow> verdict" where
  "validate_AssignRoleToOrganization L req = (case req of
      None \<Rightarrow> requiredRequest [''role_id'', ''user_id'']
    | Some r \<Rightarrow> roleAssignment L (rar_RoleId r) (rar_UserId r))"

definition validate_UnassignRoleFromOrganization :: "lib \<Rightarrow> RoleAssignmentRequest option \<Rightarrow> verdict" where
  "validate_UnassignRoleFromOrganization L req = (case req of
      None \<Rightarrow> requiredRequest [''role_id'', ''user_id'']
    | Some r \<Rightarrow> roleAssignment L (rar_RoleId r) (rar_UserId r))"

section \<open>organization.go and project.go\<close>

definition validate_CreateOrganization :: "CreateOrganizationRequest option \<Rightarrow> verdict" where
  "validate_CreateOrganization req = (case req of
      None \<Rightarrow> requiredRequest [''organization'']
    | Some r \<Rightarrow>
        if cor_Organization r = None then requiredRequest [''organization'']
        else verdictOf (nameViolations ''organization.name'' (GetOrganizationName (cor_Organization r)) @
          nameViolations ''project_name'' (cor_ProjectName r)))"

definition validate_CreateOrganizationUser :: "lib \<Rightarrow> string option \<Rightarrow> verdict" where
  "validate_CreateOrganizationUser L req = (case req of
      None \<Rightarrow> requiredRequest [''email'']
    | Some email \<Rightarrow>
        if email = [] then requiredRequest [''email'']
        else if \<not> IsValidEmail (ParseAddress L) email
          then invalidArgument [violation ''email'' ''must be a valid email address'']
        else Inr ())"

definition filterMismatch :: verdict where
  "filterMismatch = Inl (status_Error CodeInvalidArgument ''page_token filter mismatch'')"

definition validate_ListOrganizationUsers :: "lib \<Rightarrow> ListOrganizationUsersRequest option \<Rightarrow> verdict" where
  "validate_ListOrganizationUsers L req = (case req of
      None \<Rightarrow> requiredRequest [''request'']
    | Some r \<Rightarrow>
        if (case lor_Filter r of None \<Rightarrow> 0 | Some f \<Rightarrow> pbof_ProjectId f) < 0
          then invalidArgument [violation ''filter.project_id'' ''must not be negative'']
        else case DecodePageToken L (codec_OrganizationUserFilter L) (pr_PageToken r) of
          None \<Rightarrow> invalidPageToken
        | Some pt \<Rightarrow>
            if pr_PageToken r \<noteq> [] \<and> \<not> proto_Equal (pt_Filter pt) (lor_Filter r) then filterMismatch
            else Inr ())"

definition validate_ListProjects :: "lib \<Rightarrow> ListProjectsRequest option \<Rightarrow> verdict" where
  "validate_ListProjects L req = (case req of
      None \<Rightarrow> requiredRequest [''request'']
    | Some r \<Rightarrow> (case DecodePageToken L (codec_ProjectFilter L) (pr_PageToken r) of
        None \<Rightarrow> invalidPageToken
      | Some pt \<Rightarrow>
          if pr_PageToken r \<noteq> [] \<and> \<not> proto_Equal (pt_Filter pt) (lpr_Filter r) then filterMismatch
          else Inr ()))"

section \<open>user.go\<close>

definition validate_GetUser :: "lib \<Rightarrow> string option \<Rightarrow> verdict" where
  "validate_GetUser L req = (case req of
      None \<Rightarrow> requiredRequest [''id'']
    | Some i \<Rightarrow> validUUID L i ''id'')"

definition validate_CreateUser :: "lib \<Rightarrow> PbUser option option \<Rightarrow> verdict" where
  "validate_CreateUser L req = (case req of
      None \<Rightarrow> requiredRequest [''user'']
    | Some None \<Rightarrow> invalidArgument [violation ''user'' ''required'']
    | Some (Some u) \<Rightarrow> verdictOf (
        (if pbu_Email u = [] then [violation ''user.email'' ''required'']
         else if \<not> IsValidEmail (ParseAddress L) (pbu_Email u)
           then [violation ''user.email'' ''must be a valid email address''] else []) @
        (if pbu_Name u = [] then [violation ''user.name'' ''required''] else [])))"

definition validate_UpdateUser :: "lib \<Rightarrow> UpdateUserRequest option \<Rightarrow> verdict" where
  "validate_UpdateUser L req = (case req of
      None \<Rightarrow> requiredRequest [''user'']
    | Some r \<Rightarrow> (case uur_User r of
        None \<Rightarrow> invalidArgument [violation ''user'' ''required'']
      | Some u \<Rightarrow>
          check (validUUID L (pbu_Id u) ''user.id'') (
          check (validUUID L (pbu_Etag u) ''user.etag'') (
          if uur_Paths r = [] then Inl (status_Error CodeInvalidArgument ''update_mask is required'')
          else verdictOf (pathViolations [''name''] (uur_Paths r) @
            (if ''name'' \<in> set (uur_Paths r) \<and> pbu_Name u = []
             then [violation ''user.name'' ''required''] else []))))))"

definition validate_ListUsers :: "lib \<Rightarrow> ListUsersRequest option \<Rightarrow> verdict" where
  "validate_ListUsers L req = (case req of
      None \<Rightarrow> requiredRequest [''request'']
    | Some r \<Rightarrow> (case DecodePageToken L (codec_UserFilter L) (pr_PageToken r) of
        None \<Rightarrow> invalidPageToken
      | Some pt \<Rightarrow>
          if UserOrderBysFromPB (lur_OrderBy r) = None
            then Inl (status_Error CodeInvalidArgument ''invalid order_by'')
          else if pr_PageToken r \<noteq> [] \<and> pt_OrderBy pt \<noteq> lur_OrderBy r
            then Inl (status_Error CodeInvalidArgument ''page_token order_by mismatch'')
          else if pr_PageToken r \<noteq> [] \<and> \<not> proto_Equal (pt_Filter pt) (lur_Filter r) then filterMismatch
          else Inr ()))"

section \<open>Accepted requests\<close>

lemma verdictOf_iff [simp]: "verdictOf vs = Inr () \<longleftrightarrow> vs = []"
  by (simp add: verdictOf_def invalidArgument_def)

lemma invalidArgument_iff [simp]: "invalidArgument vs = Inr () \<longleftrightarrow> False"
  by (simp add: invalidArgument_def)

lemma requiredRequest_iff [simp]: "requiredRequest fs = Inr () \<longleftrightarrow> False"
  by (simp add: requiredRequest_def)

lemma check_iff [simp]: "check v k = Inr () \<longleftrightarrow> v = Inr () \<and> k = Inr ()"
  by (cases v) (auto simp: check_def)

lemma validUUID_iff [simp]: "validUUID L v f = Inr () \<longleftrightarrow> (\<exists>u. uuid_Parse L v = Some u)"
  by (auto simp: validUUID_def split: option.splits)

lemma nameViolations_iff [simp]: "nameViolations f n = [] \<longleftrightarrow> trimSpace n = n \<and> n \<noteq> []"
  by (auto simp: nameViolations_def)

lemma pathViolations_iff [simp]: "pathViolations us ps = [] \<longleftrightarrow> set ps \<subseteq> set us"
  by (auto simp: pathViolations_def filter_empty_conv)

lemma permissionViolations_iff [simp]:
  "permissionViolations ps f = [] \<longleftrightarrow>
    (\<forall>p \<in> set ps. \<exists>q. PermissionFromPB p = Some q \<and> q \<notin> set SystemOnlyPermissions)"
proof -
  have "permissionViolations_loop f i ps = [] \<longleftrightarrow>
      (\<forall>p \<in> set ps. \<exists>q. PermissionFromPB p = Some q \<and> q \<notin> set SystemOnlyPermissions)" for i
    by (induction ps arbitrary: i) (auto split: option.splits)
  then show ?thesis by (simp add: permissionViolations_def)
qed

lemma overlapViolations_iff [simp]: "overlapViolations rs i ps = [] \<longleftrightarrow> set ps \<inter> set rs = {}"
  by (induction ps arbitrary: i) auto

lemma invalidPageToken_iff [simp]: "invalidPageToken = Inr () \<longleftrightarrow> False" "filterMismatch = Inr () \<longleftrightarrow> False"
  by (simp_all add: invalidPageToken_def filterMismatch_def)

lemma validEmptyPageToken_iff [simp]:
  "validEmptyPageToken L v = Inr () \<longleftrightarrow> DecodePageToken L (codec_Empty L) v \<noteq> None"
  by (auto simp: validEmptyPageToken_def split: option.splits)

end
