(* ===== verification/Workflow.thy ===== *)
theory Workflow
  imports Api
begin

text \<open>
  The durable sign-in workflow: \<open>internal/workflows/workflows.go\<close> and \<open>internal/workflows/auth/auth.go\<close>. The
  workflow engine (DBOS), the email sender behind the interface \<open>email.Sender\<close> and the rendering of the HTML
  template are not under \<open>src/\<close>: they are a \<open>wlib\<close>.
\<close>

section \<open>Engine and sender\<close>

text \<open>
  \<open>RunWorkflow i m\<close> starts workflow \<open>m\<close> under the ID \<open>i\<close> (a generated one when \<open>i\<close> is empty) and waits for
  its result; \<open>RunAsStep\<close> runs a step of it. \<open>SendEmail\<close> gives the error of the sender, if any.
\<close>

type_synonym 'a wf = "(world, error, 'a) prog"

record wlib =
  RunWorkflow :: "string \<Rightarrow> unit wf \<Rightarrow> unit wf"
  RunTokenStep :: "string wf \<Rightarrow> string wf"
  RunEmailStep :: "unit wf \<Rightarrow> unit wf"
  SendEmail :: "Message \<Rightarrow> error option"
  Duration_String :: "time \<Rightarrow> string"
  renderHTML :: "string \<Rightarrow> string \<Rightarrow> string"

definition on_db :: "'a op \<Rightarrow> 'a wf" where
  "on_db m = (\<lambda>w. case m (w_db w) of (r, t) \<Rightarrow> (r, w\<lparr>w_db := t\<rparr>))"

section \<open>workflows.go\<close>

text \<open>The workflow ID a context carries, empty when there is none.\<close>

definition WithWorkflowID :: "string option \<Rightarrow> string \<Rightarrow> string option" where
  "WithWorkflowID ctx i = Some i"

definition WorkflowID :: "string option \<Rightarrow> string" where
  "WorkflowID ctx = (case ctx of None \<Rightarrow> [] | Some i \<Rightarrow> i)"

section \<open>auth.go\<close>

definition magicLinkText :: "string \<Rightarrow> string \<Rightarrow> string" where
  "magicLinkText link ttl = ''Sign in here (valid for '' @ ttl @ ''): '' @ link @ [CHR 0x0A]"

definition magicLink :: "Config \<Rightarrow> string \<Rightarrow> string" where
  "magicLink cfg rawToken = cfg_MagicLinkBaseURL cfg @ ''?token='' @ rawToken"

definition magicLinkMessage :: "wlib \<Rightarrow> Config \<Rightarrow> string \<Rightarrow> string \<Rightarrow> Message" where
  "magicLinkMessage W cfg emailAddr rawToken =
    (let link = magicLink cfg rawToken; ttl = Duration_String W (cfg_MagicLinkTTL cfg) in
     \<lparr>em_From = cfg_MagicLinkFromEmail cfg, em_To = [emailAddr], em_Subject = ''Your sign-in link'',
      em_HTMLBody = renderHTML W link ttl, em_TextBody = magicLinkText link ttl\<rparr>)"

definition sendMagicLinkEmail :: "wlib \<Rightarrow> Config \<Rightarrow> string \<Rightarrow> string \<Rightarrow> unit wf" where
  "sendMagicLinkEmail W cfg emailAddr rawToken =
    (let m = magicLinkMessage W cfg emailAddr rawToken in
     (\<lambda>w. case SendEmail W m of
         Some e \<Rightarrow> (Inl e, w)
       | None \<Rightarrow> (Inr (), w\<lparr>w_outbox := w_outbox w @ [m]\<rparr>)))"

definition storeTokenStep :: "address_parser \<Rightarrow> Config \<Rightarrow> env \<Rightarrow> string \<Rightarrow> string wf" where
  "storeTokenStep pa cfg env emailAddr = on_db (MagicLinkToken pa cfg env emailAddr)"

definition sendEmailStep :: "wlib \<Rightarrow> Config \<Rightarrow> string \<Rightarrow> string \<Rightarrow> unit wf" where
  "sendEmailStep W cfg emailAddr rawToken = sendMagicLinkEmail W cfg emailAddr rawToken"

definition requestMagicLinkWorkflow ::
    "wlib \<Rightarrow> address_parser \<Rightarrow> Config \<Rightarrow> env \<Rightarrow> string \<Rightarrow> unit wf" where
  "requestMagicLinkWorkflow W pa cfg env emailAddr =
    (\<lambda>w. case RunTokenStep W (storeTokenStep pa cfg env emailAddr) w of
        (Inl e, t) \<Rightarrow> if e = ErrRateLimited \<or> e = ErrNotFound then (Inr (), t) else (Inl e, t)
      | (Inr rawToken, t) \<Rightarrow> RunEmailStep W (sendEmailStep W cfg emailAddr rawToken) t)"

definition wf_RequestMagicLink ::
    "wlib \<Rightarrow> address_parser \<Rightarrow> Config \<Rightarrow> env \<Rightarrow> string option \<Rightarrow> string \<Rightarrow> unit wf" where
  "wf_RequestMagicLink W pa cfg env ctx emailAddr =
    RunWorkflow W (WorkflowID ctx) (requestMagicLinkWorkflow W pa cfg env emailAddr)"

section \<open>Documented behaviour of the engine\<close>

text \<open>
  A step does what its function does. A workflow whose ID has a recorded result returns it and does
  nothing else; otherwise it runs and its result is recorded under the ID it was given.
\<close>

definition run_recorded :: "string \<Rightarrow> unit wf \<Rightarrow> unit wf" where
  "run_recorded i m = (\<lambda>w. case map_of (w_runs w) i of
      Some r \<Rightarrow> (r, w)
    | None \<Rightarrow> (case m w of (r, v) \<Rightarrow> (r, if i = [] then v else v\<lparr>w_runs := (i, r) # w_runs v\<rparr>)))"

definition engine_ok :: "wlib \<Rightarrow> bool" where
  "engine_ok W \<longleftrightarrow> RunWorkflow W = run_recorded \<and> RunTokenStep W = id \<and> RunEmailStep W = id"

definition recorded_ok :: "world \<Rightarrow> bool" where
  "recorded_ok w \<longleftrightarrow> map_of (w_runs w) [] = None"

lemma wf_unfold:
  assumes "engine_ok W" "map_of (w_runs w) (WorkflowID ctx) = None"
  shows "wf_RequestMagicLink W pa cfg env ctx email w =
    (case requestMagicLinkWorkflow W pa cfg env email w of (r, v) \<Rightarrow>
      (r, if WorkflowID ctx = [] then v else v\<lparr>w_runs := (WorkflowID ctx, r) # w_runs v\<rparr>))"
  using assms by (simp add: wf_RequestMagicLink_def engine_ok_def run_recorded_def)

lemma workflow_body:
  assumes "engine_ok W"
  shows "requestMagicLinkWorkflow W pa cfg env email w =
    (case MagicLinkToken pa cfg env email (w_db w) of
      (Inl e, t) \<Rightarrow> (if e = ErrRateLimited \<or> e = ErrNotFound then Inr () else Inl e, w\<lparr>w_db := t\<rparr>)
    | (Inr tok, t) \<Rightarrow> (case SendEmail W (magicLinkMessage W cfg email tok) of
        Some e \<Rightarrow> (Inl e, w\<lparr>w_db := t\<rparr>)
      | None \<Rightarrow> (Inr (), w\<lparr>w_db := t, w_outbox := w_outbox w @ [magicLinkMessage W cfg email tok]\<rparr>)))"
  using assms
  by (auto simp: requestMagicLinkWorkflow_def engine_ok_def storeTokenStep_def sendEmailStep_def
      sendMagicLinkEmail_def on_db_def Let_def split: prod.splits sum.splits option.splits)

end
