(* ===== verification/ApiHandlers.thy ===== *)
theory ApiHandlers
  imports ApiValidate Workflow
begin

text \<open>
  The service methods of \<open>internal/api/grpc\<close>: validation, conversion, the call of the domain and the status
  of each of its errors. \<open>server\<close> holds what the server was configured with and the environment of the call;
  \<open>ctx\<close> is what is read from the request's context. \<open>sv_ParseWithClaims\<close> is
  the JWT parser: from the key function (which is told whether the token's method is HMAC), the required
  issuer and audience and the token it gives the claims of a valid token. \<open>sv_Marshal\<close> is deterministic
  protobuf marshalling.
\<close>

section \<open>Server and context\<close>

record server =
  sv_lib :: lib
  sv_wlib :: wlib
  sv_cfg :: Config
  sv_env :: env
  sv_ParseWithClaims :: "(bool \<Rightarrow> bytes option) \<Rightarrow> string \<Rightarrow> string \<Rightarrow> string \<Rightarrow> AuthClaims option"
  sv_Marshal :: "request \<Rightarrow> bytes option"

record ctx =
  cx_Metadata :: "(string \<Rightarrow> string list) option"
  cx_Session :: "AuthSession option"
  cx_WorkflowID :: "string option"

definition strOf :: "string option \<Rightarrow> string" where
  "strOf r = (case r of None \<Rightarrow> [] | Some s \<Rightarrow> s)"

definition MustParse :: "lib \<Rightarrow> string \<Rightarrow> error + uuid" where
  "MustParse L s = (case uuid_Parse L s of
      None \<Rightarrow> Inl (GoPanic ''uuid: MustParse'')
    | Some u \<Rightarrow> Inr u)"

section \<open>Pages\<close>

text \<open>The getters of a nil request read the zero message.\<close>

definition GetListUsers :: "ListUsersRequest option \<Rightarrow> ListUsersRequest" where
  "GetListUsers req = (case req of None \<Rightarrow> \<lparr>pr_PageSize = 0, pr_PageToken = [], lur_Filter = None, lur_OrderBy = []\<rparr> | Some r \<Rightarrow> r)"

definition GetListOrganizationUsers :: "ListOrganizationUsersRequest option \<Rightarrow> ListOrganizationUsersRequest" where
  "GetListOrganizationUsers req = (case req of None \<Rightarrow> \<lparr>pr_PageSize = 0, pr_PageToken = [], lor_Filter = None\<rparr> | Some r \<Rightarrow> r)"

definition GetListProjects :: "ListProjectsRequest option \<Rightarrow> ListProjectsRequest" where
  "GetListProjects req = (case req of None \<Rightarrow> \<lparr>pr_PageSize = 0, pr_PageToken = [], lpr_Filter = None\<rparr> | Some r \<Rightarrow> r)"

definition GetPage :: "PageRequest option \<Rightarrow> PageRequest" where
  "GetPage req = (case req of None \<Rightarrow> \<lparr>pr_PageSize = 0, pr_PageToken = []\<rparr> | Some r \<Rightarrow> r)"

definition GetUserPage :: "UserPageRequest option \<Rightarrow> UserPageRequest" where
  "GetUserPage req = (case req of None \<Rightarrow> \<lparr>pr_PageSize = 0, pr_PageToken = [], upr_UserId = []\<rparr> | Some r \<Rightarrow> r)"

definition pageSizeOf :: "int \<Rightarrow> int" where
  "pageSizeOf n = (if n \<le> 0 \<or> n > 100 then 50 else n)"

definition decodePage :: "lib \<Rightarrow> 'f codec \<Rightarrow> string \<Rightarrow> 'f PageToken api" where
  "decodePage L c token = (case DecodePageToken L c token of
      None \<Rightarrow> throw (status_Error CodeInvalidArgument ''invalid page_token'')
    | Some pt \<Rightarrow> ret pt)"

definition nextPageToken :: "lib \<Rightarrow> 'f codec \<Rightarrow> int \<Rightarrow> int \<Rightarrow> int \<Rightarrow> string \<Rightarrow> 'f option \<Rightarrow> string api" where
  "nextPageToken L c offset pageSize totalCount orderBy filt =
    (let nextPageOffset = wrapInt (offset + pageSize) in
     if nextPageOffset < totalCount
     then (case EncodePageToken L c nextPageOffset orderBy filt of
         None \<Rightarrow> throw (CoreErr (ErrMsg ''encode next_page_token''))
       | Some t \<Rightarrow> ret t)
     else ret [])"

definition pageReply ::
    "('a list \<Rightarrow> error + 'b list) \<Rightarrow> 'a list \<Rightarrow> int \<Rightarrow> string \<Rightarrow> 'b PbPage api" where
  "pageReply conv rows totalCount token =
    andThen (convert (conv rows)) (\<lambda>pbRows.
    andThen (convert (Int32 totalCount)) (\<lambda>total.
    ret \<lparr>pg_Rows = pbRows, pg_TotalSize = total, pg_NextPageToken = token\<rparr>))"

text \<open>The listing that the list methods share once their request is validated.\<close>

definition listPage ::
    "lib \<Rightarrow> 'f codec \<Rightarrow> 'r PageRequest_scheme \<Rightarrow> 'f option \<Rightarrow> (error \<Rightarrow> api_error) \<Rightarrow>
     (int \<Rightarrow> int \<Rightarrow> ('a list \<times> int) op) \<Rightarrow> ('a list \<Rightarrow> error + 'b list) \<Rightarrow> 'b PbPage api" where
  "listPage L c req filt err fetch conv =
    (let pageSize = pageSizeOf (pr_PageSize req) in
     andThen (decodePage L c (pr_PageToken req)) (\<lambda>pageToken.
     andThen (call_core err (fetch pageSize (pt_Offset pageToken))) (\<lambda>(rows, totalCount).
     andThen (nextPageToken L c (pt_Offset pageToken) pageSize totalCount [] filt) (\<lambda>token.
     pageReply conv rows totalCount token))))"

text \<open>The status of a domain error, from a handler's \<open>switch\<close>; any other error is passed on.\<close>

definition statusOf :: "(error \<times> api_error) list \<Rightarrow> error \<Rightarrow> api_error" where
  "statusOf cases e = (case map_of cases e of Some s \<Rightarrow> s | None \<Rightarrow> CoreErr e)"

section \<open>user.go\<close>

definition userNotFound :: "string \<Rightarrow> api_error" where
  "userNotFound i = status_Errorf CodeNotFound (Quoted ''user '' i '' not found'')"

definition svc_GetUser :: "server \<Rightarrow> ctx \<Rightarrow> string option \<Rightarrow> PbUser api" where
  "svc_GetUser S x req =
    andThen (liftS (validate_GetUser (sv_lib S) req)) (\<lambda>_.
    andThen (convert (MustParse (sv_lib S) (strOf req))) (\<lambda>i.
    andThen (call_core (statusOf [(ErrNotFound, userNotFound (strOf req))]) (UserByID i)) (\<lambda>usr.
    ret (UserToPB usr))))"

definition svc_CreateUser :: "server \<Rightarrow> ctx \<Rightarrow> PbUser option option \<Rightarrow> PbUser api" where
  "svc_CreateUser S x req =
    andThen (liftS (validate_CreateUser (sv_lib S) req)) (\<lambda>_.
    andThen (call_core (statusOf [(ErrAlreadyExists, invalidArgumentStatus
        [violation ''user.email'' ''a user with this email already exists''])])
      (UserCore.CreateUser (ParseAddress (sv_lib S)) (CreateUserFromPB (Option.bind req id)))) (\<lambda>usr.
    ret (UserToPB usr)))"

definition GetUpdateUser :: "UpdateUserRequest option \<Rightarrow> UpdateUserRequest" where
  "GetUpdateUser req = (case req of None \<Rightarrow> \<lparr>uur_User = None, uur_Paths = []\<rparr> | Some r \<Rightarrow> r)"

definition svc_UpdateUser :: "server \<Rightarrow> ctx \<Rightarrow> UpdateUserRequest option \<Rightarrow> PbUser api" where
  "svc_UpdateUser S x req =
    (let L = sv_lib S; r = GetUpdateUser req; i = pbu_Id (GetUser (uur_User r)) in
     andThen (liftS (validate_UpdateUser L req)) (\<lambda>_.
     andThen (convert (MustParse L i)) (\<lambda>userID.
     andThen (convert (UpdateUserFromPB L r userID)) (\<lambda>updateUser.
     andThen (call_core (statusOf [(ErrNotFound, userNotFound i),
         (ErrETagMismatch, errorStatus CodeAborted ERROR_CODE_ETAG_MISMATCH ''user has changed since it was read'')])
       (UserCore.UpdateUser updateUser)) (\<lambda>usr.
     ret (UserToPB usr))))))"

definition svc_ListUsers :: "server \<Rightarrow> ctx \<Rightarrow> ListUsersRequest option \<Rightarrow> PbUser PbPage api" where
  "svc_ListUsers S x req =
    (let L = sv_lib S; r = GetListUsers req in
     andThen (liftS (validate_ListUsers L req)) (\<lambda>_.
     let pageSize = pageSizeOf (pr_PageSize r) in
     andThen (decodePage L (codec_UserFilter L) (pr_PageToken r)) (\<lambda>pageToken.
     andThen (case UserOrderBysFromPB (lur_OrderBy r) of
         None \<Rightarrow> throw (status_Error CodeInvalidArgument ''invalid order_by'')
       | Some obs \<Rightarrow> ret obs) (\<lambda>orderBys.
     andThen (call_core CoreErr (Users (UserFilterFromPB (lur_Filter r)) orderBys pageSize (pt_Offset pageToken)))
       (\<lambda>(usrs, totalCount).
     andThen (nextPageToken L (codec_UserFilter L) (pt_Offset pageToken) pageSize totalCount (lur_OrderBy r)
       (lur_Filter r)) (\<lambda>token.
     pageReply (\<lambda>us. Inr (UsersToPB us)) usrs totalCount token))))))"

section \<open>organization.go and project.go\<close>

definition svc_CreateOrganizationUser :: "server \<Rightarrow> ctx \<Rightarrow> string option \<Rightarrow> PbUser api" where
  "svc_CreateOrganizationUser S x req =
    andThen (liftS (validate_CreateOrganizationUser (sv_lib S) req)) (\<lambda>_.
    andThen (call_core (statusOf [(ErrValidation, status_Error CodeInvalidArgument ''invalid organization user'')])
      (CreateOrganizationUser (ParseAddress (sv_lib S)) (cx_Session x) (strOf req))) (\<lambda>user.
    ret (UserToPB user)))"

definition svc_CreateOrganization :: "server \<Rightarrow> ctx \<Rightarrow> CreateOrganizationRequest option \<Rightarrow> PbOrganization api" where
  "svc_CreateOrganization S x req =
    (let r = (case req of None \<Rightarrow> \<lparr>cor_Organization = None, cor_ProjectName = []\<rparr> | Some r \<Rightarrow> r) in
     andThen (liftS (validate_CreateOrganization req)) (\<lambda>_.
     andThen (call_core (statusOf [
         (ErrValidation, status_Error CodeInvalidArgument ''invalid organization''),
         (ErrAlreadyExists, status_Error CodeAlreadyExists ''organization already exists''),
         (ErrControlProjectNameConflict, errorStatus CodeInvalidArgument
           ERROR_CODE_CONTROL_PROJECT_NAME_CONFLICT ''project_name conflicts with the control project''),
         (ErrNotFound, status_Error CodeNotFound ''authenticated creator not found'')])
       (OrgCore.CreateOrganization (cx_Session x) (CreateOrganizationFromPB r))) (\<lambda>organization.
     convert (OrganizationToPB organization))))"

definition svc_ListOrganizationUsers ::
    "server \<Rightarrow> ctx \<Rightarrow> ListOrganizationUsersRequest option \<Rightarrow> PbUser PbPage api" where
  "svc_ListOrganizationUsers S x req =
    (let L = sv_lib S; r = GetListOrganizationUsers req in
     andThen (liftS (validate_ListOrganizationUsers L req)) (\<lambda>_.
     listPage L (codec_OrganizationUserFilter L) r (lor_Filter r)
       (statusOf [(ErrNotFound, status_Error CodeNotFound ''filtered project not found in organization'')])
       (OrganizationUsers (cx_Session x) (OrganizationUserFilterFromPB (lor_Filter r)))
       (\<lambda>us. Inr (UsersToPB us))))"

definition svc_ListProjects :: "server \<Rightarrow> ctx \<Rightarrow> ListProjectsRequest option \<Rightarrow> PbProject PbPage api" where
  "svc_ListProjects S x req =
    (let L = sv_lib S; r = GetListProjects req in
     andThen (liftS (validate_ListProjects L req)) (\<lambda>_.
     listPage L (codec_ProjectFilter L) r (lpr_Filter r)
       (statusOf [(ErrNotFound, status_Error CodeNotFound ''user not found'')])
       (AccessibleProjects (cx_Session x) (ProjectFilterFromPB (lpr_Filter r))) ProjectsToPB))"

section \<open>system_role.go and permission.go\<close>

definition svc_ListSystemRoles :: "server \<Rightarrow> ctx \<Rightarrow> PageRequest option \<Rightarrow> PbSystemRole PbPage api" where
  "svc_ListSystemRoles S x req =
    (let L = sv_lib S; r = GetPage req in
     andThen (liftS (validate_ListSystemRoles L req)) (\<lambda>_.
     listPage L (codec_Empty L) r (Some ()) CoreErr SystemRoles SystemRolesToPB))"

definition GetSystemAssignment :: "SystemRoleAssignmentRequest option \<Rightarrow> SystemRoleAssignmentRequest" where
  "GetSystemAssignment req = (case req of None \<Rightarrow> \<lparr>sra_UserId = [], sra_RoleName = []\<rparr> | Some r \<Rightarrow> r)"

definition permissionDenied :: api_error where
  "permissionDenied = status_Error CodePermissionDenied ''PermissionDenied''"

definition svc_AssignSystemRole :: "server \<Rightarrow> ctx \<Rightarrow> SystemRoleAssignmentRequest option \<Rightarrow> unit api" where
  "svc_AssignSystemRole S x req =
    (let L = sv_lib S; r = GetSystemAssignment req in
     andThen (liftS (validate_AssignSystemRole L req)) (\<lambda>_.
     andThen (convert (MustParse L (sra_UserId r))) (\<lambda>userID.
     call_core (statusOf [
         (ErrNotFound, status_Error CodeNotFound ''user or system role not found''),
         (ErrPermissionDenied, permissionDenied),
         (ErrAlreadyExists, status_Error CodeAlreadyExists ''user already has system role'')])
       (AssignSystemRole (cx_Session x) userID (sra_RoleName r)))))"

definition svc_UnassignSystemRole :: "server \<Rightarrow> ctx \<Rightarrow> SystemRoleAssignmentRequest option \<Rightarrow> unit api" where
  "svc_UnassignSystemRole S x req =
    (let L = sv_lib S; r = GetSystemAssignment req in
     andThen (liftS (validate_UnassignSystemRole L req)) (\<lambda>_.
     andThen (convert (MustParse L (sra_UserId r))) (\<lambda>userID.
     call_core (statusOf [
         (ErrNotFound, status_Error CodeNotFound ''system role assignment not found''),
         (ErrPermissionDenied, permissionDenied),
         (ErrLastFullyPrivilegedSystemAdmin, errorStatus CodeFailedPrecondition
           ERROR_CODE_LAST_FULLY_PRIVILEGED_SYSTEM_ADMIN ''cannot remove the last fully privileged system administrator'')])
       (UnassignSystemRole (cx_Session x) userID (sra_RoleName r)))))"

definition svc_ListSystemRoleAssignments ::
    "server \<Rightarrow> ctx \<Rightarrow> UserPageRequest option \<Rightarrow> PbSystemRole PbPage api" where
  "svc_ListSystemRoleAssignments S x req =
    (let L = sv_lib S; r = GetUserPage req in
     andThen (liftS (validate_ListSystemRoleAssignments L req)) (\<lambda>_.
     andThen (convert (MustParse L (upr_UserId r))) (\<lambda>userID.
     listPage L (codec_Empty L) r (Some ())
       (statusOf [(ErrNotFound, userNotFound (upr_UserId r))]) (UserSystemRoles userID) SystemRolesToPB)))"

definition svc_ListPermissions :: "server \<Rightarrow> ctx \<Rightarrow> unit option \<Rightarrow> PbPermissionDescriptor list api" where
  "svc_ListPermissions S x req =
    andThen (liftS (validate_ListPermissions req)) (\<lambda>_.
    convert (bindE CustomRolePermissionDescriptors PermissionDescriptorsToPB))"

section \<open>custom_role.go\<close>

definition roleNameTaken :: api_error where
  "roleNameTaken = invalidArgumentStatus [violation ''role.name'' ''a role with this name already exists'']"

definition roleNotFound :: "string \<Rightarrow> api_error" where
  "roleNotFound i = status_Errorf CodeNotFound (Quoted ''role '' i '' not found'')"

definition roleChanged :: api_error where
  "roleChanged = errorStatus CodeAborted ERROR_CODE_ETAG_MISMATCH ''role has changed since it was read''"

definition managedRole :: "string \<Rightarrow> api_error" where
  "managedRole m = errorStatus CodeFailedPrecondition ERROR_CODE_MANAGED_ROLE m"

definition invalidScope :: "string \<Rightarrow> api_error" where
  "invalidScope m = errorStatus CodeFailedPrecondition ERROR_CODE_INVALID_ROLE_ASSIGNMENT_SCOPE m"

definition svc_CreateRole :: "server \<Rightarrow> ctx \<Rightarrow> PbRole option option \<Rightarrow> PbRole api" where
  "svc_CreateRole S x req =
    andThen (liftS (validate_CreateRole req)) (\<lambda>_.
    andThen (case CreateCustomRoleFromPB (Option.bind req id) of
        None \<Rightarrow> throw (CoreErr (ErrMsg ''validated role contains an unknown permission''))
      | Some cr \<Rightarrow> ret cr) (\<lambda>createRole.
    andThen (call_core (statusOf [
        (ErrValidation, status_Error CodeInvalidArgument ''invalid role''),
        (ErrAlreadyExists, roleNameTaken),
        (ErrPermissionDenied, status_Error CodePermissionDenied ''caller cannot add role permissions''),
        (ErrNotFound, status_Error CodeNotFound ''caller or project not found'')])
      (CustomRoleCore.CreateCustomRole (cx_Session x) createRole)) (\<lambda>role.
    convert (CustomRoleToPB role))))"

definition svc_GetRole :: "server \<Rightarrow> ctx \<Rightarrow> string option \<Rightarrow> PbRole api" where
  "svc_GetRole S x req =
    andThen (liftS (validate_GetRole (sv_lib S) req)) (\<lambda>_.
    andThen (convert (MustParse (sv_lib S) (strOf req))) (\<lambda>roleID.
    andThen (call_core (statusOf [(ErrNotFound, roleNotFound (strOf req))])
      (CustomRoleByID (cx_Session x) roleID)) (\<lambda>role.
    convert (CustomRoleToPB role))))"

definition svc_ListRoles :: "server \<Rightarrow> ctx \<Rightarrow> PageRequest option \<Rightarrow> PbRole PbPage api" where
  "svc_ListRoles S x req =
    (let L = sv_lib S; r = GetPage req in
     andThen (liftS (validate_ListRoles L req)) (\<lambda>_.
     listPage L (codec_Empty L) r (Some ()) CoreErr (CustomRoles (cx_Session x)) CustomRolesToPB))"

definition svc_ListProjectRoleAssignments ::
    "server \<Rightarrow> ctx \<Rightarrow> UserPageRequest option \<Rightarrow> PbRole PbPage api" where
  "svc_ListProjectRoleAssignments S x req =
    (let L = sv_lib S; r = GetUserPage req in
     andThen (liftS (validate_ListProjectRoleAssignments L req)) (\<lambda>_.
     andThen (convert (MustParse L (upr_UserId r))) (\<lambda>userID.
     listPage L (codec_Empty L) r (Some ())
       (statusOf [(ErrNotFound, status_Error CodeNotFound ''user, project, or organization membership not found'')])
       (UserProjectCustomRoles (cx_Session x) userID) CustomRolesToPB)))"

definition svc_ListOrganizationRoleAssignments ::
    "server \<Rightarrow> ctx \<Rightarrow> UserPageRequest option \<Rightarrow> PbRole PbPage api" where
  "svc_ListOrganizationRoleAssignments S x req =
    (let L = sv_lib S; r = GetUserPage req in
     andThen (liftS (validate_ListOrganizationRoleAssignments L req)) (\<lambda>_.
     andThen (convert (MustParse L (upr_UserId r))) (\<lambda>userID.
     listPage L (codec_Empty L) r (Some ())
       (statusOf [(ErrNotFound, status_Error CodeNotFound ''user or organization membership not found'')])
       (UserOrgCustomRoles (cx_Session x) userID) CustomRolesToPB)))"

definition GetUpdateRole :: "UpdateRoleRequest option \<Rightarrow> UpdateRoleRequest" where
  "GetUpdateRole req = (case req of None \<Rightarrow> \<lparr>urr_Role = None, urr_Paths = []\<rparr> | Some r \<Rightarrow> r)"

definition svc_UpdateRole :: "server \<Rightarrow> ctx \<Rightarrow> UpdateRoleRequest option \<Rightarrow> PbRole api" where
  "svc_UpdateRole S x req =
    (let L = sv_lib S; r = GetUpdateRole req; i = pbr_Id (GetRole (urr_Role r)) in
     andThen (liftS (validate_UpdateRole L req)) (\<lambda>_.
     andThen (convert (MustParse L i)) (\<lambda>roleID.
     andThen (convert (UpdateCustomRoleFromPB L r roleID)) (\<lambda>updateRole.
     andThen (call_core (statusOf [
         (ErrNotFound, roleNotFound i),
         (ErrValidation, status_Error CodeInvalidArgument ''invalid role''),
         (ErrAlreadyExists, roleNameTaken),
         (ErrETagMismatch, roleChanged),
         (ErrPermissionDenied, status_Error CodePermissionDenied ''caller cannot change role permissions''),
         (ErrManagedRole, managedRole ''managed role definitions cannot be updated''),
         (ErrInvalidAssignmentScope, invalidScope ''role with project assignments cannot require organization scope'')])
       (CustomRoleCore.UpdateCustomRole (cx_Session x) updateRole)) (\<lambda>role.
     convert (CustomRoleToPB role))))))"

definition GetModifyRole :: "ModifyRolePermissionsRequest option \<Rightarrow> ModifyRolePermissionsRequest" where
  "GetModifyRole req = (case req of
      None \<Rightarrow> \<lparr>mrr_Id = [], mrr_Etag = [], mrr_AddPermissions = [], mrr_RemovePermissions = []\<rparr>
    | Some r \<Rightarrow> r)"

definition svc_ModifyRolePermissions ::
    "server \<Rightarrow> ctx \<Rightarrow> ModifyRolePermissionsRequest option \<Rightarrow> PbRole api" where
  "svc_ModifyRolePermissions S x req =
    (let L = sv_lib S; r = GetModifyRole req in
     andThen (liftS (validate_ModifyRolePermissions L req)) (\<lambda>_.
     andThen (convert (MustParse L (mrr_Id r))) (\<lambda>roleID.
     andThen (convert (ModifyCustomRolePermissionsFromPB L r roleID)) (\<lambda>modifyPermissions.
     andThen (call_core (statusOf [
         (ErrNotFound, status_Errorf CodeNotFound (Quoted ''role '' (mrr_Id r) '' or permission not found'')),
         (ErrValidation, status_Error CodeInvalidArgument ''invalid permission changes''),
         (ErrETagMismatch, roleChanged),
         (ErrPermissionDenied, status_Error CodePermissionDenied ''caller cannot change role permissions''),
         (ErrManagedRole, managedRole ''managed role definitions cannot be modified''),
         (ErrInvalidAssignmentScope, invalidScope ''role with project assignments cannot require organization scope'')])
       (CustomRoleCore.ModifyCustomRolePermissions (cx_Session x) modifyPermissions)) (\<lambda>role.
     convert (CustomRoleToPB role))))))"

definition svc_DeleteRole :: "server \<Rightarrow> ctx \<Rightarrow> string option \<Rightarrow> unit api" where
  "svc_DeleteRole S x req =
    andThen (liftS (validate_DeleteRole (sv_lib S) req)) (\<lambda>_.
    andThen (convert (MustParse (sv_lib S) (strOf req))) (\<lambda>roleID.
    call_core (statusOf [
        (ErrNotFound, roleNotFound (strOf req)),
        (ErrPermissionDenied, status_Error CodePermissionDenied ''caller cannot delete role permissions''),
        (ErrManagedRole, managedRole ''managed role definitions cannot be deleted'')])
      (DeleteCustomRole (cx_Session x) roleID)))"

text \<open>The two IDs of an assignment request, parsed role first.\<close>

definition GetAssignment :: "RoleAssignmentRequest option \<Rightarrow> RoleAssignmentRequest" where
  "GetAssignment req = (case req of None \<Rightarrow> \<lparr>rar_RoleId = [], rar_UserId = []\<rparr> | Some r \<Rightarrow> r)"

definition svc_AssignRoleToProject :: "server \<Rightarrow> ctx \<Rightarrow> RoleAssignmentRequest option \<Rightarrow> unit api" where
  "svc_AssignRoleToProject S x req =
    (let L = sv_lib S; r = GetAssignment req in
     andThen (liftS (validate_AssignRoleToProject L req)) (\<lambda>_.
     andThen (convert (MustParse L (rar_RoleId r))) (\<lambda>roleID.
     andThen (convert (MustParse L (rar_UserId r))) (\<lambda>userID.
     call_core (statusOf [
         (ErrNotFound, status_Error CodeNotFound ''user, role, project, or organization membership not found''),
         (ErrAlreadyExists, status_Error CodeAlreadyExists ''user already has role in project''),
         (ErrPermissionDenied, status_Error CodePermissionDenied ''caller cannot grant role permissions''),
         (ErrInvalidAssignmentScope, invalidScope ''role cannot be assigned at project scope'')])
       (AssignCustomRoleToProject (cx_Session x) userID roleID)))))"

definition svc_UnassignRoleFromProject :: "server \<Rightarrow> ctx \<Rightarrow> RoleAssignmentRequest option \<Rightarrow> unit api" where
  "svc_UnassignRoleFromProject S x req =
    (let L = sv_lib S; r = GetAssignment req in
     andThen (liftS (validate_UnassignRoleFromProject L req)) (\<lambda>_.
     andThen (convert (MustParse L (rar_RoleId r))) (\<lambda>roleID.
     andThen (convert (MustParse L (rar_UserId r))) (\<lambda>userID.
     call_core (statusOf [
         (ErrNotFound, status_Error CodeNotFound ''project role assignment not found''),
         (ErrPermissionDenied, status_Error CodePermissionDenied ''caller cannot revoke role permissions'')])
       (UnassignCustomRoleFromProject (cx_Session x) userID roleID)))))"

definition svc_AssignRoleToOrganization :: "server \<Rightarrow> ctx \<Rightarrow> RoleAssignmentRequest option \<Rightarrow> unit api" where
  "svc_AssignRoleToOrganization S x req =
    (let L = sv_lib S; r = GetAssignment req in
     andThen (liftS (validate_AssignRoleToOrganization L req)) (\<lambda>_.
     andThen (convert (MustParse L (rar_RoleId r))) (\<lambda>roleID.
     andThen (convert (MustParse L (rar_UserId r))) (\<lambda>userID.
     call_core (statusOf [
         (ErrNotFound, status_Error CodeNotFound ''user, role, organization, or organization membership not found''),
         (ErrAlreadyExists, status_Error CodeAlreadyExists ''user already has role in organization''),
         (ErrPermissionDenied, status_Error CodePermissionDenied ''caller cannot grant role permissions'')])
       (AssignCustomRoleToOrg (cx_Session x) userID roleID)))))"

definition svc_UnassignRoleFromOrganization :: "server \<Rightarrow> ctx \<Rightarrow> RoleAssignmentRequest option \<Rightarrow> unit api" where
  "svc_UnassignRoleFromOrganization S x req =
    (let L = sv_lib S; r = GetAssignment req in
     andThen (liftS (validate_UnassignRoleFromOrganization L req)) (\<lambda>_.
     andThen (convert (MustParse L (rar_RoleId r))) (\<lambda>roleID.
     andThen (convert (MustParse L (rar_UserId r))) (\<lambda>userID.
     call_core (statusOf [
         (ErrNotFound, status_Error CodeNotFound ''organization role assignment not found''),
         (ErrPermissionDenied, status_Error CodePermissionDenied ''caller cannot revoke role permissions'')])
       (UnassignCustomRoleFromOrg (cx_Session x) userID roleID)))))"

section \<open>auth.go\<close>

definition svc_RequestMagicLink :: "server \<Rightarrow> ctx \<Rightarrow> string option \<Rightarrow> unit api" where
  "svc_RequestMagicLink S x req =
    andThen (liftS (validate_RequestMagicLink (sv_lib S) req)) (\<lambda>_.
    \<lambda>w. case wf_RequestMagicLink (sv_wlib S) (ParseAddress (sv_lib S)) (sv_cfg S) (sv_env S) (cx_WorkflowID x)
          (strOf req) w of
        (Inl e, v) \<Rightarrow> (Inl (CoreErr e), v)
      | (Inr _, v) \<Rightarrow> (Inr (), v))"

definition svc_VerifyMagicLink :: "server \<Rightarrow> ctx \<Rightarrow> string option \<Rightarrow> PbTokenPair api" where
  "svc_VerifyMagicLink S x req =
    andThen (liftS (validate_VerifyMagicLink req)) (\<lambda>_.
    andThen (call_core (statusOf [(ErrTokenInvalid, status_Error CodeUnauthenticated ''token invalid or expired'')])
      (VerifyMagicLink (sv_cfg S) (sv_env S) (strOf req))) (\<lambda>pair.
    ret (TokenPairToPB pair)))"

definition svc_RefreshAccessToken :: "server \<Rightarrow> ctx \<Rightarrow> string option \<Rightarrow> PbTokenPair api" where
  "svc_RefreshAccessToken S x req =
    andThen (liftS (validate_RefreshAccessToken req)) (\<lambda>_.
    andThen (call_core (statusOf [(ErrTokenInvalid,
        status_Error CodeUnauthenticated ''refresh token invalid, expired, or revoked'')])
      (RefreshAccessToken (sv_cfg S) (sv_env S) (strOf req))) (\<lambda>pair.
    ret (TokenPairToPB pair)))"

definition svc_RevokeRefreshToken :: "server \<Rightarrow> ctx \<Rightarrow> string option \<Rightarrow> unit api" where
  "svc_RevokeRefreshToken S x req =
    andThen (liftS (validate_RevokeRefreshToken req)) (\<lambda>_.
    call_core (statusOf [(ErrTokenInvalid,
        status_Error CodeNotFound ''refresh token not found or already revoked'')])
      (RevokeRefreshToken (strOf req)))"

definition svc_RevokeAllSessions :: "server \<Rightarrow> ctx \<Rightarrow> unit option \<Rightarrow> unit api" where
  "svc_RevokeAllSessions S x req =
    andThen (liftS (validate_RevokeAllSessions req)) (\<lambda>_.
    case cx_Session x of
      None \<Rightarrow> throw (status_Error CodeUnauthenticated ''unauthenticated'')
    | Some sess \<Rightarrow> call_core CoreErr (RevokeAllUserRefreshTokens (au_UserID (as_User sess))))"

definition svc_GetAuthContext :: "server \<Rightarrow> ctx \<Rightarrow> unit option \<Rightarrow> PbAuthContext api" where
  "svc_GetAuthContext S x req =
    andThen (liftS (validate_GetAuthContext req)) (\<lambda>_.
    andThen (call_core (statusOf [(ErrNotFound, status_Error CodeNotFound ''user or project not found'')])
      (AuthCore.AuthContext (cx_Session x))) (\<lambda>ac.
    convert (AuthContextToPB ac)))"

section \<open>Dispatch\<close>

primrec dispatch :: "server \<Rightarrow> ctx \<Rightarrow> request \<Rightarrow> response api" where
  "dispatch S x (RqRequestMagicLink req) = andThen (svc_RequestMagicLink S x req) (\<lambda>_. ret RsEmpty)"
| "dispatch S x (RqVerifyMagicLink req) = andThen (svc_VerifyMagicLink S x req) (\<lambda>r. ret (RsTokenPair r))"
| "dispatch S x (RqRefreshAccessToken req) = andThen (svc_RefreshAccessToken S x req) (\<lambda>r. ret (RsTokenPair r))"
| "dispatch S x (RqRevokeRefreshToken req) = andThen (svc_RevokeRefreshToken S x req) (\<lambda>_. ret RsEmpty)"
| "dispatch S x (RqRevokeAllSessions req) = andThen (svc_RevokeAllSessions S x req) (\<lambda>_. ret RsEmpty)"
| "dispatch S x (RqGetAuthContext req) = andThen (svc_GetAuthContext S x req) (\<lambda>r. ret (RsAuthContext r))"
| "dispatch S x (RqListProjects req) = andThen (svc_ListProjects S x req) (\<lambda>r. ret (RsProjects r))"
| "dispatch S x (RqCreateOrganization req) = andThen (svc_CreateOrganization S x req) (\<lambda>r. ret (RsOrganization r))"
| "dispatch S x (RqCreateOrganizationUser req) = andThen (svc_CreateOrganizationUser S x req) (\<lambda>r. ret (RsUser r))"
| "dispatch S x (RqListOrganizationUsers req) = andThen (svc_ListOrganizationUsers S x req) (\<lambda>r. ret (RsUsers r))"
| "dispatch S x (RqGetUser req) = andThen (svc_GetUser S x req) (\<lambda>r. ret (RsUser r))"
| "dispatch S x (RqListUsers req) = andThen (svc_ListUsers S x req) (\<lambda>r. ret (RsUsers r))"
| "dispatch S x (RqCreateUser req) = andThen (svc_CreateUser S x req) (\<lambda>r. ret (RsUser r))"
| "dispatch S x (RqUpdateUser req) = andThen (svc_UpdateUser S x req) (\<lambda>r. ret (RsUser r))"
| "dispatch S x (RqListSystemRoles req) = andThen (svc_ListSystemRoles S x req) (\<lambda>r. ret (RsSystemRoles r))"
| "dispatch S x (RqAssignSystemRole req) = andThen (svc_AssignSystemRole S x req) (\<lambda>_. ret RsEmpty)"
| "dispatch S x (RqUnassignSystemRole req) = andThen (svc_UnassignSystemRole S x req) (\<lambda>_. ret RsEmpty)"
| "dispatch S x (RqListSystemRoleAssignments req) = andThen (svc_ListSystemRoleAssignments S x req) (\<lambda>r. ret (RsSystemRoles r))"
| "dispatch S x (RqCreateRole req) = andThen (svc_CreateRole S x req) (\<lambda>r. ret (RsRole r))"
| "dispatch S x (RqGetRole req) = andThen (svc_GetRole S x req) (\<lambda>r. ret (RsRole r))"
| "dispatch S x (RqListRoles req) = andThen (svc_ListRoles S x req) (\<lambda>r. ret (RsRoles r))"
| "dispatch S x (RqListProjectRoleAssignments req) = andThen (svc_ListProjectRoleAssignments S x req) (\<lambda>r. ret (RsRoles r))"
| "dispatch S x (RqListOrganizationRoleAssignments req) = andThen (svc_ListOrganizationRoleAssignments S x req) (\<lambda>r. ret (RsRoles r))"
| "dispatch S x (RqUpdateRole req) = andThen (svc_UpdateRole S x req) (\<lambda>r. ret (RsRole r))"
| "dispatch S x (RqModifyRolePermissions req) = andThen (svc_ModifyRolePermissions S x req) (\<lambda>r. ret (RsRole r))"
| "dispatch S x (RqDeleteRole req) = andThen (svc_DeleteRole S x req) (\<lambda>_. ret RsEmpty)"
| "dispatch S x (RqAssignRoleToProject req) = andThen (svc_AssignRoleToProject S x req) (\<lambda>_. ret RsEmpty)"
| "dispatch S x (RqUnassignRoleFromProject req) = andThen (svc_UnassignRoleFromProject S x req) (\<lambda>_. ret RsEmpty)"
| "dispatch S x (RqAssignRoleToOrganization req) = andThen (svc_AssignRoleToOrganization S x req) (\<lambda>_. ret RsEmpty)"
| "dispatch S x (RqUnassignRoleFromOrganization req) = andThen (svc_UnassignRoleFromOrganization S x req) (\<lambda>_. ret RsEmpty)"
| "dispatch S x (RqListPermissions req) = andThen (svc_ListPermissions S x req) (\<lambda>r. ret (RsPermissions r))"

end
