(* ===== verification/ApiServer.thy ===== *)
theory ApiServer
  imports ApiHandlers
begin

text \<open>
  The server: the method registries and the chain of interceptors of \<open>server.go\<close>,
  \<open>unary_interceptors.go\<close> and \<open>stream_interceptors.go\<close>. Logging has no effect on a call and is left out of
  the chains, except for the level an error is logged at.
\<close>

section \<open>server.go: registries\<close>

definition publicMethods :: "string goset" where
  "publicMethods =
    [''/theapp.v1.AuthService/RequestMagicLink'',
     ''/theapp.v1.AuthService/VerifyMagicLink'',
     ''/theapp.v1.AuthService/RefreshAccessToken'',
     ''/theapp.v1.AuthService/RevokeRefreshToken'']"

definition noProjectMethods :: "string goset" where
  "noProjectMethods =
    [''/theapp.v1.AuthService/RevokeAllSessions'',
     ''/theapp.v1.ProjectService/ListProjects'',
     ''/theapp.v1.UserService/GetUser'',
     ''/theapp.v1.UserService/ListUsers'',
     ''/theapp.v1.UserService/CreateUser'',
     ''/theapp.v1.UserService/UpdateUser'']"

definition orgScopedPermissions :: "permission goset" where
  "orgScopedPermissions =
    [PermissionCustomRoleCreate, PermissionCustomRoleUpdate, PermissionCustomRoleDelete, PermissionCustomRoleReadOrgAssignments, PermissionCustomRoleAssignOrg, PermissionCustomRoleUnassignOrg]"

definition systemControlProjectMethods :: "string goset" where
  "systemControlProjectMethods =
    [''/theapp.v1.OrgService/CreateOrganization'',
     ''/theapp.v1.SystemRoleService/ListSystemRoles'',
     ''/theapp.v1.SystemRoleService/AssignSystemRole'',
     ''/theapp.v1.SystemRoleService/UnassignSystemRole'',
     ''/theapp.v1.SystemRoleService/ListSystemRoleAssignments'']"

definition orgControlProjectMethods :: "string goset" where
  "orgControlProjectMethods =
    [''/theapp.v1.OrgService/CreateOrganizationUser'',
     ''/theapp.v1.OrgService/ListOrganizationUsers'']"

definition permissionRegistry :: "(string \<times> permission list) list" where
  "permissionRegistry =
    [(''/theapp.v1.AuthService/RevokeAllSessions'', []),
     (''/theapp.v1.AuthService/GetAuthContext'', []),
     (''/theapp.v1.ProjectService/ListProjects'', []),
     (''/theapp.v1.OrgService/CreateOrganization'', [PermissionOrgCreate]),
     (''/theapp.v1.OrgService/CreateOrganizationUser'', [PermissionOrgUserCreate]),
     (''/theapp.v1.OrgService/ListOrganizationUsers'', [PermissionOrgUserRead]),
     (''/theapp.v1.UserService/GetUser'', [PermissionUserRead]),
     (''/theapp.v1.UserService/ListUsers'', [PermissionUserRead]),
     (''/theapp.v1.UserService/CreateUser'', [PermissionUserCreate]),
     (''/theapp.v1.UserService/UpdateUser'', [PermissionUserUpdate]),
     (''/theapp.v1.SystemRoleService/ListSystemRoles'', [PermissionSystemRoleRead]),
     (''/theapp.v1.SystemRoleService/AssignSystemRole'', [PermissionSystemRoleAssign]),
     (''/theapp.v1.SystemRoleService/UnassignSystemRole'', [PermissionSystemRoleUnassign]),
     (''/theapp.v1.SystemRoleService/ListSystemRoleAssignments'', [PermissionSystemRoleRead]),
     (''/theapp.v1.RoleService/CreateRole'', [PermissionCustomRoleCreate]),
     (''/theapp.v1.RoleService/GetRole'', [PermissionCustomRoleRead]),
     (''/theapp.v1.RoleService/ListRoles'', [PermissionCustomRoleRead]),
     (''/theapp.v1.RoleService/ListProjectRoleAssignments'', [PermissionCustomRoleReadProjectAssignments]),
     (''/theapp.v1.RoleService/ListOrganizationRoleAssignments'', [PermissionCustomRoleReadOrgAssignments]),
     (''/theapp.v1.RoleService/UpdateRole'', [PermissionCustomRoleUpdate]),
     (''/theapp.v1.RoleService/ModifyRolePermissions'', [PermissionCustomRoleUpdate]),
     (''/theapp.v1.RoleService/DeleteRole'', [PermissionCustomRoleDelete]),
     (''/theapp.v1.RoleService/AssignRoleToProject'', [PermissionCustomRoleAssignProject]),
     (''/theapp.v1.RoleService/UnassignRoleFromProject'', [PermissionCustomRoleUnassignProject]),
     (''/theapp.v1.RoleService/AssignRoleToOrganization'', [PermissionCustomRoleAssignOrg]),
     (''/theapp.v1.RoleService/UnassignRoleFromOrganization'', [PermissionCustomRoleUnassignOrg]),
     (''/theapp.v1.PermissionService/ListPermissions'', [PermissionCustomRoleRead])]"

definition methodRequiresOrganizationScope :: "string \<Rightarrow> bool" where
  "methodRequiresOrganizationScope m =
    list_ex (\<lambda>p. setContains orgScopedPermissions p)
      (case map_of permissionRegistry m of None \<Rightarrow> [] | Some ps \<Rightarrow> ps)"

section \<open>unary_interceptors.go\<close>

type_synonym ('q, 'r) handler = "ctx \<Rightarrow> 'q \<Rightarrow> 'r api"
type_synonym ('q, 'r) interceptor = "string \<Rightarrow> ('q, 'r) handler \<Rightarrow> ('q, 'r) handler"

definition metadataGet :: "(string \<Rightarrow> string list) \<Rightarrow> string \<Rightarrow> string list" where
  "metadataGet md k = md (toLower k)"

definition scopedPreimage :: "ctx \<Rightarrow> string \<Rightarrow> bytes \<Rightarrow> string \<Rightarrow> bytes" where
  "scopedPreimage x method payload key =
    (let userID = (case cx_Session x of None \<Rightarrow> [] | Some sess \<Rightarrow> uuidString (au_UserID (as_User sess))) in
     bytes_of userID @ [0] @ bytes_of method @ [0] @ payload @ [0] @ bytes_of key)"

definition scopedWorkflowID :: "server \<Rightarrow> ctx \<Rightarrow> string \<Rightarrow> bytes \<Rightarrow> string \<Rightarrow> api_error + string" where
  "scopedWorkflowID S x method payload key =
    (if uuid_Parse (sv_lib S) key = None
     then Inl (status_Error CodeInvalidArgument ''x-idempotency-key must be a valid UUID'')
     else Inr (hexEncode (sha256_Sum256 (scopedPreimage x method payload key))))"

definition marshalRequest :: "('q \<Rightarrow> bytes option) \<Rightarrow> 'q \<Rightarrow> api_error + bytes" where
  "marshalRequest marshal req = (case marshal req of
      None \<Rightarrow> Inl (status_Error CodeInternal ''marshal request for idempotency scoping'')
    | Some b \<Rightarrow> Inr b)"

definition idempotencyKey :: "ctx \<Rightarrow> string option" where
  "idempotencyKey x = (case cx_Metadata x of
      None \<Rightarrow> None
    | Some md \<Rightarrow> (case metadataGet md ''x-idempotency-key'' of
        [] \<Rightarrow> None
      | v # _ \<Rightarrow> if v = [] then None else Some v))"

definition idempotencyUnaryInterceptor :: "server \<Rightarrow> ('q \<Rightarrow> bytes option) \<Rightarrow> ('q, 'r) interceptor" where
  "idempotencyUnaryInterceptor S marshal m h x req = (case idempotencyKey x of
      None \<Rightarrow> h x req
    | Some key \<Rightarrow>
        andThen (liftS (marshalRequest marshal req)) (\<lambda>payload.
        andThen (liftS (scopedWorkflowID S x m payload key)) (\<lambda>i.
        h (x\<lparr>cx_WorkflowID := WithWorkflowID (cx_WorkflowID x) i\<rparr>) req)))"

definition parseBearer :: "server \<Rightarrow> ctx \<Rightarrow> api_error + AuthClaims" where
  "parseBearer S x = (case cx_Metadata x of
      None \<Rightarrow> Inl (status_Error CodeUnauthenticated ''missing metadata'')
    | Some md \<Rightarrow> (case metadataGet md ''authorization'' of
        [] \<Rightarrow> Inl (status_Error CodeUnauthenticated ''missing authorization header'')
      | v # _ \<Rightarrow> (case CutPrefix v ''Bearer '' of
          None \<Rightarrow> Inl (status_Error CodeUnauthenticated ''authorization header must use Bearer scheme'')
        | Some tokenStr \<Rightarrow>
            (case sv_ParseWithClaims S
                (\<lambda>isHMAC. if isHMAC then Some (cfg_JWTKey (sv_cfg S)) else None)
                (cfg_JWTIssuer (sv_cfg S)) (cfg_JWTAudience (sv_cfg S)) tokenStr of
              None \<Rightarrow> Inl (status_Error CodeUnauthenticated ''invalid or expired token'')
            | Some claims \<Rightarrow> Inr claims))))"

definition projectMetadataKey :: string where
  "projectMetadataKey = ''x-project-id''"

definition parseProjectID :: "ctx \<Rightarrow> api_error + int" where
  "parseProjectID x = (case cx_Metadata x of
      None \<Rightarrow> Inl (status_Error CodeInvalidArgument ''missing metadata'')
    | Some md \<Rightarrow>
        let missing = Inl (status_Error CodeInvalidArgument (''missing '' @ projectMetadataKey @ '' metadata'')) in
        (case metadataGet md projectMetadataKey of
          [] \<Rightarrow> missing
        | v # _ \<Rightarrow>
            if v = [] then missing
            else case Atoi v of
              None \<Rightarrow> Inl (status_Error CodeInvalidArgument (projectMetadataKey @ '' metadata must be a positive integer''))
            | Some i \<Rightarrow>
                if i \<le> 0
                then Inl (status_Error CodeInvalidArgument (projectMetadataKey @ '' metadata must be a positive integer''))
                else Inr i))"

definition sessionError :: "error \<Rightarrow> api_error" where
  "sessionError = statusOf [(ErrNotFound, status_Error CodeUnauthenticated ''unauthenticated'')]"

text \<open>The session of a method's caller; dereferencing a nil project ID would panic.\<close>

definition resolveSession :: "string \<Rightarrow> uuid \<Rightarrow> int option \<Rightarrow> AuthSession op" where
  "resolveSession m userID projectID =
    (if methodRequiresOrganizationScope m
     then (case projectID of
         None \<Rightarrow> throw (GoPanic ''nil pointer dereference'')
       | Some p \<Rightarrow> OrganizationAuthSession userID p)
     else AuthCore.AuthSession userID projectID)"

definition projectOf :: "string \<Rightarrow> ctx \<Rightarrow> api_error + int option" where
  "projectOf m x = (if setContains noProjectMethods m then Inr None
     else case parseProjectID x of Inl e \<Rightarrow> Inl e | Inr i \<Rightarrow> Inr (Some i))"

definition authUnaryInterceptor :: "server \<Rightarrow> ('q, 'r) interceptor" where
  "authUnaryInterceptor S m h x req =
    (if setContains publicMethods m then h x req
     else
       andThen (liftS (parseBearer S x)) (\<lambda>claims.
       andThen (liftS (projectOf m x)) (\<lambda>projectID.
       andThen (call_core sessionError (resolveSession m (cl_UserID claims) projectID)) (\<lambda>sess.
       h (x\<lparr>cx_Session := Some sess\<rparr>) req))))"

definition permissionUnaryInterceptor :: "('q, 'r) interceptor" where
  "permissionUnaryInterceptor m h x req =
    (if setContains publicMethods m then h x req
     else case map_of permissionRegistry m of
       None \<Rightarrow> throw (CoreErr (ErrMsg ''method is not registered in the permission registry''))
     | Some required \<Rightarrow> (case cx_Session x of
         None \<Rightarrow> throw (status_Error CodeUnauthenticated ''unauthenticated'')
       | Some sess \<Rightarrow>
           if \<exists>p \<in> set required. p \<notin> set (au_Permissions (as_User sess))
           then throw (status_Error CodePermissionDenied ''missing required permission'')
           else h x req))"

definition requireSystemControlProject :: "ctx \<Rightarrow> api_error + unit" where
  "requireSystemControlProject x = (case cx_Session x of
      None \<Rightarrow> Inl (CoreErr (ErrMsg ''auth session project data missing''))
    | Some sess \<Rightarrow> (case as_Project sess of
        None \<Rightarrow> Inl (CoreErr (ErrMsg ''auth session project data missing''))
      | Some p \<Rightarrow>
          if \<not> IsSystemControlProject p then Inl permissionDenied
          else if \<not> ap_IsOrgMember p then Inl permissionDenied
          else Inr ()))"

definition systemControlProjectUnaryInterceptor :: "('q, 'r) interceptor" where
  "systemControlProjectUnaryInterceptor m h x req =
    (if \<not> setContains systemControlProjectMethods m then h x req
     else andThen (liftS (requireSystemControlProject x)) (\<lambda>_. h x req))"

definition requireOrganizationControlProject :: "ctx \<Rightarrow> api_error + unit" where
  "requireOrganizationControlProject x = (case cx_Session x of
      None \<Rightarrow> Inl (CoreErr (ErrMsg ''auth session project data missing''))
    | Some sess \<Rightarrow> (case as_Project sess of
        None \<Rightarrow> Inl (CoreErr (ErrMsg ''auth session project data missing''))
      | Some p \<Rightarrow> if \<not> ap_IsControl p then Inl permissionDenied else Inr ()))"

definition organizationControlProjectUnaryInterceptor :: "('q, 'r) interceptor" where
  "organizationControlProjectUnaryInterceptor m h x req =
    (if \<not> setContains orgControlProjectMethods m then h x req
     else andThen (liftS (requireOrganizationControlProject x)) (\<lambda>_. h x req))"

text \<open>A panic of the handler or of a later interceptor becomes an ordinary error.\<close>

definition recovered :: "api_error \<Rightarrow> api_error" where
  "recovered e = (case e of
      CoreErr d \<Rightarrow> if isPanic d then CoreErr (ErrMsg ''PANIC'') else e
    | StatusErr _ \<Rightarrow> e)"

definition recoveryUnaryInterceptor :: "('q, 'r) interceptor" where
  "recoveryUnaryInterceptor m h x req = onError recovered (h x req)"

definition externalError :: "api_error \<Rightarrow> api_error" where
  "externalError e = (case e of
      CoreErr d \<Rightarrow> if d = ErrValidation then status_Error CodeInvalidArgument ''invalid request''
                  else status_Error CodeInternal ''Internal''
    | StatusErr st \<Rightarrow> StatusErr st)"

definition errorUnaryInterceptor :: "('q, 'r) interceptor" where
  "errorUnaryInterceptor m h x req = onError externalError (h x req)"

datatype Level = LevelInfo | LevelWarn | LevelError

definition codeToLevel :: "Code \<Rightarrow> Level" where
  "codeToLevel code =
    (if code \<in> {CodeNotFound, CodeAlreadyExists, CodeCanceled, CodeOK} then LevelInfo
     else if code \<in> {CodeInvalidArgument, CodeFailedPrecondition, CodePermissionDenied, CodeUnauthenticated,
        CodeAborted, CodeOutOfRange, CodeDeadlineExceeded} then LevelWarn
     else LevelError)"

section \<open>server.go: the chain\<close>

text \<open>The first interceptor is the outermost.\<close>

primrec chainUnary :: "('q, 'r) interceptor list \<Rightarrow> ('q, 'r) interceptor" where
  "chainUnary [] m h = h"
| "chainUnary (i # is) m h = i m (chainUnary is m h)"

definition guards :: "server \<Rightarrow> ('q, 'r) interceptor list" where
  "guards S = [errorUnaryInterceptor, recoveryUnaryInterceptor, authUnaryInterceptor S,
     permissionUnaryInterceptor, systemControlProjectUnaryInterceptor,
     organizationControlProjectUnaryInterceptor]"

definition unaryInterceptors :: "server \<Rightarrow> ('q \<Rightarrow> bytes option) \<Rightarrow> ('q, 'r) interceptor list" where
  "unaryInterceptors S marshal = guards S @ [idempotencyUnaryInterceptor S marshal]"

definition serve :: "server \<Rightarrow> ctx \<Rightarrow> request \<Rightarrow> response api" where
  "serve S x req = chainUnary (unaryInterceptors S (sv_Marshal S)) (FullMethod req) (dispatch S) x req"

section \<open>stream_interceptors.go\<close>

text \<open>A stream is its context and whatever carries its messages, which the interceptors pass on.\<close>

record 'm stream =
  ss_Context :: ctx
  ss_Messages :: 'm

type_synonym ('m, 'r) stream_handler = "'m stream \<Rightarrow> 'r api"
type_synonym ('m, 'r) stream_interceptor = "string \<Rightarrow> ('m, 'r) stream_handler \<Rightarrow> ('m, 'r) stream_handler"

definition newCtxOverrideStream :: "'m stream \<Rightarrow> ctx \<Rightarrow> 'm stream" where
  "newCtxOverrideStream ss x = ss\<lparr>ss_Context := x\<rparr>"

definition authStreamInterceptor :: "server \<Rightarrow> ('m, 'r) stream_interceptor" where
  "authStreamInterceptor S m h ss =
    (if setContains publicMethods m then h ss
     else
       andThen (liftS (parseBearer S (ss_Context ss))) (\<lambda>claims.
       andThen (liftS (projectOf m (ss_Context ss))) (\<lambda>projectID.
       andThen (call_core sessionError (resolveSession m (cl_UserID claims) projectID)) (\<lambda>sess.
       h (newCtxOverrideStream ss ((ss_Context ss)\<lparr>cx_Session := Some sess\<rparr>))))))"

definition permissionStreamInterceptor :: "('m, 'r) stream_interceptor" where
  "permissionStreamInterceptor m h ss =
    (if setContains publicMethods m then h ss
     else case map_of permissionRegistry m of
       None \<Rightarrow> throw (CoreErr (ErrMsg ''method is not registered in the permission registry''))
     | Some required \<Rightarrow> (case cx_Session (ss_Context ss) of
         None \<Rightarrow> throw (status_Error CodeUnauthenticated ''unauthenticated'')
       | Some sess \<Rightarrow>
           if \<exists>p \<in> set required. p \<notin> set (au_Permissions (as_User sess))
           then throw (status_Error CodePermissionDenied ''missing required permission'')
           else h ss))"

definition systemControlProjectStreamInterceptor :: "('m, 'r) stream_interceptor" where
  "systemControlProjectStreamInterceptor m h ss =
    (if \<not> setContains systemControlProjectMethods m then h ss
     else andThen (liftS (requireSystemControlProject (ss_Context ss))) (\<lambda>_. h ss))"

definition organizationControlProjectStreamInterceptor :: "('m, 'r) stream_interceptor" where
  "organizationControlProjectStreamInterceptor m h ss =
    (if \<not> setContains orgControlProjectMethods m then h ss
     else andThen (liftS (requireOrganizationControlProject (ss_Context ss))) (\<lambda>_. h ss))"

definition recoveryStreamInterceptor :: "('m, 'r) stream_interceptor" where
  "recoveryStreamInterceptor m h ss = onError recovered (h ss)"

definition errorStreamInterceptor :: "('m, 'r) stream_interceptor" where
  "errorStreamInterceptor m h ss = onError externalError (h ss)"

primrec chainStream :: "('m, 'r) stream_interceptor list \<Rightarrow> ('m, 'r) stream_interceptor" where
  "chainStream [] m h = h"
| "chainStream (i # is) m h = i m (chainStream is m h)"

definition streamInterceptors :: "server \<Rightarrow> ('m, 'r) stream_interceptor list" where
  "streamInterceptors S = [errorStreamInterceptor, recoveryStreamInterceptor, authStreamInterceptor S,
     permissionStreamInterceptor, systemControlProjectStreamInterceptor,
     organizationControlProjectStreamInterceptor]"

end
