(* ===== verification/ReadOnly.thy ===== *)
theory ReadOnly
  imports AuthCore OrgCore CustomRoleCore
begin

text \<open>
  The operations that only read: whatever they return, they leave the database as it is. The layers above
  use it for the requests that list, look up or resolve a session.
\<close>

definition read_only :: "('s, 'e, 'a) prog \<Rightarrow> bool" where
  "read_only m \<longleftrightarrow> (\<forall>s. snd (m s) = s)"

named_theorems read_intros "programs that only read"

lemma read_onlyD: "read_only m \<Longrightarrow> m s = (r, t) \<Longrightarrow> t = s"
  by (metis read_only_def snd_conv)

lemma read_only_basic [read_intros]:
  "read_only (ret x)" "read_only (throw e)" "read_only (reads f)" "read_only (liftS r)" "read_only (guardE b e)"
  by (simp_all add: read_only_def prog_defs)

lemma read_only_andThen [read_intros]:
  "read_only m \<Longrightarrow> (\<And>x. read_only (k x)) \<Longrightarrow> read_only (andThen m k)"
  by (auto simp: read_only_def andThen_def split: prod.splits sum.splits) (metis snd_conv)+

lemma read_only_onError [read_intros]: "read_only m \<Longrightarrow> read_only (onError f m)"
  by (auto simp: read_only_def onError_def split: prod.splits sum.splits) (metis snd_conv)+

lemma read_only_if [read_intros]: "read_only m \<Longrightarrow> read_only n \<Longrightarrow> read_only (if b then m else n)"
  by simp

lemma read_only_case_option [read_intros]:
  "read_only m \<Longrightarrow> (\<And>x. read_only (f x)) \<Longrightarrow> read_only (case p of None \<Rightarrow> m | Some x \<Rightarrow> f x)"
  by (cases p) auto

lemma read_only_case_prod [read_intros]:
  "(\<And>x y. read_only (f x y)) \<Longrightarrow> read_only (case p of (x, y) \<Rightarrow> f x y)"
  by (cases p) auto

lemma read_only_atomic [read_intros]: "read_only m \<Longrightarrow> read_only (atomic m)"
proof -
  assume m: "read_only m"
  have "snd (atomic m s) = s" for s
  proof (cases "m s")
    case (Pair r t)
    then have "t = s" using m by (rule read_onlyD [rotated])
    then show ?thesis using Pair by (simp add: atomic_def split: sum.splits)
  qed
  then show ?thesis by (simp add: read_only_def)
qed

lemma read_only_Queue [read_intros]: "read_only (tq_SQL q) \<Longrightarrow> read_only (Queue q)"
  unfolding Queue_def queueOne_def by (intro read_intros)

lemma read_only_QueueMany [read_intros]: "read_only (tq_SQL q) \<Longrightarrow> read_only (QueueMany q)"
  unfolding QueueMany_def by (intro read_intros)

lemma read_only_with_page [read_intros]: "read_only m \<Longrightarrow> read_only (with_page l k m)"
  unfolding with_page_def by (intro read_intros)

lemma user_reads [read_intros]:
  "read_only (UserByID x)" "read_only (Users f os l k)"
  unfolding UserByID_def pguser_UserByExternalID_def userByExternalIDQuery_def Users_def pguser_Users_def
    usersQuery_def userCountQuery_def
  by (intro read_intros; simp add: read_intros)+

lemma projectSession_read [read_intros]: "read_only (projectSession x)"
  unfolding projectSession_def by (intro read_intros)

lemma org_reads [read_intros]:
  "read_only (OrganizationUsers x f l k)" "read_only (AccessibleProjects x pf l k)"
  unfolding OrganizationUsers_def pgorg_OrganizationUsers_def organizationUsersQuery_def
    organizationUserCountQuery_def AccessibleProjects_def pgorg_AccessibleProjects_def
    accessibleProjectsQuery_def accessibleProjectCountQuery_def
  by (intro read_intros; simp add: read_intros)+

lemma system_role_reads [read_intros]:
  "read_only (SystemRoles l k)" "read_only (UserSystemRoles x l k)" "read_only (SystemPermissions x)"
  unfolding SystemRoles_def pg_SystemRoles_def systemRolesQuery_def systemRoleCountQuery_def UserSystemRoles_def
    UserSystemRolesByExternalID_def userSystemRolesByExternalIDQuery_def userSystemRoleCountByExternalIDQuery_def
    SystemPermissions_def systemPermissionNamesQuery_def
  by (intro read_intros; simp add: read_intros)+

lemma custom_role_reads [read_intros]:
  "read_only (CustomRoles x l k)" "read_only (CustomRoleByID x i)"
  "read_only (UserProjectCustomRoles x i l k)" "read_only (UserOrgCustomRoles x i l k)"
  unfolding CustomRoles_def pg_CustomRoles_def customRolesQuery_def customRoleCountQuery_def CustomRoleByID_def
    CustomRoleByExternalID_def customRoleByExternalIDQuery_def UserProjectCustomRoles_def pg_UserProjectCustomRoles_def
    userProjectCustomRolesQuery_def userProjectCustomRoleCountQuery_def UserOrgCustomRoles_def
    pg_UserOrgCustomRoles_def userOrgCustomRolesQuery_def userOrgCustomRoleCountQuery_def
  by (intro read_intros; simp add: read_intros)+

lemma permission_reads [read_intros]:
  "read_only (ProjectPermissions x i)" "read_only (OrgPermissionsByProjectID x i)"
  "read_only (PermissionsByScope x i)" "read_only (pg_AuthSessionData x j)"
  unfolding ProjectPermissions_def projectPermissionsQuery_def OrgPermissionsByProjectID_def
    orgPermissionsByProjectIDQuery_def PermissionsByScope_def pg_AuthSessionData_def authSessionDataQuery_def
    systemPermissionNamesQuery_def
  by (intro read_intros; simp add: read_intros)+

lemma session_reads [read_intros]:
  "read_only (AuthCore.AuthSession x j)" "read_only (OrganizationAuthSession x i)" "read_only (AuthCore.AuthContext c)"
  unfolding AuthCore.AuthSession_def OrganizationAuthSession_def AuthCore.AuthContext_def
  by (intro read_intros)+

end
