(* ===== verification/ApiAccess.thy ===== *)
theory ApiAccess
  imports ApiServer ReadOnly AuthSessions
begin

text \<open>
  What the interceptors guarantee: the registries cover every method, a handler of a protected method is only
  reached by a caller with a valid token who holds the permissions the method requires where the request
  operates, streams are guarded like unary calls, clients only ever see status errors, and an idempotency
  key is bound to its caller and request.
\<close>

section \<open>Registries\<close>

lemmas registries = publicMethods_def noProjectMethods_def orgScopedPermissions_def
  systemControlProjectMethods_def orgControlProjectMethods_def permissionRegistry_def

lemma registry_distinct: "distinct (map fst permissionRegistry)"
  by (simp add: permissionRegistry_def)

definition methods :: "string list" where
  "methods = publicMethods @ map fst permissionRegistry"

lemma FullMethod_known: "FullMethod req \<in> set methods"
  by (cases req) (simp_all add: methods_def registries)

lemma public_or_registered:
  "\<forall>m \<in> set methods. (m \<in> set publicMethods) = (map_of permissionRegistry m = None)"
  by code_simp

lemma registry_permissions:
  "\<forall>(m, ps) \<in> set permissionRegistry. set ps \<subseteq> set AllPermissions \<and> m \<notin> set publicMethods"
  by code_simp

lemma no_project_methods:
  "\<forall>m \<in> set noProjectMethods. m \<notin> set publicMethods \<and> m \<in> fst ` set permissionRegistry \<and>
     \<not> methodRequiresOrganizationScope m \<and> m \<notin> set systemControlProjectMethods \<and> m \<notin> set orgControlProjectMethods"
  by code_simp

lemma control_methods:
  "\<forall>m \<in> set systemControlProjectMethods \<union> set orgControlProjectMethods. m \<in> fst ` set permissionRegistry"
  by code_simp

text \<open>Every method is either public or has an entry in the permission registry, the registry requires only
  registered permissions, and a method whose permissions are resolved at organization scope, or that must
  run in a control project, is never exempt from naming a project, so the session lookup never
  dereferences a nil project ID.\<close>

theorem registries_are_consistent:
  "(FullMethod req \<in> set publicMethods) = (map_of permissionRegistry (FullMethod req) = None) \<and>
   (\<forall>(m, ps) \<in> set permissionRegistry. set ps \<subseteq> set AllPermissions \<and> m \<notin> set publicMethods) \<and>
   (\<forall>m \<in> set noProjectMethods. m \<notin> set publicMethods \<and> m \<in> fst ` set permissionRegistry \<and>
      \<not> methodRequiresOrganizationScope m \<and> m \<notin> set systemControlProjectMethods \<and> m \<notin> set orgControlProjectMethods) \<and>
   (\<forall>m \<in> set systemControlProjectMethods \<union> set orgControlProjectMethods. m \<in> fst ` set permissionRegistry)"
  using public_or_registered FullMethod_known registry_permissions no_project_methods control_methods by blast

lemma org_scope_has_project: "methodRequiresOrganizationScope m \<Longrightarrow> m \<notin> set noProjectMethods"
  using no_project_methods by blast

lemma projectOf_Some: "projectOf m x = Inr pid \<Longrightarrow> m \<notin> set noProjectMethods \<Longrightarrow> \<exists>i. pid = Some i \<and> 0 < i"
  by (auto simp: projectOf_def setContains_def parseProjectID_def Let_def split: sum.splits option.splits list.splits if_splits)

lemma projectOf_None: "projectOf m x = Inr pid \<Longrightarrow> m \<in> set noProjectMethods \<Longrightarrow> pid = None"
  by (simp add: projectOf_def setContains_def)

section \<open>Admission\<close>

definition admitted :: "server \<Rightarrow> ctx \<Rightarrow> string \<Rightarrow> db \<Rightarrow> AuthSession \<Rightarrow> bool" where
  "admitted S x m s sess \<longleftrightarrow> (\<exists>claims pid required. parseBearer S x = Inr claims \<and>
     projectOf m x = Inr pid \<and> fst (resolveSession m (cl_UserID claims) pid s) = Inr sess \<and>
     map_of permissionRegistry m = Some required \<and> set required \<subseteq> set (au_Permissions (as_User sess)) \<and>
     (m \<in> set systemControlProjectMethods \<longrightarrow>
       (\<exists>p. as_Project sess = Some p \<and> IsSystemControlProject p \<and> ap_IsOrgMember p)) \<and>
     (m \<in> set orgControlProjectMethods \<longrightarrow> (\<exists>p. as_Project sess = Some p \<and> ap_IsControl p)))"

lemma read_only_resolveSession: "read_only (resolveSession m u pid)"
  unfolding resolveSession_def by (intro read_intros)

lemma call_core_read:
  assumes "read_only m" shows "snd (call_core f m w) = w"
proof (cases "m (w_db w)")
  case (Pair r t)
  then have "t = w_db w" using assms by (rule read_onlyD [rotated])
  then show ?thesis using Pair by (cases r) (simp_all add: call_core_def)
qed

lemma requireSystemControlProject_Inr:
  "requireSystemControlProject x = Inr () \<longleftrightarrow> (\<exists>sess p. cx_Session x = Some sess \<and> as_Project sess = Some p \<and>
    IsSystemControlProject p \<and> ap_IsOrgMember p)"
  by (auto simp: requireSystemControlProject_def split: option.splits)

lemma requireOrganizationControlProject_Inr:
  "requireOrganizationControlProject x = Inr () \<longleftrightarrow> (\<exists>sess p. cx_Session x = Some sess \<and>
    as_Project sess = Some p \<and> ap_IsControl p)"
  by (auto simp: requireOrganizationControlProject_def split: option.splits)

text \<open>A guard either refuses the call, with an error and the world as it was, or lets it through.\<close>

definition refused :: "'r api \<Rightarrow> world \<Rightarrow> bool" where
  "refused m w \<longleftrightarrow> (\<exists>e. m w = (Inl e, w))"

lemma refused_onError: "refused m w \<Longrightarrow> refused (onError f m) w"
  by (auto simp: refused_def onError_def)

lemma refused_throw [simp]: "refused (throw e) w"
  by (simp add: refused_def)

lemma liftS_guard: "refused (andThen (liftS r) k) w \<or> (\<exists>y. r = Inr y \<and> andThen (liftS r) k w = k y w)"
  by (cases r) (auto simp: refused_def andThen_def liftS_def)

lemma idempotency_guard:
  "refused (idempotencyUnaryInterceptor S mar m h x req) w \<or>
    (\<exists>i. idempotencyUnaryInterceptor S mar m h x req w = h (x\<lparr>cx_WorkflowID := i\<rparr>) req w)"
proof (cases "idempotencyKey x")
  case None
  then have "idempotencyUnaryInterceptor S mar m h x req w = h (x\<lparr>cx_WorkflowID := cx_WorkflowID x\<rparr>) req w"
    by (simp add: idempotencyUnaryInterceptor_def)
  then show ?thesis by blast
next
  case (Some key)
  then show ?thesis
    by (cases "marshalRequest mar req"; cases "\<exists>i. scopedWorkflowID S x m (projr (marshalRequest mar req)) key = Inr i")
      (auto simp: idempotencyUnaryInterceptor_def refused_def andThen_def liftS_def split: sum.splits)
qed

lemma org_control_guard:
  "refused (organizationControlProjectUnaryInterceptor m h x req) w \<or>
    organizationControlProjectUnaryInterceptor m h x req w = h x req w \<and>
    (m \<in> set orgControlProjectMethods \<longrightarrow> requireOrganizationControlProject x = Inr ())"
  using liftS_guard [of "requireOrganizationControlProject x" "\<lambda>_. h x req" w]
  by (auto simp: organizationControlProjectUnaryInterceptor_def setContains_def)

lemma system_control_guard:
  "refused (systemControlProjectUnaryInterceptor m h x req) w \<or>
    systemControlProjectUnaryInterceptor m h x req w = h x req w \<and>
    (m \<in> set systemControlProjectMethods \<longrightarrow> requireSystemControlProject x = Inr ())"
  using liftS_guard [of "requireSystemControlProject x" "\<lambda>_. h x req" w]
  by (auto simp: systemControlProjectUnaryInterceptor_def setContains_def)

lemma permission_guard:
  assumes "m \<notin> set publicMethods"
  shows "refused (permissionUnaryInterceptor m h x req) w \<or>
    permissionUnaryInterceptor m h x req w = h x req w \<and>
    (\<exists>required sess. map_of permissionRegistry m = Some required \<and> cx_Session x = Some sess \<and>
      set required \<subseteq> set (au_Permissions (as_User sess)))"
  using assms by (auto simp: permissionUnaryInterceptor_def setContains_def split: option.splits)

lemma auth_guard:
  assumes "m \<notin> set publicMethods"
  shows "refused (authUnaryInterceptor S m h x req) w \<or>
    (\<exists>claims pid sess. parseBearer S x = Inr claims \<and> projectOf m x = Inr pid \<and>
      fst (resolveSession m (cl_UserID claims) pid (w_db w)) = Inr sess \<and>
      authUnaryInterceptor S m h x req w = h (x\<lparr>cx_Session := Some sess\<rparr>) req w)"
proof (cases "parseBearer S x")
  case (Inl e)
  then show ?thesis using assms by (simp add: authUnaryInterceptor_def setContains_def refused_def andThen_def liftS_def)
next
  case claims: (Inr claims)
  show ?thesis
  proof (cases "projectOf m x")
    case (Inl e)
    then show ?thesis using assms claims
      by (simp add: authUnaryInterceptor_def setContains_def refused_def andThen_def liftS_def)
  next
    case pid: (Inr pid)
    let ?m = "resolveSession m (cl_UserID claims) pid"
    have "snd (?m (w_db w)) = w_db w" using read_only_resolveSession by (simp add: read_only_def)
    then show ?thesis using assms claims pid
      by (cases "?m (w_db w)"; cases "fst (?m (w_db w))")
        (simp_all add: authUnaryInterceptor_def setContains_def refused_def andThen_def liftS_def call_core_def)
  qed
qed

lemma refusedD: "refused m w \<Longrightarrow> m w = (q, v) \<Longrightarrow> v = w \<and> (\<exists>e. q = Inl e)"
  by (auto simp: refused_def)

lemma onError_result: "onError f m w = (q, v) \<Longrightarrow> \<exists>r. m w = (r, v) \<and> (\<forall>y. q = Inr y \<longleftrightarrow> r = Inr y)"
  by (cases "m w"; cases "fst (m w)") (auto simp: onError_def)

text \<open>\<open>leads n w F\<close>: in the world \<open>w\<close>, \<open>n\<close> refuses or goes on as some program that satisfies \<open>F\<close>.\<close>

definition leads :: "'r api \<Rightarrow> world \<Rightarrow> ('r api \<Rightarrow> bool) \<Rightarrow> bool" where
  "leads n w F \<longleftrightarrow> refused n w \<or> (\<exists>k. F k \<and> n w = k w)"

lemma leads_trans:
  assumes "leads n w F" and "\<And>k. F k \<Longrightarrow> leads k w G" shows "leads n w G"
proof (cases "refused n w")
  case False
  then obtain k where "F k" "n w = k w" using assms(1) by (auto simp: leads_def)
  then show ?thesis using assms(2) [of k] by (auto simp: leads_def refused_def)
qed (simp add: leads_def)

lemma leads_step: "refused n w \<or> n w = k w \<and> P \<Longrightarrow> (P \<Longrightarrow> leads k w G) \<Longrightarrow> leads n w G"
  by (auto simp: leads_def refused_def)

lemma leads_result:
  assumes "leads n w F" "onError f (onError g n) w = (q, v)"
  shows "(\<exists>e. q = Inl e \<and> v = w) \<or> (\<exists>k r. F k \<and> k w = (r, v) \<and> (\<forall>y. q = Inr y \<longleftrightarrow> r = Inr y))"
proof -
  obtain p where p: "onError g n w = (p, v)" "\<forall>y. q = Inr y \<longleftrightarrow> p = Inr y" using onError_result [OF assms(2)] by metis
  obtain r where r: "n w = (r, v)" "\<forall>y. p = Inr y \<longleftrightarrow> r = Inr y" using onError_result [OF p(1)] by metis
  then have q: "\<forall>y. q = Inr y \<longleftrightarrow> r = Inr y" using p(2) by simp
  show ?thesis
  proof (cases "refused n w")
    case True
    from refusedD [OF this r(1)] show ?thesis using q by (cases q) auto
  next
    case False
    then obtain k where "F k" "n w = k w" using assms(1) by (auto simp: leads_def)
    then show ?thesis using r(1) q by (intro disjI2 exI [of _ k] exI [of _ r]) simp
  qed
qed

lemma auth_leads:
  assumes "m \<notin> set publicMethods"
    and "\<And>claims pid sess. parseBearer S x = Inr claims \<Longrightarrow> projectOf m x = Inr pid \<Longrightarrow>
      fst (resolveSession m (cl_UserID claims) pid (w_db w)) = Inr sess \<Longrightarrow>
      leads (h (x\<lparr>cx_Session := Some sess\<rparr>) req) w G"
  shows "leads (authUnaryInterceptor S m h x req) w G"
  using auth_guard [OF assms(1), of S h x req w]
proof
  assume "\<exists>claims pid sess. parseBearer S x = Inr claims \<and> projectOf m x = Inr pid \<and>
    fst (resolveSession m (cl_UserID claims) pid (w_db w)) = Inr sess \<and>
    authUnaryInterceptor S m h x req w = h (x\<lparr>cx_Session := Some sess\<rparr>) req w"
  then obtain claims pid sess where a: "parseBearer S x = Inr claims" "projectOf m x = Inr pid"
    "fst (resolveSession m (cl_UserID claims) pid (w_db w)) = Inr sess"
    and r: "authUnaryInterceptor S m h x req w = h (x\<lparr>cx_Session := Some sess\<rparr>) req w" by (elim exE conjE)
  from assms(2) [OF a] show ?thesis by (simp add: leads_def refused_def r)
qed (simp add: leads_def)

lemma admitted_leads:
  assumes "m \<notin> set publicMethods"
  shows "leads (chainUnary (drop 2 (unaryInterceptors S mar)) m h x req) w
    (\<lambda>k. \<exists>sess i. admitted S x m (w_db w) sess \<and> k = h (x\<lparr>cx_Session := Some sess, cx_WorkflowID := i\<rparr>) req)"
  unfolding unaryInterceptors_def guards_def
proof (simp, rule auth_leads [OF assms])
  fix claims pid sess
  let ?x = "x\<lparr>cx_Session := Some sess\<rparr>"
  let ?idem = "idempotencyUnaryInterceptor S mar m h"
  let ?org = "organizationControlProjectUnaryInterceptor m ?idem"
  let ?sys = "systemControlProjectUnaryInterceptor m ?org"
  let ?G = "\<lambda>k. \<exists>sess. admitted S x m (w_db w) sess \<and> (\<exists>i. k = h (x\<lparr>cx_Session := Some sess, cx_WorkflowID := i\<rparr>) req)"
  assume a: "parseBearer S x = Inr claims" "projectOf m x = Inr pid"
    "fst (resolveSession m (cl_UserID claims) pid (w_db w)) = Inr sess"
  show "leads (permissionUnaryInterceptor m ?sys ?x req) w ?G"
  proof (rule leads_step [OF permission_guard [OF assms]])
    assume "\<exists>required sess. map_of permissionRegistry m = Some required \<and> cx_Session ?x = Some sess \<and>
      set required \<subseteq> set (au_Permissions (as_User sess))"
    then obtain required where b: "map_of permissionRegistry m = Some required"
      "set required \<subseteq> set (au_Permissions (as_User sess))" by auto
    show "leads (?sys ?x req) w ?G"
    proof (rule leads_step [OF system_control_guard])
      assume c: "m \<in> set systemControlProjectMethods \<longrightarrow> requireSystemControlProject ?x = Inr ()"
      show "leads (?org ?x req) w ?G"
      proof (rule leads_step [OF org_control_guard])
        assume d: "m \<in> set orgControlProjectMethods \<longrightarrow> requireOrganizationControlProject ?x = Inr ()"
        have "admitted S x m (w_db w) sess"
          unfolding admitted_def
          by (rule exI [of _ claims], rule exI [of _ pid], rule exI [of _ required])
            (use a b c d in \<open>simp add: requireSystemControlProject_Inr requireOrganizationControlProject_Inr\<close>)
        then show "leads (?idem ?x req) w ?G"
          using idempotency_guard [of S mar m h ?x req w] by (auto simp: leads_def)
      qed
    qed
  qed
qed

lemma guarded_call:
  assumes "m \<notin> set publicMethods" and "chainUnary (unaryInterceptors S mar) m h x req w = (q, v)"
  shows "(\<exists>e. q = Inl e \<and> v = w) \<or>
    (\<exists>sess i r. admitted S x m (w_db w) sess \<and>
      h (x\<lparr>cx_Session := Some sess, cx_WorkflowID := i\<rparr>) req w = (r, v) \<and> (\<forall>y. q = Inr y \<longleftrightarrow> r = Inr y))"
proof -
  have "chainUnary (unaryInterceptors S mar) m h x req =
      onError externalError (onError recovered (chainUnary (drop 2 (unaryInterceptors S mar)) m h x req))"
    by (simp add: unaryInterceptors_def guards_def errorUnaryInterceptor_def recoveryUnaryInterceptor_def)
  with assms(2) have "onError externalError (onError recovered (chainUnary (drop 2 (unaryInterceptors S mar)) m h x req)) w = (q, v)"
    by simp
  from leads_result [OF admitted_leads [OF assms(1)] this] show ?thesis
  proof
    assume "\<exists>k r. (\<exists>sess i. admitted S x m (w_db w) sess \<and> k = h (x\<lparr>cx_Session := Some sess, cx_WorkflowID := i\<rparr>) req) \<and>
      k w = (r, v) \<and> (\<forall>y. q = Inr y \<longleftrightarrow> r = Inr y)"
    then obtain r sess i where "admitted S x m (w_db w) sess"
      "h (x\<lparr>cx_Session := Some sess, cx_WorkflowID := i\<rparr>) req w = (r, v)" "\<forall>y. q = Inr y \<longleftrightarrow> r = Inr y" by auto
    then show ?thesis by (intro disjI2 exI [of _ sess] exI [of _ i] exI [of _ r]) simp
  qed (rule disjI1)
qed

text \<open>A public method is served without a session.\<close>

lemma public_not_control:
  "\<forall>m \<in> set publicMethods. m \<notin> set systemControlProjectMethods \<and> m \<notin> set orgControlProjectMethods"
  by code_simp

lemma public_call:
  assumes "m \<in> set publicMethods" and "chainUnary (unaryInterceptors S mar) m h x req w = (q, v)"
  shows "(\<exists>e. q = Inl e \<and> v = w) \<or>
    (\<exists>i r. h (x\<lparr>cx_WorkflowID := i\<rparr>) req w = (r, v) \<and> (\<forall>y. q = Inr y \<longleftrightarrow> r = Inr y))"
proof -
  let ?idem = "idempotencyUnaryInterceptor S mar m h x req"
  have "m \<notin> set systemControlProjectMethods" "m \<notin> set orgControlProjectMethods"
    using public_not_control assms(1) by blast+
  then have e: "onError externalError (onError recovered ?idem) w = (q, v)"
    using assms by (simp add: unaryInterceptors_def guards_def errorUnaryInterceptor_def recoveryUnaryInterceptor_def
        authUnaryInterceptor_def permissionUnaryInterceptor_def systemControlProjectUnaryInterceptor_def
        organizationControlProjectUnaryInterceptor_def setContains_def)
  have "leads ?idem w (\<lambda>k. \<exists>i. k = h (x\<lparr>cx_WorkflowID := i\<rparr>) req)"
    using idempotency_guard [of S mar m h x req w] by (auto simp: leads_def)
  from leads_result [OF this e] show ?thesis
  proof
    assume "\<exists>k r. (\<exists>i. k = h (x\<lparr>cx_WorkflowID := i\<rparr>) req) \<and> k w = (r, v) \<and> (\<forall>y. q = Inr y \<longleftrightarrow> r = Inr y)"
    then obtain r i where "h (x\<lparr>cx_WorkflowID := i\<rparr>) req w = (r, v)" "\<forall>y. q = Inr y \<longleftrightarrow> r = Inr y" by auto
    then show ?thesis by (intro disjI2 exI [of _ i] exI [of _ r]) simp
  qed (rule disjI1)
qed

section \<open>Callers\<close>

text \<open>Where a method asks for a permission: at the system, in the organization of its project, or in the project.\<close>

definition held_at :: "string \<Rightarrow> db \<Rightarrow> user_row \<Rightarrow> int option \<Rightarrow> permission \<Rightarrow> bool" where
  "held_at m s u pid n = (case pid of
      None \<Rightarrow> holds_system s (usr_id u) n
    | Some i \<Rightarrow>
        if methodRequiresOrganizationScope m
        then \<exists>p \<in> set (projects s). prj_id p = i \<and> holds_org s (usr_id u) (prj_org_id p) n
        else holds_project s (usr_id u) i n)"

definition in_project :: "db \<Rightarrow> user_row \<Rightarrow> int \<Rightarrow> AuthSession \<Rightarrow> project_row \<Rightarrow> bool" where
  "in_project s u i sess p \<longleftrightarrow> p \<in> set (projects s) \<and> prj_id p = i \<and>
    (\<exists>r \<in> set (organizations s). org_id r = prj_org_id p \<and> as_Project sess = Some (session_project s u p r))"

definition session_of :: "db \<Rightarrow> uuid \<Rightarrow> user_row \<Rightarrow> AuthSession \<Rightarrow> bool" where
  "session_of s x u sess \<longleftrightarrow> u \<in> set (users s) \<and> usr_external_id u = x \<and> au_UserID (as_User sess) = x"

lemma user_with_id:
  assumes "db_inv s" "AuthCore.AuthSession x pid s = (Inr sess, t) \<or> OrganizationAuthSession x i s = (Inr sess, t)"
  obtains u where "users_by_external_id s x = [u]" "u \<in> set (users s)" "usr_external_id u = x"
proof (rule users_by_id_cases [OF assms(1), of x])
  assume none: "users_by_external_id s x = []"
  then show thesis using pg_AuthSessionData_none(1) [OF none] assms(2)
    by (simp add: AuthCore.AuthSession_def OrganizationAuthSession_def andThen_def onError_def)
qed (rule that)

lemma project_with_id:
  assumes "db_inv s" "AuthCore.AuthSession x (Some i) s = (Inr sess, t) \<or> OrganizationAuthSession x i s = (Inr sess, t)"
  obtains p r where "filter (\<lambda>p. prj_id p = i) (projects s) = [p]" "p \<in> set (projects s)" "prj_id p = i"
    "filter (\<lambda>q. org_id q = prj_org_id p) (organizations s) = [r]" "r \<in> set (organizations s)" "org_id r = prj_org_id p"
proof (rule projects_by_id_cases [OF assms(1), of i])
  assume "filter (\<lambda>p. prj_id p = i) (projects s) = []" "i \<notin> prj_id ` set (projects s)"
  then show thesis using pg_AuthSessionData_none(2) [of i s x] assms(2)
    by (simp add: AuthCore.AuthSession_def OrganizationAuthSession_def andThen_def onError_def)
qed (rule that)

lemma OrganizationAuthSession_Inr:
  assumes inv: "db_inv s" and a: "OrganizationAuthSession x i s = (Inr sess, t)"
  obtains u p where "session_of s x u sess" "in_project s u i sess p"
    "set (au_Permissions (as_User sess)) = {n. holds_org s (usr_id u) (prj_org_id p) n}"
proof -
  obtain u where u: "users_by_external_id s x = [u]" "u \<in> set (users s)" "usr_external_id u = x"
    using user_with_id [OF inv disjI2 [OF a]] .
  obtain p r where p: "filter (\<lambda>p. prj_id p = i) (projects s) = [p]" "p \<in> set (projects s)" "prj_id p = i"
    "filter (\<lambda>q. org_id q = prj_org_id p) (organizations s) = [r]" "r \<in> set (organizations s)" "org_id r = prj_org_id p"
    using project_with_id [OF inv disjI2 [OF a]] .
  obtain ps where ps: "OrgPermissionsByProjectID x i s = (Inr ps, s)"
    "set (pp_PermissionNames ps) = {n. holds_org s (usr_id u) (prj_org_id p) n}"
    using permissions_read(2) [OF u(1) p(1)] by blast
  have "OrganizationAuthSession x i s = (authSessionFromPg (session_data s u p r) (pp_PermissionNames ps), s)"
    using pg_AuthSessionData_project [OF u(1) p(1,4)] ps(1) u(3)
    by (simp add: OrganizationAuthSession_def andThen_def onError_def liftS_def) (simp add: session_data_def)
  then have s: "sess = \<lparr>as_User = \<lparr>au_UserID = usr_external_id u, au_Email = usr_email u,
      au_Permissions = permissionsFromPg (pp_PermissionNames ps)\<rparr>, as_Project = Some (session_project s u p r)\<rparr>"
    using a by (simp add: authSessionFromPg_data)
  show thesis
  proof (rule that)
    show "session_of s x u sess" using u s by (simp add: session_of_def)
    show "in_project s u i sess p" unfolding in_project_def using p s by (intro conjI bexI [of _ r]) simp_all
    show "set (au_Permissions (as_User sess)) = {n. holds_org s (usr_id u) (prj_org_id p) n}" using s ps(2) by simp
  qed
qed

lemma AuthSession_Inr:
  assumes inv: "db_inv s" and a: "AuthCore.AuthSession x (Some i) s = (Inr sess, t)"
  obtains u p where "session_of s x u sess" "in_project s u i sess p"
    "set (au_Permissions (as_User sess)) = {n. holds_project s (usr_id u) i n}"
proof -
  obtain u where u: "users_by_external_id s x = [u]" "u \<in> set (users s)" "usr_external_id u = x"
    using user_with_id [OF inv disjI1 [OF a]] .
  obtain p r where p: "filter (\<lambda>p. prj_id p = i) (projects s) = [p]" "p \<in> set (projects s)" "prj_id p = i"
    "filter (\<lambda>q. org_id q = prj_org_id p) (organizations s) = [r]" "r \<in> set (organizations s)" "org_id r = prj_org_id p"
    using project_with_id [OF inv disjI1 [OF a]] .
  obtain ps where ps: "ProjectPermissions x i s = (Inr ps, s)"
    "set (pp_PermissionNames ps) = {n. holds_project s (usr_id u) i n}"
    using permissions_read(1) [OF u(1) p(1)] by blast
  have "AuthCore.AuthSession x (Some i) s = (authSessionFromPg (session_data s u p r) (pp_PermissionNames ps), s)"
    using pg_AuthSessionData_project [OF u(1) p(1,4)] ps(1) u(3)
    by (simp add: AuthCore.AuthSession_def andThen_def onError_def liftS_def) (simp add: session_data_def)
  then have s: "sess = \<lparr>as_User = \<lparr>au_UserID = usr_external_id u, au_Email = usr_email u,
      au_Permissions = permissionsFromPg (pp_PermissionNames ps)\<rparr>, as_Project = Some (session_project s u p r)\<rparr>"
    using a by (simp add: authSessionFromPg_data)
  show thesis
  proof (rule that)
    show "session_of s x u sess" using u s by (simp add: session_of_def)
    show "in_project s u i sess p" unfolding in_project_def using p s by (intro conjI bexI [of _ r]) simp_all
    show "set (au_Permissions (as_User sess)) = {n. holds_project s (usr_id u) i n}" using s ps(2) by simp
  qed
qed

lemma AuthSession_system_Inr:
  assumes inv: "db_inv s" and a: "AuthCore.AuthSession x None s = (Inr sess, t)"
  obtains u where "session_of s x u sess" "as_Project sess = None"
    "set (au_Permissions (as_User sess)) = {n. holds_system s (usr_id u) n}"
proof -
  obtain u where u: "users_by_external_id s x = [u]" "u \<in> set (users s)" "usr_external_id u = x"
    using user_with_id [OF inv disjI1 [OF a]] .
  obtain ns where ns: "SystemPermissions x s = (Inr ns, s)" "set ns = {n. holds_system s (usr_id u) n}"
    using system_permissions_read [OF u(1)] by blast
  have "as_Project sess = None" "set (au_Permissions (as_User sess)) = {n. holds_system s (usr_id u) n}"
    "au_UserID (as_User sess) = x"
    using a u(3) ns pg_AuthSessionData_system [OF u(1)]
    by (auto simp: AuthCore.AuthSession_def andThen_def onError_def authSessionFromPg_def authProjectFromPg_def liftS_def)
  then show thesis using u by (intro that [of u]) (simp_all add: session_of_def)
qed

text \<open>The session of a method's caller: who he is, where he operates and what he holds there.\<close>

lemma resolveSession_Inr:
  assumes inv: "db_inv s" and r: "fst (resolveSession m x pid s) = Inr sess"
    and pid: "methodRequiresOrganizationScope m \<Longrightarrow> pid \<noteq> None"
  obtains u where "session_of s x u sess"
    "\<And>n. n \<in> set (au_Permissions (as_User sess)) \<Longrightarrow> held_at m s u pid n"
    "\<And>i. pid = Some i \<Longrightarrow> \<exists>p. in_project s u i sess p" "pid = None \<Longrightarrow> as_Project sess = None"
proof (cases "methodRequiresOrganizationScope m")
  case True
  then obtain i where i: "pid = Some i" using pid by blast
  then have "OrganizationAuthSession x i s = (Inr sess, snd (OrganizationAuthSession x i s))"
    using r True by (simp add: resolveSession_def prod_eq_iff)
  from OrganizationAuthSession_Inr [OF inv this] obtain u p where u: "session_of s x u sess" "in_project s u i sess p"
    "set (au_Permissions (as_User sess)) = {n. holds_org s (usr_id u) (prj_org_id p) n}" .
  have "held_at m s u pid n" if "n \<in> set (au_Permissions (as_User sess))" for n
    using that u(2,3) True i by (auto simp: held_at_def in_project_def)
  then show thesis using u i by (intro that [of u]) auto
next
  case False
  then have r: "AuthCore.AuthSession x pid s = (Inr sess, snd (AuthCore.AuthSession x pid s))"
    using r by (simp add: resolveSession_def prod_eq_iff)
  show thesis
  proof (cases pid)
    case None
    from AuthSession_system_Inr [OF inv r [unfolded None]] obtain u where u: "session_of s x u sess"
      "as_Project sess = None" "set (au_Permissions (as_User sess)) = {n. holds_system s (usr_id u) n}" .
    then show thesis using None by (intro that [of u]) (auto simp: held_at_def)
  next
    case (Some i)
    from AuthSession_Inr [OF inv r [unfolded Some]] obtain u p where u: "session_of s x u sess"
      "in_project s u i sess p" "set (au_Permissions (as_User sess)) = {n. holds_project s (usr_id u) i n}" .
    then show thesis using Some False by (intro that [of u]) (auto simp: held_at_def)
  qed
qed

end
