(* ===== verification/ApiDemo.thy ===== *)
theory ApiDemo
  imports ApiServer AuthDemo
begin

text \<open>
  A concrete server for the witnesses: a parser of the UUIDs of the demo database, length-prefixed codecs for
  page tokens and filters, an engine that records results and a JWT parser that knows two tokens.
\<close>

section \<open>Codecs\<close>

definition string_of :: "bytes \<Rightarrow> string" where
  "string_of bs = map (\<lambda>b. char_of (unat b)) bs"

lemma unat_of_char: "unat (of_char c :: 8 word) = of_char c"
proof -
  have "unat (of_char c :: 8 word) = unat (of_nat (of_char c) :: 8 word)" by (simp only: of_nat_of_char)
  also have "\<dots> = of_char c mod 256" by (simp add: unsigned_of_nat take_bit_eq_mod del: of_char_mod_256)
  finally show ?thesis by simp
qed

lemma char_of_byte [simp]: "char_of (unat (of_char c :: 8 word)) = c"
  by (simp add: unat_of_char)

lemma string_of_bytes_of [simp]: "string_of (bytes_of s) = s"
  by (simp add: string_of_def bytes_of_def comp_def)

text \<open>A number in unary, ended by a zero.\<close>

definition unary :: "nat \<Rightarrow> bytes" where
  "unary n = replicate n 1 @ [0]"

definition ununary :: "bytes \<Rightarrow> nat \<times> bytes" where
  "ununary bs = (let n = length (takeWhile (\<lambda>b. b = 1) bs) in (n, drop (Suc n) bs))"

lemma ununary_unary [simp]: "ununary (unary n @ bs) = (n, bs)"
proof -
  have "takeWhile (\<lambda>b. b = (1 :: 8 word)) (replicate n 1 @ 0 # bs) = replicate n 1" by (induction n) simp_all
  then show ?thesis by (simp add: ununary_def unary_def)
qed

definition encInt :: "int \<Rightarrow> bytes" where
  "encInt i = (if i < 0 then 1 else 0) # unary (nat \<bar>i\<bar>)"

definition decInt :: "bytes \<Rightarrow> (int \<times> bytes) option" where
  "decInt bs = (case bs of [] \<Rightarrow> None
    | b # r \<Rightarrow> (case ununary r of (n, t) \<Rightarrow> Some (if b = 1 then - int n else int n, t)))"

lemma decInt_encInt [simp]: "decInt (encInt i @ bs) = Some (i, bs)"
  by (simp add: decInt_def encInt_def)

definition encString :: "string \<Rightarrow> bytes" where
  "encString s = unary (length s) @ bytes_of s"

definition decString :: "bytes \<Rightarrow> string \<times> bytes" where
  "decString bs = (case ununary bs of (n, r) \<Rightarrow> (string_of (take n r), drop n r))"

lemma decString_encString [simp]: "decString (encString s @ bs) = (s, bs)"
  by (simp add: decString_def encString_def) (simp add: bytes_of_def string_of_def comp_def)

definition demo_json_Marshal :: "pageTokenEncoded \<Rightarrow> bytes option" where
  "demo_json_Marshal e = Some (encInt (pte_Offset e) @ encString (pte_OrderBy e) @ pte_Filter e)"

definition demo_json_Unmarshal :: "bytes \<Rightarrow> pageTokenEncoded option" where
  "demo_json_Unmarshal bs = (case decInt bs of None \<Rightarrow> None
    | Some (i, r) \<Rightarrow> (case decString r of (s, f) \<Rightarrow>
        Some \<lparr>pte_Offset = i, pte_OrderBy = s, pte_Filter = f\<rparr>))"

definition demo_user_filter :: "PbUserFilter codec" where
  "demo_user_filter = \<lparr>
     enc = (\<lambda>f. Some (if pbuf_Email f = [] \<and> pbuf_Name f = [] then []
       else encString (pbuf_Email f) @ encString (pbuf_Name f))),
     dec = (\<lambda>bs. if bs = [] then Some \<lparr>pbuf_Email = [], pbuf_Name = []\<rparr>
       else (case decString bs of (e, r) \<Rightarrow> Some \<lparr>pbuf_Email = e, pbuf_Name = fst (decString r)\<rparr>))\<rparr>"

definition demo_org_filter :: "PbOrganizationUserFilter codec" where
  "demo_org_filter = \<lparr>
     enc = (\<lambda>f. Some (if pbof_ProjectId f = 0 then [] else encInt (pbof_ProjectId f))),
     dec = (\<lambda>bs. if bs = [] then Some \<lparr>pbof_ProjectId = 0\<rparr>
       else map_option (\<lambda>(i, _). \<lparr>pbof_ProjectId = i\<rparr>) (decInt bs))\<rparr>"

definition demo_project_filter :: "PbProjectFilter codec" where
  "demo_project_filter = \<lparr>enc = (\<lambda>f. Some (bytes_of (pbpf_Name f))),
     dec = (\<lambda>bs. Some \<lparr>pbpf_Name = string_of bs\<rparr>)\<rparr>"

definition demo_empty :: "unit codec" where
  "demo_empty = \<lparr>enc = (\<lambda>_. Some []), dec = (\<lambda>_. Some ())\<rparr>"

section \<open>Library, engine and server\<close>

text \<open>A UUID is read from its hexadecimal digits.\<close>

definition hexVal :: "char \<Rightarrow> nat option" where
  "hexVal c = map_of (zip ''0123456789abcdef'' [0..<16]) c"

primrec hexValue :: "nat \<Rightarrow> string \<Rightarrow> nat option" where
  "hexValue a [] = Some a"
| "hexValue a (c # cs) = (case hexVal c of None \<Rightarrow> None | Some d \<Rightarrow> hexValue (16 * a + d) cs)"

definition demo_uuid_Parse :: "string \<Rightarrow> uuid option" where
  "demo_uuid_Parse s = (if s = [] then None
     else map_option of_nat (hexValue 0 (filter (\<lambda>c. c \<noteq> CHR ''-'') s)))"

definition demo_lib :: lib where
  "demo_lib = \<lparr>ParseAddress = (\<lambda>a. Some a), uuid_Parse = demo_uuid_Parse,
     json_Marshal = demo_json_Marshal, json_Unmarshal = demo_json_Unmarshal, codec_Empty = demo_empty,
     codec_UserFilter = demo_user_filter, codec_OrganizationUserFilter = demo_org_filter,
     codec_ProjectFilter = demo_project_filter\<rparr>"

definition demo_wlib :: wlib where
  "demo_wlib = \<lparr>RunWorkflow = run_recorded, RunTokenStep = id, RunEmailStep = id, SendEmail = (\<lambda>_. None),
     Duration_String = (\<lambda>_. ''10m0s''), renderHTML = (\<lambda>link ttl. link)\<rparr>"

definition demo_claims :: "uuid \<Rightarrow> AuthClaims" where
  "demo_claims u = \<lparr>cl_UserID = u, cl_Issuer = ''theapp'', cl_Audience = [''theapp-api''],
     cl_Subject = ''user'', cl_IssuedAt = 50, cl_ExpiresAt = 350\<rparr>"

definition demo_server :: server where
  "demo_server = \<lparr>sv_lib = demo_lib, sv_wlib = demo_wlib, sv_cfg = demo_cfg, sv_env = demo_env,
     sv_ParseWithClaims = (\<lambda>key iss aud tok. map_of
       [(''alice'', demo_claims 101), (''bob'', demo_claims 102)] tok),
     sv_Marshal = (\<lambda>_. Some [1])\<rparr>"

lemma codec_okI: "(\<And>f. \<exists>b. enc c f = Some b \<and> dec c b = Some f) \<Longrightarrow> codec_ok c"
  by (simp add: codec_ok_def)

lemma enc_not_Nil [simp]: "encString s @ bs \<noteq> []" "encInt i @ bs \<noteq> []" "encString s \<noteq> []" "encInt i \<noteq> []"
  by (simp_all add: encString_def encInt_def unary_def)

lemma dec_alone [simp]: "decString (encString s) = (s, [])" "decInt (encInt i) = Some (i, [])"
  using decString_encString [of s "[]"] decInt_encInt [of i "[]"] by simp_all

lemma demo_codecs: "codec_ok demo_empty" "codec_ok demo_user_filter" "codec_ok demo_org_filter" "codec_ok demo_project_filter"
  by (rule codec_okI; auto simp: demo_empty_def demo_user_filter_def demo_org_filter_def demo_project_filter_def)+

lemma demo_json_ok: "json_ok demo_lib"
  by (simp add: json_ok_def demo_lib_def demo_json_Marshal_def demo_json_Unmarshal_def)

lemma demo_engine_ok: "engine_ok demo_wlib"
  by (simp add: engine_ok_def demo_wlib_def)

end
