(* ===== verification/ApiIdem.thy ===== *)
theory ApiIdem
  imports ApiAuthz
begin

text \<open>
  Idempotency keys: the workflow ID derived from a key belongs to one caller, method, payload and key, and
  repeating a sign-in request under a key gives the recorded result and sends nothing.
\<close>

section \<open>Texts\<close>

lemma hexDigit_inj: "hexDigit m = hexDigit n \<Longrightarrow> m < 16 \<Longrightarrow> n < 16 \<Longrightarrow> m = n"
proof -
  have d: "distinct ''0123456789abcdef''" by simp
  assume "hexDigit m = hexDigit n" "m < 16" "n < 16"
  then show "m = n" unfolding hexDigit_def using nth_eq_iff_index_eq [OF d, of m n] by simp
qed

definition hexDigits :: string where
  "hexDigits = ''0123456789abcdef''"

lemma hexDigit_plain: "hexDigit n \<in> set hexDigits"
  unfolding hexDigit_def hexDigits_def by (rule nth_mem) simp

lemma hexDigits_plain: "CHR ''-'' \<notin> set hexDigits" "CHR 0x00 \<notin> set hexDigits"
  by (simp_all add: hexDigits_def)

lemma hexEncode_plain: "set (hexEncode bs) \<subseteq> set hexDigits"
  using hexDigit_plain by (auto simp: hexEncode_def)

lemma hexEncode_Cons: "hexEncode (b # bs) = hexDigit (unat b div 16) # hexDigit (unat b) # hexEncode bs"
  by (simp add: hexEncode_def)

lemma hexDigit_mod: "hexDigit (n mod 16) = hexDigit n"
  by (simp add: hexDigit_def)

lemma byte_of_digits:
  fixes a b :: "8 word"
  assumes "hexDigit (unat a div 16) = hexDigit (unat b div 16)" "hexDigit (unat a) = hexDigit (unat b)"
  shows "a = b"
proof -
  have "unat a < 256" "unat b < 256" using unsigned_less [of a] unsigned_less [of b] by simp_all
  then have "unat a div 16 = unat b div 16" using assms(1) by (intro hexDigit_inj) simp_all
  moreover have "unat a mod 16 = unat b mod 16" using assms(2) by (intro hexDigit_inj) (simp_all add: hexDigit_mod)
  ultimately have "unat a = unat b" by (metis mult_div_mod_eq)
  then show ?thesis by (simp add: word_unat_eq_iff)
qed

lemma hexEncode_inj: "hexEncode a = hexEncode b \<Longrightarrow> a = b"
proof (induction a arbitrary: b)
  case Nil
  then show ?case by (cases b) (simp_all add: hexEncode_def)
next
  case (Cons x xs)
  then obtain y ys where b: "b = y # ys" by (cases b) (simp_all add: hexEncode_def)
  then show ?case using Cons byte_of_digits [of x y] by (simp add: hexEncode_Cons)
qed

lemma uuidBytes_inj: "uuidBytes u = uuidBytes v \<Longrightarrow> u = v"
proof (rule bit_word_eqI)
  fix n assume e: "uuidBytes u = uuidBytes v" and n: "n < LENGTH(128)"
  let ?i = "15 - n div 8"
  have "n div 8 < 16" using n by simp
  then have i: "?i \<in> set [0..<16]" "15 - ?i = n div 8" by auto
  have "bit (ucast (drop_bit (8 * (15 - ?i)) w) :: 8 word) (n mod 8) = bit w n" for w :: uuid
    using i n by (simp add: bit_simps)
  moreover have "(ucast (drop_bit (8 * (15 - ?i)) u) :: 8 word) = ucast (drop_bit (8 * (15 - ?i)) v)"
    using e i(1) by (simp only: uuidBytes_def map_eq_conv)
  ultimately show "bit u n = bit v n" by metis
qed

lemma cut_pieces: "take 8 h @ take 4 (drop 8 h) @ take 4 (drop 12 h) @ take 4 (drop 16 h) @ drop 20 h = h"
proof -
  have "take 4 (drop 16 h) @ drop 20 h = drop 16 h" using append_take_drop_id [of 4 "drop 16 h"] by simp
  moreover have "take 4 (drop 12 h) @ drop 16 h = drop 12 h" using append_take_drop_id [of 4 "drop 12 h"] by simp
  moreover have "take 4 (drop 8 h) @ drop 12 h = drop 8 h" using append_take_drop_id [of 4 "drop 8 h"] by simp
  ultimately show ?thesis by simp
qed

lemma uuidString_digits: "filter (\<lambda>c. c \<noteq> CHR ''-'') (uuidString u) = hexEncode (uuidBytes u)"
proof -
  let ?h = "hexEncode (uuidBytes u)" and ?f = "filter (\<lambda>c. c \<noteq> CHR ''-'')"
  have f: "?f s = s" if "set s \<subseteq> set ?h" for s
    using that hexEncode_plain [of "uuidBytes u"] hexDigits_plain(1) by (intro filter_True) blast
  have sub: "set (take n (drop m ?h)) \<subseteq> set ?h" "set (drop m ?h) \<subseteq> set ?h" "set (take n ?h) \<subseteq> set ?h" for n m
    using set_take_subset [of n "drop m ?h"] set_drop_subset [of m ?h] set_take_subset [of n ?h] by blast+
  have "?f (uuidString u) = take 8 ?h @ take 4 (drop 8 ?h) @ take 4 (drop 12 ?h) @ take 4 (drop 16 ?h) @ drop 20 ?h"
    by (simp add: uuidString_def Let_def f [OF sub(1)] f [OF sub(2)] f [OF sub(3)])
  also have "\<dots> = ?h" by (rule cut_pieces)
  finally show ?thesis .
qed

lemma uuidString_inj: "uuidString u = uuidString v \<Longrightarrow> u = v"
  by (metis uuidString_digits hexEncode_inj uuidBytes_inj)

lemma uuidString_plain: "set (uuidString u) \<subseteq> insert (CHR ''-'') (set hexDigits)"
proof -
  have "set (filter (\<lambda>c. c \<noteq> CHR ''-'') (uuidString u)) \<subseteq> set hexDigits"
    unfolding uuidString_digits by (rule hexEncode_plain)
  then show ?thesis by auto
qed

lemma uuidString_not_Nil: "uuidString u \<noteq> []"
  by (simp add: uuidString_def Let_def)

section \<open>Workflow IDs\<close>

lemma zero_char: "(of_char c :: 8 word) = 0 \<longleftrightarrow> c = CHR 0x00"
proof
  assume "(of_char c :: 8 word) = 0"
  then have "char_of (unat (of_char c :: 8 word)) = char_of (0 :: nat)" by simp
  then have "c = char_of (0 :: nat)" by (simp only: char_of_byte)
  moreover have "char_of (0 :: nat) = CHR 0x00" by code_simp
  ultimately show "c = CHR 0x00" by simp
qed simp

lemma zero_byte: "0 \<in> set (bytes_of s) \<longleftrightarrow> CHR 0x00 \<in> set s"
  unfolding bytes_of_def set_map image_iff by (metis zero_char)

lemma bytes_of_inj: "bytes_of s = bytes_of t \<Longrightarrow> s = t"
  by (metis string_of_bytes_of)

lemma split_first: "x \<notin> set a \<Longrightarrow> x \<notin> set b \<Longrightarrow> a @ x # r = b @ x # s \<Longrightarrow> a = b \<and> r = s"
proof (induction a arbitrary: b)
  case Nil
  then show ?case by (cases b) auto
next
  case (Cons y a)
  then show ?case by (cases b) auto
qed

lemma split_last: "x \<notin> set r \<Longrightarrow> x \<notin> set s \<Longrightarrow> a @ x # r = b @ x # s \<Longrightarrow> a = b \<and> r = s"
  using split_first [of x "rev r" "rev s" "rev a" "rev b"] by (metis rev_append rev_rev_ident rev.simps(2) append_assoc append_Cons append_Nil set_rev)

definition callerID :: "ctx \<Rightarrow> uuid option" where
  "callerID x = map_option (\<lambda>sess. au_UserID (as_User sess)) (cx_Session x)"

definition callerText :: "ctx \<Rightarrow> string" where
  "callerText x = (case callerID x of None \<Rightarrow> [] | Some u \<Rightarrow> uuidString u)"

lemma callerText_inj: "callerText x = callerText y \<Longrightarrow> callerID x = callerID y"
  using uuidString_not_Nil uuidString_not_Nil [symmetric] uuidString_inj
  by (auto simp: callerText_def split: option.splits)

lemma callerText_plain: "0 \<notin> set (bytes_of (callerText x))"
  using uuidString_plain hexDigits_plain(2) by (auto simp: zero_byte callerText_def split: option.splits)

lemma scopedPreimage_eq:
  "scopedPreimage x m payload key = bytes_of (callerText x) @ 0 # bytes_of m @ 0 # payload @ 0 # bytes_of key"
  by (simp add: scopedPreimage_def callerText_def callerID_def split: option.splits)

lemma methods_plain: "\<forall>m \<in> set methods. CHR 0x00 \<notin> set m"
  by code_simp

lemma scopedPreimage_inj:
  assumes "CHR 0x00 \<notin> set m" "CHR 0x00 \<notin> set m'" "CHR 0x00 \<notin> set key" "CHR 0x00 \<notin> set key'"
    and "scopedPreimage x m payload key = scopedPreimage x' m' payload' key'"
  shows "callerID x = callerID x' \<and> m = m' \<and> payload = payload' \<and> key = key'"
proof -
  have a: "bytes_of (callerText x) = bytes_of (callerText x')"
    and b: "bytes_of m @ 0 # payload @ 0 # bytes_of key = bytes_of m' @ 0 # payload' @ 0 # bytes_of key'"
    using split_first [OF callerText_plain callerText_plain assms(5) [unfolded scopedPreimage_eq]] by simp_all
  have c: "bytes_of m = bytes_of m'" and d: "payload @ 0 # bytes_of key = payload' @ 0 # bytes_of key'"
    using split_first [OF _ _ b] assms(1,2) by (simp_all add: zero_byte)
  have "payload = payload'" "bytes_of key = bytes_of key'"
    using split_last [OF _ _ d] assms(3,4) by (simp_all add: zero_byte)
  then show ?thesis using bytes_of_inj [OF a] bytes_of_inj [OF c] bytes_of_inj callerText_inj by blast
qed

text \<open>C34: two calls are given the same workflow ID only when they come from the same caller (or both from nobody),
  call the same method with the same payload and carry the same key - or SHA-256 maps two different inputs to
  the same digest. A key only has to be something that the UUID parser, which accepts no NUL character,
  accepts.\<close>

theorem workflow_id_is_scoped:
  assumes "\<forall>k. uuid_Parse (sv_lib S) k \<noteq> None \<longrightarrow> CHR 0x00 \<notin> set k"
    and "m \<in> set methods" "m' \<in> set methods"
    and "scopedWorkflowID S x m payload key = Inr i" "scopedWorkflowID S x' m' payload' key' = Inr i"
  shows "callerID x = callerID x' \<and> m = m' \<and> payload = payload' \<and> key = key' \<or>
    scopedPreimage x m payload key \<noteq> scopedPreimage x' m' payload' key' \<and>
    sha256_Sum256 (scopedPreimage x m payload key) = sha256_Sum256 (scopedPreimage x' m' payload' key')"
proof -
  have k: "uuid_Parse (sv_lib S) key \<noteq> None" "uuid_Parse (sv_lib S) key' \<noteq> None"
    and h: "hexEncode (sha256_Sum256 (scopedPreimage x m payload key)) =
      hexEncode (sha256_Sum256 (scopedPreimage x' m' payload' key'))"
    using assms(4,5) by (auto simp: scopedWorkflowID_def split: if_splits)
  have "CHR 0x00 \<notin> set m" "CHR 0x00 \<notin> set m'" "CHR 0x00 \<notin> set key" "CHR 0x00 \<notin> set key'"
    using assms(1-3) k methods_plain by blast+
  from scopedPreimage_inj [OF this] hexEncode_inj [OF h] show ?thesis by blast
qed

lemma hexValue_plain: "hexValue a cs = Some n \<Longrightarrow> CHR 0x00 \<notin> set cs"
proof (induction cs arbitrary: a)
  case (Cons c cs)
  have "hexVal (CHR 0x00) = None" by code_simp
  then show ?case using Cons by (auto split: option.splits)
qed simp

lemma demo_uuid_plain: "uuid_Parse (sv_lib demo_server) k \<noteq> None \<Longrightarrow> CHR 0x00 \<notin> set k"
proof -
  assume "uuid_Parse (sv_lib demo_server) k \<noteq> None"
  then obtain n where "hexValue 0 (filter (\<lambda>c. c \<noteq> CHR ''-'') k) = Some n"
    by (auto simp: demo_server_def demo_lib_def demo_uuid_Parse_def split: if_splits)
  from hexValue_plain [OF this] show ?thesis by simp
qed

definition demo_key_ctx :: ctx where
  "demo_key_ctx = \<lparr>cx_Metadata = Some (\<lambda>k. if k = ''x-idempotency-key'' then [''0a''] else []),
     cx_Session = None, cx_WorkflowID = None\<rparr>"

theorem workflow_id_is_scoped_witness:
  "\<exists>i. scopedWorkflowID demo_server demo_key_ctx (FullMethod (RqRequestMagicLink None)) [1] ''0a'' = Inr i \<and>
    callerID demo_key_ctx = None \<and>
    (\<forall>x payload. scopedWorkflowID demo_server x (FullMethod (RqRequestMagicLink None)) payload ''0a'' = Inr i \<longrightarrow>
      callerID x = None \<and> payload = [1] \<or>
      scopedPreimage x (FullMethod (RqRequestMagicLink None)) payload ''0a'' \<noteq>
        scopedPreimage demo_key_ctx (FullMethod (RqRequestMagicLink None)) [1] ''0a'')"
proof -
  let ?m = "FullMethod (RqRequestMagicLink None)"
  have "uuid_Parse (sv_lib demo_server) ''0a'' \<noteq> None" by code_simp
  then obtain i where i: "scopedWorkflowID demo_server demo_key_ctx ?m [1] ''0a'' = Inr i"
    by (simp add: scopedWorkflowID_def)
  have c: "callerID demo_key_ctx = None" by (simp add: callerID_def demo_key_ctx_def)
  have "callerID x = None \<and> payload = [1] \<or> scopedPreimage x ?m payload ''0a'' \<noteq> scopedPreimage demo_key_ctx ?m [1] ''0a''"
    if "scopedWorkflowID demo_server x ?m payload ''0a'' = Inr i" for x payload
  proof -
    have "\<forall>k. uuid_Parse (sv_lib demo_server) k \<noteq> None \<longrightarrow> CHR 0x00 \<notin> set k" using demo_uuid_plain by simp
    from workflow_id_is_scoped [OF this FullMethod_known FullMethod_known that i] c show ?thesis by metis
  qed
  then show ?thesis using i c by blast
qed

section \<open>Repeated requests\<close>

lemma length_sha256_round: "length (sha256_round st kw) = length st"
  by (cases "(st, kw)" rule: sha256_round.cases) (simp_all add: Let_def)

lemma length_rounds: "length (foldl sha256_round st ks) = length st"
  by (induction ks arbitrary: st) (simp_all add: length_sha256_round)

lemma length_blocks: "length (foldl sha256_block st bs) = length st"
  by (induction bs arbitrary: st) (simp_all add: sha256_block_def length_rounds)

lemma digest_not_Nil: "hexEncode (sha256_Sum256 m) \<noteq> []"
proof -
  have "length (foldl sha256_block sha256_init (chunks 64 (sha256_pad m))) = 8"
    unfolding length_blocks by (simp add: sha256_init_def)
  then obtain x xs where "foldl sha256_block sha256_init (chunks 64 (sha256_pad m)) = x # xs"
    by (metis length_0_conv list.exhaust zero_neq_numeral)
  then show ?thesis by (simp add: sha256_Sum256_def unbe32_def hexEncode_def)
qed

lemma serve_public:
  assumes "FullMethod req \<in> set publicMethods"
  shows "serve S x req = onError externalError (onError recovered
    (idempotencyUnaryInterceptor S (sv_Marshal S) (FullMethod req) (dispatch S) x req))"
proof -
  have "FullMethod req \<notin> set systemControlProjectMethods" "FullMethod req \<notin> set orgControlProjectMethods"
    using public_not_control assms by blast+
  then show ?thesis using assms
    by (simp add: serve_def unaryInterceptors_def guards_def errorUnaryInterceptor_def recoveryUnaryInterceptor_def
        authUnaryInterceptor_def permissionUnaryInterceptor_def systemControlProjectUnaryInterceptor_def
        organizationControlProjectUnaryInterceptor_def setContains_def)
qed

text \<open>A program that, run again where it ended, returns what it returned and changes nothing.\<close>

definition settled :: "'a api \<Rightarrow> 'a api \<Rightarrow> world \<Rightarrow> bool" where
  "settled m n w \<longleftrightarrow> (\<forall>q v. m w = (q, v) \<longrightarrow> n v = (q, v))"

lemma settled_onError: "settled m n w \<Longrightarrow> settled (onError f m) (onError f n) w"
  unfolding settled_def onError_def by (auto split: prod.splits sum.splits)

lemma settled_liftS: "(\<And>x. r = Inr x \<Longrightarrow> settled (f x) (g x) w) \<Longrightarrow> settled (andThen (liftS r) f) (andThen (liftS r) g) w"
  by (cases r) (simp_all add: settled_def andThen_def liftS_def)

lemma settled_andThen_ret: "settled m n w \<Longrightarrow> settled (andThen m (\<lambda>_. ret y)) (andThen n (\<lambda>_. ret y)) w"
  unfolding settled_def andThen_def ret_def by (auto split: prod.splits sum.splits)

lemma settled_recorded: "i \<noteq> [] \<Longrightarrow> settled (\<lambda>w. case run_recorded i m w of (Inl e, v) \<Rightarrow> (Inl (CoreErr e), v) | (Inr _, v) \<Rightarrow> (Inr (), v))
    (\<lambda>w. case run_recorded i n w of (Inl e, v) \<Rightarrow> (Inl (CoreErr e), v) | (Inr _, v) \<Rightarrow> (Inr (), v)) w"
  unfolding settled_def run_recorded_def by (auto split: prod.splits sum.splits option.splits)

text \<open>C35: with an engine that records results under workflow IDs, a sign-in request that carries an idempotency key
  and is served again in the world its first call left - at a later time, with other random bytes - gets the
  first answer, and nothing changes: no second token is stored and no second email is sent.\<close>

theorem repeated_sign_in_request:
  assumes "engine_ok (sv_wlib S)" and "idempotencyKey x = Some key"
    and "serve S x (RqRequestMagicLink req) w = (q, v)"
  shows "serve (S\<lparr>sv_env := env\<rparr>) x (RqRequestMagicLink req) v = (q, v)"
proof -
  let ?S = "S\<lparr>sv_env := env\<rparr>" and ?r = "RqRequestMagicLink req"
  have p: "FullMethod ?r \<in> set publicMethods" by (simp add: publicMethods_def)
  have i: "scopedWorkflowID ?S x m pl key = scopedWorkflowID S x m pl key" for m pl by (simp add: scopedWorkflowID_def)
  have mar: "sv_Marshal ?S = sv_Marshal S" by simp
  have n: "j \<noteq> []" if "scopedWorkflowID S x m pl key = Inr j" for m pl j
    using that digest_not_Nil by (auto simp: scopedWorkflowID_def split: if_splits)
  have d: "settled (dispatch S (x\<lparr>cx_WorkflowID := Some j\<rparr>) ?r) (dispatch ?S (x\<lparr>cx_WorkflowID := Some j\<rparr>) ?r) w"
    if "j \<noteq> []" for j
    unfolding dispatch.simps svc_RequestMagicLink_def wf_RequestMagicLink_def WorkflowID_def
    using assms(1) that
    by (intro settled_andThen_ret) (simp add: engine_ok_def settled_liftS settled_recorded)
  have "settled (serve S x ?r) (serve ?S x ?r) w"
    unfolding serve_public [OF p] idempotencyUnaryInterceptor_def assms(2) option.case i
    unfolding WithWorkflowID_def mar by (intro settled_onError settled_liftS d n)
  then show ?thesis using assms(3) by (simp add: settled_def)
qed

lemma demo_sign_in_request_runs:
  "length (w_outbox (snd (serve demo_server demo_key_ctx (RqRequestMagicLink (Some ''Carol@x'')) demo_world))) = 1"
proof -
  let ?r = "RqRequestMagicLink (Some ''Carol@x'')"
  have p: "FullMethod ?r \<in> set publicMethods" by (simp add: publicMethods_def)
  have k: "idempotencyKey demo_key_ctx = Some ''0a''" by code_simp
  have "uuid_Parse (sv_lib demo_server) ''0a'' \<noteq> None" by code_simp
  then obtain j where j: "scopedWorkflowID demo_server demo_key_ctx (FullMethod ?r) [1] ''0a'' = Inr j" "j \<noteq> []"
    using digest_not_Nil by (simp add: scopedWorkflowID_def)
  have val: "validate_RequestMagicLink demo_lib (Some ''Carol@x'') = Inr ()" by code_simp
  have m: "marshalRequest (sv_Marshal demo_server) ?r = Inr [1]" by (simp add: marshalRequest_def demo_server_def)
  obtain t where t: "MagicLinkToken (\<lambda>a. Some a) demo_cfg demo_env ''Carol@x'' demo_auth_db =
      (Inr ''BwcHBwcHBwcHBwcHBwcHBwcHBwcHBwcHBwcHBwcHBwc'', t)" using demo_link_runs by (metis prod.collapse)
  show ?thesis
    unfolding serve_public [OF p] idempotencyUnaryInterceptor_def k option.case m
    using j t val
    by (simp add: onError_def andThen_def liftS_def svc_RequestMagicLink_def wf_RequestMagicLink_def WithWorkflowID_def
        WorkflowID_def demo_server_def demo_world_def run_recorded_def ret_def strOf_def
        requestMagicLinkWorkflow_def storeTokenStep_def on_db_def sendEmailStep_def sendMagicLinkEmail_def
        demo_wlib_def demo_lib_def Let_def)
qed

theorem repeated_sign_in_request_witness:
  "\<exists>q v. serve demo_server demo_key_ctx (RqRequestMagicLink (Some ''Carol@x'')) demo_world = (q, v) \<and>
    length (w_outbox v) = 1 \<and>
    (\<forall>env. serve (demo_server\<lparr>sv_env := env\<rparr>) demo_key_ctx (RqRequestMagicLink (Some ''Carol@x'')) v = (q, v))"
proof -
  obtain q v where s: "serve demo_server demo_key_ctx (RqRequestMagicLink (Some ''Carol@x'')) demo_world = (q, v)" by fastforce
  have e: "engine_ok (sv_wlib demo_server)" by (simp add: demo_server_def demo_engine_ok)
  have k: "idempotencyKey demo_key_ctx = Some ''0a''" by code_simp
  have "length (w_outbox v) = 1" using demo_sign_in_request_runs s by simp
  then show ?thesis using s repeated_sign_in_request [OF e k s] by (intro exI conjI allI)
qed

end
