(* ===== verification/ApiEffect.thy ===== *)
theory ApiEffect
  imports ApiAuthz SystemProps
begin

text \<open>
  What a served request does to the database: nothing, or exactly one call of the services, made by the
  caller the interceptors resolved. This connects the gRPC layer with the state machine of the backend.
\<close>

section \<open>One call\<close>

text \<open>\<open>still\<close> programs leave the database alone; \<open>one_call\<close> programs leave it alone or make one call.\<close>

definition still :: "'a api \<Rightarrow> bool" where
  "still n \<longleftrightarrow> (\<forall>w. w_db (snd (n w)) = w_db w)"

definition moves :: "address_parser \<Rightarrow> Config \<Rightarrow> (call \<Rightarrow> bool) \<Rightarrow> 'a op \<Rightarrow> bool" where
  "moves pa cfg P m \<longleftrightarrow> (\<forall>s. snd (m s) = s \<or> (\<exists>c. P c \<and> snd (m s) = snd (run_call pa cfg c s)))"

definition one_call :: "address_parser \<Rightarrow> Config \<Rightarrow> (call \<Rightarrow> bool) \<Rightarrow> 'a api \<Rightarrow> bool" where
  "one_call pa cfg P n \<longleftrightarrow> (\<forall>w. w_db (snd (n w)) = w_db w \<or>
     (\<exists>c. P c \<and> w_db (snd (n w)) = snd (run_call pa cfg c (w_db w))))"

named_theorems still_intros "programs that leave the database alone"
named_theorems one_intros "programs that make at most one call"

lemma still_basic [still_intros]:
  "still (ret x)" "still (throw e)" "still (liftS r)" "still (convert c)"
  by (simp_all add: still_def ret_def throw_def liftS_def convert_def)

lemma still_andThen [still_intros]: "still m \<Longrightarrow> (\<And>x. still (k x)) \<Longrightarrow> still (andThen m k)"
  unfolding still_def andThen_def by (auto split: prod.splits sum.splits) (metis snd_conv)+

lemma still_case_option [still_intros]:
  "still m \<Longrightarrow> (\<And>x. still (f x)) \<Longrightarrow> still (case p of None \<Rightarrow> m | Some x \<Rightarrow> f x)"
  by (cases p) auto

lemma still_case_prod [still_intros]: "(\<And>x y. still (f x y)) \<Longrightarrow> still (case p of (x, y) \<Rightarrow> f x y)"
  by (cases p) auto

lemma still_call_core [still_intros]: "read_only m \<Longrightarrow> still (call_core f m)"
  by (simp add: still_def call_core_read)

lemma still_pages [still_intros]:
  "still (decodePage L c t)" "still (nextPageToken L c i j k ob f)" "still (pageReply cv rows n t)"
  by (auto simp: decodePage_def nextPageToken_def pageReply_def Let_def intro!: still_intros)

lemma still_listPage [still_intros]: "(\<And>i j. read_only (fetch i j)) \<Longrightarrow> still (listPage L c r f err fetch cv)"
  unfolding listPage_def Let_def by (intro still_intros)

lemma moves_read: "read_only m \<Longrightarrow> moves pa cfg P m"
  by (simp add: moves_def read_only_def)

lemma moves_call: "P c \<Longrightarrow> moves pa cfg P (run_call pa cfg c)"
  unfolding moves_def by blast

lemma snd_andThen_ret [simp]: "snd (andThen m (\<lambda>x. ret (f x)) s) = snd (m s)"
  by (cases "m s"; cases "fst (m s)") (auto simp: andThen_def ret_def)

lemma moves_ret [simp]: "moves pa cfg P (andThen m (\<lambda>x. ret (f x))) = moves pa cfg P m"
  by (simp add: moves_def)

lemma one_still: "still n \<Longrightarrow> one_call pa cfg P n"
  by (simp add: one_call_def still_def)

lemma one_liftS [one_intros]: "(\<And>x. one_call pa cfg P (k x)) \<Longrightarrow> one_call pa cfg P (andThen (liftS r) k)"
  by (cases r) (simp_all add: one_call_def andThen_def liftS_def)

lemma one_convert [one_intros]: "(\<And>x. one_call pa cfg P (k x)) \<Longrightarrow> one_call pa cfg P (andThen (convert r) k)"
  unfolding convert_def by (rule one_liftS)

lemma one_option [one_intros]:
  "(\<And>x. one_call pa cfg P (k x)) \<Longrightarrow>
    one_call pa cfg P (andThen (case r of None \<Rightarrow> throw e | Some y \<Rightarrow> ret (f y)) k)"
  by (cases r) (simp_all add: one_call_def andThen_def throw_def ret_def)

lemma snd_call_core: "snd (call_core f m w) = w\<lparr>w_db := snd (m (w_db w))\<rparr>"
  by (simp add: call_core_def split: prod.splits sum.splits)

lemma one_core_last [one_intros]: "moves pa cfg P m \<Longrightarrow> one_call pa cfg P (call_core f m)"
  by (simp add: one_call_def moves_def snd_call_core)

lemma one_post [one_intros]:
  assumes "one_call pa cfg P m" "\<And>x. still (k x)" shows "one_call pa cfg P (andThen m k)"
proof -
  have "w_db (snd (andThen m k w)) = w_db (snd (m w))" for w
    using assms(2) by (cases "m w"; cases "fst (m w)") (auto simp: andThen_def still_def)
  then show ?thesis using assms(1) by (simp add: one_call_def)
qed

section \<open>Calls of the handlers\<close>

primrec token_call :: "call \<Rightarrow> bool" where
  "token_call (RequestLink env e) = True"
| "token_call (VerifyLink env t) = True"
| "token_call (Refresh env t) = True"
| "token_call (Revoke t) = True"
| "token_call (RevokeAll x) = False"
| "token_call (RoleCall ctx c) = False"
| "token_call (OrgCall ctx c) = False"
| "token_call (AssignSystem ctx x n) = False"
| "token_call (UnassignSystem ctx x n) = False"
| "token_call (BootstrapAssignSystem x n) = False"
| "token_call (UserCreate cu) = False"
| "token_call (UserUpdate uu) = False"

text \<open>The calls a session can make through the API: none of the bootstrap operations.\<close>

primrec org_api :: "org_call \<Rightarrow> bool" where
  "org_api (CallCreateOrganization co) = True"
| "org_api (CallBootstrapOrganization co) = False"
| "org_api (CallCreateProject cp) = False"
| "org_api (CallCreateOrganizationUser e) = True"

primrec by_session :: "AuthSession option \<Rightarrow> call \<Rightarrow> bool" where
  "by_session x (RoleCall ctx c) = (ctx = x)"
| "by_session x (OrgCall ctx c) = (ctx = x \<and> org_api c)"
| "by_session x (AssignSystem ctx y n) = (ctx = x)"
| "by_session x (UnassignSystem ctx y n) = (ctx = x)"
| "by_session x (BootstrapAssignSystem y n) = False"
| "by_session x (UserCreate cu) = True"
| "by_session x (UserUpdate uu) = True"
| "by_session x (RequestLink env e) = False"
| "by_session x (VerifyLink env t) = False"
| "by_session x (Refresh env t) = False"
| "by_session x (Revoke t) = False"
| "by_session x (RevokeAll y) = (\<exists>sess. x = Some sess \<and> y = au_UserID (as_User sess))"

lemma role_moves:
  "moves pa cfg (by_session x) (CustomRoleCore.CreateCustomRole x cr)"
  "moves pa cfg (by_session x) (CustomRoleCore.UpdateCustomRole x ur)"
  "moves pa cfg (by_session x) (CustomRoleCore.ModifyCustomRolePermissions x mr)"
  "moves pa cfg (by_session x) (DeleteCustomRole x i)"
  "moves pa cfg (by_session x) (AssignCustomRoleToProject x u i)"
  "moves pa cfg (by_session x) (UnassignCustomRoleFromProject x u i)"
  "moves pa cfg (by_session x) (AssignCustomRoleToOrg x u i)"
  "moves pa cfg (by_session x) (UnassignCustomRoleFromOrg x u i)"
  using moves_call [of "by_session x" "RoleCall x (CallCreate cr)" pa cfg]
    moves_call [of "by_session x" "RoleCall x (CallUpdate ur)" pa cfg]
    moves_call [of "by_session x" "RoleCall x (CallModify mr)" pa cfg]
    moves_call [of "by_session x" "RoleCall x (CallDelete i)" pa cfg]
    moves_call [of "by_session x" "RoleCall x (CallAssignProject u i)" pa cfg]
    moves_call [of "by_session x" "RoleCall x (CallUnassignProject u i)" pa cfg]
    moves_call [of "by_session x" "RoleCall x (CallAssignOrg u i)" pa cfg]
    moves_call [of "by_session x" "RoleCall x (CallUnassignOrg u i)" pa cfg]
  by (simp_all)

lemma session_moves:
  "moves pa cfg (by_session x) (OrgCore.CreateOrganization x co)"
  "moves pa cfg (by_session x) (CreateOrganizationUser pa x email)"
  "moves pa cfg (by_session x) (AssignSystemRole x u n)"
  "moves pa cfg (by_session x) (UnassignSystemRole x u n)"
  "moves pa cfg (by_session x) (UserCore.CreateUser pa cu)"
  "moves pa cfg (by_session x) (UserCore.UpdateUser uu)"
  using moves_call [of "by_session x" "OrgCall x (CallCreateOrganization co)" pa cfg]
    moves_call [of "by_session x" "OrgCall x (CallCreateOrganizationUser email)" pa cfg]
    moves_call [of "by_session x" "AssignSystem x u n" pa cfg]
    moves_call [of "by_session x" "UnassignSystem x u n" pa cfg]
    moves_call [of "by_session x" "UserCreate cu" pa cfg]
    moves_call [of "by_session x" "UserUpdate uu" pa cfg]
  by (simp_all add: run_org_call_def)

lemma token_moves:
  "moves pa cfg token_call (VerifyMagicLink cfg env t)"
  "moves pa cfg token_call (RefreshAccessToken cfg env t)"
  "moves pa cfg token_call (RevokeRefreshToken t)"
  using moves_call [of "token_call" "VerifyLink env t" pa cfg]
    moves_call [of "token_call" "Refresh env t" pa cfg]
    moves_call [of "token_call" "Revoke t" pa cfg]
  by (simp_all)

section \<open>Handlers\<close>

lemma reading_handlers [still_intros]:
  "still (svc_GetUser S x r1)" "still (svc_ListUsers S x r2)" "still (svc_ListOrganizationUsers S x r3)"
  "still (svc_ListProjects S x r4)" "still (svc_ListSystemRoles S x r5)" "still (svc_ListSystemRoleAssignments S x r6)"
  "still (svc_ListPermissions S x r7)" "still (svc_GetRole S x r8)" "still (svc_ListRoles S x r5)"
  "still (svc_ListProjectRoleAssignments S x r6)" "still (svc_ListOrganizationRoleAssignments S x r6)"
  "still (svc_GetAuthContext S x r7)"
  unfolding svc_GetUser_def svc_ListUsers_def svc_ListOrganizationUsers_def svc_ListProjects_def svc_ListSystemRoles_def
    svc_ListSystemRoleAssignments_def svc_ListPermissions_def svc_GetRole_def svc_ListRoles_def
    svc_ListProjectRoleAssignments_def svc_ListOrganizationRoleAssignments_def svc_GetAuthContext_def Let_def
  by (intro still_intros read_intros)+

abbreviation one_by :: "server \<Rightarrow> (call \<Rightarrow> bool) \<Rightarrow> 'a api \<Rightarrow> bool" where
  "one_by S \<equiv> one_call (ParseAddress (sv_lib S)) (sv_cfg S)"

lemma role_handlers:
  "one_by S (by_session (cx_Session x)) (svc_CreateRole S x r1)" "one_by S (by_session (cx_Session x)) (svc_UpdateRole S x r2)"
  "one_by S (by_session (cx_Session x)) (svc_ModifyRolePermissions S x r3)"
  "one_by S (by_session (cx_Session x)) (svc_DeleteRole S x r4)"
  "one_by S (by_session (cx_Session x)) (svc_AssignRoleToProject S x r5)"
  "one_by S (by_session (cx_Session x)) (svc_UnassignRoleFromProject S x r5)"
  "one_by S (by_session (cx_Session x)) (svc_AssignRoleToOrganization S x r5)"
  "one_by S (by_session (cx_Session x)) (svc_UnassignRoleFromOrganization S x r5)"
  unfolding svc_CreateRole_def svc_UpdateRole_def svc_ModifyRolePermissions_def svc_DeleteRole_def
    svc_AssignRoleToProject_def svc_UnassignRoleFromProject_def svc_AssignRoleToOrganization_def
    svc_UnassignRoleFromOrganization_def Let_def
  by (rule one_intros role_moves still_intros)+

lemma session_handlers:
  "one_by S (by_session (cx_Session x)) (svc_CreateUser S x r1)" "one_by S (by_session (cx_Session x)) (svc_UpdateUser S x r2)"
  "one_by S (by_session (cx_Session x)) (svc_CreateOrganization S x r3)"
  "one_by S (by_session (cx_Session x)) (svc_CreateOrganizationUser S x r4)"
  "one_by S (by_session (cx_Session x)) (svc_AssignSystemRole S x r5)"
  "one_by S (by_session (cx_Session x)) (svc_UnassignSystemRole S x r5)"
  unfolding svc_CreateUser_def svc_UpdateUser_def svc_CreateOrganization_def svc_CreateOrganizationUser_def
    svc_AssignSystemRole_def svc_UnassignSystemRole_def Let_def
  by (rule one_intros session_moves still_intros)+

lemma token_handlers:
  "one_by S token_call (svc_VerifyMagicLink S x r)" "one_by S token_call (svc_RefreshAccessToken S x r)"
  "one_by S token_call (svc_RevokeRefreshToken S x r)"
  unfolding svc_VerifyMagicLink_def svc_RefreshAccessToken_def svc_RevokeRefreshToken_def
  by (rule one_intros token_moves still_intros)+

lemma revoke_all_handler: "one_by S (by_session (cx_Session x)) (svc_RevokeAllSessions S x r)"
proof (cases "cx_Session x")
  case None
  then show ?thesis unfolding svc_RevokeAllSessions_def by (auto intro!: one_liftS one_still still_intros)
next
  case (Some sess)
  have "moves pa cfg (by_session (Some sess)) (RevokeAllUserRefreshTokens (au_UserID (as_User sess)))" for pa cfg
    using moves_call [of "by_session (Some sess)" "RevokeAll (au_UserID (as_User sess))"] by simp
  then show ?thesis unfolding svc_RevokeAllSessions_def Some option.case by (intro one_intros)
qed

lemma request_link_handler:
  assumes "engine_ok (sv_wlib S)" shows "one_by S token_call (svc_RequestMagicLink S x r)"
proof -
  let ?pa = "ParseAddress (sv_lib S)" and ?e = "strOf r"
  have b: "w_db (snd (requestMagicLinkWorkflow (sv_wlib S) ?pa (sv_cfg S) (sv_env S) ?e w)) =
      snd (MagicLinkToken ?pa (sv_cfg S) (sv_env S) ?e (w_db w))" for w
    unfolding workflow_body [OF assms] by (simp split: prod.splits sum.splits option.splits)
  have same: "w_db (snd ((case r of (Inl e, v) \<Rightarrow> (Inl (CoreErr e), v) | (Inr _, v) \<Rightarrow> (Inr (), v)) :: (api_error + unit) \<times> world)) =
      w_db (snd r)" for r :: "(error + unit) \<times> world"
    by (simp split: prod.splits sum.splits)
  have rec: "w_db (snd (run_recorded i m w)) = w_db w \<or> w_db (snd (run_recorded i m w)) = w_db (snd (m w))" for i m w
    by (simp add: run_recorded_def split: prod.splits option.splits)
  have "one_by S token_call (\<lambda>w. case run_recorded i (requestMagicLinkWorkflow (sv_wlib S) ?pa (sv_cfg S) (sv_env S) ?e) w of
      (Inl e, v) \<Rightarrow> (Inl (CoreErr e), v) | (Inr _, v) \<Rightarrow> (Inr (), v))" for i
    unfolding one_call_def same
  proof
    fix w :: world
    have "token_call (RequestLink (sv_env S) ?e)" by simp
    moreover have "snd (MagicLinkToken ?pa (sv_cfg S) (sv_env S) ?e (w_db w)) =
        snd (run_call ?pa (sv_cfg S) (RequestLink (sv_env S) ?e) (w_db w))" by simp
    ultimately show "w_db (snd (run_recorded i (requestMagicLinkWorkflow (sv_wlib S) ?pa (sv_cfg S) (sv_env S) ?e) w)) = w_db w \<or>
      (\<exists>c. token_call c \<and> w_db (snd (run_recorded i (requestMagicLinkWorkflow (sv_wlib S) ?pa (sv_cfg S) (sv_env S) ?e) w)) =
        snd (run_call ?pa (sv_cfg S) c (w_db w)))"
      using rec [of i _ w] b [of w] by metis
  qed
  then show ?thesis unfolding svc_RequestMagicLink_def wf_RequestMagicLink_def
    using assms by (intro one_liftS) (simp add: engine_ok_def)
qed

lemma dispatch_by_session:
  assumes "FullMethod req \<notin> set publicMethods" shows "one_by S (by_session (cx_Session x)) (dispatch S x req)"
  using assms
  by (cases req) (simp_all add: publicMethods_def one_post role_handlers session_handlers revoke_all_handler
      reading_handlers still_basic one_still still_andThen)

lemma dispatch_public:
  assumes "FullMethod req \<in> set publicMethods" "engine_ok (sv_wlib S)" shows "one_by S token_call (dispatch S x req)"
  using assms
  by (cases req) (simp_all add: publicMethods_def one_post token_handlers request_link_handler still_basic)

section \<open>Requests\<close>

lemma one_callD:
  "one_call pa cfg P n \<Longrightarrow> n w = (q, v) \<Longrightarrow> w_db v = w_db w \<or> (\<exists>c. P c \<and> w_db v = snd (run_call pa cfg c (w_db w)))"
  by (metis one_call_def snd_conv)

lemma serve_one_call:
  assumes "engine_ok (sv_wlib S)" and "serve S x req w = (q, v)"
  shows "w_db v = w_db w \<or> (\<exists>c. w_db v = snd (run_call (ParseAddress (sv_lib S)) (sv_cfg S) c (w_db w)) \<and>
    (token_call c \<or> (\<exists>sess. admitted S x (FullMethod req) (w_db w) sess \<and> by_session (Some sess) c)))"
proof (cases "FullMethod req \<in> set publicMethods")
  case True
  from public_call [OF this assms(2) [unfolded serve_def]] show ?thesis
    using one_callD [OF dispatch_public [OF True assms(1)]] by blast
next
  case False
  from guarded_call [OF this assms(2) [unfolded serve_def]] show ?thesis
  proof
    assume "\<exists>sess i r. admitted S x (FullMethod req) (w_db w) sess \<and>
      dispatch S (x\<lparr>cx_Session := Some sess, cx_WorkflowID := i\<rparr>) req w = (r, v) \<and> (\<forall>y. q = Inr y \<longleftrightarrow> r = Inr y)"
    then obtain sess i r where a: "admitted S x (FullMethod req) (w_db w) sess"
      "dispatch S (x\<lparr>cx_Session := Some sess, cx_WorkflowID := i\<rparr>) req w = (r, v)" by blast
    from one_callD [OF dispatch_by_session [OF False] a(2)] show ?thesis using a(1) by auto
  qed auto
qed

end
