(* ===== verification/Grants.thy ===== *)
theory Grants
  imports System
begin

text \<open>
  Who may do what, and which calls can change it: the calls of the user and authentication services, and the
  creation of a member, leave every grant as it is; the calls of the role services change only permissions
  their caller holds; a new organization touches nothing that existed before it.
\<close>

section \<open>Places\<close>

datatype place = AtSystem | AtOrg int | AtProject int

primrec holds :: "db \<Rightarrow> place \<Rightarrow> int \<Rightarrow> permission \<Rightarrow> bool" where
  "holds s AtSystem u n = holds_system s u n"
| "holds s (AtOrg i) u n = holds_org s u i n"
| "holds s (AtProject j) u n = holds_project s u j n"

primrec exists_place :: "db \<Rightarrow> place \<Rightarrow> bool" where
  "exists_place s AtSystem = True"
| "exists_place s (AtOrg i) = (i \<in> org_ids s)"
| "exists_place s (AtProject j) = (j \<in> prj_id ` set (projects s))"

lemma system_holds_everywhere: "holds_system s u n \<Longrightarrow> exists_place s p \<Longrightarrow> holds s p u n"
  by (cases p) (auto simp: holds_org_def holds_project_def)

section \<open>Calls that change no grant\<close>

definition same_grants :: "db \<Rightarrow> db \<Rightarrow> bool" where
  "same_grants s t \<longleftrightarrow>
    org_role_assignments t = org_role_assignments s \<and> project_role_assignments t = project_role_assignments s \<and>
    custom_role_permissions t = custom_role_permissions s \<and> permissions t = permissions s \<and>
    system_role_permissions t = system_role_permissions s \<and>
    system_role_assignments t = system_role_assignments s \<and> projects t = projects s"

lemma same_grants_holds: "same_grants s t \<Longrightarrow> holds t p u n = holds s p u n"
  by (cases p) (simp_all add: same_grants_def holds_project_def holds_org_def holds_system_def role_has_def
      system_role_has_def)

lemma same_grants_refl [simp]: "same_grants s s"
  by (simp add: same_grants_def)

lemma same_tables_grants: "same_tables s t \<Longrightarrow> same_grants s t"
  by (auto simp: same_tables_def same_grants_def)

lemma on_tables_grants [simp]: "on_tables (same_grants s)"
  unfolding on_tables_def same_grants_def by simp

lemma preserves_updates: "(\<And>s. I s \<Longrightarrow> I (f s)) \<Longrightarrow> preserves I (updates f)"
  by (simp add: preserves_def updates_def)

lemma users_update_grants: "same_grants s0 (s\<lparr>users := us\<rparr>) = same_grants s0 s"
  by (simp add: same_grants_def)

lemma grants_users [pres_intros]: "preserves (same_grants s0) (updates (\<lambda>s. s\<lparr>users := f s\<rparr>))"
  by (rule preserves_updates) (simp add: users_update_grants)

lemma grants_tokens:
  assumes "T = magic_links \<or> T = refreshes"
  shows "preserves (same_grants s0) (updates (tt_update T f))" "preserves (same_grants s0) (tt_next T)"
proof -
  show "preserves (same_grants s0) (updates (tt_update T f))"
    by (rule preserves_updates) (use assms in \<open>auto simp: same_grants_def magic_links_def refreshes_def\<close>)
  show "preserves (same_grants s0) (tt_next T)"
    using assms preserves_gen(2) [OF on_tables_grants] by (auto simp: magic_links_def refreshes_def)
qed

lemma grants_insert_tokens:
  assumes "T = magic_links \<or> T = refreshes"
  shows "preserves (same_grants s0) (insert_tokens T ct us)"
proof (induction us)
  case (Cons u us)
  then show ?case unfolding insert_tokens.simps Let_def insert_token_def
    by (intro pres_intros grants_tokens [OF assms] on_tables_grants)
qed (simp add: pres_intros)

lemma grants_token_queries:
  assumes "T = magic_links \<or> T = refreshes"
  shows "preserves (same_grants s0) (create_token T ct)" "preserves (same_grants s0) (close_tokens T hit)"
  unfolding create_token_def close_tokens_def
  by (intro pres_intros grants_insert_tokens [OF assms] grants_tokens [OF assms])+

lemma Queue_grants: "preserves (same_grants s0) (tq_SQL q) \<Longrightarrow> preserves (same_grants s0) (Queue q)"
  unfolding Queue_def by (intro pres_intros preserves_queueOne on_tables_grants)

lemma QueueMany_grants: "preserves (same_grants s0) (tq_SQL q) \<Longrightarrow> preserves (same_grants s0) (QueueMany q)"
  unfolding QueueMany_def by (intro pres_intros preserves_atomic on_tables_grants)

lemmas grants_queries = Queue_grants QueueMany_grants grants_token_queries [OF disjI1 [OF refl]]
  grants_token_queries [OF disjI2 [OF refl]] preserves_run_tx on_tables_grants preserves_atomic

lemma grants_user_store:
  "preserves (same_grants s0) (pguser_UserByEmail e)" "preserves (same_grants s0) (pguser_CreateUser cu)"
  "preserves (same_grants s0) (pguser_UpdateUser uu)" "preserves (same_grants s0) (pguser_MarkEmailVerified x)"
  unfolding pguser_UserByEmail_def userByEmailQuery_def pguser_CreateUser_def createUserQuery_def pguser_UpdateUser_def
    updateUserQuery_def pguser_MarkEmailVerified_def markEmailVerifiedQuery_def insert_user_def new_user_row_def Let_def
  by (intro pres_intros grants_queries preserves_queueOne; simp add: pres_intros)+

lemma grants_token_store:
  "preserves (same_grants s0) (ConsumeRefreshToken h)" "preserves (same_grants s0) (ConsumeMagicLinkToken i)"
  "preserves (same_grants s0) (InvalidateUserMagicLinkTokens i)" "preserves (same_grants s0) (pg_RevokeAllUserRefreshTokens x)"
  "preserves (same_grants s0) (CreateRefreshToken ct)" "preserves (same_grants s0) (CreateMagicLinkToken ct)"
  "preserves (same_grants s0) (MagicLinkTokenByHash h)" "preserves (same_grants s0) (LatestMagicLinkTokenCreatedAt i)"
  "preserves (same_grants s0) (LockUser i)"
  unfolding ConsumeRefreshToken_def consumeRefreshTokenQuery_def ConsumeMagicLinkToken_def consumeMagicLinkTokenQuery_def
    InvalidateUserMagicLinkTokens_def invalidateUserMagicLinkTokensQuery_def pg_RevokeAllUserRefreshTokens_def
    revokeAllUserRefreshTokensQuery_def CreateRefreshToken_def createRefreshTokenQuery_def CreateMagicLinkToken_def
    createMagicLinkTokenQuery_def MagicLinkTokenByHash_def magicLinkTokenByHashQuery_def
    LatestMagicLinkTokenCreatedAt_def latestMagicLinkTokenCreatedAtQuery_def LockUser_def RunExec_def
  by (intro pres_intros grants_queries; simp add: pres_intros grants_queries)+

lemma grants_issue: "preserves (same_grants s0) (issueTokenPair cfg env i x)"
  unfolding issueTokenPair_def Let_def by (intro pres_intros grants_token_store)

lemma grants_calls:
  "preserves (same_grants s0) (MagicLinkToken pa cfg env email)" "preserves (same_grants s0) (VerifyMagicLink cfg env tok)"
  "preserves (same_grants s0) (RefreshAccessToken cfg env tok)" "preserves (same_grants s0) (RevokeRefreshToken tok)"
  "preserves (same_grants s0) (RevokeAllUserRefreshTokens x)"
  "preserves (same_grants s0) (CreateUser pa cu)" "preserves (same_grants s0) (UpdateUser uu)"
  unfolding MagicLinkToken_def rateLimitReached_def VerifyMagicLink_def RefreshAccessToken_def RevokeRefreshToken_def
    RevokeAllUserRefreshTokens_def CreateUser_def UpdateUser_def Let_def
  by (intro pres_intros grants_queries grants_token_store grants_user_store grants_issue)+

lemma preserves_grantsD: "preserves (same_grants s) m \<Longrightarrow> same_grants s (snd (m s))"
  by (simp add: preserves_def)

lemma member_grants:
  assumes "db_inv s" "CreateOrganizationUser pa ctx email s = (r, t)" shows "same_grants s t"
proof (cases r)
  case (Inl e)
  then show ?thesis using assms same_tables_grants [OF CreateOrganizationUser_failed] by blast
next
  case (Inr v)
  with assms have "CreateOrganizationUser pa ctx email s = (Inr v, t)" by simp
  then show ?thesis
  proof (rule CreateOrganizationUser_InrE)
    fix sess p u s1 s2
    assume u: "pguser_GetOrCreateUserByEmail email s = (Inr u, s1)"
      and m: "EnsureOrganizationMember (usr_external_id u) (ap_OrgID p) s1 = (Inr (), s2)" and t: "t = s2\<lparr>locks := []\<rparr>"
    have "same_grants s s1" by (rule GetOrCreateUserByEmail_InrE [OF u]) (simp_all add: same_grants_def)
    moreover obtain ms where "s2 = s1\<lparr>org_membership := ms\<rparr>" by (rule EnsureOrganizationMember_InrE [OF m])
    ultimately show ?thesis by (simp add: t same_grants_def)
  qed
qed

section \<open>Calls that change grants\<close>

text \<open>A change of what somebody may do at a place is within the authority of an actor who may do it there.\<close>

definition within :: "db \<Rightarrow> db \<Rightarrow> user_row \<Rightarrow> bool" where
  "within s t actor \<longleftrightarrow> (\<forall>p u n. exists_place s p \<longrightarrow> holds t p u n \<noteq> holds s p u n \<longrightarrow> holds s p (usr_id actor) n)"

definition unchanged :: "db \<Rightarrow> db \<Rightarrow> bool" where
  "unchanged s t \<longleftrightarrow> (\<forall>p u n. exists_place s p \<longrightarrow> holds t p u n = holds s p u n)"

lemma unchanged_grants: "same_grants s t \<Longrightarrow> unchanged s t"
  by (simp add: unchanged_def same_grants_holds)

lemma role_call_within:
  assumes inv: "db_inv s" and q: "run_role_call (Some sess) c s = (r, t)"
  shows "unchanged s t \<or> (\<exists>actor \<in> set (users_by_external_id s (sessUser sess)). within s t actor)"
proof (cases r rule: unit_cases)
  case (1 e)
  then show ?thesis using run_role_call_failed [OF inv] q unchanged_grants same_tables_grants by blast
next
  case 2
  with q have "run_role_call (Some sess) c s = (Inr (), t)" by simp
  from run_role_call_bounded [OF inv this] show ?thesis
  proof
    assume "bounded_call (Some sess) s t"
    then obtain actor pr where a: "acted s sess actor pr" and b: "authority_bound s t (usr_id actor) (prj_org_id pr)"
      unfolding bounded_call_def by blast
    have "holds s p (usr_id actor) n" if "holds t p u n \<noteq> holds s p u n" for p u n
      using that b unfolding authority_bound_def by (cases p) (simp_all, blast+)
    then show ?thesis using a by (intro disjI2 bexI [of _ actor]) (auto simp: within_def acted_def)
  next
    assume e: "holds_system t = holds_system s \<and> holds_org t = holds_org s \<and> holds_project t = holds_project s"
    have "holds t p u n = holds s p u n" for p u n using e by (cases p) simp_all
    then show ?thesis by (simp add: unchanged_def)
  qed
qed

lemma creation_unchanged:
  assumes inv: "db_inv s" and q: "CreateOrganization ctx co s = (r, t)"
  shows "unchanged s t"
proof (cases r)
  case (Inl e)
  have "run_org_call pa ctx (CallCreateOrganization co) s = (Inl e, t)" for pa
    using q Inl by (simp add: run_org_call_def andThen_Inl_iff)
  from run_org_call_failed [OF inv this] show ?thesis by (intro unchanged_grants same_tables_grants)
next
  case (Inr org)
  then obtain sess where "ctx = Some sess" using q
    by (cases ctx) (auto simp: OrgCore.CreateOrganization_def throw_def)
  with q Inr have "CreateOrganization (Some sess) co s = (Inr org, t)" by simp
  note eff = creation_effect [OF inv this]
  have new: "o_ID org \<notin> org_ids s" using eff by (elim bexE conjE)
  have "\<exists>u :: user_row. \<forall>v o' n. holds_org t v o' n \<longleftrightarrow> holds_org s v o' n \<or>
       (v = usr_id u \<and> o' = o_ID org \<and> n \<in> set OrganizationAdminPermissions)"
    using eff by (elim bexE conjE) (rule exI)
  then obtain u :: user_row where org: "\<And>v o' n. holds_org t v o' n \<longleftrightarrow> holds_org s v o' n \<or>
       (v = usr_id u \<and> o' = o_ID org \<and> n \<in> set OrganizationAdminPermissions)" by blast
  have sys: "holds_system t v n \<longleftrightarrow> holds_system s v n" for v n using eff by (elim bexE conjE) simp
  have pa: "project_role_assignments t = project_role_assignments s"
    "a \<in> set (project_role_assignments s) \<Longrightarrow> role_has t (pa_role_id a) n = role_has s (pa_role_id a) n" for a n
    using eff by (elim bexE conjE, simp)+
  have "\<exists>ps. projects t = projects s @ ps \<and>
      (\<forall>p \<in> set ps. prj_org_id p = o_ID org \<and> prj_id p \<notin> prj_id ` set (projects s))"
    using eff by (elim bexE conjE)
  then obtain ps where ps: "projects t = projects s @ ps"
    "\<And>p. p \<in> set ps \<Longrightarrow> prj_org_id p = o_ID org \<and> prj_id p \<notin> prj_id ` set (projects s)" by blast
  have old: "prj_org_id p \<in> org_ids s" if "p \<in> set (projects s)" for p
    using inv that by (auto simp: db_inv_def projects_ok_def)
  have same: "holds_org t v (prj_org_id p) n = holds_org s v (prj_org_id p) n" if "p \<in> set (projects s)" for p v n
    using old [OF that] new org by metis
  have "holds t pl v n = holds s pl v n" if e: "exists_place s pl" for pl v n
  proof (cases pl)
    case (AtProject j)
    have "(\<exists>p \<in> set (projects t). prj_id p = j \<and> holds_org t v (prj_org_id p) n) \<longleftrightarrow>
        (\<exists>p \<in> set (projects s). prj_id p = j \<and> holds_org s v (prj_org_id p) n)"
      using e AtProject ps by (auto simp: same)
    then show ?thesis using AtProject pa by (auto simp: holds_project_def)
  next
    case (AtOrg i)
    have "i \<noteq> o_ID org" using e new by (simp only: AtOrg exists_place.simps) blast
    then show ?thesis using AtOrg org by simp
  qed (use sys in simp)
  then show ?thesis by (simp add: unchanged_def)
qed

lemma system_change_within:
  assumes "system_change sess s t actor" shows "within s t actor"
proof -
  obtain a l where t: "t = s\<lparr>system_role_assignments := a, locks := l\<rparr>"
    and c: "\<And>u n. holds_system t u n \<noteq> holds_system s u n \<Longrightarrow> holds_system s (usr_id actor) n"
    using assms unfolding system_change_def by blast
  have "holds s p (usr_id actor) n" if e: "exists_place s p" and d: "holds t p u n \<noteq> holds s p u n" for p u n
  proof -
    have "holds_system t u n \<noteq> holds_system s u n"
      using d by (cases p) (auto simp: t holds_org_def holds_project_def role_has_def)
    from system_holds_everywhere [OF c [OF this] e] show ?thesis .
  qed
  then show ?thesis by (simp add: within_def)
qed

lemma system_call_failed:
  "AssignSystemRole ctx x n s = (Inl e, t) \<Longrightarrow> same_tables s t"
  "UnassignSystemRole ctx x n s = (Inl e, t) \<Longrightarrow> same_tables s t"
  unfolding AssignSystemRole_def UnassignSystemRole_def andThen_Inl_iff [of "authSession ctx"]
  by (auto simp: authSession_def simp del: run_tx_Inl_iff intro: same_tables_run_tx split: option.splits)

lemma system_call_within:
  assumes inv: "db_inv s"
    and q: "AssignSystemRole (Some sess) x n s = (r, t) \<or> UnassignSystemRole (Some sess) x n s = (r, t)"
  shows "unchanged s t \<or> (\<exists>actor \<in> set (users_by_external_id s (sessUser sess)). within s t actor)"
proof (cases r rule: unit_cases)
  case (1 e)
  then show ?thesis using q system_call_failed unchanged_grants same_tables_grants by blast
next
  case 2
  with q obtain actor where "system_change sess s t actor" using assign_effect unassign_effect [OF inv] by blast
  moreover from this have "actor \<in> set (users_by_external_id s (sessUser sess))"
    by (simp add: system_change_def sessUser_def)
  ultimately show ?thesis using system_change_within by blast
qed

end
