(* ===== verification/Seed.thy ===== *)
theory Seed
  imports PgCustomRole
begin

text \<open>
  The data a backend is started with: \<open>seed.sql\<close>, which \<open>pgschema.Seed\<close> sends at every start as one
  transaction, and the first operator of \<open>backend/scripts/seed-dev-operator.sh\<close>. Only the seed draws from
  the sequences of \<open>permissions\<close> and \<open>system_roles\<close>; their next values are arguments. An error is the
  SQLSTATE the server reports.
\<close>

section \<open>seed.sql\<close>

definition seedPermissions :: "string list" where
  "seedPermissions =
    [''user:read'', ''user:create'', ''user:update'', ''system-role:read'', ''system-role:assign'',
     ''system-role:unassign'', ''org:create'', ''project:create'', ''org:user-create'', ''org:user-read'',
     ''project:discover-all'', ''custom-role:create'', ''custom-role:read'', ''custom-role:update'',
     ''custom-role:delete'', ''custom-role:assign-project'', ''custom-role:unassign-project'',
     ''custom-role:assign-org'', ''custom-role:unassign-org'', ''custom-role:read-project-assignments'',
     ''custom-role:read-org-assignments'']"

definition seedAdminPermissions :: "string list" where
  "seedAdminPermissions =
    [''project:create'', ''org:user-create'', ''org:user-read'', ''custom-role:create'', ''custom-role:read'',
     ''custom-role:update'', ''custom-role:delete'', ''custom-role:assign-project'',
     ''custom-role:unassign-project'', ''custom-role:assign-org'', ''custom-role:unassign-org'',
     ''custom-role:read-project-assignments'', ''custom-role:read-org-assignments'']"

definition raise_exception :: error where
  "raise_exception = PgOther ''P0001''"

text \<open>Each row of the \<open>VALUES\<close> draws a number, whether or not it conflicts on the name.\<close>

primrec seed_permissions :: "string list \<Rightarrow> int \<Rightarrow> unit op" where
  "seed_permissions [] i = ret ()"
| "seed_permissions (n # ns) i =
    andThen (reads permissions) (\<lambda>ps.
    andThen (if n \<in> snd ` set ps then ret ()
             else if i \<in> fst ` set ps then throw (PgOther ErrCodeUniqueViolation)
             else updates (permissions_update (\<lambda>_. ps @ [(i, n)]))) (\<lambda>_.
    seed_permissions ns (i + 1)))"

definition seed_superadmin :: "int \<Rightarrow> unit op" where
  "seed_superadmin i =
    andThen (reads system_roles) (\<lambda>rs.
    if ''superadmin'' \<in> sys_name ` set rs then ret ()
    else andThen gen_random_uuid (\<lambda>x.
      if i \<in> sys_id ` set rs \<or> x \<in> sys_external_id ` set rs then throw (PgOther ErrCodeUniqueViolation)
      else updates (system_roles_update (\<lambda>_.
        rs @ [\<lparr>sys_id = i, sys_external_id = x, sys_name = ''superadmin''\<rparr>]))))"

definition missing_grants :: "db \<Rightarrow> (int \<times> int) list" where
  "missing_grants s = filter (\<lambda>g. g \<notin> set (system_role_permissions s))
     (List.product (map sys_id (filter (\<lambda>r. sys_name r = ''superadmin'') (system_roles s)))
       (map fst (permissions s)))"

definition seed_grants :: "unit op" where
  "seed_grants = updates (\<lambda>s. s\<lparr>system_role_permissions := system_role_permissions s @ missing_grants s\<rparr>)"

text \<open>\<open>sync_managed_role_permissions\<close>: the deleted and the inserted rows are computed on one snapshot.\<close>

definition managed_role_ids :: "db \<Rightarrow> string \<Rightarrow> int list" where
  "managed_role_ids s key = map rol_id (filter (\<lambda>r. rol_managed_key r = Some key) (custom_roles s))"

definition surplus :: "db \<Rightarrow> string \<Rightarrow> int list \<Rightarrow> (int \<times> int) list" where
  "surplus s key ids = filter (\<lambda>(r, p). r \<in> set (managed_role_ids s key) \<and> p \<notin> set ids)
     (custom_role_permissions s)"

definition lacking :: "db \<Rightarrow> string \<Rightarrow> int list \<Rightarrow> (int \<times> int) list" where
  "lacking s key ids = filter (\<lambda>g. g \<notin> set (custom_role_permissions s))
     (List.product (managed_role_ids s key) ids)"

text \<open>\<open>UPDATE ... SET updated_at = NOW(), etag = gen_random_uuid()\<close> of the changed roles, one at a time.\<close>

primrec touch_roles :: "int list \<Rightarrow> unit op" where
  "touch_roles [] = ret ()"
| "touch_roles (k # ks) =
    andThen gen_random_uuid (\<lambda>etag.
    andThen (reads (\<lambda>s. (clock s, custom_roles s))) (\<lambda>(now, rs).
    andThen (if etag \<in> rol_etag ` set (filter (\<lambda>r. rol_id r \<noteq> k) rs)
             then throw (PgOther ErrCodeUniqueViolation)
             else updates (\<lambda>s. s\<lparr>custom_roles := map (\<lambda>r.
               if rol_id r = k then r\<lparr>rol_updated_at := Some now, rol_etag := etag\<rparr> else r) rs\<rparr>)) (\<lambda>_.
    touch_roles ks)))"

definition sync_managed_role_permissions :: "string \<Rightarrow> string list \<Rightarrow> unit op" where
  "sync_managed_role_permissions key names =
    andThen (reads (\<lambda>s. (resolve_permissions s names, s))) (\<lambda>(resolved, s).
    case resolved of
      None \<Rightarrow> throw raise_exception
    | Some (ids, _) \<Rightarrow>
        andThen (updates (\<lambda>s. s\<lparr>custom_role_permissions :=
          filter (\<lambda>rp. rp \<notin> set (surplus s key ids)) (custom_role_permissions s) @ lacking s key ids\<rparr>)) (\<lambda>_.
        touch_roles (remdups (map fst (surplus s key ids @ lacking s key ids)))))"

section \<open>pgschema.go\<close>

definition Seed :: "int \<Rightarrow> int \<Rightarrow> unit op" where
  "Seed nextPermission nextRole = run_tx (
     andThen (seed_permissions seedPermissions nextPermission) (\<lambda>_.
     andThen (seed_superadmin nextRole) (\<lambda>_.
     andThen seed_grants (\<lambda>_.
     sync_managed_role_permissions ManagedRoleKeyOrganizationAdmin seedAdminPermissions))))"

section \<open>seed-dev-operator.sh\<close>

definition operatorEmail :: string where
  "operatorEmail = ''operator@theapp.com''"

definition seed_operator :: "unit op" where
  "seed_operator =
    andThen (nextval g_users g_users_update) (\<lambda>i.
    andThen gen_random_uuid (\<lambda>x.
    andThen gen_random_uuid (\<lambda>etag.
    andThen (reads (\<lambda>s. (clock s, users s))) (\<lambda>(now, us).
    if operatorEmail \<in> usr_email ` set us then ret ()
    else if i \<in> usr_id ` set us \<or> x \<in> usr_external_id ` set us \<or> etag \<in> usr_etag ` set us
    then throw (PgOther ErrCodeUniqueViolation)
    else updates (users_update (\<lambda>_. us @ [\<lparr>usr_id = i, usr_external_id = x, usr_email = operatorEmail,
      usr_name = ''Operator'', usr_email_verified_at = None, usr_created_at = now, usr_updated_at = None,
      usr_etag = etag\<rparr>]))))))"

definition seed_operator_grant :: "unit op" where
  "seed_operator_grant = updates (\<lambda>s. s\<lparr>system_role_assignments := system_role_assignments s @
     filter (\<lambda>a. a \<notin> set (system_role_assignments s))
       (List.product (map usr_id (filter (\<lambda>u. usr_email u = operatorEmail) (users s)))
         (map sys_id (filter (\<lambda>r. sys_name r = ''superadmin'') (system_roles s))))\<rparr>)"

definition seed_dev_operator :: "unit op" where
  "seed_dev_operator = run_tx (andThen seed_operator (\<lambda>_. seed_operator_grant))"

end
