(* ===== verification/SeedProps.thy ===== *)
theory SeedProps
  imports Seed System
begin

text \<open>
  Starting a backend: the seed brings the registry, the superadmin role and every managed role to what the
  code expects, a second run changes nothing, and a migrated empty database becomes, with the first operator, a
  state in which the invariants of the backend hold.
\<close>

section \<open>The registry\<close>

lemma seedPermissions_set: "set seedPermissions = set AllPermissions"
  by (auto simp: seedPermissions_def AllPermissions_def perm_names)

lemma seedAdminPermissions_eq: "seedAdminPermissions = OrganizationAdminPermissions"
  by (simp add: seedAdminPermissions_def OrganizationAdminPermissions_def perm_names)

lemma seedAdminPermissions_sub: "set seedAdminPermissions \<subseteq> set seedPermissions"
  by (simp add: seedPermissions_def seedAdminPermissions_def)

lemma seed_permissions_present:
  "set ns \<subseteq> snd ` set (permissions s) \<Longrightarrow> seed_permissions ns i s = (Inr (), s)"
  by (induction ns arbitrary: i) (auto simp: andThen_step[of _ _ _ s] reads_def ret_def andThen_def)

lemma seed_permissions_Inr:
  "seed_permissions ns i s = (Inr (), t) \<Longrightarrow> permissions_ok (permissions s) \<Longrightarrow>
    \<exists>ps. t = s\<lparr>permissions := permissions s @ ps\<rparr> \<and> permissions_ok (permissions s @ ps) \<and>
      snd ` set (permissions s @ ps) = snd ` set (permissions s) \<union> set ns"
proof (induction ns arbitrary: i s)
  case Nil
  then show ?case by (auto intro: exI[of _ "[]"])
next
  case (Cons n ns)
  show ?case
  proof (cases "n \<in> snd ` set (permissions s)")
    case True
    then have "seed_permissions ns (i + 1) s = (Inr (), t)" using Cons.prems(1) by (auto simp: andThen_Inr_iff)
    moreover have "snd ` set (permissions s) \<union> set ns = snd ` set (permissions s) \<union> set (n # ns)" using True by auto
    ultimately show ?thesis using Cons.IH[OF _ Cons.prems(2)] by metis
  next
    case False
    let ?s = "s\<lparr>permissions := permissions s @ [(i, n)]\<rparr>"
    from Cons.prems(1) False have i: "i \<notin> fst ` set (permissions s)" and "seed_permissions ns (i + 1) ?s = (Inr (), t)"
      by (auto simp: andThen_Inr_iff split: if_splits)
    moreover have "permissions_ok (permissions ?s)" using Cons.prems(2) False i by (auto simp: permissions_ok_def)
    ultimately obtain ps where "t = ?s\<lparr>permissions := permissions ?s @ ps\<rparr>" "permissions_ok (permissions ?s @ ps)"
      "snd ` set (permissions ?s @ ps) = snd ` set (permissions ?s) \<union> set ns"
      using Cons.IH by blast
    then show ?thesis by (intro exI[of _ "(i, n) # ps"]) (auto simp: image_Un)
  qed
qed

lemma seed_permissions_fresh:
  "\<forall>j \<in> fst ` set (permissions s). j < i \<Longrightarrow> fst (seed_permissions ns i s) = Inr ()"
proof (induction ns arbitrary: i s)
  case (Cons n ns)
  let ?s = "s\<lparr>permissions := permissions s @ [(i, n)]\<rparr>"
  have "fst (seed_permissions ns (i + 1) s) = Inr ()" "fst (seed_permissions ns (i + 1) ?s) = Inr ()"
    using Cons by (force intro!: Cons.IH)+
  moreover have "i \<notin> fst ` set (permissions s)" using Cons.prems by auto
  ultimately show ?case by (simp add: andThen_def reads_def ret_def updates_def)
qed (simp add: ret_def)

section \<open>The superadmin role\<close>

lemma seed_superadmin_Inr:
  assumes "seed_superadmin i s = (Inr (), t)" "system_roles_ok (system_roles s)"
  shows "\<exists>rs g. t = s\<lparr>system_roles := system_roles s @ rs, gen := g\<rparr> \<and> system_roles_ok (system_roles s @ rs) \<and>
    ''superadmin'' \<in> sys_name ` set (system_roles s @ rs)"
proof (cases "''superadmin'' \<in> sys_name ` set (system_roles s)")
  case True
  then show ?thesis using assms by (intro exI[of _ "[]"] exI[of _ "gen s"]) (simp add: seed_superadmin_def andThen_def reads_def ret_def)
next
  case False
  let ?x = "g_uuids (gen s) (g_uuid_pos (gen s))"
  let ?r = "\<lparr>sys_id = i, sys_external_id = ?x, sys_name = ''superadmin''\<rparr>"
  from False assms(1) have "i \<notin> sys_id ` set (system_roles s)" "?x \<notin> sys_external_id ` set (system_roles s)"
    "t = s\<lparr>system_roles := system_roles s @ [?r], gen := (gen s)\<lparr>g_uuid_pos := Suc (g_uuid_pos (gen s))\<rparr>\<rparr>"
    by (auto simp: seed_superadmin_def andThen_Inr_iff gen_random_uuid_def split: if_splits)
  then show ?thesis using assms(2) False
    by (intro exI[of _ "[?r]"] exI[of _ "(gen s)\<lparr>g_uuid_pos := Suc (g_uuid_pos (gen s))\<rparr>"]) (simp add: system_roles_ok_def)
qed

lemma missing_grants_granted: "missing_grants (s\<lparr>system_role_permissions := system_role_permissions s @ missing_grants s\<rparr>) = []"
proof -
  let ?t = "s\<lparr>system_role_permissions := system_role_permissions s @ missing_grants s\<rparr>"
  have "x \<notin> set (missing_grants ?t)" for x by (cases x) (auto simp: missing_grants_def)
  then show ?thesis by (metis list.set_sel(1))
qed

lemma missing_grants_superadmin:
  assumes "missing_grants s = []" "r \<in> set (system_roles s)" "sys_name r = ''superadmin''" "n \<in> snd ` set (permissions s)"
  shows "system_role_has s (sys_id r) n"
proof -
  from assms(4) obtain i where i: "(i, n) \<in> set (permissions s)" by auto
  have "(sys_id r, i) \<in> set (system_role_permissions s)"
  proof (rule ccontr)
    assume "(sys_id r, i) \<notin> set (system_role_permissions s)"
    with assms(2,3) i have "(sys_id r, i) \<in> set (missing_grants s)" by (force simp: missing_grants_def)
    with assms(1) show False by simp
  qed
  with i show ?thesis by (auto simp: system_role_has_def)
qed

lemma missing_grants_ok:
  assumes "role_permissions_ok (sys_role_ids s) (perm_ids s) (system_role_permissions s)" "system_roles_ok (system_roles s)"
    "permissions_ok (permissions s)"
  shows "role_permissions_ok (sys_role_ids s) (perm_ids s) (system_role_permissions s @ missing_grants s)"
proof -
  have "distinct (missing_grants s)" using assms(2,3) unfolding missing_grants_def
    by (intro distinct_filter distinct_product distinct_map_filter) (simp_all add: system_roles_ok_def permissions_ok_def)
  with assms(1) show ?thesis by (auto simp: role_permissions_ok_def missing_grants_def)
qed

section \<open>Managed roles\<close>

text \<open>Touching roles changes nothing of them but the ETag and the time of the update.\<close>

definition retouched :: "custom_role_row \<Rightarrow> custom_role_row \<Rightarrow> bool" where
  "retouched r q \<longleftrightarrow> r\<lparr>rol_updated_at := None, rol_etag := 0\<rparr> = q\<lparr>rol_updated_at := None, rol_etag := 0\<rparr>"

lemma retouched_fields: "retouched r q \<Longrightarrow> rol_id q = rol_id r \<and> rol_external_id q = rol_external_id r \<and>
    rol_name q = rol_name r \<and> rol_org_id q = rol_org_id r \<and> rol_managed_key q = rol_managed_key r"
  by (cases r; cases q) (simp add: retouched_def)

lemma retouched_filter:
  assumes "list_all2 retouched rs qs" "\<And>r q. retouched r q \<Longrightarrow> f q = f r \<and> P q = P r"
  shows "map f (filter P qs) = map f (filter P rs)"
  using assms by (induction rule: list_all2_induct) auto

lemmas retouched_map = retouched_filter[where P="\<lambda>_. True", simplified]

lemma retouched_maps:
  assumes "list_all2 retouched rs qs"
  shows "map rol_id qs = map rol_id rs" "map rol_external_id qs = map rol_external_id rs"
    "map (\<lambda>r. (rol_id r, rol_org_id r)) qs = map (\<lambda>r. (rol_id r, rol_org_id r)) rs"
    "map (\<lambda>r. (rol_org_id r, toLower (rol_name r))) qs = map (\<lambda>r. (rol_org_id r, toLower (rol_name r))) rs"
    "map (\<lambda>r. (rol_org_id r, rol_managed_key r)) (filter (\<lambda>r. rol_managed_key r \<noteq> None) qs) =
       map (\<lambda>r. (rol_org_id r, rol_managed_key r)) (filter (\<lambda>r. rol_managed_key r \<noteq> None) rs)"
    "map (\<lambda>r. (rol_name r, rol_managed_key r, rol_org_id r)) qs = map (\<lambda>r. (rol_name r, rol_managed_key r, rol_org_id r)) rs"
    "map (\<lambda>r. (rol_id r, rol_managed_key r)) qs = map (\<lambda>r. (rol_id r, rol_managed_key r)) rs"
  by (rule retouched_map[OF assms] retouched_filter[OF assms], simp add: retouched_fields)+

lemma retouched_ok:
  assumes "list_all2 retouched rs qs" "distinct (map rol_etag qs)" "custom_roles_ok orgs rs"
  shows "custom_roles_ok orgs qs"
proof -
  have "P (rol_name q) (rol_managed_key q) (rol_org_id q)" if "q \<in> set qs" "\<forall>r \<in> set rs. P (rol_name r) (rol_managed_key r) (rol_org_id r)" for P q
  proof -
    have "(rol_name q, rol_managed_key q, rol_org_id q) \<in> set (map (\<lambda>r. (rol_name r, rol_managed_key r, rol_org_id r)) rs)"
      using that(1) unfolding retouched_maps(6)[OF assms(1), symmetric] by auto
    with that(2) show ?thesis by auto
  qed
  from this[of _ "\<lambda>n k o'. role_name_check n \<and> managed_key_check k \<and> o' \<in> orgs"] show ?thesis
    using assms(2,3) retouched_maps[OF assms(1)] unfolding custom_roles_ok_def by auto
qed

lemma seed_touch_Inr:
  "touch_roles ks s = (Inr (), t) \<Longrightarrow> distinct (map rol_etag (custom_roles s)) \<Longrightarrow> distinct (map rol_id (custom_roles s)) \<Longrightarrow>
    \<exists>g qs. t = s\<lparr>gen := g, custom_roles := qs\<rparr> \<and> list_all2 retouched (custom_roles s) qs \<and> distinct (map rol_etag qs)"
proof (induction ks arbitrary: s)
  case Nil
  then show ?case by (intro exI[of _ "gen s"] exI[of _ "custom_roles s"]) (auto simp: list_all2_same retouched_def)
next
  case (Cons k ks)
  let ?e = "g_uuids (gen s) (g_uuid_pos (gen s))"
  let ?f = "\<lambda>r. if rol_id r = k then r\<lparr>rol_updated_at := Some (clock s), rol_etag := ?e\<rparr> else r"
  let ?g = "(gen s)\<lparr>g_uuid_pos := Suc (g_uuid_pos (gen s))\<rparr>"
  let ?s = "s\<lparr>gen := ?g, custom_roles := map ?f (custom_roles s)\<rparr>"
  from Cons.prems(1) have e: "?e \<notin> rol_etag ` set (filter (\<lambda>r. rol_id r \<noteq> k) (custom_roles s))"
    and r: "touch_roles ks ?s = (Inr (), t)"
    by (auto simp: andThen_Inr_iff gen_random_uuid_def split: if_splits cong: if_cong)
  have l: "list_all2 retouched (custom_roles s) (map ?f (custom_roles s))"
    by (auto simp: list_all2_conv_all_nth retouched_def)
  have d: "distinct (map rol_etag (map ?f rs))"
    if "distinct (map rol_etag rs)" "distinct (map rol_id rs)" "?e \<notin> rol_etag ` set (filter (\<lambda>r. rol_id r \<noteq> k) rs)" for rs
    using that by (induction rs) (auto simp: image_iff split: if_splits)
  have i: "distinct (map rol_id (map ?f (custom_roles s)))"
    using Cons.prems(3) retouched_maps(1)[OF l] by metis
  from Cons.IH[OF r] d[OF Cons.prems(2,3) e] i obtain g qs where
    t: "t = ?s\<lparr>gen := g, custom_roles := qs\<rparr>" "list_all2 retouched (map ?f (custom_roles s)) qs" "distinct (map rol_etag qs)"
    by auto
  have "list_all2 retouched (custom_roles s) qs"
    by (rule list_all2_trans[OF _ l t(2)]) (simp add: retouched_def)
  with t show ?case by (intro exI[of _ g] exI[of _ qs]) simp
qed

section \<open>What the seed leaves\<close>

text \<open>\<open>aligned s key ids\<close>: the managed roles of the key have exactly the permissions \<open>ids\<close>.\<close>

definition aligned :: "db \<Rightarrow> string \<Rightarrow> int list \<Rightarrow> bool" where
  "aligned s key ids \<longleftrightarrow> surplus s key ids = [] \<and> lacking s key ids = []"

definition seeded :: "db \<Rightarrow> bool" where
  "seeded s \<longleftrightarrow> set seedPermissions \<subseteq> snd ` set (permissions s) \<and>
     ''superadmin'' \<in> sys_name ` set (system_roles s) \<and> missing_grants s = [] \<and>
     (\<forall>ids ns. resolve_permissions s seedAdminPermissions = Some (ids, ns) \<longrightarrow>
        aligned s ManagedRoleKeyOrganizationAdmin ids)"

lemma permission_id_of_Nil: "permission_id_of s n = [] \<longleftrightarrow> n \<notin> snd ` set (permissions s)"
  by (auto simp: permission_id_of_def image_iff)

lemma seed_resolve_Some:
  assumes "set ns \<subseteq> snd ` set (permissions s)"
  obtains ids where "resolve_permissions s ns = Some (ids, sort_by (coll s) (remdups ns))"
    "set ids = {i. \<exists>n \<in> set ns. (i, n) \<in> set (permissions s)}"
proof
  have "\<forall>n \<in> set (sort_by (coll s) (remdups ns)). permission_id_of s n \<noteq> []"
    using assms by (auto simp: permission_id_of_Nil)
  then show "resolve_permissions s ns = Some (concat (map (permission_id_of s) (sort_by (coll s) (remdups ns))), sort_by (coll s) (remdups ns))"
    by (simp add: resolve_permissions_def Let_def)
qed (auto simp: permission_id_of_def)

lemma resolve_permissions_same:
  assumes "permissions t = permissions s" "coll t = coll s"
  shows "resolve_permissions t ns = resolve_permissions s ns"
proof -
  have "permission_id_of t = permission_id_of s" by (simp add: fun_eq_iff permission_id_of_def assms)
  then show ?thesis unfolding resolve_permissions_def assms(2) by (simp add: Let_def)
qed

lemma seeded_again:
  assumes "seeded s" "locks s = []"
  shows "Seed a b s = (Inr (), s)"
proof -
  have ps: "seed_permissions seedPermissions a s = (Inr (), s)"
    using assms(1) by (intro seed_permissions_present) (simp add: seeded_def)
  have rs: "seed_superadmin b s = (Inr (), s)"
    using assms(1) by (simp add: seeded_def seed_superadmin_def andThen_def reads_def ret_def)
  have gs: "seed_grants s = (Inr (), s)"
    using assms(1) by (simp add: seeded_def seed_grants_def updates_def)
  have "set seedAdminPermissions \<subseteq> snd ` set (permissions s)"
    using assms(1) seedAdminPermissions_sub by (auto simp: seeded_def)
  then obtain ids where ids: "resolve_permissions s seedAdminPermissions = Some (ids, sort_by (coll s) (remdups seedAdminPermissions))"
    by (rule seed_resolve_Some)
  with assms(1) have "surplus s ManagedRoleKeyOrganizationAdmin ids = []" "lacking s ManagedRoleKeyOrganizationAdmin ids = []"
    by (auto simp: seeded_def aligned_def)
  then have "sync_managed_role_permissions ManagedRoleKeyOrganizationAdmin seedAdminPermissions s = (Inr (), s)"
    by (simp add: sync_managed_role_permissions_def ids andThen_def reads_def updates_def ret_def)
  then show ?thesis
    by (simp add: Seed_def run_tx_def atomic_def andThen_def ps rs gs assms(2))
qed

lemma aligned_synced:
  assumes "t = s\<lparr>custom_role_permissions := filter (\<lambda>rp. rp \<notin> set (surplus s key ids)) (custom_role_permissions s) @ lacking s key ids\<rparr>"
  shows "aligned t key ids"
proof -
  have "x \<notin> set (surplus t key ids)" "x \<notin> set (lacking t key ids)" for x
    by (cases x; force simp: assms surplus_def lacking_def managed_role_ids_def)+
  then show ?thesis by (simp add: aligned_def) (metis list.set_sel(1))
qed

lemma managed_role_ids_retouched:
  assumes "list_all2 retouched (custom_roles s) (custom_roles t)"
  shows "managed_role_ids t key = managed_role_ids s key"
proof -
  have "managed_role_ids u key = map fst (filter (\<lambda>(i, k). k = Some key) (map (\<lambda>r. (rol_id r, rol_managed_key r)) (custom_roles u)))" for u
    by (simp add: managed_role_ids_def filter_map o_def case_prod_unfold)
  then show ?thesis using retouched_maps(7)[OF assms] by simp
qed

section \<open>A run of the seed\<close>

lemma seed_stages:
  assumes run: "Seed a b s = (Inr (), t)" and inv: "db_inv s"
  obtains ps rs g qs ids where
    "t = s\<lparr>permissions := permissions s @ ps, system_roles := system_roles s @ rs,
       system_role_permissions := system_role_permissions t, custom_roles := qs,
       custom_role_permissions := custom_role_permissions t, gen := g, locks := []\<rparr>"
    "permissions_ok (permissions t)" "snd ` set (permissions t) = snd ` set (permissions s) \<union> set AllPermissions"
    "system_roles_ok (system_roles t)" "''superadmin'' \<in> sys_name ` set (system_roles t)"
    "set (system_role_permissions s) \<subseteq> set (system_role_permissions t)"
    "role_permissions_ok (sys_role_ids t) (perm_ids t) (system_role_permissions t)" "missing_grants t = []"
    "list_all2 retouched (custom_roles s) qs" "custom_roles_ok (org_ids s) qs"
    "resolve_permissions t seedAdminPermissions = Some (ids, sort_by (coll s) (remdups seedAdminPermissions))"
    "custom_role_permissions t = filter (\<lambda>rp. rp \<notin> set (surplus s ManagedRoleKeyOrganizationAdmin ids))
       (custom_role_permissions s) @ lacking s ManagedRoleKeyOrganizationAdmin ids"
proof -
  from run obtain s1 s2 s3 s4 where
    1: "seed_permissions seedPermissions a s = (Inr (), s1)" and 2: "seed_superadmin b s1 = (Inr (), s2)"
    and 3: "seed_grants s2 = (Inr (), s3)"
    and 4: "sync_managed_role_permissions ManagedRoleKeyOrganizationAdmin seedAdminPermissions s3 = (Inr (), s4)"
    and t: "t = s4\<lparr>locks := []\<rparr>"
    by (auto simp: Seed_def run_tx_def atomic_def andThen_Inr_iff split: prod.splits sum.splits)
  obtain ps where s1: "s1 = s\<lparr>permissions := permissions s @ ps\<rparr>" and ps: "permissions_ok (permissions s @ ps)"
    "snd ` set (permissions s @ ps) = snd ` set (permissions s) \<union> set AllPermissions"
    using seed_permissions_Inr[OF 1] inv unfolding seedPermissions_set by (auto simp: db_inv_def)
  obtain rs g where s2: "s2 = s1\<lparr>system_roles := system_roles s @ rs, gen := g\<rparr>"
    and rs: "system_roles_ok (system_roles s @ rs)" "''superadmin'' \<in> sys_name ` set (system_roles s @ rs)"
    using seed_superadmin_Inr[OF 2] inv by (auto simp: s1 db_inv_def)
  obtain ms where ms: "ms = missing_grants s2" by blast
  have s3: "s3 = s\<lparr>permissions := permissions s @ ps, system_roles := system_roles s @ rs, gen := g,
      system_role_permissions := system_role_permissions s @ ms\<rparr>"
    using 3 ms by (simp add: seed_grants_def s2 s1)
  have "set seedAdminPermissions \<subseteq> snd ` set (permissions s3)"
    using ps(2) seedAdminPermissions_sub by (auto simp: s3 seedPermissions_set)
  then obtain ids where ids: "resolve_permissions s3 seedAdminPermissions = Some (ids, sort_by (coll s3) (remdups seedAdminPermissions))"
    by (rule seed_resolve_Some)
  let ?k = ManagedRoleKeyOrganizationAdmin
  obtain su la where su: "su = surplus s3 ?k ids" and la: "la = lacking s3 ?k ids" by blast
  let ?s = "s3\<lparr>custom_role_permissions := filter (\<lambda>rp. rp \<notin> set su) (custom_role_permissions s3) @ la\<rparr>"
  have "touch_roles (remdups (map fst (su @ la))) ?s = (Inr (), s4)"
    using 4 by (simp add: sync_managed_role_permissions_def ids andThen_Inr_iff su la)
  from seed_touch_Inr[OF this] inv obtain g' qs where
    s4: "s4 = s3\<lparr>custom_role_permissions := filter (\<lambda>rp. rp \<notin> set su) (custom_role_permissions s3) @ la, gen := g', custom_roles := qs\<rparr>"
    and qs: "list_all2 retouched (custom_roles s) qs" "distinct (map rol_etag qs)"
    by (auto simp: s3 db_inv_def custom_roles_ok_def)
  have same: "su = surplus s ?k ids" "la = lacking s ?k ids"
    by (simp_all add: su la surplus_def lacking_def managed_role_ids_def s3)
  have srp: "system_role_permissions t = system_role_permissions s2 @ missing_grants s2" by (simp add: t s4 s3 s2 s1 ms)
  have mg: "missing_grants t = []"
    using missing_grants_granted[of s2] by (simp add: missing_grants_def t s4 s3 s2 s1 ms)
  have rp: "role_permissions_ok (sys_role_ids s2) (perm_ids s2) (system_role_permissions s2 @ missing_grants s2)"
    using ps(1) rs(1) inv by (intro missing_grants_ok) (auto simp: s2 s1 db_inv_def role_permissions_ok_def)
  have tabs: "permissions t = permissions s @ ps" "system_roles t = system_roles s @ rs"
    "permissions s2 = permissions t" "system_roles s2 = system_roles t"
    "custom_role_permissions t = filter (\<lambda>rp. rp \<notin> set su) (custom_role_permissions s) @ la"
    "set (system_role_permissions s) \<subseteq> set (system_role_permissions t)"
    by (simp_all add: t s4 s3 s2 s1)
  show ?thesis
  proof (rule that[where ps = ps and rs = rs and g = g' and qs = qs and ids = ids])
    show "role_permissions_ok (sys_role_ids t) (perm_ids t) (system_role_permissions t)"
      using rp unfolding srp tabs(3,4) .
    show "resolve_permissions t seedAdminPermissions = Some (ids, sort_by (coll s) (remdups seedAdminPermissions))"
      using ids resolve_permissions_same[of t s3] by (simp add: t s4 s3)
    show "custom_roles_ok (org_ids s) qs" using retouched_ok[OF qs] inv by (simp add: db_inv_def)
    show "t = s\<lparr>permissions := permissions s @ ps, system_roles := system_roles s @ rs,
       system_role_permissions := system_role_permissions t, custom_roles := qs,
       custom_role_permissions := custom_role_permissions t, gen := g', locks := []\<rparr>"
      by (simp add: t s4 s3)
  qed (use ps rs qs mg tabs(6) in \<open>simp_all add: tabs(1,2,5) same\<close>)
qed

lemma seed_role_has:
  assumes run: "Seed a b s = (Inr (), t)" and inv: "db_inv s"
  shows "r \<in> set (custom_roles t) \<Longrightarrow> rol_managed_key r = Some ManagedRoleKeyOrganizationAdmin \<Longrightarrow>
      role_has t (rol_id r) n \<longleftrightarrow> n \<in> set OrganizationAdminPermissions"
    and "k \<notin> set (managed_role_ids s ManagedRoleKeyOrganizationAdmin) \<Longrightarrow> role_has t k n = role_has s k n"
    and "seeded t"
    and "managed_role_ids t ManagedRoleKeyOrganizationAdmin = managed_role_ids s ManagedRoleKeyOrganizationAdmin"
    and "role_permissions_ok (role_ids t) (perm_ids t) (custom_role_permissions t)"
proof -
  let ?k = ManagedRoleKeyOrganizationAdmin
  obtain ps rs g qs ids where
    t: "t = s\<lparr>permissions := permissions s @ ps, system_roles := system_roles s @ rs,
       system_role_permissions := system_role_permissions t, custom_roles := qs,
       custom_role_permissions := custom_role_permissions t, gen := g, locks := []\<rparr>"
    and ok: "permissions_ok (permissions t)" and reg: "snd ` set (permissions t) = snd ` set (permissions s) \<union> set AllPermissions"
    and sa: "''superadmin'' \<in> sys_name ` set (system_roles t)" and mg: "missing_grants t = []"
    and qs: "list_all2 retouched (custom_roles s) qs"
    and res: "resolve_permissions t seedAdminPermissions = Some (ids, sort_by (coll s) (remdups seedAdminPermissions))"
    and rp: "custom_role_permissions t = filter (\<lambda>rp. rp \<notin> set (surplus s ?k ids)) (custom_role_permissions s) @ lacking s ?k ids"
    by (rule seed_stages[OF run inv])
  have pt: "permissions t = permissions s @ ps" and qt: "custom_roles t = qs" by (subst t, simp)+
  have mids: "managed_role_ids t ?k = managed_role_ids s ?k"
    using qs by (intro managed_role_ids_retouched) (simp add: qt)
  then show "managed_role_ids t ?k = managed_role_ids s ?k" .
  have "set seedAdminPermissions \<subseteq> snd ` set (permissions t)"
    using reg seedAdminPermissions_sub by (auto simp: seedPermissions_set)
  then have idset: "set ids = {i. \<exists>n \<in> set OrganizationAdminPermissions. (i, n) \<in> set (permissions t)}"
    using res by (auto simp: seedAdminPermissions_eq elim!: seed_resolve_Some)
  have in_t: "(k, i) \<in> set (custom_role_permissions t) \<longleftrightarrow>
      (if k \<in> set (managed_role_ids s ?k) then i \<in> set ids else (k, i) \<in> set (custom_role_permissions s))" for k i
    by (auto simp: rp surplus_def lacking_def)
  have uniq: "(i, n) \<in> set (permissions t) \<Longrightarrow> (i, m) \<in> set (permissions t) \<Longrightarrow> n = m" for i n m
    using ok distinct_key_unique[of fst "permissions t" "(i, n)" "(i, m)"] by (auto simp: permissions_ok_def)
  show "role_has t (rol_id r) n \<longleftrightarrow> n \<in> set OrganizationAdminPermissions"
    if "r \<in> set (custom_roles t)" "rol_managed_key r = Some ?k"
  proof -
    have "rol_id r \<in> set (managed_role_ids t ?k)" using that by (auto simp: managed_role_ids_def)
    then have k: "rol_id r \<in> set (managed_role_ids s ?k)" unfolding mids .
    show ?thesis
    proof
      assume "role_has t (rol_id r) n"
      then obtain i where i: "i \<in> set ids" "(i, n) \<in> set (permissions t)" using k by (auto simp: role_has_def in_t)
      then obtain m where "m \<in> set OrganizationAdminPermissions" "(i, m) \<in> set (permissions t)" by (auto simp: idset)
      with uniq[OF i(2)] show "n \<in> set OrganizationAdminPermissions" by blast
    next
      assume n: "n \<in> set OrganizationAdminPermissions"
      then have "n \<in> snd ` set (permissions t)"
        using reg seedAdminPermissions_sub by (auto simp: seedPermissions_set seedAdminPermissions_eq)
      then obtain i where "(i, n) \<in> set (permissions t)" by auto
      with n k show "role_has t (rol_id r) n" unfolding role_has_def in_t idset by (intro exI[of _ i]) auto
    qed
  qed
  show "role_has t k n = role_has s k n" if k: "k \<notin> set (managed_role_ids s ?k)"
  proof -
    have "(i, n) \<in> set (permissions t) \<longleftrightarrow> (i, n) \<in> set (permissions s)" if "(k, i) \<in> set (custom_role_permissions s)" for i
    proof -
      have "i \<in> perm_ids s" using inv that by (auto simp: db_inv_def role_permissions_ok_def)
      then obtain m where m: "(i, m) \<in> set (permissions s)" by auto
      then show ?thesis using uniq[of i n m] by (auto simp: pt)
    qed
    with k show ?thesis by (auto simp: role_has_def in_t)
  qed
  have "aligned t ?k ids"
  proof -
    have "x \<notin> set (surplus t ?k ids)" "x \<notin> set (lacking t ?k ids)" for x
      by (cases x; auto simp: surplus_def lacking_def in_t mids)+
    then show ?thesis by (simp add: aligned_def) (metis list.set_sel(1))
  qed
  then show "seeded t" using reg sa mg res by (auto simp: seeded_def seedPermissions_set)
  have rids: "rol_id ` set (custom_roles t) = rol_id ` set (custom_roles s)"
    using retouched_maps(1)[OF qs] unfolding qt by (metis list.set_map)
  have "db_inv (s\<lparr>permissions := permissions t\<rparr>)" using inv ok by (auto simp: pt db_inv_def role_permissions_ok_def)
  moreover have "resolve_permissions (s\<lparr>permissions := permissions t\<rparr>) seedAdminPermissions =
      resolve_permissions t seedAdminPermissions" by (rule resolve_permissions_same) (simp, subst t, simp)
  ultimately have "distinct ids" using res resolve_distinct by metis
  then have "distinct (custom_role_permissions t)" using inv unfolding rp lacking_def managed_role_ids_def
    by (auto intro!: distinct_product distinct_filter distinct_map_filter simp: db_inv_def role_permissions_ok_def custom_roles_ok_def)
  moreover have "k \<in> role_ids t \<and> i \<in> perm_ids t" if ki: "(k, i) \<in> set (custom_role_permissions t)" for k i
  proof (cases "k \<in> set (managed_role_ids s ?k)")
    case True
    then have "k \<in> role_ids s" by (auto simp: managed_role_ids_def)
    moreover from True ki have "i \<in> set ids" by (simp add: in_t)
    then have "i \<in> perm_ids t" unfolding idset by force
    ultimately show ?thesis by (simp add: rids)
  next
    case False
    with ki have "(k, i) \<in> set (custom_role_permissions s)" by (simp add: in_t)
    then have "k \<in> role_ids s \<and> i \<in> perm_ids s" using inv by (auto simp: db_inv_def role_permissions_ok_def)
    then show ?thesis by (auto simp: rids pt)
  qed
  ultimately show "role_permissions_ok (role_ids t) (perm_ids t) (custom_role_permissions t)"
    by (auto simp: role_permissions_ok_def)
qed

section \<open>What the backend relies on\<close>

lemma seed_db_inv:
  assumes run: "Seed a b s = (Inr (), t)" and inv: "db_inv s"
  shows "db_inv t" and "control_inv s \<Longrightarrow> control_inv t" and "locks t = []"
    and "set AllPermissions \<subseteq> snd ` set (permissions t)"
    and "\<forall>r \<in> set (system_roles t). sys_name r = ''superadmin'' \<longrightarrow> (u, sys_id r) \<in> set (system_role_assignments t) \<longrightarrow>
      fully_privileged t u"
    and "snd ` set (permissions t) = snd ` set (permissions s) \<union> set AllPermissions"
    and "''superadmin'' \<in> sys_name ` set (system_roles t)"
    and "users t = users s \<and> organizations t = organizations s \<and> project_role_assignments t = project_role_assignments s"
proof -
  obtain ps rs g qs ids where
    t: "t = s\<lparr>permissions := permissions s @ ps, system_roles := system_roles s @ rs,
       system_role_permissions := system_role_permissions t, custom_roles := qs,
       custom_role_permissions := custom_role_permissions t, gen := g, locks := []\<rparr>"
    and ok: "permissions_ok (permissions t)" "system_roles_ok (system_roles t)" "custom_roles_ok (org_ids s) qs"
      "role_permissions_ok (sys_role_ids t) (perm_ids t) (system_role_permissions t)"
    and reg: "snd ` set (permissions t) = snd ` set (permissions s) \<union> set AllPermissions"
    and sa: "''superadmin'' \<in> sys_name ` set (system_roles t)" and mg: "missing_grants t = []"
    and qs: "list_all2 retouched (custom_roles s) qs"
    by (rule seed_stages[OF run inv])
  have same: "users t = users s" "organizations t = organizations s" "projects t = projects s" "org_membership t = org_membership s"
    "org_role_assignments t = org_role_assignments s" "project_role_assignments t = project_role_assignments s"
    "system_role_assignments t = system_role_assignments s" "magic_link_tokens t = magic_link_tokens s"
    "refresh_tokens t = refresh_tokens s" "custom_roles t = qs" "locks t = []" "system_roles t = system_roles s @ rs"
    by (subst t, simp)+
  have ro: "role_orgs t = role_orgs s" using arg_cong[OF retouched_maps(3)[OF qs], of set] by (simp add: same)
  have "system_assignments_ok (user_ids t) (sys_role_ids t) (system_role_assignments t)"
    using inv by (auto simp: db_inv_def system_assignments_ok_def same)
  with inv ok seed_role_has(5)[OF run inv] show db: "db_inv t"
    unfolding db_inv_def ro by (simp add: same)
  show "control_inv t" if "control_inv s" using that by (rule control_inv_same) (simp_all add: same)
  show "users t = users s \<and> organizations t = organizations s \<and> project_role_assignments t = project_role_assignments s"
    by (simp add: same)
  show "\<forall>r \<in> set (system_roles t). sys_name r = ''superadmin'' \<longrightarrow> (u, sys_id r) \<in> set (system_role_assignments t) \<longrightarrow>
      fully_privileged t u"
  proof (intro ballI impI)
    fix r assume r: "r \<in> set (system_roles t)" "sys_name r = ''superadmin''" "(u, sys_id r) \<in> set (system_role_assignments t)"
    have "u \<in> user_ids t" using db r(3) by (auto simp: db_inv_def system_assignments_ok_def)
    moreover have "holds_system t u n" if "n \<in> snd ` set (permissions t)" for n
      unfolding holds_system_def using r(3) missing_grants_superadmin[OF mg r(1,2) that] by (intro exI[of _ "sys_id r"] conjI)
    ultimately show "fully_privileged t u" by (simp only: fully_privileged_def) blast
  qed
  show "locks t = []" by (simp add: same)
  show "set AllPermissions \<subseteq> snd ` set (permissions t)"
    "snd ` set (permissions t) = snd ` set (permissions s) \<union> set AllPermissions" using reg by auto
  show "''superadmin'' \<in> sys_name ` set (system_roles t)" by (rule sa)
qed

lemma seed_rbac_inv:
  assumes run: "Seed a b s = (Inr (), t)" and inv: "db_inv s" "rbac_inv s"
    and free: "\<forall>a \<in> set (project_role_assignments s). pa_role_id a \<notin> set (managed_role_ids s ManagedRoleKeyOrganizationAdmin)"
  shows "rbac_inv t"
proof -
  have "n \<notin> set SystemOnlyPermissions" if h: "role_has t k n" for k n
  proof (cases "k \<in> set (managed_role_ids s ManagedRoleKeyOrganizationAdmin)")
    case True
    then obtain r where "r \<in> set (custom_roles t)" "rol_managed_key r = Some ManagedRoleKeyOrganizationAdmin" "k = rol_id r"
      unfolding seed_role_has(4)[OF run inv(1), symmetric] by (auto simp: managed_role_ids_def)
    with h have "n \<in> set OrganizationAdminPermissions" using seed_role_has(1)[OF run inv(1)] by blast
    then show ?thesis by (auto simp: perm_lists perm_names)
  next
    case False
    with h inv(2) show ?thesis using seed_role_has(2)[OF run inv(1)] unfolding rbac_inv_def by blast
  qed
  moreover have "isProjectScope n" if "a \<in> set (project_role_assignments t)" "role_has t (pa_role_id a) n" for a n
  proof -
    have a: "a \<in> set (project_role_assignments s)" using that(1) seed_db_inv(8)[OF run inv(1)] by simp
    with free that(2) have "role_has s (pa_role_id a) n" using seed_role_has(2)[OF run inv(1)] by blast
    with a inv(2) show ?thesis unfolding rbac_inv_def by blast
  qed
  ultimately show ?thesis unfolding rbac_inv_def by blast
qed

text \<open>The seed succeeds when the generated numbers and UUIDs are new.\<close>

definition fresh_etags :: "nat \<Rightarrow> db \<Rightarrow> bool" where
  "fresh_etags n s \<longleftrightarrow> distinct (next_uuids n s) \<and> set (next_uuids n s) \<inter> rol_etag ` set (custom_roles s) = {}"

lemma next_uuids_Suc:
  assumes "gen t = (gen s)\<lparr>g_uuid_pos := Suc (g_uuid_pos (gen s))\<rparr>"
  shows "next_uuids (Suc n) s = g_uuids (gen s) (g_uuid_pos (gen s)) # next_uuids n t"
  by (simp add: next_uuids_def assms map_upt_Suc del: upt_Suc)

lemma touch_roles_succeeds: "length ks \<le> n \<Longrightarrow> fresh_etags n s \<Longrightarrow> fst (touch_roles ks s) = Inr ()"
proof (induction ks arbitrary: n s)
  case (Cons k ks)
  then obtain m where n: "n = Suc m" "length ks \<le> m" by (cases n) auto
  let ?e = "g_uuids (gen s) (g_uuid_pos (gen s))"
  let ?f = "\<lambda>r. if rol_id r = k then r\<lparr>rol_updated_at := Some (clock s), rol_etag := ?e\<rparr> else r"
  let ?t = "s\<lparr>gen := (gen s)\<lparr>g_uuid_pos := Suc (g_uuid_pos (gen s))\<rparr>, custom_roles := map ?f (custom_roles s)\<rparr>"
  have nx: "next_uuids n s = ?e # next_uuids m ?t" unfolding n(1) by (rule next_uuids_Suc) simp
  have "rol_etag ` set (custom_roles ?t) \<subseteq> insert ?e (rol_etag ` set (custom_roles s))" by auto
  then have "fresh_etags m ?t" using Cons.prems(2) unfolding fresh_etags_def nx by auto
  moreover have "?e \<notin> rol_etag ` set (filter (\<lambda>r. rol_id r \<noteq> k) (custom_roles s))"
    using Cons.prems(2) unfolding fresh_etags_def nx by auto
  ultimately show ?case using Cons.IH[OF n(2), of ?t]
    by (simp add: andThen_def gen_random_uuid_def reads_def updates_def cong: if_cong)
qed (simp add: ret_def)

lemma sync_succeeds:
  assumes "set names \<subseteq> snd ` set (permissions s)" "length (managed_role_ids s key) \<le> n" "fresh_etags n s \<or> n = 0"
  shows "fst (sync_managed_role_permissions key names s) = Inr ()"
proof -
  obtain ids where ids: "resolve_permissions s names = Some (ids, sort_by (coll s) (remdups names))"
    using assms(1) by (rule seed_resolve_Some)
  let ?s = "s\<lparr>custom_role_permissions := filter (\<lambda>rp. rp \<notin> set (surplus s key ids)) (custom_role_permissions s) @ lacking s key ids\<rparr>"
  let ?ks = "remdups (map fst (surplus s key ids @ lacking s key ids))"
  have "set ?ks \<subseteq> set (managed_role_ids s key)" by (auto simp: surplus_def lacking_def)
  then have "length ?ks \<le> length (managed_role_ids s key)"
    by (metis card_mono card_length distinct_card distinct_remdups finite_set le_trans)
  then have "fst (touch_roles ?ks ?s) = Inr ()"
  proof (cases "n = 0")
    case True
    then have "?ks = []" using \<open>length ?ks \<le> _\<close> assms(2) by simp
    then show ?thesis by (simp only: touch_roles.simps ret_def) simp
  next
    case False
    then have "fresh_etags n ?s" using assms(3) by (simp add: fresh_etags_def next_uuids_def)
    then show ?thesis using \<open>length ?ks \<le> _\<close> assms(2) by (intro touch_roles_succeeds) auto
  qed
  then show ?thesis by (simp add: sync_managed_role_permissions_def ids andThen_def reads_def updates_def)
qed

text \<open>C36: after a successful seed the registry has every permission of the code, every managed administrator
  role has exactly the permissions the code gives a new one, whoever holds the superadmin role holds every
  registered permission, the invariants of the backend are kept, and seeding once more changes nothing at all.\<close>

theorem seed_settles:
  assumes "Seed a b s = (Inr (), t)" "db_inv s" "rbac_inv s" "control_inv s"
    and "\<forall>p \<in> set (project_role_assignments s). pa_role_id p \<notin> set (managed_role_ids s ManagedRoleKeyOrganizationAdmin)"
  shows "db_inv t \<and> rbac_inv t \<and> control_inv t \<and> set AllPermissions \<subseteq> snd ` set (permissions t) \<and>
    (\<forall>r \<in> set (custom_roles t). rol_managed_key r = Some ManagedRoleKeyOrganizationAdmin \<longrightarrow>
       {n. role_has t (rol_id r) n} = set OrganizationAdminPermissions) \<and>
    (\<forall>r \<in> set (system_roles t). sys_name r = ''superadmin'' \<longrightarrow>
       (\<forall>u. (u, sys_id r) \<in> set (system_role_assignments t) \<longrightarrow> fully_privileged t u)) \<and>
    Seed a' b' t = (Inr (), t)"
proof -
  note run = assms(1,2)
  have "{n. role_has t (rol_id r) n} = set OrganizationAdminPermissions"
    if "r \<in> set (custom_roles t)" "rol_managed_key r = Some ManagedRoleKeyOrganizationAdmin" for r
    using seed_role_has(1)[OF run that] by simp
  moreover have "\<forall>r \<in> set (system_roles t). sys_name r = ''superadmin'' \<longrightarrow>
       (\<forall>u. (u, sys_id r) \<in> set (system_role_assignments t) \<longrightarrow> fully_privileged t u)"
    using seed_db_inv(5)[OF run] by blast
  moreover have "Seed a' b' t = (Inr (), t)" by (rule seeded_again[OF seed_role_has(3)[OF run] seed_db_inv(3)[OF run]])
  ultimately show ?thesis
    using seed_db_inv(1,2,4)[OF run] seed_rbac_inv[OF run assms(3,5)] assms(4) by simp
qed

lemma demo_seeded: "fst (Seed 4 2 demo_db) = Inr ()"
proof -
  have "fst (seed_permissions seedPermissions 4 demo_db) = Inr ()"
    by (rule seed_permissions_fresh) (simp add: demo_db_def)
  then obtain s1 where 1: "seed_permissions seedPermissions 4 demo_db = (Inr (), s1)" by (metis prod.collapse)
  obtain ps where s1: "s1 = demo_db\<lparr>permissions := ps\<rparr>" and ps: "set AllPermissions \<subseteq> snd ` set ps"
    using seed_permissions_Inr[OF 1] demo_db_inv by (auto simp: db_inv_def seedPermissions_set)
  have 2: "seed_superadmin 2 s1 = (Inr (), s1)"
    by (simp add: seed_superadmin_def s1 demo_db_def andThen_def reads_def ret_def)
  let ?s2 = "s1\<lparr>system_role_permissions := system_role_permissions s1 @ missing_grants s1\<rparr>"
  have "next_uuids 3 demo_db = [1000, 1001, 1002]" by (simp add: next_uuids_def demo_db_def demo_gen_def numeral_3_eq_3)
  then have "fresh_etags 3 ?s2" by (simp add: fresh_etags_def next_uuids_def s1 demo_db_def demo_role_def)
  then have "fst (sync_managed_role_permissions ManagedRoleKeyOrganizationAdmin seedAdminPermissions ?s2) = Inr ()"
    using ps seedAdminPermissions_sub
    by (intro sync_succeeds[where n = 3]) (auto simp: s1 seedPermissions_set demo_db_def managed_role_ids_def)
  then obtain u where "sync_managed_role_permissions ManagedRoleKeyOrganizationAdmin seedAdminPermissions ?s2 = (Inr (), u)"
    by (metis prod.collapse)
  then show ?thesis
    by (simp add: Seed_def run_tx_def atomic_def andThen_def 1 2 seed_grants_def updates_def)
qed

theorem seed_settles_witness:
  "Seed 50 50 (snd (Seed 4 2 demo_db)) = (Inr (), snd (Seed 4 2 demo_db)) \<and>
   (3, 4) \<notin> set (custom_role_permissions demo_db) \<and>
   {n. role_has (snd (Seed 4 2 demo_db)) 3 n} = set OrganizationAdminPermissions"
proof -
  let ?t = "snd (Seed 4 2 demo_db)"
  have run: "Seed 4 2 demo_db = (Inr (), ?t)" using demo_seeded by (metis prod.collapse)
  have ids: "managed_role_ids demo_db ManagedRoleKeyOrganizationAdmin = [3]"
    by (simp add: managed_role_ids_def demo_defs)
  then have "3 \<in> set (managed_role_ids ?t ManagedRoleKeyOrganizationAdmin)"
    using seed_role_has(4)[OF run demo_db_inv] by simp
  then obtain r where r: "r \<in> set (custom_roles ?t)" "rol_id r = 3" "rol_managed_key r = Some ManagedRoleKeyOrganizationAdmin"
    by (auto simp: managed_role_ids_def)
  have "map pa_role_id (project_role_assignments demo_db) = [1]" by (simp add: demo_db_def)
  then have free: "\<forall>p \<in> set (project_role_assignments demo_db).
      pa_role_id p \<notin> set (managed_role_ids demo_db ManagedRoleKeyOrganizationAdmin)" unfolding ids by auto
  have "(3, 4) \<notin> set (custom_role_permissions demo_db)" by (simp add: demo_db_def)
  moreover note seed_settles[OF run demo_db_inv demo_rbac_inv demo_control_inv free, of 50 50]
  ultimately show ?thesis using r by (elim conjE) (metis (mono_tags, lifting))
qed

section \<open>A fresh database\<close>

definition no_rows :: "db \<Rightarrow> bool" where
  "no_rows s \<longleftrightarrow> users s = [] \<and> organizations s = [] \<and> projects s = [] \<and> org_membership s = [] \<and> permissions s = [] \<and>
     custom_roles s = [] \<and> custom_role_permissions s = [] \<and> org_role_assignments s = [] \<and>
     project_role_assignments s = [] \<and> system_roles s = [] \<and> system_role_permissions s = [] \<and>
     system_role_assignments s = [] \<and> magic_link_tokens s = [] \<and> refresh_tokens s = []"

lemma no_rows_inv: "no_rows s \<Longrightarrow> db_inv s \<and> rbac_inv s \<and> control_inv s"
  by (simp add: no_rows_def db_inv_def constraint_defs rbac_inv_def role_has_def control_inv_def)

lemma no_rows_seed:
  assumes "no_rows s"
  shows "\<exists>t. Seed a b s = (Inr (), t) \<and> gen t = (gen s)\<lparr>g_uuid_pos := Suc (g_uuid_pos (gen s))\<rparr>"
proof -
  have "fst (seed_permissions seedPermissions a s) = Inr ()" using assms by (intro seed_permissions_fresh) (simp add: no_rows_def)
  then obtain s1 where 1: "seed_permissions seedPermissions a s = (Inr (), s1)" by (metis prod.collapse)
  obtain ps where s1: "s1 = s\<lparr>permissions := ps\<rparr>" and ps: "snd ` set ps = set AllPermissions"
    using seed_permissions_Inr[OF 1] assms by (auto simp: no_rows_def permissions_ok_def seedPermissions_set)
  obtain s2 where 2: "seed_superadmin b s1 = (Inr (), s2)" and s2: "custom_roles s2 = []" "custom_role_permissions s2 = []"
    "permissions s2 = ps" "gen s2 = (gen s)\<lparr>g_uuid_pos := Suc (g_uuid_pos (gen s))\<rparr>"
    using assms by (simp add: seed_superadmin_def s1 no_rows_def andThen_def reads_def gen_random_uuid_def updates_def)
  let ?s3 = "s2\<lparr>system_role_permissions := system_role_permissions s2 @ missing_grants s2\<rparr>"
  have "set seedAdminPermissions \<subseteq> snd ` set (permissions ?s3)" using ps s2 seedAdminPermissions_sub by (auto simp: seedPermissions_set)
  then obtain ids where ids: "resolve_permissions ?s3 seedAdminPermissions = Some (ids, sort_by (coll ?s3) (remdups seedAdminPermissions))"
    by (rule seed_resolve_Some)
  have "sync_managed_role_permissions ManagedRoleKeyOrganizationAdmin seedAdminPermissions ?s3 = (Inr (), ?s3)"
    using s2 by (simp add: sync_managed_role_permissions_def ids andThen_def reads_def updates_def ret_def surplus_def lacking_def managed_role_ids_def)
  then show ?thesis
    by (simp add: Seed_def run_tx_def atomic_def andThen_def 1 2 seed_grants_def updates_def s2)
qed

lemma seed_dev_operator_fresh:
  assumes inv: "db_inv t" and u: "users t = []" and sa: "''superadmin'' \<in> sys_name ` set (system_roles t)"
  obtains o' r u' where "seed_dev_operator t = (Inr (), u')" "users u' = [o']" "usr_email o' = operatorEmail"
    "r \<in> set (system_roles t)" "sys_name r = ''superadmin''"
    "system_role_assignments u' = [(usr_id o', sys_id r)]"
    "u' = t\<lparr>users := users u', system_role_assignments := system_role_assignments u', gen := gen u', locks := []\<rparr>"
    "usr_id o' < g_users (gen u')" "{usr_external_id o', usr_etag o'} = set (next_uuids 2 t)"
    "g_uuids (gen u') = g_uuids (gen t)" "g_uuid_pos (gen u') = g_uuid_pos (gen t) + 2"
proof -
  from sa obtain r where r: "r \<in> set (system_roles t)" "sys_name r = ''superadmin''" by auto
  then have f: "filter (\<lambda>r. sys_name r = ''superadmin'') (system_roles t) = [r]"
    using inv filter_eq_single[of sys_name "system_roles t" r] by (simp add: db_inv_def system_roles_ok_def)
  have a: "system_role_assignments t = []"
    using inv u by (cases "system_role_assignments t") (auto simp: db_inv_def system_assignments_ok_def)
  let ?x = "g_uuids (gen t)" and ?n = "g_uuid_pos (gen t)"
  let ?o = "\<lparr>usr_id = g_users (gen t), usr_external_id = ?x ?n, usr_email = operatorEmail, usr_name = ''Operator'',
    usr_email_verified_at = None, usr_created_at = clock t, usr_updated_at = None, usr_etag = ?x (Suc ?n)\<rparr>"
  let ?u = "t\<lparr>users := [?o], system_role_assignments := [(g_users (gen t), sys_id r)],
     gen := (gen t)\<lparr>g_users := g_users (gen t) + 1, g_uuid_pos := Suc (Suc ?n)\<rparr>, locks := []\<rparr>"
  have "seed_dev_operator t = (Inr (), ?u)"
    by (simp add: seed_dev_operator_def seed_operator_def seed_operator_grant_def run_tx_def atomic_def andThen_def
        nextval_def gen_random_uuid_def reads_def updates_def u f a)
  then show thesis using r by (intro that[of ?u ?o r]) (simp_all add: next_uuids_def numeral_2_eq_2)
qed

text \<open>The start of the server seeds a database without rows, and the operator script adds the first operator: the
  result satisfies everything the backend assumes of the state it starts from.\<close>

lemma fresh_start:
  assumes "no_rows s" and uuids: "distinct (next_uuids 7 s)"
  obtains t u o' where "Seed a b s = (Inr (), t)" "seed_dev_operator t = (Inr (), u)" "backend_inv u" "registry_seeded u"
    "users u = [o']" "usr_email o' = operatorEmail" "fully_privileged u (usr_id o')" "gens_fresh 4 u" "organizations u = []"
proof -
  note inv = no_rows_inv[OF assms(1)]
  from no_rows_seed[OF assms(1)] obtain t where run: "Seed a b s = (Inr (), t)"
    and gt: "gen t = (gen s)\<lparr>g_uuid_pos := Suc (g_uuid_pos (gen s))\<rparr>" by blast
  have db: "db_inv t" and ctl: "control_inv t" and rb: "rbac_inv t"
    using inv seed_db_inv(1,2)[OF run] seed_rbac_inv[OF run] assms(1) by (auto simp: no_rows_def)
  have t: "users t = []" "organizations t = []" using seed_db_inv(8)[OF run] inv assms(1) by (auto simp: no_rows_def)
  have reg: "registry_seeded t" using seed_db_inv(6)[OF run] inv assms(1) by (simp add: registry_seeded_def no_rows_def)
  have sa: "''superadmin'' \<in> sys_name ` set (system_roles t)" using seed_db_inv(7)[OF run] inv by simp
  obtain o' r u where
    op: "seed_dev_operator t = (Inr (), u)" "users u = [o']" "usr_email o' = operatorEmail"
      "r \<in> set (system_roles t)" "sys_name r = ''superadmin''" "system_role_assignments u = [(usr_id o', sys_id r)]"
    and u: "u = t\<lparr>users := users u, system_role_assignments := system_role_assignments u, gen := gen u, locks := []\<rparr>"
    and gu: "usr_id o' < g_users (gen u)" "{usr_external_id o', usr_etag o'} = set (next_uuids 2 t)"
      "g_uuids (gen u) = g_uuids (gen t)" "g_uuid_pos (gen u) = g_uuid_pos (gen t) + 2"
    by (rule seed_dev_operator_fresh[OF db t(1) sa])
  have same: "organizations u = organizations t" "projects u = projects t" "org_membership u = org_membership t"
    "permissions u = permissions t" "custom_roles u = custom_roles t" "custom_role_permissions u = custom_role_permissions t"
    "org_role_assignments u = org_role_assignments t" "project_role_assignments u = project_role_assignments t"
    "system_roles u = system_roles t" "system_role_permissions u = system_role_permissions t"
    "magic_link_tokens u = magic_link_tokens t" "refresh_tokens u = refresh_tokens t"
    by (subst u, simp)+
  have none: "org_membership t = []" "magic_link_tokens t = []" "refresh_tokens t = []" "projects t = []" "custom_roles t = []"
    using db t by (auto simp: db_inv_def membership_ok_def tokens_ok_def projects_ok_def custom_roles_ok_def
        intro!: equals0I simp flip: set_empty)
  have full: "fully_privileged u (usr_id o')"
  proof -
    have "missing_grants t = []" using seed_role_has(3)[OF run] inv by (simp add: seeded_def)
    then have "system_role_has t (sys_id r) n" if "n \<in> snd ` set (permissions t)" for n
      using missing_grants_superadmin op(4,5) that by blast
    then show ?thesis by (simp add: fully_privileged_def holds_system_def system_role_has_def same op(2,6))
  qed
  have "db_inv u" using db imageI[OF op(4), of sys_id] none unfolding db_inv_def same op(2,6)
    by (auto simp: constraint_defs t)
  moreover have "rbac_inv u" using rb by (simp add: rbac_inv_def role_has_def same)
  moreover have "control_inv u" using ctl by (simp add: control_inv_def control_projects_def same)
  ultimately have "backend_inv u" using full by (auto simp: backend_inv_def org_inv_def has_admin_def)
  moreover have "registry_seeded u" using reg by (simp add: registry_seeded_def same)
  moreover have "gens_fresh 4 u"
  proof -
    have n: "next_uuids 7 s = g_uuids (gen s) (g_uuid_pos (gen s)) # next_uuids 2 t @ next_uuids 4 u"
      by (simp add: next_uuids_def gt gu(3,4) eval_nat_numeral)
    show ?thesis using uuids gu(1) unfolding gens_fresh_def used_uuids_def n
      by (auto simp: op(2) same none t simp flip: gu(2))
  qed
  ultimately show thesis using t(2) same(1) by (intro that[OF run op(1) _ _ op(2,3) full]) simp_all
qed

definition empty_db :: db where
  "empty_db = \<lparr>users = [], organizations = [], projects = [], org_membership = [], permissions = [], custom_roles = [],
     custom_role_permissions = [], org_role_assignments = [], project_role_assignments = [], system_roles = [],
     system_role_permissions = [], system_role_assignments = [], magic_link_tokens = [], refresh_tokens = [],
     clock = 100, gen = demo_gen, locks = [], coll = (\<lambda>_ _. True), natural = (\<lambda>_ _. True)\<rparr>"

lemma empty_db_rows: "no_rows empty_db" "distinct (next_uuids 7 empty_db)"
  by (simp add: no_rows_def empty_db_def, code_simp)

end
