(* ===== verification/Cli.thy ===== *)
theory Cli
  imports SeedProps ReadOnly Stdlib
begin

text \<open>
  The operator's command line, \<open>backend/cmd/cli/commands\<close>. A command is a value of its parsed flags; it returns
  the lines it prints (of a table the cells of each row, which \<open>text/tabwriter\<close> pads). \<open>up\<close> is \<open>uuid.Parse\<close>.
  Parsing the arguments and the connection to the database (\<open>main.go\<close>), and \<open>db migrate\<close> are left out.
\<close>

section \<open>operator.go\<close>

definition resolveUser :: "(string \<Rightarrow> uuid option) \<Rightarrow> string \<Rightarrow> User op" where
  "resolveUser up ref = (case up ref of Some i \<Rightarrow> UserByID i | None \<Rightarrow> UserByEmail ref)"

definition contextWithOperator :: "(string \<Rightarrow> uuid option) \<Rightarrow> string \<Rightarrow> AuthSession op" where
  "contextWithOperator up ref = andThen (resolveUser up ref) (\<lambda>operator.
     ret \<lparr>as_User = \<lparr>au_UserID = u_ID operator, au_Email = u_Email operator, au_Permissions = []\<rparr>,
       as_Project = None\<rparr>)"

section \<open>user.go\<close>

definition defaultUserListPageSize :: int where
  "defaultUserListPageSize = 20"

definition userCreate :: "(string \<Rightarrow> uuid option) \<Rightarrow> address_parser \<Rightarrow> string \<Rightarrow> string \<Rightarrow> string \<Rightarrow> string list list op" where
  "userCreate up pa operator email name =
    andThen (contextWithOperator up operator) (\<lambda>_.
    andThen (CreateUser pa \<lparr>cu_Email = email, cu_Name = name\<rparr>) (\<lambda>u.
    ret [[''created user '' @ u_Email u @ '' ('' @ uuidString (u_ID u) @ '')'']]))"

definition userRow :: "(time \<Rightarrow> string) \<Rightarrow> User \<Rightarrow> string list" where
  "userRow rfc3339 u = [u_Email u, u_Name u, uuidString (u_ID u), rfc3339 (u_CreatedAt u)]"

definition userList :: "(time \<Rightarrow> string) \<Rightarrow> int \<Rightarrow> int \<Rightarrow> string \<Rightarrow> string \<Rightarrow> string list list op" where
  "userList rfc3339 pageSize page email name =
    (if page < 1 then throw (ErrMsg (''page '' @ Itoa page @ '': must be >= 1''))
     else let offset = wrapInt (wrapInt (page - 1) * pageSize) in
       andThen (Users \<lparr>uf_Email = email, uf_Name = name\<rparr> [] pageSize offset) (\<lambda>(usrs, total).
       ret ([[''EMAIL'', ''NAME'', ''ID'', ''CREATED AT'']] @ map (userRow rfc3339) usrs @
         [[if usrs = [] then ''0 of '' @ Itoa total
           else Itoa (wrapInt (offset + 1)) @ ''-'' @ Itoa (wrapInt (offset + int (length usrs))) @ '' of '' @ Itoa total]])))"

section \<open>role.go\<close>

definition roleAssignSystem :: "(string \<Rightarrow> uuid option) \<Rightarrow> string \<Rightarrow> string \<Rightarrow> string \<Rightarrow> string list list op" where
  "roleAssignSystem up operator ref roleName =
    andThen (contextWithOperator up operator) (\<lambda>_.
    andThen (resolveUser up ref) (\<lambda>u.
    andThen (BootstrapAssignSystemRole (u_ID u) roleName) (\<lambda>_.
    ret [[''assigned '' @ roleName @ '' to '' @ u_Email u @ '' ('' @ uuidString (u_ID u) @ '')'']])))"

section \<open>org.go\<close>

definition bootstrapDevProjectName :: string where
  "bootstrapDevProjectName = ''dev''"

definition ensureOrganization :: "string \<Rightarrow> string \<Rightarrow> Organization op" where
  "ensureOrganization name defaultProjectName = (\<lambda>s. case OrganizationByName name s of
      (Inl e, t) \<Rightarrow> if e \<noteq> ErrNotFound then (Inl e, t)
        else BootstrapOrganization \<lparr>co_Name = name, co_ProjectName = defaultProjectName\<rparr> t
    | (Inr o', t) \<Rightarrow> (Inr o', t))"

definition orgBootstrap :: "(string \<Rightarrow> uuid option) \<Rightarrow> string \<Rightarrow> string list list op" where
  "orgBootstrap up operator =
    andThen (contextWithOperator up operator) (\<lambda>_.
    andThen (ensureOrganization SystemOrgName bootstrapDevProjectName) (\<lambda>theapp.
    ret [[''organization '' @ o_Name theapp @ '' ('' @ Itoa (o_ID theapp) @ ''), control project '' @
      Itoa (o_ControlProjectID theapp)]]))"

section \<open>Commands\<close>

datatype cli_command =
    UserCreateCommand string string string
  | UserListCommand int int string string
  | RoleAssignSystemCommand string string string
  | OrgBootstrapCommand string

record cli_env =
  cli_uuid_Parse :: "string \<Rightarrow> uuid option"
  cli_ParseAddress :: address_parser
  cli_RFC3339 :: "time \<Rightarrow> string"

primrec run_cli :: "cli_env \<Rightarrow> cli_command \<Rightarrow> string list list op" where
  "run_cli E (UserCreateCommand operator email name) =
    userCreate (cli_uuid_Parse E) (cli_ParseAddress E) operator email name"
| "run_cli E (UserListCommand pageSize page email name) = userList (cli_RFC3339 E) pageSize page email name"
| "run_cli E (RoleAssignSystemCommand operator ref roleName) = roleAssignSystem (cli_uuid_Parse E) operator ref roleName"
| "run_cli E (OrgBootstrapCommand operator) = orgBootstrap (cli_uuid_Parse E) operator"

section \<open>A command is at most one call of the services\<close>

lemma UserByEmail_read [read_intros]: "read_only (UserByEmail e)"
  unfolding UserByEmail_def pguser_UserByEmail_def userByEmailQuery_def by (intro read_intros) (simp, intro read_intros)

lemma OrganizationByName_read [read_intros]: "read_only (OrganizationByName n)"
  unfolding OrganizationByName_def pgorg_OrganizationByName_def organizationByNameQuery_def
  by (intro read_intros) (simp, intro read_intros)

lemma contextWithOperator_read [read_intros]: "read_only (contextWithOperator up r)" "read_only (resolveUser up r)"
  unfolding contextWithOperator_def resolveUser_def by (intro read_intros)+

definition reads_or_calls :: "address_parser \<Rightarrow> Config \<Rightarrow> 'a op \<Rightarrow> bool" where
  "reads_or_calls pa cfg m \<longleftrightarrow> (\<forall>s. snd (m s) = s \<or> (\<exists>c. snd (m s) = snd (run_call pa cfg c s)))"

named_theorems cli_intros "commands that read or make one call"

lemma reads_or_calls_read [cli_intros]: "read_only m \<Longrightarrow> reads_or_calls pa cfg m"
  by (simp add: reads_or_calls_def read_only_def)

lemma reads_or_calls_after [cli_intros]:
  "read_only m \<Longrightarrow> (\<And>x. reads_or_calls pa cfg (k x)) \<Longrightarrow> reads_or_calls pa cfg (andThen m k)"
  by (auto simp: reads_or_calls_def read_only_def andThen_def split: prod.splits sum.splits) (metis snd_conv)+

lemma reads_or_calls_ret [cli_intros]:
  "reads_or_calls pa cfg m \<Longrightarrow> reads_or_calls pa cfg (andThen m (\<lambda>x. ret (f x)))"
  by (simp add: reads_or_calls_def andThen_def ret_def split: prod.splits sum.splits) (metis snd_conv)

lemma run_call_unit: "snd (andThen m (\<lambda>_. ret ()) s) = snd (m s)"
  by (simp add: andThen_def ret_def split: prod.splits sum.splits)

lemma calls [cli_intros]:
  "reads_or_calls pa cfg (CreateUser pa cu)" "reads_or_calls pa cfg (BootstrapAssignSystemRole x n)"
  "reads_or_calls pa cfg (BootstrapOrganization co)"
proof -
  show "reads_or_calls pa cfg (CreateUser pa cu)"
    unfolding reads_or_calls_def by (intro allI disjI2 exI[of _ "UserCreate cu"]) (simp add: run_call_unit)
  show "reads_or_calls pa cfg (BootstrapAssignSystemRole x n)"
    unfolding reads_or_calls_def by (intro allI disjI2 exI[of _ "BootstrapAssignSystem x n"]) simp
  show "reads_or_calls pa cfg (BootstrapOrganization co)"
    unfolding reads_or_calls_def
    by (intro allI disjI2 exI[of _ "OrgCall None (CallBootstrapOrganization co)"]) (simp add: run_org_call_def run_call_unit)
qed

lemma ensureOrganization_calls [cli_intros]: "reads_or_calls pa cfg (ensureOrganization n p)"
  unfolding reads_or_calls_def ensureOrganization_def
proof
  fix s
  obtain r where r: "OrganizationByName n s = (r, s)"
    using OrganizationByName_read[of n] unfolding read_only_def by (metis prod.collapse)
  show "snd (case OrganizationByName n s of (Inl e, t) \<Rightarrow> if e \<noteq> ErrNotFound then (Inl e, t)
         else BootstrapOrganization \<lparr>co_Name = n, co_ProjectName = p\<rparr> t | (Inr o', t) \<Rightarrow> (Inr o', t)) = s \<or>
      (\<exists>c. snd (case OrganizationByName n s of (Inl e, t) \<Rightarrow> if e \<noteq> ErrNotFound then (Inl e, t)
         else BootstrapOrganization \<lparr>co_Name = n, co_ProjectName = p\<rparr> t | (Inr o', t) \<Rightarrow> (Inr o', t)) = snd (run_call pa cfg c s))"
    using calls(3)[of pa cfg "\<lparr>co_Name = n, co_ProjectName = p\<rparr>"]
    by (simp add: r reads_or_calls_def split: sum.split)
qed

lemma run_cli_calls: "reads_or_calls (cli_ParseAddress E) cfg (run_cli E cmd)"
proof (cases cmd)
  case (UserListCommand ps p e n)
  show ?thesis unfolding UserListCommand run_cli.simps userList_def Let_def by (intro cli_intros read_intros)
qed (simp_all only: run_cli.simps userCreate_def roleAssignSystem_def orgBootstrap_def, (intro cli_intros read_intros)+)

lemma run_cli_reaches:
  assumes "run_cli E cmd s = (r, t)" shows "reaches (cli_ParseAddress E) cfg s t"
proof -
  have "t = s \<or> (\<exists>c. t = snd (run_call (cli_ParseAddress E) cfg c s))"
    using run_cli_calls[of E cfg cmd] assms unfolding reads_or_calls_def by (metis snd_conv)
  then show ?thesis using start reaches_call by (metis prod.collapse)
qed

section \<open>Bootstrapping the system organization\<close>

lemma ensureOrganization_found:
  assumes inv: "db_inv s" "control_inv s" and run: "ensureOrganization n p s = (Inr o', t)"
  shows "OrganizationByName n t = (Inr o', t)"
proof -
  obtain r where r: "OrganizationByName n s = (r, s)"
    using OrganizationByName_read[of n] unfolding read_only_def by (metis prod.collapse)
  show ?thesis
  proof (cases r)
    case (Inr org)
    with run r show ?thesis by (simp add: ensureOrganization_def)
  next
    case (Inl e)
    with run r have "createOrganization \<lparr>co_Name = n, co_ProjectName = p\<rparr> None s = (Inr o', t)"
      by (simp add: ensureOrganization_def BootstrapOrganization_def split: if_splits)
    then show ?thesis
    proof (rule bootstrap_InrE[OF inv(1)])
      fix q ctl p' g
      assume f: "founded \<lparr>co_Name = n, co_ProjectName = p\<rparr> s q ctl p'" and o': "o' = organizationFromPg (pg_org_of q ctl)"
        and t: "t = with_org s q ctl p' g"
      have new: "\<not> org_conflict q (organizations s)" by (rule founded_new[OF f])
      have "distinct (map org_name (organizations t))"
        using inv new by (auto simp: t db_inv_def orgs_ok_def org_conflict_def)
      moreover have "control_projects t (org_id q) = [ctl]"
        using f new_org_unreferenced(2)[OF inv(1) new] by (auto simp: control_projects_def t founded_def filter_empty_conv)
      moreover have "org_name q = n" using f by (simp add: founded_def)
      ultimately show "OrganizationByName n t = (Inr o', t)"
        using organization_by_name_rows[of t q ctl] by (simp add: o') (simp add: t)
    qed
  qed
qed

lemma orgBootstrap_Inr:
  "orgBootstrap up operator s = (Inr out, t) \<longleftrightarrow> (\<exists>x o'. contextWithOperator up operator s = (Inr x, s) \<and>
     ensureOrganization SystemOrgName bootstrapDevProjectName s = (Inr o', t) \<and>
     out = [[''organization '' @ o_Name o' @ '' ('' @ Itoa (o_ID o') @ ''), control project '' @ Itoa (o_ControlProjectID o')]])"
  using read_onlyD[OF contextWithOperator_read(1)] by (fastforce simp: orgBootstrap_def andThen_Inr_iff)

lemma bootstrap_again:
  assumes inv: "db_inv s" "control_inv s" and run: "orgBootstrap up operator s = (Inr out, t)"
    and op: "contextWithOperator up' operator' t = (Inr x, t)"
  shows "orgBootstrap up' operator' t = (Inr out, t)"
proof -
  from run obtain o' where e: "ensureOrganization SystemOrgName bootstrapDevProjectName s = (Inr o', t)"
    and out: "out = [[''organization '' @ o_Name o' @ '' ('' @ Itoa (o_ID o') @ ''), control project '' @ Itoa (o_ControlProjectID o')]]"
    by (auto simp: orgBootstrap_Inr)
  have "ensureOrganization SystemOrgName bootstrapDevProjectName t = (Inr o', t)"
    using ensureOrganization_found[OF inv e] by (simp add: ensureOrganization_def)
  with op out show ?thesis by (auto simp: orgBootstrap_Inr)
qed

lemma ensureOrganization_creates:
  assumes inv: "db_inv s" and fr: "gens_fresh 4 s" and none: "organizations s = []"
    and p: "n \<noteq> []" "p \<noteq> []" "toLower p \<noteq> defaultControlProjectName"
  shows "\<exists>o' t r ctl q g. ensureOrganization n p s = (Inr o', t) \<and> o_Name o' = n \<and> t = with_org s r ctl q g \<and>
    t = snd (run_call pa cfg (OrgCall None (CallBootstrapOrganization \<lparr>co_Name = n, co_ProjectName = p\<rparr>)) s)"
proof -
  let ?co = "\<lparr>co_Name = n, co_ProjectName = p\<rparr>"
  have "OrganizationByName n s = (Inl ErrNotFound, s)"
    using none by (simp add: OrganizationByName_def pgorg_OrganizationByName_def organizationByNameQuery_def queueOne_reads
        collectOne_def andThen_def onError_def notFound_def)
  then have e: "ensureOrganization n p s = BootstrapOrganization ?co s" by (simp add: ensureOrganization_def)
  note fo = founding_outcome[OF inv fr, of ?co]
  have "co_Name ?co \<notin> org_name ` set (organizations s)" using none by simp
  from fo(1)[OF this] fo(3)[OF this] p obtain r ctl s1 q s2 where
    "pgorg_CreateOrganization (createOrganizationToPg ?co) s = (Inr (pg_org_of r ctl), s1)"
    "pgorg_CreateProject \<lparr>pcp_OrgID = org_id r, pcp_Name = p\<rparr> s1 = (Inr q, s2)" "org_name r = n"
    by simp
  then have run: "BootstrapOrganization ?co s = (Inr (organizationFromPg (pg_org_of r ctl)), s2\<lparr>locks := []\<rparr>)" "org_name r = n"
    using p by (simp_all add: BootstrapOrganization_def createOrganization_def CreateOrganization_Validate_def andThen_def liftS_def run_tx_def
        atomic_def onError_def ret_def)
  moreover from bootstrap_InrE[OF inv run(1)[unfolded BootstrapOrganization_def]] obtain r' ctl' q' g
    where "s2\<lparr>locks := []\<rparr> = with_org s r' ctl' q' g" by metis
  moreover have "snd (run_call pa cfg (OrgCall None (CallBootstrapOrganization ?co)) s) = s2\<lparr>locks := []\<rparr>"
    by (simp add: run_org_call_def run_call_unit run(1))
  moreover have "o_Name (organizationFromPg (pg_org_of r ctl)) = n" using run(2) by (simp add: organizationFromPg_def pg_org_of_def)
  ultimately show ?thesis unfolding e by metis
qed

text \<open>C37: a database that has its schema but no rows yet becomes a working backend: the start of the server
  seeds it, the operator script adds the first operator, and \<open>org bootstrap\<close> succeeds. The result satisfies all
  invariants the backend assumes of its initial state, its registry has exactly the permissions of the code, the
  operator holds all of them, the system organization is there, and running the command again prints the same
  and changes nothing.\<close>

theorem fresh_backend_starts:
  assumes "no_rows s" "distinct (next_uuids 7 s)" "cli_uuid_Parse E operatorEmail = None"
  shows "\<exists>t u v out org. Seed a b s = (Inr (), t) \<and> seed_dev_operator t = (Inr (), u) \<and>
    run_cli E (OrgBootstrapCommand operatorEmail) u = (Inr out, v) \<and>
    db_inv v \<and> rbac_inv v \<and> control_inv v \<and> registry_seeded v \<and>
    (\<exists>w. w \<in> set (users v) \<and> usr_email w = operatorEmail \<and> fully_privileged v (usr_id w)) \<and>
    OrganizationByName SystemOrgName v = (Inr org, v) \<and> o_Name org = SystemOrgName \<and>
    run_cli E (OrgBootstrapCommand operatorEmail) v = (Inr out, v)"
proof -
  obtain t u o' where st: "Seed a b s = (Inr (), t)" "seed_dev_operator t = (Inr (), u)" and inv: "backend_inv u"
    and reg: "registry_seeded u" and us: "users u = [o']" "usr_email o' = operatorEmail" and full: "fully_privileged u (usr_id o')"
    and fr: "gens_fresh 4 u" and no: "organizations u = []" by (rule fresh_start[OF assms(1,2)])
  note iu = backend_inv_D[OF inv]
  have op: "\<exists>x. contextWithOperator (cli_uuid_Parse E) operatorEmail d = (Inr x, d)" if "users d = [o']" for d :: db
  proof -
    have "toLower (trimSpace operatorEmail) = operatorEmail" by code_simp
    then have "UserByEmail operatorEmail d = (Inr (userFromPg o'), d)" using us(2) that by (simp add: UserByEmail_iff)
    then show ?thesis using assms(3) by (simp add: contextWithOperator_def resolveUser_def andThen_def ret_def)
  qed
  have n: "SystemOrgName \<noteq> []" "bootstrapDevProjectName \<noteq> []" "toLower bootstrapDevProjectName \<noteq> defaultControlProjectName"
    by code_simp+
  obtain org v r ctl q g where e: "ensureOrganization SystemOrgName bootstrapDevProjectName u = (Inr org, v)" "o_Name org = SystemOrgName"
    and w: "v = with_org u r ctl q g" and v: "v = snd (run_call (cli_ParseAddress E) cfg
      (OrgCall None (CallBootstrapOrganization \<lparr>co_Name = SystemOrgName, co_ProjectName = bootstrapDevProjectName\<rparr>)) u)"
    using ensureOrganization_creates[OF iu(1) fr no n] by blast
  have uv: "users v = [o']" using us by (simp add: w)
  from op[OF us(1)] e obtain out where run: "orgBootstrap (cli_uuid_Parse E) operatorEmail u = (Inr out, v)"
    by (auto simp: orgBootstrap_Inr)
  from op[OF uv] obtain x where "contextWithOperator (cli_uuid_Parse E) operatorEmail v = (Inr x, v)" by blast
  with bootstrap_again[OF iu(1,3) run] have again: "orgBootstrap (cli_uuid_Parse E) operatorEmail v = (Inr out, v)" by blast
  have "good u v" unfolding v by (rule preservesD[OF call_good _ good_refl[OF inv]]) (rule surjective_pairing)
  then have iv: "backend_inv v" by (simp add: good_def)
  have "fully_privileged v (usr_id o')" using full
    by (simp add: w fully_privileged_def holds_system_def system_role_has_def)
  then have priv: "\<exists>w. w \<in> set (users v) \<and> usr_email w = operatorEmail \<and> fully_privileged v (usr_id w)"
    using uv us(2) by (intro exI[of _ o']) simp
  show ?thesis
  proof (rule exI[of _ t], rule exI[of _ u], rule exI[of _ v], rule exI[of _ out], rule exI[of _ org], intro conjI)
    show "registry_seeded v" using reg by (simp add: w registry_seeded_def)
    show "run_cli E (OrgBootstrapCommand operatorEmail) u = (Inr out, v)" using run by simp
    show "run_cli E (OrgBootstrapCommand operatorEmail) v = (Inr out, v)" using again by simp
  qed (fact st e priv backend_inv_D[OF iv] ensureOrganization_found[OF iu(1,3) e(1)])+
qed

theorem fresh_backend_starts_witness:
  "\<exists>t u v out. Seed 1 1 empty_db = (Inr (), t) \<and> seed_dev_operator t = (Inr (), u) \<and>
    run_cli \<lparr>cli_uuid_Parse = (\<lambda>_. None), cli_ParseAddress = (\<lambda>a. Some a), cli_RFC3339 = (\<lambda>_. [])\<rparr>
      (OrgBootstrapCommand operatorEmail) u = (Inr out, v) \<and> registry_seeded v"
proof -
  let ?E = "\<lparr>cli_uuid_Parse = (\<lambda>_. None), cli_ParseAddress = (\<lambda>a. Some a), cli_RFC3339 = (\<lambda>_. [])\<rparr>"
  have "cli_uuid_Parse ?E operatorEmail = None" by simp
  from fresh_backend_starts[OF empty_db_rows this, of 1 1] show ?thesis by blast
qed

end
