(* ===== verification/ApiSafety.thy ===== *)
theory ApiSafety
  imports ApiEffect Grants Cli
begin

text \<open>
  Histories of the whole server: any sequence of requests and operator commands, with any metadata, is a history of
  the backend's state machine, and no request changes what anybody may do beyond the authority of the user
  whose token it carries.
\<close>

section \<open>Refinement\<close>

inductive serving :: "address_parser \<Rightarrow> Config \<Rightarrow> world \<Rightarrow> world \<Rightarrow> bool" for pa cfg w where
  idle: "serving pa cfg w w"
| request: "serving pa cfg w v \<Longrightarrow> ParseAddress (sv_lib S) = pa \<Longrightarrow> sv_cfg S = cfg \<Longrightarrow> engine_ok (sv_wlib S) \<Longrightarrow>
    serve S x req v = (q, v') \<Longrightarrow> serving pa cfg w v'"
| command: "serving pa cfg w v \<Longrightarrow> cli_ParseAddress E = pa \<Longrightarrow> run_cli E cmd (w_db v) = (out, d) \<Longrightarrow>
    serving pa cfg w (v\<lparr>w_db := d\<rparr>)"
| tick: "serving pa cfg w v \<Longrightarrow> clock (w_db v) \<le> now \<Longrightarrow> serving pa cfg w (v\<lparr>w_db := (w_db v)\<lparr>clock := now\<rparr>\<rparr>)"



section \<open>Authority\<close>

lemma session_call_within:
  assumes inv: "db_inv s" and c: "by_session (Some sess) c" and t: "t = snd (run_call pa cfg c s)"
  shows "unchanged s t \<or> (\<exists>actor \<in> set (users_by_external_id s (sessUser sess)). within s t actor)"
proof (cases c)
  case (RoleCall ctx rc)
  then show ?thesis using role_call_within [OF inv, of sess rc "fst (run_role_call (Some sess) rc s)" t] c t
    by (simp add: prod_eq_iff)
next
  case (OrgCall ctx oc)
  then show ?thesis using c t creation_unchanged [OF inv] member_grants [OF inv] unchanged_grants
    by (cases oc) (auto simp: run_org_call_def prod_eq_iff intro!: disjI1)
next
  case (AssignSystem ctx y n)
  then show ?thesis using system_call_within [OF inv, of sess y n "fst (AssignSystemRole (Some sess) y n s)" t] c t
    by (simp add: prod_eq_iff)
next
  case (UnassignSystem ctx y n)
  then show ?thesis using system_call_within [OF inv, of sess y n "fst (UnassignSystemRole (Some sess) y n s)" t] c t
    by (simp add: prod_eq_iff)
qed (use c t unchanged_grants preserves_grantsD [OF grants_calls(5)] preserves_grantsD [OF grants_calls(6)]
    preserves_grantsD [OF grants_calls(7)] in auto)

lemma token_call_unchanged: "token_call c \<Longrightarrow> unchanged s (snd (run_call pa cfg c s))"
  by (cases c) (simp_all add: unchanged_grants preserves_grantsD grants_calls)

lemma admitted_caller:
  assumes "admitted S x m s sess" "actor \<in> set (users_by_external_id s (sessUser sess))" "db_inv s"
  shows "\<exists>claims. parseBearer S x = Inr claims \<and> actor \<in> set (users s) \<and> usr_external_id actor = cl_UserID claims"
proof -
  obtain claims pid where a: "parseBearer S x = Inr claims" "projectOf m x = Inr pid"
    "fst (resolveSession m (cl_UserID claims) pid s) = Inr sess" using assms(1) unfolding admitted_def by blast
  have "pid \<noteq> None" if "methodRequiresOrganizationScope m"
    using projectOf_Some [OF a(2) org_scope_has_project [OF that]] by auto
  from resolveSession_Inr [OF assms(3) a(3) this] have "sessUser sess = cl_UserID claims"
    by (metis session_of_def sessUser_def)
  then show ?thesis using assms(2) a(1) by (auto simp: users_by_external_id_def)
qed

text \<open>C30: if a request changes whether somebody holds a permission - at system scope, in an organization or in a
  project that existed before - then its method is protected, it carries a valid token, and the user of the
  token held that very permission at that place. Nobody can give, or take away, through any endpoint what he
  does not have himself.\<close>

theorem served_changes_within_authority:
  assumes "engine_ok (sv_wlib S)" and "db_inv (w_db w)" and "serve S x req w = (q, v)"
    and "exists_place (w_db w) p" and "holds (w_db v) p u n \<noteq> holds (w_db w) p u n"
  shows "FullMethod req \<notin> set publicMethods \<and>
    (\<exists>claims actor. parseBearer S x = Inr claims \<and> actor \<in> set (users (w_db w)) \<and>
      usr_external_id actor = cl_UserID claims \<and> holds (w_db w) p (usr_id actor) n)"
proof -
  let ?s = "w_db w" and ?t = "w_db v" and ?pa = "ParseAddress (sv_lib S)" and ?cfg = "sv_cfg S"
  have ch: "\<not> unchanged ?s ?t" using assms(4,5) by (auto simp: unchanged_def)
  then have "?t \<noteq> ?s" by (auto simp: unchanged_def)
  then obtain c where t: "?t = snd (run_call ?pa ?cfg c ?s)"
    and c: "token_call c \<or> (\<exists>sess. admitted S x (FullMethod req) ?s sess \<and> by_session (Some sess) c)"
    using serve_one_call [OF assms(1,3)] by blast
  have "\<not> token_call c" using ch t token_call_unchanged [of c ?s ?pa ?cfg] by auto
  then obtain sess where a: "admitted S x (FullMethod req) ?s sess" "by_session (Some sess) c" using c by blast
  from session_call_within [OF assms(2) a(2) t] ch obtain actor where
    u: "actor \<in> set (users_by_external_id ?s (sessUser sess))" "within ?s ?t actor" by blast
  obtain required where "map_of permissionRegistry (FullMethod req) = Some required" using a(1) unfolding admitted_def by blast
  then have "FullMethod req \<notin> set publicMethods" using public_or_registered FullMethod_known by fastforce
  moreover have "holds ?s p (usr_id actor) n" using u(2) assms(4,5) by (auto simp: within_def)
  ultimately show ?thesis using admitted_caller [OF a(1) u(1) assms(2)] by blast
qed

definition demo_grant :: request where
  "demo_grant = RqAssignRoleToProject (Some \<lparr>rar_RoleId = ''00000000-0000-0000-0000-000000000191'',
     rar_UserId = ''00000000-0000-0000-0000-000000000068''\<rparr>)"

lemma demo_grant_runs:
  "(let t = w_db (snd (serve demo_server (demo_ctx ''bob'' ''4'') demo_grant demo_world)) in
     \<lparr>pa_user_id = 4, pa_project_id = 4, pa_role_id = 1, pa_org_id = 2\<rparr> \<in> set (project_role_assignments t) \<and>
     (1, 2) \<in> set (custom_role_permissions t) \<and> (2, PermissionCustomRoleAssignProject) \<in> set (permissions t))"
  by code_simp

text \<open>Bob, the administrator of the organization, gives dave the right to assign roles in the project.\<close>

theorem served_changes_within_authority_witness:
  "\<exists>claims actor. parseBearer demo_server (demo_ctx ''bob'' ''4'') = Inr claims \<and> actor \<in> set (users demo_auth_db) \<and>
    usr_external_id actor = cl_UserID claims \<and>
    holds demo_auth_db (AtProject 4) (usr_id actor) PermissionCustomRoleAssignProject"
proof -
  obtain q v where s: "serve demo_server (demo_ctx ''bob'' ''4'') demo_grant demo_world = (q, v)" by fastforce
  have db: "w_db demo_world = demo_auth_db" by (simp add: demo_world_def)
  have "holds_project (w_db v) 4 4 PermissionCustomRoleAssignProject"
    using demo_grant_runs unfolding s snd_conv Let_def holds_project_def role_has_def by force
  moreover have "\<not> holds_project demo_auth_db 4 4 PermissionCustomRoleAssignProject"
    by (simp add: holds_project_def holds_org_def holds_system_def role_has_def demo_auth_db_def demo_defs)
  ultimately have d: "holds (w_db v) (AtProject 4) 4 PermissionCustomRoleAssignProject \<noteq>
      holds (w_db demo_world) (AtProject 4) 4 PermissionCustomRoleAssignProject" by (simp add: db)
  have "engine_ok (sv_wlib demo_server)" by (simp add: demo_server_def demo_engine_ok)
  moreover have "db_inv (w_db demo_world)" using demo_auth_inv by (simp add: db)
  moreover have "exists_place (w_db demo_world) (AtProject 4)" by (simp add: db demo_auth_db_def demo_defs)
  ultimately show ?thesis using served_changes_within_authority [OF _ _ s _ d] by (simp add: db)
qed

end
