(* ===== verification/ApiPages.thy ===== *)
theory ApiPages
  imports ApiConvProps ApiAuthz
begin

text \<open>
  Reading a listing to its end: a client that follows \<open>next_page_token\<close> from page to page terminates and gets
  every row once. \<open>read_pages\<close> is such a client; its fuel is the number of pages it is willing to read, and None
  the answer when that was not enough.
\<close>

section \<open>A client\<close>

primrec read_pages :: "nat \<Rightarrow> (string \<Rightarrow> 'b PbPage api) \<Rightarrow> string \<Rightarrow> 'b PbPage list option api" where
  "read_pages 0 page token = ret None"
| "read_pages (Suc n) page token =
    andThen (page token) (\<lambda>p.
    if pg_NextPageToken p = [] then ret (Some [p])
    else andThen (read_pages n page (pg_NextPageToken p)) (\<lambda>ps. ret (map_option (\<lambda>qs. p # qs) ps)))"

text \<open>\<open>paged page at k w rows\<close>: the page that \<open>page\<close> gives for a token standing for the offset \<open>i\<close> is the next \<open>k\<close>
  of the rows, and its token stands for the offset after them, or is empty at the end.\<close>

definition paged :: "(string \<Rightarrow> 'b PbPage api) \<Rightarrow> (nat \<Rightarrow> string \<Rightarrow> bool) \<Rightarrow> nat \<Rightarrow> world \<Rightarrow> 'b list \<Rightarrow> bool" where
  "paged page at k w rows \<longleftrightarrow> (\<forall>i tok. at i tok \<longrightarrow> i < length rows \<or> i = 0 \<longrightarrow> (\<exists>next. page tok w =
     (Inr \<lparr>pg_Rows = take k (drop i rows), pg_TotalSize = word_of_int (int (length rows)), pg_NextPageToken = next\<rparr>, w) \<and>
     (if i + k < length rows then next \<noteq> [] \<and> at (i + k) next else next = [])))"

lemma read_pages_all:
  assumes p: "paged page at k w rows" and k: "0 < k"
  shows "at i tok \<Longrightarrow> i < length rows \<or> i = 0 \<Longrightarrow> (length rows - i - 1) div k < fuel \<Longrightarrow>
    \<exists>ps. read_pages fuel page tok w = (Inr (Some ps), w) \<and> concat (map pg_Rows ps) = drop i rows \<and>
      length ps = (length rows - i - 1) div k + 1 \<and>
      (\<forall>q \<in> set ps. length (pg_Rows q) \<le> k \<and> pg_TotalSize q = word_of_int (int (length rows)))"
proof (induction fuel arbitrary: i tok)
  case (Suc fuel)
  obtain next' where q: "page tok w =
     (Inr \<lparr>pg_Rows = take k (drop i rows), pg_TotalSize = word_of_int (int (length rows)), pg_NextPageToken = next'\<rparr>, w)"
    and n: "if i + k < length rows then next' \<noteq> [] \<and> at (i + k) next' else next' = []"
    using p Suc.prems(1,2) unfolding paged_def by blast
  show ?case
  proof (cases "i + k < length rows")
    case True
    have "length rows - i - 1 = (length rows - (i + k) - 1) + k" using True by simp
    then have d: "(length rows - i - 1) div k = (length rows - (i + k) - 1) div k + 1" using k by (simp only: div_add_self2)
    with Suc.prems(3) have "(length rows - (i + k) - 1) div k < fuel" by simp
    from Suc.IH[OF _ _ this, of next'] n True obtain ps where ps: "read_pages fuel page next' w = (Inr (Some ps), w)"
      "concat (map pg_Rows ps) = drop (i + k) rows" "length ps = (length rows - (i + k) - 1) div k + 1"
      "\<forall>q \<in> set ps. length (pg_Rows q) \<le> k \<and> pg_TotalSize q = word_of_int (int (length rows))" by auto
    let ?q = "\<lparr>pg_Rows = take k (drop i rows), pg_TotalSize = word_of_int (int (length rows)), pg_NextPageToken = next'\<rparr>"
    have "read_pages (Suc fuel) page tok w = (Inr (Some (?q # ps)), w)"
      using n True by (simp add: andThen_def q ps(1) ret_def)
    moreover have "concat (map pg_Rows (?q # ps)) = drop i rows"
      using append_take_drop_id[of k "drop i rows"] ps(2) by (simp add: add.commute)
    ultimately show ?thesis using ps(3,4) d by (intro exI[of _ "?q # ps"]) simp
  next
    case False
    let ?q = "\<lparr>pg_Rows = take k (drop i rows), pg_TotalSize = word_of_int (int (length rows)), pg_NextPageToken = next'\<rparr>"
    have "read_pages (Suc fuel) page tok w = (Inr (Some [?q]), w)" using n False by (simp add: andThen_def q ret_def)
    moreover have "(length rows - i - 1) div k = 0" using False k by simp
    moreover have "take k (drop i rows) = drop i rows" using False by simp
    ultimately show ?thesis by (intro exI[of _ "[?q]"]) simp
  qed
qed simp

section \<open>The users of the system\<close>

definition listed_users :: "db \<Rightarrow> PbUserFilter option \<Rightarrow> PgOrderByField By list \<Rightarrow> user_row list" where
  "listed_users s f obs = sort_by (orderByClause (coll s) obs) (filter (whereClause (filterToPg (UserFilterFromPB f))) (users s))"

lemma pageSizeOf_bounds: "0 < pageSizeOf n" "pageSizeOf n \<le> 100"
  by (auto simp: pageSizeOf_def)

lemma sortable_order: "\<forall>o' \<in> set os. sortable o' \<Longrightarrow> \<exists>obs. orderBysToPg os = Inr obs"
proof (induction os)
  case (Cons o' os)
  then obtain obs where "orderBysToPg os = Inr obs" by auto
  then show ?case using Cons.prems by (auto simp: sortable_def orderByToPg_def)
qed simp

lemma Users_page:
  assumes "orderBysToPg os = Inr obs" "0 \<le> lim" "0 \<le> off"
  shows "Users (UserFilterFromPB f) os lim off s =
    (Inr (usersFromPg (limit_offset lim off (listed_users s f obs)), int (length (listed_users s f obs))), s)"
  using assms by (simp add: Users_def pguser_Users_def usersQuery_def userCountQuery_def with_page_def QueueMany_def queueMany_def
      collectRows_Inr queueOne_def collectOne_def andThen_def liftS_def ret_def reads_def atomic_def listed_users_def)

text \<open>The tokens that stand for an offset of a listing with the given order and filter.\<close>

definition token_at :: "lib \<Rightarrow> 'f codec \<Rightarrow> string \<Rightarrow> 'f option \<Rightarrow> nat \<Rightarrow> string \<Rightarrow> bool" where
  "token_at L c ob f i tok \<longleftrightarrow> tok = [] \<and> i = 0 \<or>
     tok \<noteq> [] \<and> DecodePageToken L c tok = Some \<lparr>pt_Offset = int i, pt_OrderBy = ob, pt_Filter = f\<rparr>"

definition filter_kept :: "'f codec \<Rightarrow> 'f option \<Rightarrow> bool" where
  "filter_kept c filt \<longleftrightarrow> (case filt of None \<Rightarrow> True | Some f \<Rightarrow> enc c f \<noteq> Some [])"

lemma nextPageToken_at:
  assumes "json_ok L" "codec_ok c" "filter_kept c f" "int (i + k) < 2 ^ 62" "0 < k"
  shows "\<exists>t. nextPageToken L c (int i) (int k) (int n) ob f w = (Inr t, w) \<and>
    (if i + k < n then t \<noteq> [] \<and> token_at L c ob f (i + k) t else t = [])"
proof -
  have r: "inRange (int (i + k))" using assms(4) by (simp add: inRange_def minInt_def maxInt_def)
  obtain t fb where t: "EncodePageToken L c (int (i + k)) ob f = Some t" "t \<noteq> []" "proto_Marshal c f = Some fb"
    "DecodePageToken L c t = Some \<lparr>pt_Offset = int (i + k), pt_OrderBy = ob, pt_Filter = (if fb = [] then None else f)\<rparr>"
    by (rule EncodePageToken_Some[OF assms(1,2) r])
  have "(if fb = [] then None else f) = f" using t(3) assms(3) by (auto simp: proto_Marshal_def filter_kept_def split: option.splits)
  then show ?thesis using t wrapInt_id[OF r]
    by (auto simp: nextPageToken_def Let_def ret_def token_at_def of_nat_add[symmetric] simp del: of_nat_add)
qed

lemma ListUsers_paged:
  assumes "json_ok (sv_lib S)" "codec_ok (codec_UserFilter (sv_lib S))" "filter_kept (codec_UserFilter (sv_lib S)) (lur_Filter r)"
    and "UserOrderBysFromPB (lur_OrderBy r) = Some os" "orderBysToPg os = Inr obs"
    and "length (listed_users (w_db w) (lur_Filter r) obs) \<le> 2147483647"
  shows "paged (\<lambda>tok. svc_ListUsers S x (Some (r\<lparr>pr_PageToken := tok\<rparr>)))
    (token_at (sv_lib S) (codec_UserFilter (sv_lib S)) (lur_OrderBy r) (lur_Filter r)) (nat (pageSizeOf (pr_PageSize r))) w
    (UsersToPB (usersFromPg (listed_users (w_db w) (lur_Filter r) obs)))"
  unfolding paged_def
proof (intro allI impI)
  fix i tok
  let ?L = "sv_lib S" and ?c = "codec_UserFilter (sv_lib S)" and ?k = "nat (pageSizeOf (pr_PageSize r))"
  let ?us = "listed_users (w_db w) (lur_Filter r) obs"
  assume at: "token_at ?L ?c (lur_OrderBy r) (lur_Filter r) i tok"
    and i: "i < length (UsersToPB (usersFromPg ?us)) \<or> i = 0"
  have len: "length (UsersToPB (usersFromPg ?us)) = length ?us" by (simp add: UsersToPB_def usersFromPg_def)
  have k: "0 < ?k" "int ?k = pageSizeOf (pr_PageSize r)" "?k \<le> 100"
    using pageSizeOf_bounds[of "pr_PageSize r"] by auto
  have dec: "\<exists>pt. DecodePageToken ?L ?c tok = Some pt \<and> pt_Offset pt = int i \<and>
      (tok \<noteq> [] \<longrightarrow> pt_OrderBy pt = lur_OrderBy r \<and> pt_Filter pt = lur_Filter r)"
    using at by (auto simp: token_at_def DecodePageToken_def zeroPageToken_def)
  then obtain pt where pt: "DecodePageToken ?L ?c tok = Some pt" "pt_Offset pt = int i"
    "tok \<noteq> [] \<longrightarrow> pt_OrderBy pt = lur_OrderBy r \<and> pt_Filter pt = lur_Filter r" by blast
  have "validate_ListUsers ?L (Some (r\<lparr>pr_PageToken := tok\<rparr>)) = Inr ()"
    using pt assms(4) by (auto simp: validate_ListUsers_def proto_Equal_def)
  moreover have "call_core CoreErr (Users (UserFilterFromPB (lur_Filter r)) os (pageSizeOf (pr_PageSize r)) (int i)) w =
      (Inr (usersFromPg (take ?k (drop i ?us)), int (length ?us)), w)"
    using Users_page[OF assms(5), of "pageSizeOf (pr_PageSize r)" "int i" "lur_Filter r" "w_db w"] pageSizeOf_bounds(1)[of "pr_PageSize r"]
    by (simp add: call_core_def limit_offset_def)
  moreover have "int (i + ?k) < 2 ^ 62" using i len assms(6) k(3) by auto
  from nextPageToken_at[OF assms(1,2,3) this k(1), of "length ?us" "lur_OrderBy r" w] obtain t where
    t: "nextPageToken ?L ?c (int i) (pageSizeOf (pr_PageSize r)) (int (length ?us)) (lur_OrderBy r) (lur_Filter r) w = (Inr t, w)"
    "if i + ?k < length ?us then t \<noteq> [] \<and> token_at ?L ?c (lur_OrderBy r) (lur_Filter r) (i + ?k) t else t = []"
    unfolding k(2) by blast
  moreover have "Int32 (int (length ?us)) = Inr (word_of_int (int (length ?us)))" using assms(6) by (simp add: Int32_def)
  moreover have "UsersToPB (usersFromPg (take ?k (drop i ?us))) = take ?k (drop i (UsersToPB (usersFromPg ?us)))"
    by (simp add: UsersToPB_def usersFromPg_def sliceMap_def take_map drop_map)
  ultimately have "svc_ListUsers S x (Some (r\<lparr>pr_PageToken := tok\<rparr>)) w = (Inr \<lparr>pg_Rows = take ?k (drop i (UsersToPB (usersFromPg ?us))),
      pg_TotalSize = word_of_int (int (length (UsersToPB (usersFromPg ?us)))), pg_NextPageToken = t\<rparr>, w)"
    by (simp add: svc_ListUsers_def GetListUsers_def Let_def andThen_def liftS_def decodePage_def pt ret_def assms(4) pageReply_def
        convert_def len)
  with t(2) show "\<exists>next. svc_ListUsers S x (Some (r\<lparr>pr_PageToken := tok\<rparr>)) w = (Inr \<lparr>pg_Rows = take ?k (drop i (UsersToPB (usersFromPg ?us))),
      pg_TotalSize = word_of_int (int (length (UsersToPB (usersFromPg ?us)))), pg_NextPageToken = next\<rparr>, w) \<and>
      (if i + ?k < length (UsersToPB (usersFromPg ?us)) then next \<noteq> [] \<and>
         token_at ?L ?c (lur_OrderBy r) (lur_Filter r) (i + ?k) next else next = [])"
    unfolding len by blast
qed

definition matching_users :: "db \<Rightarrow> PbUserFilter option \<Rightarrow> nat" where
  "matching_users s f = length (filter (whereClause (filterToPg (UserFilterFromPB f))) (users s))"


definition demo_list :: ListUsersRequest where
  "demo_list = \<lparr>pr_PageSize = 2, pr_PageToken = [], lur_Filter = None, lur_OrderBy = []\<rparr>"


end
