(* ===== verification/PgConn.thy ===== *)
theory PgConn
  imports Stdlib Errors
begin

text \<open>
  Connecting to the database: \<open>internal/data/pgdb/pgdb.go\<close>, and the text helpers of \<open>typed_query.go\<close>. Instants
  are milliseconds. A \<open>pool\<close> says how the connection pool behaves: what \<open>Ping\<close> answers on the k-th attempt started
  at an instant and when it returns, when a \<open>Sleep\<close> of the given length ends, and whether \<open>SELECT TRUE\<close> succeeds.
  Of a context the code reads its deadline and whether it is done.
\<close>

section \<open>ConnStr\<close>

definition JoinHostPort :: "string \<Rightarrow> string \<Rightarrow> string" where
  "JoinHostPort host port = (if CHR '':'' \<in> set host then ''['' @ host @ '']:'' @ port else host @ '':'' @ port)"

definition ConnStr :: "string \<Rightarrow> int \<Rightarrow> string \<Rightarrow> string \<Rightarrow> string \<Rightarrow> bool \<Rightarrow> string" where
  "ConnStr host port user password dbName sslEnabled =
    (let sslMode = (if \<not> sslEnabled then ''disable'' else ''require'') in
     ''postgres://'' @ user @ '':'' @ password @ ''@'' @ JoinHostPort host (Itoa port) @ ''/'' @ dbName @
     ''?&sslmode='' @ sslMode)"

text \<open>The parts are not escaped: a password with an \<open>@\<close> moves the boundary between the password and the host.\<close>

lemma ConnStr_ambiguous:
  "ConnStr ''db'' 5432 ''app'' ''secret@proxy'' ''theapp'' True = ConnStr ''proxy@db'' 5432 ''app'' ''secret'' ''theapp'' True"
  by (simp add: ConnStr_def JoinHostPort_def)

section \<open>StatusCheck\<close>

record pool =
  pl_Ping :: "nat \<Rightarrow> int \<Rightarrow> bool \<times> int"
  pl_Sleep :: "nat \<Rightarrow> int \<Rightarrow> int"
  pl_SelectTrue :: "int \<Rightarrow> bool"

record go_context =
  ctx_Deadline :: "int option"
  ctx_Done :: "int \<Rightarrow> bool"

definition WithTimeout :: "go_context \<Rightarrow> int \<Rightarrow> int \<Rightarrow> go_context" where
  "WithTimeout c now d = c\<lparr>ctx_Deadline := Some (now + d), ctx_Done := (\<lambda>t. ctx_Done c t \<or> now + d \<le> t)\<rparr>"

text \<open>The loop gives the instant after the successful ping and the number of pings; it may run for ever.\<close>

partial_function (option) pingLoop :: "pool \<Rightarrow> go_context \<Rightarrow> nat \<Rightarrow> int \<Rightarrow> ((error + int) \<times> nat) option" where
  "pingLoop P c attempts t =
    (let (ok, t1) = pl_Ping P attempts t in
     if ok then Some (Inr t1, attempts)
     else let t2 = pl_Sleep P (100 * attempts) t1 in
       if ctx_Done c t2 then Some (Inl (ErrMsg ''context error''), attempts)
       else pingLoop P c (attempts + 1) t2)"

definition StatusCheck :: "pool \<Rightarrow> go_context \<Rightarrow> int \<Rightarrow> ((error + unit) \<times> nat) option" where
  "StatusCheck P c0 now =
    (let c = (case ctx_Deadline c0 of None \<Rightarrow> WithTimeout c0 now 1000 | Some _ \<Rightarrow> c0) in
     case pingLoop P c 1 now of
       None \<Rightarrow> None
     | Some (Inl e, n) \<Rightarrow> Some (Inl e, n)
     | Some (Inr t, n) \<Rightarrow>
         if ctx_Done c t then Some (Inl (ErrMsg ''context error''), n)
         else if pl_SelectTrue P t then Some (Inr (), n)
         else Some (Inl (ErrMsg ''query row''), n))"

text \<open>Time passes: no call returns before it starts, and a sleep lasts at least as long as it says.\<close>

definition pool_ok :: "pool \<Rightarrow> bool" where
  "pool_ok P \<longleftrightarrow> (\<forall>k t. t \<le> snd (pl_Ping P k t)) \<and> (\<forall>d t. t + int d \<le> pl_Sleep P d t)"

definition expires :: "go_context \<Rightarrow> int \<Rightarrow> bool" where
  "expires c d \<longleftrightarrow> (\<forall>t \<ge> d. ctx_Done c t)"

text \<open>With a context that expires, the k-th ping only happens when the pauses before it fit in the time left.\<close>

lemma pingLoop_ends:
  assumes ok: "pool_ok P" and ex: "expires c d"
  shows "start + 50 * int k * (int k - 1) \<le> t \<Longrightarrow> start + 50 * int k * (int k - 1) < d \<or> k = 1 \<Longrightarrow> 0 < k \<Longrightarrow>
    \<exists>r n. pingLoop P c k t = Some (r, n) \<and> k \<le> n \<and> (start + 50 * int n * (int n - 1) < d \<or> n = 1)"
proof (induction "nat (d - (start + 50 * int k * (int k - 1)))" arbitrary: k t rule: less_induct)
  case less
  obtain b t1 where ping: "pl_Ping P k t = (b, t1)" by (cases "pl_Ping P k t")
  let ?t2 = "pl_Sleep P (100 * k) t1"
  have "t \<le> t1" using ok ping unfolding pool_ok_def by (metis snd_conv)
  moreover have "t1 + 100 * int k \<le> ?t2" using ok unfolding pool_ok_def by (metis of_nat_mult of_nat_numeral)
  ultimately have t2: "start + 50 * int (k + 1) * (int (k + 1) - 1) \<le> ?t2"
    using less.prems(1) by (simp add: algebra_simps)
  show ?case
  proof (cases "b \<or> ctx_Done c ?t2")
    case True
    then have "\<exists>r. pingLoop P c k t = Some (r, k)" by (subst pingLoop.simps) (auto simp: ping Let_def)
    then show ?thesis using less.prems(2) by blast
  next
    case False
    then have "?t2 < d" using ex unfolding expires_def by (metis not_less)
    with t2 have lt: "start + 50 * int (k + 1) * (int (k + 1) - 1) < d" by linarith
    moreover have "start + 50 * int k * (int k - 1) < start + 50 * int (k + 1) * (int (k + 1) - 1)"
      using less.prems(3) by (simp add: algebra_simps)
    ultimately have "nat (d - (start + 50 * int (k + 1) * (int (k + 1) - 1))) < nat (d - (start + 50 * int k * (int k - 1)))"
      by linarith
    from less.hyps[OF this t2] lt obtain r n where n: "pingLoop P c (k + 1) ?t2 = Some (r, n)" "k + 1 \<le> n"
      "start + 50 * int n * (int n - 1) < d \<or> n = 1" by auto
    have "pingLoop P c k t = pingLoop P c (k + 1) ?t2" using False by (subst pingLoop.simps) (simp add: ping Let_def)
    with n show ?thesis by auto
  qed
qed

lemma StatusCheck_loop:
  assumes "pingLoop P c 1 now = Some (r, n)" "c = (case ctx_Deadline c0 of None \<Rightarrow> WithTimeout c0 now 1000 | Some _ \<Rightarrow> c0)"
  shows "\<exists>q. StatusCheck P c0 now = Some (q, n)"
  using assms by (cases r) (auto simp: StatusCheck_def Let_def)

text \<open>C39: checking the database always comes to an end: with a context that has a deadline, and, since the function
  sets one of a second itself, also with one that has none, however the pool answers; and as the pauses grow by
  100 ms each, without a deadline of the caller the pool is pinged at most four times.\<close>

theorem status_check_ends:
  assumes "pool_ok P" and "case ctx_Deadline c of None \<Rightarrow> True | Some d \<Rightarrow> expires c d"
  shows "\<exists>r n. StatusCheck P c now = Some (r, n) \<and> 0 < n \<and>
    (case ctx_Deadline c of None \<Rightarrow> n \<le> 4 | Some d \<Rightarrow> n = 1 \<or> now + 50 * int n * (int n - 1) < d)"
proof (cases "ctx_Deadline c")
  case None
  have "expires (WithTimeout c now 1000) (now + 1000)" by (simp add: expires_def WithTimeout_def)
  from pingLoop_ends[OF assms(1) this, of now 1 now] obtain r n where n: "pingLoop P (WithTimeout c now 1000) 1 now = Some (r, n)"
    "1 \<le> n" "50 * (int n * (int n - 1)) < 1000 \<or> n = 1" by (auto simp: algebra_simps)
  have "n \<le> 4"
  proof (rule ccontr)
    assume "\<not> n \<le> 4"
    then have "5 * 4 \<le> int n * (int n - 1)" by (intro mult_mono) auto
    with n(3) \<open>\<not> n \<le> 4\<close> show False by simp
  qed
  with StatusCheck_loop[OF n(1), of c] n(2) None show ?thesis by auto
next
  case (Some d)
  from pingLoop_ends[OF assms(1), of c d now 1 now] assms(2) Some obtain r n where
    "pingLoop P c 1 now = Some (r, n)" "1 \<le> n" "now + 50 * int n * (int n - 1) < d \<or> n = 1" by auto
  with StatusCheck_loop[of P c now r n c] Some show ?thesis by auto
qed

definition demo_pool :: pool where
  "demo_pool = \<lparr>pl_Ping = (\<lambda>k t. (False, t + 10)), pl_Sleep = (\<lambda>d t. t + int d), pl_SelectTrue = (\<lambda>_. True)\<rparr>"

definition demo_context :: go_context where
  "demo_context = \<lparr>ctx_Deadline = None, ctx_Done = (\<lambda>_. False)\<rparr>"

theorem status_check_ends_witness:
  "(\<exists>r n. StatusCheck demo_pool demo_context 0 = Some (r, n) \<and> n \<le> 4) \<and>
   StatusCheck demo_pool demo_context 0 = Some (Inl (ErrMsg ''context error''), 4)"
proof
  have "pool_ok demo_pool" by (simp add: pool_ok_def demo_pool_def)
  moreover have none: "ctx_Deadline demo_context = None" by (simp add: demo_context_def)
  ultimately show "\<exists>r n. StatusCheck demo_pool demo_context 0 = Some (r, n) \<and> n \<le> 4"
    using status_check_ends[of demo_pool demo_context 0] by auto
  show "StatusCheck demo_pool demo_context 0 = Some (Inl (ErrMsg ''context error''), 4)"
    by (simp add: StatusCheck_def pingLoop.simps demo_pool_def demo_context_def WithTimeout_def)
qed

section \<open>typed\_query.go\<close>

text \<open>\<open>strings.NewReplacer\<close>: at each position the first pair, in order, whose old text is there. The old texts are
  not empty, so what remains is always shorter.\<close>

fun replaceAt :: "(string \<times> string) list \<Rightarrow> string \<Rightarrow> (string \<times> string) option" where
  "replaceAt [] s = None"
| "replaceAt ((old, new) # ps) s =
    (if take (length old) s = old then Some (new, drop (length old) s) else replaceAt ps s)"

function replacer :: "(string \<times> string) list \<Rightarrow> string \<Rightarrow> string" where
  "replacer ps [] = []"
| "replacer ps (c # cs) = (case replaceAt ps (c # cs) of
      Some (new, rest) \<Rightarrow> if length rest \<le> length cs then new @ replacer ps rest else c # replacer ps cs
    | None \<Rightarrow> c # replacer ps cs)"
  by pat_completeness auto

termination
  by (relation "measure (\<lambda>(ps, s). length s)") auto

definition fmtQuery :: "string \<Rightarrow> string" where
  "fmtQuery q = trimBy (\<lambda>c. c = CHR '' '')
    (replacer [([CHR 0x09], []), ([CHR 0x0A], '' ''), (''( '', ''(''), ('') '', '')'')] q)"

datatype 'a any = NilAny | SliceAny "'a list" | ValueAny 'a

definition flattenArgs :: "'a any \<Rightarrow> 'a list" where
  "flattenArgs args = (case args of NilAny \<Rightarrow> [] | SliceAny v \<Rightarrow> v | ValueAny v \<Rightarrow> [v])"

end
