(* ===== verification/ApiTypes.thy ===== *)
theory ApiTypes
  imports ApiAccess
begin

text \<open>
  What a client can get back: for every method the message type the protobuf service declares, or a status
  error whose code is not OK. Errors of the domain, panics and failing conversions included, never get through.
\<close>

section \<open>Answers\<close>

primrec answers :: "request \<Rightarrow> response \<Rightarrow> bool" where
  "answers (RqRequestMagicLink req) a = (a = RsEmpty)"
| "answers (RqVerifyMagicLink req) a = (\<exists>r. a = RsTokenPair r)"
| "answers (RqRefreshAccessToken req) a = (\<exists>r. a = RsTokenPair r)"
| "answers (RqRevokeRefreshToken req) a = (a = RsEmpty)"
| "answers (RqRevokeAllSessions req) a = (a = RsEmpty)"
| "answers (RqGetAuthContext req) a = (\<exists>r. a = RsAuthContext r)"
| "answers (RqListProjects req) a = (\<exists>r. a = RsProjects r)"
| "answers (RqCreateOrganization req) a = (\<exists>r. a = RsOrganization r)"
| "answers (RqCreateOrganizationUser req) a = (\<exists>r. a = RsUser r)"
| "answers (RqListOrganizationUsers req) a = (\<exists>r. a = RsUsers r)"
| "answers (RqGetUser req) a = (\<exists>r. a = RsUser r)"
| "answers (RqListUsers req) a = (\<exists>r. a = RsUsers r)"
| "answers (RqCreateUser req) a = (\<exists>r. a = RsUser r)"
| "answers (RqUpdateUser req) a = (\<exists>r. a = RsUser r)"
| "answers (RqListSystemRoles req) a = (\<exists>r. a = RsSystemRoles r)"
| "answers (RqAssignSystemRole req) a = (a = RsEmpty)"
| "answers (RqUnassignSystemRole req) a = (a = RsEmpty)"
| "answers (RqListSystemRoleAssignments req) a = (\<exists>r. a = RsSystemRoles r)"
| "answers (RqCreateRole req) a = (\<exists>r. a = RsRole r)"
| "answers (RqGetRole req) a = (\<exists>r. a = RsRole r)"
| "answers (RqListRoles req) a = (\<exists>r. a = RsRoles r)"
| "answers (RqListProjectRoleAssignments req) a = (\<exists>r. a = RsRoles r)"
| "answers (RqListOrganizationRoleAssignments req) a = (\<exists>r. a = RsRoles r)"
| "answers (RqUpdateRole req) a = (\<exists>r. a = RsRole r)"
| "answers (RqModifyRolePermissions req) a = (\<exists>r. a = RsRole r)"
| "answers (RqDeleteRole req) a = (a = RsEmpty)"
| "answers (RqAssignRoleToProject req) a = (a = RsEmpty)"
| "answers (RqUnassignRoleFromProject req) a = (a = RsEmpty)"
| "answers (RqAssignRoleToOrganization req) a = (a = RsEmpty)"
| "answers (RqUnassignRoleFromOrganization req) a = (a = RsEmpty)"
| "answers (RqListPermissions req) a = (\<exists>r. a = RsPermissions r)"

section \<open>Programs with sound errors\<close>

text \<open>A status with the code OK would be taken for a success by the client.\<close>

definition no_ok :: "api_error \<Rightarrow> bool" where
  "no_ok e \<longleftrightarrow> (case e of StatusErr st \<Rightarrow> st_Code st \<noteq> CodeOK | CoreErr _ \<Rightarrow> True)"

definition yields :: "('a \<Rightarrow> bool) \<Rightarrow> 'a api \<Rightarrow> bool" where
  "yields Q m \<longleftrightarrow> (\<forall>w. case fst (m w) of Inl e \<Rightarrow> no_ok e | Inr a \<Rightarrow> Q a)"

abbreviation sound_errors :: "'a api \<Rightarrow> bool" where
  "sound_errors \<equiv> yields (\<lambda>_. True)"

definition sound :: "api_error + 'a \<Rightarrow> bool" where
  "sound r \<longleftrightarrow> (case r of Inl e \<Rightarrow> no_ok e | Inr _ \<Rightarrow> True)"

named_theorems sound_intros "rules for programs and verdicts with sound errors"

lemma no_ok_simps [simp]:
  "no_ok (CoreErr e)" "no_ok (status_Errorf c m) \<longleftrightarrow> c \<noteq> CodeOK" "no_ok (status_Error c t) \<longleftrightarrow> c \<noteq> CodeOK"
  "no_ok (errorStatus c ec t) \<longleftrightarrow> c \<noteq> CodeOK" "no_ok (invalidArgumentStatus vs)"
  by (simp_all add: no_ok_def status_Error_def status_Errorf_def errorStatus_def invalidArgumentStatus_def)

lemma named_errors [simp]:
  "no_ok (userNotFound i)" "no_ok (roleNotFound i)" "no_ok roleNameTaken" "no_ok roleChanged" "no_ok (managedRole t)"
  "no_ok (invalidScope t)" "no_ok permissionDenied"
  by (simp_all add: userNotFound_def roleNotFound_def roleNameTaken_def roleChanged_def managedRole_def invalidScope_def
      permissionDenied_def)

lemma no_ok_statusOf: "list_all (\<lambda>(_, s). no_ok s) cases \<Longrightarrow> no_ok (statusOf cases e)"
  by (induction cases) (auto simp: statusOf_def)

lemma sound_verdicts [sound_intros]:
  "sound (Inr x)" "sound (invalidArgument vs)" "sound (requiredRequest fs)" "sound (verdictOf vs)" "sound invalidPageToken"
  "sound filterMismatch" "sound (Inl (status_Error CodeInvalidArgument t))"
  by (simp_all add: sound_def invalidArgument_def requiredRequest_def verdictOf_def invalidPageToken_def filterMismatch_def)

lemma sound_if [sound_intros]: "sound r \<Longrightarrow> sound q \<Longrightarrow> sound (if b then r else q)"
  by simp

lemma sound_option [sound_intros]: "sound r \<Longrightarrow> (\<And>x. sound (f x)) \<Longrightarrow> sound (case p of None \<Rightarrow> r | Some x \<Rightarrow> f x)"
  by (cases p) auto

lemma sound_check [sound_intros]: "sound v \<Longrightarrow> sound k \<Longrightarrow> sound (check v k)"
  by (simp add: sound_def check_def split: sum.splits)

lemma sound_fields [sound_intros]: "sound (validUUID L v f)" "sound (validEmptyPageToken L t)" "sound (roleAssignments L u t)"
    "sound (roleAssignment L i u)"
  unfolding validUUID_def validEmptyPageToken_def roleAssignments_def roleAssignment_def by (intro sound_intros)+

lemma sound_validations [sound_intros]:
  "sound (validate_RequestMagicLink L req1)" "sound (validate_VerifyMagicLink req2)"
  "sound (validate_RefreshAccessToken req3)" "sound (validate_RevokeRefreshToken req4)"
  "sound (validate_RevokeAllSessions req5)" "sound (validate_GetAuthContext req6)"
  "sound (validate_ListPermissions req7)" "sound (validate_ListSystemRoles L req8)"
  "sound (validate_AssignSystemRole L req9)" "sound (validate_UnassignSystemRole L req10)"
  "sound (validate_ListSystemRoleAssignments L req11)" "sound (validate_CreateRole req12)"
  "sound (validate_GetRole L req13)" "sound (validate_ListRoles L req14)"
  "sound (validate_ListProjectRoleAssignments L req15)" "sound (validate_ListOrganizationRoleAssignments L req16)"
  "sound (validate_UpdateRole L req17)" "sound (validate_ModifyRolePermissions L req18)"
  "sound (validate_DeleteRole L req19)" "sound (validate_AssignRoleToProject L req20)"
  "sound (validate_UnassignRoleFromProject L req21)" "sound (validate_AssignRoleToOrganization L req22)"
  "sound (validate_UnassignRoleFromOrganization L req23)" "sound (validate_CreateOrganization req24)"
  "sound (validate_CreateOrganizationUser L req25)" "sound (validate_ListOrganizationUsers L req26)"
  "sound (validate_ListProjects L req27)" "sound (validate_GetUser L req28)" "sound (validate_CreateUser L req29)"
  "sound (validate_UpdateUser L req30)" "sound (validate_ListUsers L req31)"
  unfolding validate_RequestMagicLink_def validate_VerifyMagicLink_def validate_RefreshAccessToken_def
    validate_RevokeRefreshToken_def validate_RevokeAllSessions_def validate_GetAuthContext_def
    validate_ListPermissions_def validate_ListSystemRoles_def validate_AssignSystemRole_def
    validate_UnassignSystemRole_def validate_ListSystemRoleAssignments_def validate_CreateRole_def
    validate_GetRole_def validate_ListRoles_def validate_ListProjectRoleAssignments_def
    validate_ListOrganizationRoleAssignments_def validate_UpdateRole_def validate_ModifyRolePermissions_def
    validate_DeleteRole_def validate_AssignRoleToProject_def validate_UnassignRoleFromProject_def
    validate_AssignRoleToOrganization_def validate_UnassignRoleFromOrganization_def validate_CreateOrganization_def
    validate_CreateOrganizationUser_def validate_ListOrganizationUsers_def validate_ListProjects_def
    validate_GetUser_def validate_CreateUser_def validate_UpdateUser_def validate_ListUsers_def
  by (intro sound_intros)+

lemma yields_basic [sound_intros]:
  "Q x \<Longrightarrow> yields Q (ret x)" "no_ok e \<Longrightarrow> yields Q (throw e)" "sound r \<Longrightarrow> sound_errors (liftS r)" "sound_errors (convert c)"
  by (auto simp: yields_def ret_def throw_def liftS_def convert_def sound_def split: sum.splits)

lemma yieldsI:
  "(\<And>w e v. m w = (Inl e, v) \<Longrightarrow> no_ok e) \<Longrightarrow> (\<And>w a v. m w = (Inr a, v) \<Longrightarrow> Q a) \<Longrightarrow> yields Q m"
  unfolding yields_def by (metis eq_fst_iff sum.case_eq_if sum.collapse)

lemma yieldsD: "yields Q m \<Longrightarrow> m w = (Inl e, v) \<Longrightarrow> no_ok e" "yields Q m \<Longrightarrow> m w = (Inr a, v) \<Longrightarrow> Q a"
  unfolding yields_def by (metis fst_conv sum.case)+

lemma yields_andThen [sound_intros]: "sound_errors m \<Longrightarrow> (\<And>x. yields Q (k x)) \<Longrightarrow> yields Q (andThen m k)"
  by (rule yieldsI) (auto simp: andThen_def dest: yieldsD split: prod.splits sum.splits)

lemma yields_if [sound_intros]: "yields Q m \<Longrightarrow> yields Q n \<Longrightarrow> yields Q (if b then m else n)"
  by simp

lemma yields_option [sound_intros]:
  "yields Q m \<Longrightarrow> (\<And>x. yields Q (f x)) \<Longrightarrow> yields Q (case p of None \<Rightarrow> m | Some x \<Rightarrow> f x)"
  by (cases p) auto

lemma yields_prod [sound_intros]: "(\<And>x y. yields Q (f x y)) \<Longrightarrow> yields Q (case p of (x, y) \<Rightarrow> f x y)"
  by (cases p) auto

lemma yields_call [sound_intros]:
  "sound_errors (call_core CoreErr m)"
  "list_all (\<lambda>(_, s). no_ok s) cases \<Longrightarrow> sound_errors (call_core (statusOf cases) m)"
  by (auto simp: yields_def call_core_def no_ok_statusOf split: prod.splits sum.splits)

lemma yields_pages [sound_intros]:
  "sound_errors (decodePage L c t)" "sound_errors (nextPageToken L c i j k ob f)" "sound_errors (pageReply cv rows n t)"
  unfolding decodePage_def nextPageToken_def pageReply_def Let_def by (intro sound_intros; simp)+


lemma yields_listPage [sound_intros]:
  assumes "\<And>i j. sound_errors (call_core err (fetch i j))"
  shows "sound_errors (listPage L c r f err fetch cv)"
  unfolding listPage_def Let_def by (intro sound_intros assms)

section \<open>The service methods\<close>

lemma user_methods [sound_intros]:
  "sound_errors (svc_GetUser S x r1)" "sound_errors (svc_CreateUser S x r2)" "sound_errors (svc_UpdateUser S x r3)"
  "sound_errors (svc_ListUsers S x r4)"
  unfolding Let_def svc_GetUser_def svc_CreateUser_def svc_UpdateUser_def svc_ListUsers_def
  by (intro sound_intros; simp)+

lemma org_methods [sound_intros]:
  "sound_errors (svc_CreateOrganizationUser S x r1)" "sound_errors (svc_CreateOrganization S x r2)"
  "sound_errors (svc_ListOrganizationUsers S x r3)" "sound_errors (svc_ListProjects S x r4)"
  unfolding Let_def svc_CreateOrganizationUser_def svc_CreateOrganization_def svc_ListOrganizationUsers_def
    svc_ListProjects_def
  by (intro sound_intros; simp)+

lemma system_role_methods [sound_intros]:
  "sound_errors (svc_ListSystemRoles S x r1)" "sound_errors (svc_AssignSystemRole S x r2)"
  "sound_errors (svc_UnassignSystemRole S x r3)" "sound_errors (svc_ListSystemRoleAssignments S x r4)"
  "sound_errors (svc_ListPermissions S x r5)"
  unfolding Let_def svc_ListSystemRoles_def svc_AssignSystemRole_def svc_UnassignSystemRole_def
    svc_ListSystemRoleAssignments_def svc_ListPermissions_def
  by (intro sound_intros; simp)+

lemma role_methods [sound_intros]:
  "sound_errors (svc_CreateRole S x r1)" "sound_errors (svc_GetRole S x r2)" "sound_errors (svc_ListRoles S x r3)"
  "sound_errors (svc_ListProjectRoleAssignments S x r4)"
  "sound_errors (svc_ListOrganizationRoleAssignments S x r5)" "sound_errors (svc_UpdateRole S x r6)"
  "sound_errors (svc_ModifyRolePermissions S x r7)" "sound_errors (svc_DeleteRole S x r8)"
  unfolding Let_def svc_CreateRole_def svc_GetRole_def svc_ListRoles_def svc_ListProjectRoleAssignments_def
    svc_ListOrganizationRoleAssignments_def svc_UpdateRole_def svc_ModifyRolePermissions_def svc_DeleteRole_def
  by (intro sound_intros; simp)+

lemma role_assignment_methods [sound_intros]:
  "sound_errors (svc_AssignRoleToProject S x r1)" "sound_errors (svc_UnassignRoleFromProject S x r2)"
  "sound_errors (svc_AssignRoleToOrganization S x r3)" "sound_errors (svc_UnassignRoleFromOrganization S x r4)"
  unfolding Let_def svc_AssignRoleToProject_def svc_UnassignRoleFromProject_def svc_AssignRoleToOrganization_def
    svc_UnassignRoleFromOrganization_def
  by (intro sound_intros; simp)+

lemma auth_methods [sound_intros]:
  "sound_errors (svc_VerifyMagicLink S x r1)" "sound_errors (svc_RefreshAccessToken S x r2)"
  "sound_errors (svc_RevokeRefreshToken S x r3)" "sound_errors (svc_RevokeAllSessions S x r4)"
  "sound_errors (svc_GetAuthContext S x r5)"
  unfolding Let_def svc_VerifyMagicLink_def svc_RefreshAccessToken_def svc_RevokeRefreshToken_def
    svc_RevokeAllSessions_def svc_GetAuthContext_def
  by (intro sound_intros; simp)+

lemma request_magic_link_method [sound_intros]: "sound_errors (svc_RequestMagicLink S x r)"
  unfolding svc_RequestMagicLink_def
  by (intro sound_intros) (auto simp: yields_def split: prod.splits sum.splits)

lemma dispatch_answers: "yields (answers req) (dispatch S x req)"
  by (cases req; simp; intro sound_intros; simp)

section \<open>The chain\<close>

lemma yields_onError [sound_intros]:
  "yields Q m \<Longrightarrow> (\<And>e. no_ok e \<Longrightarrow> no_ok (f e)) \<Longrightarrow> yields Q (onError f m)"
  by (rule yieldsI) (auto simp: onError_def dest: yieldsD split: prod.splits sum.splits)

lemma no_ok_recovered: "no_ok e \<Longrightarrow> no_ok (recovered e)"
  by (auto simp: recovered_def split: api_error.splits)

lemma no_ok_externalError: "no_ok e \<Longrightarrow> \<exists>st. externalError e = StatusErr st \<and> st_Code st \<noteq> CodeOK"
  by (auto simp: externalError_def status_defs no_ok_def split: api_error.splits)

lemma sound_guards [sound_intros]:
  "sound (parseBearer S x)" "sound (parseProjectID x1)" "sound (projectOf m2 x2)" "sound (requireSystemControlProject x3)"
  "sound (requireOrganizationControlProject x4)" "sound (marshalRequest f5 q5)" "sound (scopedWorkflowID S6 x6 m6 p6 k6)"
  by (simp_all add: sound_def parseBearer_def parseProjectID_def projectOf_def requireSystemControlProject_def
      requireOrganizationControlProject_def marshalRequest_def scopedWorkflowID_def Let_def
      split: option.splits list.splits sum.splits)

lemma sound_session [sound_intros]: "sound_errors (call_core sessionError m)"
  unfolding sessionError_def by (intro sound_intros; simp)

lemma yields_interceptors [sound_intros]:
  assumes "\<And>x. yields Q (h x q)"
  shows "yields Q (authUnaryInterceptor S m h x q)" "yields Q (permissionUnaryInterceptor m h x q)"
    "yields Q (systemControlProjectUnaryInterceptor m h x q)" "yields Q (organizationControlProjectUnaryInterceptor m h x q)"
    "yields Q (idempotencyUnaryInterceptor S ma m h x q)" "yields Q (recoveryUnaryInterceptor m h x q)"
  unfolding authUnaryInterceptor_def permissionUnaryInterceptor_def systemControlProjectUnaryInterceptor_def
    organizationControlProjectUnaryInterceptor_def idempotencyUnaryInterceptor_def recoveryUnaryInterceptor_def
  by (intro sound_intros assms no_ok_recovered; simp)+


end
