(* ===== verification/Spec2Isabelle.thy ===== *)
theory Spec2Isabelle
  imports UserCore SystemRoleProps RoleVersions OrgCreation AuthSessions TokenLife Pgdb ApiConvProps ApiIdem ApiSafety
    Cli ApiPages PgConn ApiTypes
begin

text \<open>Header to come.\<close>

end
